(* ===== verification/Prelude.thy ===== *)
theory Prelude
  imports Main "HOL-Library.AList"
begin

text \<open>
  The library that every component shares:
  the failing state computation (an \<open>async\<close> method that may throw),
  a weakest-precondition calculus for it, the predicate \<open>keeps\<close> ("this computation keeps an
  invariant, whether it returns or throws") with one rule per combinator, and tables (the rows a
  store or a database holds under a key) as association lists, with their laws as a locale.
\<close>

named_theorems wp_rules \<open>weakest preconditions of the combinators\<close>
named_theorems keeps_rules \<open>preservation of a state predicate\<close>

section \<open>Computations that read and write a state and may throw\<close>

text \<open>
  A thrown \<open>Error\<close> is its message: the code only ever looks at \<open>error.message\<close>.
  A computation takes the state and gives the thrown message or the result, and the new state.
  Writes made before a throw stay made, as in the code.
\<close>

type_synonym ('s, 'a) act = "'s \<Rightarrow> (string + 'a) \<times> 's"

definition ret :: "'a \<Rightarrow> ('s, 'a) act" where
  "ret x s = (Inr x, s)"

definition throw :: "string \<Rightarrow> ('s, 'a) act" where
  "throw e s = (Inl e, s)"

definition bnd :: "('s, 'a) act \<Rightarrow> ('a \<Rightarrow> ('s, 'b) act) \<Rightarrow> ('s, 'b) act" where
  "bnd m k s = (case m s of (r, s') \<Rightarrow> (case r of Inl e \<Rightarrow> (Inl e, s') | Inr x \<Rightarrow> k x s'))"

definition catch :: "('s, 'a) act \<Rightarrow> (string \<Rightarrow> ('s, 'a) act) \<Rightarrow> ('s, 'a) act" where
  "catch m h s = (case m s of (r, s') \<Rightarrow> (case r of Inl e \<Rightarrow> h e s' | Inr x \<Rightarrow> (Inr x, s')))"

text \<open>A computation whose outcome, result or thrown message, is looked at (\<open>try\<close> with both ends).\<close>

definition attempt :: "('s, 'a) act \<Rightarrow> ('s, string + 'a) act" where
  "attempt m s = (case m s of (r, s') \<Rightarrow> (Inr r, s'))"

definition reading :: "('s \<Rightarrow> 'a) \<Rightarrow> ('s, 'a) act" where
  "reading f s = (Inr (f s), s)"

definition writing :: "('s \<Rightarrow> 's) \<Rightarrow> ('s, unit) act" where
  "writing f s = (Inr (), f s)"

definition lifting :: "string + 'a \<Rightarrow> ('s, 'a) act" where
  "lifting r s = (r, s)"

definition require :: "bool \<Rightarrow> string \<Rightarrow> ('s, unit) act" where
  "require b e s = (if b then Inr () else Inl e, s)"

text \<open>
  A storage transaction: one step, whose writes are all dropped when its body throws.
\<close>

definition atomically :: "('s, 'a) act \<Rightarrow> ('s, 'a) act" where
  "atomically m s = (case m s of (r, s') \<Rightarrow> (case r of Inl e \<Rightarrow> (Inl e, s) | Inr x \<Rightarrow> (Inr x, s')))"

text \<open>The same without a state: parsers and checks.\<close>

definition ebind :: "string + 'a \<Rightarrow> ('a \<Rightarrow> string + 'b) \<Rightarrow> string + 'b" where
  "ebind r k = (case r of Inl e \<Rightarrow> Inl e | Inr x \<Rightarrow> k x)"

definition erequire :: "bool \<Rightarrow> string \<Rightarrow> string + unit" where
  "erequire b e = (if b then Inr () else Inl e)"

lemma ebind_simps [simp]:
  "ebind (Inl e) k = Inl e"
  "ebind (Inr x) k = k x"
  by (simp_all add: ebind_def)

lemma ebind_Inr_iff: "ebind r k = Inr y \<longleftrightarrow> (\<exists>x. r = Inr x \<and> k x = Inr y)"
  by (cases r) simp_all

lemma ebind_Inl_iff: "ebind r k = Inl e \<longleftrightarrow> r = Inl e \<or> (\<exists>x. r = Inr x \<and> k x = Inl e)"
  by (cases r) simp_all

lemma erequire_Inr_iff [simp]: "erequire b e = Inr u \<longleftrightarrow> b"
  by (simp add: erequire_def)

lemma erequire_Inl_iff [simp]: "erequire b e = Inl e' \<longleftrightarrow> \<not> b \<and> e' = e"
  by (auto simp: erequire_def)

lemma erequire_True [simp]: "erequire True e = Inr ()"
  by (simp add: erequire_def)

section \<open>Running a computation\<close>

lemma run_ret [simp]: "ret x s = (Inr x, s)"
  by (simp add: ret_def)

lemma run_throw [simp]: "throw e s = (Inl e, s)"
  by (simp add: throw_def)

lemma run_reading [simp]: "reading f s = (Inr (f s), s)"
  by (simp add: reading_def)

lemma run_writing [simp]: "writing f s = (Inr (), f s)"
  by (simp add: writing_def)

lemma run_lifting [simp]: "lifting r s = (r, s)"
  by (simp add: lifting_def)

lemma run_require [simp]: "require b e s = (if b then Inr () else Inl e, s)"
  by (simp add: require_def)

lemma run_bnd:
  "bnd m k s = (case fst (m s) of Inl e \<Rightarrow> (Inl e, snd (m s)) | Inr x \<Rightarrow> k x (snd (m s)))"
  by (cases "m s"; cases "fst (m s)") (simp_all add: bnd_def)

lemma bnd_ret [simp]: "bnd (ret x) k = k x"
  by (simp add: bnd_def fun_eq_iff)

lemma bnd_throw [simp]: "bnd (throw e) k = throw e"
  by (simp add: bnd_def fun_eq_iff)

lemma bnd_assoc: "bnd (bnd m k) h = bnd m (\<lambda>x. bnd (k x) h)"
  by (auto simp: bnd_def fun_eq_iff split: prod.splits sum.splits)

lemma bnd_cong_run: "(\<And>x t. m s = (Inr x, t) \<Longrightarrow> k x t = k' x t) \<Longrightarrow> bnd m k s = bnd m k' s"
  by (cases "m s"; cases "fst (m s)") (auto simp: bnd_def)

lemma bnd_Inr [simp]: "m s = (Inr x, s') \<Longrightarrow> bnd m k s = k x s'"
  by (simp add: bnd_def)

lemma bnd_Inl [simp]: "m s = (Inl e, s') \<Longrightarrow> bnd m k s = (Inl e, s')"
  by (simp add: bnd_def)

lemma bnd_returns: "bnd m k s = (Inr y, u) \<longleftrightarrow> (\<exists>x t. m s = (Inr x, t) \<and> k x t = (Inr y, u))"
  by (cases "m s"; cases "fst (m s)") (auto simp: bnd_def)

lemma run_catch:
  "catch m h s = (case fst (m s) of Inl e \<Rightarrow> h e (snd (m s)) | Inr x \<Rightarrow> m s)"
  by (auto simp: catch_def split: prod.splits sum.splits)

lemma run_attempt: "attempt m s = (Inr (fst (m s)), snd (m s))"
  by (simp add: attempt_def split: prod.splits)

lemma run_atomically:
  "atomically m s = (case fst (m s) of Inl e \<Rightarrow> (Inl e, s) | Inr x \<Rightarrow> m s)"
  by (auto simp: atomically_def split: prod.splits sum.splits)

section \<open>Weakest preconditions\<close>

text \<open>
  \<open>wp m Q E s\<close>: run from \<open>s\<close>, the computation returns a result and a state in \<open>Q\<close>, or
  throws a message with a state in \<open>E\<close>.
\<close>

definition wp :: "('s, 'a) act \<Rightarrow> ('a \<Rightarrow> 's \<Rightarrow> bool) \<Rightarrow> (string \<Rightarrow> 's \<Rightarrow> bool) \<Rightarrow> 's \<Rightarrow> bool" where
  "wp m Q E s = (case m s of (r, s') \<Rightarrow> (case r of Inl e \<Rightarrow> E e s' | Inr x \<Rightarrow> Q x s'))"

lemma wp_ret [wp_rules]: "wp (ret x) Q E s = Q x s"
  by (simp add: wp_def)

lemma wp_throw [wp_rules]: "wp (throw e) Q E s = E e s"
  by (simp add: wp_def)

lemma wp_bnd [wp_rules]: "wp (bnd m k) Q E s = wp m (\<lambda>x. wp (k x) Q E) E s"
  by (auto simp: wp_def bnd_def split: prod.splits sum.splits)

lemma wp_catch [wp_rules]: "wp (catch m h) Q E s = wp m Q (\<lambda>e. wp (h e) Q E) s"
  by (auto simp: wp_def catch_def split: prod.splits sum.splits)

lemma wp_attempt [wp_rules]: "wp (attempt m) Q E s = wp m (\<lambda>x. Q (Inr x)) (\<lambda>e. Q (Inl e)) s"
  by (auto simp: wp_def attempt_def split: prod.splits sum.splits)

lemma wp_reading [wp_rules]: "wp (reading f) Q E s = Q (f s) s"
  by (simp add: wp_def)

lemma wp_writing [wp_rules]: "wp (writing f) Q E s = Q () (f s)"
  by (simp add: wp_def)

lemma wp_lifting [wp_rules]: "wp (lifting r) Q E s = (case r of Inl e \<Rightarrow> E e s | Inr x \<Rightarrow> Q x s)"
  by (simp add: wp_def split: sum.splits)

lemma wp_require [wp_rules]: "wp (require b e) Q E s = (if b then Q () s else E e s)"
  by (simp add: wp_def)

lemma wp_atomically [wp_rules]: "wp (atomically m) Q E s = wp m Q (\<lambda>e _. E e s) s"
  by (auto simp: wp_def atomically_def split: prod.splits sum.splits)

lemma wp_mono:
  assumes "wp m Q E s" and "\<And>x t. Q x t \<Longrightarrow> Q' x t" and "\<And>e t. E e t \<Longrightarrow> E' e t"
  shows "wp m Q' E' s"
  using assms by (auto simp: wp_def split: prod.splits sum.splits)

section \<open>Keeping a predicate of the state\<close>

definition keeps :: "('s \<Rightarrow> bool) \<Rightarrow> ('s, 'a) act \<Rightarrow> bool" where
  "keeps P m \<longleftrightarrow> (\<forall>s. P s \<longrightarrow> P (snd (m s)))"

lemma keepsI: "(\<And>s. P s \<Longrightarrow> P (snd (m s))) \<Longrightarrow> keeps P m"
  by (simp add: keeps_def)

lemma keepsD: "keeps P m \<Longrightarrow> P s \<Longrightarrow> P (snd (m s))"
  by (simp add: keeps_def)

lemma wp_const: "wp m (\<lambda>_. P) (\<lambda>_. P) s = P (snd (m s))"
  by (cases "m s"; cases "fst (m s)") (simp_all add: wp_def)

lemma keeps_wp: "keeps P m \<longleftrightarrow> (\<forall>s. P s \<longrightarrow> wp m (\<lambda>_. P) (\<lambda>_. P) s)"
  by (simp add: keeps_def wp_const)

lemma keeps_ret [keeps_rules, simp]: "keeps P (ret x)"
  by (simp add: keeps_def)

lemma keeps_throw [keeps_rules, simp]: "keeps P (throw e)"
  by (simp add: keeps_def)

lemma keeps_reading [keeps_rules, simp]: "keeps P (reading f)"
  by (simp add: keeps_def)

lemma keeps_lifting [keeps_rules, simp]: "keeps P (lifting r)"
  by (simp add: keeps_def)

lemma keeps_require [keeps_rules, simp]: "keeps P (require b e)"
  by (simp add: keeps_def)

lemma keeps_writing: "(\<And>s. P s \<Longrightarrow> P (f s)) \<Longrightarrow> keeps P (writing f)"
  by (simp add: keeps_def)

lemma keeps_bnd [keeps_rules]: "keeps P m \<Longrightarrow> (\<And>x. keeps P (k x)) \<Longrightarrow> keeps P (bnd m k)"
  by (simp add: keeps_def run_bnd split: sum.splits)

lemma keeps_catch [keeps_rules]: "keeps P m \<Longrightarrow> (\<And>e. keeps P (h e)) \<Longrightarrow> keeps P (catch m h)"
  by (simp add: keeps_def run_catch split: sum.splits)

lemma keeps_attempt [keeps_rules]: "keeps P m \<Longrightarrow> keeps P (attempt m)"
  by (simp add: keeps_def run_attempt)

lemma keeps_atomically [keeps_rules]: "keeps P m \<Longrightarrow> keeps P (atomically m)"
  by (auto simp: keeps_def run_atomically split: sum.splits)

lemma keeps_if [keeps_rules]:
  "(b \<Longrightarrow> keeps P m) \<Longrightarrow> (\<not> b \<Longrightarrow> keeps P n) \<Longrightarrow> keeps P (if b then m else n)"
  by simp

lemma keeps_option [keeps_rules]:
  "(x = None \<Longrightarrow> keeps P m) \<Longrightarrow> (\<And>y. x = Some y \<Longrightarrow> keeps P (n y)) \<Longrightarrow>
   keeps P (case x of None \<Rightarrow> m | Some y \<Rightarrow> n y)"
  by (cases x) simp_all

lemma keeps_sum [keeps_rules]:
  "(\<And>y. x = Inl y \<Longrightarrow> keeps P (m y)) \<Longrightarrow> (\<And>y. x = Inr y \<Longrightarrow> keeps P (n y)) \<Longrightarrow>
   keeps P (case x of Inl y \<Rightarrow> m y | Inr y \<Rightarrow> n y)"
  by (cases x) simp_all

lemma keeps_prod [keeps_rules]:
  "(\<And>a b. x = (a, b) \<Longrightarrow> keeps P (m a b)) \<Longrightarrow> keeps P (case x of (a, b) \<Rightarrow> m a b)"
  by (cases x) simp_all

lemma keeps_Let [keeps_rules]: "keeps P (f x) \<Longrightarrow> keeps P (let y = x in f y)"
  by simp

lemma keeps_conj: "keeps P m \<Longrightarrow> keeps Q m \<Longrightarrow> keeps (\<lambda>s. P s \<and> Q s) m"
  by (simp add: keeps_def)

lemma keeps_require_bnd: "(b \<Longrightarrow> keeps P (k ())) \<Longrightarrow> keeps P (bnd (require b e) k)"
  by (cases b) (simp_all add: keeps_def run_bnd)

lemma keeps_lifting_bnd: "(\<And>x. r = Inr x \<Longrightarrow> keeps Q (k x)) \<Longrightarrow> keeps Q (bnd (lifting r) k)"
  by (cases r) (simp_all add: keeps_def run_bnd)

text \<open>A loop over a list, in order; a throw ends it.\<close>

fun for_each :: "'x list \<Rightarrow> ('x \<Rightarrow> ('s, unit) act) \<Rightarrow> ('s, unit) act" where
  "for_each [] f = ret ()"
| "for_each (x # xs) f = bnd (f x) (\<lambda>_. for_each xs f)"

lemma keeps_for_each [keeps_rules]:
  "(\<And>x. x \<in> set xs \<Longrightarrow> keeps P (f x)) \<Longrightarrow> keeps P (for_each xs f)"
  by (induction xs) (simp_all add: keeps_bnd)

text \<open>
  \<open>Promise.all\<close>: every computation runs, whether or not another one throws; the first throw in the
  list is the one seen.
\<close>

fun gather :: "('s, 'a) act list \<Rightarrow> ('s, 'a list) act" where
  "gather [] = ret []"
| "gather (m # ms) =
     bnd (attempt m) (\<lambda>r. bnd (attempt (gather ms)) (\<lambda>rs.
       lifting (ebind r (\<lambda>x. ebind rs (\<lambda>xs. Inr (x # xs))))))"

lemma keeps_gather [keeps_rules]: "(\<And>m. m \<in> set ms \<Longrightarrow> keeps P m) \<Longrightarrow> keeps P (gather ms)"
  by (induction ms) (simp_all add: keeps_bnd keeps_attempt)

lemma wp_any: "(\<And>x t. Q x t) \<Longrightarrow> (\<And>e t. E e t) \<Longrightarrow> wp m Q E s"
  by (auto simp: wp_def split: prod.splits sum.splits)

text \<open>Every result of \<open>gather\<close> is a result of its computation.\<close>

lemma gather_length: "gather ms s = (Inr xs, t) \<Longrightarrow> length xs = length ms"
proof (induction ms arbitrary: s xs t)
  case (Cons m ms)
  then show ?case
    by (cases "gather ms (snd (m s))"; cases "fst (m s)"; cases "fst (gather ms (snd (m s)))")
      (auto simp: run_bnd run_attempt)
qed simp

lemma wp_gather_length: "(\<And>xs t. length xs = length ms \<Longrightarrow> Q xs t) \<Longrightarrow> (\<And>e t. E e t) \<Longrightarrow> wp (gather ms) Q E s"
  using gather_length [of ms s] by (auto simp: wp_def split: prod.splits sum.splits)

lemma find_result: "find p xs = Some x \<Longrightarrow> x \<in> set xs \<and> p x"
  by (induction xs) (auto split: if_splits)

section \<open>Tables\<close>

text \<open>
  The keys of a store and their values, or the rows of a database table under their primary key.
  An association list is finite, can be listed, and computes.
\<close>

type_synonym ('k, 'v) table = "('k \<times> 'v) list"

definition tget :: "'k \<Rightarrow> ('k, 'v) table \<Rightarrow> 'v option" where
  "tget k t = map_of t k"

definition tput :: "'k \<Rightarrow> 'v \<Rightarrow> ('k, 'v) table \<Rightarrow> ('k, 'v) table" where
  "tput k v t = AList.update k v t"

definition tdel :: "'k \<Rightarrow> ('k, 'v) table \<Rightarrow> ('k, 'v) table" where
  "tdel k t = AList.delete k t"

text \<open>The contract a client of a table relies on.\<close>

locale key_value =
  fixes lookup :: "'k \<Rightarrow> 't \<Rightarrow> 'v option"
    and store :: "'k \<Rightarrow> 'v \<Rightarrow> 't \<Rightarrow> 't"
    and remove :: "'k \<Rightarrow> 't \<Rightarrow> 't"
  assumes lookup_store: "lookup k (store k' v t) = (if k = k' then Some v else lookup k t)"
    and lookup_remove: "lookup k (remove k' t) = (if k = k' then None else lookup k t)"
begin

lemma store_same: "lookup k (store k v t) = Some v"
  by (simp add: lookup_store)

lemma store_other: "k \<noteq> k' \<Longrightarrow> lookup k (store k' v t) = lookup k t"
  by (simp add: lookup_store)

lemma store_store: "lookup k (store k' v (store k' w t)) = lookup k (store k' v t)"
  by (simp add: lookup_store)

lemma remove_store: "lookup k (remove k' (store k' v t)) = lookup k (remove k' t)"
  by (simp add: lookup_store lookup_remove)

lemma all_store:
  "(\<And>k w. lookup k t = Some w \<Longrightarrow> P k w) \<Longrightarrow> P k' v \<Longrightarrow> lookup k (store k' v t) = Some w \<Longrightarrow> P k w"
  by (simp add: lookup_store split: if_splits)

lemma all_remove:
  "(\<And>k w. lookup k t = Some w \<Longrightarrow> P k w) \<Longrightarrow> lookup k (remove k' t) = Some w \<Longrightarrow> P k w"
  by (simp add: lookup_remove split: if_splits)

end

lemma tget_tput [simp]: "tget k (tput k' v t) = (if k = k' then Some v else tget k t)"
  by (simp add: tget_def tput_def update_conv')

lemma tget_tdel [simp]: "tget k (tdel k' t) = (if k = k' then None else tget k t)"
  by (simp add: tget_def tdel_def delete_conv')

lemma tget_Nil [simp]: "tget k [] = None"
  by (simp add: tget_def)

interpretation tbl: key_value tget tput tdel
  by unfold_locales simp_all

lemma set_tput: "x \<in> set (tput k v t) \<Longrightarrow> x = (k, v) \<or> x \<in> set t"
  unfolding tput_def by (induction t) (auto split: if_splits)

lemma tput_new: "tget k t = None \<Longrightarrow> tput k v t = t @ [(k, v)]"
  by (induction t) (auto simp: tget_def tput_def split: if_splits)

lemma keys_tput: "distinct (map fst t) \<Longrightarrow> distinct (map fst (tput k v t))"
  by (simp add: tput_def distinct_update)

lemma map_tput_same: "tget k t = Some r \<Longrightarrow> f v = f r \<Longrightarrow> map (\<lambda>(k, x). f x) (tput k v t) = map (\<lambda>(k, x). f x) t"
  by (induction t) (auto simp: tget_def tput_def split: if_splits)

lemma length_tput_same: "tget k t = Some r \<Longrightarrow> length (tput k v t) = length t"
  using arg_cong [OF map_tput_same [of k t r "\<lambda>_. ()" v], of length] by simp

lemma tdel_filter: "tdel k t = filter (\<lambda>(k', v). k' \<noteq> k) t"
  by (induction t) (auto simp: tdel_def)

lemma list_all_tput: "list_all P t \<Longrightarrow> P (k, v) \<Longrightarrow> list_all P (tput k v t)"
  by (auto simp: list_all_iff dest!: set_tput)

lemma list_all_filter: "list_all P t \<Longrightarrow> list_all P (filter Q t)"
  by (auto simp: list_all_iff)

lemma keys_tdel: "distinct (map fst t) \<Longrightarrow> distinct (map fst (tdel k t))"
  by (simp add: tdel_filter distinct_map_filter)

lemma tget_entry: "distinct (map fst t) \<Longrightarrow> (k, v) \<in> set t \<Longrightarrow> tget k t = Some v"
  by (simp add: tget_def)

end
