(* ===== verification/Text.thy ===== *)
theory Text
  imports Prelude "HOL-Library.Word" "HOL-Library.Log_Nat"
begin

text \<open>
  The text operations of the language that the services use.
  A JavaScript string is modelled by the bytes of its UTF-8 form (a lone surrogate, which UTF-8
  cannot write, by the three bytes its code would have), and \<open>length\<close>, which counts UTF-16 units,
  is \<open>utf16_length\<close>. The regular expressions of
  the code are predicates on strings, decimal numerals are read and written by \<open>dec_val\<close> and
  \<open>show_nat\<close>, and \<open>Number(text)\<close> rounds to the nearest double (\<open>js_number\<close>).
\<close>

type_synonym bytes = "8 word list"

section \<open>Characters and the regular expressions of the code\<close>

definition chr_code :: "char \<Rightarrow> nat" where
  "chr_code c = of_char c"

definition chr_in :: "nat \<Rightarrow> nat \<Rightarrow> char \<Rightarrow> bool" where
  "chr_in lo hi c = (lo \<le> chr_code c \<and> chr_code c \<le> hi)"

definition is_digit :: "char \<Rightarrow> bool" where
  "is_digit c = chr_in 48 57 c"

definition is_lower :: "char \<Rightarrow> bool" where
  "is_lower c = chr_in 97 122 c"

definition is_upper :: "char \<Rightarrow> bool" where
  "is_upper c = chr_in 65 90 c"

definition is_hex_digit :: "char \<Rightarrow> bool" where
  "is_hex_digit c = (is_digit c \<or> chr_in 97 102 c)"

definition is_alnum :: "char \<Rightarrow> bool" where
  "is_alnum c = (is_digit c \<or> is_lower c \<or> is_upper c)"

text \<open>\<open>[1-9A-HJ-NP-Za-km-z]\<close>, the base58 alphabet.\<close>

definition is_base58 :: "char \<Rightarrow> bool" where
  "is_base58 c = (chr_in 49 57 c \<or> chr_in 65 72 c \<or> chr_in 74 78 c \<or> chr_in 80 90 c
    \<or> chr_in 97 107 c \<or> chr_in 109 122 c)"

text \<open>\<open>[A-Za-z0-9_-]\<close>, the URL-safe base64 alphabet.\<close>

definition is_b64url :: "char \<Rightarrow> bool" where
  "is_b64url c = (is_alnum c \<or> c = CHR ''_'' \<or> c = CHR ''-'')"

lemmas char_defs = chr_in_def chr_code_def is_digit_def is_lower_def is_upper_def
  is_hex_digit_def is_alnum_def is_base58_def is_b64url_def

text \<open>A class repeated between \<open>lo\<close> and \<open>hi\<close> times: \<open>/^[...]{lo,hi}$/\<close>.\<close>

definition repeated :: "(char \<Rightarrow> bool) \<Rightarrow> nat \<Rightarrow> nat \<Rightarrow> string \<Rightarrow> bool" where
  "repeated p lo hi s = (lo \<le> length s \<and> length s \<le> hi \<and> list_all p s)"

text \<open>\<open>/^[0-9a-f]{64}$/\<close>\<close>

definition hex64 :: "string \<Rightarrow> bool" where
  "hex64 s = repeated is_hex_digit 64 64 s"

text \<open>\<open>/^(0|[1-9][0-9]{0,n})$/\<close>\<close>

definition decimal0 :: "nat \<Rightarrow> string \<Rightarrow> bool" where
  "decimal0 n s = (s = ''0'' \<or> (s \<noteq> [] \<and> chr_in 49 57 (hd s) \<and> repeated is_digit 0 n (tl s)))"

text \<open>\<open>/^[1-9][0-9]{0,n}$/\<close>\<close>

definition decimal1 :: "nat \<Rightarrow> string \<Rightarrow> bool" where
  "decimal1 n s = (s \<noteq> [] \<and> chr_in 49 57 (hd s) \<and> repeated is_digit 0 n (tl s))"

text \<open>\<open>/^[A-Za-z0-9._:-]{1,128}$/\<close>\<close>

definition ident128 :: "string \<Rightarrow> bool" where
  "ident128 s = repeated (\<lambda>c. is_alnum c \<or> c = CHR ''.'' \<or> c = CHR ''_'' \<or> c = CHR '':'' \<or> c = CHR ''-'') 1 128 s"

text \<open>\<open>/^ed25519:[1-9A-HJ-NP-Za-km-z]{43,44}$/\<close>\<close>

definition ed25519_text :: "string \<Rightarrow> bool" where
  "ed25519_text s = (take 8 s = ''ed25519:'' \<and> repeated is_base58 43 44 (drop 8 s))"

text \<open>\<open>/^[A-Za-z0-9+/]{86}==$/\<close>\<close>

definition base64_signature :: "string \<Rightarrow> bool" where
  "base64_signature s = (repeated (\<lambda>c. is_alnum c \<or> c = CHR ''+'' \<or> c = CHR ''/'') 86 86 (take 86 s)
     \<and> drop 86 s = ''=='')"

text \<open>\<open>/^(?=.{2,64}$)[a-z0-9]+(?:[._-][a-z0-9]+)*$/\<close>: runs of \<open>[a-z0-9]\<close> with one separator between.\<close>

fun account_runs :: "bool \<Rightarrow> string \<Rightarrow> bool" where
  "account_runs after_letter [] = after_letter"
| "account_runs after_letter (c # cs) =
     (if is_lower c \<or> is_digit c then account_runs True cs
      else (c = CHR ''.'' \<or> c = CHR ''_'' \<or> c = CHR ''-'') \<and> after_letter \<and> account_runs False cs)"

definition account_id :: "string \<Rightarrow> bool" where
  "account_id s = (2 \<le> length s \<and> length s \<le> 64 \<and> account_runs False s)"

definition starts_with :: "string \<Rightarrow> string \<Rightarrow> bool" where
  "starts_with p s = (take (length p) s = p)"

definition ends_with :: "string \<Rightarrow> string \<Rightarrow> bool" where
  "ends_with p s = (length p \<le> length s \<and> drop (length s - length p) s = p)"

text \<open>\<open>/p/.test(text)\<close> and \<open>text.includes(p)\<close> for a plain text \<open>p\<close>\<close>

fun contains :: "string \<Rightarrow> string \<Rightarrow> bool" where
  "contains p [] = (p = [])"
| "contains p (c # cs) = (starts_with p (c # cs) \<or> contains p cs)"

text \<open>\<open>/^https:\/\/[a-z0-9.-]+(:[0-9]+)?$/\<close> and \<open>/^http:\/\/localhost:[0-9]+$/\<close>\<close>

definition https_origin :: "string \<Rightarrow> bool" where
  "https_origin s = (starts_with ''https://'' s \<and>
     (let rest = drop 8 s; host = takeWhile (\<lambda>c. c \<noteq> CHR '':'') rest; port = drop (length host) rest
      in host \<noteq> [] \<and> list_all (\<lambda>c. is_lower c \<or> is_digit c \<or> c = CHR ''.'' \<or> c = CHR ''-'') host
         \<and> (port = [] \<or> (tl port \<noteq> [] \<and> list_all is_digit (tl port)))))"

definition localhost_origin :: "string \<Rightarrow> bool" where
  "localhost_origin s = (starts_with ''http://localhost:'' s \<and> drop 17 s \<noteq> [] \<and> list_all is_digit (drop 17 s))"

definition has_line_break :: "string \<Rightarrow> bool" where
  "has_line_break s = list_ex (\<lambda>c. chr_code c = 10 \<or> chr_code c = 13) s"

lemma starts_with_split: "starts_with p s \<longleftrightarrow> s = p @ drop (length p) s"
  by (metis append_eq_conv_conj append_take_drop_id starts_with_def)

lemma starts_with_append [simp]: "starts_with p (p @ s)"
  by (simp add: starts_with_def)

lemma starts_with_ed25519: "starts_with ''ed25519:'' s \<longleftrightarrow> s = ''ed25519:'' @ drop 8 s"
  using starts_with_split [of "''ed25519:''" s] by (simp add: numeral_eq_Suc)

section \<open>Splitting and joining\<close>

fun join :: "string \<Rightarrow> string list \<Rightarrow> string" where
  "join sep [] = []"
| "join sep [x] = x"
| "join sep (x # y # xs) = x @ sep @ join sep (y # xs)"

text \<open>\<open>text.split(c)\<close>: always at least one part.\<close>

fun split_at_char :: "char \<Rightarrow> string \<Rightarrow> string list" where
  "split_at_char d [] = [[]]"
| "split_at_char d (c # cs) =
     (if c = d then [] # split_at_char d cs
      else case split_at_char d cs of [] \<Rightarrow> [[c]] | p # ps \<Rightarrow> (c # p) # ps)"

lemma split_at_char_nonempty [simp]: "split_at_char d s \<noteq> []"
  by (induction s) (auto split: list.splits)

lemma split_at_char_no_sep: "d \<notin> set s \<Longrightarrow> split_at_char d s = [s]"
  by (induction s) auto

lemma split_at_char_sep: "d \<notin> set s \<Longrightarrow> split_at_char d (s @ d # rest) = s # split_at_char d rest"
  by (induction s) auto

text \<open>Splitting a joined list of separator-free parts gives the parts back.\<close>

lemma split_join:
  "xs \<noteq> [] \<Longrightarrow> (\<And>x. x \<in> set xs \<Longrightarrow> d \<notin> set x) \<Longrightarrow> split_at_char d (join [d] xs) = xs"
  by (induction xs rule: induct_list012) (auto simp: split_at_char_no_sep split_at_char_sep)

lemma join_inject:
  assumes "length xs = length ys"
    and "\<And>x. x \<in> set xs \<Longrightarrow> d \<notin> set x" and "\<And>y. y \<in> set ys \<Longrightarrow> d \<notin> set y"
    and "join [d] xs = join [d] ys"
  shows "xs = ys"
proof (cases "xs = []")
  case True
  with assms(1) show ?thesis by simp
next
  case False
  with assms(1) have "ys \<noteq> []" by auto
  with False assms show ?thesis by (metis split_join)
qed

section \<open>Decimal numerals\<close>

definition digit_val :: "char \<Rightarrow> nat" where
  "digit_val c = chr_code c - 48"

definition digit_chr :: "nat \<Rightarrow> char" where
  "digit_chr n = ''0123456789'' ! n"

definition dec_val :: "string \<Rightarrow> nat" where
  "dec_val s = foldl (\<lambda>a c. 10 * a + digit_val c) 0 s"

fun show_nat :: "nat \<Rightarrow> string" where
  "show_nat n = (if n < 10 then [digit_chr n] else show_nat (n div 10) @ [digit_chr (n mod 10)])"

declare show_nat.simps [simp del]

definition show_int :: "int \<Rightarrow> string" where
  "show_int n = (if n < 0 then CHR ''-'' # show_nat (nat (- n)) else show_nat (nat n))"

text \<open>A numeral as \<open>String(n)\<close> writes it: digits, no leading zero.\<close>

definition canonical_dec :: "string \<Rightarrow> bool" where
  "canonical_dec s = (s \<noteq> [] \<and> list_all is_digit s \<and> (s = ''0'' \<or> hd s \<noteq> CHR ''0''))"

lemma less_ten_cases: "n < 10 \<Longrightarrow> n \<in> {0,1,2,3,4,5,6,7,8,9::nat}"
  by auto

lemma digit_val_chr [simp]: "n < 10 \<Longrightarrow> digit_val (digit_chr n) = n"
  by (drule less_ten_cases) (auto simp: digit_val_def digit_chr_def chr_code_def)

lemma is_digit_chr [simp]: "n < 10 \<Longrightarrow> is_digit (digit_chr n)"
  by (drule less_ten_cases) (auto simp: digit_chr_def char_defs)

lemma digit_chr_zero: "n < 10 \<Longrightarrow> digit_chr n = CHR ''0'' \<longleftrightarrow> n = 0"
  by (drule less_ten_cases) (auto simp: digit_chr_def)

lemma dec_val_snoc: "dec_val (s @ [c]) = 10 * dec_val s + digit_val c"
  by (simp add: dec_val_def)

lemma dec_val_single [simp]: "dec_val [c] = digit_val c"
  by (simp add: dec_val_def)

lemma dec_val_show [simp]: "dec_val (show_nat n) = n"
proof (induction n rule: show_nat.induct)
  case (1 n)
  then show ?case by (subst show_nat.simps) (auto simp: dec_val_snoc)
qed

lemma show_nat_inject [simp]: "show_nat m = show_nat n \<longleftrightarrow> m = n"
  by (metis dec_val_show)

lemma show_nat_digits: "list_all is_digit (show_nat n)"
proof (induction n rule: show_nat.induct)
  case (1 n)
  then show ?case by (subst show_nat.simps) (auto simp: list_all_iff)
qed

lemma show_nat_nonempty [simp]: "show_nat n \<noteq> []"
  by (subst show_nat.simps) simp

lemma hd_show_nat: "hd (show_nat n) = CHR ''0'' \<longleftrightarrow> n = 0"
proof (induction n rule: show_nat.induct)
  case (1 n)
  then show ?case by (subst show_nat.simps) (auto simp: digit_chr_zero)
qed

lemma canonical_show_nat: "canonical_dec (show_nat n)"
  by (cases "n = 0") (simp_all add: canonical_dec_def show_nat_digits hd_show_nat,
    simp_all add: show_nat.simps digit_chr_def char_defs)

lemma digit_val_less: "is_digit c \<Longrightarrow> digit_val c < 10"
  by (auto simp: char_defs digit_val_def)

lemma digit_chr_val: "is_digit c \<Longrightarrow> digit_chr (digit_val c) = c"
proof -
  assume c: "is_digit c"
  then have d: "chr_code c = 48 + digit_val c" and l: "digit_val c < 10"
    by (auto simp: char_defs digit_val_def)
  from l have "chr_code (digit_chr (digit_val c)) = 48 + digit_val c"
    by (drule_tac less_ten_cases) (auto simp: digit_chr_def chr_code_def)
  with d show ?thesis by (metis chr_code_def of_char_eq_iff)
qed

text \<open>Reading a canonical numeral and writing it again gives the same text.\<close>

lemma show_dec_val: "canonical_dec s \<Longrightarrow> show_nat (dec_val s) = s"
proof (induction s rule: rev_induct)
  case Nil
  then show ?case by (simp add: canonical_dec_def)
next
  case (snoc c s)
  show ?case
  proof (cases "s = []")
    case True
    with snoc.prems show ?thesis
      by (simp add: canonical_dec_def show_nat.simps digit_val_less digit_chr_val)
  next
    case False
    with snoc.prems have s: "list_all is_digit s" "hd s \<noteq> CHR ''0''" and c: "is_digit c"
      by (auto simp: canonical_dec_def hd_append)
    with False have can: "canonical_dec s" by (simp add: canonical_dec_def)
    with snoc.IH have show_s: "show_nat (dec_val s) = s" by simp
    with s hd_show_nat[of "dec_val s"] have "dec_val s > 0" by auto
    with c show_s show ?thesis
      by (subst show_nat.simps) (simp add: dec_val_snoc digit_val_less digit_chr_val)
  qed
qed

lemma decimal1_canonical: "decimal1 n s \<Longrightarrow> canonical_dec s"
  by (cases s) (auto simp: decimal1_def canonical_dec_def repeated_def char_defs)

lemma decimal0_canonical: "decimal0 n s \<Longrightarrow> canonical_dec s"
  by (cases s) (auto simp: decimal0_def canonical_dec_def repeated_def char_defs)

lemma dec_val_inject: "canonical_dec s \<Longrightarrow> canonical_dec t \<Longrightarrow> dec_val s = dec_val t \<Longrightarrow> s = t"
  by (metis show_dec_val)

section \<open>Numbers\<close>

text \<open>
  \<open>Number(text)\<close> of a decimal numeral is the nearest double, ties to even: exact up to
  \<open>2\<^sup>5\<^sup>3\<close>, a multiple of a power of two above. \<open>Number.isSafeInteger\<close> holds below
  \<open>2\<^sup>5\<^sup>3\<close>. \<open>BigInt(text)\<close> is exact: \<open>dec_val\<close>.
\<close>

definition round_half_even :: "nat \<Rightarrow> nat \<Rightarrow> nat" where
  "round_half_even n d =
     (let q = n div d; r = n mod d
      in if 2 * r < d then q else if d < 2 * r then q + 1 else if even q then q else q + 1)"

definition double_of_nat :: "nat \<Rightarrow> nat" where
  "double_of_nat n =
     (if n \<le> 2 ^ 53 then n
      else let k = floorlog 2 n - 53 in round_half_even n (2 ^ k) * 2 ^ k)"

definition js_number :: "string \<Rightarrow> int" where
  "js_number s = int (double_of_nat (dec_val s))"

definition max_safe :: int where
  "max_safe = 9007199254740991"

definition safe_integer :: "int \<Rightarrow> bool" where
  "safe_integer n = (\<bar>n\<bar> \<le> max_safe)"

lemma round_half_even_ge: "n div d \<le> round_half_even n d"
  by (simp add: round_half_even_def Let_def)

lemma double_of_nat_exact [simp]: "n \<le> 2 ^ 53 \<Longrightarrow> double_of_nat n = n"
  by (simp add: double_of_nat_def)

lemma double_of_nat_large:
  assumes "2 ^ 53 < n"
  shows "2 ^ 53 \<le> double_of_nat n"
proof -
  define k where "k = floorlog 2 n - 53"
  have "floorlog 2 n \<ge> 54"
    using assms floorlog_ge_SucI [of 2 53 n] by simp
  then have k: "floorlog 2 n = k + 53" and "k \<ge> 1" by (simp_all add: k_def)
  have "2 ^ (k + 52) \<le> n"
    using floorlog_bounds [of n 2] assms k by (simp add: add.commute)
  then have "2 ^ 52 \<le> n div 2 ^ k"
    by (simp add: power_add less_eq_div_iff_mult_less_eq mult.commute)
  then have "2 ^ 52 \<le> round_half_even n (2 ^ k)"
    using round_half_even_ge order_trans by blast
  then have "2 ^ 52 * 2 ^ 1 \<le> round_half_even n (2 ^ k) * 2 ^ k"
    using \<open>k \<ge> 1\<close> by (intro mult_le_mono power_increasing) simp_all
  then show ?thesis
    using assms by (simp add: double_of_nat_def k_def Let_def)
qed

text \<open>Below \<open>2\<^sup>5\<^sup>3\<close> rounding is invisible: a comparison with a small bound sees the exact value.\<close>

lemma double_of_nat_less_iff: "m \<le> 2 ^ 53 \<Longrightarrow> double_of_nat n < m \<longleftrightarrow> n < m"
  using double_of_nat_large [of n] by (cases "n \<le> 2 ^ 53") auto

lemma js_number_safe_iff: "safe_integer (js_number s) \<longleftrightarrow> int (dec_val s) \<le> max_safe"
  using double_of_nat_less_iff [of "2 ^ 53" "dec_val s"]
  by (auto simp: safe_integer_def js_number_def max_safe_def)

lemma js_number_exact: "int (dec_val s) \<le> max_safe \<Longrightarrow> js_number s = int (dec_val s)"
  by (simp add: js_number_def max_safe_def)

lemma js_number_less_iff: "m \<le> max_safe \<Longrightarrow> js_number s < m \<longleftrightarrow> int (dec_val s) < m"
  using double_of_nat_less_iff [of "nat m" "dec_val s"]
  by (cases "m \<le> 0") (auto simp: js_number_def max_safe_def zless_nat_eq_int_zless)

lemma js_number_le_iff: "m < max_safe \<Longrightarrow> js_number s \<le> m \<longleftrightarrow> int (dec_val s) \<le> m"
  using js_number_less_iff [of "m + 1" s] by auto

lemma js_number_nonneg [simp]: "0 \<le> js_number s"
  by (simp add: js_number_def)

section \<open>UTF-8\<close>

definition tail_byte :: "string \<Rightarrow> nat \<Rightarrow> nat" where
  "tail_byte cs i = (if i < length cs then chr_code (cs ! i) mod 64 else 0)"

text \<open>The code points of a string; a byte that starts no sequence stands for itself.\<close>

function code_points :: "string \<Rightarrow> nat list" where
  "code_points [] = []"
| "code_points (c # cs) =
     (let b = chr_code c
      in if b < 194 \<or> 245 \<le> b then b # code_points cs
         else if b < 224 then ((b - 192) * 64 + tail_byte cs 0) # code_points (drop 1 cs)
         else if b < 240
           then ((b - 224) * 4096 + tail_byte cs 0 * 64 + tail_byte cs 1) # code_points (drop 2 cs)
         else ((b - 240) * 262144 + tail_byte cs 0 * 4096 + tail_byte cs 1 * 64 + tail_byte cs 2)
           # code_points (drop 3 cs))"
  by pat_completeness auto
termination
  by (relation "measure length") auto

definition utf8 :: "nat \<Rightarrow> string" where
  "utf8 p = map char_of
     (if p < 128 then [p]
      else if p < 2048 then [192 + p div 64, 128 + p mod 64]
      else if p < 65536 then [224 + p div 4096, 128 + p div 64 mod 64, 128 + p mod 64]
      else [240 + p div 262144, 128 + p div 4096 mod 64, 128 + p div 64 mod 64, 128 + p mod 64])"

definition of_code_points :: "nat list \<Rightarrow> string" where
  "of_code_points ps = concat (map utf8 ps)"

lemma chr_code_char_of [simp]: "n < 256 \<Longrightarrow> chr_code (char_of n) = n"
  by (simp add: chr_code_def)

lemma div64_combine: "(p::nat) div 64 * 64 + p mod 64 = p"
  by simp

lemma mod64_tail: "(128 + m mod 64) mod 64 = (m::nat) mod 64"
  using mod_mult_self4 [of 64 2 "m mod 64"] by simp

lemma code_points_utf8:
  assumes "p < 1114112"
  shows "code_points (utf8 p @ s) = p # code_points s"
proof -
  have d1: "p div 4096 = p div 64 div 64" and d2: "p div 262144 = p div 64 div 64 div 64"
    by (simp_all flip: div_mult2_eq)
  have a: "p div 4096 * 4096 + p div 64 mod 64 * 64 + p mod 64 = p"
    using div_mult_mod_eq [of p 64] div_mult_mod_eq [of "p div 64" 64]
    unfolding d1 by linarith
  have b: "p div 262144 * 262144 + p div 4096 mod 64 * 4096 + p div 64 mod 64 * 64 + p mod 64 = p"
    using div_mult_mod_eq [of p 64] div_mult_mod_eq [of "p div 64" 64] div_mult_mod_eq [of "p div 64 div 64" 64]
    unfolding d1 d2 by linarith
  consider "p < 128" | "128 \<le> p" "p < 2048" | "2048 \<le> p" "p < 65536" | "65536 \<le> p" by linarith
  then show ?thesis
  proof cases
    case 1
    then show ?thesis by (simp add: utf8_def)
  next
    case 2
    then have "2 \<le> p div 64" "p div 64 < 32" by auto
    with 2 show ?thesis by (simp add: utf8_def tail_byte_def Let_def mod64_tail)
  next
    case 3
    then have "p div 4096 < 16" by auto
    with 3 a show ?thesis by (simp add: utf8_def tail_byte_def Let_def mod64_tail)
  next
    case 4
    with assms have "p div 262144 < 5" by auto
    with 4 b show ?thesis by (simp add: utf8_def tail_byte_def Let_def mod64_tail)
  qed
qed

text \<open>Decoding what was encoded gives the code points back.\<close>

lemma code_points_of: "(\<And>p. p \<in> set ps \<Longrightarrow> p < 1114112) \<Longrightarrow> code_points (of_code_points ps) = ps"
  by (induction ps) (auto simp: of_code_points_def code_points_utf8)

definition utf16_units :: "nat \<Rightarrow> nat" where
  "utf16_units p = (if p < 65536 then 1 else 2)"

text \<open>\<open>text.length\<close>\<close>

definition utf16_length :: "string \<Rightarrow> nat" where
  "utf16_length s = sum_list (map utf16_units (code_points s))"

text \<open>White space and line terminators, as \<open>trim\<close> removes them.\<close>

definition white_space :: "nat \<Rightarrow> bool" where
  "white_space p = ((9 \<le> p \<and> p \<le> 13) \<or> p = 32 \<or> p = 160 \<or> p = 5760 \<or> (8192 \<le> p \<and> p \<le> 8202)
     \<or> p = 8232 \<or> p = 8233 \<or> p = 8239 \<or> p = 8287 \<or> p = 12288 \<or> p = 65279)"

definition js_trim :: "string \<Rightarrow> string" where
  "js_trim s = of_code_points (rev (dropWhile white_space (rev (dropWhile white_space (code_points s)))))"

text \<open>\<open>/[\p{Cc}]/u.test(text)\<close>\<close>

definition has_control :: "string \<Rightarrow> bool" where
  "has_control s = list_ex (\<lambda>p. p < 32 \<or> (127 \<le> p \<and> p < 160)) (code_points s)"

text \<open>On plain ASCII a string is its own list of code points.\<close>

lemma code_points_ascii: "list_all (\<lambda>c. chr_code c < 128) s \<Longrightarrow> code_points s = map chr_code s"
  by (induction s) (auto simp: Let_def)

lemma utf16_length_ascii: "list_all (\<lambda>c. chr_code c < 128) s \<Longrightarrow> utf16_length s = length s"
  by (induction s) (auto simp: utf16_length_def Let_def utf16_units_def)

section \<open>Bytes\<close>

text \<open>The hex text of a digest.\<close>

definition hex_chr :: "nat \<Rightarrow> char" where
  "hex_chr n = ''0123456789abcdef'' ! n"

definition hex_byte :: "8 word \<Rightarrow> string" where
  "hex_byte b = [hex_chr (unat b div 16), hex_chr (unat b mod 16)]"

definition hex_of :: "bytes \<Rightarrow> string" where
  "hex_of bs = concat (map hex_byte bs)"

lemma is_hex_chr:
  assumes "n < 16"
  shows "is_hex_digit (hex_chr n)"
proof -
  have "hex_chr n \<in> set ''0123456789abcdef''"
    unfolding hex_chr_def using assms by (intro nth_mem) simp
  then show ?thesis by (auto simp: char_defs)
qed

lemma length_hex_of [simp]: "length (hex_of bs) = 2 * length bs"
  by (induction bs) (simp_all add: hex_of_def hex_byte_def)

lemma hex_of_digits: "list_all is_hex_digit (hex_of bs)"
proof (induction bs)
  case Nil
  then show ?case by (simp add: hex_of_def)
next
  case (Cons b bs)
  have "unat b < 256" using unsigned_less [of b, where 'a = nat] by simp
  with Cons show ?case by (simp add: hex_of_def hex_byte_def is_hex_chr)
qed

text \<open>The hex text of 32 bytes is what \<open>/^[0-9a-f]{64}$/\<close> accepts.\<close>

lemma hex64_hex_of: "length bs = 32 \<Longrightarrow> hex64 (hex_of bs)"
  by (simp add: hex64_def repeated_def hex_of_digits)

end
