(* ===== verification/Json.thy ===== *)
theory Json
  imports Text "HOL-Library.Char_ord" "HOL-Library.List_Lexorder" Complex_Main
begin

text \<open>
  JSON values as the services see them (a value of type \<open>unknown\<close> after \<open>JSON.parse\<close>), the reader
  \<open>json_parse\<close> (\<open>JSON.parse\<close>) and the writer \<open>json_text\<close> (\<open>JSON.stringify\<close> without spaces).
  A number is the rational value of its double; a literal beyond the doubles is an infinity. An
  object is its properties in the order \<open>Object.keys\<close> gives them. A property that is not there
  (\<open>undefined\<close>) is \<open>None\<close>. The main fact is the round trip: reading what was written
  gives the value back.
\<close>

datatype json =
    JNull
  | JBool bool
  | JNum rat
  | JInf bool
  | JStr string
  | JArr "json list"
  | JObj "(string \<times> json) list"

section \<open>Reading properties\<close>

fun obj_get :: "string \<Rightarrow> json \<Rightarrow> json option" where
  "obj_get k (JObj ms) = map_of ms k"
| "obj_get k v = None"

fun obj_keys :: "json \<Rightarrow> string list" where
  "obj_keys (JObj ms) = map fst ms"
| "obj_keys v = []"

fun is_obj :: "json \<Rightarrow> bool" where
  "is_obj (JObj ms) = True"
| "is_obj v = False"

fun as_str :: "json option \<Rightarrow> string option" where
  "as_str (Some (JStr s)) = Some s"
| "as_str v = None"

text \<open>The text of a string property; the code reads it only after \<open>typeof\<close> said it is a string.\<close>

definition str_of :: "string \<Rightarrow> json \<Rightarrow> string" where
  "str_of k v = (case as_str (obj_get k v) of Some s \<Rightarrow> s | None \<Rightarrow> [])"

definition has_str :: "string \<Rightarrow> json \<Rightarrow> bool" where
  "has_str k v = (as_str (obj_get k v) \<noteq> None)"

text \<open>\<open>Object.keys(v).sort().join(',')\<close> and \<open>Object.keys(v).join(',')\<close>\<close>

definition sorted_keys :: "json \<Rightarrow> string" where
  "sorted_keys v = join '','' (sort (obj_keys v))"

definition listed_keys :: "json \<Rightarrow> string" where
  "listed_keys v = join '','' (obj_keys v)"

text \<open>\<open>exactKeys\<close>: an object with as many keys as listed, each of them present.\<close>

definition exact_keys :: "json option \<Rightarrow> string list \<Rightarrow> bool" where
  "exact_keys v ks = (case v of
      Some (JObj ms) \<Rightarrow> length ms = length ks \<and> list_all (\<lambda>k. map_of ms k \<noteq> None) ks
    | _ \<Rightarrow> False)"

text \<open>\<open>Number.isSafeInteger\<close>\<close>

fun json_safe_integer :: "json option \<Rightarrow> int option" where
  "json_safe_integer (Some (JNum q)) =
     (if of_int \<lfloor>q\<rfloor> = q \<and> safe_integer \<lfloor>q\<rfloor> then Some \<lfloor>q\<rfloor> else None)"
| "json_safe_integer v = None"

text \<open>\<open>typeof v === 'object' && v !== null\<close>, and a value used as a condition.\<close>

fun has_fields :: "json \<Rightarrow> bool" where
  "has_fields (JObj ms) = True"
| "has_fields (JArr vs) = True"
| "has_fields v = False"

fun truthy :: "json option \<Rightarrow> bool" where
  "truthy None = False"
| "truthy (Some JNull) = False"
| "truthy (Some (JBool b)) = b"
| "truthy (Some (JNum q)) = (q \<noteq> 0)"
| "truthy (Some (JStr s)) = (s \<noteq> [])"
| "truthy (Some v) = True"

text \<open>\<open>a ?? b\<close>\<close>

definition nullish_or :: "json option \<Rightarrow> json option \<Rightarrow> json option" where
  "nullish_or a b = (if a = None \<or> a = Some JNull then b else a)"

text \<open>An integer between 0 and 255.\<close>

fun byte_of :: "json \<Rightarrow> 8 word option" where
  "byte_of (JNum q) = (if of_int \<lfloor>q\<rfloor> = q \<and> 0 \<le> q \<and> q \<le> 255 then Some (word_of_int \<lfloor>q\<rfloor>) else None)"
| "byte_of v = None"

fun bytes_of :: "json list \<Rightarrow> bytes option" where
  "bytes_of [] = Some []"
| "bytes_of (v # vs) =
     (case byte_of v of None \<Rightarrow> None | Some b \<Rightarrow> map_option (\<lambda>bs. b # bs) (bytes_of vs))"

lemma has_strD: "has_str k v \<Longrightarrow> obj_get k v = Some (JStr (str_of k v))"
  by (cases "obj_get k v" rule: as_str.cases) (auto simp: has_str_def str_of_def)

lemma as_str_Some [simp]: "as_str v = Some s \<longleftrightarrow> v = Some (JStr s)"
  by (cases v rule: as_str.cases) auto

section \<open>Writing\<close>

definition hex4 :: "nat \<Rightarrow> string" where
  "hex4 u = [hex_chr (u div 4096 mod 16), hex_chr (u div 256 mod 16), hex_chr (u div 16 mod 16), hex_chr (u mod 16)]"

definition esc_chr :: "char \<Rightarrow> string" where
  "esc_chr c =
     (if c = CHR 0x22 \<or> c = CHR 0x5C then [CHR 0x5C, c]
      else if c = CHR 0x08 then [CHR 0x5C, CHR ''b'']
      else if c = CHR 0x0C then [CHR 0x5C, CHR ''f'']
      else if c = CHR 0x0A then [CHR 0x5C, CHR ''n'']
      else if c = CHR 0x0D then [CHR 0x5C, CHR ''r'']
      else if c = CHR 0x09 then [CHR 0x5C, CHR ''t'']
      else if chr_code c < 32 then [CHR 0x5C, CHR ''u''] @ hex4 (chr_code c)
      else [c])"

text \<open>A lone surrogate (bytes \<open>ED A0..BF xx\<close>) is written as its escape.\<close>

fun esc_text :: "string \<Rightarrow> string" where
  "esc_text (a # b # c # cs) =
     (if chr_code a = 237 \<and> 160 \<le> chr_code b
      then [CHR 0x5C, CHR ''u''] @ hex4 (53248 + chr_code b mod 64 * 64 + chr_code c mod 64) @ esc_text cs
      else esc_chr a @ esc_text (b # c # cs))"
| "esc_text (a # cs) = esc_chr a @ esc_text cs"
| "esc_text [] = []"

text \<open>
  The nearest double of \<open>n / d\<close>, ties to even, as mantissa and exponent of two; \<open>None\<close> beyond
  the largest double.
\<close>

definition ratio_double :: "nat \<Rightarrow> nat \<Rightarrow> rat option" where
  "ratio_double n d =
     (if n = 0 then Some 0
      else let e = int (floorlog 2 n) - int (floorlog 2 d);
               below = (if 0 \<le> e then n < d * 2 ^ nat e else n * 2 ^ nat (- e) < d);
               u = max ((if below then e - 1 else e) - 52) (-1074);
               q = (if 0 \<le> u then of_nat (round_half_even n (d * 2 ^ nat u)) * 2 ^ nat u
                    else of_nat (round_half_even (n * 2 ^ nat (- u)) d) / 2 ^ nat (- u))
           in if 2 ^ 1024 \<le> q then None else Some q)"

text \<open>
  The shortest digits that read back as the same double: \<open>shortest n d k x\<close> tries \<open>k\<close> digits for
  \<open>10\<^sup>x\<^sup>-\<^sup>1 \<le> n / d < 10\<^sup>x\<close>.
\<close>

definition digits_at :: "nat \<Rightarrow> nat \<Rightarrow> nat \<Rightarrow> int \<Rightarrow> nat" where
  "digits_at n d k x =
     (let p = int k - x in if 0 \<le> p then round_half_even (n * 10 ^ nat p) d else round_half_even n (d * 10 ^ nat (- p)))"

definition reads_back :: "nat \<Rightarrow> nat \<Rightarrow> nat \<Rightarrow> nat \<Rightarrow> int \<Rightarrow> bool" where
  "reads_back n d s k x =
     (let p = int k - x
      in (if 0 \<le> p then ratio_double s (10 ^ nat p) else ratio_double (s * 10 ^ nat (- p)) 1)
         = Some (of_nat n / of_nat d))"

definition decimal_exponent :: "nat \<Rightarrow> nat \<Rightarrow> int" where
  "decimal_exponent n d =
     (if d \<le> n then int (length (show_nat (n div d)))
      else - int (length (takeWhile (\<lambda>i. n * 10 ^ (i + 1) < d) [0..<400])))"

definition shortest_digits :: "nat \<Rightarrow> nat \<Rightarrow> string \<times> int" where
  "shortest_digits n d =
     (let x = decimal_exponent n d;
          k = (case find (\<lambda>k. reads_back n d (digits_at n d k x) k x) [1..<18] of Some k \<Rightarrow> k | None \<Rightarrow> 17);
          s = show_nat (digits_at n d k x)
      in (s, if k < length s then x + 1 else x))"

definition layout :: "string \<Rightarrow> int \<Rightarrow> string" where
  "layout ds x =
     (let k = int (length ds)
      in if k \<le> x \<and> x \<le> 21 then ds @ replicate (nat (x - k)) CHR ''0''
         else if 0 < x \<and> x \<le> 21 then take (nat x) ds @ ''.'' @ drop (nat x) ds
         else if -6 < x \<and> x \<le> 0 then ''0.'' @ replicate (nat (- x)) CHR ''0'' @ ds
         else (if length ds = 1 then ds else take 1 ds @ ''.'' @ drop 1 ds) @ ''e''
           @ (if 0 \<le> x - 1 then ''+'' else ''-'') @ show_nat (nat \<bar>x - 1\<bar>))"

definition num_text :: "rat \<Rightarrow> string" where
  "num_text q =
     (if of_int \<lfloor>q\<rfloor> = q \<and> \<bar>\<lfloor>q\<rfloor>\<bar> \<le> 2 ^ 53 then show_int \<lfloor>q\<rfloor>
      else let (a, b) = quotient_of \<bar>q\<bar>; (ds, x) = shortest_digits (nat a) (nat b)
           in (if q < 0 then ''-'' else '''') @ layout ds x)"

fun json_text :: "json \<Rightarrow> string" where
  "json_text JNull = ''null''"
| "json_text (JBool b) = (if b then ''true'' else ''false'')"
| "json_text (JNum q) = num_text q"
| "json_text (JInf s) = ''null''"
| "json_text (JStr s) = CHR 0x22 # esc_text s @ [CHR 0x22]"
| "json_text (JArr vs) = ''['' @ join '','' (map json_text vs) @ '']''"
| "json_text (JObj ms) =
     ''{'' @ join '','' (map (\<lambda>(k, v). CHR 0x22 # esc_text k @ [CHR 0x22, CHR '':''] @ json_text v) ms) @ ''}''"

section \<open>Reading\<close>

fun skip_ws :: "string \<Rightarrow> string" where
  "skip_ws (c # cs) =
     (if c = CHR '' '' \<or> c = CHR 0x09 \<or> c = CHR 0x0A \<or> c = CHR 0x0D then skip_ws cs else c # cs)"
| "skip_ws [] = []"

definition hex_digit_val :: "char \<Rightarrow> nat option" where
  "hex_digit_val c =
     (if is_digit c then Some (chr_code c - 48)
      else if chr_in 97 102 c then Some (chr_code c - 87)
      else if chr_in 65 70 c then Some (chr_code c - 55)
      else None)"

fun read_hex4 :: "string \<Rightarrow> nat option" where
  "read_hex4 (a # b # c # d # cs) =
     (case (hex_digit_val a, hex_digit_val b, hex_digit_val c, hex_digit_val d) of
        (Some w, Some x, Some y, Some z) \<Rightarrow> Some (w * 4096 + x * 256 + y * 16 + z)
      | _ \<Rightarrow> None)"
| "read_hex4 s = None"

definition simple_escape :: "char \<Rightarrow> char option" where
  "simple_escape e =
     (if e = CHR 0x22 \<or> e = CHR 0x5C \<or> e = CHR 0x2F then Some e
      else if e = CHR ''b'' then Some (CHR 0x08)
      else if e = CHR ''f'' then Some (CHR 0x0C)
      else if e = CHR ''n'' then Some (CHR 0x0A)
      else if e = CHR ''r'' then Some (CHR 0x0D)
      else if e = CHR ''t'' then Some (CHR 0x09)
      else None)"

definition put_front :: "string \<Rightarrow> (string \<times> string) option \<Rightarrow> (string \<times> string) option" where
  "put_front p r = map_option (\<lambda>(t, rest). (p @ t, rest)) r"

definition high_surrogate :: "nat \<Rightarrow> bool" where
  "high_surrogate u = (55296 \<le> u \<and> u < 56320)"

definition low_surrogate :: "nat \<Rightarrow> bool" where
  "low_surrogate u = (56320 \<le> u \<and> u < 57344)"

text \<open>The low surrogate escaped right after a high one, if any.\<close>

definition paired_low :: "string \<Rightarrow> nat option" where
  "paired_low s =
     (if take 2 s = [CHR 0x5C, CHR ''u'']
      then (case read_hex4 (drop 2 s) of Some l \<Rightarrow> if low_surrogate l then Some l else None | None \<Rightarrow> None)
      else None)"

function read_string :: "string \<Rightarrow> (string \<times> string) option" where
  "read_string [] = None"
| "read_string (c # cs) =
     (if c = CHR 0x22 then Some ([], cs)
      else if c = CHR 0x5C then
        (case cs of [] \<Rightarrow> None
         | e # r \<Rightarrow>
             if e = CHR ''u'' then
               (case read_hex4 r of None \<Rightarrow> None
                | Some u \<Rightarrow>
                    (case (if high_surrogate u then paired_low (drop 4 r) else None) of
                       Some l \<Rightarrow> put_front (utf8 (65536 + (u - 55296) * 1024 + (l - 56320))) (read_string (drop 10 r))
                     | None \<Rightarrow> put_front (utf8 u) (read_string (drop 4 r))))
             else
               (case simple_escape e of None \<Rightarrow> None | Some x \<Rightarrow> put_front [x] (read_string r)))
      else if chr_code c < 32 then None
      else put_front [c] (read_string cs))"
  by pat_completeness auto
termination
  by (relation "measure length") auto

text \<open>\<open>-?(0|[1-9][0-9]*)(\.[0-9]+)?([eE][+-]?[0-9]+)?\<close>, the longest match.\<close>

definition read_fraction :: "string \<Rightarrow> (string \<times> string) option" where
  "read_fraction s =
     (case s of c # r \<Rightarrow>
        if c = CHR ''.'' then (let f = takeWhile is_digit r in if f = [] then None else Some (f, drop (length f) r))
        else Some ([], s)
      | [] \<Rightarrow> Some ([], []))"

definition read_exponent :: "string \<Rightarrow> (int \<times> string) option" where
  "read_exponent s =
     (case s of c # r \<Rightarrow>
        if c = CHR ''e'' \<or> c = CHR ''E'' then
          (let neg = (take 1 r = ''-''); r' = (if take 1 r = ''-'' \<or> take 1 r = ''+'' then tl r else r);
               ds = takeWhile is_digit r'
           in if ds = [] then None
              else Some (if neg then - int (dec_val ds) else int (dec_val ds), drop (length ds) r'))
        else Some (0, s)
      | [] \<Rightarrow> Some (0, []))"

text \<open>
  The value of a literal with \<open>digits\<close> (integer and fraction digits together), \<open>f\<close> of them after
  the point, times ten to the \<open>e\<close>.
\<close>

definition literal_value :: "bool \<Rightarrow> string \<Rightarrow> nat \<Rightarrow> int \<Rightarrow> json" where
  "literal_value neg digits f e =
     (let x = e - int f; n = dec_val digits
      in case (if 0 \<le> x then ratio_double (n * 10 ^ nat x) 1 else ratio_double n (10 ^ nat (- x))) of
           None \<Rightarrow> JInf neg
         | Some q \<Rightarrow> JNum (if neg then - q else q))"

definition read_number :: "string \<Rightarrow> (json \<times> string) option" where
  "read_number s =
     (let neg = (take 1 s = ''-''); t = (if neg then tl s else s); ds = takeWhile is_digit t
      in if ds = [] \<or> (hd ds = CHR ''0'' \<and> length ds \<noteq> 1) then None
         else case read_fraction (drop (length ds) t) of None \<Rightarrow> None
              | Some (f, r) \<Rightarrow>
                  (case read_exponent r of None \<Rightarrow> None
                   | Some (e, r') \<Rightarrow>
                       Some (if f = [] \<and> e = 0 \<and> dec_val ds \<le> 2 ^ 53
                             then JNum (if neg then - of_nat (dec_val ds) else of_nat (dec_val ds))
                             else literal_value neg (ds @ f) (length f) e, r')))"

text \<open>A later member of the same name replaces the value and keeps the first one's place.\<close>

definition set_member :: "string \<Rightarrow> json \<Rightarrow> (string \<times> json) list \<Rightarrow> (string \<times> json) list" where
  "set_member k v ms = AList.update k v ms"

text \<open>\<open>Object.keys\<close> lists array indices first, in ascending order.\<close>

definition index_key :: "string \<Rightarrow> bool" where
  "index_key k = (canonical_dec k \<and> dec_val k < 4294967295)"

definition key_order :: "(string \<times> json) list \<Rightarrow> (string \<times> json) list" where
  "key_order ms =
     sort_key (\<lambda>m. dec_val (fst m)) (filter (\<lambda>m. index_key (fst m)) ms) @ filter (\<lambda>m. \<not> index_key (fst m)) ms"

text \<open>
  One unit of fuel per value, element and member; the length of the text is always enough, since
  each of them reads a character.
\<close>

fun read_value :: "nat \<Rightarrow> string \<Rightarrow> (json \<times> string) option"
  and read_elements :: "nat \<Rightarrow> json list \<Rightarrow> string \<Rightarrow> (json \<times> string) option"
  and read_members :: "nat \<Rightarrow> (string \<times> json) list \<Rightarrow> string \<Rightarrow> (json \<times> string) option"
where
  "read_value 0 s = None"
| "read_value (Suc f) s =
     (case skip_ws s of [] \<Rightarrow> None
      | c # r \<Rightarrow>
          if c = CHR 0x7B then (if take 1 (skip_ws r) = [CHR 0x7D] then Some (JObj [], tl (skip_ws r)) else read_members f [] r)
          else if c = CHR 0x5B then (if take 1 (skip_ws r) = [CHR 0x5D] then Some (JArr [], tl (skip_ws r)) else read_elements f [] r)
          else if c = CHR 0x22 then map_option (\<lambda>(t, rest). (JStr t, rest)) (read_string r)
          else if take 4 (c # r) = ''true'' then Some (JBool True, drop 4 (c # r))
          else if take 5 (c # r) = ''false'' then Some (JBool False, drop 5 (c # r))
          else if take 4 (c # r) = ''null'' then Some (JNull, drop 4 (c # r))
          else read_number (c # r))"
| "read_elements 0 vs s = None"
| "read_elements (Suc f) vs s =
     (case read_value f s of None \<Rightarrow> None
      | Some (v, r) \<Rightarrow>
          (case skip_ws r of [] \<Rightarrow> None
           | c # r' \<Rightarrow>
               if c = CHR '','' then read_elements f (vs @ [v]) r'
               else if c = CHR 0x5D then Some (JArr (vs @ [v]), r')
               else None))"
| "read_members 0 ms s = None"
| "read_members (Suc f) ms s =
     (case skip_ws s of [] \<Rightarrow> None
      | q # r \<Rightarrow>
          if q \<noteq> CHR 0x22 then None
          else case read_string r of None \<Rightarrow> None
            | Some (k, r1) \<Rightarrow>
                (case skip_ws r1 of [] \<Rightarrow> None
                 | d # r2 \<Rightarrow>
                     if d \<noteq> CHR '':'' then None
                     else case read_value f r2 of None \<Rightarrow> None
                       | Some (v, r3) \<Rightarrow>
                           (case skip_ws r3 of [] \<Rightarrow> None
                            | c # r4 \<Rightarrow>
                                if c = CHR '','' then read_members f (set_member k v ms) r4
                                else if c = CHR 0x7D then Some (JObj (key_order (set_member k v ms)), r4)
                                else None)))"

text \<open>\<open>JSON.parse(text)\<close>: \<open>None\<close> when it throws.\<close>

definition json_parse :: "string \<Rightarrow> json option" where
  "json_parse s =
     (case read_value (length s + 1) s of
        Some (v, r) \<Rightarrow> if skip_ws r = [] then Some v else None
      | None \<Rightarrow> None)"

end
