(* ===== verification/JsonRoundTrip.thy ===== *)
theory JsonRoundTrip
  imports Json
begin

text \<open>
  Reading what \<open>json_text\<close> wrote gives the value back, for the values the services exchange:
  strings without lone surrogates, integers a double holds exactly, objects with distinct names that
  are not array indices. It follows that two such values with the same text are equal.
\<close>

declare read_string.simps(2) [simp del]

section \<open>Strings\<close>

fun good_text :: "string \<Rightarrow> bool" where
  "good_text (a # b # c # cs) = (\<not> (chr_code a = 237 \<and> 160 \<le> chr_code b) \<and> good_text (b # c # cs))"
| "good_text s = True"

lemma good_text_ascii: "list_all (\<lambda>c. chr_code c < 128) s \<Longrightarrow> good_text s"
  by (induction s rule: good_text.induct) auto

lemma esc_good: "good_text s \<Longrightarrow> esc_text s = concat (map esc_chr s)"
  by (induction s rule: good_text.induct) auto

lemma hex_digit_val_chr:
  assumes "n < 16"
  shows "hex_digit_val (hex_chr n) = Some n"
proof -
  have "\<forall>n\<in>set [0..<16]. hex_digit_val (hex_chr n) = Some n"
    by (simp add: upt_rec hex_digit_val_def hex_chr_def char_defs)
  with assms show ?thesis by simp
qed

lemma read_hex4_hex4: "u < 65536 \<Longrightarrow> read_hex4 (hex4 u @ t) = Some u"
proof -
  assume u: "u < 65536"
  have d: "u div 256 = u div 16 div 16" "u div 4096 = u div 16 div 16 div 16"
    by (simp_all flip: div_mult2_eq)
  from u have "u div 16 div 16 div 16 < 16" by (simp flip: div_mult2_eq)
  then have e: "u div 16 div 16 div 16 mod 16 = u div 16 div 16 div 16" by simp
  have "u div 4096 mod 16 * 4096 + u div 256 mod 16 * 256 + u div 16 mod 16 * 16 + u mod 16 = u"
    unfolding d e
    using div_mult_mod_eq [of u 16] div_mult_mod_eq [of "u div 16" 16]
      div_mult_mod_eq [of "u div 16 div 16" 16] by linarith
  then show ?thesis by (simp only: hex4_def append.simps read_hex4.simps) (simp add: hex_digit_val_chr e del: mod_less)
qed

lemma length_hex4 [simp]: "length (hex4 u) = 4"
  by (simp add: hex4_def)

lemma drop_hex4 [simp]: "drop 4 (hex4 u @ t) = t"
  by simp

lemma utf8_small: "p < 128 \<Longrightarrow> utf8 p = [char_of p]"
  by (simp add: utf8_def)

lemma char_of_chr_code [simp]: "char_of (chr_code c) = c"
  by (simp add: chr_code_def)

lemma read_string_escape:
  "simple_escape e = Some x \<Longrightarrow> read_string (CHR 0x5C # e # t) = put_front [x] (read_string t)"
  by (subst read_string.simps(2)) (auto simp: simple_escape_def split: if_splits)

lemma read_string_code:
  assumes "u < 128"
  shows "read_string (CHR 0x5C # CHR ''u'' # hex4 u @ t) = put_front [char_of u] (read_string t)"
proof -
  have "\<not> high_surrogate u" and "u < 65536" using assms by (simp_all add: high_surrogate_def)
  then show ?thesis
    by (subst read_string.simps(2)) (simp add: read_hex4_hex4 utf8_small assms)
qed

lemma read_string_plain:
  "c \<noteq> CHR 0x22 \<Longrightarrow> c \<noteq> CHR 0x5C \<Longrightarrow> 32 \<le> chr_code c \<Longrightarrow> read_string (c # t) = put_front [c] (read_string t)"
  by (subst read_string.simps(2)) simp

lemma esc_chr_cases:
  obtains (simple) e where "esc_chr c = [CHR 0x5C, e]" and "simple_escape e = Some c"
  | (code) "esc_chr c = [CHR 0x5C, CHR ''u''] @ hex4 (chr_code c)" and "chr_code c < 32"
  | (self) "esc_chr c = [c]" and "c \<noteq> CHR 0x22" and "c \<noteq> CHR 0x5C" and "32 \<le> chr_code c"
proof -
  have s: "simple_escape (CHR 0x22) = Some (CHR 0x22)" "simple_escape (CHR 0x5C) = Some (CHR 0x5C)"
    "simple_escape (CHR ''b'') = Some (CHR 0x08)" "simple_escape (CHR ''f'') = Some (CHR 0x0C)"
    "simple_escape (CHR ''n'') = Some (CHR 0x0A)" "simple_escape (CHR ''r'') = Some (CHR 0x0D)"
    "simple_escape (CHR ''t'') = Some (CHR 0x09)"
    by (simp_all add: simple_escape_def)
  define special where "special = [CHR 0x22, CHR 0x5C, CHR 0x08, CHR 0x0C, CHR 0x0A, CHR 0x0D, CHR 0x09]"
  show thesis
  proof (cases "c \<in> set special")
    case True
    then have "\<exists>e. esc_chr c = [CHR 0x5C, e] \<and> simple_escape e = Some c"
      unfolding special_def set_simps insert_iff empty_iff
      by (elim disjE; simp add: esc_chr_def s)
    then show thesis using simple by blast
  next
    case False
    then have f: "esc_chr c = (if chr_code c < 32 then [CHR 0x5C, CHR ''u''] @ hex4 (chr_code c) else [c])"
      "c \<noteq> CHR 0x22" "c \<noteq> CHR 0x5C"
      by (simp_all add: special_def esc_chr_def)
    show thesis
    proof (cases "chr_code c < 32")
      case True
      with f(1) show thesis by (intro code) simp_all
    next
      case False
      with f show thesis by (intro self) simp_all
    qed
  qed
qed

lemma read_string_esc_chr: "read_string (esc_chr c @ t) = put_front [c] (read_string t)"
proof (cases c rule: esc_chr_cases)
  case (simple e)
  then show ?thesis by (simp add: read_string_escape)
next
  case code
  then show ?thesis using read_string_code [of "chr_code c" t] by simp
next
  case self
  then show ?thesis by (simp add: read_string_plain)
qed

lemma put_front_simps [simp]:
  "put_front p None = None"
  "put_front p (Some (t, r)) = Some (p @ t, r)"
  by (simp_all add: put_front_def)

lemma read_string_esc:
  "read_string (concat (map esc_chr s) @ CHR 0x22 # rest) = Some (s, rest)"
  by (induction s) (simp_all add: read_string_esc_chr read_string.simps(2) [of "CHR 0x22"])

lemma read_string_text: "good_text s \<Longrightarrow> read_string (esc_text s @ CHR 0x22 # rest) = Some (s, rest)"
  by (simp add: esc_good read_string_esc)

section \<open>Numbers\<close>

text \<open>What may follow a value.\<close>

definition value_end :: "string \<Rightarrow> bool" where
  "value_end s = (s = [] \<or> hd s = CHR '','' \<or> hd s = CHR 0x5D \<or> hd s = CHR 0x7D)"

lemma takeWhile_digits:
  "list_all is_digit ds \<Longrightarrow> value_end s \<Longrightarrow> takeWhile is_digit (ds @ s) = ds"
  by (cases s) (auto simp: value_end_def takeWhile_append list_all_iff char_defs)

lemma value_end_no_fraction: "value_end s \<Longrightarrow> read_fraction s = Some ([], s)"
  by (cases s) (auto simp: value_end_def read_fraction_def)

lemma value_end_no_exponent: "value_end s \<Longrightarrow> read_exponent s = Some (0, s)"
  by (cases s) (auto simp: value_end_def read_exponent_def)

lemma canonical_hd: "canonical_dec ds \<Longrightarrow> \<not> (hd ds = CHR ''0'' \<and> length ds \<noteq> 1)"
  by (auto simp: canonical_dec_def)

lemma read_number_show:
  assumes "value_end s" and "n \<le> 2 ^ 53"
  shows "read_number (show_nat n @ s) = Some (JNum (of_nat n), s)"
    and "read_number (CHR ''-'' # show_nat n @ s) = Some (JNum (- of_nat n), s)"
proof -
  have t: "takeWhile is_digit (show_nat n @ s) = show_nat n"
    using takeWhile_digits [OF show_nat_digits assms(1)] .
  have "hd (show_nat n) \<noteq> CHR ''-''"
    using show_nat_digits [of n] by (cases "show_nat n") (auto simp: char_defs)
  then have m: "take (Suc 0) (show_nat n @ s) \<noteq> ''-''"
    by (cases "show_nat n") auto
  note c = canonical_hd [OF canonical_show_nat [of n]]
  show "read_number (show_nat n @ s) = Some (JNum (of_nat n), s)"
    using assms c m
    by (auto simp: read_number_def Let_def t value_end_no_fraction value_end_no_exponent)
  show "read_number (CHR ''-'' # show_nat n @ s) = Some (JNum (- of_nat n), s)"
    using assms c
    by (auto simp: read_number_def Let_def t value_end_no_fraction value_end_no_exponent)
qed

section \<open>Values\<close>

fun plain :: "json \<Rightarrow> bool" where
  "plain JNull = True"
| "plain (JBool b) = True"
| "plain (JNum q) = (of_int \<lfloor>q\<rfloor> = q \<and> \<bar>\<lfloor>q\<rfloor>\<bar> \<le> 2 ^ 53)"
| "plain (JInf s) = False"
| "plain (JStr s) = good_text s"
| "plain (JArr vs) = list_all plain vs"
| "plain (JObj ms) = (distinct (map fst ms)
     \<and> list_all (\<lambda>(k, v). good_text k \<and> \<not> index_key k \<and> plain v) ms)"

definition member_text :: "string \<times> json \<Rightarrow> string" where
  "member_text m = CHR 0x22 # esc_text (fst m) @ [CHR 0x22, CHR '':''] @ json_text (snd m)"

lemma json_text_obj: "json_text (JObj ms) = ''{'' @ join '','' (map member_text ms) @ ''}''"
  by (simp add: member_text_def [abs_def] split_def)

text \<open>The first character of a text tells the kind of value; it is never white space.\<close>

lemma skip_ws_value:
  assumes "plain v"
  shows "skip_ws (json_text v @ rest) = json_text v @ rest" and "json_text v \<noteq> []"
proof -
  have d: "skip_ws (show_nat n @ r) = show_nat n @ r" for n r
    using show_nat_digits [of n] by (cases "show_nat n") (auto simp: char_defs)
  show "skip_ws (json_text v @ rest) = json_text v @ rest"
    using assms by (cases v) (auto simp: num_text_def show_int_def d)
  show "json_text v \<noteq> []"
    using assms by (cases v) (auto simp: num_text_def show_int_def)
qed

lemma skip_ws_end: "value_end s \<Longrightarrow> skip_ws s = s"
  by (cases s) (auto simp: value_end_def)

lemma set_member_fresh: "k \<notin> fst ` set ms \<Longrightarrow> set_member k v ms = ms @ [(k, v)]"
  unfolding set_member_def by (induction ms) auto

lemma key_order_names: "(\<And>m. m \<in> set ms \<Longrightarrow> \<not> index_key (fst m)) \<Longrightarrow> key_order ms = ms"
  by (simp add: key_order_def filter_id_conv filter_empty_conv)

lemma read_value_num:
  assumes "plain (JNum q)" and "value_end rest" and "0 < f"
  shows "read_value f (json_text (JNum q) @ rest) = Some (JNum q, rest)"
proof -
  from assms(3) obtain g where f: "f = Suc g" by (cases f) auto
  let ?n = "\<lfloor>q\<rfloor>"
  from assms(1) have q: "of_int ?n = q" and b: "\<bar>?n\<bar> \<le> 2 ^ 53" by auto
  have t: "json_text (JNum q) = show_int ?n" using q b by (simp add: num_text_def)
  have first: "\<exists>c cs. show_nat m @ rest = c # cs \<and> is_digit c" for m
    using show_nat_digits [of m] by (cases "show_nat m") auto
  show ?thesis
  proof (cases "?n < 0")
    case True
    have "(- of_nat (nat (- ?n)) :: rat) = q" using True q by simp
    with True b assms(2) read_number_show(2) [of rest "nat (- ?n)"] show ?thesis
      unfolding t f by (simp add: show_int_def)
  next
    case False
    have m: "(of_nat (nat ?n) :: rat) = q" using False q by simp
    obtain c cs where cs: "show_nat (nat ?n) @ rest = c # cs" "is_digit c" using first by blast
    have r: "read_number (c # cs) = Some (JNum q, rest)"
      using False b assms(2) m read_number_show(1) [of rest "nat ?n"] by (simp add: cs(1))
    have "skip_ws (c # cs) = c # cs" using cs(2) by (auto simp: char_defs)
    moreover have "c \<noteq> CHR 0x7B \<and> c \<noteq> CHR 0x5B \<and> c \<noteq> CHR 0x22 \<and> c \<noteq> CHR ''t'' \<and> c \<noteq> CHR ''f'' \<and> c \<noteq> CHR ''n''"
      using cs(2) by (auto simp: char_defs)
    ultimately show ?thesis using False r unfolding t f by (simp add: show_int_def cs(1))
  qed
qed

text \<open>Elements and members, given that each value reads back.\<close>

lemma value_end_list [simp]:
  "value_end (CHR '','' # s)" "value_end (CHR 0x5D # s)" "value_end (CHR 0x7D # s)"
  by (simp_all add: value_end_def)

lemma read_elements_text:
  assumes "\<And>v f rest. v \<in> set vs \<Longrightarrow> length (json_text v) \<le> f \<Longrightarrow> value_end rest \<Longrightarrow>
      read_value f (json_text v @ rest) = Some (v, rest)"
    and "vs \<noteq> []" and "length (join '','' (map json_text vs)) < f"
  shows "read_elements f acc (join '','' (map json_text vs) @ CHR 0x5D # rest) = Some (JArr (acc @ vs), rest)"
  using assms
proof (induction vs arbitrary: f acc)
  case Nil
  then show ?case by simp
next
  case (Cons v vs)
  from Cons.prems(3) obtain g where f: "f = Suc g" by (cases f) auto
  show ?case
  proof (cases vs)
    case Nil
    have "read_value g (json_text v @ CHR 0x5D # rest) = Some (v, CHR 0x5D # rest)"
      using Cons.prems Nil f by simp
    then show ?thesis by (simp add: f Nil)
  next
    case (Cons w ws)
    have v: "read_value g (json_text v @ CHR '','' # s) = Some (v, CHR '','' # s)" for s
      using Cons.prems(1,3) Cons f by simp
    have "read_elements g (acc @ [v]) (join '','' (map json_text vs) @ CHR 0x5D # rest)
        = Some (JArr ((acc @ [v]) @ vs), rest)"
      using Cons.prems(1,3) Cons f by (intro Cons.IH) auto
    then show ?thesis using v by (simp add: f Cons)
  qed
qed

lemma member_text_length: "length (json_text (snd m)) < length (member_text m)"
  by (simp add: member_text_def)

lemma read_member_name:
  "good_text (fst m) \<Longrightarrow>
   read_string (esc_text (fst m) @ CHR 0x22 # CHR '':'' # s) = Some (fst m, CHR '':'' # s)"
  by (rule read_string_text)

lemma read_members_text:
  assumes "\<And>m f rest. m \<in> set ms \<Longrightarrow> length (json_text (snd m)) \<le> f \<Longrightarrow> value_end rest \<Longrightarrow>
      read_value f (json_text (snd m) @ rest) = Some (snd m, rest)"
    and "\<And>m. m \<in> set ms \<Longrightarrow> good_text (fst m)"
    and "\<And>m. m \<in> set (acc @ ms) \<Longrightarrow> \<not> index_key (fst m)"
    and "distinct (map fst (acc @ ms))"
    and "ms \<noteq> []" and "length (join '','' (map member_text ms)) < f"
  shows "read_members f acc (join '','' (map member_text ms) @ CHR 0x7D # rest) = Some (JObj (acc @ ms), rest)"
  using assms
proof (induction ms arbitrary: f acc)
  case Nil
  then show ?case by simp
next
  case (Cons m ms)
  from Cons.prems(6) obtain g where f: "f = Suc g" by (cases f) auto
  from Cons.prems(4) have "fst m \<notin> fst ` set acc" by auto
  then have put: "set_member (fst m) (snd m) acc = acc @ [m]" by (simp add: set_member_fresh)
  note name = read_member_name [OF Cons.prems(2) [OF list.set_intros(1)]]
  show ?case
  proof (cases ms)
    case Nil
    have "read_value g (json_text (snd m) @ CHR 0x7D # rest) = Some (snd m, CHR 0x7D # rest)"
      using Cons.prems(1) [of m g "CHR 0x7D # rest"] Cons.prems(6) Nil f member_text_length [of m] by simp
    moreover have "key_order (acc @ [m]) = acc @ [m]"
      using Cons.prems(3) Nil by (intro key_order_names) auto
    ultimately show ?thesis by (simp add: f Nil member_text_def name put)
  next
    case (Cons n ns)
    have v: "read_value g (json_text (snd m) @ CHR '','' # s) = Some (snd m, CHR '','' # s)" for s
      using Cons.prems(1) [of m g "CHR '','' # s"] Cons.prems(6) Cons f member_text_length [of m] by simp
    have "read_members g (acc @ [m]) (join '','' (map member_text ms) @ CHR 0x7D # rest)
        = Some (JObj ((acc @ [m]) @ ms), rest)"
    proof (rule Cons.IH)
      show "length (join '','' (map member_text ms)) < g"
        using Cons.prems(6) Cons f by simp
    qed (use Cons.prems Cons in auto)
    then show ?thesis using v by (simp add: f Cons member_text_def [of m] name put)
  qed
qed

lemma join_first:
  assumes "xs \<noteq> []" and "hd xs = c # t"
  shows "\<exists>u. join sep xs = c # u"
proof -
  from assms obtain ys where "xs = (c # t) # ys" by (cases xs) auto
  then show ?thesis by (cases ys) auto
qed

lemma json_text_first:
  assumes "plain v"
  obtains c t where "json_text v = c # t" and "c \<noteq> CHR 0x5D" and "\<And>u. skip_ws (c # u) = c # u"
proof -
  have "\<exists>c t. json_text v = c # t \<and> c \<noteq> CHR 0x5D \<and> (\<forall>u. skip_ws (c # u) = c # u)"
  proof (cases v)
    case (JNum q)
    obtain c t where c: "show_nat (nat \<lfloor>q\<rfloor>) = c # t" "is_digit c"
      using show_nat_digits [of "nat \<lfloor>q\<rfloor>"] by (cases "show_nat (nat \<lfloor>q\<rfloor>)") auto
    then have "c \<noteq> CHR 0x5D \<and> (\<forall>u. skip_ws (c # u) = c # u)" by (auto simp: char_defs)
    with assms JNum c(1) show ?thesis by (simp add: num_text_def show_int_def)
  qed (use assms in simp_all)
  then show thesis using that by blast
qed

lemma read_value_text:
  "plain v \<Longrightarrow> length (json_text v) \<le> f \<Longrightarrow> value_end rest \<Longrightarrow>
   read_value f (json_text v @ rest) = Some (v, rest)"
proof (induction v arbitrary: f rest)
  case (JNum q)
  have "json_text (JNum q) \<noteq> []" by (rule skip_ws_value(2) [OF JNum.prems(1)])
  then have "0 < f" using JNum.prems(2) by (cases "json_text (JNum q)") auto
  then show ?case using read_value_num JNum.prems by blast
next
  case (JStr s)
  then obtain g where f: "f = Suc g" by (cases f) auto
  from JStr show ?case by (simp add: f read_string_text)
next
  case (JArr vs)
  then obtain g where f: "f = Suc g" by (cases f) auto
  show ?case
  proof (cases "vs = []")
    case True
    then show ?thesis by (simp add: f)
  next
    case False
    then have "plain (hd vs)" using JArr.prems(1) by (cases vs) auto
    then obtain c t where c: "json_text (hd vs) = c # t" "c \<noteq> CHR 0x5D" "\<And>u. skip_ws (c # u) = c # u"
      by (rule json_text_first) auto
    have "hd (map json_text vs) = c # t" using False c(1) by (simp add: hd_map)
    then obtain u where j: "join '','' (map json_text vs) = c # u"
      using join_first [of "map json_text vs" c t "'',''"] False by auto
    have "read_elements g [] (join '','' (map json_text vs) @ CHR 0x5D # rest) = Some (JArr ([] @ vs), rest)"
      using JArr False f by (intro read_elements_text) (auto simp: list_all_iff)
    then show ?thesis using c j by (simp add: f)
  qed
next
  case (JObj ms)
  then obtain g where f: "f = Suc g" by (cases f) (auto simp: json_text_obj simp del: json_text.simps(7))
  show ?case
  proof (cases "ms = []")
    case True
    then show ?thesis by (simp add: f)
  next
    case False
    then obtain u where j: "join '','' (map member_text ms) = CHR 0x22 # u"
      using join_first [of "map member_text ms" "CHR 0x22" _ "'',''"]
      by (auto simp: hd_map member_text_def)
    have IH: "read_value h (json_text (snd m) @ r) = Some (snd m, r)"
      if "m \<in> set ms" "length (json_text (snd m)) \<le> h" "value_end r" for m h r
      using JObj.IH [OF that(1), of "snd m" h r] JObj.prems(1) that
      by (cases m) (auto simp: list_all_iff)
    have "read_members g [] (join '','' (map member_text ms) @ CHR 0x7D # rest) = Some (JObj ([] @ ms), rest)"
      using JObj.prems(1,2) False f IH
      by (intro read_members_text)
        (auto simp: list_all_iff json_text_obj simp del: json_text.simps(7))
    then show ?thesis using j by (simp add: f json_text_obj del: json_text.simps(7))
  qed
next
  case JNull
  then obtain g where "f = Suc g" by (cases f) auto
  then show ?case by simp
next
  case (JBool b)
  then obtain g where "f = Suc g" by (cases f) (auto split: if_splits)
  then show ?case by (cases b) simp_all
qed simp

lemma json_read_back: "plain v \<Longrightarrow> json_parse (json_text v) = Some v"
  using read_value_text [of v "length (json_text v) + 1" "[]"]
  by (simp add: json_parse_def value_end_def)

text \<open>The text determines the value.\<close>

lemma json_text_inject: "plain v \<Longrightarrow> plain w \<Longrightarrow> json_text v = json_text w \<Longrightarrow> v = w"
  by (metis json_read_back option.inject)

end
