(* ===== verification/Base64.thy ===== *)
theory Base64
  imports Text
begin

text \<open>
  \<open>btoa\<close> and \<open>atob\<close> on bytes. \<open>atob\<close> is forgiving, as the platform specifies it: it skips ASCII
  white space, accepts missing padding and ignores the unused low bits of the last digit, so several
  texts decode to the same bytes; code that needs one text per signature encodes again and compares.
\<close>

definition b64_chr :: "nat \<Rightarrow> char" where
  "b64_chr n = ''ABCDEFGHIJKLMNOPQRSTUVWXYZabcdefghijklmnopqrstuvwxyz0123456789+/'' ! n"

definition b64_val :: "char \<Rightarrow> nat option" where
  "b64_val c =
     (if is_upper c then Some (chr_code c - 65)
      else if is_lower c then Some (chr_code c - 71)
      else if is_digit c then Some (chr_code c + 4)
      else if c = CHR ''+'' then Some 62
      else if c = CHR ''/'' then Some 63
      else None)"

fun b64_digits :: "nat list \<Rightarrow> nat list" where
  "b64_digits (a # b # c # r) =
     [a div 4, a mod 4 * 16 + b div 16, b mod 16 * 4 + c div 64, c mod 64] @ b64_digits r"
| "b64_digits [a, b] = [a div 4, a mod 4 * 16 + b div 16, b mod 16 * 4]"
| "b64_digits [a] = [a div 4, a mod 4 * 16]"
| "b64_digits [] = []"

definition b64_padding :: "nat \<Rightarrow> string" where
  "b64_padding n = (if n mod 3 = 1 then ''=='' else if n mod 3 = 2 then ''='' else '''')"

definition btoa :: "bytes \<Rightarrow> string" where
  "btoa bs = map b64_chr (b64_digits (map unat bs)) @ b64_padding (length bs)"

fun b64_bytes :: "nat list \<Rightarrow> nat list" where
  "b64_bytes (a # b # c # d # r) =
     [a * 4 + b div 16, b mod 16 * 16 + c div 4, c mod 4 * 64 + d] @ b64_bytes r"
| "b64_bytes [a, b, c] = [a * 4 + b div 16, b mod 16 * 16 + c div 4]"
| "b64_bytes [a, b] = [a * 4 + b div 16]"
| "b64_bytes r = []"

definition ascii_space :: "char \<Rightarrow> bool" where
  "ascii_space c = (chr_code c = 9 \<or> chr_code c = 10 \<or> chr_code c = 12 \<or> chr_code c = 13 \<or> chr_code c = 32)"

definition strip_padding :: "string \<Rightarrow> string" where
  "strip_padding s =
     (if length s mod 4 \<noteq> 0 then s
      else if ends_with ''=='' s then take (length s - 2) s
      else if ends_with ''='' s then take (length s - 1) s
      else s)"

text \<open>\<open>atob(text)\<close>: \<open>None\<close> when it throws.\<close>

definition atob :: "string \<Rightarrow> bytes option" where
  "atob s =
     (let t = strip_padding (filter (\<lambda>c. \<not> ascii_space c) s)
      in if length t mod 4 = 1 \<or> \<not> list_all (\<lambda>c. b64_val c \<noteq> None) t then None
         else Some (map of_nat (b64_bytes (map (\<lambda>c. the (b64_val c)) t))))"

section \<open>Round trip\<close>

lemma b64_val_chr:
  assumes "n < 64"
  shows "b64_val (b64_chr n) = Some n" and "\<not> ascii_space (b64_chr n)" and "b64_chr n \<noteq> CHR ''=''"
proof -
  have "\<forall>n\<in>set [0..<64]. b64_val (b64_chr n) = Some n \<and> \<not> ascii_space (b64_chr n) \<and> b64_chr n \<noteq> CHR ''=''"
    by (simp add: upt_rec b64_val_def b64_chr_def char_defs ascii_space_def)
  with assms show "b64_val (b64_chr n) = Some n" "\<not> ascii_space (b64_chr n)" "b64_chr n \<noteq> CHR ''=''"
    by simp_all
qed

lemma div_small: "(a::nat) < 256 \<Longrightarrow> a div 4 < 64" "(a::nat) < 256 \<Longrightarrow> a div 16 < 16" "(a::nat) < 256 \<Longrightarrow> a div 64 < 4"
  by auto

lemma sextet1: "(b::nat) < 256 \<Longrightarrow> a mod 4 * 16 + b div 16 < (64::nat)"
  using mod_less_divisor [of 4 a] div_small(2) [of b] by linarith

lemma sextet2: "(c::nat) < 256 \<Longrightarrow> b mod 16 * 4 + c div 64 < (64::nat)"
  using mod_less_divisor [of 16 b] div_small(3) [of c] by linarith

lemma sextet_last: "a mod 4 * 16 < (64::nat)" "b mod 16 * 4 < (64::nat)"
  using mod_less_divisor [of 4 a] mod_less_divisor [of 16 b] by linarith+

lemma b64_digits_less:
  "list_all (\<lambda>a. a < 256) as \<Longrightarrow> list_all (\<lambda>d. d < 64) (b64_digits as)"
  by (induction as rule: b64_digits.induct) (simp_all add: div_small sextet1 sextet2 sextet_last)

lemma b64_bytes_digits:
  "list_all (\<lambda>a. a < 256) as \<Longrightarrow> b64_bytes (b64_digits as) = as"
proof (induction as rule: b64_digits.induct)
  case (1 a b c r)
  then show ?case by (simp add: div_small mult.commute)
next
  case (2 a b)
  then show ?case by (simp add: div_small)
next
  case (3 a)
  then show ?case by simp
qed simp

lemma length_b64_digits:
  "length (b64_digits as) = 4 * (length as div 3) + (if length as mod 3 = 0 then 0 else length as mod 3 + 1)"
  by (induction as rule: b64_digits.induct) (auto simp: mod_Suc)

lemma map_val_chr: "list_all (\<lambda>d. d < 64) ds \<Longrightarrow> map (\<lambda>d. the (b64_val (b64_chr d))) ds = ds"
  by (induction ds) (simp_all add: b64_val_chr)

lemma filter_padding [simp]: "filter (\<lambda>c. \<not> ascii_space c) (b64_padding n) = b64_padding n"
  by (simp add: b64_padding_def ascii_space_def chr_code_def)

lemma ends_with_subset: "ends_with p s \<Longrightarrow> set p \<subseteq> set s"
  by (metis ends_with_def set_drop_subset)

lemma strip_padding_text:
  assumes "CHR ''='' \<notin> set t"
    and "n mod 3 = 0 \<and> length t mod 4 = 0 \<or> n mod 3 = 1 \<and> length t mod 4 = 2 \<or> n mod 3 = 2 \<and> length t mod 4 = 3"
  shows "strip_padding (t @ b64_padding n) = t"
proof -
  have last: "\<not> ends_with ''=='' t" "\<not> ends_with ''='' t"
    using ends_with_subset assms(1) by fastforce+
  from assms(2) show ?thesis
  proof (elim disjE conjE)
    assume "n mod 3 = 0" "length t mod 4 = 0"
    then show ?thesis using last by (simp add: b64_padding_def strip_padding_def)
  next
    assume "n mod 3 = 1" "length t mod 4 = 2"
    then show ?thesis by (simp add: b64_padding_def strip_padding_def ends_with_def mod_Suc)
  next
    assume a: "n mod 3 = 2" "length t mod 4 = 3"
    have "\<not> ends_with ''=='' (t @ ''='')"
    proof
      assume "ends_with ''=='' (t @ ''='')"
      then have "drop (length t - 1) t = ''=''"
        using a(2) by (auto simp: ends_with_def)
      then show False using assms(1) set_drop_subset [of "length t - 1" t] by auto
    qed
    then show ?thesis using a by (simp add: b64_padding_def strip_padding_def ends_with_def mod_Suc)
  qed
qed

theorem atob_btoa: "atob (btoa bs) = Some bs"
proof -
  define xs where "xs = map unat bs"
  have lt: "list_all (\<lambda>a. a < 256) xs"
    using unsigned_less [where 'a = nat and 'b = 8] by (simp add: xs_def list_all_iff)
  note d = b64_digits_less [OF lt]
  define t where "t = map b64_chr (b64_digits xs)"
  have txt_ok: "list_all (\<lambda>c. \<not> ascii_space c \<and> c \<noteq> CHR ''='' \<and> b64_val c \<noteq> None) t"
    using d by (auto simp: t_def list_all_iff b64_val_chr)
  have len: "length t = 4 * (length bs div 3) + (if length bs mod 3 = 0 then 0 else length bs mod 3 + 1)"
    by (simp add: t_def xs_def length_b64_digits)
  have "length bs mod 3 = 0 \<or> length bs mod 3 = 1 \<or> length bs mod 3 = 2" by linarith
  then have m: "length bs mod 3 = 0 \<and> length t mod 4 = 0 \<or> length bs mod 3 = 1 \<and> length t mod 4 = 2
      \<or> length bs mod 3 = 2 \<and> length t mod 4 = 3"
    by (auto simp: len)
  have f: "filter (\<lambda>c. \<not> ascii_space c) (btoa bs) = t @ b64_padding (length bs)"
    using txt_ok by (auto simp: btoa_def t_def xs_def list_all_iff filter_id_conv)
  have s: "strip_padding (t @ b64_padding (length bs)) = t"
    by (rule strip_padding_text [OF _ m]) (use txt_ok in \<open>auto simp: list_all_iff\<close>)
  have v: "map (\<lambda>c. the (b64_val c)) t = b64_digits xs"
    using map_val_chr [OF d] by (simp add: t_def comp_def)
  have "length t mod 4 \<noteq> 1" using m by linarith
  moreover have "list_all (\<lambda>c. b64_val c \<noteq> None) t"
    using txt_ok by (simp add: list_all_iff)
  ultimately have "atob (btoa bs) = Some (map of_nat (b64_bytes (b64_digits xs)))"
    unfolding atob_def f s v Let_def by simp
  then show ?thesis by (simp add: b64_bytes_digits [OF lt]) (simp add: xs_def comp_def)
qed

lemma btoa_inject: "btoa a = btoa b \<longleftrightarrow> a = b"
  by (metis atob_btoa option.inject)

lemma b64_chr_class: "n < 64 \<Longrightarrow> is_alnum (b64_chr n) \<or> b64_chr n = CHR ''+'' \<or> b64_chr n = CHR ''/''"
proof -
  have "\<forall>n\<in>set [0..<64]. is_alnum (b64_chr n) \<or> b64_chr n = CHR ''+'' \<or> b64_chr n = CHR ''/''"
    by (simp add: upt_rec b64_chr_def char_defs)
  then show "n < 64 \<Longrightarrow> is_alnum (b64_chr n) \<or> b64_chr n = CHR ''+'' \<or> b64_chr n = CHR ''/''" by simp
qed

text \<open>\<open>btoa\<close> writes a text of the form of a signature for 64 bytes and for no other number.\<close>

lemma btoa_signature: "base64_signature (btoa bs) \<longleftrightarrow> length bs = 64"
proof -
  define t where "t = map b64_chr (b64_digits (map unat bs))"
  have "list_all (\<lambda>a. a < 256) (map unat bs)"
    using unsigned_less [where 'a = nat and 'b = 8] by (simp add: list_all_iff)
  note d = b64_digits_less [OF this]
  have len: "length t = 4 * (length bs div 3) + (if length bs mod 3 = 0 then 0 else length bs mod 3 + 1)"
    by (simp add: t_def length_b64_digits)
  have chars_ok: "list_all (\<lambda>c. is_alnum c \<or> c = CHR ''+'' \<or> c = CHR ''/'') t"
    using d b64_chr_class by (simp add: t_def list_all_iff)
  have no_pad: "CHR ''='' \<notin> set t" using d b64_val_chr(3) by (fastforce simp: t_def list_all_iff)
  have b: "btoa bs = t @ b64_padding (length bs)" by (simp add: btoa_def t_def)
  show ?thesis
  proof
    assume a: "base64_signature (btoa bs)"
    have "length (take 86 (btoa bs)) = 86" "length (drop 86 (btoa bs)) = 2" "drop 86 (btoa bs) = ''==''"
      using a by (auto simp: base64_signature_def repeated_def)
    then have l: "length (btoa bs) = 88" using length_drop [of 86 "btoa bs"] by linarith
    have e: "btoa bs ! 86 = CHR ''=''"
      using \<open>drop 86 (btoa bs) = ''==''\<close> nth_drop [of 86 "btoa bs" 0] l by simp
    have "length t \<le> 86"
    proof (rule ccontr)
      assume "\<not> length t \<le> 86"
      then have "t ! 86 = CHR ''=''" "86 < length t" using e by (simp_all add: b nth_append)
      with no_pad nth_mem show False by metis
    qed
    moreover have "length t + length (b64_padding (length bs)) = 88" using l by (simp add: b)
    ultimately have m: "length bs mod 3 = 1" and "length t = 86"
      by (auto simp: b64_padding_def split: if_splits)
    then have "4 * (length bs div 3) + 2 = 86" using len by simp
    then have "length bs div 3 = 21" by simp
    with m show "length bs = 64" using div_mult_mod_eq [of "length bs" 3] by simp
  next
    assume a: "length bs = 64"
    then have "length t = 86" and "b64_padding (length bs) = ''==''" using len by (simp_all add: b64_padding_def)
    with chars_ok show "base64_signature (btoa bs)" by (simp add: b base64_signature_def repeated_def)
  qed
qed

end
