(* ===== verification/Encoding.thy ===== *)
theory Encoding
  imports Text
begin

text \<open>
  \<open>TextEncoder\<close> and \<open>TextDecoder\<close>: text to UTF-8 bytes and back, as the platform does it. The
  encoder writes U+FFFD for a lone surrogate. The decoder reads malformed input as U+FFFD, or
  refuses it when it is \<open>fatal\<close>, and drops a leading byte-order mark. Encoding well-formed text and
  decoding it gives the text back.
\<close>

section \<open>Encoding\<close>

fun scalar_bytes :: "nat list \<Rightarrow> nat list" where
  "scalar_bytes (a # b # c # r) =
     (if a = 237 \<and> 160 \<le> b then [239, 191, 189] @ scalar_bytes r else a # scalar_bytes (b # c # r))"
| "scalar_bytes (a # r) = a # scalar_bytes r"
| "scalar_bytes [] = []"

text \<open>\<open>new TextEncoder().encode(text)\<close>\<close>

definition encode_text :: "string \<Rightarrow> bytes" where
  "encode_text s = map of_nat (scalar_bytes (map chr_code s))"

text \<open>Text without a lone surrogate.\<close>

definition scalar_value :: "nat \<Rightarrow> bool" where
  "scalar_value p = (p < 55296 \<or> (57344 \<le> p \<and> p < 1114112))"

definition scalar_text :: "string \<Rightarrow> bool" where
  "scalar_text s = (of_code_points (code_points s) = s \<and> list_all scalar_value (code_points s))"

section \<open>Decoding\<close>

text \<open>What a lead byte announces: bytes to follow, the range of the first of them, its own bits.\<close>

definition lead_byte :: "nat \<Rightarrow> (nat \<times> nat \<times> nat \<times> nat) option" where
  "lead_byte b =
     (if 194 \<le> b \<and> b < 224 then Some (1, 128, 191, b - 192)
      else if 224 \<le> b \<and> b < 240
        then Some (2, if b = 224 then 160 else 128, if b = 237 then 159 else 191, b - 224)
      else if 240 \<le> b \<and> b < 245
        then Some (3, if b = 240 then 144 else 128, if b = 244 then 143 else 191, b - 240)
      else None)"

fun tail_bytes :: "nat \<Rightarrow> nat \<Rightarrow> nat \<Rightarrow> nat \<Rightarrow> nat list \<Rightarrow> nat option \<times> nat list" where
  "tail_bytes 0 lo hi a bs = (Some a, bs)"
| "tail_bytes (Suc n) lo hi a [] = (None, [])"
| "tail_bytes (Suc n) lo hi a (b # bs) =
     (if lo \<le> b \<and> b \<le> hi then tail_bytes n 128 191 (a * 64 + (b - 128)) bs else (None, b # bs))"

lemma tail_bytes_length: "length (snd (tail_bytes n lo hi a bs)) \<le> length bs"
  by (induction n lo hi a bs rule: tail_bytes.induct) auto

lemma tail_bytes_rest: "tail_bytes n lo hi a bs = (r, rest) \<Longrightarrow> length rest \<le> length bs"
  using tail_bytes_length [of n lo hi a bs] by simp

text \<open>One code point per sequence; \<open>None\<close> for a malformed one.\<close>

function scan_utf8 :: "nat list \<Rightarrow> nat option list" where
  "scan_utf8 [] = []"
| "scan_utf8 (b # bs) =
     (if b < 128 then Some b # scan_utf8 bs
      else case lead_byte b of None \<Rightarrow> None # scan_utf8 bs
        | Some (n, lo, hi, a) \<Rightarrow>
            (case tail_bytes n lo hi a bs of (r, rest) \<Rightarrow> r # scan_utf8 rest))"
  by pat_completeness auto
termination
  by (relation "measure length") (auto dest: tail_bytes_rest [OF sym])

definition drop_mark :: "nat list \<Rightarrow> nat list" where
  "drop_mark ps = (if take 1 ps = [65279] then drop 1 ps else ps)"

text \<open>\<open>new TextDecoder().decode(bytes)\<close> and the same with \<open>fatal: true\<close> (\<open>None\<close>: it throws)\<close>

definition decode_text :: "bytes \<Rightarrow> string" where
  "decode_text bs =
     of_code_points (drop_mark (map (\<lambda>p. case p of Some q \<Rightarrow> q | None \<Rightarrow> 65533) (scan_utf8 (map unat bs))))"

definition decode_text_fatal :: "bytes \<Rightarrow> string option" where
  "decode_text_fatal bs =
     (let ps = scan_utf8 (map unat bs)
      in if list_all (\<lambda>p. p \<noteq> None) ps then Some (of_code_points (drop_mark (map the ps))) else None)"

section \<open>Round trip\<close>

definition no_surrogate :: "nat list \<Rightarrow> bool" where
  "no_surrogate bs = successively (\<lambda>a b. \<not> (a = 237 \<and> 160 \<le> b)) bs"

lemma scalar_bytes_same: "no_surrogate bs \<Longrightarrow> scalar_bytes bs = bs"
  unfolding no_surrogate_def by (induction bs rule: scalar_bytes.induct) auto

definition utf8_codes :: "nat \<Rightarrow> nat list" where
  "utf8_codes p = map chr_code (utf8 p)"

lemma utf8_codes_eq:
  assumes "p < 1114112"
  shows "utf8_codes p =
     (if p < 128 then [p]
      else if p < 2048 then [192 + p div 64, 128 + p mod 64]
      else if p < 65536 then [224 + p div 4096, 128 + p div 64 mod 64, 128 + p mod 64]
      else [240 + p div 262144, 128 + p div 4096 mod 64, 128 + p div 64 mod 64, 128 + p mod 64])"
proof -
  have "p div 262144 < 16" using assms by auto
  moreover have "p < 65536 \<Longrightarrow> p div 4096 < 16" by auto
  moreover have "p < 2048 \<Longrightarrow> p div 64 < 32" by auto
  ultimately show ?thesis by (simp add: utf8_codes_def utf8_def)
qed

lemma utf8_codes_last: "p < 1114112 \<Longrightarrow> utf8_codes p \<noteq> [] \<and> last (utf8_codes p) \<noteq> 237"
proof -
  assume p: "p < 1114112"
  have "p mod 64 < 64" by simp
  then have "128 + p mod 64 \<noteq> 237" by linarith
  with p show ?thesis by (simp add: utf8_codes_eq)
qed

lemma utf8_codes_no_surrogate:
  assumes "scalar_value p"
  shows "no_surrogate (utf8_codes p)"
proof -
  have p: "p < 1114112" and np: "\<not> (55296 \<le> p \<and> p < 57344)"
    using assms by (auto simp: scalar_value_def)
  have m: "p mod 64 < 64" "p div 64 mod 64 < 64" "p div 4096 mod 64 < 64" by simp_all
  have e: "p div 4096 = p div 64 div 64" by (simp flip: div_mult2_eq)
  have "\<not> (224 + p div 4096 = 237 \<and> 160 \<le> 128 + p div 64 mod 64)"
  proof
    assume a: "224 + p div 4096 = 237 \<and> 160 \<le> 128 + p div 64 mod 64"
    then have "p div 64 div 64 = 13" "32 \<le> p div 64 mod 64" by (simp_all add: e)
    then have "864 \<le> p div 64" "p div 64 < 896"
      using div_mult_mod_eq [of "p div 64" 64] m by linarith+
    then have "55296 \<le> p" "p < 57344" using div_mult_mod_eq [of p 64] m by linarith+
    with np show False by simp
  qed
  moreover have "p < 2048 \<Longrightarrow> p div 64 < 32" by auto
  moreover have "p div 262144 < 5" using p by auto
  ultimately show ?thesis
    using m by (simp add: utf8_codes_eq [OF p] no_surrogate_def)
qed

lemma codes_of_code_points: "map chr_code (of_code_points ps) = concat (map utf8_codes ps)"
  by (induction ps) (simp_all add: of_code_points_def utf8_codes_def)

lemma codes_no_surrogate: "list_all scalar_value ps \<Longrightarrow> no_surrogate (concat (map utf8_codes ps))"
proof (induction ps)
  case Nil
  then show ?case by (simp add: no_surrogate_def)
next
  case (Cons p ps)
  then have "p < 1114112" by (auto simp: scalar_value_def)
  with Cons utf8_codes_last [of p] show ?case
    using utf8_codes_no_surrogate [of p] by (auto simp: no_surrogate_def successively_append_iff)
qed

lemma encode_scalar_text: "scalar_text s \<Longrightarrow> encode_text s = map (\<lambda>c. of_nat (chr_code c)) s"
proof -
  assume s: "scalar_text s"
  then have "map chr_code s = concat (map utf8_codes (code_points s))"
    by (metis codes_of_code_points scalar_text_def)
  then have "scalar_bytes (map chr_code s) = map chr_code s"
    using s by (simp only: scalar_text_def) (simp add: scalar_bytes_same codes_no_surrogate)
  then show ?thesis by (simp add: encode_text_def)
qed

lemma byte_of_chr_inj: "inj (\<lambda>c. of_nat (chr_code c) :: 8 word)"
proof (rule injI)
  fix c d :: char
  assume "(of_nat (chr_code c) :: 8 word) = of_nat (chr_code d)"
  then have "unat (of_nat (chr_code c) :: 8 word) = unat (of_nat (chr_code d) :: 8 word)" by simp
  moreover have "chr_code c < 256" "chr_code d < 256" by (simp_all add: chr_code_def)
  ultimately have "chr_code c = chr_code d" by (simp add: unat_of_nat)
  then show "c = d" by (simp add: chr_code_def)
qed

lemma encode_text_inject: "scalar_text s \<Longrightarrow> scalar_text t \<Longrightarrow> encode_text s = encode_text t \<longleftrightarrow> s = t"
  by (simp add: encode_scalar_text inj_map_eq_map [OF byte_of_chr_inj])

lemma scalar_text_ascii: "list_all (\<lambda>c. chr_code c < 128) s \<Longrightarrow> scalar_text s"
  by (simp add: scalar_text_def code_points_ascii of_code_points_def list_all_iff scalar_value_def utf8_def comp_def
      less_trans [of _ 128 55296])
    (induction s, auto simp: chr_code_def)

lemma scan_three:
  assumes "x < 16" "y < 64" "z < 64" "x = 0 \<Longrightarrow> 32 \<le> y" "x = 13 \<Longrightarrow> y \<le> 31"
  shows "scan_utf8 ([224 + x, 128 + y, 128 + z] @ bs) = Some (x * 4096 + y * 64 + z) # scan_utf8 bs"
proof -
  have "lead_byte (224 + x) = Some (2, if x = 0 then 160 else 128, if x = 13 then 159 else 191, x)"
    using assms(1) by (auto simp: lead_byte_def)
  then show ?thesis using assms by (auto simp: numeral_2_eq_2)
qed

lemma scan_four:
  assumes "w < 5" "x < 64" "y < 64" "z < 64" "w = 0 \<Longrightarrow> 16 \<le> x" "w = 4 \<Longrightarrow> x \<le> 15"
  shows "scan_utf8 ([240 + w, 128 + x, 128 + y, 128 + z] @ bs) =
     Some (w * 262144 + x * 4096 + y * 64 + z) # scan_utf8 bs"
proof -
  have "lead_byte (240 + w) = Some (3, if w = 0 then 144 else 128, if w = 4 then 143 else 191, w)"
    using assms(1) by (auto simp: lead_byte_def)
  then show ?thesis using assms by (auto simp: numeral_3_eq_3)
qed

lemma base64_digits_of:
  obtains w x y z :: nat where "p = w * 262144 + x * 4096 + y * 64 + z" "x < 64" "y < 64" "z < 64"
    "p mod 64 = z" "p div 64 mod 64 = y" "p div 4096 mod 64 = x" "p div 262144 = w"
    "p div 4096 = w * 64 + x"
proof -
  have d: "p div 4096 = p div 64 div 64" "p div 262144 = p div 64 div 64 div 64"
    by (simp_all flip: div_mult2_eq)
  have e: "p = p div 64 * 64 + p mod 64" "p div 64 = p div 64 div 64 * 64 + p div 64 mod 64"
    "p div 64 div 64 = p div 64 div 64 div 64 * 64 + p div 64 div 64 mod 64" by simp_all
  have "p = p div 262144 * 262144 + p div 4096 mod 64 * 4096 + p div 64 mod 64 * 64 + p mod 64"
    unfolding d using e by linarith
  with e(3) show ?thesis using that [of "p div 262144" "p div 4096 mod 64" "p div 64 mod 64" "p mod 64"]
    by (simp add: d)
qed

lemma scan_codes:
  assumes "scalar_value p"
  shows "scan_utf8 (utf8_codes p @ bs) = Some p # scan_utf8 bs"
proof -
  have p: "p < 1114112" and np: "\<not> (55296 \<le> p \<and> p < 57344)"
    using assms by (auto simp: scalar_value_def)
  obtain w x y z where g: "p = w * 262144 + x * 4096 + y * 64 + z" "x < 64" "y < 64" "z < 64"
    "p mod 64 = z" "p div 64 mod 64 = y" "p div 4096 mod 64 = x" "p div 262144 = w" "p div 4096 = w * 64 + x"
    by (rule base64_digits_of)
  consider "p < 128" | "128 \<le> p" "p < 2048" | "2048 \<le> p" "p < 65536" | "65536 \<le> p" by linarith
  then show ?thesis
  proof cases
    case 1
    then show ?thesis by (simp add: utf8_codes_eq)
  next
    case 2
    then have "2 \<le> p div 64" "p div 64 < 32" by auto
    with 2 p show ?thesis
      by (simp add: utf8_codes_eq lead_byte_def numeral_2_eq_2 less_Suc_eq_le)
  next
    case 3
    then have w: "w = 0" using g(1) by linarith
    have "utf8_codes p = [224 + x, 128 + y, 128 + z]"
      using 3 p w g(5,6,9) by (simp add: utf8_codes_eq)
    moreover have "p = x * 4096 + y * 64 + z" using g(1) w by simp
    moreover have "x < 16" "x = 0 \<Longrightarrow> 32 \<le> y" "x = 13 \<Longrightarrow> y \<le> 31"
      using 3 np g(1-4) w by linarith+
    ultimately show ?thesis using scan_three [of x y z bs] g(3,4) by simp
  next
    case 4
    have "utf8_codes p = [240 + w, 128 + x, 128 + y, 128 + z]"
      using 4 p g(5-8) by (simp add: utf8_codes_eq)
    moreover have "w < 5" "w = 0 \<Longrightarrow> 16 \<le> x" "w = 4 \<Longrightarrow> x \<le> 15" using 4 p g(1-4) by linarith+
    ultimately show ?thesis using scan_four [of w x y z bs] g(1-4) by simp
  qed
qed

lemma scan_of_code_points:
  "list_all scalar_value ps \<Longrightarrow> scan_utf8 (concat (map utf8_codes ps)) = map Some ps"
  by (induction ps) (auto simp: scan_codes)

lemma unat_codes: "map unat (map (\<lambda>c. of_nat (chr_code c) :: 8 word) s) = map chr_code s"
proof -
  have "chr_code c < 256" for c by (simp add: chr_code_def)
  then show ?thesis by (simp add: unat_of_nat comp_def)
qed

text \<open>Encoding well-formed text that starts with no byte-order mark, and decoding it, is the identity.\<close>

lemma decode_encode:
  assumes "scalar_text s" and "take 1 (code_points s) \<noteq> [65279]"
  shows "decode_text_fatal (encode_text s) = Some s"
proof -
  from assms have c: "map chr_code s = concat (map utf8_codes (code_points s))" "list_all scalar_value (code_points s)"
    by (metis codes_of_code_points scalar_text_def, simp add: scalar_text_def)
  have "scan_utf8 (map unat (encode_text s)) = map Some (code_points s)"
    using scan_of_code_points [OF c(2)] by (simp add: encode_scalar_text assms(1) unat_codes [unfolded map_map comp_def] comp_def c(1))
  with assms show ?thesis
    by (simp add: decode_text_fatal_def list_all_iff drop_mark_def comp_def scalar_text_def)
qed

text \<open>Texts without lone surrogates are closed under concatenation and joining.\<close>

lemma scalar_text_iff: "scalar_text s \<longleftrightarrow> (\<exists>ps. list_all scalar_value ps \<and> s = of_code_points ps)"
proof
  assume "\<exists>ps. list_all scalar_value ps \<and> s = of_code_points ps"
  then obtain ps where ps: "list_all scalar_value ps" "s = of_code_points ps" by blast
  then have "code_points s = ps" by (auto simp: list_all_iff scalar_value_def intro!: code_points_of)
  with ps show "scalar_text s" by (simp add: scalar_text_def)
qed (metis scalar_text_def)

lemma scalar_text_append: "scalar_text s \<Longrightarrow> scalar_text t \<Longrightarrow> scalar_text (s @ t)"
  unfolding scalar_text_iff
proof (elim exE conjE)
  fix ps qs assume "list_all scalar_value ps" "s = of_code_points ps" "list_all scalar_value qs" "t = of_code_points qs"
  then show "\<exists>rs. list_all scalar_value rs \<and> s @ t = of_code_points rs"
    by (intro exI [of _ "ps @ qs"]) (simp add: of_code_points_def)
qed

lemma scalar_text_join: "scalar_text d \<Longrightarrow> (\<And>x. x \<in> set xs \<Longrightarrow> scalar_text x) \<Longrightarrow> scalar_text (join d xs)"
proof (induction xs rule: induct_list012)
  case 1
  then show ?case by (simp add: scalar_text_ascii)
qed (simp_all add: scalar_text_append)

text \<open>The bytes of line-joined texts give the lines back.\<close>

lemma encode_lines_inject:
  assumes "xs \<noteq> []" "ys \<noteq> []" and "chr_code d < 128"
    and "\<And>x. x \<in> set (xs @ ys) \<Longrightarrow> scalar_text x \<and> d \<notin> set x"
    and "encode_text (join [d] xs) = encode_text (join [d] ys)"
  shows "xs = ys"
proof -
  have "scalar_text [d]" using assms(3) by (simp add: scalar_text_ascii)
  then have "join [d] xs = join [d] ys"
    using assms(4,5) by (simp add: scalar_text_join encode_text_inject)
  moreover have "split_at_char d (join [d] xs) = xs"
    by (rule split_join [OF assms(1)]) (simp add: assms(4))
  moreover have "split_at_char d (join [d] ys) = ys"
    by (rule split_join [OF assms(2)]) (simp add: assms(4))
  ultimately show ?thesis by metis
qed

end
