(* ===== verification/NearRpc.thy ===== *)
theory NearRpc
  imports Json Base64 Encoding
begin

text \<open>
  \<open>workers/relayer/src/near.ts\<close>: the relayer's JSON-RPC client and the derivation of a fast-auth
  account. The platform's \<open>fetch\<close> and the codecs and signatures of \<open>near-api-js\<close> and WebCrypto are
  parameters (\<open>fetcher\<close> and the record \<open>crypto\<close>). A request is a computation over an arbitrary
  state, so that whatever else runs while the reply is awaited may change it.
\<close>

text \<open>The error \<open>JSON.parse\<close> throws; its message is the engine's and no code of the program names it.\<close>

definition syntax_error :: string where
  "syntax_error = ''SyntaxError''"

text \<open>The error of reading a property of \<open>null\<close>.\<close>

definition type_error :: string where
  "type_error = ''TypeError''"

definition parse_json :: "string \<Rightarrow> string + json" where
  "parse_json s = (case json_parse s of Some v \<Rightarrow> Inr v | None \<Rightarrow> Inl syntax_error)"

text \<open>
  \<open>near-api-js\<close> and WebCrypto: base58, SHA-256, Ed25519 verification (key, signature, message), RSA keys
  (modulus and exponent) and RS256 verification, the public key, key type and signature of a private
  key text, the bytes of a public key text and verification with it (key, signature, message; false
  when it throws), and HMAC-SHA256 (key, message).
\<close>

record crypto =
  base_decode :: "string \<Rightarrow> bytes option"
  base_encode :: "bytes \<Rightarrow> string"
  sha256 :: "bytes \<Rightarrow> bytes"
  ed25519_verify :: "bytes \<Rightarrow> bytes \<Rightarrow> bytes \<Rightarrow> bool"
  rsa_import :: "string \<Rightarrow> string \<Rightarrow> bool"
  rsa_verify :: "string \<times> string \<Rightarrow> bytes \<Rightarrow> bytes \<Rightarrow> bool"
  key_pair_public :: "string \<Rightarrow> string option"
  key_pair_type :: "string \<Rightarrow> nat option"
  key_pair_sign :: "string \<Rightarrow> bytes \<Rightarrow> bytes"
  public_key_data :: "string \<Rightarrow> bytes option"
  public_key_verify :: "string \<Rightarrow> bytes \<Rightarrow> bytes \<Rightarrow> bool"
  hmac_sha256 :: "bytes \<Rightarrow> bytes \<Rightarrow> bytes"

section \<open>Outcomes\<close>

datatype tx_outcome =
    OSuccess "string option"
  | OFailed
  | OExpired
  | OInvalidNonce
  | ONotFound
  | OUnknown

text \<open>The chain's reply to \<open>view_access_key\<close>.\<close>

record access_key_view =
  ak_nonce :: int
  ak_block_hash :: string
  ak_full_access :: bool
  ak_block_height :: "int option"

record 's near_client =
  nc_view :: "string \<Rightarrow> string \<Rightarrow> json \<Rightarrow> ('s, json) act"
  nc_account_exists :: "string \<Rightarrow> ('s, bool) act"
  nc_access_key :: "string \<Rightarrow> string \<Rightarrow> ('s, access_key_view) act"
  nc_send_tx :: "string \<Rightarrow> ('s, tx_outcome) act"
  nc_tx_status :: "string \<Rightarrow> string \<Rightarrow> ('s, tx_outcome) act"

definition error_name :: "json \<Rightarrow> string" where
  "error_name v =
     (let cause = obj_get ''cause'' v
      in case as_str (Option.bind cause (obj_get ''name'')) of Some n \<Rightarrow> n | None \<Rightarrow> str_of ''name'' v)"

definition classify_send_error :: "json \<Rightarrow> tx_outcome" where
  "classify_send_error err =
     (let txt = json_text err
      in if error_name err = ''EXPIRED_TRANSACTION'' \<or> contains (CHR 0x22 # ''Expired'' @ [CHR 0x22]) txt
            \<or> contains ''EXPIRED_TRANSACTION'' txt then OExpired
         else if contains ''InvalidNonce'' txt then OInvalidNonce
         else OUnknown)"

definition classify_status_error :: "json \<Rightarrow> tx_outcome" where
  "classify_status_error err = (if error_name err = ''UNKNOWN_TRANSACTION'' then ONotFound else OUnknown)"

definition outcome_from_result :: "json option \<Rightarrow> tx_outcome" where
  "outcome_from_result res =
     (case Option.bind res (obj_get ''status'') of
        Some (JObj st) \<Rightarrow>
          (if map_of st ''Failure'' \<noteq> None then OFailed
           else case map_of st ''SuccessValue'' of
             Some v \<Rightarrow> (case v of JStr t \<Rightarrow> OSuccess (Some t) | _ \<Rightarrow> OUnknown)
           | None \<Rightarrow> (if map_of st ''SuccessReceiptId'' \<noteq> None then OSuccess None else OUnknown))
      | _ \<Rightarrow> OUnknown)"

section \<open>Requests\<close>

text \<open>
  \<open>fetcher url body\<close> gives the reply's \<open>ok\<close> and its parsed JSON (\<open>None\<close>: not JSON), or throws.
\<close>

type_synonym 's fetcher = "string \<Rightarrow> string \<Rightarrow> ('s, bool \<times> json option) act"

definition rpc_body :: "string \<Rightarrow> json \<Rightarrow> string" where
  "rpc_body method params =
     json_text (JObj [(''jsonrpc'', JStr ''2.0''), (''id'', JStr (''relayer-'' @ method)),
                      (''method'', JStr method), (''params'', params)])"

definition rpc :: "'s fetcher \<Rightarrow> string \<Rightarrow> string \<Rightarrow> json \<Rightarrow> ('s, json) act" where
  "rpc fetcher url method params =
     bnd (attempt (fetcher url (rpc_body method params))) (\<lambda>r.
       case r of Inl _ \<Rightarrow> throw ''rpc_unavailable''
       | Inr (ok, body) \<Rightarrow>
           if \<not> ok then throw ''rpc_unavailable''
           else case body of None \<Rightarrow> throw ''rpc_unavailable''
             | Some v \<Rightarrow> if has_fields v then ret v else throw ''rpc_unavailable'')"

text \<open>\<open>missing\<close>: the texts of the "does not exist" errors; such a reply is \<open>None\<close>.\<close>

definition query :: "'s fetcher \<Rightarrow> string \<Rightarrow> (string \<times> json) list \<Rightarrow> string list \<Rightarrow> ('s, json option) act" where
  "query fetcher url params missing =
     bnd (rpc fetcher url ''query'' (JObj (params @ [(''finality'', JStr ''final'')]))) (\<lambda>body.
       let err = obj_get ''error'' body; res = obj_get ''result'' body;
           cause = json_text (the (nullish_or err
             (nullish_or (Option.bind res (obj_get ''error'')) (Some (JStr [])))))
       in if list_ex (\<lambda>p. contains p cause) missing then ret None
          else case res of
            Some v \<Rightarrow> if truthy err \<or> \<not> has_fields v \<or> obj_get ''error'' v \<noteq> None
                       then throw ''rpc_unavailable'' else ret (Some v)
          | None \<Rightarrow> throw ''rpc_unavailable'')"

definition view_call :: "'s fetcher \<Rightarrow> string \<Rightarrow> string \<Rightarrow> string \<Rightarrow> json \<Rightarrow> ('s, json) act" where
  "view_call fetcher url contract method args =
     bnd (query fetcher url
            [(''request_type'', JStr ''call_function''), (''account_id'', JStr contract), (''method_name'', JStr method),
             (''args_base64'', JStr (btoa (encode_text (json_text args))))] []) (\<lambda>res.
       case Option.bind res (obj_get ''result'') of
         Some (JArr vs) \<Rightarrow>
           (if length vs > 64 * 1024 then throw ''rpc_unavailable''
            else case bytes_of vs of None \<Rightarrow> throw ''rpc_unavailable''
              | Some bs \<Rightarrow> lifting (parse_json (decode_text bs)))
       | _ \<Rightarrow> throw ''rpc_unavailable'')"

definition account_exists_call :: "'s fetcher \<Rightarrow> string \<Rightarrow> string \<Rightarrow> ('s, bool) act" where
  "account_exists_call fetcher url acc =
     bnd (query fetcher url [(''request_type'', JStr ''view_account''), (''account_id'', JStr acc)]
            [''UNKNOWN_ACCOUNT'', ''does not exist while viewing'']) (\<lambda>res. ret (res \<noteq> None))"

definition access_key_call :: "'s fetcher \<Rightarrow> string \<Rightarrow> string \<Rightarrow> string \<Rightarrow> ('s, access_key_view) act" where
  "access_key_call fetcher url acc pk =
     bnd (query fetcher url
            [(''request_type'', JStr ''view_access_key''), (''account_id'', JStr acc), (''public_key'', JStr pk)]
            [''UNKNOWN_ACCESS_KEY'', ''UNKNOWN_ACCOUNT'', ''does not exist while viewing'']) (\<lambda>res.
       case res of None \<Rightarrow> throw ''access_key_missing''
       | Some v \<Rightarrow>
           (case (json_safe_integer (obj_get ''nonce'' v), as_str (obj_get ''block_hash'' v)) of
              (Some n, Some h) \<Rightarrow>
                ret \<lparr>ak_nonce = n, ak_block_hash = h, ak_full_access = (obj_get ''permission'' v = Some (JStr ''FullAccess'')),
                     ak_block_height = json_safe_integer (obj_get ''block_height'' v)\<rparr>
            | _ \<Rightarrow> throw ''rpc_unavailable''))"

definition send_tx_call :: "'s fetcher \<Rightarrow> string \<Rightarrow> string \<Rightarrow> ('s, tx_outcome) act" where
  "send_tx_call fetcher url signed_tx =
     bnd (attempt (rpc fetcher url ''send_tx''
            (JObj [(''signed_tx_base64'', JStr signed_tx), (''wait_until'', JStr ''NONE'')]))) (\<lambda>r.
       case r of Inl _ \<Rightarrow> ret OUnknown
       | Inr body \<Rightarrow>
           ret (if truthy (obj_get ''error'' body) then classify_send_error (the (obj_get ''error'' body))
                else outcome_from_result (obj_get ''result'' body)))"

definition tx_status_call :: "'s fetcher \<Rightarrow> string \<Rightarrow> string \<Rightarrow> string \<Rightarrow> ('s, tx_outcome) act" where
  "tx_status_call fetcher url tx_hash sender =
     bnd (attempt (rpc fetcher url ''tx''
            (JObj [(''tx_hash'', JStr tx_hash), (''sender_account_id'', JStr sender),
                   (''wait_until'', JStr ''EXECUTED_OPTIMISTIC'')]))) (\<lambda>r.
       case r of Inl _ \<Rightarrow> ret OUnknown
       | Inr body \<Rightarrow>
           ret (if truthy (obj_get ''error'' body) then classify_status_error (the (obj_get ''error'' body))
                else outcome_from_result (obj_get ''result'' body)))"

definition create_near_client :: "string \<Rightarrow> 's fetcher \<Rightarrow> 's near_client" where
  "create_near_client url fetcher =
     \<lparr>nc_view = view_call fetcher url, nc_account_exists = account_exists_call fetcher url,
      nc_access_key = access_key_call fetcher url, nc_send_tx = send_tx_call fetcher url,
      nc_tx_status = tx_status_call fetcher url\<rparr>"

section \<open>Fast-auth accounts\<close>

record fast_auth_provider =
  fp_issuer :: string
  fp_signing_audience :: string
  fp_contract :: string
  fp_mpc_contract :: string
  fp_domain :: int

record account_key =
  acct_id :: string
  acct_public_key :: string

definition fast_auth_key :: "crypto \<Rightarrow> 's near_client \<Rightarrow> fast_auth_provider \<Rightarrow> string \<Rightarrow> ('s, account_key) act" where
  "fast_auth_key C near provider sub =
     bnd (gather [nc_view near (fp_contract provider) ''paused'' (JObj []),
                  nc_view near (fp_contract provider) ''mpc_address'' (JObj []),
                  nc_view near (fp_contract provider) ''mpc_domain_id'' (JObj [])]) (\<lambda>vs.
     bnd (require (vs ! 0 = JBool False \<and> vs ! 1 = JStr (fp_mpc_contract provider) \<and> vs ! 2 = JNum (of_int (fp_domain provider)))
            ''provider_configuration_changed'') (\<lambda>_.
     bnd (nc_view near (fp_mpc_contract provider) ''derived_public_key''
            (JObj [(''path'', JStr (''jwt#'' @ fp_issuer provider @ ''#'' @ sub)),
                   (''predecessor'', JStr (fp_contract provider)), (''domain_id'', JNum (of_int (fp_domain provider)))])) (\<lambda>derived.
       case derived of
         JStr d \<Rightarrow>
           (if \<not> starts_with ''ed25519:'' d then throw ''invalid_public_key''
            else case base_decode C (drop 8 d) of None \<Rightarrow> throw ''invalid_public_key''
              | Some raw \<Rightarrow>
                  if length raw \<noteq> 32 \<or> ''ed25519:'' @ base_encode C raw \<noteq> d then throw ''invalid_public_key''
                  else ret \<lparr>acct_id = hex_of raw, acct_public_key = d\<rparr>)
       | _ \<Rightarrow> throw ''invalid_public_key'')))"

definition fast_auth_account :: "crypto \<Rightarrow> 's near_client \<Rightarrow> fast_auth_provider \<Rightarrow> string \<Rightarrow> ('s, string) act" where
  "fast_auth_account C near provider sub =
     bnd (fast_auth_key C near provider sub) (\<lambda>k. ret (acct_id k))"

section \<open>What an outcome means\<close>

lemma send_error_outcomes: "classify_send_error err \<in> {OExpired, OInvalidNonce, OUnknown}"
  by (simp add: classify_send_error_def Let_def)

lemma status_error_outcomes: "classify_status_error err \<in> {ONotFound, OUnknown}"
  by (simp add: classify_status_error_def)

lemma result_failed:
  "outcome_from_result r = OFailed \<longleftrightarrow>
   (\<exists>v st. r = Some v \<and> obj_get ''status'' v = Some (JObj st) \<and> map_of st ''Failure'' \<noteq> None)"
  by (cases r) (auto simp: outcome_from_result_def split: option.splits json.splits if_splits)

lemma result_not_found: "outcome_from_result r \<noteq> ONotFound"
  by (auto simp: outcome_from_result_def split: option.splits json.splits if_splits)

text \<open>How a call that reads an outcome ends: from the reply, or \<open>OUnknown\<close> when there is none.\<close>

lemma rpc_Inr:
  "rpc fetcher url method params s = (Inr v, t) \<longleftrightarrow>
   fetcher url (rpc_body method params) s = (Inr (True, Some v), t) \<and> has_fields v"
  by (cases "fetcher url (rpc_body method params) s"; cases "fst (fetcher url (rpc_body method params) s)")
    (auto simp: rpc_def run_bnd run_attempt split: option.splits if_splits)

lemma rpc_throws:
  "rpc fetcher url method params s = (Inl e, t) \<Longrightarrow> e = ''rpc_unavailable''"
  by (cases "fetcher url (rpc_body method params) s"; cases "fst (fetcher url (rpc_body method params) s)")
    (auto simp: rpc_def run_bnd run_attempt split: option.splits if_splits)

lemma tx_status_run:
  "tx_status_call fetcher url h a s =
     (case rpc fetcher url ''tx'' (JObj [(''tx_hash'', JStr h), (''sender_account_id'', JStr a),
        (''wait_until'', JStr ''EXECUTED_OPTIMISTIC'')]) s of
        (Inl _, t) \<Rightarrow> (Inr OUnknown, t)
      | (Inr v, t) \<Rightarrow> (Inr (if truthy (obj_get ''error'' v) then classify_status_error (the (obj_get ''error'' v))
                          else outcome_from_result (obj_get ''result'' v)), t))"
  by (simp add: tx_status_call_def run_bnd run_attempt split: sum.splits prod.splits)

lemma send_tx_run:
  "send_tx_call fetcher url x s =
     (case rpc fetcher url ''send_tx'' (JObj [(''signed_tx_base64'', JStr x), (''wait_until'', JStr ''NONE'')]) s of
        (Inl _, t) \<Rightarrow> (Inr OUnknown, t)
      | (Inr v, t) \<Rightarrow> (Inr (if truthy (obj_get ''error'' v) then classify_send_error (the (obj_get ''error'' v))
                          else outcome_from_result (obj_get ''result'' v)), t))"
  by (simp add: send_tx_call_def run_bnd run_attempt split: sum.splits prod.splits)

text \<open>Nothing is known of what a call to the chain returns, or of the state it leaves.\<close>

lemmas wp_world =
  wp_any [where m = "nc_view near c f a" for near c f a]
  wp_any [where m = "nc_account_exists near a" for near a]
  wp_any [where m = "nc_access_key near a k" for near a k]
  wp_any [where m = "nc_send_tx near x" for near x]
  wp_any [where m = "nc_tx_status near x y" for near x y]

lemma wp_gather3:
  "(\<And>a b c t. Q [a, b, c] t) \<Longrightarrow> (\<And>e t. E e t) \<Longrightarrow> wp (gather [m1, m2, m3]) Q E s"
  by (rule wp_gather_length) (auto simp: length_Suc_conv)

text \<open>The fast-auth key is canonical, so the account is the hex of its 32 bytes.\<close>

lemma fast_auth_key_canonical:
  "wp (fast_auth_key C near provider sub)
     (\<lambda>k _. \<exists>raw. length raw = 32 \<and> acct_public_key k = ''ed25519:'' @ base_encode C raw
                \<and> base_decode C (drop 8 (acct_public_key k)) = Some raw \<and> acct_id k = hex_of raw \<and> hex64 (acct_id k))
     (\<lambda>_ _. True) s"
  unfolding fast_auth_key_def
  by (auto simp: wp_rules hex64_hex_of split: json.splits option.splits if_splits intro!: wp_gather3 wp_world)

end
