(* ===== verification/RelayerEnv.thy ===== *)
theory RelayerEnv
  imports NearRpc
begin

text \<open>
  \<open>workers/relayer/src/env.ts\<close>: the relayer's configuration, read from the environment. Every value
  must be present and well formed or there is no configuration at all; the device limits and the
  profile allowlist only close their own routes.
\<close>

record env =
  RELAYER_ENABLED :: "string option"
  RELAYER_MUTATIONS_ENABLED :: "string option"
  NEAR_NETWORK :: "string option"
  NEAR_RPC_URL :: "string option"
  RELAYER_ACCOUNT_ID :: "string option"
  RELAYER_PRIVATE_KEY :: "string option"
  NEAR_AUTH_CLIENT_ID :: "string option"
  CKD_GATE_ACCOUNT_IDS :: "string option"
  USDC_CONTRACT_ID :: "string option"
  ACCOUNT_FUNDING_YOCTO :: "string option"
  MAX_STORAGE_DEPOSIT_YOCTO :: "string option"
  DAILY_ACCOUNT_LIMIT :: "string option"
  DAILY_CKD_LIMIT :: "string option"
  IDENTITY_DAILY_CKD_LIMIT :: "string option"
  DAILY_INVITE_USDC_MICRO_LIMIT :: "string option"
  MARKET_V2_CONTRACT_ID :: "string option"
  DAILY_PURCHASE_LIMIT :: "string option"
  IDENTITY_DAILY_PURCHASE_LIMIT :: "string option"
  DAILY_UPLOAD_LIMIT :: "string option"
  IDENTITY_DAILY_UPLOAD_LIMIT :: "string option"
  DAILY_DEVICE_LIMIT :: "string option"
  TICKET_DAILY_DEVICE_LIMIT :: "string option"
  UPLOAD_PROFILE_HASH_ALLOWLIST :: "string option"
  INVITE_AMOUNTS_USDC_MICRO :: "string option"
  INVITE_TTL_DAYS :: "string option"
  ALLOWED_ORIGINS :: "string option"
  RELAYER_ADMIN_TOKEN :: "string option"

datatype network = Testnet | Mainnet

fun network_name :: "network \<Rightarrow> string" where
  "network_name Testnet = ''testnet''"
| "network_name Mainnet = ''mainnet''"

fun fast_auth_providers :: "network \<Rightarrow> fast_auth_provider option" where
  "fast_auth_providers Testnet = Some
     \<lparr>fp_issuer = ''https://login.testnet.fast-auth.com/'', fp_signing_audience = ''auth0.jwt.fast-auth.testnet'',
      fp_contract = ''fast-auth.testnet'', fp_mpc_contract = ''v1.signer-prod.testnet'', fp_domain = 1\<rparr>"
| "fast_auth_providers Mainnet = None"

text \<open>\<open>UPLOAD_PROFILE_HASH_ALLOWLIST\<close>: no restriction, a list, or malformed.\<close>

datatype allowlist = AnyHash | Hashes "string list" | InvalidList

record device_limits =
  dl_daily :: string
  dl_ticket_daily :: string

record relayer_settings =
  cfg_network :: network
  cfg_provider :: fast_auth_provider
  cfg_client_id :: string
  cfg_account_id :: string
  cfg_private_key :: string
  cfg_public_key :: string
  cfg_mutations_enabled :: bool
  cfg_ckd_gates :: "string list"
  cfg_usdc_contract :: string
  cfg_account_funding_yocto :: string
  cfg_max_storage_deposit_yocto :: string
  cfg_daily_account_limit :: string
  cfg_daily_ckd_limit :: string
  cfg_identity_daily_ckd_limit :: string
  cfg_daily_invite_usdc_micro_limit :: string
  cfg_market :: string
  cfg_daily_purchase_limit :: string
  cfg_identity_daily_purchase_limit :: string
  cfg_daily_upload_limit :: string
  cfg_identity_daily_upload_limit :: string
  cfg_devices :: "device_limits option"
  cfg_profile_hashes :: allowlist
  cfg_invite_amounts_micro :: "string list"
  cfg_invite_ttl_ms :: int
  cfg_allowed_origins :: "string list"

abbreviation positive :: "string \<Rightarrow> bool" where
  "positive s \<equiv> decimal1 30 s"

definition or_empty :: "string option \<Rightarrow> string" where
  "or_empty v = (case v of Some s \<Rightarrow> s | None \<Rightarrow> [])"

text \<open>\<open>(value ?? '').split(',').map(trim).filter(Boolean)\<close>\<close>

definition value_list :: "string option \<Rightarrow> string list" where
  "value_list v = filter (\<lambda>i. i \<noteq> []) (map js_trim (split_at_char CHR '','' (or_empty v)))"

text \<open>\<open>[...new Set(xs)]\<close>: the first of each.\<close>

definition first_of_each :: "'a list \<Rightarrow> 'a list" where
  "first_of_each xs = rev (remdups (rev xs))"

definition network_of_env :: "env \<Rightarrow> network option" where
  "network_of_env e =
     (if NEAR_NETWORK e = Some ''testnet'' then Some Testnet
      else if NEAR_NETWORK e = Some ''mainnet'' then Some Mainnet else None)"

definition required_numbers :: "env \<Rightarrow> string option list" where
  "required_numbers e =
     [ACCOUNT_FUNDING_YOCTO e, MAX_STORAGE_DEPOSIT_YOCTO e, DAILY_ACCOUNT_LIMIT e, DAILY_CKD_LIMIT e,
      IDENTITY_DAILY_CKD_LIMIT e, DAILY_INVITE_USDC_MICRO_LIMIT e, INVITE_TTL_DAYS e, DAILY_PURCHASE_LIMIT e,
      IDENTITY_DAILY_PURCHASE_LIMIT e, DAILY_UPLOAD_LIMIT e, IDENTITY_DAILY_UPLOAD_LIMIT e]"

definition values_ok :: "env \<Rightarrow> bool" where
  "values_ok e =
     (starts_with ''https://'' (or_empty (NEAR_RPC_URL e)) \<and> account_id (or_empty (RELAYER_ACCOUNT_ID e))
      \<and> account_id (or_empty (USDC_CONTRACT_ID e)) \<and> account_id (or_empty (MARKET_V2_CONTRACT_ID e))
      \<and> repeated is_b64url 1 128 (or_empty (NEAR_AUTH_CLIENT_ID e))
      \<and> list_all account_id (value_list (CKD_GATE_ACCOUNT_IDS e))
      \<and> value_list (INVITE_AMOUNTS_USDC_MICRO e) \<noteq> [] \<and> list_all positive (value_list (INVITE_AMOUNTS_USDC_MICRO e))
      \<and> list_all (\<lambda>u. https_origin u \<or> localhost_origin u) (value_list (ALLOWED_ORIGINS e))
      \<and> list_all (\<lambda>v. positive (or_empty v)) (required_numbers e)
      \<and> repeated is_b64url 32 256 (or_empty (RELAYER_ADMIN_TOKEN e)))"

definition device_limits_of :: "env \<Rightarrow> device_limits option" where
  "device_limits_of e =
     (if positive (or_empty (DAILY_DEVICE_LIMIT e)) \<and> positive (or_empty (TICKET_DAILY_DEVICE_LIMIT e))
      then Some \<lparr>dl_daily = or_empty (DAILY_DEVICE_LIMIT e), dl_ticket_daily = or_empty (TICKET_DAILY_DEVICE_LIMIT e)\<rparr>
      else None)"

definition profile_hashes_of :: "env \<Rightarrow> allowlist" where
  "profile_hashes_of e =
     (let hs = value_list (UPLOAD_PROFILE_HASH_ALLOWLIST e)
      in if \<not> list_all hex64 hs then InvalidList
         else if hs \<noteq> [] then Hashes (first_of_each hs) else AnyHash)"

text \<open>A product of doubles is rounded again.\<close>

definition invite_ttl_ms_of :: "env \<Rightarrow> int" where
  "invite_ttl_ms_of e =
     int (double_of_nat (double_of_nat (dec_val (or_empty (INVITE_TTL_DAYS e))) * 86400000))"

definition relayer_config :: "crypto \<Rightarrow> env \<Rightarrow> relayer_settings option" where
  "relayer_config C e =
     (if RELAYER_ENABLED e \<noteq> Some ''true'' then None
      else case network_of_env e of None \<Rightarrow> None
      | Some network \<Rightarrow>
        (case fast_auth_providers network of None \<Rightarrow> None
         | Some provider \<Rightarrow>
           if \<not> values_ok e then None
           else case Option.bind (RELAYER_PRIVATE_KEY e) (key_pair_public C) of None \<Rightarrow> None
           | Some public_key \<Rightarrow> Some
              \<lparr>cfg_network = network, cfg_provider = provider, cfg_client_id = or_empty (NEAR_AUTH_CLIENT_ID e),
               cfg_account_id = or_empty (RELAYER_ACCOUNT_ID e), cfg_private_key = or_empty (RELAYER_PRIVATE_KEY e),
               cfg_public_key = public_key, cfg_mutations_enabled = (RELAYER_MUTATIONS_ENABLED e = Some ''true''),
               cfg_ckd_gates = value_list (CKD_GATE_ACCOUNT_IDS e), cfg_usdc_contract = or_empty (USDC_CONTRACT_ID e),
               cfg_account_funding_yocto = or_empty (ACCOUNT_FUNDING_YOCTO e),
               cfg_max_storage_deposit_yocto = or_empty (MAX_STORAGE_DEPOSIT_YOCTO e),
               cfg_daily_account_limit = or_empty (DAILY_ACCOUNT_LIMIT e), cfg_daily_ckd_limit = or_empty (DAILY_CKD_LIMIT e),
               cfg_identity_daily_ckd_limit = or_empty (IDENTITY_DAILY_CKD_LIMIT e),
               cfg_daily_invite_usdc_micro_limit = or_empty (DAILY_INVITE_USDC_MICRO_LIMIT e),
               cfg_market = or_empty (MARKET_V2_CONTRACT_ID e), cfg_daily_purchase_limit = or_empty (DAILY_PURCHASE_LIMIT e),
               cfg_identity_daily_purchase_limit = or_empty (IDENTITY_DAILY_PURCHASE_LIMIT e),
               cfg_daily_upload_limit = or_empty (DAILY_UPLOAD_LIMIT e),
               cfg_identity_daily_upload_limit = or_empty (IDENTITY_DAILY_UPLOAD_LIMIT e),
               cfg_devices = device_limits_of e, cfg_profile_hashes = profile_hashes_of e,
               cfg_invite_amounts_micro = value_list (INVITE_AMOUNTS_USDC_MICRO e), cfg_invite_ttl_ms = invite_ttl_ms_of e,
               cfg_allowed_origins = value_list (ALLOWED_ORIGINS e)\<rparr>))"

end
