(* ===== verification/MarketChecks.thy ===== *)
theory MarketChecks
  imports RelayerEnv
begin

text \<open>
  \<open>workers/relayer/src/market.ts\<close>: what the relayer checks of a Market message before it pays for a
  signature and a relay: purchases, uploads, upload-key replacements and device links. Each check
  reads the Market's views through the client and throws a client error code.
\<close>

section \<open>Purchase messages\<close>

definition ticket_signature_domain :: string where
  "ticket_signature_domain = ''youtick.market-v2.ticket-sig.v1''"

definition vat_domain :: string where
  "vat_domain = ''youtick.market-v2.vat.v1''"

definition max_signature_ttl_ms :: int where
  "max_signature_ttl_ms = 3600000"

definition expiry_margin_ms :: int where
  "expiry_margin_ms = 60000"

definition min_ticket_price_usdc :: int where
  "min_ticket_price_usdc = 5000000"

abbreviation decimal :: "string \<Rightarrow> bool" where
  "decimal s \<equiv> decimal0 38 s"

record device_part =
  dp_session_public_key :: string
  dp_certificate_sha256 :: string
  dp_expires_at_ms :: string
  dp_signature :: string

record vat_part =
  vp_vat_usdc_micro :: string
  vp_expires_at_ms :: string
  vp_key_version :: string
  vp_signature :: string

record purchase_message =
  pm_publication_id :: string
  pm_ticket_public_key :: string
  pm_device :: device_part
  pm_vat :: vat_part

definition exact_strings :: "json option \<Rightarrow> string list \<Rightarrow> bool" where
  "exact_strings v ks = (case v of
      Some (JObj ms) \<Rightarrow> sorted_keys (JObj ms) = join '','' (sort ks) \<and> list_all (\<lambda>k. has_str k (JObj ms)) ks
    | _ \<Rightarrow> False)"

definition read_device :: "json \<Rightarrow> device_part" where
  "read_device v =
     \<lparr>dp_session_public_key = str_of ''session_public_key'' v, dp_certificate_sha256 = str_of ''certificate_sha256'' v,
      dp_expires_at_ms = str_of ''expires_at_ms'' v, dp_signature = str_of ''signature'' v\<rparr>"

definition read_vat :: "json \<Rightarrow> vat_part" where
  "read_vat v =
     \<lparr>vp_vat_usdc_micro = str_of ''vat_usdc_micro'' v, vp_expires_at_ms = str_of ''expires_at_ms'' v,
      vp_key_version = str_of ''key_version'' v, vp_signature = str_of ''signature'' v\<rparr>"

definition parse_message :: "string \<Rightarrow> string + purchase_message" where
  "parse_message msg =
     (case json_parse msg of None \<Rightarrow> Inl ''purchase_invalid''
      | Some v \<Rightarrow>
          if json_text v \<noteq> msg then Inl ''purchase_invalid''
          else if \<not> is_obj v \<or> sorted_keys v \<noteq> ''action,device,publication_id,ticket_public_key,vat''
             \<or> obj_get ''action'' v \<noteq> Some (JStr ''buy_ticket_v2'') \<or> \<not> has_str ''publication_id'' v
             \<or> \<not> has_str ''ticket_public_key'' v
             \<or> \<not> exact_strings (obj_get ''device'' v) [''session_public_key'', ''certificate_sha256'', ''expires_at_ms'', ''signature'']
             \<or> \<not> exact_strings (obj_get ''vat'' v) [''vat_usdc_micro'', ''expires_at_ms'', ''key_version'', ''signature'']
          then Inl ''purchase_invalid''
          else Inr \<lparr>pm_publication_id = str_of ''publication_id'' v, pm_ticket_public_key = str_of ''ticket_public_key'' v,
                    pm_device = read_device (the (obj_get ''device'' v)), pm_vat = read_vat (the (obj_get ''vat'' v))\<rparr>)"

definition ed25519_key :: "crypto \<Rightarrow> string \<Rightarrow> string \<Rightarrow> string + bytes" where
  "ed25519_key C v code =
     (if \<not> starts_with ''ed25519:'' v then Inl code
      else case base_decode C (drop 8 v) of None \<Rightarrow> Inl code
        | Some raw \<Rightarrow> if length raw \<noteq> 32 \<or> base_encode C raw \<noteq> drop 8 v then Inl code else Inr raw)"

definition newline :: string where
  "newline = [CHR 0x0A]"

definition signed_lines :: "string list \<Rightarrow> string \<Rightarrow> string + bytes" where
  "signed_lines lines code =
     (if list_ex (\<lambda>f. f = [] \<or> has_line_break f) lines then Inl code
      else Inr (encode_text (join newline lines)))"

definition verify_ed25519 :: "crypto \<Rightarrow> string \<Rightarrow> bytes \<Rightarrow> bytes \<Rightarrow> bool" where
  "verify_ed25519 C signature message key =
     (base64_signature signature \<and>
      (case atob signature of None \<Rightarrow> False
       | Some bs \<Rightarrow> btoa bs = signature \<and> ed25519_verify C key bs message))"

definition expiry :: "string \<Rightarrow> int \<Rightarrow> string \<Rightarrow> string + unit" where
  "expiry v now_ms invalid =
     (if \<not> decimal v then Inl invalid
      else let expires = js_number v
           in if \<not> safe_integer expires \<or> expires \<le> now_ms + expiry_margin_ms then Inl ''signature_expired''
              else if expires - now_ms > max_signature_ttl_ms then Inl invalid
              else Inr ())"

definition sha256_hex :: "crypto \<Rightarrow> bytes \<Rightarrow> string" where
  "sha256_hex C bs = hex_of (sha256 C bs)"

definition network_of :: "string \<Rightarrow> string + string" where
  "network_of contract =
     (if ends_with ''.testnet'' contract then Inr ''testnet''
      else if ends_with ''.near'' contract then Inr ''mainnet''
      else Inl ''invalid_request'')"

definition purchase_expires_at_ms :: "string \<Rightarrow> string + int" where
  "purchase_expires_at_ms msg =
     ebind (parse_message msg) (\<lambda>p.
       Inr (min (js_number (dp_expires_at_ms (pm_device p))) (js_number (vp_expires_at_ms (pm_vat p)))))"

text \<open>
  \<open>BigInt(text)\<close> of a decimal numeral. The other texts \<open>BigInt\<close> takes (signs, spaces, hex) do not
  reach these calls: the routes accept decimal amounts only.
\<close>

definition big_int :: "string \<Rightarrow> string + int" where
  "big_int s = (if s \<noteq> [] \<and> list_all is_digit s then Inr (int (dec_val s)) else Inl syntax_error)"

record ticket_ids =
  ti_publication :: string
  ti_ticket :: string

text \<open>The part of the check before any view is read: the fields, the keys and the expiries.\<close>

definition purchase_fields :: "crypto \<Rightarrow> int \<Rightarrow> string \<Rightarrow> string + purchase_message \<times> bytes" where
  "purchase_fields C now_ms msg =
     ebind (parse_message msg) (\<lambda>p.
     ebind (erequire (ident128 (pm_publication_id p) \<and> hex64 (dp_certificate_sha256 (pm_device p))
              \<and> decimal (vp_vat_usdc_micro (pm_vat p)) \<and> decimal0 9 (vp_key_version (pm_vat p))
              \<and> js_number (vp_key_version (pm_vat p)) \<le> 4294967295) ''purchase_invalid'') (\<lambda>_.
     ebind (ed25519_key C (pm_ticket_public_key p) ''purchase_invalid'') (\<lambda>key.
     ebind (ed25519_key C (dp_session_public_key (pm_device p)) ''purchase_invalid'') (\<lambda>_.
     ebind (expiry (dp_expires_at_ms (pm_device p)) now_ms ''purchase_invalid'') (\<lambda>_.
     ebind (expiry (vp_expires_at_ms (pm_vat p)) now_ms ''purchase_invalid'') (\<lambda>_. Inr (p, key)))))))"

definition beta_open :: "json \<Rightarrow> int \<Rightarrow> bool" where
  "beta_open beta now_ms =
     (beta = JNull \<or>
      (obj_get ''closed_at_ms'' beta = Some JNull \<and> has_str ''ends_at_ms'' beta
       \<and> repeated is_digit 1 20 (str_of ''ends_at_ms'' beta) \<and> now_ms < js_number (str_of ''ends_at_ms'' beta)))"

text \<open>The lines the ticket key and the VAT key sign.\<close>

definition device_lines :: "string \<Rightarrow> string \<Rightarrow> string \<Rightarrow> purchase_message \<Rightarrow> string list" where
  "device_lines network market ticket p =
     [ticket_signature_domain, network, market, ''purchase_device'', ticket, dp_expires_at_ms (pm_device p),
      pm_publication_id p, dp_session_public_key (pm_device p), dp_certificate_sha256 (pm_device p)]"

definition vat_lines :: "string \<Rightarrow> string \<Rightarrow> string \<Rightarrow> string \<Rightarrow> purchase_message \<Rightarrow> string list" where
  "vat_lines network market ticket amount p =
     [vat_domain, network, market, ticket, pm_publication_id p, amount, vp_vat_usdc_micro (pm_vat p),
      vp_expires_at_ms (pm_vat p), vp_key_version (pm_vat p)]"

text \<open>The part after the views: publication, ticket, VAT key, governance and beta, in that order.\<close>

definition purchase_verdict ::
  "crypto \<Rightarrow> string \<Rightarrow> string \<Rightarrow> int \<Rightarrow> purchase_message \<Rightarrow> bytes \<Rightarrow> json list \<Rightarrow> string + ticket_ids" where
  "purchase_verdict C market amount now_ms p key vs =
     (let ticket_id = sha256_hex C key; publication = vs ! 0; ticket = vs ! 1; vat_key = vs ! 2;
          governance = vs ! 3; beta = vs ! 4
      in ebind (erequire (obj_get ''new_purchases_paused'' governance = Some (JBool False) \<and> beta_open beta now_ms)
                  ''purchases_paused'') (\<lambda>_.
         ebind (erequire (obj_get ''publication_id'' publication = Some (JStr (pm_publication_id p))
                  \<and> obj_get ''availability'' publication = Some (JStr ''ACTIVE'')) ''publication_unavailable'') (\<lambda>_.
         ebind (erequire (obj_get ''price_usdc'' publication = Some (JStr amount)) ''price_mismatch'') (\<lambda>_.
         ebind (big_int amount) (\<lambda>price.
         ebind (erequire (min_ticket_price_usdc \<le> price) ''publication_unavailable'') (\<lambda>_.
         ebind (erequire (ticket = JNull) ''ticket_exists'') (\<lambda>_.
         ebind (case vat_key of JStr k \<Rightarrow> Inr k | _ \<Rightarrow> Inl ''purchase_invalid'') (\<lambda>vat_pk.
         ebind (network_of market) (\<lambda>network.
         ebind (signed_lines (device_lines network market ticket_id p) ''purchase_invalid'') (\<lambda>device_message.
         ebind (signed_lines (vat_lines network market ticket_id amount p) ''purchase_invalid'') (\<lambda>vat_message.
         ebind (erequire (verify_ed25519 C (dp_signature (pm_device p)) device_message key) ''purchase_invalid'') (\<lambda>_.
         ebind (ed25519_key C vat_pk ''purchase_invalid'') (\<lambda>vk.
         ebind (erequire (verify_ed25519 C (vp_signature (pm_vat p)) vat_message vk) ''purchase_invalid'') (\<lambda>_.
           Inr \<lparr>ti_publication = pm_publication_id p, ti_ticket = ticket_id\<rparr>))))))))))))))"

definition check_purchase_message ::
  "crypto \<Rightarrow> 's near_client \<Rightarrow> string \<Rightarrow> string \<Rightarrow> string \<Rightarrow> int \<Rightarrow> ('s, ticket_ids) act" where
  "check_purchase_message C near market amount msg now_ms =
     bnd (lifting (purchase_fields C now_ms msg)) (\<lambda>(p, key).
     bnd (gather
       [nc_view near market ''get_publication'' (JObj [(''publication_id'', JStr (pm_publication_id p))]),
        nc_view near market ''get_ticket'' (JObj [(''ticket_id'', JStr (sha256_hex C key))]),
        nc_view near market ''get_vat_public_key'' (JObj [(''key_version'', JNum (of_int (js_number (vp_key_version (pm_vat p)))))]),
        nc_view near market ''get_governance_state'' (JObj []),
        nc_view near market ''get_public_testnet_beta_state'' (JObj [])]) (\<lambda>vs.
     lifting (purchase_verdict C market amount now_ms p key vs)))"

section \<open>Uploads\<close>

definition upload_keys :: string where
  "upload_keys = ''action,job_id,title,price_usdc,expected_source_bytes,profile_id,profile_config_sha256,upload_public_key,upload_key_expires_at_ms''"

definition upload_profile_id :: string where
  "upload_profile_id = ''paid-media-v1''"

definition max_source_bytes :: int where
  "max_source_bytes = 20000000000"

definition max_title_bytes :: nat where
  "max_title_bytes = 200"

definition fee_numerator :: int where
  "fee_numerator = 3"

definition fee_denominator :: int where
  "fee_denominator = 10000"

definition fee_minimum :: int where
  "fee_minimum = 500000"

record upload_message =
  um_action :: string
  um_job_id :: string
  um_title :: string
  um_price_usdc :: string
  um_expected_source_bytes :: string
  um_profile_id :: string
  um_profile_config_sha256 :: string
  um_upload_public_key :: string
  um_upload_key_expires_at_ms :: string

definition parse_upload_message :: "string \<Rightarrow> string + upload_message" where
  "parse_upload_message msg =
     (case json_parse msg of None \<Rightarrow> Inl ''upload_invalid''
      | Some v \<Rightarrow>
          if json_text v \<noteq> msg then Inl ''upload_invalid''
          else if \<not> is_obj v \<or> listed_keys v \<noteq> upload_keys \<or> \<not> list_all (\<lambda>k. has_str k v) (obj_keys v)
             \<or> obj_get ''action'' v \<noteq> Some (JStr ''create_paid_job'')
          then Inl ''upload_invalid''
          else Inr \<lparr>um_action = str_of ''action'' v, um_job_id = str_of ''job_id'' v, um_title = str_of ''title'' v,
                    um_price_usdc = str_of ''price_usdc'' v, um_expected_source_bytes = str_of ''expected_source_bytes'' v,
                    um_profile_id = str_of ''profile_id'' v, um_profile_config_sha256 = str_of ''profile_config_sha256'' v,
                    um_upload_public_key = str_of ''upload_public_key'' v,
                    um_upload_key_expires_at_ms = str_of ''upload_key_expires_at_ms'' v\<rparr>)"

definition upload_fee_usdc_micro :: "string \<Rightarrow> string" where
  "upload_fee_usdc_micro source_bytes =
     (let b = int (dec_val source_bytes);
          fee = (b * fee_numerator + fee_denominator - 1) div fee_denominator
      in show_int (if fee > fee_minimum then fee else fee_minimum))"

definition future_ms :: "string \<Rightarrow> int \<Rightarrow> string \<Rightarrow> string + int" where
  "future_ms v now_ms code =
     (if \<not> decimal v then Inl ''upload_invalid''
      else let expires = js_number v
           in if \<not> safe_integer expires then Inl ''upload_invalid''
              else if expires \<le> now_ms + expiry_margin_ms then Inl code
              else Inr expires)"

definition upload_expires_at_ms :: "string \<Rightarrow> string + int" where
  "upload_expires_at_ms msg = ebind (parse_upload_message msg) (\<lambda>u. Inr (js_number (um_upload_key_expires_at_ms u)))"

definition upload_fields :: "crypto \<Rightarrow> string \<Rightarrow> string \<Rightarrow> int \<Rightarrow> allowlist \<Rightarrow> string + upload_message" where
  "upload_fields C amount msg now_ms hashes =
     ebind (erequire (hashes \<noteq> InvalidList) ''uploads_misconfigured'') (\<lambda>_.
     ebind (parse_upload_message msg) (\<lambda>u.
     ebind (erequire (ident128 (um_job_id u) \<and> js_trim (um_title u) \<noteq> [] \<and> length (encode_text (um_title u)) \<le> max_title_bytes
              \<and> \<not> has_control (um_title u) \<and> decimal (um_price_usdc u) \<and> min_ticket_price_usdc \<le> int (dec_val (um_price_usdc u))
              \<and> decimal (um_expected_source_bytes u) \<and> 1 \<le> int (dec_val (um_expected_source_bytes u))
              \<and> int (dec_val (um_expected_source_bytes u)) \<le> max_source_bytes \<and> um_profile_id u = upload_profile_id
              \<and> hex64 (um_profile_config_sha256 u)) ''upload_invalid'') (\<lambda>_.
     ebind (erequire (case hashes of Hashes hs \<Rightarrow> um_profile_config_sha256 u \<in> set hs | _ \<Rightarrow> True) ''profile_not_allowed'') (\<lambda>_.
     ebind (ed25519_key C (um_upload_public_key u) ''upload_invalid'') (\<lambda>_.
     ebind (future_ms (um_upload_key_expires_at_ms u) now_ms ''upload_key_expired'') (\<lambda>_.
     ebind (erequire (amount = upload_fee_usdc_micro (um_expected_source_bytes u)) ''fee_mismatch'') (\<lambda>_. Inr u)))))))"

definition identical_job :: "string \<Rightarrow> string \<Rightarrow> upload_message \<Rightarrow> json \<Rightarrow> bool" where
  "identical_job account amount u job =
     (obj_get ''creator_id'' job = Some (JStr account) \<and> obj_get ''title'' job = Some (JStr (um_title u))
      \<and> obj_get ''price_usdc'' job = Some (JStr (um_price_usdc u))
      \<and> obj_get ''expected_source_bytes'' job = Some (JStr (um_expected_source_bytes u))
      \<and> obj_get ''profile_id'' job = Some (JStr (um_profile_id u))
      \<and> obj_get ''profile_config_sha256'' job = Some (JStr (um_profile_config_sha256 u))
      \<and> obj_get ''upload_public_key'' job = Some (JStr (um_upload_public_key u))
      \<and> obj_get ''upload_key_expires_at_ms'' job = Some (JStr (um_upload_key_expires_at_ms u))
      \<and> obj_get ''fee_asset'' job = Some (JStr ''USDC'') \<and> obj_get ''fee_amount'' job = Some (JStr amount)
      \<and> obj_get ''fee_usd_micro'' job = Some (JStr amount) \<and> obj_get ''fee_quote_hash'' job = Some JNull)"

definition upload_verdict :: "string \<Rightarrow> string \<Rightarrow> upload_message \<Rightarrow> json list \<Rightarrow> string + string" where
  "upload_verdict account amount u vs =
     (let governance = vs ! 0; beta = vs ! 1; policy = vs ! 2; job = vs ! 3
      in ebind (erequire (obj_get ''new_purchases_paused'' governance = Some (JBool False)) ''uploads_paused'') (\<lambda>_.
         ebind (erequire (beta = JNull \<and> policy = JNull) ''quote_required'') (\<lambda>_.
           if job \<noteq> JNull then Inl (if identical_job account amount u job then ''job_exists'' else ''job_conflict'')
           else Inr (um_job_id u))))"

definition check_upload_message ::
  "crypto \<Rightarrow> 's near_client \<Rightarrow> string \<Rightarrow> string \<Rightarrow> string \<Rightarrow> string \<Rightarrow> int \<Rightarrow> allowlist \<Rightarrow> ('s, string) act" where
  "check_upload_message C near market account amount msg now_ms hashes =
     bnd (lifting (upload_fields C amount msg now_ms hashes)) (\<lambda>u.
     bnd (gather
       [nc_view near market ''get_governance_state'' (JObj []),
        nc_view near market ''get_public_testnet_beta_state'' (JObj []),
        nc_view near market ''get_public_upload_policy'' (JObj []),
        nc_view near market ''get_media_job'' (JObj [(''job_id'', JStr (um_job_id u))])]) (\<lambda>vs.
     lifting (upload_verdict account amount u vs)))"

record upload_key_args =
  ua_job_id :: string
  ua_new_public_key :: string
  ua_expires_at_ms :: string

definition upload_key_verdict :: "string \<Rightarrow> json list \<Rightarrow> string + unit" where
  "upload_key_verdict account vs =
     (let job = vs ! 0; policy = vs ! 1
      in ebind (erequire (job \<noteq> JNull) ''job_not_found'') (\<lambda>_.
         ebind (erequire (obj_get ''creator_id'' job = Some (JStr account)) ''job_conflict'') (\<lambda>_.
         ebind (erequire (obj_get ''status'' job = Some (JStr ''Authorized'')) ''job_published'') (\<lambda>_.
         erequire (policy = JNull) ''quote_required''))))"

definition check_upload_key_args ::
  "crypto \<Rightarrow> 's near_client \<Rightarrow> string \<Rightarrow> string \<Rightarrow> upload_key_args \<Rightarrow> int \<Rightarrow> ('s, unit) act" where
  "check_upload_key_args C near market account args now_ms =
     bnd (lifting (ed25519_key C (ua_new_public_key args) ''upload_invalid'')) (\<lambda>_.
     bnd (lifting (future_ms (ua_expires_at_ms args) now_ms ''upload_key_expired'')) (\<lambda>_.
     bnd (gather
       [nc_view near market ''get_media_job'' (JObj [(''job_id'', JStr (ua_job_id args))]),
        nc_view near market ''get_public_upload_policy'' (JObj [])]) (\<lambda>vs.
     lifting (upload_key_verdict account vs))))"

section \<open>Device links\<close>

definition add_device_keys :: "string list" where
  "add_device_keys = [''ticket_id'', ''session_public_key'', ''certificate_sha256'', ''device_epoch'', ''expires_at_ms'', ''signature'']"

record add_device_args =
  ad_ticket_id :: string
  ad_session_public_key :: string
  ad_certificate_sha256 :: string
  ad_device_epoch :: string
  ad_expires_at_ms :: string
  ad_signature :: string

definition max_ticket_devices :: nat where
  "max_ticket_devices = 3"

definition device_renew_within_ms :: int where
  "device_renew_within_ms = 7 * 86400000"

definition device_min_runway_bytes :: int where
  "device_min_runway_bytes = 26000"

definition playable_statuses :: "string list" where
  "playable_statuses = [''purchased'', ''watched'', ''watched_in_escrow'', ''released'']"

record device_view =
  dv_session_public_key :: string
  dv_authorized_at_ms :: string
  dv_expires_at_ms :: string

definition is_canonical_ed25519 :: "crypto \<Rightarrow> string \<Rightarrow> bool" where
  "is_canonical_ed25519 C v = (case ed25519_key C v ''purchase_invalid'' of Inl _ \<Rightarrow> False | Inr _ \<Rightarrow> True)"

definition parse_add_device_args :: "json option \<Rightarrow> string + add_device_args" where
  "parse_add_device_args value =
     (if \<not> exact_strings value add_device_keys then Inl ''invalid_request''
      else let v = the value
           in Inr \<lparr>ad_ticket_id = str_of ''ticket_id'' v, ad_session_public_key = str_of ''session_public_key'' v,
                   ad_certificate_sha256 = str_of ''certificate_sha256'' v, ad_device_epoch = str_of ''device_epoch'' v,
                   ad_expires_at_ms = str_of ''expires_at_ms'' v, ad_signature = str_of ''signature'' v\<rparr>)"

definition device_request_id :: "crypto \<Rightarrow> add_device_args \<Rightarrow> string" where
  "device_request_id C a =
     sha256_hex C (encode_text (join ''|'' [''device'', ad_ticket_id a, ad_session_public_key a, ad_certificate_sha256 a,
       ad_device_epoch a, ad_expires_at_ms a]))"

definition read_device_view :: "json \<Rightarrow> device_view option" where
  "read_device_view d =
     (if has_str ''session_public_key'' d \<and> has_str ''expires_at_ms'' d \<and> decimal (str_of ''expires_at_ms'' d)
         \<and> has_str ''authorized_at_ms'' d \<and> decimal (str_of ''authorized_at_ms'' d)
      then Some \<lparr>dv_session_public_key = str_of ''session_public_key'' d, dv_authorized_at_ms = str_of ''authorized_at_ms'' d,
                 dv_expires_at_ms = str_of ''expires_at_ms'' d\<rparr>
      else None)"

definition ticket_devices :: "json \<Rightarrow> string + device_view list" where
  "ticket_devices ticket =
     (case obj_get ''devices'' ticket of
        Some (JArr ds) \<Rightarrow>
          (if list_all (\<lambda>d. read_device_view d \<noteq> None) ds then Inr (map (\<lambda>d. the (read_device_view d)) ds)
           else Inl ''rpc_unavailable'')
      | _ \<Rightarrow> Inl ''rpc_unavailable'')"

record device_check =
  dc_listed :: bool
  dc_renewal :: bool
  dc_evicts :: "string option"

definition add_device_fields :: "crypto \<Rightarrow> add_device_args \<Rightarrow> int \<Rightarrow> string + unit" where
  "add_device_fields C a now_ms =
     ebind (erequire (hex64 (ad_ticket_id a) \<and> hex64 (ad_certificate_sha256 a) \<and> ed25519_text (ad_session_public_key a)
              \<and> decimal0 9 (ad_device_epoch a) \<and> js_number (ad_device_epoch a) \<le> 4294967295
              \<and> base64_signature (ad_signature a)) ''device_invalid'') (\<lambda>_.
     ebind (ed25519_key C (ad_session_public_key a) ''device_invalid'') (\<lambda>_.
     expiry (ad_expires_at_ms a) now_ms ''device_invalid''))"

text \<open>The ticket as the contract shows it: its devices, and the 32 bytes of its key.\<close>

definition playable_ticket :: "crypto \<Rightarrow> add_device_args \<Rightarrow> json \<Rightarrow> string + device_view list \<times> bytes" where
  "playable_ticket C a ticket =
     ebind (erequire (ticket \<noteq> JNull) ''ticket_not_found'') (\<lambda>_.
     ebind (erequire (obj_get ''ticket_id'' ticket = Some (JStr (ad_ticket_id a)) \<and> has_str ''ticket_public_key'' ticket
              \<and> has_str ''publication_id'' ticket \<and> json_safe_integer (obj_get ''device_epoch'' ticket) \<noteq> None)
              ''rpc_unavailable'') (\<lambda>_.
     ebind (ticket_devices ticket) (\<lambda>devices.
     ebind (erequire (has_str ''status'' ticket \<and> str_of ''status'' ticket \<in> set playable_statuses) ''ticket_not_playable'') (\<lambda>_.
     ebind (ed25519_key C (str_of ''ticket_public_key'' ticket) ''device_invalid'') (\<lambda>key.
     ebind (erequire (sha256_hex C key = ad_ticket_id a) ''device_invalid'') (\<lambda>_. Inr (devices, key)))))))"

definition add_device_lines :: "string \<Rightarrow> string \<Rightarrow> add_device_args \<Rightarrow> string list" where
  "add_device_lines network market a =
     [ticket_signature_domain, network, market, ''add_device'', ad_ticket_id a, ad_expires_at_ms a,
      ad_session_public_key a, ad_certificate_sha256 a, ad_device_epoch a]"

definition add_device_signature :: "crypto \<Rightarrow> string \<Rightarrow> add_device_args \<Rightarrow> json \<Rightarrow> bytes \<Rightarrow> json \<Rightarrow> string + unit" where
  "add_device_signature C market a ticket key publication =
     ebind (erequire (obj_get ''publication_id'' publication = obj_get ''publication_id'' ticket
              \<and> obj_get ''availability'' publication \<noteq> Some (JStr ''TAKEDOWN'')) ''publication_unavailable'') (\<lambda>_.
     ebind (network_of market) (\<lambda>network.
     ebind (signed_lines (add_device_lines network market a) ''device_invalid'') (\<lambda>message.
     erequire (verify_ed25519 C (ad_signature a) message key) ''device_invalid'')))"

definition active_devices :: "device_view list \<Rightarrow> int \<Rightarrow> device_view list" where
  "active_devices devices now_ms = filter (\<lambda>d. js_number (dv_expires_at_ms d) > now_ms) devices"

definition own_device :: "device_view list \<Rightarrow> add_device_args \<Rightarrow> int \<Rightarrow> device_view option" where
  "own_device devices a now_ms =
     find (\<lambda>d. dv_session_public_key d = ad_session_public_key a) (active_devices devices now_ms)"

definition runway_verdict :: "json \<Rightarrow> string + unit" where
  "runway_verdict reserve =
     ebind (erequire (has_str ''reserve_runway_bytes'' reserve \<and> decimal (str_of ''reserve_runway_bytes'' reserve))
              ''rpc_unavailable'') (\<lambda>_.
     erequire (device_min_runway_bytes \<le> int (dec_val (str_of ''reserve_runway_bytes'' reserve))) ''storage_unavailable'')"

definition check_add_device_args ::
  "crypto \<Rightarrow> 's near_client \<Rightarrow> string \<Rightarrow> add_device_args \<Rightarrow> int \<Rightarrow> ('s, device_check) act" where
  "check_add_device_args C near market a now_ms =
     bnd (lifting (add_device_fields C a now_ms)) (\<lambda>_.
     bnd (nc_view near market ''get_ticket'' (JObj [(''ticket_id'', JStr (ad_ticket_id a))])) (\<lambda>ticket.
     bnd (lifting (playable_ticket C a ticket)) (\<lambda>(devices, key).
     bnd (nc_view near market ''get_publication'' (JObj [(''publication_id'', JStr (str_of ''publication_id'' ticket))])) (\<lambda>publication.
     bnd (lifting (add_device_signature C market a ticket key publication)) (\<lambda>_.
       let own = own_device devices a now_ms
       in if (case own of Some d \<Rightarrow> js_number (dv_expires_at_ms d) > now_ms + device_renew_within_ms | None \<Rightarrow> False)
          then ret \<lparr>dc_listed = True, dc_renewal = False, dc_evicts = None\<rparr>
          else
            bnd (require (json_safe_integer (obj_get ''device_epoch'' ticket) = Some (js_number (ad_device_epoch a)))
                   ''device_epoch_stale'') (\<lambda>_.
            bnd (nc_view near market ''get_storage_reserve_status'' (JObj [])) (\<lambda>reserve.
            bnd (lifting (runway_verdict reserve)) (\<lambda>_.
              let others = filter (\<lambda>d. dv_session_public_key d \<noteq> ad_session_public_key a) (active_devices devices now_ms)
              in ret \<lparr>dc_listed = False, dc_renewal = (own \<noteq> None),
                      dc_evicts = (if length others \<ge> max_ticket_devices then Some (dv_session_public_key (hd others)) else None)\<rparr>))))))))"

section \<open>Facts on the parts\<close>

lemma wp_lifting_Inr: "(\<And>x. r = Inr x \<Longrightarrow> Q x s) \<Longrightarrow> (\<And>e. r = Inl e \<Longrightarrow> E e s) \<Longrightarrow> wp (lifting r) Q E s"
  by (simp add: wp_lifting split: sum.splits)

lemma safe_integer_nat: "safe_integer (int n) \<longleftrightarrow> int n \<le> max_safe"
  by (simp add: safe_integer_def)

lemma expiry_Inr:
  "expiry v now_ms code = Inr u \<longleftrightarrow>
   decimal v \<and> int (dec_val v) \<le> max_safe \<and> now_ms + 60000 < int (dec_val v) \<and> int (dec_val v) - now_ms \<le> 3600000"
proof (cases "int (dec_val v) \<le> max_safe")
  case True
  then show ?thesis
    by (auto simp: expiry_def Let_def js_number_exact safe_integer_nat expiry_margin_ms_def max_signature_ttl_ms_def
        split: if_splits)
next
  case False
  then show ?thesis by (simp add: expiry_def Let_def js_number_safe_iff)
qed

lemma future_ms_Inr:
  "future_ms v now_ms code = Inr n \<longleftrightarrow>
   decimal v \<and> n = int (dec_val v) \<and> n \<le> max_safe \<and> now_ms + 60000 < n"
proof (cases "int (dec_val v) \<le> max_safe")
  case True
  then show ?thesis
    by (auto simp: future_ms_def Let_def js_number_exact safe_integer_nat expiry_margin_ms_def split: if_splits)
next
  case False
  then show ?thesis by (auto simp: future_ms_def Let_def js_number_safe_iff)
qed

lemma ed25519_key_Inr:
  "ed25519_key C v code = Inr raw \<longleftrightarrow>
   starts_with ''ed25519:'' v \<and> base_decode C (drop 8 v) = Some raw \<and> length raw = 32 \<and> base_encode C raw = drop 8 v"
  by (auto simp: ed25519_key_def split: option.splits if_splits)

lemma ed25519_key_text:
  assumes "ed25519_key C v code = Inr raw"
  shows "v = ''ed25519:'' @ base_encode C raw"
proof -
  from assms have "starts_with ''ed25519:'' v" and e: "base_encode C raw = drop 8 v"
    unfolding ed25519_key_Inr by blast+
  then have v: "v = ''ed25519:'' @ drop 8 v" unfolding starts_with_ed25519 by blast
  show ?thesis unfolding e by (rule v)
qed

lemma signed_lines_Inr:
  "signed_lines ls code = Inr m \<longleftrightarrow> (\<forall>l\<in>set ls. l \<noteq> [] \<and> \<not> has_line_break l) \<and> m = encode_text (join newline ls)"
  by (auto simp: signed_lines_def list_ex_iff)

lemma has_line_break_newline: "\<not> has_line_break l \<Longrightarrow> CHR 0x0A \<notin> set l"
  by (auto simp: has_line_break_def list_ex_iff chr_code_def)

section \<open>Signatures\<close>

text \<open>
  A signature is accepted exactly when it is the base64 text, as \<open>btoa\<close> writes it, of 64 bytes that
  verify: no second text of the same signature is accepted.
\<close>

theorem verify_ed25519_iff:
  "verify_ed25519 C signature message key \<longleftrightarrow>
   (\<exists>bs. length bs = 64 \<and> signature = btoa bs \<and> ed25519_verify C key bs message)"
proof
  assume a: "verify_ed25519 C signature message key"
  then obtain bs where b: "btoa bs = signature" "ed25519_verify C key bs message" "base64_signature signature"
    by (auto simp: verify_ed25519_def split: option.splits)
  from b(1,3) have "length bs = 64" using btoa_signature by auto
  with b show "\<exists>bs. length bs = 64 \<and> signature = btoa bs \<and> ed25519_verify C key bs message" by auto
next
  assume "\<exists>bs. length bs = 64 \<and> signature = btoa bs \<and> ed25519_verify C key bs message"
  then show "verify_ed25519 C signature message key"
    by (auto simp: verify_ed25519_def atob_btoa btoa_signature)
qed

end
