(* ===== verification/Delegates.thy ===== *)
theory Delegates
  imports MarketChecks
begin

unbundle bit_operations_syntax

text \<open>
  \<open>workers/relayer/src/purchase.ts\<close> and \<open>upload.ts\<close>: the only delegate actions the relayer sponsors,
  rebuilt from the fields of a request, and the comparison of their bytes with the approved ones.
  The bytes of a delegate action are \<open>near-api-js\<close>'s: a parameter of the client code.
\<close>

section \<open>Fields of a request\<close>

definition purchase_gas :: int where
  "purchase_gas = 300000000000000"

definition purchase_deposit :: int where
  "purchase_deposit = 1"

definition max_delegate_ttl_blocks :: int where
  "max_delegate_ttl_blocks = 1200"

definition nonce_range_multiplier :: int where
  "nonce_range_multiplier = 1000000"

definition u64_max :: int where
  "u64_max = 2 ^ 64 - 1"

record transfer_args =
  ta_receiver_id :: string
  ta_amount :: string
  ta_msg :: string

text \<open>\<open>PurchaseFields\<close> and \<open>UploadFields\<close> have the same shape; \<open>UploadKeyFields\<close> has its own arguments.\<close>

datatype relay_args = TransferArgs transfer_args | KeyArgs upload_key_args

record relay_fields =
  rf_args :: relay_args
  rf_nonce :: string
  rf_max_block_height :: string

definition is_u64 :: "json option \<Rightarrow> bool" where
  "is_u64 v = (case as_str v of Some s \<Rightarrow> decimal1 38 s \<and> int (dec_val s) \<le> u64_max | None \<Rightarrow> False)"

definition transfer_args_of :: "json \<Rightarrow> string \<Rightarrow> transfer_args option" where
  "transfer_args_of args market =
     (if listed_keys args \<noteq> ''receiver_id,amount,msg'' \<or> obj_get ''receiver_id'' args \<noteq> Some (JStr market)
         \<or> \<not> has_str ''amount'' args \<or> \<not> decimal1 38 (str_of ''amount'' args)
         \<or> \<not> has_str ''msg'' args \<or> utf16_length (str_of ''msg'' args) > 2048
      then None
      else Some \<lparr>ta_receiver_id = market, ta_amount = str_of ''amount'' args, ta_msg = str_of ''msg'' args\<rparr>)"

text \<open>The identifier a message names under \<open>k\<close>, when it is a message for \<open>action\<close>.\<close>

definition message_target :: "string \<Rightarrow> string \<Rightarrow> string \<Rightarrow> string + string" where
  "message_target msg action k =
     (case json_parse msg of None \<Rightarrow> Inl ''invalid_request''
      | Some v \<Rightarrow>
          if obj_get ''action'' v \<noteq> Some (JStr action) \<or> \<not> has_str k v \<or> \<not> ident128 (str_of k v)
          then Inl ''invalid_request'' else Inr (str_of k v))"

definition parse_purchase_fields :: "json option \<Rightarrow> string \<Rightarrow> string + relay_fields \<times> string" where
  "parse_purchase_fields value market =
     (case value of None \<Rightarrow> Inl ''invalid_request''
      | Some body \<Rightarrow>
         (case Option.bind (obj_get ''args'' body) (\<lambda>args. transfer_args_of args market) of
            None \<Rightarrow> Inl ''invalid_request''
          | Some a \<Rightarrow>
              if sorted_keys body \<noteq> ''args,max_block_height,nonce'' \<or> \<not> is_u64 (obj_get ''nonce'' body)
                 \<or> \<not> is_u64 (obj_get ''max_block_height'' body)
              then Inl ''invalid_request''
              else ebind (message_target (ta_msg a) ''buy_ticket_v2'' ''publication_id'') (\<lambda>pub.
                Inr (\<lparr>rf_args = TransferArgs a, rf_nonce = str_of ''nonce'' body,
                      rf_max_block_height = str_of ''max_block_height'' body\<rparr>, pub))))"

definition envelope :: "json option \<Rightarrow> string + json \<times> string \<times> string" where
  "envelope value =
     (case value of None \<Rightarrow> Inl ''invalid_request''
      | Some body \<Rightarrow>
         (case obj_get ''args'' body of
            Some (JObj ms) \<Rightarrow>
              (if sorted_keys body \<noteq> ''args,max_block_height,nonce'' \<or> \<not> is_u64 (obj_get ''nonce'' body)
                  \<or> \<not> is_u64 (obj_get ''max_block_height'' body)
               then Inl ''invalid_request''
               else Inr (JObj ms, str_of ''nonce'' body, str_of ''max_block_height'' body))
          | _ \<Rightarrow> Inl ''invalid_request''))"

definition parse_upload_fields :: "json option \<Rightarrow> string \<Rightarrow> string + relay_fields \<times> string" where
  "parse_upload_fields value market =
     ebind (envelope value) (\<lambda>(args, nonce, height).
       case transfer_args_of args market of None \<Rightarrow> Inl ''invalid_request''
       | Some a \<Rightarrow>
           ebind (message_target (ta_msg a) ''create_paid_job'' ''job_id'') (\<lambda>job.
             Inr (\<lparr>rf_args = TransferArgs a, rf_nonce = nonce, rf_max_block_height = height\<rparr>, job)))"

definition parse_upload_key_fields :: "json option \<Rightarrow> string + relay_fields" where
  "parse_upload_key_fields value =
     ebind (envelope value) (\<lambda>(args, nonce, height).
       if listed_keys args \<noteq> ''job_id,new_public_key,expires_at_ms'' \<or> \<not> has_str ''job_id'' args
          \<or> \<not> ident128 (str_of ''job_id'' args) \<or> \<not> has_str ''new_public_key'' args
          \<or> \<not> ed25519_text (str_of ''new_public_key'' args) \<or> \<not> is_u64 (obj_get ''expires_at_ms'' args)
       then Inl ''invalid_request''
       else Inr \<lparr>rf_args = KeyArgs \<lparr>ua_job_id = str_of ''job_id'' args, ua_new_public_key = str_of ''new_public_key'' args,
                                  ua_expires_at_ms = str_of ''expires_at_ms'' args\<rparr>,
                 rf_nonce = nonce, rf_max_block_height = height\<rparr>)"

section \<open>The delegate action\<close>

record delegate_action =
  da_sender :: string
  da_receiver :: string
  da_public_key :: string
  da_nonce :: int
  da_max_block_height :: int
  da_method :: string
  da_args :: json
  da_gas :: int
  da_deposit :: int

definition upload_gas :: int where
  "upload_gas = 100000000000000"

definition upload_deposit :: int where
  "upload_deposit = 1"

definition upload_key_gas :: int where
  "upload_key_gas = 100000000000000"

definition upload_key_deposit :: int where
  "upload_key_deposit = 0"

fun args_json :: "relay_args \<Rightarrow> json" where
  "args_json (TransferArgs a) =
     JObj [(''receiver_id'', JStr (ta_receiver_id a)), (''amount'', JStr (ta_amount a)), (''msg'', JStr (ta_msg a))]"
| "args_json (KeyArgs a) =
     JObj [(''job_id'', JStr (ua_job_id a)), (''new_public_key'', JStr (ua_new_public_key a)),
           (''expires_at_ms'', JStr (ua_expires_at_ms a))]"

definition delegate :: "string \<Rightarrow> string \<Rightarrow> string \<Rightarrow> relay_fields \<Rightarrow> string \<Rightarrow> int \<Rightarrow> int \<Rightarrow> delegate_action" where
  "delegate sender receiver pk f method gas deposit =
     \<lparr>da_sender = sender, da_receiver = receiver, da_public_key = pk, da_nonce = int (dec_val (rf_nonce f)),
      da_max_block_height = int (dec_val (rf_max_block_height f)), da_method = method,
      da_args = args_json (rf_args f), da_gas = gas, da_deposit = deposit\<rparr>"

definition purchase_delegate :: "string \<Rightarrow> string \<Rightarrow> string \<Rightarrow> relay_fields \<Rightarrow> delegate_action" where
  "purchase_delegate sender pk usdc f =
     delegate sender usdc pk f ''ft_transfer_call'' purchase_gas purchase_deposit"

definition upload_delegate :: "string \<Rightarrow> string \<Rightarrow> string \<Rightarrow> relay_fields \<Rightarrow> delegate_action" where
  "upload_delegate sender pk usdc f = delegate sender usdc pk f ''ft_transfer_call'' upload_gas upload_deposit"

definition upload_key_delegate :: "string \<Rightarrow> string \<Rightarrow> string \<Rightarrow> relay_fields \<Rightarrow> delegate_action" where
  "upload_key_delegate sender pk market f =
     delegate sender market pk f ''replace_upload_key'' upload_key_gas upload_key_deposit"

section \<open>Comparing bytes\<close>

definition same_bytes :: "bytes \<Rightarrow> bytes \<Rightarrow> bool" where
  "same_bytes l r =
     (length l = length r \<and> foldl (\<lambda>d i. d OR (l ! i XOR r ! i)) 0 [0..<length l] = 0)"

lemma or_eq_zero_iff: "a OR b = 0 \<longleftrightarrow> a = 0 \<and> b = (0 :: 'w::len word)"
  by (auto simp: bit_eq_iff bit_or_iff)

lemma xor_eq_zero_iff: "a XOR b = 0 \<longleftrightarrow> a = (b :: 'w::len word)"
  by (auto simp: bit_eq_iff bit_xor_iff)

lemma foldl_difference:
  "foldl (\<lambda>d i. d OR (f i :: 'w::len word)) d0 xs = 0 \<longleftrightarrow> d0 = 0 \<and> (\<forall>i\<in>set xs. f i = 0)"
  by (induction xs arbitrary: d0) (auto simp: or_eq_zero_iff)

theorem same_bytes_iff: "same_bytes l r \<longleftrightarrow> l = r"
  by (auto simp: same_bytes_def foldl_difference xor_eq_zero_iff intro: nth_equalityI)

end
