(* ===== verification/Samples.thy ===== *)
theory Samples
  imports NearRpc
begin

text \<open>
  Concrete values at which the properties are applied. \<open>sample_crypto\<close> is one total instance of the
  parameter \<open>crypto\<close>: one key, whose text is canonical, hashes of 32 bytes, and signatures of 64.
\<close>

definition sample_bytes :: "nat \<Rightarrow> bytes" where
  "sample_bytes n = replicate n 0"

definition sample_key :: string where
  "sample_key = ''ed25519:'' @ replicate 43 CHR ''1''"

definition sample_signature :: string where
  "sample_signature = btoa (sample_bytes 64)"

definition sample_crypto :: crypto where
  "sample_crypto =
     \<lparr>base_decode = (\<lambda>_. Some (sample_bytes 32)), base_encode = (\<lambda>_. replicate 43 CHR ''1''), sha256 = (\<lambda>_. sample_bytes 32),
      ed25519_verify = (\<lambda>_ _ _. True), rsa_import = (\<lambda>_ _. True), rsa_verify = (\<lambda>_ _ _. True),
      key_pair_public = (\<lambda>_. Some sample_key), key_pair_type = (\<lambda>_. Some 0), key_pair_sign = (\<lambda>_ _. sample_bytes 64),
      public_key_data = (\<lambda>_. Some (sample_bytes 32)), public_key_verify = (\<lambda>_ _ _. True),
      hmac_sha256 = (\<lambda>_ _. sample_bytes 32)\<rparr>"

lemma sample_crypto_simps [simp]:
  "base_decode sample_crypto = (\<lambda>_. Some (sample_bytes 32))" "base_encode sample_crypto = (\<lambda>_. replicate 43 CHR ''1'')"
  "sha256 sample_crypto = (\<lambda>_. sample_bytes 32)" "ed25519_verify sample_crypto = (\<lambda>_ _ _. True)"
  "rsa_import sample_crypto = (\<lambda>_ _. True)" "rsa_verify sample_crypto = (\<lambda>_ _ _. True)"
  "key_pair_public sample_crypto = (\<lambda>_. Some sample_key)" "key_pair_type sample_crypto = (\<lambda>_. Some 0)"
  "key_pair_sign sample_crypto = (\<lambda>_ _. sample_bytes 64)" "public_key_data sample_crypto = (\<lambda>_. Some (sample_bytes 32))"
  "public_key_verify sample_crypto = (\<lambda>_ _ _. True)" "hmac_sha256 sample_crypto = (\<lambda>_ _. sample_bytes 32)"
  by (simp_all add: sample_crypto_def)

lemma length_sample_bytes [simp]: "length (sample_bytes n) = n"
  by (simp add: sample_bytes_def)

lemma sample_signature_text [simp]: "base64_signature sample_signature"
  by (simp add: sample_signature_def btoa_signature)

lemma starts_with_sample_key [simp]: "starts_with ''ed25519:'' sample_key"
  by (simp add: sample_key_def starts_with_def)

lemma drop_sample_key [simp]: "drop 8 sample_key = replicate 43 CHR ''1''"
  by (simp add: sample_key_def)

lemma sample_key_text [simp]: "ed25519_text sample_key"
  by (simp add: sample_key_def ed25519_text_def repeated_def list_all_iff is_base58_def char_defs)

lemma hex64_zeros [simp]: "hex64 (replicate 64 CHR ''0'')"
  by (simp add: hex64_def repeated_def list_all_iff is_hex_digit_def char_defs)

end
