(* ===== verification/MarketLaws.thy ===== *)
theory MarketLaws
  imports Delegates Samples
begin

text \<open>
  What the Market checks of \<open>MarketChecks\<close> accept, in terms of integers, keys and signatures: purchases,
  uploads, upload-key replacements and device links, and the fee of an upload.
\<close>

section \<open>Purchases\<close>

text \<open>A canonical Ed25519 key text and its 32 bytes.\<close>

definition key_text :: "crypto \<Rightarrow> string \<Rightarrow> bytes \<Rightarrow> bool" where
  "key_text C v raw = (ed25519_key C v ''purchase_invalid'' = Inr raw)"

lemma ed25519_key_text_iff: "ed25519_key C v code = Inr raw \<longleftrightarrow> key_text C v raw"
  by (simp add: key_text_def ed25519_key_Inr)

lemma key_text_canonical: "key_text C v raw \<Longrightarrow> v = ''ed25519:'' @ base_encode C raw \<and> length raw = 32"
  using ed25519_key_text [of C v "''purchase_invalid''" raw] ed25519_key_Inr [of C v "''purchase_invalid''" raw]
  by (simp add: key_text_def)

text \<open>A time a signature may name: more than a minute and at most an hour ahead.\<close>

definition in_window :: "int \<Rightarrow> string \<Rightarrow> bool" where
  "in_window now_ms v =
     (decimal v \<and> int (dec_val v) \<le> max_safe \<and> now_ms + 60000 < int (dec_val v) \<and> int (dec_val v) \<le> now_ms + 3600000)"

lemma expiry_window: "expiry v now_ms code = Inr u \<longleftrightarrow> in_window now_ms v"
  by (auto simp: expiry_Inr in_window_def)

definition signed_by :: "crypto \<Rightarrow> bytes \<Rightarrow> string \<Rightarrow> string list \<Rightarrow> bool" where
  "signed_by C key signature lines =
     ((\<forall>l \<in> set lines. l \<noteq> [] \<and> \<not> has_line_break l) \<and>
      (\<exists>sig. length sig = 64 \<and> signature = btoa sig \<and> ed25519_verify C key sig (encode_text (join newline lines))))"

lemma purchase_fields_iff:
  "purchase_fields C now_ms msg = Inr (p, key) \<longleftrightarrow>
   parse_message msg = Inr p \<and> ident128 (pm_publication_id p) \<and> hex64 (dp_certificate_sha256 (pm_device p)) \<and>
   decimal (vp_vat_usdc_micro (pm_vat p)) \<and> decimal0 9 (vp_key_version (pm_vat p)) \<and>
   dec_val (vp_key_version (pm_vat p)) \<le> 4294967295 \<and> key_text C (pm_ticket_public_key p) key \<and>
   (\<exists>session. key_text C (dp_session_public_key (pm_device p)) session) \<and>
   in_window now_ms (dp_expires_at_ms (pm_device p)) \<and> in_window now_ms (vp_expires_at_ms (pm_vat p))"
  by (auto simp: purchase_fields_def ebind_Inr_iff expiry_window ed25519_key_text_iff js_number_le_iff max_safe_def)

lemma big_int_Inr: "big_int s = Inr n \<longleftrightarrow> s \<noteq> [] \<and> list_all is_digit s \<and> n = int (dec_val s)"
  by (auto simp: big_int_def)

lemma signed_by_iff:
  "(\<exists>m. signed_lines lines code = Inr m \<and> verify_ed25519 C signature m key) \<longleftrightarrow> signed_by C key signature lines"
  by (auto simp: signed_lines_Inr verify_ed25519_iff signed_by_def)

lemma json_string_Inr: "(case v of JStr k \<Rightarrow> Inr k | _ \<Rightarrow> Inl e) = Inr x \<longleftrightarrow> v = JStr x"
  by (cases v) simp_all

lemma purchase_verdict_iff:
  "purchase_verdict C market amount now_ms p key vs = Inr ids \<longleftrightarrow>
   (\<exists>network vat_pk vat_key.
     network_of market = Inr network \<and>
     obj_get ''new_purchases_paused'' (vs ! 3) = Some (JBool False) \<and> beta_open (vs ! 4) now_ms \<and>
     obj_get ''publication_id'' (vs ! 0) = Some (JStr (pm_publication_id p)) \<and>
     obj_get ''availability'' (vs ! 0) = Some (JStr ''ACTIVE'') \<and>
     obj_get ''price_usdc'' (vs ! 0) = Some (JStr amount) \<and>
     amount \<noteq> [] \<and> list_all is_digit amount \<and> 5000000 \<le> dec_val amount \<and> vs ! 1 = JNull \<and>
     vs ! 2 = JStr vat_pk \<and> key_text C vat_pk vat_key \<and>
     signed_by C key (dp_signature (pm_device p)) (device_lines network market (sha256_hex C key) p) \<and>
     signed_by C vat_key (vp_signature (pm_vat p)) (vat_lines network market (sha256_hex C key) amount p) \<and>
     ids = \<lparr>ti_publication = pm_publication_id p, ti_ticket = sha256_hex C key\<rparr>)"
  unfolding signed_by_iff [where code = "''purchase_invalid''", symmetric]
  by (auto simp: purchase_verdict_def Let_def ebind_Inr_iff big_int_Inr json_string_Inr ed25519_key_text_iff
      min_ticket_price_usdc_def)

text \<open>
  C6 (checkPurchaseMessage). A purchase is accepted exactly when: the message is the canonical JSON of
  its fields; its ticket key is a canonical Ed25519 key, whose hash is the ticket id; both expiries are
  more than one minute and at most one hour ahead; the Market neither pauses purchases nor has closed
  its beta, offers that publication at exactly the paid amount of at least 5 USDC, and has no such
  ticket yet; and the two base64 signatures of 64 bytes verify, the ticket key's over the nine lines of
  the device message and the Market's VAT key's over the nine lines of the VAT message.
\<close>

theorem purchase_accepted_iff:
  "check_purchase_message C near market amount msg now_ms s = (Inr ids, t) \<longleftrightarrow>
   (\<exists>p key vs network vat_pk vat_key.
     parse_message msg = Inr p \<and> ident128 (pm_publication_id p) \<and> hex64 (dp_certificate_sha256 (pm_device p)) \<and>
     decimal (vp_vat_usdc_micro (pm_vat p)) \<and> decimal0 9 (vp_key_version (pm_vat p)) \<and>
     dec_val (vp_key_version (pm_vat p)) \<le> 4294967295 \<and> key_text C (pm_ticket_public_key p) key \<and>
     (\<exists>session. key_text C (dp_session_public_key (pm_device p)) session) \<and>
     in_window now_ms (dp_expires_at_ms (pm_device p)) \<and> in_window now_ms (vp_expires_at_ms (pm_vat p)) \<and>
     gather
       [nc_view near market ''get_publication'' (JObj [(''publication_id'', JStr (pm_publication_id p))]),
        nc_view near market ''get_ticket'' (JObj [(''ticket_id'', JStr (sha256_hex C key))]),
        nc_view near market ''get_vat_public_key'' (JObj [(''key_version'', JNum (of_int (js_number (vp_key_version (pm_vat p)))))]),
        nc_view near market ''get_governance_state'' (JObj []),
        nc_view near market ''get_public_testnet_beta_state'' (JObj [])] s = (Inr vs, t) \<and>
     network_of market = Inr network \<and>
     obj_get ''new_purchases_paused'' (vs ! 3) = Some (JBool False) \<and> beta_open (vs ! 4) now_ms \<and>
     obj_get ''publication_id'' (vs ! 0) = Some (JStr (pm_publication_id p)) \<and>
     obj_get ''availability'' (vs ! 0) = Some (JStr ''ACTIVE'') \<and>
     obj_get ''price_usdc'' (vs ! 0) = Some (JStr amount) \<and>
     amount \<noteq> [] \<and> list_all is_digit amount \<and> 5000000 \<le> dec_val amount \<and> vs ! 1 = JNull \<and>
     vs ! 2 = JStr vat_pk \<and> key_text C vat_pk vat_key \<and>
     signed_by C key (dp_signature (pm_device p)) (device_lines network market (sha256_hex C key) p) \<and>
     signed_by C vat_key (vp_signature (pm_vat p)) (vat_lines network market (sha256_hex C key) amount p) \<and>
     ids = \<lparr>ti_publication = pm_publication_id p, ti_ticket = sha256_hex C key\<rparr>)"
  (is "?run \<longleftrightarrow> ?spec")
proof -
  let ?views = "\<lambda>p key.
       [nc_view near market ''get_publication'' (JObj [(''publication_id'', JStr (pm_publication_id p))]),
        nc_view near market ''get_ticket'' (JObj [(''ticket_id'', JStr (sha256_hex C key))]),
        nc_view near market ''get_vat_public_key'' (JObj [(''key_version'', JNum (of_int (js_number (vp_key_version (pm_vat p)))))]),
        nc_view near market ''get_governance_state'' (JObj []),
        nc_view near market ''get_public_testnet_beta_state'' (JObj [])]"
  have "?run \<longleftrightarrow> (\<exists>p key vs. purchase_fields C now_ms msg = Inr (p, key) \<and> gather (?views p key) s = (Inr vs, t) \<and>
      purchase_verdict C market amount now_ms p key vs = Inr ids)"
    by (auto simp: check_purchase_message_def bnd_returns simp del: gather.simps split: prod.splits)
  also have "\<dots> \<longleftrightarrow> ?spec"
    unfolding purchase_fields_iff purchase_verdict_iff by blast
  finally show ?thesis .
qed

section \<open>Uploads\<close>

text \<open>
  C14 (uploadFeeUsdcMicro). The fee of an upload is the least whole number of micro-USDC that is at least
  3 / 10,000 of a micro-USDC per byte and at least 0.50 USDC; for every accepted size, from one byte to
  20 GB, it lies between 0.50 and 6 USDC.
\<close>

theorem upload_fee_exact:
  assumes "1 \<le> dec_val b" and "int (dec_val b) \<le> max_source_bytes"
  shows "\<exists>fee. upload_fee_usdc_micro b = show_int fee \<and> 500000 \<le> fee \<and> fee \<le> 6000000 \<and>
      3 * int (dec_val b) \<le> fee * 10000 \<and> (fee = 500000 \<or> (fee - 1) * 10000 < 3 * int (dec_val b))"
proof -
  let ?n = "int (dec_val b) * 3 + 10000 - 1" and ?fee = "\<lambda>x::int. if x > 500000 then x else 500000"
  have fee: "upload_fee_usdc_micro b = show_int (?fee (?n div 10000))"
    by (simp add: upload_fee_usdc_micro_def Let_def fee_numerator_def fee_denominator_def fee_minimum_def)
  have "?n div 10000 * 10000 \<le> ?n" "?n < ?n div 10000 * 10000 + 10000" by linarith+
  moreover have "int (dec_val b) \<le> 20000000000" using assms(2) by (simp add: max_source_bytes_def)
  ultimately show ?thesis
    unfolding fee by (intro exI [of _ "?fee (?n div 10000)"]) (auto simp: algebra_simps)
qed

theorem upload_fee_exact_witness:
  "\<exists>fee. upload_fee_usdc_micro ''5000000000'' = show_int fee \<and> 500000 \<le> fee \<and> fee \<le> 6000000 \<and>
      3 * int (dec_val ''5000000000'') \<le> fee * 10000 \<and>
      (fee = 500000 \<or> (fee - 1) * 10000 < 3 * int (dec_val ''5000000000''))"
  by (rule upload_fee_exact) (simp_all add: dec_val_def digit_val_def chr_code_def max_source_bytes_def)

lemma upload_fields_iff:
  "upload_fields C amount msg now_ms hashes = Inr u \<longleftrightarrow>
   hashes \<noteq> InvalidList \<and> parse_upload_message msg = Inr u \<and> ident128 (um_job_id u) \<and> js_trim (um_title u) \<noteq> [] \<and>
   length (encode_text (um_title u)) \<le> 200 \<and> \<not> has_control (um_title u) \<and>
   decimal (um_price_usdc u) \<and> 5000000 \<le> dec_val (um_price_usdc u) \<and>
   decimal (um_expected_source_bytes u) \<and> 1 \<le> dec_val (um_expected_source_bytes u) \<and>
   dec_val (um_expected_source_bytes u) \<le> 20000000000 \<and> um_profile_id u = ''paid-media-v1'' \<and>
   hex64 (um_profile_config_sha256 u) \<and>
   (case hashes of Hashes hs \<Rightarrow> um_profile_config_sha256 u \<in> set hs | _ \<Rightarrow> True) \<and>
   (\<exists>raw. key_text C (um_upload_public_key u) raw) \<and>
   decimal (um_upload_key_expires_at_ms u) \<and> int (dec_val (um_upload_key_expires_at_ms u)) \<le> max_safe \<and>
   now_ms + 60000 < int (dec_val (um_upload_key_expires_at_ms u)) \<and>
   amount = upload_fee_usdc_micro (um_expected_source_bytes u)"
  by (auto simp: upload_fields_def ebind_Inr_iff future_ms_Inr ed25519_key_text_iff max_title_bytes_def
      min_ticket_price_usdc_def max_source_bytes_def upload_profile_id_def split: allowlist.splits)

text \<open>
  An upload is accepted exactly when its message is the canonical JSON of its
  fields; its title is visible, free of control characters and at most 200 bytes; its price is at least
  5 USDC; its size is between one byte and 20 GB and the amount paid is the fee of that size; its
  profile is allowed; its upload key is canonical and still valid for more than a minute; and the
  Market is not paused, asks for no quote and has no job of that id.
\<close>

theorem upload_accepted_iff:
  "check_upload_message C near market account amount msg now_ms hashes s = (Inr job, t) \<longleftrightarrow>
   (\<exists>u vs.
     hashes \<noteq> InvalidList \<and> parse_upload_message msg = Inr u \<and> ident128 (um_job_id u) \<and> js_trim (um_title u) \<noteq> [] \<and>
     length (encode_text (um_title u)) \<le> 200 \<and> \<not> has_control (um_title u) \<and>
     decimal (um_price_usdc u) \<and> 5000000 \<le> dec_val (um_price_usdc u) \<and>
     decimal (um_expected_source_bytes u) \<and> 1 \<le> dec_val (um_expected_source_bytes u) \<and>
     dec_val (um_expected_source_bytes u) \<le> 20000000000 \<and> um_profile_id u = ''paid-media-v1'' \<and>
     hex64 (um_profile_config_sha256 u) \<and>
     (case hashes of Hashes hs \<Rightarrow> um_profile_config_sha256 u \<in> set hs | _ \<Rightarrow> True) \<and>
     (\<exists>raw. key_text C (um_upload_public_key u) raw) \<and>
     decimal (um_upload_key_expires_at_ms u) \<and> int (dec_val (um_upload_key_expires_at_ms u)) \<le> max_safe \<and>
     now_ms + 60000 < int (dec_val (um_upload_key_expires_at_ms u)) \<and>
     amount = upload_fee_usdc_micro (um_expected_source_bytes u) \<and>
     gather
       [nc_view near market ''get_governance_state'' (JObj []),
        nc_view near market ''get_public_testnet_beta_state'' (JObj []),
        nc_view near market ''get_public_upload_policy'' (JObj []),
        nc_view near market ''get_media_job'' (JObj [(''job_id'', JStr (um_job_id u))])] s = (Inr vs, t) \<and>
     obj_get ''new_purchases_paused'' (vs ! 0) = Some (JBool False) \<and> vs ! 1 = JNull \<and> vs ! 2 = JNull \<and> vs ! 3 = JNull \<and>
     job = um_job_id u)"
  (is "?run \<longleftrightarrow> ?spec")
proof -
  let ?views = "\<lambda>u. [nc_view near market ''get_governance_state'' (JObj []),
        nc_view near market ''get_public_testnet_beta_state'' (JObj []),
        nc_view near market ''get_public_upload_policy'' (JObj []),
        nc_view near market ''get_media_job'' (JObj [(''job_id'', JStr (um_job_id u))])]"
  have "?run \<longleftrightarrow> (\<exists>u vs. upload_fields C amount msg now_ms hashes = Inr u \<and> gather (?views u) s = (Inr vs, t) \<and>
      upload_verdict account amount u vs = Inr job)"
    by (auto simp: check_upload_message_def bnd_returns simp del: gather.simps)
  also have "\<dots> \<longleftrightarrow> ?spec"
    unfolding upload_fields_iff
    by (auto simp: upload_verdict_def Let_def ebind_Inr_iff simp del: gather.simps split: if_splits)
  finally show ?thesis .
qed

section \<open>Device links\<close>

text \<open>The devices of a ticket that are active now and are not the one of the request.\<close>

definition other_devices :: "device_view list \<Rightarrow> add_device_args \<Rightarrow> int \<Rightarrow> device_view list" where
  "other_devices devices a now_ms =
     filter (\<lambda>d. dv_session_public_key d \<noteq> ad_session_public_key a) (active_devices devices now_ms)"

lemma add_device_fields_iff:
  "add_device_fields C a now_ms = Inr () \<longleftrightarrow>
   hex64 (ad_ticket_id a) \<and> hex64 (ad_certificate_sha256 a) \<and> ed25519_text (ad_session_public_key a) \<and>
   decimal0 9 (ad_device_epoch a) \<and> dec_val (ad_device_epoch a) \<le> 4294967295 \<and> base64_signature (ad_signature a) \<and>
   (\<exists>session. key_text C (ad_session_public_key a) session) \<and> in_window now_ms (ad_expires_at_ms a)"
  by (auto simp: add_device_fields_def ebind_Inr_iff expiry_window ed25519_key_text_iff js_number_le_iff max_safe_def)

lemma playable_ticket_iff:
  "playable_ticket C a ticket = Inr (devices, key) \<longleftrightarrow>
   obj_get ''ticket_id'' ticket = Some (JStr (ad_ticket_id a)) \<and> has_str ''ticket_public_key'' ticket \<and>
   has_str ''publication_id'' ticket \<and> json_safe_integer (obj_get ''device_epoch'' ticket) \<noteq> None \<and>
   ticket_devices ticket = Inr devices \<and> has_str ''status'' ticket \<and> str_of ''status'' ticket \<in> set playable_statuses \<and>
   key_text C (str_of ''ticket_public_key'' ticket) key \<and> sha256_hex C key = ad_ticket_id a"
  by (auto simp: playable_ticket_def ebind_Inr_iff ed25519_key_text_iff)

lemma add_device_signature_iff:
  "add_device_signature C market a ticket key publication = Inr () \<longleftrightarrow>
   obj_get ''publication_id'' publication = obj_get ''publication_id'' ticket \<and>
   obj_get ''availability'' publication \<noteq> Some (JStr ''TAKEDOWN'') \<and>
   (\<exists>network. network_of market = Inr network \<and> signed_by C key (ad_signature a) (add_device_lines network market a))"
  unfolding signed_by_iff [where code = "''device_invalid''", symmetric]
  by (auto simp: add_device_signature_def ebind_Inr_iff)

lemma runway_verdict_iff:
  "runway_verdict reserve = Inr () \<longleftrightarrow>
   has_str ''reserve_runway_bytes'' reserve \<and> decimal (str_of ''reserve_runway_bytes'' reserve) \<and>
   26000 \<le> dec_val (str_of ''reserve_runway_bytes'' reserve)"
  by (auto simp: runway_verdict_def ebind_Inr_iff device_min_runway_bytes_def)

text \<open>The last part of the check, after the signature: is the device listed, and what would be evicted.\<close>

definition listed_device :: "device_view list \<Rightarrow> add_device_args \<Rightarrow> int \<Rightarrow> bool" where
  "listed_device devices a now_ms =
     (\<exists>d. own_device devices a now_ms = Some d \<and> now_ms + 604800000 < js_number (dv_expires_at_ms d))"

lemma listed_device_case:
  "(case own_device devices a now_ms of None \<Rightarrow> False
    | Some d \<Rightarrow> now_ms + device_renew_within_ms < js_number (dv_expires_at_ms d)) = listed_device devices a now_ms"
  by (auto simp: listed_device_def device_renew_within_ms_def split: option.splits)

lemma ex_unit: "(\<exists>x::unit. P x) = P ()"
  by auto

lemma device_tail:
  "(if listed then ret a
    else bnd (require epoch e) (\<lambda>_. bnd view (\<lambda>reserve. bnd (lifting (runway_verdict reserve)) (\<lambda>_. ret x)))) s = (Inr c, t) \<longleftrightarrow>
   (if listed then c = a \<and> t = s
    else epoch \<and> (\<exists>reserve. view s = (Inr reserve, t) \<and> runway_verdict reserve = Inr ()) \<and> c = x)"
  by (auto simp: bnd_returns)

text \<open>A device that renews itself takes no place of another one.\<close>

lemma own_device_counted:
  assumes "own_device devices a now_ms = Some d"
  shows "length (other_devices devices a now_ms) < length (active_devices devices now_ms)"
proof -
  have "d \<in> set (active_devices devices now_ms) \<and> dv_session_public_key d = ad_session_public_key a"
    using find_result assms unfolding own_device_def by fast
  then show ?thesis
    unfolding other_devices_def by (intro length_filter_less [of d]) auto
qed

text \<open>
  C13 (checkAddDeviceArgs). A device link passes the check exactly when: its key, certificate, epoch and
  expiry are well formed and the expiry is more than a minute and at most an hour ahead; the ticket is
  the one it names, playable, and named after the hash of its own key; the publication is the ticket's
  and not taken down; and the ticket key signed the nine lines of the \<open>add_device\<close> message. It is
  \<open>listed\<close> when the device is authorised for more than seven days still. Otherwise the epoch must be
  the ticket's and the storage reserve must hold 26,000 bytes, and a device is evicted only when three
  other devices are active: the first of them.
\<close>

theorem device_check_iff:
  "check_add_device_args C near market a now_ms s = (Inr c, t) \<longleftrightarrow>
   (\<exists>ticket s1 publication s2 devices key network.
     hex64 (ad_ticket_id a) \<and> hex64 (ad_certificate_sha256 a) \<and> ed25519_text (ad_session_public_key a) \<and>
     decimal0 9 (ad_device_epoch a) \<and> dec_val (ad_device_epoch a) \<le> 4294967295 \<and> base64_signature (ad_signature a) \<and>
     (\<exists>session. key_text C (ad_session_public_key a) session) \<and> in_window now_ms (ad_expires_at_ms a) \<and>
     nc_view near market ''get_ticket'' (JObj [(''ticket_id'', JStr (ad_ticket_id a))]) s = (Inr ticket, s1) \<and>
     obj_get ''ticket_id'' ticket = Some (JStr (ad_ticket_id a)) \<and> has_str ''ticket_public_key'' ticket \<and>
     has_str ''publication_id'' ticket \<and> json_safe_integer (obj_get ''device_epoch'' ticket) \<noteq> None \<and>
     ticket_devices ticket = Inr devices \<and> has_str ''status'' ticket \<and> str_of ''status'' ticket \<in> set playable_statuses \<and>
     key_text C (str_of ''ticket_public_key'' ticket) key \<and> sha256_hex C key = ad_ticket_id a \<and>
     nc_view near market ''get_publication'' (JObj [(''publication_id'', JStr (str_of ''publication_id'' ticket))]) s1
       = (Inr publication, s2) \<and>
     obj_get ''publication_id'' publication = obj_get ''publication_id'' ticket \<and>
     obj_get ''availability'' publication \<noteq> Some (JStr ''TAKEDOWN'') \<and>
     network_of market = Inr network \<and> signed_by C key (ad_signature a) (add_device_lines network market a) \<and>
     (if listed_device devices a now_ms
      then c = \<lparr>dc_listed = True, dc_renewal = False, dc_evicts = None\<rparr> \<and> t = s2
      else json_safe_integer (obj_get ''device_epoch'' ticket) = Some (js_number (ad_device_epoch a)) \<and>
        (\<exists>reserve. nc_view near market ''get_storage_reserve_status'' (JObj []) s2 = (Inr reserve, t) \<and>
           has_str ''reserve_runway_bytes'' reserve \<and> decimal (str_of ''reserve_runway_bytes'' reserve) \<and>
           26000 \<le> dec_val (str_of ''reserve_runway_bytes'' reserve)) \<and>
        c = \<lparr>dc_listed = False, dc_renewal = (own_device devices a now_ms \<noteq> None),
             dc_evicts = (if 3 \<le> length (other_devices devices a now_ms)
               then Some (dv_session_public_key (hd (other_devices devices a now_ms))) else None)\<rparr>))"
  (is "?run \<longleftrightarrow> ?spec")
proof -
  have "?run \<longleftrightarrow> add_device_fields C a now_ms = Inr () \<and>
    (\<exists>ticket s1 devices key publication s2.
      nc_view near market ''get_ticket'' (JObj [(''ticket_id'', JStr (ad_ticket_id a))]) s = (Inr ticket, s1) \<and>
      playable_ticket C a ticket = Inr (devices, key) \<and>
      nc_view near market ''get_publication'' (JObj [(''publication_id'', JStr (str_of ''publication_id'' ticket))]) s1
        = (Inr publication, s2) \<and>
      add_device_signature C market a ticket key publication = Inr () \<and>
      (if listed_device devices a now_ms
       then c = \<lparr>dc_listed = True, dc_renewal = False, dc_evicts = None\<rparr> \<and> t = s2
       else json_safe_integer (obj_get ''device_epoch'' ticket) = Some (js_number (ad_device_epoch a)) \<and>
        (\<exists>reserve. nc_view near market ''get_storage_reserve_status'' (JObj []) s2 = (Inr reserve, t) \<and>
           runway_verdict reserve = Inr ()) \<and>
        c = \<lparr>dc_listed = False, dc_renewal = (own_device devices a now_ms \<noteq> None),
             dc_evicts = (if 3 \<le> length (other_devices devices a now_ms)
               then Some (dv_session_public_key (hd (other_devices devices a now_ms))) else None)\<rparr>))"
    unfolding check_add_device_args_def Let_def listed_device_case max_ticket_devices_def other_devices_def [symmetric]
    by (simp only: bnd_returns run_lifting prod.inject device_tail split_paired_Ex prod.case ex_unit) blast
  also have "\<dots> \<longleftrightarrow> ?spec"
    unfolding add_device_fields_iff playable_ticket_iff add_device_signature_iff runway_verdict_iff by blast
  finally show ?thesis .
qed

section \<open>The identity of a device request\<close>

text \<open>The texts the checks accept are ASCII below \<open>|\<close>.\<close>

definition below_bar :: "string \<Rightarrow> bool" where
  "below_bar s = list_all (\<lambda>c. chr_code c < 124) s"

lemma below_bar_no_bar: "below_bar s \<Longrightarrow> CHR ''|'' \<notin> set s"
  by (auto simp: below_bar_def list_all_iff chr_code_def)

lemma below_bar_scalar: "below_bar s \<Longrightarrow> scalar_text s"
  by (rule scalar_text_ascii) (auto simp: below_bar_def list_all_iff)

lemma below_bar_repeated: "repeated p lo hi s \<Longrightarrow> (\<And>c. p c \<Longrightarrow> chr_code c < 124) \<Longrightarrow> below_bar s"
  by (auto simp: repeated_def below_bar_def list_all_iff)

lemma class_codes:
  "is_digit c \<Longrightarrow> chr_code c < 124" "is_hex_digit c \<Longrightarrow> chr_code c < 124" "is_base58 c \<Longrightarrow> chr_code c < 124"
  by (auto simp: is_hex_digit_def is_base58_def char_defs)

lemma below_bar_hex64: "hex64 s \<Longrightarrow> below_bar s"
  by (auto simp: hex64_def intro: below_bar_repeated class_codes)

lemma below_bar_decimal0: "decimal0 n s \<Longrightarrow> below_bar s"
proof (cases s)
  case (Cons c t)
  assume "decimal0 n s"
  then show ?thesis
    using Cons below_bar_repeated [of is_digit 0 n t] class_codes(1)
    by (auto simp: decimal0_def below_bar_def char_defs)
qed (simp add: below_bar_def)

lemma below_bar_key: "ed25519_text s \<Longrightarrow> below_bar s"
proof -
  assume a: "ed25519_text s"
  then have s: "s = ''ed25519:'' @ drop 8 s" and "repeated is_base58 43 44 (drop 8 s)"
    unfolding ed25519_text_def by (metis append_take_drop_id, blast)
  then have d: "below_bar (drop 8 s)" using below_bar_repeated class_codes(3) by blast
  have "below_bar (''ed25519:'' @ drop 8 s)" using d by (simp add: below_bar_def chr_code_def)
  with s show ?thesis by metis
qed

definition device_request_parts :: "add_device_args \<Rightarrow> string list" where
  "device_request_parts a =
     [''device'', ad_ticket_id a, ad_session_public_key a, ad_certificate_sha256 a, ad_device_epoch a, ad_expires_at_ms a]"

lemma device_request_id_parts:
  "device_request_id C a = hex_of (sha256 C (encode_text (join ''|'' (device_request_parts a))))"
  by (simp add: device_request_id_def device_request_parts_def sha256_hex_def)

lemma checked_parts: "add_device_fields C a now_ms = Inr () \<Longrightarrow> x \<in> set (device_request_parts a) \<Longrightarrow> below_bar x"
  by (auto simp: add_device_fields_iff device_request_parts_def in_window_def below_bar_hex64 below_bar_decimal0 below_bar_key)
    (simp add: below_bar_def chr_code_def)

text \<open>
  The id of a device request is the hash of bytes that are equal for two
  well-formed requests exactly when the requests agree in everything but the signature: retrying with
  a fresh signature finds the same record, and no other request shares the bytes.
\<close>

theorem device_request_id_identifies:
  assumes "add_device_fields C a now_ms = Inr ()" and "add_device_fields C b now_ms' = Inr ()"
  shows "\<exists>bytes_a bytes_b. device_request_id C a = hex_of (sha256 C bytes_a) \<and>
      device_request_id C b = hex_of (sha256 C bytes_b) \<and> (bytes_a = bytes_b \<longleftrightarrow> a\<lparr>ad_signature := ad_signature b\<rparr> = b)"
proof -
  let ?bytes = "\<lambda>x. encode_text (join ''|'' (device_request_parts x))"
  have nonempty: "device_request_parts x \<noteq> []" for x by (simp add: device_request_parts_def)
  have parts: "scalar_text x \<and> CHR ''|'' \<notin> set x" if "x \<in> set (device_request_parts a @ device_request_parts b)" for x
    using that checked_parts [OF assms(1), of x] checked_parts [OF assms(2), of x] below_bar_scalar below_bar_no_bar
    by (simp only: set_append Un_iff) blast
  have "chr_code CHR ''|'' < 128" by (simp add: chr_code_def)
  then have "?bytes a = ?bytes b \<Longrightarrow> device_request_parts a = device_request_parts b"
    by (rule encode_lines_inject [OF nonempty nonempty _ parts])
  moreover have "device_request_parts a = device_request_parts b \<longleftrightarrow> a\<lparr>ad_signature := ad_signature b\<rparr> = b"
    by (cases a; cases b) (auto simp: device_request_parts_def)
  ultimately show ?thesis using device_request_id_parts by metis
qed

definition sample_link :: "string \<Rightarrow> add_device_args" where
  "sample_link signature =
     \<lparr>ad_ticket_id = replicate 64 CHR ''0'', ad_session_public_key = sample_key,
      ad_certificate_sha256 = replicate 64 CHR ''0'', ad_device_epoch = ''1'', ad_expires_at_ms = ''120000'',
      ad_signature = signature\<rparr>"

lemma sample_link_fields: "base64_signature sig \<Longrightarrow> add_device_fields sample_crypto (sample_link sig) 0 = Inr ()"
  by (simp add: add_device_fields_iff sample_link_def key_text_def ed25519_key_Inr in_window_def decimal0_def
      repeated_def dec_val_def digit_val_def max_safe_def char_defs)

theorem device_request_id_identifies_witness:
  "\<exists>bytes_a bytes_b. device_request_id sample_crypto (sample_link sample_signature) = hex_of (sha256 sample_crypto bytes_a) \<and>
      device_request_id sample_crypto (sample_link (btoa (replicate 64 1))) = hex_of (sha256 sample_crypto bytes_b) \<and>
      (bytes_a = bytes_b \<longleftrightarrow>
       (sample_link sample_signature)\<lparr>ad_signature := ad_signature (sample_link (btoa (replicate 64 1)))\<rparr>
         = sample_link (btoa (replicate 64 1)))"
  by (rule device_request_id_identifies) (auto intro!: sample_link_fields simp: btoa_signature)

end
