(* ===== verification/RelayerStore.thy ===== *)
theory RelayerStore
  imports Delegates
begin

text \<open>
  The state of \<open>RelayerControl\<close> (\<open>workers/relayer/src/control.ts\<close>): the records it keeps in its
  durable storage, one table per key prefix, and what it is given from outside. Storage is read and
  written without a pause; every call to the chain, every wait for the signing lock and every sleep
  is a parameter that may change the whole state, because other requests run meanwhile.
\<close>

section \<open>Records\<close>

datatype tx_state = Broadcast | Success | Failed | Stuck

record tx_record =
  tx_state :: tx_state
  tx_payload_sha256 :: string
  tx_receiver :: string
  tx_nonce :: int
  tx_block_hash :: string
  tx_signed :: "string option"
  tx_hash :: string
  tx_value :: "string option"
  tx_created_at :: int
  tx_broadcast_at :: int

datatype relay_kind = Purchase | Upload | UploadKey

datatype purchase_state = Signing | Relaying | Submitted | PFailed

record purchase_record =
  pr_state :: purchase_state
  pr_kind :: "relay_kind option"
  pr_identity :: string
  pr_account :: string
  pr_public_key :: string
  pr_fields :: relay_fields
  pr_token :: "string option"
  pr_signature :: "string option"
  pr_sign_tx_hash :: "string option"
  pr_tx_hash :: "string option"
  pr_error :: "string option"
  pr_retryable :: bool
  pr_created_at :: int
  pr_updated_at :: int

datatype device_state = DSubmitting | DSubmitted | DListed | DFailed

record device_record =
  dr_state :: device_state
  dr_ticket :: string
  dr_args :: add_device_args
  dr_evicts :: "string option"
  dr_renewal :: bool
  dr_tx_hash :: "string option"
  dr_error :: "string option"
  dr_created_at :: int
  dr_updated_at :: int

record identity_record =
  ir_account :: string
  ir_ready :: bool
  ir_created_at :: int

datatype invite_state = Open | Reserved | Paid

record invite_record =
  iv_amount_micro :: string
  iv_created_at :: int
  iv_expires_at :: int
  iv_state :: invite_state
  iv_identity :: "string option"
  iv_account :: "string option"

section \<open>Keys\<close>

text \<open>The keys of transaction records, by what the transaction is for.\<close>

datatype tx_key =
    TxFund string
  | TxUsdc string
  | TxCkd string
  | TxInvite string
  | TxSign string
  | TxRelay string
  | TxDevice string

fun tx_key_text :: "tx_key \<Rightarrow> string" where
  "tx_key_text (TxFund i) = ''tx:fund:'' @ i"
| "tx_key_text (TxUsdc i) = ''tx:usdc:'' @ i"
| "tx_key_text (TxCkd i) = ''tx:ckd:'' @ i"
| "tx_key_text (TxInvite i) = ''tx:invite:'' @ i"
| "tx_key_text (TxSign i) = ''tx:sign:'' @ i"
| "tx_key_text (TxRelay i) = ''tx:relay:'' @ i"
| "tx_key_text (TxDevice i) = ''tx:device:'' @ i"

text \<open>Different keys have different texts, so a table per prefix loses nothing.\<close>

lemma tx_key_text_inject: "tx_key_text k = tx_key_text k' \<longleftrightarrow> k = k'"
  by (cases k; cases k') simp_all

section \<open>State\<close>

record 'w relayer_state =
  rs_tx :: "(tx_key, tx_record) table"
  rs_last_nonce :: int
  rs_identity :: "(string, identity_record) table"
  rs_ckd_done :: "(string, int \<times> string option) table"
  rs_purchase :: "(string, purchase_record) table"
  rs_device :: "(string, device_record) table"
  rs_invite :: "(string, invite_record) table"
  rs_invite_identity :: "(string, string) table"
  rs_invited_account :: "(string, string \<times> int) table"
  rs_count :: "(string \<times> string, int) table"
  rs_alarm :: "int option"
  rs_outside :: 'w

type_synonym ('w, 'a) ract = "('w relayer_state, 'a) act"

datatype tx_action =
    TransferAction int
  | CallAction string json int int
  | DelegateAction delegate_action bytes

text \<open>
  What \<open>near-api-js\<close> does with actions: the bytes of a delegate action, and the signed transaction and
  its hash; an error when it throws.
\<close>

record codec =
  encode_delegate :: "delegate_action \<Rightarrow> string + bytes"
  sign_transaction :: "string \<Rightarrow> string \<Rightarrow> string \<Rightarrow> int \<Rightarrow> tx_action list \<Rightarrow> string \<Rightarrow> string + bytes \<times> bytes"

text \<open>
  \<open>rt_lock\<close>: waiting until the signing lock is free. \<open>rt_now\<close>: the clock, which stands still between
  two waits.
\<close>

record 'w runtime =
  rt_crypto :: crypto
  rt_codec :: codec
  rt_near :: "'w relayer_state near_client"
  rt_now :: "'w relayer_state \<Rightarrow> int"
  rt_sleep :: "int \<Rightarrow> ('w, unit) ract"
  rt_lock :: "('w, unit) ract"

definition now_ms :: "'w runtime \<Rightarrow> ('w, int) ract" where
  "now_ms R = reading (rt_now R)"

definition get_tx :: "tx_key \<Rightarrow> ('w, tx_record option) ract" where
  "get_tx k = reading (\<lambda>s. tget k (rs_tx s))"

definition put_tx :: "tx_key \<Rightarrow> tx_record \<Rightarrow> ('w, unit) ract" where
  "put_tx k r = writing (\<lambda>s. s\<lparr>rs_tx := tput k r (rs_tx s)\<rparr>)"

definition del_tx :: "tx_key \<Rightarrow> ('w, unit) ract" where
  "del_tx k = writing (\<lambda>s. s\<lparr>rs_tx := tdel k (rs_tx s)\<rparr>)"

definition get_purchase :: "string \<Rightarrow> ('w, purchase_record option) ract" where
  "get_purchase k = reading (\<lambda>s. tget k (rs_purchase s))"

definition put_purchase :: "string \<Rightarrow> purchase_record \<Rightarrow> ('w, unit) ract" where
  "put_purchase k r = writing (\<lambda>s. s\<lparr>rs_purchase := tput k r (rs_purchase s)\<rparr>)"

definition del_purchase :: "string \<Rightarrow> ('w, unit) ract" where
  "del_purchase k = writing (\<lambda>s. s\<lparr>rs_purchase := tdel k (rs_purchase s)\<rparr>)"

definition get_device :: "string \<Rightarrow> ('w, device_record option) ract" where
  "get_device k = reading (\<lambda>s. tget k (rs_device s))"

definition put_device :: "string \<Rightarrow> device_record \<Rightarrow> ('w, unit) ract" where
  "put_device k r = writing (\<lambda>s. s\<lparr>rs_device := tput k r (rs_device s)\<rparr>)"

definition del_device :: "string \<Rightarrow> ('w, unit) ract" where
  "del_device k = writing (\<lambda>s. s\<lparr>rs_device := tdel k (rs_device s)\<rparr>)"

definition get_identity :: "string \<Rightarrow> ('w, identity_record option) ract" where
  "get_identity k = reading (\<lambda>s. tget k (rs_identity s))"

definition put_identity :: "string \<Rightarrow> identity_record \<Rightarrow> ('w, unit) ract" where
  "put_identity k r = writing (\<lambda>s. s\<lparr>rs_identity := tput k r (rs_identity s)\<rparr>)"

definition get_invite :: "string \<Rightarrow> ('w, invite_record option) ract" where
  "get_invite k = reading (\<lambda>s. tget k (rs_invite s))"

definition put_invite :: "string \<Rightarrow> invite_record \<Rightarrow> ('w, unit) ract" where
  "put_invite k r = writing (\<lambda>s. s\<lparr>rs_invite := tput k r (rs_invite s)\<rparr>)"

definition get_invite_identity :: "string \<Rightarrow> ('w, string option) ract" where
  "get_invite_identity k = reading (\<lambda>s. tget k (rs_invite_identity s))"

definition put_invite_identity :: "string \<Rightarrow> string \<Rightarrow> ('w, unit) ract" where
  "put_invite_identity k c = writing (\<lambda>s. s\<lparr>rs_invite_identity := tput k c (rs_invite_identity s)\<rparr>)"

definition del_invite_identity :: "string \<Rightarrow> ('w, unit) ract" where
  "del_invite_identity k = writing (\<lambda>s. s\<lparr>rs_invite_identity := tdel k (rs_invite_identity s)\<rparr>)"

definition put_invited_account :: "string \<Rightarrow> string \<times> int \<Rightarrow> ('w, unit) ract" where
  "put_invited_account k v = writing (\<lambda>s. s\<lparr>rs_invited_account := tput k v (rs_invited_account s)\<rparr>)"

definition get_ckd_done :: "string \<Rightarrow> ('w, (int \<times> string option) option) ract" where
  "get_ckd_done k = reading (\<lambda>s. tget k (rs_ckd_done s))"

definition put_ckd_done :: "string \<Rightarrow> int \<times> string option \<Rightarrow> ('w, unit) ract" where
  "put_ckd_done k v = writing (\<lambda>s. s\<lparr>rs_ckd_done := tput k v (rs_ckd_done s)\<rparr>)"

definition count_of :: "string \<times> string \<Rightarrow> 'w relayer_state \<Rightarrow> int" where
  "count_of k s = (case tget k (rs_count s) of Some n \<Rightarrow> n | None \<Rightarrow> 0)"

definition get_count :: "string \<times> string \<Rightarrow> ('w, int) ract" where
  "get_count k = reading (count_of k)"

definition put_count :: "string \<times> string \<Rightarrow> int \<Rightarrow> ('w, unit) ract" where
  "put_count k n = writing (\<lambda>s. s\<lparr>rs_count := tput k n (rs_count s)\<rparr>)"

definition put_last_nonce :: "int \<Rightarrow> ('w, unit) ract" where
  "put_last_nonce n = writing (\<lambda>s. s\<lparr>rs_last_nonce := n\<rparr>)"

definition set_alarm :: "int \<Rightarrow> ('w, unit) ract" where
  "set_alarm t = writing (\<lambda>s. s\<lparr>rs_alarm := Some t\<rparr>)"

lemmas store_defs = now_ms_def get_tx_def put_tx_def del_tx_def get_purchase_def put_purchase_def del_purchase_def
  get_device_def put_device_def del_device_def get_identity_def put_identity_def get_invite_def put_invite_def
  get_invite_identity_def put_invite_identity_def del_invite_identity_def put_invited_account_def get_ckd_done_def
  put_ckd_done_def get_count_def put_count_def put_last_nonce_def set_alarm_def

section \<open>Days and daily counters\<close>

text \<open>
  \<open>new Date(ms).toISOString().slice(0, 10)\<close>, for times between 1970 and 9999: the civil date of a
  day number, counted in eras of 400 years from 1 March 0000.
\<close>

definition civil_date :: "int \<Rightarrow> int \<times> int \<times> int" where
  "civil_date days =
     (let z = days + 719468; era = z div 146097; doe = z mod 146097;
          yoe = (doe - doe div 1460 + doe div 36524 - doe div 146096) div 365;
          doy = doe - (365 * yoe + yoe div 4 - yoe div 100);
          mp = (5 * doy + 2) div 153;
          d = doy - (153 * mp + 2) div 5 + 1;
          m = (if mp < 10 then mp + 3 else mp - 9);
          y = yoe + era * 400 + (if m \<le> 2 then 1 else 0)
      in (y, m, d))"

definition pad_left :: "nat \<Rightarrow> string \<Rightarrow> string" where
  "pad_left n s = replicate (n - length s) CHR ''0'' @ s"

definition iso_day :: "int \<Rightarrow> string" where
  "iso_day ms =
     (case civil_date (ms div 86400000) of (y, m, d) \<Rightarrow>
        pad_left 4 (show_int y) @ ''-'' @ pad_left 2 (show_int m) @ ''-'' @ pad_left 2 (show_int d))"

definition today :: "'w runtime \<Rightarrow> ('w, string) ract" where
  "today R = bnd (now_ms R) (\<lambda>t. ret (iso_day t))"

definition limit_of :: "string \<Rightarrow> int" where
  "limit_of v = int (dec_val v)"

definition consume_daily :: "'w runtime \<Rightarrow> string \<Rightarrow> int \<Rightarrow> int \<Rightarrow> ('w, unit) ract" where
  "consume_daily R counter amount limit =
     bnd (today R) (\<lambda>day.
     bnd (get_count (day, counter)) (\<lambda>used.
     bnd (require (used + amount \<le> limit) ''daily_limit_reached'') (\<lambda>_.
     put_count (day, counter) (used + amount))))"

section \<open>Alarm\<close>

definition ckd_record_ttl_ms :: int where
  "ckd_record_ttl_ms = 10 * 60 * 1000"

definition ensure_alarm :: "'w runtime \<Rightarrow> ('w, unit) ract" where
  "ensure_alarm R =
     bnd (reading rs_alarm) (\<lambda>a.
     case a of Some _ \<Rightarrow> ret ()
     | None \<Rightarrow> bnd (now_ms R) (\<lambda>t. set_alarm (t + ckd_record_ttl_ms)))"

section \<open>Replies and request values\<close>

record response =
  rs_status :: nat
  rs_body :: json

definition reply_json :: "nat \<Rightarrow> (string \<times> json) list \<Rightarrow> response" where
  "reply_json status ms = \<lparr>rs_status = status, rs_body = JObj ms\<rparr>"

definition str_or_null :: "string option \<Rightarrow> json" where
  "str_or_null v = (case v of Some s \<Rightarrow> JStr s | None \<Rightarrow> JNull)"

definition require_hex64 :: "json option \<Rightarrow> string + string" where
  "require_hex64 v =
     (case as_str v of Some s \<Rightarrow> if hex64 s then Inr s else Inl ''invalid_request'' | None \<Rightarrow> Inl ''invalid_request'')"

definition atob_bytes :: "string \<Rightarrow> string + bytes" where
  "atob_bytes s = (case atob s of Some bs \<Rightarrow> Inr bs | None \<Rightarrow> Inl ''InvalidCharacterError'')"

text \<open>\<open>JSON.parse(new TextDecoder().decode(atob(value)))\<close>, \<open>None\<close> when any of them throws.\<close>

definition decode_value :: "string option \<Rightarrow> json option" where
  "decode_value value =
     Option.bind (atob (case value of Some v \<Rightarrow> v | None \<Rightarrow> [])) (\<lambda>bs. json_parse (decode_text bs))"

end
