(* ===== verification/RelayerJwt.thy ===== *)
theory RelayerJwt
  imports NearRpc
begin

text \<open>
  \<open>workers/relayer/src/jwt.ts\<close>: verification of NEAR Auth tokens with the issuer's JWKS. The verifier
  keeps the last keys it fetched and when; the request for the key set and the clock are parameters.
  The key cache and the rest of the state are the two parts of the verifier's state.
\<close>

record verified_identity =
  vi_iss :: string
  vi_sub :: string
  vi_exp :: int
  vi_nonce :: "string option"
  vi_fatxn :: "bytes option"

record jwt_config =
  jc_issuer :: string
  jc_client_id :: string

definition max_token_bytes :: nat where
  "max_token_bytes = 7168"

definition max_subject_bytes :: nat where
  "max_subject_bytes = 256"

definition jwks_ttl_ms :: int where
  "jwks_ttl_ms = 10 * 60 * 1000"

definition jwks_forced_refresh_ms :: int where
  "jwks_forced_refresh_ms = 60 * 1000"

definition clock_skew_s :: int where
  "clock_skew_s = 5"

type_synonym rsa_key = "string \<times> string"

record jwks_cache =
  kc_keys :: "(string, rsa_key) table"
  kc_fetched_at :: int

type_synonym 's jwt_state = "jwks_cache option \<times> 's"

text \<open>The clock and the request for \<open>.well-known/jwks.json\<close>.\<close>

record 's jwt_world =
  jw_now :: "'s \<Rightarrow> int"
  jw_fetch :: "('s, bool \<times> json option) act"

definition in_world :: "('s, 'a) act \<Rightarrow> ('s jwt_state, 'a) act" where
  "in_world m cs = (case m (snd cs) of (r, s) \<Rightarrow> (r, (fst cs, s)))"

section \<open>Token parts\<close>

definition base64_url_bytes :: "string \<Rightarrow> bytes option" where
  "base64_url_bytes v =
     (if v = [] \<or> \<not> list_all is_b64url v then None
      else let t = map (\<lambda>c. if c = CHR ''-'' then CHR ''+'' else if c = CHR ''_'' then CHR ''/'' else c) v
           in atob (t @ replicate ((length v + 3) div 4 * 4 - length v) CHR ''=''))"

definition json_part :: "string \<Rightarrow> json option" where
  "json_part v =
     Option.bind (base64_url_bytes v) (\<lambda>bs.
     Option.bind (decode_text_fatal bs) (\<lambda>t.
     Option.bind (json_parse t) (\<lambda>j. if is_obj j then Some j else None)))"

section \<open>Keys\<close>

definition usable_jwk :: "json \<Rightarrow> bool" where
  "usable_jwk jwk =
     (obj_get ''kty'' jwk = Some (JStr ''RSA'') \<and> has_str ''kid'' jwk \<and> has_str ''n'' jwk \<and> has_str ''e'' jwk
      \<and> obj_get ''alg'' jwk \<in> {None, Some (JStr ''RS256'')} \<and> obj_get ''use'' jwk \<in> {None, Some (JStr ''sig'')})"

text \<open>The keys in order; an unusable one is skipped, one the platform cannot import throws.\<close>

fun import_keys :: "crypto \<Rightarrow> json list \<Rightarrow> (string, rsa_key) table \<Rightarrow> string + (string, rsa_key) table" where
  "import_keys C [] keys = Inr keys"
| "import_keys C (jwk # jwks) keys =
     (if \<not> usable_jwk jwk then import_keys C jwks keys
      else if rsa_import C (str_of ''n'' jwk) (str_of ''e'' jwk)
        then import_keys C jwks (tput (str_of ''kid'' jwk) (str_of ''n'' jwk, str_of ''e'' jwk) keys)
      else Inl ''DataError'')"

definition load_keys :: "crypto \<Rightarrow> 's jwt_world \<Rightarrow> bool \<Rightarrow> ('s jwt_state, (string, rsa_key) table) act" where
  "load_keys C W force =
     bnd (reading (\<lambda>(cache, s). case cache of None \<Rightarrow> None
       | Some c \<Rightarrow> if jw_now W s - kc_fetched_at c < (if force then jwks_forced_refresh_ms else jwks_ttl_ms)
                  then Some (kc_keys c) else None)) (\<lambda>fresh.
     case fresh of Some keys \<Rightarrow> ret keys
     | None \<Rightarrow>
         bnd (in_world (jw_fetch W)) (\<lambda>(ok, body).
           if \<not> ok then throw ''jwks_unavailable''
           else case Option.bind body (obj_get ''keys'') of
             Some (JArr jwks) \<Rightarrow>
               bnd (lifting (import_keys C jwks [])) (\<lambda>keys.
               bnd (writing (\<lambda>(_, s). (Some \<lparr>kc_keys = keys, kc_fetched_at = jw_now W s\<rparr>, s))) (\<lambda>_. ret keys))
           | _ \<Rightarrow> throw ''jwks_unavailable''))"

section \<open>Claims\<close>

text \<open>\<open>typeof v === 'number' && v <= n\<close>\<close>

fun number_at_most :: "int \<Rightarrow> json \<Rightarrow> bool" where
  "number_at_most n (JNum q) = (q \<le> of_int n)"
| "number_at_most n (JInf neg) = neg"
| "number_at_most n v = False"

definition audiences_of :: "json \<Rightarrow> json list" where
  "audiences_of claims = (case obj_get ''aud'' claims of Some (JStr a) \<Rightarrow> [JStr a] | Some (JArr vs) \<Rightarrow> vs | _ \<Rightarrow> [])"

definition absent_or :: "string \<Rightarrow> json \<Rightarrow> (json \<Rightarrow> bool) \<Rightarrow> bool" where
  "absent_or k claims p = (case obj_get k claims of None \<Rightarrow> True | Some v \<Rightarrow> p v)"

definition claims_ok :: "jwt_config \<Rightarrow> string \<Rightarrow> int \<Rightarrow> json \<Rightarrow> bool" where
  "claims_ok cfg audience now_s claims =
     (let auds = audiences_of claims; azp_ok = (obj_get ''azp'' claims = Some (JStr (jc_client_id cfg))); sub = str_of ''sub'' claims
      in obj_get ''iss'' claims = Some (JStr (jc_issuer cfg))
         \<and> JStr audience \<in> set auds
         \<and> \<not> ((length auds > 1 \<or> audience \<noteq> jc_client_id cfg) \<and> \<not> azp_ok)
         \<and> \<not> (obj_get ''azp'' claims \<noteq> None \<and> \<not> azp_ok)
         \<and> has_str ''sub'' claims \<and> sub \<noteq> [] \<and> CHR ''#'' \<notin> set sub
         \<and> length (encode_text sub) \<le> max_subject_bytes
         \<and> (case json_safe_integer (obj_get ''exp'' claims) of Some e \<Rightarrow> now_s < e | None \<Rightarrow> False)
         \<and> absent_or ''nbf'' claims (number_at_most (now_s + clock_skew_s))
         \<and> absent_or ''iat'' claims (number_at_most (now_s + clock_skew_s))
         \<and> absent_or ''nonce'' claims (\<lambda>v. as_str (Some v) \<noteq> None))"

definition fatxn_of :: "json \<Rightarrow> string + bytes option" where
  "fatxn_of claims =
     (case obj_get ''fatxn'' claims of None \<Rightarrow> Inr None
      | Some v \<Rightarrow>
         (case v of JArr vs \<Rightarrow>
            (if vs = [] \<or> length vs > 4096 then Inl ''invalid_token''
             else case bytes_of vs of None \<Rightarrow> Inl ''invalid_token'' | Some bs \<Rightarrow> Inr (Some bs))
          | _ \<Rightarrow> Inl ''invalid_token''))"

text \<open>Header, claims, signature bytes and the signed text of a token.\<close>

definition token_parts :: "json option \<Rightarrow> string + json \<times> json \<times> bytes \<times> bytes" where
  "token_parts token =
     (case as_str token of None \<Rightarrow> Inl ''invalid_token''
      | Some t \<Rightarrow>
         if length (encode_text t) > max_token_bytes then Inl ''invalid_token''
         else case split_at_char CHR ''.'' t of
           [h, c, sg] \<Rightarrow>
             (case (json_part h, json_part c, base64_url_bytes sg) of
                (Some header, Some claims, Some sig) \<Rightarrow> Inr (header, claims, sig, encode_text (h @ ''.'' @ c))
              | _ \<Rightarrow> Inl ''invalid_token'')
         | _ \<Rightarrow> Inl ''invalid_token'')"

definition verify_token ::
  "crypto \<Rightarrow> 's jwt_world \<Rightarrow> jwt_config \<Rightarrow> string \<Rightarrow> json option \<Rightarrow> ('s jwt_state, verified_identity) act" where
  "verify_token C W cfg audience token =
     bnd (lifting (token_parts token)) (\<lambda>(header, claims, sig, signed_bytes).
     bnd (require (obj_get ''alg'' header = Some (JStr ''RS256'') \<and> has_str ''kid'' header) ''invalid_token'') (\<lambda>_.
     bnd (load_keys C W False) (\<lambda>keys.
     bnd (case tget (str_of ''kid'' header) keys of
            Some k \<Rightarrow> ret (Some k)
          | None \<Rightarrow> bnd (load_keys C W True) (\<lambda>keys'. ret (tget (str_of ''kid'' header) keys'))) (\<lambda>key.
     case key of None \<Rightarrow> throw ''invalid_token''
     | Some k \<Rightarrow>
       bnd (require (rsa_verify C k sig signed_bytes) ''invalid_token'') (\<lambda>_.
       bnd (reading (\<lambda>(_, s). jw_now W s div 1000)) (\<lambda>now_s.
       bnd (require (claims_ok cfg audience now_s claims) ''invalid_token'') (\<lambda>_.
       bnd (lifting (fatxn_of claims)) (\<lambda>fatxn.
       ret \<lparr>vi_iss = jc_issuer cfg, vi_sub = str_of ''sub'' claims,
            vi_exp = the (json_safe_integer (obj_get ''exp'' claims)), vi_nonce = as_str (obj_get ''nonce'' claims),
            vi_fatxn = fatxn\<rparr>))))))))"

definition identity_hash :: "crypto \<Rightarrow> string \<Rightarrow> string \<Rightarrow> string" where
  "identity_hash C iss sub = hex_of (sha256 C (encode_text (''youtick-relayer-identity|'' @ iss @ ''|'' @ sub)))"

definition ckd_gate_nonce :: "crypto \<Rightarrow> string \<Rightarrow> string \<Rightarrow> string \<Rightarrow> string" where
  "ckd_gate_nonce C gate pk1 pk2 =
     (let b = btoa (sha256 C (encode_text (''ckd-gate|'' @ gate @ ''|'' @ pk1 @ ''|'' @ pk2)));
          t = map (\<lambda>c. if c = CHR ''+'' then CHR ''-'' else if c = CHR ''/'' then CHR ''_'' else c) b
      in rev (dropWhile (\<lambda>c. c = CHR ''='') (rev t)))"

end
