(* ===== verification/RelayerFront.thy ===== *)
theory RelayerFront
  imports RelayerStore RelayerJwt
begin

text \<open>
  \<open>workers/relayer/src/index.ts\<close>: the front Worker. It checks origin, rate limit, token and request,
  derives the account, and forwards minimal inputs to \<open>RelayerControl\<close>. The token verifier, the chain,
  the limiter, the random bytes and the control object are parameters.
\<close>

section \<open>Requests and replies\<close>

record request =
  rq_path :: string
  rq_method :: string
  rq_origin :: "string option"
  rq_content_type :: "string option"
  rq_authorization :: "string option"
  rq_client_ip :: "string option"
  rq_text :: string

text \<open>\<open>fs_cors\<close>: the origin of the CORS headers, when the reply has them.\<close>

record front_response =
  fs_status :: nat
  fs_body :: "json option"
  fs_cors :: "string option"

record 's front =
  fr_crypto :: crypto
  fr_codec :: codec
  fr_near :: "'s near_client"
  fr_now :: "'s \<Rightarrow> int"
  fr_verify :: "string \<Rightarrow> json option \<Rightarrow> ('s, verified_identity) act"
  fr_control :: "(string \<Rightarrow> json \<Rightarrow> ('s, nat \<times> json) act) option"
  fr_limiter :: "(string \<Rightarrow> ('s, bool) act) option"
  fr_random :: "('s, bytes) act"

definition max_body_bytes :: nat where
  "max_body_bytes = 16 * 1024"

definition front_json :: "json \<Rightarrow> nat \<Rightarrow> string option \<Rightarrow> front_response" where
  "front_json v status cors = \<lparr>fs_status = status, fs_body = Some v, fs_cors = cors\<rparr>"

definition front_error :: "string \<Rightarrow> nat \<Rightarrow> string option \<Rightarrow> front_response" where
  "front_error code status cors = front_json (JObj [(''error'', JStr code)]) status cors"

text \<open>\<open>/^bls12381g1:[base58]{60,70}$/\<close> and \<open>/^bls12381g2:[base58]{120,135}$/\<close>\<close>

definition bls_g1 :: "string \<Rightarrow> bool" where
  "bls_g1 s = (starts_with ''bls12381g1:'' s \<and> repeated is_base58 60 70 (drop 11 s))"

definition bls_g2 :: "string \<Rightarrow> bool" where
  "bls_g2 s = (starts_with ''bls12381g2:'' s \<and> repeated is_base58 120 135 (drop 11 s))"

definition purchase_rejections :: "(string \<times> nat) list" where
  "purchase_rejections =
     [(''purchase_invalid'', 400), (''purchases_paused'', 503), (''publication_unavailable'', 409), (''price_mismatch'', 409),
      (''ticket_exists'', 409), (''signature_expired'', 409), (''upload_invalid'', 400), (''uploads_paused'', 503),
      (''quote_required'', 409), (''fee_mismatch'', 409), (''upload_key_expired'', 409), (''job_exists'', 409),
      (''job_conflict'', 409), (''job_not_found'', 404), (''job_published'', 409), (''profile_not_allowed'', 400),
      (''uploads_misconfigured'', 503), (''approval_mismatch'', 400), (''delegate_stale'', 409), (''insufficient_balance'', 409),
      (''device_invalid'', 400), (''ticket_not_found'', 404), (''ticket_not_playable'', 409), (''device_epoch_stale'', 409),
      (''storage_unavailable'', 503)]"

text \<open>Any failure to read the body is \<open>invalid_request\<close> to the client.\<close>

definition read_json :: "request \<Rightarrow> json option" where
  "read_json rq =
     (case rq_content_type rq of None \<Rightarrow> None
      | Some ct \<Rightarrow>
          if js_trim (hd (split_at_char CHR '';'' ct)) \<noteq> ''application/json'' then None
          else if length (encode_text (rq_text rq)) > max_body_bytes then None
          else Option.bind (json_parse (rq_text rq)) (\<lambda>v. if is_obj v then Some v else None))"

definition admin_authorized :: "crypto \<Rightarrow> request \<Rightarrow> env \<Rightarrow> bool" where
  "admin_authorized C rq e =
     (let header = or_empty (rq_authorization rq);
          token = (if starts_with ''Bearer '' header then drop 7 header else [])
      in token \<noteq> [] \<and> sha256_hex C (encode_text token) = sha256_hex C (encode_text (or_empty (RELAYER_ADMIN_TOKEN e))))"

definition url_safe :: "string \<Rightarrow> string" where
  "url_safe b = map (\<lambda>c. if c = CHR ''+'' then CHR ''-'' else if c = CHR ''/'' then CHR ''_'' else c) b"

text \<open>What a route answers: a reply of its own, or what the control object replies.\<close>

datatype step = Reply front_response | Forward string json

definition forward :: "(string \<Rightarrow> json \<Rightarrow> ('s, nat \<times> json) act) \<Rightarrow> string \<Rightarrow> json \<Rightarrow> string option \<Rightarrow> ('s, front_response) act" where
  "forward control path body cors = bnd (control path body) (\<lambda>(status, v). ret (front_json v status cors))"

section \<open>Internal routes\<close>

definition spread_after :: "string \<Rightarrow> json \<Rightarrow> json \<Rightarrow> json" where
  "spread_after k v rest =
     (case rest of JObj ms \<Rightarrow> JObj (foldl (\<lambda>acc (k', v'). set_member k' v' acc) [(k, v)] ms) | _ \<Rightarrow> JObj [(k, v)])"

definition invited_prefix :: string where
  "invited_prefix = ''/internal/invited-accounts/''"

definition handle_internal ::
  "'s front \<Rightarrow> env \<Rightarrow> (string \<Rightarrow> json \<Rightarrow> ('s, nat \<times> json) act) \<Rightarrow> request \<Rightarrow> ('s, front_response) act" where
  "handle_internal F e control rq =
     (if \<not> admin_authorized (fr_crypto F) rq e then ret (front_error ''unauthorized'' 401 None)
      else if rq_method rq = ''POST'' \<and> rq_path rq = ''/internal/invites'' then
        (case read_json rq of None \<Rightarrow> ret (front_error ''invalid_request'' 400 None)
         | Some body \<Rightarrow>
             if \<not> exact_keys (Some body) [''amount_usdc_micro''] \<or> \<not> has_str ''amount_usdc_micro'' body
             then ret (front_error ''invalid_request'' 400 None)
             else
               bnd (fr_random F) (\<lambda>bytes.
                 let code = ''yt_'' @ url_safe (btoa bytes) in
               bnd (control ''/invite/create''
                      (JObj [(''codeHash'', JStr (sha256_hex (fr_crypto F) (encode_text code))),
                             (''amountMicro'', JStr (str_of ''amount_usdc_micro'' body))])) (\<lambda>(status, created).
               ret (front_json (if 200 \<le> status \<and> status < 300 then spread_after ''code'' (JStr code) created else created)
                      status None))))
      else if rq_method rq = ''GET'' \<and> starts_with invited_prefix (rq_path rq) \<and> hex64 (drop (length invited_prefix) (rq_path rq)) then
        forward control ''/invite/status'' (JObj [(''accountId'', JStr (drop (length invited_prefix) (rq_path rq)))]) None
      else ret (front_error ''not_found'' 404 None))"

section \<open>Approvals\<close>

record approved =
  ap_identity :: verified_identity
  ap_identity_hash :: string
  ap_key :: account_key
  ap_bytes_base64 :: string

definition hash_of_identity :: "'s front \<Rightarrow> verified_identity \<Rightarrow> string" where
  "hash_of_identity F v = identity_hash (fr_crypto F) (vi_iss v) (vi_sub v)"

text \<open>The token, its identity hash and the account of the identity.\<close>

definition verified_account :: "'s front \<Rightarrow> relayer_settings \<Rightarrow> json option \<Rightarrow> ('s, string \<times> string) act" where
  "verified_account F cfg token =
     bnd (fr_verify F (cfg_client_id cfg) token) (\<lambda>v.
     bnd (fast_auth_account (fr_crypto F) (fr_near F) (cfg_provider cfg) (vi_sub v)) (\<lambda>account.
     ret (hash_of_identity F v, account)))"

definition delegate_usable :: "access_key_view \<Rightarrow> int \<Rightarrow> int \<Rightarrow> bool" where
  "delegate_usable ak nonce max_height =
     (case ak_block_height ak of None \<Rightarrow> False
      | Some height \<Rightarrow>
          ak_nonce ak < nonce \<and> nonce < height * nonce_range_multiplier \<and> height < max_height
          \<and> max_height \<le> height + max_delegate_ttl_blocks)"

definition approved_delegate ::
  "'s front \<Rightarrow> relayer_settings \<Rightarrow> json option \<Rightarrow> relay_fields \<Rightarrow> (account_key \<Rightarrow> delegate_action) \<Rightarrow> ('s, approved) act" where
  "approved_delegate F cfg token f build =
     bnd (fr_verify F (fp_signing_audience (cfg_provider cfg)) token) (\<lambda>v.
     case vi_fatxn v of None \<Rightarrow> throw ''invalid_token''
     | Some fatxn \<Rightarrow>
       bnd (fast_auth_key (fr_crypto F) (fr_near F) (cfg_provider cfg) (vi_sub v)) (\<lambda>key.
       bnd (lifting (encode_delegate (fr_codec F) (build key))) (\<lambda>bytes.
       bnd (require (same_bytes bytes fatxn) ''approval_mismatch'') (\<lambda>_.
       bnd (nc_access_key (fr_near F) (acct_id key) (acct_public_key key)) (\<lambda>ak.
       bnd (require (delegate_usable ak (int (dec_val (rf_nonce f))) (int (dec_val (rf_max_block_height f)))) ''delegate_stale'') (\<lambda>_.
       ret \<lparr>ap_identity = v, ap_identity_hash = hash_of_identity F v, ap_key = key, ap_bytes_base64 = btoa bytes\<rparr>))))))"

definition require_usdc_balance :: "'s front \<Rightarrow> relayer_settings \<Rightarrow> string \<Rightarrow> string \<Rightarrow> ('s, unit) act" where
  "require_usdc_balance F cfg account amount =
     bnd (nc_view (fr_near F) (cfg_usdc_contract cfg) ''ft_balance_of'' (JObj [(''account_id'', JStr account)])) (\<lambda>balance.
     require (case balance of JStr b \<Rightarrow> repeated is_digit 1 39 b \<and> dec_val amount \<le> dec_val b | _ \<Rightarrow> False) ''insufficient_balance'')"

section \<open>Routes\<close>

definition without_token :: "json \<Rightarrow> json" where
  "without_token body = (case body of JObj ms \<Rightarrow> JObj (filter (\<lambda>(k, _). k \<noteq> ''access_token'') ms) | v \<Rightarrow> v)"

definition fields_json :: "relay_fields \<Rightarrow> json" where
  "fields_json f =
     JObj [(''args'', args_json (rf_args f)), (''nonce'', JStr (rf_nonce f)), (''max_block_height'', JStr (rf_max_block_height f))]"

definition forward_approved :: "string \<Rightarrow> approved \<Rightarrow> json option \<Rightarrow> relay_fields \<Rightarrow> step" where
  "forward_approved path ap token f =
     Forward path
       (JObj ([(''identityHash'', JStr (ap_identity_hash ap)), (''accountId'', JStr (acct_id (ap_key ap))),
               (''userPublicKey'', JStr (acct_public_key (ap_key ap)))]
              @ (case token of Some t \<Rightarrow> [(''accessToken'', t)] | None \<Rightarrow> [])
              @ [(''fields'', fields_json f), (''bytes'', JStr (ap_bytes_base64 ap))]))"

definition bad_request :: "string option \<Rightarrow> step" where
  "bad_request cors = Reply (front_error ''invalid_request'' 400 cors)"

definition route_accounts :: "'s front \<Rightarrow> relayer_settings \<Rightarrow> string option \<Rightarrow> json \<Rightarrow> ('s, step) act" where
  "route_accounts F cfg cors body =
     (if \<not> exact_keys (Some body) [''id_token''] then ret (bad_request cors)
      else bnd (verified_account F cfg (obj_get ''id_token'' body)) (\<lambda>(hash, account).
        ret (Forward ''/account'' (JObj [(''identityHash'', JStr hash), (''accountId'', JStr account)]))))"

definition route_ckd :: "'s front \<Rightarrow> relayer_settings \<Rightarrow> string option \<Rightarrow> json \<Rightarrow> ('s, step) act" where
  "route_ckd F cfg cors body =
     (let args = obj_get ''args'' body; key = Option.bind args (obj_get ''app_public_key'');
          gate = str_of ''gate_account_id'' body
      in if \<not> exact_keys (Some body) [''gate_account_id'', ''args''] \<or> \<not> exact_keys args [''jwt'', ''app_public_key'']
            \<or> \<not> exact_keys key [''pk1'', ''pk2''] \<or> \<not> has_str ''gate_account_id'' body \<or> gate \<notin> set (cfg_ckd_gates cfg)
            \<or> \<not> has_str ''pk1'' (the key) \<or> \<not> bls_g1 (str_of ''pk1'' (the key))
            \<or> \<not> has_str ''pk2'' (the key) \<or> \<not> bls_g2 (str_of ''pk2'' (the key))
         then ret (bad_request cors)
         else
           (let jwt = obj_get ''jwt'' (the args); pk1 = str_of ''pk1'' (the key); pk2 = str_of ''pk2'' (the key);
                nonce = ckd_gate_nonce (fr_crypto F) gate pk1 pk2
            in bnd (fr_verify F (cfg_client_id cfg) jwt) (\<lambda>v.
               if vi_nonce v \<noteq> Some nonce then ret (Reply (front_error ''invalid_token'' 401 cors))
               else ret (Forward ''/ckd''
                 (JObj [(''identityHash'', JStr (hash_of_identity F v)), (''gateAccountId'', JStr gate), (''nonce'', JStr nonce),
                        (''args'', JObj [(''jwt'', the jwt),
                                        (''app_public_key'', JObj [(''pk1'', JStr pk1), (''pk2'', JStr pk2)])])])))))"

text \<open>The transfer arguments of parsed purchase or upload fields.\<close>

definition transfer_of :: "relay_fields \<Rightarrow> transfer_args" where
  "transfer_of f = (case rf_args f of TransferArgs a \<Rightarrow> a | KeyArgs _ \<Rightarrow> \<lparr>ta_receiver_id = [], ta_amount = [], ta_msg = []\<rparr>)"

definition key_args_of :: "relay_fields \<Rightarrow> upload_key_args" where
  "key_args_of f = (case rf_args f of KeyArgs a \<Rightarrow> a | TransferArgs _ \<Rightarrow> \<lparr>ua_job_id = [], ua_new_public_key = [], ua_expires_at_ms = []\<rparr>)"

definition route_purchases :: "'s front \<Rightarrow> relayer_settings \<Rightarrow> json \<Rightarrow> ('s, step) act" where
  "route_purchases F cfg body =
     (let token = obj_get ''access_token'' body in
      bnd (lifting (parse_purchase_fields (Some (without_token body)) (cfg_market cfg))) (\<lambda>(f, _).
      bnd (approved_delegate F cfg token f (\<lambda>key. purchase_delegate (acct_id key) (acct_public_key key) (cfg_usdc_contract cfg) f)) (\<lambda>ap.
      bnd (require_usdc_balance F cfg (acct_id (ap_key ap)) (ta_amount (transfer_of f))) (\<lambda>_.
      bnd (reading (fr_now F)) (\<lambda>t.
      bnd (check_purchase_message (fr_crypto F) (fr_near F) (cfg_market cfg) (ta_amount (transfer_of f)) (ta_msg (transfer_of f)) t) (\<lambda>_.
      ret (forward_approved ''/purchase'' ap token f)))))))"

definition route_uploads :: "'s front \<Rightarrow> relayer_settings \<Rightarrow> json \<Rightarrow> ('s, step) act" where
  "route_uploads F cfg body =
     (let token = obj_get ''access_token'' body in
      bnd (lifting (parse_upload_fields (Some (without_token body)) (cfg_market cfg))) (\<lambda>(f, _).
      bnd (approved_delegate F cfg token f (\<lambda>key. upload_delegate (acct_id key) (acct_public_key key) (cfg_usdc_contract cfg) f)) (\<lambda>ap.
      bnd (require_usdc_balance F cfg (acct_id (ap_key ap)) (ta_amount (transfer_of f))) (\<lambda>_.
      bnd (reading (fr_now F)) (\<lambda>t.
      bnd (check_upload_message (fr_crypto F) (fr_near F) (cfg_market cfg) (acct_id (ap_key ap)) (ta_amount (transfer_of f))
             (ta_msg (transfer_of f)) t (cfg_profile_hashes cfg)) (\<lambda>_.
      ret (forward_approved ''/upload'' ap token f)))))))"

definition route_upload_keys :: "'s front \<Rightarrow> relayer_settings \<Rightarrow> json \<Rightarrow> ('s, step) act" where
  "route_upload_keys F cfg body =
     (let token = obj_get ''access_token'' body in
      bnd (lifting (parse_upload_key_fields (Some (without_token body)))) (\<lambda>f.
      bnd (approved_delegate F cfg token f (\<lambda>key. upload_key_delegate (acct_id key) (acct_public_key key) (cfg_market cfg) f)) (\<lambda>ap.
      bnd (reading (fr_now F)) (\<lambda>t.
      bnd (check_upload_key_args (fr_crypto F) (fr_near F) (cfg_market cfg) (acct_id (ap_key ap)) (key_args_of f) t) (\<lambda>_.
      ret (forward_approved ''/upload-key'' ap token f))))))"

definition route_status :: "string option \<Rightarrow> json \<Rightarrow> string \<Rightarrow> string \<Rightarrow> string \<Rightarrow> step" where
  "route_status cors body key path name =
     (if \<not> exact_keys (Some body) [key] \<or> \<not> has_str key body \<or> \<not> hex64 (str_of key body) then bad_request cors
      else Forward path (JObj [(name, JStr (str_of key body))]))"

definition route_devices :: "'s front \<Rightarrow> relayer_settings \<Rightarrow> string option \<Rightarrow> json \<Rightarrow> ('s, step) act" where
  "route_devices F cfg cors body =
     (if cfg_devices cfg = None then ret (Reply (front_error ''devices_disabled'' 503 cors))
      else
        bnd (lifting (parse_add_device_args (Some body))) (\<lambda>args.
        bnd (reading (fr_now F)) (\<lambda>t.
        bnd (check_add_device_args (fr_crypto F) (fr_near F) (cfg_market cfg) args t) (\<lambda>check.
          if dc_listed check
          then ret (Reply (front_json (JObj [(''deviceRequestId'', JStr (device_request_id (fr_crypto F) args)),
                                            (''state'', JStr ''listed''), (''txHash'', JNull)]) 200 cors))
          else ret (Forward ''/device''
                 (JObj [(''args'', JObj [(''ticket_id'', JStr (ad_ticket_id args)), (''session_public_key'', JStr (ad_session_public_key args)),
                          (''certificate_sha256'', JStr (ad_certificate_sha256 args)), (''device_epoch'', JStr (ad_device_epoch args)),
                          (''expires_at_ms'', JStr (ad_expires_at_ms args)), (''signature'', JStr (ad_signature args))]),
                        (''evicts'', str_or_null (dc_evicts check)), (''renewal'', JBool (dc_renewal check))]))))))"

text \<open>\<open>/^yt_[A-Za-z0-9_-]{24}$/\<close>\<close>

definition invite_code :: "string \<Rightarrow> bool" where
  "invite_code s = (starts_with ''yt_'' s \<and> repeated is_b64url 24 24 (drop 3 s))"

definition route_redeem :: "'s front \<Rightarrow> relayer_settings \<Rightarrow> string option \<Rightarrow> json \<Rightarrow> ('s, step) act" where
  "route_redeem F cfg cors body =
     (if \<not> exact_keys (Some body) [''id_token'', ''code''] \<or> \<not> has_str ''code'' body \<or> \<not> invite_code (str_of ''code'' body)
      then ret (bad_request cors)
      else bnd (verified_account F cfg (obj_get ''id_token'' body)) (\<lambda>(hash, account).
        ret (Forward ''/invite/redeem''
          (JObj [(''identityHash'', JStr hash), (''accountId'', JStr account),
                 (''codeHash'', JStr (sha256_hex (fr_crypto F) (encode_text (str_of ''code'' body))))]))))"

definition route :: "'s front \<Rightarrow> relayer_settings \<Rightarrow> string option \<Rightarrow> string \<Rightarrow> json \<Rightarrow> ('s, step) act" where
  "route F cfg cors path body =
     (if path = ''/v1/accounts'' then route_accounts F cfg cors body
      else if path = ''/v1/ckd'' then route_ckd F cfg cors body
      else if path = ''/v1/purchases'' then route_purchases F cfg body
      else if path = ''/v1/uploads'' then route_uploads F cfg body
      else if path = ''/v1/upload-keys'' then route_upload_keys F cfg body
      else if path = ''/v1/uploads/status'' then ret (route_status cors body ''upload_id'' ''/upload/status'' ''uploadId'')
      else if path = ''/v1/purchases/status'' then ret (route_status cors body ''purchase_id'' ''/purchase/status'' ''purchaseId'')
      else if path = ''/v1/devices'' then route_devices F cfg cors body
      else if path = ''/v1/devices/status'' then
        (if cfg_devices cfg = None then ret (Reply (front_error ''devices_disabled'' 503 cors))
         else ret (route_status cors body ''device_request_id'' ''/device/status'' ''deviceRequestId''))
      else if path = ''/v1/invites/redeem'' then route_redeem F cfg cors body
      else ret (Reply (front_error ''not_found'' 404 cors)))"

definition route_error :: "string option \<Rightarrow> string \<Rightarrow> front_response" where
  "route_error cors code =
     (if code = ''invalid_token'' then front_error ''invalid_token'' 401 cors
      else if code = ''invalid_request'' then front_error ''invalid_request'' 400 cors
      else case map_of purchase_rejections code of Some status \<Rightarrow> front_error code status cors
      | None \<Rightarrow>
          if code = ''access_key_missing'' then front_error ''account_not_ready'' 409 cors
          else if code \<in> set [''jwks_unavailable'', ''rpc_unavailable'', ''provider_configuration_changed'']
            then front_error ''dependency_unavailable'' 503 cors
          else front_error ''internal_error'' 500 cors)"

section \<open>The handler\<close>

text \<open>
  The public routes, once the origin is allowed. What \<open>forward\<close> throws is not caught: the routes
  return its promise.
\<close>

definition handle_public ::
  "'s front \<Rightarrow> relayer_settings \<Rightarrow> (string \<Rightarrow> json \<Rightarrow> ('s, nat \<times> json) act) \<Rightarrow> string \<Rightarrow> request \<Rightarrow> ('s, front_response) act" where
  "handle_public F cfg control org rq =
     (let cors = Some org in
      if rq_method rq = ''OPTIONS'' then ret \<lparr>fs_status = 204, fs_body = None, fs_cors = cors\<rparr>
      else if rq_method rq \<noteq> ''POST'' then ret (front_error ''method_not_allowed'' 405 cors)
      else
        bnd (case fr_limiter F of None \<Rightarrow> ret True
             | Some limit \<Rightarrow> limit (rq_path rq @ '':ip:'' @ (case rq_client_ip rq of Some ip \<Rightarrow> ip | None \<Rightarrow> ''unknown''))) (\<lambda>allowed.
          if \<not> allowed then ret (front_error ''rate_limited'' 429 cors)
          else case read_json rq of None \<Rightarrow> ret (front_error ''invalid_request'' 400 cors)
            | Some body \<Rightarrow>
                bnd (catch (route F cfg cors (rq_path rq) body) (\<lambda>code. ret (Reply (route_error cors code)))) (\<lambda>st.
                  case st of Reply r \<Rightarrow> ret r
                  | Forward path v \<Rightarrow> forward control path v cors)))"

definition handle :: "'s front \<Rightarrow> env \<Rightarrow> request \<Rightarrow> ('s, front_response) act" where
  "handle F e rq =
     (case (relayer_config (fr_crypto F) e, fr_control F) of
        (Some cfg, Some control) \<Rightarrow>
          (if starts_with ''/internal/'' (rq_path rq) then handle_internal F e control rq
           else if \<not> starts_with ''/v1/'' (rq_path rq) then ret (front_error ''not_found'' 404 None)
           else if or_empty (rq_origin rq) \<notin> set (cfg_allowed_origins cfg) then ret (front_error ''origin_denied'' 403 None)
           else handle_public F cfg control (or_empty (rq_origin rq)) rq)
      | _ \<Rightarrow> ret (front_error ''relayer_disabled'' 503 None))"

end
