(* ===== verification/Outbox.thy ===== *)
theory Outbox
  imports RelayerStore
begin

text \<open>
  The transaction outbox of \<open>control.ts\<close>: \<open>submit\<close>, \<open>reconcile\<close>, \<open>settle\<close>, \<open>resign\<close>,
  \<open>signAndBroadcast\<close> and \<open>withLock\<close>. A record is written before its transaction is sent, and
  afterwards changes only on evidence from the chain.
\<close>

section \<open>Sending\<close>

definition resend_after_ms :: int where
  "resend_after_ms = 30 * 1000"

definition landing_window_ms :: int where
  "landing_window_ms = 3 * 60 * 1000"

definition poll_delays_ms :: "int list" where
  "poll_delays_ms = [1000, 2000, 3000, 4000]"

datatype recovery = Resign | Check | Manual

record 'w submit_policy =
  sp_recovery :: recovery
  sp_effect_done :: "('w, bool) ract option"
  sp_can_resign :: "('w relayer_state \<Rightarrow> bool) option"
  sp_retry_failed :: bool

definition resign_policy :: "'w submit_policy" where
  "resign_policy = \<lparr>sp_recovery = Resign, sp_effect_done = None, sp_can_resign = None, sp_retry_failed = False\<rparr>"

datatype submit_result = Done "string option" | Pending

definition with_lock :: "'w runtime \<Rightarrow> ('w, 'a) ract \<Rightarrow> ('w, 'a) ract" where
  "with_lock R task = bnd (rt_lock R) (\<lambda>_. task)"

definition settle :: "tx_key \<Rightarrow> tx_record \<Rightarrow> string option option \<Rightarrow> ('w, tx_record) ract" where
  "settle key current outcome =
     (let next_record = (case outcome of
            Some v \<Rightarrow> current\<lparr>tx_state := Success, tx_value := v\<rparr>
          | None \<Rightarrow> current\<lparr>tx_state := Failed\<rparr>)
      in bnd (put_tx key next_record) (\<lambda>_. ret next_record))"

text \<open>
  One signature and broadcast: reserve the next nonce, sign, store the record, send it. Gives the
  record and what the chain answered.
\<close>

definition sign_once ::
  "'w runtime \<Rightarrow> relayer_settings \<Rightarrow> tx_key \<Rightarrow> string \<Rightarrow> string \<Rightarrow> tx_action list \<Rightarrow> ('w, tx_record \<times> tx_outcome) ract" where
  "sign_once R cfg key receiver payload_sha build =
     bnd (nc_access_key (rt_near R) (cfg_account_id cfg) (cfg_public_key cfg)) (\<lambda>ak.
     bnd (require (ak_full_access ak) ''relayer_key_invalid'') (\<lambda>_.
     bnd (reading rs_last_nonce) (\<lambda>last.
     let nonce = (if last > ak_nonce ak then last else ak_nonce ak) + 1 in
     bnd (put_last_nonce nonce) (\<lambda>_.
     bnd (lifting (sign_transaction (rt_codec R) (cfg_private_key cfg) (cfg_account_id cfg) receiver nonce build
            (ak_block_hash ak))) (\<lambda>(encoded, hash).
     bnd (now_ms R) (\<lambda>t.
     let record = \<lparr>tx_state = Broadcast, tx_payload_sha256 = payload_sha, tx_receiver = receiver, tx_nonce = nonce,
                   tx_block_hash = ak_block_hash ak, tx_signed = Some (btoa encoded),
                   tx_hash = base_encode (rt_crypto R) hash, tx_value = None, tx_created_at = t, tx_broadcast_at = t\<rparr> in
     bnd (put_tx key record) (\<lambda>_.
     bnd (nc_send_tx (rt_near R) (btoa encoded)) (\<lambda>outcome.
     ret (record, outcome)))))))))"

definition finish_send :: "tx_key \<Rightarrow> tx_record \<Rightarrow> tx_outcome \<Rightarrow> ('w, tx_record) ract" where
  "finish_send key record outcome =
     (case outcome of OSuccess v \<Rightarrow> settle key record (Some v)
      | OFailed \<Rightarrow> settle key record None
      | _ \<Rightarrow> ret record)"

text \<open>
  A brand-new transaction rejected for its nonce or block hash was never accepted: it is signed once
  more, and only once.
\<close>

definition sign_and_broadcast ::
  "'w runtime \<Rightarrow> relayer_settings \<Rightarrow> tx_key \<Rightarrow> string \<Rightarrow> string \<Rightarrow> tx_action list \<Rightarrow> ('w, tx_record) ract" where
  "sign_and_broadcast R cfg key receiver payload_sha build =
     bnd (require (key_pair_public (rt_crypto R) (cfg_private_key cfg) = Some (cfg_public_key cfg)) ''relayer_key_invalid'') (\<lambda>_.
     bnd (sign_once R cfg key receiver payload_sha build) (\<lambda>(record, outcome).
       if outcome = OInvalidNonce \<or> outcome = OExpired
       then bnd (sign_once R cfg key receiver payload_sha build) (\<lambda>(record', outcome'). finish_send key record' outcome')
       else finish_send key record outcome))"

definition resign ::
  "'w runtime \<Rightarrow> relayer_settings \<Rightarrow> tx_key \<Rightarrow> tx_record \<Rightarrow> tx_action list \<Rightarrow> 'w submit_policy \<Rightarrow> ('w, tx_record) ract" where
  "resign R cfg key current build policy =
     bnd (reading (\<lambda>s. case sp_can_resign policy of Some ok \<Rightarrow> \<not> ok s | None \<Rightarrow> False)) (\<lambda>hopeless.
       if hopeless then settle key current None
       else bnd (require (cfg_mutations_enabled cfg) ''mutations_disabled'') (\<lambda>_.
         sign_and_broadcast R cfg key (tx_receiver current) (tx_payload_sha256 current) build))"

section \<open>Reconciling\<close>

text \<open>The nonce is unused at final state: the stored transaction is sent again.\<close>

definition resend ::
  "'w runtime \<Rightarrow> relayer_settings \<Rightarrow> tx_key \<Rightarrow> tx_record \<Rightarrow> tx_action list \<Rightarrow> 'w submit_policy \<Rightarrow> ('w, tx_record) ract" where
  "resend R cfg key current build policy =
     (case tx_signed current of None \<Rightarrow> ret current
      | Some signed_tx \<Rightarrow>
          bnd (nc_send_tx (rt_near R) signed_tx) (\<lambda>resent.
            case resent of OSuccess v \<Rightarrow> settle key current (Some v)
            | OFailed \<Rightarrow> settle key current None
            | OExpired \<Rightarrow> resign R cfg key current build policy
            | _ \<Rightarrow> ret current))"

text \<open>The nonce has passed, the landing window too, and the chain does not know the transaction.\<close>

definition recover ::
  "'w runtime \<Rightarrow> relayer_settings \<Rightarrow> tx_key \<Rightarrow> tx_record \<Rightarrow> tx_action list \<Rightarrow> 'w submit_policy \<Rightarrow> ('w, tx_record) ract" where
  "recover R cfg key current build policy =
     (let stuck = (let r = current\<lparr>tx_state := Stuck\<rparr> in bnd (put_tx key r) (\<lambda>_. ret r))
      in case sp_recovery policy of
           Resign \<Rightarrow> resign R cfg key current build policy
         | Check \<Rightarrow>
             (case sp_effect_done policy of
                Some effect_done \<Rightarrow>
                  bnd effect_done (\<lambda>done.
                    if done then settle key current (Some None) else resign R cfg key current build policy)
              | None \<Rightarrow> stuck)
         | Manual \<Rightarrow> stuck)"

definition reconcile ::
  "'w runtime \<Rightarrow> relayer_settings \<Rightarrow> tx_key \<Rightarrow> tx_record \<Rightarrow> tx_outcome \<Rightarrow> tx_action list \<Rightarrow> 'w submit_policy
     \<Rightarrow> ('w, tx_record) ract" where
  "reconcile R cfg key record outcome build policy =
     bnd (get_tx key) (\<lambda>stored.
       case stored of None \<Rightarrow> ret record
       | Some current \<Rightarrow>
           if tx_hash current \<noteq> tx_hash record \<or> tx_state current \<noteq> Broadcast then ret current
           else case outcome of
             OSuccess v \<Rightarrow> settle key current (Some v)
           | OFailed \<Rightarrow> settle key current None
           | _ \<Rightarrow>
               bnd (now_ms R) (\<lambda>t.
               if t - tx_broadcast_at current < resend_after_ms then ret current
               else
                 bnd (nc_access_key (rt_near R) (cfg_account_id cfg) (cfg_public_key cfg)) (\<lambda>ak.
                 if ak_nonce ak < tx_nonce current then resend R cfg key current build policy
                 else
                   bnd (now_ms R) (\<lambda>t'.
                   if outcome \<noteq> ONotFound \<or> t' - tx_broadcast_at current < landing_window_ms then ret current
                   else recover R cfg key current build policy))))"

section \<open>Submitting\<close>

definition payload_hash :: "'w runtime \<Rightarrow> string \<Rightarrow> string \<Rightarrow> string" where
  "payload_hash R receiver payload = sha256_hex (rt_crypto R) (encode_text (receiver @ ''|'' @ payload))"

definition first_record ::
  "'w runtime \<Rightarrow> relayer_settings \<Rightarrow> tx_key \<Rightarrow> string \<Rightarrow> string \<Rightarrow> tx_action list \<Rightarrow> 'w submit_policy
     \<Rightarrow> ('w, tx_record) ract" where
  "first_record R cfg key receiver payload_sha build policy =
     bnd (get_tx key) (\<lambda>stored.
       let send = bnd (require (cfg_mutations_enabled cfg) ''mutations_disabled'') (\<lambda>_.
                    sign_and_broadcast R cfg key receiver payload_sha build)
       in case stored of None \<Rightarrow> send
          | Some existing \<Rightarrow>
              if tx_payload_sha256 existing \<noteq> payload_sha then throw ''payload_conflict''
              else if tx_state existing \<noteq> Failed \<or> \<not> sp_retry_failed policy then ret existing
              else send)"

fun poll ::
  "'w runtime \<Rightarrow> relayer_settings \<Rightarrow> tx_key \<Rightarrow> tx_action list \<Rightarrow> 'w submit_policy \<Rightarrow> int list \<Rightarrow> tx_record
     \<Rightarrow> ('w, submit_result) ract" where
  "poll R cfg key build policy delays record =
     (case tx_state record of
        Success \<Rightarrow> ret (Done (tx_value record))
      | Failed \<Rightarrow> throw ''tx_failed''
      | Stuck \<Rightarrow> throw ''tx_needs_review''
      | Broadcast \<Rightarrow>
          bnd (nc_tx_status (rt_near R) (tx_hash record) (cfg_account_id cfg)) (\<lambda>outcome.
          bnd (with_lock R (reconcile R cfg key record outcome build policy)) (\<lambda>record'.
            case tx_state record' of
              Success \<Rightarrow> ret (Done (tx_value record'))
            | Failed \<Rightarrow> throw ''tx_failed''
            | Stuck \<Rightarrow> throw ''tx_needs_review''
            | Broadcast \<Rightarrow>
                (case delays of [] \<Rightarrow> ret Pending
                 | d # ds \<Rightarrow> bnd (rt_sleep R d) (\<lambda>_. poll R cfg key build policy ds record')))))"

definition submit ::
  "'w runtime \<Rightarrow> relayer_settings \<Rightarrow> tx_key \<Rightarrow> string \<Rightarrow> string \<Rightarrow> tx_action list \<Rightarrow> 'w submit_policy
     \<Rightarrow> ('w, submit_result) ract" where
  "submit R cfg key receiver payload build policy =
     bnd (with_lock R (first_record R cfg key receiver (payload_hash R receiver payload) build policy)) (\<lambda>record.
     poll R cfg key build policy poll_delays_ms record)"

end
