(* ===== verification/Accounts.thy ===== *)
theory Accounts
  imports Outbox
begin

text \<open>
  Accounts, CKD requests and invite codes of \<open>control.ts\<close>: \<open>ensureAccount\<close>, \<open>requestCkd\<close>,
  \<open>finishCkd\<close>, \<open>createInvite\<close>, \<open>redeemInvite\<close>, \<open>releaseFailedInvite\<close> and \<open>inviteStatus\<close>.
\<close>

definition ckd_gas :: int where
  "ckd_gas = 150000000000000"

definition storage_deposit_gas :: int where
  "storage_deposit_gas = 30000000000000"

definition ft_transfer_gas :: int where
  "ft_transfer_gas = 30000000000000"

definition one_yocto :: int where
  "one_yocto = 1"

section \<open>Accounts\<close>

definition reserve_identity :: "'w runtime \<Rightarrow> relayer_settings \<Rightarrow> string \<Rightarrow> string \<Rightarrow> ('w, identity_record) ract" where
  "reserve_identity R cfg identity account =
     atomically (bnd (get_identity identity) (\<lambda>existing.
       case existing of
         Some r \<Rightarrow> bnd (require (ir_account r = account) ''identity_conflict'') (\<lambda>_. ret r)
       | None \<Rightarrow>
           bnd (consume_daily R ''accounts'' 1 (limit_of (cfg_daily_account_limit cfg))) (\<lambda>_.
           bnd (now_ms R) (\<lambda>t.
           let created = \<lparr>ir_account = account, ir_ready = False, ir_created_at = t\<rparr> in
           bnd (put_identity identity created) (\<lambda>_. ret created)))))"

definition account_registered :: "'w runtime \<Rightarrow> relayer_settings \<Rightarrow> string \<Rightarrow> ('w, bool) ract" where
  "account_registered R cfg account =
     bnd (nc_view (rt_near R) (cfg_usdc_contract cfg) ''storage_balance_of'' (JObj [(''account_id'', JStr account)])) (\<lambda>v.
     ret (v \<noteq> JNull))"

definition fund_account :: "'w runtime \<Rightarrow> relayer_settings \<Rightarrow> string \<Rightarrow> string \<Rightarrow> ('w, submit_result) ract" where
  "fund_account R cfg identity account =
     submit R cfg (TxFund identity) account (''fund|'' @ account @ ''|'' @ cfg_account_funding_yocto cfg)
       [TransferAction (limit_of (cfg_account_funding_yocto cfg))]
       \<lparr>sp_recovery = Check, sp_effect_done = Some (nc_account_exists (rt_near R) account), sp_can_resign = None,
        sp_retry_failed = True\<rparr>"

definition register_account :: "'w runtime \<Rightarrow> relayer_settings \<Rightarrow> string \<Rightarrow> string \<Rightarrow> int \<Rightarrow> ('w, submit_result) ract" where
  "register_account R cfg identity account deposit =
     submit R cfg (TxUsdc identity) (cfg_usdc_contract cfg) (''usdc|'' @ account @ ''|'' @ show_int deposit)
       [CallAction ''storage_deposit'' (JObj [(''account_id'', JStr account), (''registration_only'', JBool True)])
          storage_deposit_gas deposit]
       \<lparr>sp_recovery = Check, sp_effect_done = Some (account_registered R cfg account), sp_can_resign = None,
        sp_retry_failed = True\<rparr>"

text \<open>The deposit the USDC contract asks for, within the configured bound.\<close>

definition storage_deposit_of :: "relayer_settings \<Rightarrow> json \<Rightarrow> string + int" where
  "storage_deposit_of cfg bounds =
     (if has_str ''min'' bounds \<and> positive (str_of ''min'' bounds)
         \<and> int (dec_val (str_of ''min'' bounds)) \<le> limit_of (cfg_max_storage_deposit_yocto cfg)
      then Inr (int (dec_val (str_of ''min'' bounds))) else Inl ''rpc_unavailable'')"

definition account_reply :: "nat \<Rightarrow> string \<Rightarrow> bool \<Rightarrow> response" where
  "account_reply status account ready = reply_json status [(''accountId'', JStr account), (''ready'', JBool ready)]"

definition finish_account :: "string \<Rightarrow> string \<Rightarrow> identity_record \<Rightarrow> ('w, response) ract" where
  "finish_account identity account record =
     bnd (put_identity identity (record\<lparr>ir_ready := True\<rparr>)) (\<lambda>_. ret (account_reply 200 account True))"

definition register_step ::
  "'w runtime \<Rightarrow> relayer_settings \<Rightarrow> string \<Rightarrow> string \<Rightarrow> identity_record \<Rightarrow> ('w, response) ract" where
  "register_step R cfg identity account record =
     bnd (account_registered R cfg account) (\<lambda>registered.
       if registered then finish_account identity account record
       else
         bnd (nc_view (rt_near R) (cfg_usdc_contract cfg) ''storage_balance_bounds'' (JObj [])) (\<lambda>bounds.
         bnd (lifting (storage_deposit_of cfg bounds)) (\<lambda>deposit.
         bnd (register_account R cfg identity account deposit) (\<lambda>done.
           case done of Pending \<Rightarrow> ret (account_reply 202 account False)
           | Done _ \<Rightarrow> finish_account identity account record))))"

definition ensure_account :: "'w runtime \<Rightarrow> relayer_settings \<Rightarrow> json \<Rightarrow> ('w, response) ract" where
  "ensure_account R cfg body =
     bnd (lifting (require_hex64 (obj_get ''identityHash'' body))) (\<lambda>identity.
     bnd (lifting (require_hex64 (obj_get ''accountId'' body))) (\<lambda>account.
     bnd (reserve_identity R cfg identity account) (\<lambda>record.
       if ir_ready record then ret (account_reply 200 account True)
       else
         bnd (nc_account_exists (rt_near R) account) (\<lambda>exists.
           if exists then register_step R cfg identity account record
           else
             bnd (fund_account R cfg identity account) (\<lambda>funded.
               case funded of Pending \<Rightarrow> ret (account_reply 202 account False)
               | Done _ \<Rightarrow> register_step R cfg identity account record)))))"

section \<open>CKD requests\<close>

definition reserve_ckd :: "'w runtime \<Rightarrow> relayer_settings \<Rightarrow> string \<Rightarrow> string \<Rightarrow> ('w, unit) ract" where
  "reserve_ckd R cfg identity nonce =
     atomically (bnd (get_tx (TxCkd nonce)) (\<lambda>stored.
       if stored \<noteq> None then ret ()
       else
         bnd (get_ckd_done nonce) (\<lambda>marker.
         bnd (require (marker = None) ''ckd_already_requested'') (\<lambda>_.
         bnd (today R) (\<lambda>day.
         bnd (get_count (day, ''ckd:'' @ identity)) (\<lambda>used.
         bnd (require (used < limit_of (cfg_identity_daily_ckd_limit cfg)) ''identity_limit_reached'') (\<lambda>_.
         bnd (consume_daily R ''ckd'' 1 (limit_of (cfg_daily_ckd_limit cfg))) (\<lambda>_.
         put_count (day, ''ckd:'' @ identity) (used + 1)))))))))"

text \<open>Replaces a CKD record, which carries the token, with a replay marker.\<close>

definition finish_ckd :: "'w runtime \<Rightarrow> string \<Rightarrow> tx_record option \<Rightarrow> ('w, unit) ract" where
  "finish_ckd R nonce record =
     atomically (bnd (get_tx (TxCkd nonce)) (\<lambda>current.
       if (case (record, current) of (Some r, Some c) \<Rightarrow> tx_hash c \<noteq> tx_hash r | _ \<Rightarrow> False) then ret ()
       else
         bnd (now_ms R) (\<lambda>t.
         bnd (put_ckd_done nonce (t, map_option tx_hash current)) (\<lambda>_.
         del_tx (TxCkd nonce)))))"

definition request_ckd :: "'w runtime \<Rightarrow> relayer_settings \<Rightarrow> json \<Rightarrow> ('w, response) ract" where
  "request_ckd R cfg body =
     bnd (lifting (require_hex64 (obj_get ''identityHash'' body))) (\<lambda>identity.
       let gate = str_of ''gateAccountId'' body; nonce = str_of ''nonce'' body; args = obj_get ''args'' body in
     bnd (require (has_str ''gateAccountId'' body \<and> gate \<in> set (cfg_ckd_gates cfg) \<and> has_str ''nonce'' body
            \<and> repeated is_b64url 43 43 nonce \<and> (case args of Some a \<Rightarrow> has_fields a | None \<Rightarrow> False)) ''invalid_request'') (\<lambda>_.
     bnd (reserve_ckd R cfg identity nonce) (\<lambda>_.
     bnd (ensure_alarm R) (\<lambda>_.
     bnd (catch
            (submit R cfg (TxCkd nonce) gate (''ckd|'' @ gate @ ''|'' @ json_text (the args))
               [CallAction ''request_key'' (the args) ckd_gas 0] resign_policy)
            (\<lambda>e. bnd (if e = ''tx_failed'' then finish_ckd R nonce None else ret ()) (\<lambda>_. throw e))) (\<lambda>result.
       case result of Pending \<Rightarrow> ret (reply_json 202 [(''pending'', JBool True)])
       | Done value \<Rightarrow>
           bnd (finish_ckd R nonce None) (\<lambda>_.
             case decode_value value of Some v \<Rightarrow> ret (reply_json 200 [(''result'', v)])
             | None \<Rightarrow> throw ''tx_failed''))))))"

section \<open>Invite codes\<close>

definition create_invite :: "'w runtime \<Rightarrow> relayer_settings \<Rightarrow> json \<Rightarrow> ('w, response) ract" where
  "create_invite R cfg body =
     bnd (lifting (require_hex64 (obj_get ''codeHash'' body))) (\<lambda>code.
       let amount = str_of ''amountMicro'' body in
     bnd (require (has_str ''amountMicro'' body \<and> amount \<in> set (cfg_invite_amounts_micro cfg)) ''invalid_request'') (\<lambda>_.
     bnd (now_ms R) (\<lambda>t.
       let record = \<lparr>iv_amount_micro = amount, iv_created_at = t, iv_expires_at = t + cfg_invite_ttl_ms cfg,
                     iv_state = Open, iv_identity = None, iv_account = None\<rparr> in
     bnd (atomically (bnd (get_invite code) (\<lambda>existing.
            bnd (require (existing = None) ''invalid_request'') (\<lambda>_. put_invite code record)))) (\<lambda>_.
     ret (reply_json 201 [(''amountMicro'', JStr amount), (''expiresAtMs'', JNum (of_int (iv_expires_at record)))])))))"

definition reserve_invite :: "'w runtime \<Rightarrow> relayer_settings \<Rightarrow> string \<Rightarrow> string \<Rightarrow> string \<Rightarrow> ('w, invite_record) ract" where
  "reserve_invite R cfg code identity account =
     atomically (bnd (get_identity identity) (\<lambda>acct.
       bnd (require (case acct of Some a \<Rightarrow> ir_ready a \<and> ir_account a = account | None \<Rightarrow> False) ''account_required'') (\<lambda>_.
       bnd (get_invite code) (\<lambda>stored.
         case stored of None \<Rightarrow> throw ''invite_unavailable''
         | Some current \<Rightarrow>
             if iv_state current \<noteq> Open
             then bnd (require (iv_identity current = Some identity) ''invite_unavailable'') (\<lambda>_. ret current)
             else
               bnd (now_ms R) (\<lambda>t.
               bnd (require (t < iv_expires_at current) ''invite_unavailable'') (\<lambda>_.
               bnd (get_invite_identity identity) (\<lambda>used.
               bnd (require (used = None) ''invite_already_used'') (\<lambda>_.
               bnd (consume_daily R ''invite_usdc_micro'' (limit_of (iv_amount_micro current))
                      (limit_of (cfg_daily_invite_usdc_micro_limit cfg))) (\<lambda>_.
               let reserved = current\<lparr>iv_state := Reserved, iv_identity := Some identity, iv_account := Some account\<rparr> in
               bnd (put_invite code reserved) (\<lambda>_.
               bnd (put_invite_identity identity code) (\<lambda>_. ret reserved)))))))))))"

text \<open>Only a final on-chain failure of this exact transaction gives the code back.\<close>

definition release_failed_invite :: "'w runtime \<Rightarrow> string \<Rightarrow> string \<Rightarrow> invite_record \<Rightarrow> tx_key \<Rightarrow> ('w, unit) ract" where
  "release_failed_invite R code identity invite key =
     with_lock R (atomically (bnd (get_tx key) (\<lambda>tx.
       bnd (get_invite code) (\<lambda>current.
         if \<not> (case tx of Some t \<Rightarrow> tx_state t = Failed | None \<Rightarrow> False)
            \<or> \<not> (case current of Some c \<Rightarrow> iv_state c = Reserved \<and> iv_identity c = Some identity | None \<Rightarrow> False)
         then ret ()
         else
           bnd (put_invite code (invite\<lparr>iv_state := Open, iv_identity := None, iv_account := None\<rparr>)) (\<lambda>_.
           bnd (del_invite_identity identity) (\<lambda>_.
           del_tx key))))))"

definition manual_policy :: "'w submit_policy" where
  "manual_policy = \<lparr>sp_recovery = Manual, sp_effect_done = None, sp_can_resign = None, sp_retry_failed = False\<rparr>"

definition invite_transfer :: "string \<Rightarrow> invite_record \<Rightarrow> tx_action" where
  "invite_transfer account invite =
     CallAction ''ft_transfer''
       (JObj [(''receiver_id'', JStr account), (''amount'', JStr (iv_amount_micro invite)), (''memo'', JStr ''youtick invite credit'')])
       ft_transfer_gas one_yocto"

definition invite_reply :: "nat \<Rightarrow> string \<Rightarrow> invite_record \<Rightarrow> bool \<Rightarrow> response" where
  "invite_reply status account invite paid =
     reply_json status [(''accountId'', JStr account), (''amountMicro'', JStr (iv_amount_micro invite)), (''paid'', JBool paid)]"

text \<open>Marks a code paid, from the record the request read when it reserved the code.\<close>

definition pay_invite :: "'w runtime \<Rightarrow> string \<Rightarrow> string \<Rightarrow> invite_record \<Rightarrow> ('w, unit) ract" where
  "pay_invite R code account invite =
     atomically (bnd (put_invite code (invite\<lparr>iv_state := Paid\<rparr>)) (\<lambda>_.
       bnd (now_ms R) (\<lambda>t. put_invited_account account (code, t))))"

definition redeem_invite :: "'w runtime \<Rightarrow> relayer_settings \<Rightarrow> json \<Rightarrow> ('w, response) ract" where
  "redeem_invite R cfg body =
     bnd (lifting (require_hex64 (obj_get ''codeHash'' body))) (\<lambda>code.
     bnd (lifting (require_hex64 (obj_get ''identityHash'' body))) (\<lambda>identity.
     bnd (lifting (require_hex64 (obj_get ''accountId'' body))) (\<lambda>account.
     bnd (reserve_invite R cfg code identity account) (\<lambda>invite.
       if iv_state invite = Paid then ret (invite_reply 200 account invite True)
       else
         bnd (catch
                (submit R cfg (TxInvite code) (cfg_usdc_contract cfg)
                   (''invite|'' @ code @ ''|'' @ account @ ''|'' @ iv_amount_micro invite)
                   [invite_transfer account invite] manual_policy)
                (\<lambda>e. bnd (if e = ''tx_failed'' then release_failed_invite R code identity invite (TxInvite code) else ret ())
                       (\<lambda>_. throw e))) (\<lambda>result.
           case result of Pending \<Rightarrow> ret (invite_reply 202 account invite False)
           | Done _ \<Rightarrow>
               bnd (pay_invite R code account invite) (\<lambda>_. ret (invite_reply 200 account invite True)))))))"

definition invite_status :: "json \<Rightarrow> ('w, response) ract" where
  "invite_status body =
     bnd (lifting (require_hex64 (obj_get ''accountId'' body))) (\<lambda>account.
     bnd (reading (\<lambda>s. tget account (rs_invited_account s))) (\<lambda>v.
     ret (reply_json 200 [(''accountId'', JStr account), (''invited'', JBool (v \<noteq> None))])))"

end
