(* ===== verification/Coerce.thy ===== *)
theory Coerce
  imports Json
begin

text \<open>
  Numbers out of untyped values. \<open>Uint8Array.from(values)\<close> converts every element with
  \<open>Number(v)\<close>, truncates and wraps modulo 256; what is no finite number becomes 0. \<open>String(v)\<close> of
  the values the code converts that way.
\<close>

definition hex_number :: "string \<Rightarrow> rat option" where
  "hex_number s =
     (if s \<noteq> [] \<and> list_all (\<lambda>c. hex_digit_val c \<noteq> None) s
      then ratio_double (foldl (\<lambda>a c. 16 * a + the (hex_digit_val c)) 0 s) 1 else None)"

definition binary_number :: "nat \<Rightarrow> string \<Rightarrow> rat option" where
  "binary_number base s =
     (if s \<noteq> [] \<and> list_all (\<lambda>c. is_digit c \<and> digit_val c < base) s
      then ratio_double (foldl (\<lambda>a c. base * a + digit_val c) 0 s) 1 else None)"

definition decimal_number :: "string \<Rightarrow> rat option" where
  "decimal_number s =
     (let neg = (take 1 s = ''-''); t = (if take 1 s = ''-'' \<or> take 1 s = ''+'' then tl s else s);
          ds = takeWhile is_digit t; r = drop (length ds) t;
          fs = (if take 1 r = ''.'' then takeWhile is_digit (tl r) else []);
          r' = (if take 1 r = ''.'' then drop (length fs) (tl r) else r)
      in if ds @ fs = [] then None
         else case read_exponent r' of
           Some (e, []) \<Rightarrow> (case literal_value neg (ds @ fs) (length fs) e of JNum q \<Rightarrow> Some q | _ \<Rightarrow> None)
         | _ \<Rightarrow> None)"

definition text_number :: "string \<Rightarrow> rat option" where
  "text_number s =
     (let t = js_trim s; p = take 2 t
      in if t = [] then Some 0
         else if p = ''0x'' \<or> p = ''0X'' then hex_number (drop 2 t)
         else if p = ''0o'' \<or> p = ''0O'' then binary_number 8 (drop 2 t)
         else if p = ''0b'' \<or> p = ''0B'' then binary_number 2 (drop 2 t)
         else decimal_number t)"

fun number_of :: "json \<Rightarrow> rat option" where
  "number_of JNull = Some 0"
| "number_of (JBool b) = Some (if b then 1 else 0)"
| "number_of (JNum q) = Some q"
| "number_of (JInf neg) = None"
| "number_of (JStr s) = text_number s"
| "number_of (JArr []) = Some 0"
| "number_of (JArr [v]) = (case v of JBool b \<Rightarrow> None | _ \<Rightarrow> number_of v)"
| "number_of (JArr (v # w # vs)) = None"
| "number_of (JObj ms) = None"

definition to_uint8 :: "json \<Rightarrow> 8 word" where
  "to_uint8 v =
     (case number_of v of None \<Rightarrow> 0
      | Some q \<Rightarrow> word_of_int (if q < 0 then - \<lfloor>- q\<rfloor> else \<lfloor>q\<rfloor>))"

text \<open>\<open>String(v)\<close>; \<open>None\<close> is \<open>undefined\<close>.\<close>

fun string_of_json :: "json \<Rightarrow> string" where
  "string_of_json JNull = ''null''"
| "string_of_json (JBool b) = (if b then ''true'' else ''false'')"
| "string_of_json (JNum q) = num_text q"
| "string_of_json (JInf neg) = (if neg then ''-Infinity'' else ''Infinity'')"
| "string_of_json (JStr s) = s"
| "string_of_json (JArr vs) = join '','' (map (\<lambda>v. if v = JNull then [] else string_of_json v) vs)"
| "string_of_json (JObj ms) = ''[object Object]''"

definition string_of :: "json option \<Rightarrow> string" where
  "string_of v = (case v of Some j \<Rightarrow> string_of_json j | None \<Rightarrow> ''undefined'')"

end
