(* ===== verification/Relays.thy ===== *)
theory Relays
  imports Outbox Coerce
begin

text \<open>
  NEAR Auth relays of \<open>control.ts\<close>: \<open>relayDelegate\<close>, \<open>advancePurchase\<close>, \<open>failPurchase\<close> and
  \<open>verifiedMpcSignature\<close>. A purchase record moves from \<open>signing\<close> to \<open>relaying\<close> to \<open>submitted\<close>, or
  to \<open>failed\<close>.
\<close>

definition fast_auth_sign_gas :: int where
  "fast_auth_sign_gas = 300000000000000"

definition relay_expiry_margin_ms :: int where
  "relay_expiry_margin_ms = 30 * 1000"

section \<open>The signature of the MPC network\<close>

text \<open>\<open>None\<close>: it throws, for a value of another shape or a signature that does not verify.\<close>

definition verified_mpc_signature :: "crypto \<Rightarrow> string option \<Rightarrow> bytes \<Rightarrow> string \<Rightarrow> bytes option" where
  "verified_mpc_signature C value bytes public_key =
     (case Option.bind (decode_value value) (obj_get ''signature'') of
        Some (JArr vs) \<Rightarrow>
          (if length vs \<noteq> 64 then None
           else case base_decode C (drop 8 public_key) of None \<Rightarrow> None
             | Some raw \<Rightarrow>
                 (let signature = map to_uint8 vs
                  in if length raw = 32 \<and> ed25519_verify C raw signature (sha256 C bytes) then Some signature else None))
      | _ \<Rightarrow> None)"

section \<open>The delegate of a record\<close>

definition delegate_for :: "relayer_settings \<Rightarrow> relay_kind \<Rightarrow> string \<Rightarrow> string \<Rightarrow> relay_fields \<Rightarrow> delegate_action" where
  "delegate_for cfg kind account pk f =
     (case kind of
        Upload \<Rightarrow> upload_delegate account pk (cfg_usdc_contract cfg) f
      | UploadKey \<Rightarrow> upload_key_delegate account pk (cfg_market cfg) f
      | Purchase \<Rightarrow> purchase_delegate account pk (cfg_usdc_contract cfg) f)"

text \<open>The message of the fields; upload-key fields carry none and the code never asks for it.\<close>

definition fields_msg :: "relay_fields \<Rightarrow> string" where
  "fields_msg f = (case rf_args f of TransferArgs a \<Rightarrow> ta_msg a | KeyArgs a \<Rightarrow> [])"

definition relay_expires_at_ms :: "relay_kind \<Rightarrow> relay_fields \<Rightarrow> string + int" where
  "relay_expires_at_ms kind f =
     (case kind of
        Upload \<Rightarrow> upload_expires_at_ms (fields_msg f)
      | UploadKey \<Rightarrow> (case rf_args f of KeyArgs a \<Rightarrow> Inr (js_number (ua_expires_at_ms a)) | TransferArgs a \<Rightarrow> Inl type_error)
      | Purchase \<Rightarrow> purchase_expires_at_ms (fields_msg f))"

definition relay_reply :: "relay_kind \<Rightarrow> string \<Rightarrow> string \<Rightarrow> string option \<Rightarrow> nat \<Rightarrow> response" where
  "relay_reply kind i state hash status =
     reply_json status [(if kind = Purchase then ''purchaseId'' else ''uploadId'', JStr i), (''state'', JStr state),
                        (''txHash'', str_or_null hash)]"

definition kind_of :: "purchase_record option \<Rightarrow> relay_kind" where
  "kind_of record = (case Option.bind record pr_kind of Some k \<Rightarrow> k | None \<Rightarrow> Purchase)"

text \<open>\<open>family\<close>: the purchase route reads purchases, the upload route uploads and upload keys.\<close>

definition same_family :: "relay_kind \<Rightarrow> relay_kind \<Rightarrow> bool" where
  "same_family a b = ((a = Purchase) = (b = Purchase))"

section \<open>Failing\<close>

definition fail_purchase :: "'w runtime \<Rightarrow> string \<Rightarrow> string \<Rightarrow> bool \<Rightarrow> ('w, response) ract" where
  "fail_purchase R i err retryable =
     bnd (atomically (bnd (get_purchase i) (\<lambda>stored.
       case stored of None \<Rightarrow> ret ()
       | Some current \<Rightarrow>
           if pr_state current = Submitted \<or> pr_state current = PFailed then ret ()
           else
             bnd (get_tx (TxSign i)) (\<lambda>sign.
             bnd (now_ms R) (\<lambda>t.
             bnd (put_purchase i (current\<lparr>pr_token := None, pr_state := PFailed, pr_error := Some err, pr_retryable := retryable,
                    pr_updated_at := t,
                    pr_sign_tx_hash := (case sign of Some r \<Rightarrow> Some (tx_hash r) | None \<Rightarrow> pr_sign_tx_hash current)\<rparr>)) (\<lambda>_.
             del_tx (TxSign i))))))) (\<lambda>_.
     bnd (get_purchase i) (\<lambda>current.
       case current of
         Some c \<Rightarrow>
           (if pr_state c = Submitted then ret (relay_reply (kind_of current) i ''submitted'' (pr_tx_hash c) 200)
            else throw (case pr_error c of Some e \<Rightarrow> e | None \<Rightarrow> err))
       | None \<Rightarrow> throw err))"

section \<open>Advancing\<close>

definition sign_call :: "relayer_settings \<Rightarrow> string \<Rightarrow> bytes \<Rightarrow> tx_action" where
  "sign_call cfg token bytes =
     CallAction ''sign''
       (JObj [(''guard_id'', JStr (''jwt#'' @ fp_issuer (cfg_provider cfg))), (''verify_payload'', JStr token),
              (''sign_payload'', JArr (map (\<lambda>b. JNum (of_int (uint b))) bytes)), (''algorithm'', JStr ''eddsa'')])
       fast_auth_sign_gas 1"

text \<open>Keeps the verified signature; the token and the sign record go.\<close>

definition keep_signature :: "'w runtime \<Rightarrow> string \<Rightarrow> bytes \<Rightarrow> ('w, purchase_record option) ract" where
  "keep_signature R i signature =
     atomically (bnd (get_purchase i) (\<lambda>stored.
       case stored of None \<Rightarrow> ret None
       | Some current \<Rightarrow>
           if pr_state current \<noteq> Signing then ret (Some current)
           else
             bnd (now_ms R) (\<lambda>t.
             let next_record = current\<lparr>pr_token := None, pr_state := Relaying, pr_signature := Some (btoa signature),
                                       pr_updated_at := t\<rparr> in
             bnd (put_purchase i next_record) (\<lambda>_.
             bnd (del_tx (TxSign i)) (\<lambda>_. ret (Some next_record))))))"

definition record_submitted :: "'w runtime \<Rightarrow> string \<Rightarrow> string option \<Rightarrow> ('w, unit) ract" where
  "record_submitted R i hash =
     atomically (bnd (get_purchase i) (\<lambda>stored.
       case stored of None \<Rightarrow> ret ()
       | Some current \<Rightarrow>
           if pr_state current \<noteq> Relaying then ret ()
           else bnd (now_ms R) (\<lambda>t.
             put_purchase i (current\<lparr>pr_state := Submitted, pr_tx_hash := hash, pr_updated_at := t\<rparr>))))"

text \<open>The second half of \<open>advancePurchase\<close>: the signed delegate is relayed.\<close>

definition relay_signed ::
  "'w runtime \<Rightarrow> relayer_settings \<Rightarrow> string \<Rightarrow> relay_kind \<Rightarrow> purchase_record \<Rightarrow> delegate_action \<Rightarrow> ('w, response) ract" where
  "relay_signed R cfg i kind record act =
     bnd (lifting (atob_bytes (case pr_signature record of Some t \<Rightarrow> t | None \<Rightarrow> []))) (\<lambda>signature.
     bnd (get_tx (TxRelay i)) (\<lambda>relay.
     bnd (if relay \<noteq> None then ret False
          else bnd (lifting (relay_expires_at_ms kind (pr_fields record))) (\<lambda>expires.
            bnd (now_ms R) (\<lambda>t. ret (expires \<le> t + relay_expiry_margin_ms)))) (\<lambda>too_late.
       if too_late then fail_purchase R i ''signature_expired'' False
       else
         bnd (attempt (submit R cfg (TxRelay i) (pr_account record) (''relay|'' @ i) [DelegateAction act signature] resign_policy)) (\<lambda>r.
           case r of
             Inl e \<Rightarrow> if e = ''tx_failed'' then fail_purchase R i ''relay_failed'' False else throw e
           | Inr done \<Rightarrow>
               bnd (get_tx (TxRelay i)) (\<lambda>relay'.
                 let hash = map_option tx_hash relay' in
                 case done of
                   Pending \<Rightarrow> ret (relay_reply kind i ''relaying'' hash 202)
                 | Done _ \<Rightarrow>
                     bnd (record_submitted R i hash) (\<lambda>_. ret (relay_reply kind i ''submitted'' hash 200)))))))"

definition not_found_error :: "relay_kind option \<Rightarrow> string" where
  "not_found_error expect =
     (if expect = Some Purchase \<or> expect = None then ''purchase_not_found'' else ''upload_not_found'')"

text \<open>
  One call of \<open>advancePurchase\<close>; \<open>again\<close> is the call it makes of itself, when another request
  moved the record on while this one signed.
\<close>

definition advance_step ::
  "('w, response) ract \<Rightarrow> 'w runtime \<Rightarrow> relayer_settings \<Rightarrow> string \<Rightarrow> relay_kind option \<Rightarrow> ('w, response) ract" where
  "advance_step again R cfg i expect =
     bnd (get_purchase i) (\<lambda>stored.
       let kind = kind_of stored in
       case stored of None \<Rightarrow> throw (not_found_error expect)
       | Some record \<Rightarrow>
         if (case expect of Some k \<Rightarrow> \<not> same_family k kind | None \<Rightarrow> False) then throw (not_found_error expect)
         else case pr_state record of
           PFailed \<Rightarrow> throw (case pr_error record of Some e \<Rightarrow> e | None \<Rightarrow> ''relay_failed'')
         | Submitted \<Rightarrow> ret (relay_reply kind i ''submitted'' (pr_tx_hash record) 200)
         | _ \<Rightarrow>
           (let act = delegate_for cfg kind (pr_account record) (pr_public_key record) (pr_fields record) in
            bnd (lifting (encode_delegate (rt_codec R) act)) (\<lambda>bytes.
              if pr_state record = Relaying then relay_signed R cfg i kind record act
              else
                bnd (attempt (submit R cfg (TxSign i) (fp_contract (cfg_provider cfg)) (''sign|'' @ i)
                       [sign_call cfg (or_empty (pr_token record)) bytes] resign_policy)) (\<lambda>r.
                  case r of
                    Inl e \<Rightarrow> if e = ''tx_failed'' then fail_purchase R i ''approval_rejected'' True else throw e
                  | Inr Pending \<Rightarrow> ret (relay_reply kind i ''signing'' None 202)
                  | Inr (Done value) \<Rightarrow>
                      (case verified_mpc_signature (rt_crypto R) value bytes (pr_public_key record) of
                         None \<Rightarrow> fail_purchase R i ''approval_rejected'' True
                       | Some signature \<Rightarrow>
                           bnd (keep_signature R i signature) (\<lambda>kept.
                             case kept of
                               None \<Rightarrow> throw (if kind = Purchase then ''purchase_not_found'' else ''upload_not_found'')
                             | Some record' \<Rightarrow>
                                 if pr_state record' \<noteq> Relaying then again
                                 else relay_signed R cfg i kind record' act))))))"

text \<open>The second call always finds a finished record, so two units of fuel are enough.\<close>

fun advance_purchase ::
  "nat \<Rightarrow> 'w runtime \<Rightarrow> relayer_settings \<Rightarrow> string \<Rightarrow> relay_kind option \<Rightarrow> ('w, response) ract" where
  "advance_purchase 0 R cfg i expect = throw ''out_of_fuel''"
| "advance_purchase (Suc n) R cfg i expect =
     advance_step (advance_purchase n R cfg i expect) R cfg i expect"

section \<open>A relay request\<close>

definition parse_relay_fields :: "relayer_settings \<Rightarrow> relay_kind \<Rightarrow> json option \<Rightarrow> string + relay_fields" where
  "parse_relay_fields cfg kind value =
     (case kind of
        Upload \<Rightarrow> ebind (parse_upload_fields value (cfg_market cfg)) (\<lambda>(f, _). Inr f)
      | UploadKey \<Rightarrow> parse_upload_key_fields value
      | Purchase \<Rightarrow> ebind (parse_purchase_fields value (cfg_market cfg)) (\<lambda>(f, _). Inr f))"

definition relay_counter :: "relay_kind \<Rightarrow> string" where
  "relay_counter kind = (if kind = Purchase then ''purchase'' else ''upload'')"

definition relay_daily_limit :: "relayer_settings \<Rightarrow> relay_kind \<Rightarrow> int" where
  "relay_daily_limit cfg kind =
     limit_of (if kind = Purchase then cfg_daily_purchase_limit cfg else cfg_daily_upload_limit cfg)"

definition relay_identity_limit :: "relayer_settings \<Rightarrow> relay_kind \<Rightarrow> int" where
  "relay_identity_limit cfg kind =
     limit_of (if kind = Purchase then cfg_identity_daily_purchase_limit cfg else cfg_identity_daily_upload_limit cfg)"

definition new_purchase :: "relay_kind \<Rightarrow> string \<Rightarrow> string \<Rightarrow> string \<Rightarrow> relay_fields \<Rightarrow> string \<Rightarrow> int \<Rightarrow> purchase_record" where
  "new_purchase kind identity account pk f token t =
     \<lparr>pr_state = Signing, pr_kind = Some kind, pr_identity = identity, pr_account = account, pr_public_key = pk,
      pr_fields = f, pr_token = Some token, pr_signature = None, pr_sign_tx_hash = None, pr_tx_hash = None,
      pr_error = None, pr_retryable = False, pr_created_at = t, pr_updated_at = t\<rparr>"

text \<open>The storage transaction that writes the record with the charge against the limits.\<close>

definition charge_relay ::
  "'w runtime \<Rightarrow> relayer_settings \<Rightarrow> relay_kind \<Rightarrow> string \<Rightarrow> string \<Rightarrow> string \<Rightarrow> string \<Rightarrow> relay_fields \<Rightarrow> string
     \<Rightarrow> ('w, unit) ract" where
  "charge_relay R cfg kind i identity account pk f token =
     atomically (bnd (get_purchase i) (\<lambda>existing.
       bnd (get_tx (TxSign i)) (\<lambda>sign.
       let fresh =
         bnd (today R) (\<lambda>day.
         bnd (get_count (day, relay_counter kind @ '':'' @ identity)) (\<lambda>used.
         bnd (require (used < relay_identity_limit cfg kind) ''identity_limit_reached'') (\<lambda>_.
         bnd (consume_daily R (relay_counter kind @ ''s'') 1 (relay_daily_limit cfg kind)) (\<lambda>_.
         bnd (put_count (day, relay_counter kind @ '':'' @ identity) (used + 1)) (\<lambda>_.
         bnd (now_ms R) (\<lambda>t.
         put_purchase i (new_purchase kind identity account pk f token t)))))))
       in case existing of None \<Rightarrow> fresh
          | Some record \<Rightarrow>
              if pr_state record = Signing \<and> sign = None
              then bnd (now_ms R) (\<lambda>t. put_purchase i (record\<lparr>pr_token := Some token, pr_updated_at := t\<rparr>))
              else if pr_state record = PFailed \<and> pr_retryable record then fresh
              else ret ())))"

definition relay_delegate :: "'w runtime \<Rightarrow> relayer_settings \<Rightarrow> json \<Rightarrow> relay_kind \<Rightarrow> ('w, response) ract" where
  "relay_delegate R cfg body kind =
     bnd (lifting (require_hex64 (obj_get ''identityHash'' body))) (\<lambda>identity.
     bnd (lifting (require_hex64 (obj_get ''accountId'' body))) (\<lambda>account.
     bnd (require (has_str ''userPublicKey'' body \<and> has_str ''accessToken'' body \<and> truthy (obj_get ''fields'' body)
            \<and> has_str ''bytes'' body) ''invalid_request'') (\<lambda>_.
       let pk = str_of ''userPublicKey'' body; token = str_of ''accessToken'' body in
     bnd (lifting (parse_relay_fields cfg kind (obj_get ''fields'' body))) (\<lambda>f.
     bnd (lifting (encode_delegate (rt_codec R) (delegate_for cfg kind account pk f))) (\<lambda>bytes.
     bnd (lifting (atob_bytes (str_of ''bytes'' body))) (\<lambda>approved.
     bnd (require (same_bytes bytes approved) ''invalid_request'') (\<lambda>_.
       let i = sha256_hex (rt_crypto R) bytes in
     bnd (charge_relay R cfg kind i identity account pk f token) (\<lambda>_.
     bnd (ensure_alarm R) (\<lambda>_.
     advance_purchase 2 R cfg i (Some kind))))))))))"

end
