(* ===== verification/DeviceLinks.thy ===== *)
theory DeviceLinks
  imports Outbox
begin

text \<open>
  Device links of \<open>control.ts\<close>: \<open>linkDevice\<close>, \<open>advanceDevice\<close>, \<open>deviceFailure\<close>, \<open>listDevice\<close>,
  \<open>failDevice\<close> and \<open>deviceReply\<close>. A link is submitted once through the outbox and then stays
  submitted, listed or failed.
\<close>

definition add_device_gas :: int where
  "add_device_gas = 30000000000000"

definition device_effect_slack_ms :: int where
  "device_effect_slack_ms = 5 * 60 * 1000"

definition device_margin_ms :: int where
  "device_margin_ms = 30 * 1000"

definition device_failures :: "string list" where
  "device_failures = [''device_invalid'', ''ticket_not_found'', ''ticket_not_playable'', ''publication_unavailable'',
     ''device_epoch_stale'', ''signature_expired'', ''storage_unavailable'']"

definition add_device_json :: "add_device_args \<Rightarrow> json" where
  "add_device_json a =
     JObj [(''ticket_id'', JStr (ad_ticket_id a)), (''session_public_key'', JStr (ad_session_public_key a)),
           (''certificate_sha256'', JStr (ad_certificate_sha256 a)), (''device_epoch'', JStr (ad_device_epoch a)),
           (''expires_at_ms'', JStr (ad_expires_at_ms a)), (''signature'', JStr (ad_signature a))]"

definition device_reply :: "string \<Rightarrow> device_record \<Rightarrow> response" where
  "device_reply i r =
     reply_json 200
       ([(''deviceRequestId'', JStr i), (''state'', JStr (if dr_state r = DListed then ''listed'' else ''submitted'')),
         (''txHash'', str_or_null (dr_tx_hash r))]
        @ (case dr_evicts r of Some e \<Rightarrow> if e \<noteq> [] then [(''evicts_session_public_key'', JStr e)] else [] | None \<Rightarrow> []))"

definition device_error :: "device_record \<Rightarrow> string" where
  "device_error r = (case dr_error r of Some e \<Rightarrow> e | None \<Rightarrow> ''device_add_failed'')"

text \<open>Moves a record that is still being submitted; gives the record as it is afterwards.\<close>

definition move_device :: "'w runtime \<Rightarrow> string \<Rightarrow> (device_record \<Rightarrow> device_record) \<Rightarrow> ('w, device_record option) ract" where
  "move_device R i f =
     atomically (bnd (get_device i) (\<lambda>stored.
       case stored of None \<Rightarrow> ret None
       | Some record \<Rightarrow>
           if dr_state record \<noteq> DSubmitting then ret (Some record)
           else
             bnd (now_ms R) (\<lambda>t.
             let moved = (f record)\<lparr>dr_updated_at := t\<rparr> in
             bnd (put_device i moved) (\<lambda>_. ret (Some moved)))))"

definition list_device :: "'w runtime \<Rightarrow> string \<Rightarrow> ('w, response) ract" where
  "list_device R i =
     bnd (move_device R i (\<lambda>r. r\<lparr>dr_state := DListed, dr_tx_hash := None, dr_evicts := None\<rparr>)) (\<lambda>current.
       case current of None \<Rightarrow> throw ''device_request_not_found''
       | Some c \<Rightarrow> if dr_state c = DFailed then throw (device_error c) else ret (device_reply i c))"

definition fail_device :: "'w runtime \<Rightarrow> string \<Rightarrow> string \<Rightarrow> ('w, response) ract" where
  "fail_device R i err =
     bnd (move_device R i (\<lambda>r. r\<lparr>dr_state := DFailed, dr_error := Some err\<rparr>)) (\<lambda>current.
       case current of None \<Rightarrow> throw err
       | Some c \<Rightarrow>
           if dr_state c = DSubmitted \<or> dr_state c = DListed then ret (device_reply i c)
           else throw (case dr_error c of Some e \<Rightarrow> e | None \<Rightarrow> err))"

text \<open>The pre-check's reason for a failed transaction.\<close>

definition device_failure :: "'w runtime \<Rightarrow> relayer_settings \<Rightarrow> device_record \<Rightarrow> ('w, string) ract" where
  "device_failure R cfg record =
     bnd (now_ms R) (\<lambda>t.
     bnd (attempt (check_add_device_args (rt_crypto R) (rt_near R) (cfg_market cfg) (dr_args record) t)) (\<lambda>r.
     ret (case r of
            Inr check \<Rightarrow> if dc_listed check then ''listed'' else ''device_add_failed''
          | Inl e \<Rightarrow> if e \<in> set device_failures then e else ''device_add_failed'')))"

definition device_listed :: "'w runtime \<Rightarrow> relayer_settings \<Rightarrow> device_record \<Rightarrow> ('w, bool) ract" where
  "device_listed R cfg record =
     bnd (nc_view (rt_near R) (cfg_market cfg) ''get_ticket'' (JObj [(''ticket_id'', JStr (dr_ticket record))])) (\<lambda>ticket.
       if ticket = JNull then ret False
       else bnd (lifting (ticket_devices ticket)) (\<lambda>devices.
         ret (list_ex (\<lambda>d. dv_session_public_key d = ad_session_public_key (dr_args record)
                \<and> js_number (dv_authorized_at_ms d) \<ge> dr_created_at record - device_effect_slack_ms) devices)))"

definition signable :: "'w runtime \<Rightarrow> device_record \<Rightarrow> 'w relayer_state \<Rightarrow> bool" where
  "signable R record s = (js_number (ad_expires_at_ms (dr_args record)) > rt_now R s + device_margin_ms)"

definition device_policy :: "'w runtime \<Rightarrow> relayer_settings \<Rightarrow> device_record \<Rightarrow> 'w submit_policy" where
  "device_policy R cfg record =
     \<lparr>sp_recovery = Check, sp_effect_done = Some (device_listed R cfg record), sp_can_resign = Some (signable R record),
      sp_retry_failed = False\<rparr>"

definition submit_device :: "'w runtime \<Rightarrow> relayer_settings \<Rightarrow> string \<Rightarrow> device_record \<Rightarrow> ('w, submit_result) ract" where
  "submit_device R cfg i record =
     submit R cfg (TxDevice i) (cfg_market cfg)
       (''device|'' @ i @ ''|'' @ json_text (add_device_json (dr_args record)))
       [CallAction ''add_device'' (add_device_json (dr_args record)) add_device_gas 0]
       (device_policy R cfg record)"

definition settle_device :: "'w runtime \<Rightarrow> string \<Rightarrow> device_record \<Rightarrow> string option \<Rightarrow> ('w, response) ract" where
  "settle_device R i record hash =
     bnd (move_device R i (\<lambda>r. r\<lparr>dr_state := DSubmitted, dr_tx_hash := hash\<rparr>)) (\<lambda>submitted.
       case submitted of None \<Rightarrow> ret (device_reply i record)
       | Some c \<Rightarrow> if dr_state c = DFailed then throw (device_error c) else ret (device_reply i c))"

definition advance_device :: "'w runtime \<Rightarrow> relayer_settings \<Rightarrow> string \<Rightarrow> ('w, response) ract" where
  "advance_device R cfg i =
     bnd (get_device i) (\<lambda>stored.
       case stored of None \<Rightarrow> throw ''device_request_not_found''
       | Some record \<Rightarrow>
         (case dr_state record of
            DFailed \<Rightarrow> throw (device_error record)
          | DSubmitted \<Rightarrow> ret (device_reply i record)
          | DListed \<Rightarrow> ret (device_reply i record)
          | DSubmitting \<Rightarrow>
              bnd (get_tx (TxDevice i)) (\<lambda>sent.
              bnd (reading (signable R record)) (\<lambda>may_sign.
                if sent = None \<and> \<not> may_sign then fail_device R i ''signature_expired''
                else
                  bnd (attempt (submit_device R cfg i record)) (\<lambda>r.
                    case r of
                      Inl e \<Rightarrow>
                        (if e \<noteq> ''tx_failed'' then throw e
                         else bnd (device_failure R cfg record) (\<lambda>reason.
                           if reason = ''listed'' then list_device R i else fail_device R i reason))
                    | Inr done \<Rightarrow>
                        bnd (get_tx (TxDevice i)) (\<lambda>tx.
                          let hash = map_option tx_hash tx in
                          case done of
                            Pending \<Rightarrow> ret (reply_json 202 [(''deviceRequestId'', JStr i), (''state'', JStr ''pending''),
                                                          (''txHash'', str_or_null hash)])
                          | Done _ \<Rightarrow> settle_device R i record hash))))))"

text \<open>The record is written with the charge against the daily and per-ticket limits.\<close>

definition charge_device ::
  "'w runtime \<Rightarrow> device_limits \<Rightarrow> string \<Rightarrow> add_device_args \<Rightarrow> string option \<Rightarrow> bool \<Rightarrow> ('w, unit) ract" where
  "charge_device R limits i args evicts renewal =
     atomically (bnd (get_device i) (\<lambda>existing.
       if existing \<noteq> None then ret ()
       else
         bnd (today R) (\<lambda>day.
         bnd (get_count (day, ''device:'' @ ad_ticket_id args)) (\<lambda>used.
         bnd (require (used < limit_of (dl_ticket_daily limits)) ''ticket_limit_reached'') (\<lambda>_.
         bnd (if renewal then ret () else consume_daily R ''devices'' 1 (limit_of (dl_daily limits))) (\<lambda>_.
         bnd (put_count (day, ''device:'' @ ad_ticket_id args) (used + 1)) (\<lambda>_.
         bnd (now_ms R) (\<lambda>t.
         put_device i \<lparr>dr_state = DSubmitting, dr_ticket = ad_ticket_id args, dr_args = args, dr_evicts = evicts,
           dr_renewal = renewal, dr_tx_hash = None, dr_error = None, dr_created_at = t, dr_updated_at = t\<rparr>))))))))"

definition evicts_of :: "crypto \<Rightarrow> json option \<Rightarrow> (string option) option" where
  "evicts_of C v =
     (case v of Some JNull \<Rightarrow> Some None
      | Some (JStr e) \<Rightarrow> (if is_canonical_ed25519 C e then Some (Some e) else None)
      | _ \<Rightarrow> None)"

definition link_device :: "'w runtime \<Rightarrow> relayer_settings \<Rightarrow> json \<Rightarrow> ('w, response) ract" where
  "link_device R cfg body =
     (case cfg_devices cfg of None \<Rightarrow> throw ''devices_disabled''
      | Some limits \<Rightarrow>
        bnd (require (body \<noteq> JNull) type_error) (\<lambda>_.
        bnd (lifting (parse_add_device_args (obj_get ''args'' body))) (\<lambda>args.
        (case (evicts_of (rt_crypto R) (obj_get ''evicts'' body), obj_get ''renewal'' body) of
           (Some evicts, Some (JBool renewal)) \<Rightarrow>
             bnd (require (cfg_mutations_enabled cfg) ''mutations_disabled'') (\<lambda>_.
               let i = device_request_id (rt_crypto R) args in
             bnd (charge_device R limits i args evicts renewal) (\<lambda>_.
             bnd (ensure_alarm R) (\<lambda>_.
             advance_device R cfg i)))
         | _ \<Rightarrow> throw ''invalid_request''))))"

end
