(* ===== verification/RelayerControl.thy ===== *)
theory RelayerControl
  imports Accounts Relays DeviceLinks
begin

text \<open>
  The entry points of \<open>RelayerControl\<close> (\<open>control.ts\<close>): \<open>fetch\<close>, which runs one operation and turns a
  thrown code into a reply, and \<open>alarm\<close>, which finishes and removes old records.
\<close>

section \<open>Requests\<close>

definition sign_timeout_ms :: int where
  "sign_timeout_ms = 10 * 60 * 1000"

definition purchase_record_ttl_ms :: int where
  "purchase_record_ttl_ms = 24 * 60 * 60 * 1000"

text \<open>The statuses of the error codes the relayer names to its clients.\<close>

definition known_errors :: "(string \<times> nat) list" where
  "known_errors =
     [(''daily_limit_reached'', 429), (''identity_limit_reached'', 429), (''identity_conflict'', 409), (''account_required'', 409),
      (''invite_unavailable'', 409), (''invite_already_used'', 409), (''ckd_already_requested'', 409), (''tx_failed'', 502),
      (''tx_needs_review'', 503), (''mutations_disabled'', 503), (''relayer_key_invalid'', 503), (''rpc_unavailable'', 503),
      (''payload_conflict'', 409), (''invalid_request'', 400), (''purchase_not_found'', 404), (''approval_rejected'', 409),
      (''approval_expired'', 409), (''relay_failed'', 502), (''signature_expired'', 409), (''upload_not_found'', 404),
      (''upload_key_expired'', 409), (''devices_disabled'', 503), (''device_request_not_found'', 404), (''ticket_limit_reached'', 429),
      (''device_add_failed'', 502), (''device_invalid'', 400), (''ticket_not_found'', 404), (''ticket_not_playable'', 409),
      (''publication_unavailable'', 409), (''device_epoch_stale'', 409), (''storage_unavailable'', 503)]"

definition error_reply :: "nat \<Rightarrow> string \<Rightarrow> response" where
  "error_reply status code = reply_json status [(''error'', JStr code)]"

definition control_error :: "string \<Rightarrow> response" where
  "control_error code =
     (case map_of known_errors code of Some status \<Rightarrow> error_reply status code
      | None \<Rightarrow>
          if code = ''access_key_missing'' then error_reply 503 ''relayer_key_invalid''
          else error_reply 500 ''internal_error'')"

text \<open>The operation of a path. A body \<open>null\<close> throws where its first property is read.\<close>

definition control_operation :: "'w runtime \<Rightarrow> relayer_settings \<Rightarrow> string \<Rightarrow> json \<Rightarrow> ('w, response) ract" where
  "control_operation R cfg path body =
     (if path = ''/device'' then link_device R cfg body
      else if path \<notin> set [''/account'', ''/ckd'', ''/invite/create'', ''/invite/redeem'', ''/invite/status'', ''/purchase'',
                ''/purchase/status'', ''/upload'', ''/upload-key'', ''/upload/status'', ''/device/status'']
        then ret (error_reply 404 ''not_found'')
      else if body = JNull then throw type_error
      else if path = ''/account'' then ensure_account R cfg body
      else if path = ''/ckd'' then request_ckd R cfg body
      else if path = ''/invite/create'' then create_invite R cfg body
      else if path = ''/invite/redeem'' then redeem_invite R cfg body
      else if path = ''/invite/status'' then invite_status body
      else if path = ''/purchase'' then relay_delegate R cfg body Purchase
      else if path = ''/purchase/status'' then
        bnd (lifting (require_hex64 (obj_get ''purchaseId'' body))) (\<lambda>i. advance_purchase 2 R cfg i (Some Purchase))
      else if path = ''/upload'' then relay_delegate R cfg body Upload
      else if path = ''/upload-key'' then relay_delegate R cfg body UploadKey
      else if path = ''/upload/status'' then
        bnd (lifting (require_hex64 (obj_get ''uploadId'' body))) (\<lambda>i. advance_purchase 2 R cfg i (Some Upload))
      else
        bnd (lifting (require_hex64 (obj_get ''deviceRequestId'' body))) (\<lambda>i. advance_device R cfg i))"

text \<open>A request whose body is not JSON has \<open>None\<close>.\<close>

definition control_fetch :: "'w runtime \<Rightarrow> env \<Rightarrow> string \<Rightarrow> json option \<Rightarrow> ('w, response) ract" where
  "control_fetch R e path body =
     (case relayer_config (rt_crypto R) e of None \<Rightarrow> ret (error_reply 503 ''relayer_not_configured'')
      | Some cfg \<Rightarrow>
          (case body of None \<Rightarrow> ret (error_reply 400 ''invalid_request'')
           | Some v \<Rightarrow> catch (control_operation R cfg path v) (\<lambda>code. ret (control_error code))))"

section \<open>The alarm\<close>

text \<open>\<open>storage.list({ prefix })\<close>: the records in the order of their keys.\<close>

definition list_ckd :: "'w relayer_state \<Rightarrow> (string \<times> tx_record) list" where
  "list_ckd s =
     sort_key fst (List.map_filter (\<lambda>(k, r). case k of TxCkd n \<Rightarrow> Some (n, r) | _ \<Rightarrow> None) (rs_tx s))"

definition list_purchases :: "'w relayer_state \<Rightarrow> (string \<times> purchase_record) list" where
  "list_purchases s = sort_key fst (rs_purchase s)"

definition list_devices :: "'w relayer_state \<Rightarrow> (string \<times> device_record) list" where
  "list_devices s = sort_key fst (rs_device s)"

text \<open>Each of the three visits gives whether something is still pending.\<close>

definition visit_ckd :: "'w runtime \<Rightarrow> relayer_settings option \<Rightarrow> string \<Rightarrow> tx_record \<Rightarrow> ('w, bool) ract" where
  "visit_ckd R cfg nonce record =
     (if tx_state record \<noteq> Broadcast then bnd (finish_ckd R nonce (Some record)) (\<lambda>_. ret False)
      else
        bnd (case cfg of None \<Rightarrow> ret False
             | Some c \<Rightarrow>
                 bnd (nc_tx_status (rt_near R) (tx_hash record) (cfg_account_id c)) (\<lambda>outcome.
                 ret (case outcome of OSuccess _ \<Rightarrow> True | OFailed \<Rightarrow> True | _ \<Rightarrow> False))) (\<lambda>landed.
          if landed then bnd (finish_ckd R nonce (Some record)) (\<lambda>_. ret False)
          else
            bnd (now_ms R) (\<lambda>t.
            bnd (if t - tx_created_at record > ckd_record_ttl_ms \<and> tx_signed record \<noteq> None
                 then put_tx (TxCkd nonce) (record\<lparr>tx_signed := None\<rparr>) else ret ()) (\<lambda>_. ret True))))"

definition visit_purchase :: "'w runtime \<Rightarrow> relayer_settings option \<Rightarrow> string \<Rightarrow> purchase_record \<Rightarrow> ('w, bool) ract" where
  "visit_purchase R cfg i record =
     (if pr_state record = Submitted \<or> pr_state record = PFailed
      then
        bnd (now_ms R) (\<lambda>t.
          if t - pr_updated_at record > purchase_record_ttl_ms
          then bnd (del_purchase i) (\<lambda>_. bnd (del_tx (TxRelay i)) (\<lambda>_. ret False))
          else ret True)
      else case cfg of None \<Rightarrow> ret True
        | Some c \<Rightarrow>
            bnd (attempt (advance_purchase 2 R c i None)) (\<lambda>_.
            bnd (get_purchase i) (\<lambda>current.
            bnd (now_ms R) (\<lambda>t.
            bnd (if (case current of Some r \<Rightarrow> pr_state r = Signing \<and> t - pr_created_at r > sign_timeout_ms | None \<Rightarrow> False)
                 then bnd (attempt (fail_purchase R i ''approval_expired'' False)) (\<lambda>_. ret ())
                 else ret ()) (\<lambda>_. ret True)))))"

definition visit_device :: "'w runtime \<Rightarrow> relayer_settings option \<Rightarrow> string \<Rightarrow> device_record \<Rightarrow> ('w, bool) ract" where
  "visit_device R cfg i record =
     (if dr_state record \<noteq> DSubmitting
      then
        bnd (now_ms R) (\<lambda>t.
          if t - dr_updated_at record > purchase_record_ttl_ms
          then bnd (del_device i) (\<lambda>_. bnd (del_tx (TxDevice i)) (\<lambda>_. ret False))
          else ret True)
      else case cfg of None \<Rightarrow> ret True
        | Some c \<Rightarrow> bnd (attempt (advance_device R c i)) (\<lambda>_. ret True))"

fun any_pending :: "('x \<Rightarrow> ('w, bool) ract) \<Rightarrow> 'x list \<Rightarrow> ('w, bool) ract" where
  "any_pending f [] = ret False"
| "any_pending f (x # xs) = bnd (f x) (\<lambda>p. bnd (any_pending f xs) (\<lambda>q. ret (p \<or> q)))"

text \<open>While the alarm runs, none is scheduled.\<close>

definition control_alarm :: "'w runtime \<Rightarrow> env \<Rightarrow> ('w, unit) ract" where
  "control_alarm R e =
     (let cfg = relayer_config (rt_crypto R) e in
      bnd (writing (\<lambda>s. s\<lparr>rs_alarm := None\<rparr>)) (\<lambda>_.
      bnd (reading list_ckd) (\<lambda>ckds.
      bnd (any_pending (\<lambda>(n, r). visit_ckd R cfg n r) ckds) (\<lambda>p1.
      bnd (reading list_purchases) (\<lambda>purchases.
      bnd (any_pending (\<lambda>(i, r). visit_purchase R cfg i r) purchases) (\<lambda>p2.
      bnd (reading list_devices) (\<lambda>devices.
      bnd (any_pending (\<lambda>(i, r). visit_device R cfg i r) devices) (\<lambda>p3.
        if p1 \<or> p2 \<or> p3 then bnd (now_ms R) (\<lambda>t. set_alarm (t + ckd_record_ttl_ms)) else ret ()))))))))"

end
