(* ===== verification/RelaySteps.thy ===== *)
theory RelaySteps
  imports RelayerControl
begin

text \<open>
  The relayer's store as a state machine. \<open>relay_step\<close> lists every change its code makes, with what the
  code knows when it makes it. The transaction outbox writes records it read before a wait; a ghost
  set holds every record ever signed, so such a write is known to concern the transaction that was signed
  under that key. \<open>RelayRuns\<close> shows that the handlers and the alarm make only such steps.
\<close>

section \<open>What a write keeps\<close>

text \<open>The same transaction: all but what the chain answered and the stored bytes.\<close>

definition same_tx :: "tx_record \<Rightarrow> tx_record \<Rightarrow> bool" where
  "same_tx r r' =
     (tx_payload_sha256 r' = tx_payload_sha256 r \<and> tx_receiver r' = tx_receiver r \<and> tx_nonce r' = tx_nonce r \<and>
      tx_block_hash r' = tx_block_hash r \<and> tx_hash r' = tx_hash r \<and> tx_created_at r' = tx_created_at r \<and>
      tx_broadcast_at r' = tx_broadcast_at r)"

definition same_invite :: "invite_record \<Rightarrow> invite_record \<Rightarrow> bool" where
  "same_invite v v' =
     (iv_amount_micro v' = iv_amount_micro v \<and> iv_created_at v' = iv_created_at v \<and> iv_expires_at v' = iv_expires_at v)"

text \<open>What the user approved, and for whom.\<close>

definition same_relay :: "purchase_record \<Rightarrow> purchase_record \<Rightarrow> bool" where
  "same_relay r r' =
     (pr_kind r' = pr_kind r \<and> pr_identity r' = pr_identity r \<and> pr_account r' = pr_account r \<and>
      pr_public_key r' = pr_public_key r \<and> pr_fields r' = pr_fields r \<and> pr_created_at r' = pr_created_at r)"

definition same_device :: "device_record \<Rightarrow> device_record \<Rightarrow> bool" where
  "same_device r r' =
     (dr_ticket r' = dr_ticket r \<and> dr_args r' = dr_args r \<and> dr_renewal r' = dr_renewal r \<and> dr_created_at r' = dr_created_at r)"

definition finished :: "purchase_record \<Rightarrow> bool" where
  "finished r = (pr_state r = Submitted \<or> pr_state r = PFailed)"

text \<open>The limit the settings put on a counter; counters carry what they count in their name.\<close>

definition device_limit :: "relayer_settings \<Rightarrow> (device_limits \<Rightarrow> string) \<Rightarrow> int" where
  "device_limit cfg f = (case cfg_devices cfg of Some d \<Rightarrow> limit_of (f d) | None \<Rightarrow> 0)"

definition counter_limit :: "relayer_settings \<Rightarrow> string \<Rightarrow> int" where
  "counter_limit cfg c =
     (if c = ''accounts'' then limit_of (cfg_daily_account_limit cfg)
      else if c = ''ckd'' then limit_of (cfg_daily_ckd_limit cfg)
      else if c = ''invite_usdc_micro'' then limit_of (cfg_daily_invite_usdc_micro_limit cfg)
      else if c = ''purchases'' then limit_of (cfg_daily_purchase_limit cfg)
      else if c = ''uploads'' then limit_of (cfg_daily_upload_limit cfg)
      else if c = ''devices'' then device_limit cfg dl_daily
      else if starts_with ''ckd:'' c then limit_of (cfg_identity_daily_ckd_limit cfg)
      else if starts_with ''purchase:'' c then limit_of (cfg_identity_daily_purchase_limit cfg)
      else if starts_with ''upload:'' c then limit_of (cfg_identity_daily_upload_limit cfg)
      else device_limit cfg dl_ticket_daily)"

text \<open>The bytes of the delegate action a record stands for.\<close>

definition record_bytes :: "codec \<Rightarrow> relayer_settings \<Rightarrow> purchase_record \<Rightarrow> string + bytes" where
  "record_bytes K cfg r =
     encode_delegate K (delegate_for cfg (kind_of (Some r)) (pr_account r) (pr_public_key r) (pr_fields r))"

definition named_by_hash :: "crypto \<Rightarrow> codec \<Rightarrow> relayer_settings \<Rightarrow> string \<Rightarrow> purchase_record \<Rightarrow> bool" where
  "named_by_hash C K cfg i r = (\<exists>b. record_bytes K cfg r = Inr b \<and> i = sha256_hex C b)"

text \<open>A signature of the record's key over the hash of some bytes with the record's identifier.\<close>

definition mpc_signed :: "crypto \<Rightarrow> string \<Rightarrow> string \<Rightarrow> bytes \<Rightarrow> bool" where
  "mpc_signed C i pk signature =
     (\<exists>b raw. i = sha256_hex C b \<and> base_decode C (drop 8 pk) = Some raw \<and> length raw = 32 \<and> length signature = 64 \<and>
        ed25519_verify C raw signature (sha256 C b))"

section \<open>Steps\<close>

type_synonym 'w ghost = "(tx_key \<times> tx_record) set \<times> 'w relayer_state"

inductive relay_step :: "crypto \<Rightarrow> codec \<Rightarrow> relayer_settings \<Rightarrow> bool \<Rightarrow> 'w ghost \<Rightarrow> 'w ghost \<Rightarrow> bool"
  for C K cfg purge where
  rl_outside: "relay_step C K cfg purge (A, s) (A, s\<lparr>rs_outside := w\<rparr>)"
| rl_alarm: "relay_step C K cfg purge (A, s) (A, s\<lparr>rs_alarm := a\<rparr>)"
| rl_reserve: "cfg_mutations_enabled cfg \<Longrightarrow> rs_last_nonce s < n \<Longrightarrow> relay_step C K cfg purge (A, s) (A, s\<lparr>rs_last_nonce := n\<rparr>)"
| rl_sign: "cfg_mutations_enabled cfg \<Longrightarrow> rs_last_nonce s < tx_nonce r \<Longrightarrow> tx_state r = Broadcast \<Longrightarrow>
    relay_step C K cfg purge (A, s) (insert (k, r) A, s\<lparr>rs_last_nonce := tx_nonce r, rs_tx := tput k r (rs_tx s)\<rparr>)"
| rl_settle: "(k, r) \<in> A \<Longrightarrow> same_tx r r' \<Longrightarrow> relay_step C K cfg purge (A, s) (A, s\<lparr>rs_tx := tput k r' (rs_tx s)\<rparr>)"
| rl_drop: "relay_step C K cfg purge (A, s) (A, s\<lparr>rs_tx := tdel k (rs_tx s)\<rparr>)"
| rl_identity: "tget i (rs_identity s) = None \<Longrightarrow> \<not> ir_ready r \<Longrightarrow>
    relay_step C K cfg purge (A, s) (A, s\<lparr>rs_identity := tput i r (rs_identity s)\<rparr>)"
| rl_ready: "tget i (rs_identity s) = Some r \<Longrightarrow>
    relay_step C K cfg purge (A, s) (A, s\<lparr>rs_identity := tput i (r\<lparr>ir_ready := True\<rparr>) (rs_identity s)\<rparr>)"
| rl_ckd_done: "relay_step C K cfg purge (A, s) (A, s\<lparr>rs_ckd_done := tput n v (rs_ckd_done s)\<rparr>)"
| rl_count: "count_of (day, c) s \<le> n \<Longrightarrow> n \<le> counter_limit cfg c \<Longrightarrow>
    relay_step C K cfg purge (A, s) (A, s\<lparr>rs_count := tput (day, c) n (rs_count s)\<rparr>)"
| rl_relay: "(case tget i (rs_purchase s) of None \<Rightarrow> True | Some r \<Rightarrow> pr_state r = PFailed \<and> pr_retryable r) \<Longrightarrow>
    pr_state r = Signing \<Longrightarrow> named_by_hash C K cfg i r \<Longrightarrow>
    relay_step C K cfg purge (A, s) (A, s\<lparr>rs_purchase := tput i r (rs_purchase s)\<rparr>)"
| rl_token: "tget i (rs_purchase s) = Some r \<Longrightarrow> pr_state r = Signing \<Longrightarrow>
    relay_step C K cfg purge (A, s) (A, s\<lparr>rs_purchase := tput i (r\<lparr>pr_token := Some tok, pr_updated_at := t\<rparr>) (rs_purchase s)\<rparr>)"
| rl_keep: "tget i (rs_purchase s) = Some r \<Longrightarrow> pr_state r = Signing \<Longrightarrow> mpc_signed C i pk sig \<Longrightarrow>
    (\<exists>r0. named_by_hash C K cfg i r0 \<and> pr_public_key r0 = pk) \<Longrightarrow>
    relay_step C K cfg purge (A, s) (A, s\<lparr>rs_purchase :=
      tput i (r\<lparr>pr_token := None, pr_state := Relaying, pr_signature := Some (btoa sig), pr_updated_at := t\<rparr>) (rs_purchase s)\<rparr>)"
| rl_submitted: "tget i (rs_purchase s) = Some r \<Longrightarrow> pr_state r = Relaying \<Longrightarrow>
    relay_step C K cfg purge (A, s) (A, s\<lparr>rs_purchase :=
      tput i (r\<lparr>pr_state := Submitted, pr_tx_hash := h, pr_updated_at := t\<rparr>) (rs_purchase s)\<rparr>)"
| rl_failed: "tget i (rs_purchase s) = Some r \<Longrightarrow> \<not> finished r \<Longrightarrow>
    relay_step C K cfg purge (A, s) (A, s\<lparr>rs_purchase :=
      tput i (r\<lparr>pr_token := None, pr_state := PFailed, pr_error := Some e, pr_retryable := again, pr_updated_at := t,
                pr_sign_tx_hash := h\<rparr>) (rs_purchase s)\<rparr>)"
| rl_device: "tget i (rs_device s) = None \<Longrightarrow> dr_state d = DSubmitting \<Longrightarrow> i = device_request_id C (dr_args d) \<Longrightarrow>
    relay_step C K cfg purge (A, s) (A, s\<lparr>rs_device := tput i d (rs_device s)\<rparr>)"
| rl_move: "tget i (rs_device s) = Some d \<Longrightarrow> dr_state d = DSubmitting \<Longrightarrow> same_device d d' \<Longrightarrow> dr_state d' \<noteq> DSubmitting \<Longrightarrow>
    relay_step C K cfg purge (A, s) (A, s\<lparr>rs_device := tput i d' (rs_device s)\<rparr>)"
| rl_invite: "tget i (rs_invite s) = None \<Longrightarrow> iv_state v = Open \<Longrightarrow>
    relay_step C K cfg purge (A, s) (A, s\<lparr>rs_invite := tput i v (rs_invite s)\<rparr>)"
| rl_invite_state: "tget i (rs_invite s) = Some v \<Longrightarrow> same_invite v v' \<Longrightarrow>
    relay_step C K cfg purge (A, s) (A, s\<lparr>rs_invite := tput i v' (rs_invite s)\<rparr>)"
| rl_invite_identity: "relay_step C K cfg purge (A, s) (A, s\<lparr>rs_invite_identity := f (rs_invite_identity s)\<rparr>)"
| rl_invited: "relay_step C K cfg purge (A, s) (A, s\<lparr>rs_invited_account := tput a v (rs_invited_account s)\<rparr>)"
| rl_purge_purchase: "purge \<Longrightarrow> relay_step C K cfg purge (A, s) (A, s\<lparr>rs_purchase := tdel i (rs_purchase s)\<rparr>)"
| rl_purge_device: "purge \<Longrightarrow> relay_step C K cfg purge (A, s) (A, s\<lparr>rs_device := tdel i (rs_device s)\<rparr>)"

inductive_cases relay_stepE: "relay_step C K cfg purge x y"

abbreviation relay_reach :: "crypto \<Rightarrow> codec \<Rightarrow> relayer_settings \<Rightarrow> bool \<Rightarrow> 'w ghost \<Rightarrow> 'w ghost \<Rightarrow> bool" where
  "relay_reach C K cfg purge \<equiv> (relay_step C K cfg purge)^**"

section \<open>What steps keep\<close>

lemma steps_invariant:
  assumes "\<And>x y. relay_step C K cfg purge x y \<Longrightarrow> I x \<Longrightarrow> I y" and "relay_reach C K cfg purge x y" and "I x"
  shows "I y"
  using assms(2,3) by (induction rule: rtranclp_induct) (auto intro: assms(1))

lemma signed_grow: "relay_step C K cfg purge x y \<Longrightarrow> fst x \<subseteq> fst y"
  by (induction rule: relay_step.induct) auto

lemma steps_signed_grow:
  assumes "relay_reach C K cfg purge x y"
  shows "fst x \<subseteq> fst y"
  by (rule steps_invariant [where I = "\<lambda>y. fst x \<subseteq> fst y", OF _ assms]) (auto dest: signed_grow)

text \<open>Every stored record is a transaction that was signed under its key.\<close>

definition tx_known :: "'w ghost \<Rightarrow> bool" where
  "tx_known x = (\<forall>(k, r) \<in> set (rs_tx (snd x)). \<exists>r0. (k, r0) \<in> fst x \<and> same_tx r0 r)"

lemma same_tx_refl [simp]: "same_tx r r"
  by (simp add: same_tx_def)

lemma same_tx_trans: "same_tx r r' \<Longrightarrow> same_tx r' r'' \<Longrightarrow> same_tx r r''"
  by (simp add: same_tx_def)

lemma set_tdel: "x \<in> set (tdel k t) \<Longrightarrow> x \<in> set t"
  unfolding tdel_def by (induction t) (auto split: if_splits)

lemma step_tx_known: "relay_step C K cfg purge x y \<Longrightarrow> tx_known x \<Longrightarrow> tx_known y"
proof (induction rule: relay_step.induct)
  case (rl_sign s r A k)
  then show ?case using same_tx_refl by (fastforce simp: tx_known_def dest: set_tput)
next
  case (rl_settle k r A r' s)
  then show ?case by (fastforce simp: tx_known_def dest: set_tput)
next
  case (rl_drop A s k)
  then show ?case by (fastforce simp: tx_known_def dest: set_tdel)
qed (auto simp: tx_known_def)

text \<open>Every signed transaction has its own nonce, none above the last one reserved.\<close>

definition nonce_bound :: "'w ghost \<Rightarrow> bool" where
  "nonce_bound x = (\<forall>(k, r) \<in> fst x. tx_nonce r \<le> rs_last_nonce (snd x))"

definition nonce_owner :: "'w ghost \<Rightarrow> bool" where
  "nonce_owner x = (\<forall>(k, r) \<in> fst x. \<forall>(k', r') \<in> fst x. tx_nonce r = tx_nonce r' \<longrightarrow> k = k' \<and> same_tx r r')"

lemma step_nonce_bound: "relay_step C K cfg purge x y \<Longrightarrow> nonce_bound x \<Longrightarrow> nonce_bound y"
proof (induction rule: relay_step.induct)
  case (rl_reserve s n A)
  then show ?case by (auto simp: nonce_bound_def dest!: bspec)
next
  case (rl_sign s r A k)
  then show ?case by (auto simp: nonce_bound_def dest!: bspec)
qed (auto simp: nonce_bound_def)

lemma step_nonce_owner: "relay_step C K cfg purge x y \<Longrightarrow> nonce_bound x \<Longrightarrow> nonce_owner x \<Longrightarrow> nonce_owner y"
proof (induction rule: relay_step.induct)
  case (rl_sign s r A k)
  then have old: "tx_nonce r' < tx_nonce r" if "(k', r') \<in> A" for k' r' using that by (auto simp: nonce_bound_def dest!: bspec)
  show ?case
    using rl_sign.prems(2) old by (fastforce simp: nonce_owner_def)
qed (auto simp: nonce_owner_def)

lemma step_last_nonce: "relay_step C K cfg purge x y \<Longrightarrow> rs_last_nonce (snd x) \<le> rs_last_nonce (snd y)"
  by (induction rule: relay_step.induct) auto

lemma step_no_mutations: "relay_step C K cfg purge x y \<Longrightarrow> \<not> cfg_mutations_enabled cfg \<Longrightarrow>
   fst y = fst x \<and> rs_last_nonce (snd y) = rs_last_nonce (snd x)"
  by (induction rule: relay_step.induct) auto

text \<open>Counters stay within their limits, and only grow.\<close>

definition counters_ok :: "relayer_settings \<Rightarrow> 'w ghost \<Rightarrow> bool" where
  "counters_ok cfg x = (\<forall>day c n. tget (day, c) (rs_count (snd x)) = Some n \<longrightarrow> n \<le> counter_limit cfg c)"

lemma step_counters_ok: "relay_step C K cfg purge x y \<Longrightarrow> counters_ok cfg x \<Longrightarrow> counters_ok cfg y"
  by (induction rule: relay_step.induct) (auto simp: counters_ok_def)

lemma step_count: "relay_step C K cfg purge x y \<Longrightarrow> count_of k (snd x) \<le> count_of k (snd y)"
  by (induction rule: relay_step.induct) (auto simp: count_of_def split: option.splits if_splits)

section \<open>What is never taken back\<close>

definition same_identity :: "identity_record \<Rightarrow> identity_record \<Rightarrow> bool" where
  "same_identity r r' = (ir_account r' = ir_account r \<and> ir_created_at r' = ir_created_at r \<and> (ir_ready r \<longrightarrow> ir_ready r'))"

lemma step_identity: "relay_step C K cfg purge x y \<Longrightarrow> tget i (rs_identity (snd x)) = Some r \<Longrightarrow>
    \<exists>r'. tget i (rs_identity (snd y)) = Some r' \<and> same_identity r r'"
  by (induction rule: relay_step.induct) (auto simp: same_identity_def)

lemma step_ckd_done: "relay_step C K cfg purge x y \<Longrightarrow> tget n (rs_ckd_done (snd x)) \<noteq> None \<Longrightarrow> tget n (rs_ckd_done (snd y)) \<noteq> None"
  by (induction rule: relay_step.induct) auto

lemma step_invite: "relay_step C K cfg purge x y \<Longrightarrow> tget i (rs_invite (snd x)) = Some v \<Longrightarrow>
    \<exists>v'. tget i (rs_invite (snd y)) = Some v' \<and> same_invite v v'"
  by (induction rule: relay_step.induct) (auto simp: same_invite_def)

text \<open>A failed relay that may be retried is replaced when its request is made again.\<close>

definition kept_relay :: "purchase_record \<Rightarrow> bool" where
  "kept_relay r = (\<not> (pr_state r = PFailed \<and> pr_retryable r))"

lemma step_relay: "relay_step C K cfg False x y \<Longrightarrow> tget i (rs_purchase (snd x)) = Some r \<Longrightarrow> finished r \<Longrightarrow> kept_relay r \<Longrightarrow>
    tget i (rs_purchase (snd y)) = Some r"
  by (induction rule: relay_step.induct) (auto simp: finished_def kept_relay_def split: if_splits)

lemma step_device: "relay_step C K cfg False x y \<Longrightarrow> tget i (rs_device (snd x)) = Some d \<Longrightarrow>
    \<exists>d'. tget i (rs_device (snd y)) = Some d' \<and> same_device d d' \<and> (dr_state d \<noteq> DSubmitting \<longrightarrow> d' = d)"
  by (induction rule: relay_step.induct) (auto simp: same_device_def)

section \<open>Verified signatures\<close>

text \<open>
  Every relay record is named by the hash of its delegate action, and a signed one carries a signature of
  its own key over that hash.
\<close>

definition relays_ok :: "crypto \<Rightarrow> codec \<Rightarrow> relayer_settings \<Rightarrow> 'w ghost \<Rightarrow> bool" where
  "relays_ok C K cfg x =
     (\<forall>i r. tget i (rs_purchase (snd x)) = Some r \<longrightarrow> named_by_hash C K cfg i r \<and>
        (pr_state r \<in> {Relaying, Submitted} \<longrightarrow>
           (\<exists>sig. pr_signature r = Some (btoa sig) \<and> mpc_signed C i (pr_public_key r) sig)))"

text \<open>The hash identifies the key of a delegate action, as collision resistance gives.\<close>

definition hash_names_key :: "crypto \<Rightarrow> codec \<Rightarrow> relayer_settings \<Rightarrow> bool" where
  "hash_names_key C K cfg =
     (\<forall>i r r'. named_by_hash C K cfg i r \<longrightarrow> named_by_hash C K cfg i r' \<longrightarrow> pr_public_key r = pr_public_key r')"

lemma named_updates [simp]:
  "named_by_hash C K cfg i (r\<lparr>pr_token := a\<rparr>) = named_by_hash C K cfg i r"
  "named_by_hash C K cfg i (r\<lparr>pr_state := b\<rparr>) = named_by_hash C K cfg i r"
  "named_by_hash C K cfg i (r\<lparr>pr_signature := c\<rparr>) = named_by_hash C K cfg i r"
  "named_by_hash C K cfg i (r\<lparr>pr_sign_tx_hash := d\<rparr>) = named_by_hash C K cfg i r"
  "named_by_hash C K cfg i (r\<lparr>pr_tx_hash := e\<rparr>) = named_by_hash C K cfg i r"
  "named_by_hash C K cfg i (r\<lparr>pr_error := f\<rparr>) = named_by_hash C K cfg i r"
  "named_by_hash C K cfg i (r\<lparr>pr_retryable := g\<rparr>) = named_by_hash C K cfg i r"
  "named_by_hash C K cfg i (r\<lparr>pr_updated_at := h\<rparr>) = named_by_hash C K cfg i r"
  by (simp_all add: named_by_hash_def record_bytes_def kind_of_def)

lemma step_relays_ok:
  assumes "hash_names_key C K cfg"
  shows "relay_step C K cfg purge x y \<Longrightarrow> relays_ok C K cfg x \<Longrightarrow> relays_ok C K cfg y"
proof (induction rule: relay_step.induct)
  case (rl_keep i s r pk sig A t)
  then have named: "named_by_hash C K cfg i r" by (auto simp: relays_ok_def)
  then have "pr_public_key r = pk" using rl_keep.hyps(4) assms unfolding hash_names_key_def by blast
  then show ?case using rl_keep named by (auto simp: relays_ok_def)
qed (auto simp: relays_ok_def)

end
