(* ===== verification/RelayRuns.thy ===== *)
theory RelayRuns
  imports RelaySteps
begin

text \<open>
  Every operation of the relayer makes only the steps of \<open>relay_step\<close>, while the chain, the signing lock
  and the clock it waits for may make any such steps themselves: those of other requests.
\<close>

section \<open>Computations that only step\<close>

definition all_named :: "crypto \<Rightarrow> codec \<Rightarrow> relayer_settings \<Rightarrow> 'w ghost \<Rightarrow> bool" where
  "all_named C K cfg x = (\<forall>i r. tget i (rs_purchase (snd x)) = Some r \<longrightarrow> named_by_hash C K cfg i r)"

lemma step_all_named: "relay_step C K cfg purge x y \<Longrightarrow> all_named C K cfg x \<Longrightarrow> all_named C K cfg y"
  by (induction rule: relay_step.induct) (auto simp: all_named_def split: if_splits)

definition sane :: "crypto \<Rightarrow> codec \<Rightarrow> relayer_settings \<Rightarrow> 'w ghost \<Rightarrow> bool" where
  "sane C K cfg x = (tx_known x \<and> all_named C K cfg x)"

lemma steps_sane: "relay_reach C K cfg purge x y \<Longrightarrow> sane C K cfg x \<Longrightarrow> sane C K cfg y"
  by (rule steps_invariant [where I = "sane C K cfg"]) (auto simp: sane_def dest: step_tx_known step_all_named)

definition reached :: "crypto \<Rightarrow> codec \<Rightarrow> relayer_settings \<Rightarrow> bool \<Rightarrow> 'w ghost \<Rightarrow> 'w relayer_state \<Rightarrow> bool" where
  "reached C K cfg purge x s = (\<exists>A. relay_reach C K cfg purge x (A, s))"

lemma reached_refl [simp, intro]: "reached C K cfg purge (A, s) s"
  unfolding reached_def by blast

lemma reached_step: "relay_step C K cfg purge x y \<Longrightarrow> reached C K cfg purge y t \<Longrightarrow> reached C K cfg purge x t"
  unfolding reached_def by (meson converse_rtranclp_into_rtranclp)

lemma reached_one: "relay_step C K cfg purge x (A, t) \<Longrightarrow> reached C K cfg purge x t"
  unfolding reached_def by blast

lemma reached_sign:
  "cfg_mutations_enabled cfg \<Longrightarrow> rs_last_nonce s < n \<Longrightarrow> tx_nonce r = n \<Longrightarrow> tx_state r = Broadcast \<Longrightarrow>
   reached C K cfg purge (A, s) (s\<lparr>rs_last_nonce := n, rs_tx := tput k r (rs_tx s)\<rparr>)"
  using reached_one [OF rl_sign] by metis

lemma reached_trans: "relay_reach C K cfg purge x y \<Longrightarrow> reached C K cfg purge y t \<Longrightarrow> reached C K cfg purge x t"
  unfolding reached_def by (meson rtranclp_trans)

definition relay_only :: "crypto \<Rightarrow> codec \<Rightarrow> relayer_settings \<Rightarrow> bool \<Rightarrow> ('w, 'a) ract \<Rightarrow> bool" where
  "relay_only C K cfg purge m = (\<forall>x. sane C K cfg x \<longrightarrow> keeps (reached C K cfg purge x) m)"

lemma relay_onlyI:
  fixes m :: "('w, 'a) ract"
  assumes "\<And>A s. sane C K cfg (A, s) \<Longrightarrow> wp m (\<lambda>_. reached C K cfg purge (A, s)) (\<lambda>_. reached C K cfg purge (A, s)) s"
  shows "relay_only C K cfg purge m"
  unfolding relay_only_def
proof (intro allI impI keepsI)
  fix x :: "'w ghost" and s assume x: "sane C K cfg x" and "reached C K cfg purge x s"
  then obtain A where A: "relay_reach C K cfg purge x (A, s)" by (auto simp: reached_def)
  have "sane C K cfg (A, s)" by (rule steps_sane [OF A x])
  then show "reached C K cfg purge x (snd (m s))" using reached_trans [OF A] assms wp_const by metis
qed

lemma relay_only_keeps: "relay_only C K cfg purge m \<Longrightarrow> sane C K cfg x \<Longrightarrow> keeps (reached C K cfg purge x) m"
  unfolding relay_only_def by blast

named_theorems relay_rules \<open>computations that only make steps of the relayer\<close>

lemma relay_ret [relay_rules, simp]: "relay_only C K cfg purge (ret x)"
  by (simp add: relay_only_def)

lemma relay_throw [relay_rules, simp]: "relay_only C K cfg purge (throw e)"
  by (simp add: relay_only_def)

lemma relay_reading [relay_rules, simp]: "relay_only C K cfg purge (reading f)"
  by (simp add: relay_only_def)

lemma relay_lifting [relay_rules, simp]: "relay_only C K cfg purge (lifting r)"
  by (simp add: relay_only_def)

lemma relay_require [relay_rules, simp]: "relay_only C K cfg purge (require b e)"
  by (simp add: relay_only_def)

lemma relay_bnd [relay_rules]: "relay_only C K cfg purge m \<Longrightarrow> (\<And>x. relay_only C K cfg purge (k x)) \<Longrightarrow> relay_only C K cfg purge (bnd m k)"
  by (simp add: relay_only_def keeps_bnd)

lemma relay_catch [relay_rules]: "relay_only C K cfg purge m \<Longrightarrow> (\<And>e. relay_only C K cfg purge (h e)) \<Longrightarrow> relay_only C K cfg purge (catch m h)"
  by (simp add: relay_only_def keeps_catch)

lemma relay_attempt [relay_rules]: "relay_only C K cfg purge m \<Longrightarrow> relay_only C K cfg purge (attempt m)"
  by (simp add: relay_only_def keeps_attempt)

lemma relay_atomically [relay_rules]: "relay_only C K cfg purge m \<Longrightarrow> relay_only C K cfg purge (atomically m)"
  by (simp add: relay_only_def keeps_atomically)

lemma relay_if [relay_rules]:
  "(b \<Longrightarrow> relay_only C K cfg purge m) \<Longrightarrow> (\<not> b \<Longrightarrow> relay_only C K cfg purge n) \<Longrightarrow> relay_only C K cfg purge (if b then m else n)"
  by simp

lemma relay_option [relay_rules]:
  "(x = None \<Longrightarrow> relay_only C K cfg purge m) \<Longrightarrow> (\<And>y. x = Some y \<Longrightarrow> relay_only C K cfg purge (n y)) \<Longrightarrow>
   relay_only C K cfg purge (case x of None \<Rightarrow> m | Some y \<Rightarrow> n y)"
  by (cases x) simp_all

lemma relay_sum [relay_rules]:
  "(\<And>y. x = Inl y \<Longrightarrow> relay_only C K cfg purge (m y)) \<Longrightarrow> (\<And>y. x = Inr y \<Longrightarrow> relay_only C K cfg purge (n y)) \<Longrightarrow>
   relay_only C K cfg purge (case x of Inl y \<Rightarrow> m y | Inr y \<Rightarrow> n y)"
  by (cases x) simp_all

lemma relay_prod [relay_rules]:
  "(\<And>a b. x = (a, b) \<Longrightarrow> relay_only C K cfg purge (m a b)) \<Longrightarrow> relay_only C K cfg purge (case x of (a, b) \<Rightarrow> m a b)"
  by (cases x) simp_all

lemma relay_Let [relay_rules]: "relay_only C K cfg purge (f x) \<Longrightarrow> relay_only C K cfg purge (let y = x in f y)"
  by simp

text \<open>The rest of a request is judged from the state it read, after which others may have run.\<close>

lemma relay_from_state:
  assumes "relay_only C K cfg purge m" and "sane C K cfg x"
    and "\<And>s v A t. m s = (Inr v, t) \<Longrightarrow> relay_reach C K cfg purge x (A, t) \<Longrightarrow> sane C K cfg (A, t) \<Longrightarrow> keeps (reached C K cfg purge (A, t)) (k v)"
  shows "keeps (reached C K cfg purge x) (bnd m k)"
proof (rule keepsI)
  fix s assume s: "reached C K cfg purge x s"
  obtain r t where m: "m s = (r, t)" by fastforce
  have "reached C K cfg purge x t" using keepsD [OF relay_only_keeps [OF assms(1,2)] s] m by simp
  then obtain A where A: "relay_reach C K cfg purge x (A, t)" by (auto simp: reached_def)
  show "reached C K cfg purge x (snd (bnd m k s))"
  proof (cases r)
    case (Inl e)
    then show ?thesis using m A by (auto simp: reached_def)
  next
    case (Inr v)
    have "reached C K cfg purge (A, t) (snd (k v t))"
      using keepsD [OF assms(3) reached_refl] m Inr A steps_sane [OF A assms(2)] by blast
    then show ?thesis using m Inr reached_trans [OF A] by simp
  qed
qed

lemma relay_from_read:
  assumes "sane C K cfg x"
    and "\<And>A t. relay_reach C K cfg purge x (A, t) \<Longrightarrow> sane C K cfg (A, t) \<Longrightarrow> keeps (reached C K cfg purge (A, t)) (k (f t))"
  shows "keeps (reached C K cfg purge x) (bnd (reading f) k)"
  by (rule relay_from_state [OF relay_reading assms(1)]) (auto intro: assms(2))

lemma relay_onlyI_keeps: "(\<And>x. sane C K cfg x \<Longrightarrow> keeps (reached C K cfg purge x) m) \<Longrightarrow> relay_only C K cfg purge m"
  unfolding relay_only_def by blast

section \<open>What is known of the state read\<close>

lemma known_tx: "sane C K cfg (A, s) \<Longrightarrow> tget k (rs_tx s) = Some r \<Longrightarrow> \<exists>r0. (k, r0) \<in> A \<and> same_tx r0 r"
  by (fastforce simp: sane_def tx_known_def tget_def dest: map_of_SomeD)

lemma known_name: "sane C K cfg (A, s) \<Longrightarrow> tget i (rs_purchase s) = Some r \<Longrightarrow> named_by_hash C K cfg i r"
  by (simp add: sane_def all_named_def)

lemma known_later: "relay_reach C K cfg purge (A, s) (B, t) \<Longrightarrow> (k, r) \<in> A \<Longrightarrow> (k, r) \<in> B"
  using steps_signed_grow by fastforce

lemma steps_identity:
  assumes "relay_reach C K cfg purge x y" and "tget i (rs_identity (snd x)) = Some r"
  shows "\<exists>r'. tget i (rs_identity (snd y)) = Some r' \<and> same_identity r r'"
  using assms
proof (induction rule: rtranclp_induct)
  case (step y z)
  then obtain r' where "tget i (rs_identity (snd y)) = Some r'" "same_identity r r'" by blast
  then show ?case using step_identity [OF step(2)] by (fastforce simp: same_identity_def)
qed (simp add: same_identity_def)

lemma steps_invite:
  assumes "relay_reach C K cfg purge x y" and "tget i (rs_invite (snd x)) = Some v"
  shows "\<exists>v'. tget i (rs_invite (snd y)) = Some v' \<and> same_invite v v'"
  using assms
proof (induction rule: rtranclp_induct)
  case (step y z)
  then obtain v' where "tget i (rs_invite (snd y)) = Some v'" "same_invite v v'" by blast
  then show ?case using step_invite [OF step(2)] by (fastforce simp: same_invite_def)
qed (simp add: same_invite_def)

section \<open>The runtime\<close>

locale quiet_relayer =
  fixes R :: "'w runtime" and cfg :: relayer_settings and purge :: bool
  assumes view: "relay_only (rt_crypto R) (rt_codec R) cfg purge (nc_view (rt_near R) c m a)"
    and account_exists: "relay_only (rt_crypto R) (rt_codec R) cfg purge (nc_account_exists (rt_near R) acct)"
    and access_key: "relay_only (rt_crypto R) (rt_codec R) cfg purge (nc_access_key (rt_near R) acct pk)"
    and send_tx: "relay_only (rt_crypto R) (rt_codec R) cfg purge (nc_send_tx (rt_near R) tx)"
    and tx_status: "relay_only (rt_crypto R) (rt_codec R) cfg purge (nc_tx_status (rt_near R) h acct)"
    and lock: "relay_only (rt_crypto R) (rt_codec R) cfg purge (rt_lock R)"
    and sleep: "relay_only (rt_crypto R) (rt_codec R) cfg purge (rt_sleep R d)"
begin

abbreviation stepping :: "('w, 'a) ract \<Rightarrow> bool" where
  "stepping \<equiv> relay_only (rt_crypto R) (rt_codec R) cfg purge"

abbreviation okay :: "'w ghost \<Rightarrow> bool" where
  "okay \<equiv> sane (rt_crypto R) (rt_codec R) cfg"

abbreviation onto :: "'w ghost \<Rightarrow> 'w relayer_state \<Rightarrow> bool" where
  "onto \<equiv> reached (rt_crypto R) (rt_codec R) cfg purge"

abbreviation path :: "'w ghost \<Rightarrow> 'w ghost \<Rightarrow> bool" where
  "path \<equiv> relay_reach (rt_crypto R) (rt_codec R) cfg purge"

lemma now_ms [relay_rules]: "stepping (now_ms R)"
  by (simp add: now_ms_def)

lemma today [relay_rules]: "stepping (today R)"
  unfolding today_def by (intro relay_rules)

lemma with_lock [relay_rules]: "stepping m \<Longrightarrow> stepping (with_lock R m)"
  unfolding with_lock_def by (intro relay_bnd lock)

section \<open>Sending\<close>

lemma keep_writing:
  "(\<And>B t. path x (B, t) \<Longrightarrow> \<exists>y. relay_step (rt_crypto R) (rt_codec R) cfg purge (B, t) (y, f t)) \<Longrightarrow> keeps (onto x) (writing f)"
  unfolding reached_def by (rule keeps_writing) (meson rtranclp.rtrancl_into_rtrancl)

lemma keep_put_tx: "(k, r0) \<in> A \<Longrightarrow> same_tx r0 r \<Longrightarrow> keeps (onto (A, s)) (put_tx k r)"
  unfolding put_tx_def by (rule keep_writing) (blast intro: rl_settle known_later)

lemma del_tx [relay_rules]: "stepping (del_tx k)"
  unfolding del_tx_def by (rule relay_onlyI_keeps, rule keep_writing) (blast intro: rl_drop)

lemma keep_settle: "(k, r0) \<in> A \<Longrightarrow> same_tx r0 r \<Longrightarrow> keeps (onto (A, s)) (settle k r outcome)"
  unfolding settle_def Let_def
  by (intro keeps_bnd keeps_ret keep_put_tx [where ?r0.0 = r0]) (auto simp: same_tx_def split: option.splits)

text \<open>Reserving a nonce, signing and storing the record is one stretch without a wait.\<close>

definition sign_stretch :: "tx_key \<Rightarrow> string \<Rightarrow> string \<Rightarrow> tx_action list \<Rightarrow> access_key_view \<Rightarrow> ('w, tx_record \<times> string) ract" where
  "sign_stretch key receiver payload_sha build ak =
     bnd (reading rs_last_nonce) (\<lambda>last.
     let nonce = (if last > ak_nonce ak then last else ak_nonce ak) + 1 in
     bnd (put_last_nonce nonce) (\<lambda>_.
     bnd (lifting (sign_transaction (rt_codec R) (cfg_private_key cfg) (cfg_account_id cfg) receiver nonce build
            (ak_block_hash ak))) (\<lambda>(encoded, hash).
     bnd (now_ms R) (\<lambda>t.
     let record = \<lparr>tx_state = Broadcast, tx_payload_sha256 = payload_sha, tx_receiver = receiver, tx_nonce = nonce,
                   tx_block_hash = ak_block_hash ak, tx_signed = Some (btoa encoded),
                   tx_hash = base_encode (rt_crypto R) hash, tx_value = None, tx_created_at = t, tx_broadcast_at = t\<rparr> in
     bnd (put_tx key record) (\<lambda>_. ret (record, btoa encoded))))))"

lemma sign_once_eq:
  "sign_once R cfg key receiver payload_sha build =
     bnd (nc_access_key (rt_near R) (cfg_account_id cfg) (cfg_public_key cfg)) (\<lambda>ak.
     bnd (require (ak_full_access ak) ''relayer_key_invalid'') (\<lambda>_.
     bnd (sign_stretch key receiver payload_sha build ak) (\<lambda>(record, tx).
     bnd (nc_send_tx (rt_near R) tx) (\<lambda>outcome. ret (record, outcome)))))"
  unfolding sign_once_def sign_stretch_def Let_def by (simp add: bnd_assoc split_def)

lemma stretch_stored: "sign_stretch key receiver payload_sha build ak s = (Inr (r, tx), t) \<Longrightarrow> tget key (rs_tx t) = Some r"
  by (auto simp: sign_stretch_def Let_def bnd_returns put_tx_def split: prod.splits)

lemma sign_stretch: "cfg_mutations_enabled cfg \<Longrightarrow> stepping (sign_stretch key receiver payload_sha build ak)"
  unfolding sign_stretch_def Let_def
  by (rule relay_onlyI)
    (auto simp: wp_rules store_defs split: sum.splits intro: reached_one [OF rl_reserve] reached_sign)

lemma sign_once: "cfg_mutations_enabled cfg \<Longrightarrow> stepping (sign_once R cfg key receiver payload_sha build)"
  unfolding sign_once_eq by (intro relay_rules access_key sign_stretch send_tx)

text \<open>The record of a send is known in every state after it.\<close>

lemma sign_once_then:
  assumes "cfg_mutations_enabled cfg" and "okay x"
    and "\<And>A t r r0 outcome. path x (A, t) \<Longrightarrow> okay (A, t) \<Longrightarrow> (key, r0) \<in> A \<Longrightarrow> same_tx r0 r \<Longrightarrow> keeps (onto (A, t)) (k (r, outcome))"
  shows "keeps (onto x) (bnd (sign_once R cfg key receiver payload_sha build) k)"
proof -
  have stretch: "keeps (onto y) (bnd (sign_stretch key receiver payload_sha build ak) (\<lambda>(record, tx).
      bnd (bnd (nc_send_tx (rt_near R) tx) (\<lambda>outcome. ret (record, outcome))) k))"
    if y: "okay y" "path x y" for y ak
  proof (rule relay_from_state [OF sign_stretch [OF assms(1)] y(1)])
    fix s v A t
    assume v: "sign_stretch key receiver payload_sha build ak s = (Inr v, t)" and A: "path y (A, t)" "okay (A, t)"
    obtain r tx where rt: "v = (r, tx)" by fastforce
    obtain r0 where r0: "(key, r0) \<in> A" "same_tx r0 r" using known_tx [OF A(2)] stretch_stored v rt by blast
    have "keeps (onto (A, t)) (bnd (nc_send_tx (rt_near R) tx) (\<lambda>outcome. k (r, outcome)))"
    proof (rule relay_from_state [OF send_tx A(2)])
      fix s' outcome B u
      assume B: "path (A, t) (B, u)" "okay (B, u)"
      show "keeps (onto (B, u)) (k (r, outcome))"
        using assms(3) [OF _ B(2) known_later [OF B(1) r0(1)] r0(2)] y(2) A(1) B(1) by (meson rtranclp_trans)
    qed
    then show "keeps (onto (A, t)) (case v of (record, tx) \<Rightarrow>
        bnd (bnd (nc_send_tx (rt_near R) tx) (\<lambda>outcome. ret (record, outcome))) k)"
      by (simp add: rt bnd_assoc)
  qed
  show ?thesis
    unfolding sign_once_eq bnd_assoc
  proof (rule relay_from_state [OF access_key assms(2)])
    fix s ak A t
    assume A: "path x (A, t)" "okay (A, t)"
    show "keeps (onto (A, t)) (bnd (require (ak_full_access ak) ''relayer_key_invalid'') (\<lambda>xa.
        bnd (sign_stretch key receiver payload_sha build ak) (\<lambda>xb. bnd (case xb of (record, tx) \<Rightarrow>
          bnd (nc_send_tx (rt_near R) tx) (\<lambda>outcome. ret (record, outcome))) k)))"
      using stretch [OF A(2,1)] by (intro keeps_require_bnd) (simp add: split_def)
  qed
qed

lemma finish_send: "(key, r0) \<in> A \<Longrightarrow> same_tx r0 r \<Longrightarrow> keeps (onto (A, s)) (finish_send key r outcome)"
  unfolding finish_send_def by (auto intro: keep_settle split: tx_outcome.split)

lemma sign_and_broadcast:
  assumes "cfg_mutations_enabled cfg"
  shows "stepping (sign_and_broadcast R cfg key receiver payload_sha build)"
  unfolding sign_and_broadcast_def
proof (intro relay_onlyI_keeps keeps_require_bnd sign_once_then [OF assms])
  fix x A t r r0 outcome
  assume "okay (A, t)" and "(key, r0) \<in> A" and "same_tx r0 r"
  then show "keeps (onto (A, t)) (case (r, outcome) of (record, outcome) \<Rightarrow>
      if outcome = OInvalidNonce \<or> outcome = OExpired
      then bnd (sign_once R cfg key receiver payload_sha build) (\<lambda>(record', outcome'). finish_send key record' outcome')
      else finish_send key record outcome)"
    by (auto intro!: sign_once_then [OF assms] finish_send)
qed

lemma resign: "(key, r0) \<in> A \<Longrightarrow> same_tx r0 r \<Longrightarrow> okay (A, s) \<Longrightarrow> keeps (onto (A, s)) (resign R cfg key r build policy)"
  unfolding resign_def
  by (rule relay_from_read)
    (auto intro!: keeps_if keep_settle keeps_require_bnd relay_only_keeps [OF sign_and_broadcast] dest: known_later)

lemma from_known:
  "stepping m \<Longrightarrow> okay (A, s) \<Longrightarrow> (key, r0) \<in> A \<Longrightarrow>
   (\<And>B t v. okay (B, t) \<Longrightarrow> (key, r0) \<in> B \<Longrightarrow> keeps (onto (B, t)) (k v)) \<Longrightarrow> keeps (onto (A, s)) (bnd m k)"
  by (rule relay_from_state) (auto dest: known_later)

lemma resend: "(key, r0) \<in> A \<Longrightarrow> same_tx r0 r \<Longrightarrow> okay (A, s) \<Longrightarrow> keeps (onto (A, s)) (resend R cfg key r build policy)"
  unfolding resend_def
  by (auto intro!: keeps_option from_known [OF send_tx] keep_settle resign split: tx_outcome.split)

definition policy_ok :: "'w submit_policy \<Rightarrow> bool" where
  "policy_ok policy = (case sp_effect_done policy of Some m \<Rightarrow> stepping m | None \<Rightarrow> True)"

lemma keep_stuck: "(key, r0) \<in> A \<Longrightarrow> same_tx r0 r \<Longrightarrow> keeps (onto (A, s)) (let r = r\<lparr>tx_state := Stuck\<rparr> in bnd (put_tx key r) (\<lambda>_. ret r))"
  unfolding Let_def by (intro keeps_bnd keeps_ret keep_put_tx [where ?r0.0 = r0]) (auto simp: same_tx_def)

lemma recover:
  assumes "policy_ok policy" and r: "(key, r0) \<in> A" "same_tx r0 r" and "okay (A, s)"
  shows "keeps (onto (A, s)) (recover R cfg key r build policy)"
proof -
  have "keeps (onto (A, s)) (bnd effect_done (\<lambda>landed. if landed then settle key r (Some None) else resign R cfg key r build policy))"
    if "sp_effect_done policy = Some effect_done" for effect_done
    using that assms by (intro from_known [where ?r0.0 = r0] keeps_if keep_settle resign) (auto simp: policy_ok_def)
  then show ?thesis
    unfolding recover_def using keep_stuck [OF r] resign [OF r assms(4)]
    by (auto simp: Let_def split: recovery.split option.split)
qed

lemma reconcile_known:
  assumes "policy_ok policy" and r: "(key, r0) \<in> A" "same_tx r0 r" "okay (A, s)"
  shows "keeps (onto (A, s)) (case outcome of OSuccess v \<Rightarrow> settle key r (Some v) | OFailed \<Rightarrow> settle key r None
         | _ \<Rightarrow> bnd (now_ms R) (\<lambda>t. if t - tx_broadcast_at r < resend_after_ms then ret r
               else bnd (nc_access_key (rt_near R) (cfg_account_id cfg) (cfg_public_key cfg)) (\<lambda>ak.
                 if ak_nonce ak < tx_nonce r then resend R cfg key r build policy
                 else bnd (now_ms R) (\<lambda>t'. if outcome \<noteq> ONotFound \<or> t' - tx_broadcast_at r < landing_window_ms then ret r
                   else recover R cfg key r build policy))))"
proof -
  have late: "keeps (onto (A, s)) (bnd (nc_access_key (rt_near R) (cfg_account_id cfg) (cfg_public_key cfg)) (\<lambda>ak.
                 if ak_nonce ak < tx_nonce r then resend R cfg key r build policy
                 else bnd (now_ms R) (\<lambda>t'. if oc \<noteq> ONotFound \<or> t' - tx_broadcast_at r < landing_window_ms then ret r
                   else recover R cfg key r build policy)))" if "(key, r0) \<in> A" "okay (A, s)" for A s oc
    using that r(2) assms(1)
    by (auto intro!: from_known [OF access_key] from_known [OF now_ms] keeps_if resend recover)
  show ?thesis
    using r by (auto intro!: from_known [OF now_ms] keep_settle late [simplified] late keeps_if split: tx_outcome.split)
qed

lemma reconcile:
  assumes "policy_ok policy"
  shows "stepping (reconcile R cfg key rcd outcome build policy)"
  unfolding reconcile_def get_tx_def
proof (rule relay_onlyI_keeps, rule relay_from_read, assumption)
  fix x A t
  assume A: "okay (A, t)"
  show "keeps (onto (A, t)) (case tget key (rs_tx t) of None \<Rightarrow> ret rcd
     | Some current \<Rightarrow>
         if tx_hash current \<noteq> tx_hash rcd \<or> tx_state current \<noteq> Broadcast then ret current
         else case outcome of OSuccess v \<Rightarrow> settle key current (Some v) | OFailed \<Rightarrow> settle key current None
         | _ \<Rightarrow> bnd (now_ms R) (\<lambda>t. if t - tx_broadcast_at current < resend_after_ms then ret current
               else bnd (nc_access_key (rt_near R) (cfg_account_id cfg) (cfg_public_key cfg)) (\<lambda>ak.
                 if ak_nonce ak < tx_nonce current then resend R cfg key current build policy
                 else bnd (now_ms R) (\<lambda>t'. if outcome \<noteq> ONotFound \<or> t' - tx_broadcast_at current < landing_window_ms then ret current
                   else recover R cfg key current build policy))))"
  proof (intro keeps_option keeps_if keeps_ret)
    fix current assume "tget key (rs_tx t) = Some current"
    then obtain r0 where "(key, r0) \<in> A" "same_tx r0 current" using known_tx [OF A] by blast
    then show "keeps (onto (A, t)) (case outcome of OSuccess v \<Rightarrow> settle key current (Some v) | OFailed \<Rightarrow> settle key current None
         | _ \<Rightarrow> bnd (now_ms R) (\<lambda>t. if t - tx_broadcast_at current < resend_after_ms then ret current
               else bnd (nc_access_key (rt_near R) (cfg_account_id cfg) (cfg_public_key cfg)) (\<lambda>ak.
                 if ak_nonce ak < tx_nonce current then resend R cfg key current build policy
                 else bnd (now_ms R) (\<lambda>t'. if outcome \<noteq> ONotFound \<or> t' - tx_broadcast_at current < landing_window_ms then ret current
                   else recover R cfg key current build policy))))"
      using reconcile_known [OF assms _ _ A] by blast
  qed
qed

lemma first_record: "stepping (first_record R cfg key receiver payload_sha build policy)"
  unfolding first_record_def get_tx_def Let_def
  by (auto intro!: relay_onlyI_keeps relay_from_read keeps_option keeps_if keeps_require_bnd relay_only_keeps [OF sign_and_broadcast])

lemma poll: "policy_ok policy \<Longrightarrow> stepping (poll R cfg key build policy delays rcd)"
proof (induction delays arbitrary: rcd)
  case Nil
  then show ?case by (subst poll.simps) (auto intro!: relay_rules tx_status reconcile split: tx_state.split)
next
  case (Cons d ds)
  then show ?case by (subst poll.simps) (auto intro!: relay_rules tx_status reconcile sleep simp del: poll.simps split: tx_state.split)
qed

lemma submit: "policy_ok policy \<Longrightarrow> stepping (submit R cfg key receiver payload build policy)"
  unfolding submit_def by (intro relay_bnd with_lock first_record poll)

lemma policies_ok [simp]:
  "policy_ok resign_policy" "policy_ok manual_policy"
  by (simp_all add: policy_ok_def resign_policy_def manual_policy_def)

end

end
