(* ===== verification/RelayHandlers.thy ===== *)
theory RelayHandlers
  imports RelayRuns
begin

text \<open>
  The handlers of \<open>RelayerControl\<close> and its alarm make only the steps of \<open>relay_step\<close>: accounts, CKD
  requests, invites, relays and device links.
\<close>

section \<open>Counters\<close>

lemma counter_limits [simp]:
  "counter_limit cfg ''accounts'' = limit_of (cfg_daily_account_limit cfg)"
  "counter_limit cfg ''ckd'' = limit_of (cfg_daily_ckd_limit cfg)"
  "counter_limit cfg ''invite_usdc_micro'' = limit_of (cfg_daily_invite_usdc_micro_limit cfg)"
  "counter_limit cfg ''purchases'' = limit_of (cfg_daily_purchase_limit cfg)"
  "counter_limit cfg ''uploads'' = limit_of (cfg_daily_upload_limit cfg)"
  "counter_limit cfg ''devices'' = device_limit cfg dl_daily"
  "counter_limit cfg (CHR ''c'' # CHR ''k'' # CHR ''d'' # CHR '':'' # i) = limit_of (cfg_identity_daily_ckd_limit cfg)"
  by (simp_all add: counter_limit_def starts_with_def)

lemma relay_counter_limits:
  "counter_limit cfg (relay_counter kind @ ''s'') = relay_daily_limit cfg kind"
  "counter_limit cfg (relay_counter kind @ '':'' @ i) = relay_identity_limit cfg kind"
  "counter_limit cfg (''device:'' @ i) = device_limit cfg dl_ticket_daily"
  by (simp_all add: relay_counter_def relay_daily_limit_def relay_identity_limit_def counter_limit_def starts_with_def)

lemma limit_nonneg [simp]: "0 \<le> limit_of v"
  by (simp add: limit_of_def)

context quiet_relayer
begin

lemma count_step:
  "count_of (day, c) s \<le> n \<Longrightarrow> n \<le> counter_limit cfg c \<Longrightarrow> onto (A, s\<lparr>rs_count := tput (day, c) n (rs_count s)\<rparr>) t \<Longrightarrow> onto (A, s) t"
  by (rule reached_step [OF rl_count])

lemma count_identity:
  assumes "count_of (day, c) s \<le> n" "n \<le> counter_limit cfg c" "tget i (rs_identity s) = None" "\<not> ir_ready r"
  shows "onto (A, s) (s\<lparr>rs_count := tput (day, c) n (rs_count s), rs_identity := tput i r (rs_identity s)\<rparr>)"
  using assms(3,4) rl_identity [of i "s\<lparr>rs_count := tput (day, c) n (rs_count s)\<rparr>" r]
  by (intro count_step [OF assms(1,2)] reached_one) auto

lemma consume_daily: "0 \<le> amount \<Longrightarrow> limit = counter_limit cfg c \<Longrightarrow> stepping (consume_daily R c amount limit)"
  unfolding consume_daily_def today_def
  by (rule relay_onlyI) (auto simp: wp_rules store_defs intro: reached_one [OF rl_count])

lemma ensure_alarm [relay_rules]: "stepping (ensure_alarm R)"
  unfolding ensure_alarm_def
  by (rule relay_onlyI) (auto simp: wp_rules store_defs split: option.split intro: reached_one [OF rl_alarm])

section \<open>Accounts\<close>

lemma reserve_identity: "stepping (reserve_identity R cfg identity account)"
  unfolding reserve_identity_def consume_daily_def today_def
  by (rule relay_onlyI)
    (auto simp: wp_rules store_defs Let_def split: option.split intro: count_identity)

lemma account_registered: "stepping (account_registered R cfg account)"
  unfolding account_registered_def by (intro relay_rules view)

lemma fund_account: "stepping (fund_account R cfg identity account)"
  unfolding fund_account_def by (intro submit) (simp add: policy_ok_def account_exists)

lemma register_account: "stepping (register_account R cfg identity account deposit)"
  unfolding register_account_def by (intro submit) (simp add: policy_ok_def account_registered)

text \<open>The record a request read is, up to \<open>ready\<close>, the one that is stored.\<close>

definition held :: "string \<Rightarrow> identity_record \<Rightarrow> 'w ghost \<Rightarrow> bool" where
  "held i r x = (\<exists>r'. tget i (rs_identity (snd x)) = Some r' \<and> r'\<lparr>ir_ready := True\<rparr> = r\<lparr>ir_ready := True\<rparr>)"

lemma same_identity_ready: "same_identity r r' \<Longrightarrow> r'\<lparr>ir_ready := True\<rparr> = r\<lparr>ir_ready := True\<rparr>"
  by (cases r; cases r') (simp add: same_identity_def)

lemma held_later: "path x y \<Longrightarrow> held i r x \<Longrightarrow> held i r y"
  unfolding held_def by (auto dest!: steps_identity same_identity_ready)

lemma from_held:
  "stepping m \<Longrightarrow> okay (A, s) \<Longrightarrow> held i r (A, s) \<Longrightarrow>
   (\<And>B t v. okay (B, t) \<Longrightarrow> held i r (B, t) \<Longrightarrow> keeps (onto (B, t)) (k v)) \<Longrightarrow> keeps (onto (A, s)) (bnd m k)"
  by (rule relay_from_state) (auto dest: held_later)

lemma finish_account:
  assumes "held identity r x"
  shows "keeps (onto x) (finish_account identity account r)"
  unfolding finish_account_def put_identity_def
proof (intro keeps_bnd keeps_ret keep_writing)
  fix B t assume "path x (B, t)"
  then obtain r' where "tget identity (rs_identity t) = Some r'" "r'\<lparr>ir_ready := True\<rparr> = r\<lparr>ir_ready := True\<rparr>"
    using held_later [OF _ assms] by (force simp: held_def)
  then show "\<exists>y. relay_step (rt_crypto R) (rt_codec R) cfg purge (B, t) (y, t\<lparr>rs_identity := tput identity (r\<lparr>ir_ready := True\<rparr>) (rs_identity t)\<rparr>)"
    using rl_ready by metis
qed

lemma register_step:
  assumes "okay (A, s)" and "held identity r (A, s)"
  shows "keeps (onto (A, s)) (register_step R cfg identity account r)"
  unfolding register_step_def using assms
  by (auto intro!: from_held [OF account_registered] from_held [OF view] from_held [OF relay_lifting]
      from_held [OF register_account] keeps_if finish_account split: submit_result.split)

lemma reserved_identity:
  "reserve_identity R cfg identity account s = (Inr r, t) \<Longrightarrow> tget identity (rs_identity t) = Some r"
  by (auto simp: reserve_identity_def run_atomically run_bnd store_defs Let_def split: sum.splits option.splits if_splits)

lemma ensure_account: "stepping (ensure_account R cfg body)"
  unfolding ensure_account_def
proof (rule relay_bnd [OF relay_lifting], rule relay_bnd [OF relay_lifting])
  fix identity account
  show "stepping (bnd (reserve_identity R cfg identity account) (\<lambda>rcd.
       if ir_ready rcd then ret (account_reply 200 account True)
       else bnd (nc_account_exists (rt_near R) account) (\<lambda>exists.
           if exists then register_step R cfg identity account rcd
           else bnd (fund_account R cfg identity account) (\<lambda>funded.
               case funded of Pending \<Rightarrow> ret (account_reply 202 account False)
               | Done _ \<Rightarrow> register_step R cfg identity account rcd))))"
  proof (rule relay_onlyI_keeps, rule relay_from_state [OF reserve_identity], assumption)
    fix s r A t
    assume "reserve_identity R cfg identity account s = (Inr r, t)" and t: "okay (A, t)"
    then have "held identity r (A, t)" using reserved_identity by (force simp: held_def)
    then show "keeps (onto (A, t)) (if ir_ready r then ret (account_reply 200 account True)
       else bnd (nc_account_exists (rt_near R) account) (\<lambda>exists.
           if exists then register_step R cfg identity account r
           else bnd (fund_account R cfg identity account) (\<lambda>funded.
               case funded of Pending \<Rightarrow> ret (account_reply 202 account False)
               | Done _ \<Rightarrow> register_step R cfg identity account r)))"
      using t by (auto intro!: keeps_if from_held [OF account_exists] from_held [OF fund_account] register_step split: submit_result.split)
  qed
qed

section \<open>CKD requests\<close>

lemma count_count:
  assumes "count_of (day, c) s \<le> n" "n \<le> counter_limit cfg c" "count_of (day, d) s \<le> m" "m \<le> counter_limit cfg d" "c \<noteq> d"
  shows "onto (A, s) (s\<lparr>rs_count := tput (day, d) m (tput (day, c) n (rs_count s))\<rparr>)"
  using assms(3-5) rl_count [of day d "s\<lparr>rs_count := tput (day, c) n (rs_count s)\<rparr>" m cfg _ _ _ A]
  by (intro count_step [OF assms(1,2)] reached_one) (auto simp: count_of_def)

lemma reserve_ckd: "stepping (reserve_ckd R cfg identity nonce)"
  unfolding reserve_ckd_def consume_daily_def today_def
  by (rule relay_onlyI) (auto simp: wp_rules store_defs count_of_def intro!: count_count)

lemma ckd_drop: "onto (A, s) (s\<lparr>rs_ckd_done := tput n v (rs_ckd_done s), rs_tx := tdel k (rs_tx s)\<rparr>)"
  using rl_drop [of _ _ _ _ A "s\<lparr>rs_ckd_done := tput n v (rs_ckd_done s)\<rparr>" k]
  by (intro reached_step [OF rl_ckd_done [of _ _ _ _ A s n v]] reached_one) auto

lemma finish_ckd: "stepping (finish_ckd R nonce rcd)"
  unfolding finish_ckd_def
  by (rule relay_onlyI)
    (auto simp: wp_rules store_defs split: option.split intro: ckd_drop)

lemma request_ckd: "stepping (request_ckd R cfg body)"
  unfolding request_ckd_def Let_def
  by (auto intro!: relay_rules reserve_ckd submit finish_ckd split: submit_result.split)

section \<open>Invites\<close>

lemma create_invite: "stepping (create_invite R cfg body)"
proof -
  have new: "stepping (atomically (bnd (get_invite code) (\<lambda>existing.
      bnd (require (existing = None) ''invalid_request'') (\<lambda>_. put_invite code v))))" if "iv_state v = Open" for code v
    using that by (intro relay_onlyI) (auto simp: wp_rules store_defs intro: reached_one [OF rl_invite])
  show ?thesis unfolding create_invite_def Let_def by (intro relay_lifting relay_require now_ms relay_ret new relay_bnd) simp
qed

lemma count_reserve:
  assumes "count_of (day, c) s \<le> n" "n \<le> counter_limit cfg c" "tget i (rs_invite s) = Some v" "same_invite v v'"
  shows "onto (A, s) (s\<lparr>rs_count := tput (day, c) n (rs_count s), rs_invite := tput i v' (rs_invite s),
           rs_invite_identity := tput j w (rs_invite_identity s)\<rparr>)"
proof (rule count_step [OF assms(1,2)], rule reached_step, rule rl_invite_state)
  show "tget i (rs_invite (s\<lparr>rs_count := tput (day, c) n (rs_count s)\<rparr>)) = Some v" using assms(3) by simp
  show "same_invite v v'" by (rule assms(4))
  show "onto (A, s\<lparr>rs_count := tput (day, c) n (rs_count s), rs_invite := tput i v' (rs_invite (s\<lparr>rs_count := tput (day, c) n (rs_count s)\<rparr>))\<rparr>)
     (s\<lparr>rs_count := tput (day, c) n (rs_count s), rs_invite := tput i v' (rs_invite s), rs_invite_identity := tput j w (rs_invite_identity s)\<rparr>)"
    using rl_invite_identity [of _ _ _ _ A "s\<lparr>rs_count := tput (day, c) n (rs_count s), rs_invite := tput i v' (rs_invite s)\<rparr>" "tput j w"]
    by (intro reached_one) auto
qed

lemma reserve_invite: "stepping (reserve_invite R cfg code identity account)"
  unfolding reserve_invite_def consume_daily_def today_def
  by (rule relay_onlyI)
    (auto simp: wp_rules store_defs Let_def same_invite_def split: option.split intro!: count_reserve)

lemma reserved_invite:
  "reserve_invite R cfg code identity account s = (Inr v, t) \<Longrightarrow> tget code (rs_invite t) = Some v"
  by (auto simp: reserve_invite_def run_atomically run_bnd store_defs Let_def split: sum.splits option.splits if_splits)

text \<open>The code a request read is still there, with the same amount and times.\<close>

definition offered :: "string \<Rightarrow> invite_record \<Rightarrow> 'w ghost \<Rightarrow> bool" where
  "offered code v x = (\<exists>v'. tget code (rs_invite (snd x)) = Some v' \<and> same_invite v v')"

lemma offered_later: "path x y \<Longrightarrow> offered code v x \<Longrightarrow> offered code v y"
  unfolding offered_def by (auto dest!: steps_invite simp: same_invite_def)

lemma from_offered:
  "stepping m \<Longrightarrow> okay (A, s) \<Longrightarrow> offered i r (A, s) \<Longrightarrow>
   (\<And>B t v. okay (B, t) \<Longrightarrow> offered i r (B, t) \<Longrightarrow> keeps (onto (B, t)) (k v)) \<Longrightarrow> keeps (onto (A, s)) (bnd m k)"
  by (rule relay_from_state) (auto dest: offered_later)

lemma pay_and_mark:
  assumes "tget i (rs_invite s) = Some v" "same_invite v v'"
  shows "onto (A, s) (s\<lparr>rs_invite := tput i v' (rs_invite s), rs_invited_account := tput a w (rs_invited_account s)\<rparr>)"
  using rl_invited [of _ _ _ _ A "s\<lparr>rs_invite := tput i v' (rs_invite s)\<rparr>" a w]
  by (intro reached_step [OF rl_invite_state [OF assms]] reached_one) auto

lemma from_state_offered:
  assumes "\<And>A s. offered code v (A, s) \<Longrightarrow> wp m (\<lambda>_. onto (A, s)) (\<lambda>_. onto (A, s)) s" and "offered code v x"
  shows "keeps (onto x) m"
proof (rule keepsI)
  fix s assume "onto x s"
  then obtain A where A: "path x (A, s)" by (auto simp: reached_def)
  have "onto (A, s) (snd (m s))" using assms(1) [OF offered_later [OF A assms(2)]] wp_const by metis
  then show "onto x (snd (m s))" by (rule reached_trans [OF A])
qed

lemma pay_invite: "offered code v x \<Longrightarrow> keeps (onto x) (pay_invite R code account v)"
  unfolding pay_invite_def
  by (rule from_state_offered) (auto simp: wp_rules store_defs offered_def same_invite_def intro!: pay_and_mark)

lemma release_writes:
  assumes "tget i (rs_invite s) = Some v" "same_invite v v'"
  shows "onto (A, s) (s\<lparr>rs_invite := tput i v' (rs_invite s), rs_invite_identity := tdel j (rs_invite_identity s), rs_tx := tdel k (rs_tx s)\<rparr>)"
proof (rule reached_step [OF rl_invite_state [OF assms]], rule reached_step, rule rl_invite_identity [where f = "tdel j"])
  show "onto (A, s\<lparr>rs_invite := tput i v' (rs_invite s), rs_invite_identity := tdel j (rs_invite_identity (s\<lparr>rs_invite := tput i v' (rs_invite s)\<rparr>))\<rparr>)
     (s\<lparr>rs_invite := tput i v' (rs_invite s), rs_invite_identity := tdel j (rs_invite_identity s), rs_tx := tdel k (rs_tx s)\<rparr>)"
    using rl_drop [of _ _ _ _ A "s\<lparr>rs_invite := tput i v' (rs_invite s), rs_invite_identity := tdel j (rs_invite_identity s)\<rparr>" k]
    by (intro reached_one) auto
qed

lemma release_failed_invite:
  assumes "offered code v (A, s)" and "okay (A, s)"
  shows "keeps (onto (A, s)) (release_failed_invite R code identity v key)"
  unfolding release_failed_invite_def with_lock_def
proof (rule from_offered [OF lock assms(2,1)])
  fix B t u assume B: "offered code v (B, t)"
  show "keeps (onto (B, t)) (atomically (bnd (get_tx key) (\<lambda>tx. bnd (get_invite code) (\<lambda>current.
         if \<not> (case tx of Some t \<Rightarrow> tx_state t = Failed | None \<Rightarrow> False)
            \<or> \<not> (case current of Some c \<Rightarrow> iv_state c = Reserved \<and> iv_identity c = Some identity | None \<Rightarrow> False)
         then ret ()
         else bnd (put_invite code (v\<lparr>iv_state := Open, iv_identity := None, iv_account := None\<rparr>)) (\<lambda>_.
           bnd (del_invite_identity identity) (\<lambda>_. del_tx key))))))"
    using B by (rule from_state_offered [rotated])
      (auto simp: wp_rules store_defs offered_def same_invite_def split: option.split intro!: release_writes)
qed

lemma redeem_invite: "stepping (redeem_invite R cfg body)"
  unfolding redeem_invite_def
proof (rule relay_bnd [OF relay_lifting], rule relay_bnd [OF relay_lifting], rule relay_bnd [OF relay_lifting])
  fix code identity account
  show "stepping (bnd (reserve_invite R cfg code identity account) (\<lambda>invite.
       if iv_state invite = Paid then ret (invite_reply 200 account invite True)
       else
         bnd (catch
                (submit R cfg (TxInvite code) (cfg_usdc_contract cfg)
                   (''invite|'' @ code @ ''|'' @ account @ ''|'' @ iv_amount_micro invite)
                   [invite_transfer account invite] manual_policy)
                (\<lambda>e. bnd (if e = ''tx_failed'' then release_failed_invite R code identity invite (TxInvite code) else ret ())
                       (\<lambda>_. throw e))) (\<lambda>result.
           case result of Pending \<Rightarrow> ret (invite_reply 202 account invite False)
           | Done _ \<Rightarrow>
               bnd (pay_invite R code account invite) (\<lambda>_. ret (invite_reply 200 account invite True)))))"
  proof (rule relay_onlyI_keeps, rule relay_from_state [OF reserve_invite], assumption)
    fix s v A t
    assume "reserve_invite R cfg code identity account s = (Inr v, t)" and t: "okay (A, t)"
    then have "offered code v (A, t)" using reserved_invite by (force simp: offered_def same_invite_def)
    then show "keeps (onto (A, t)) (if iv_state v = Paid then ret (invite_reply 200 account v True)
       else
         bnd (catch
                (submit R cfg (TxInvite code) (cfg_usdc_contract cfg)
                   (''invite|'' @ code @ ''|'' @ account @ ''|'' @ iv_amount_micro v)
                   [invite_transfer account v] manual_policy)
                (\<lambda>e. bnd (if e = ''tx_failed'' then release_failed_invite R code identity v (TxInvite code) else ret ())
                       (\<lambda>_. throw e))) (\<lambda>result.
           case result of Pending \<Rightarrow> ret (invite_reply 202 account v False)
           | Done _ \<Rightarrow> bnd (pay_invite R code account v) (\<lambda>_. ret (invite_reply 200 account v True))))"
      using t
      by (auto intro!: keeps_if keeps_bnd keeps_catch relay_only_keeps [OF submit] release_failed_invite pay_invite
          split: submit_result.split)
  qed
qed

lemma invite_status: "stepping (invite_status body)"
  unfolding invite_status_def by (intro relay_rules)

end

end
