(* ===== verification/RelayJobs.thy ===== *)
theory RelayJobs
  imports RelayHandlers
begin

text \<open>
  Relays, device links, the entry point and the alarm of \<open>RelayerControl\<close> make only the steps of
  \<open>relay_step\<close>. A relay keeps a signature only after it verified over the delegate action that names it.
\<close>

context quiet_relayer
begin

section \<open>Relays\<close>

lemma fail_drop:
  assumes "tget i (rs_purchase s) = Some r" "\<not> finished r"
  shows "onto (A, s) (s\<lparr>rs_purchase := tput i (r\<lparr>pr_token := None, pr_state := PFailed, pr_error := Some e, pr_retryable := again,
       pr_updated_at := t, pr_sign_tx_hash := h\<rparr>) (rs_purchase s), rs_tx := tdel k (rs_tx s)\<rparr>)"
  using rl_drop [of _ _ _ _ A "s\<lparr>rs_purchase := tput i (r\<lparr>pr_token := None, pr_state := PFailed, pr_error := Some e,
      pr_retryable := again, pr_updated_at := t, pr_sign_tx_hash := h\<rparr>) (rs_purchase s)\<rparr>" k]
  by (intro reached_step [OF rl_failed [OF assms]] reached_one) auto

lemma fail_drop_hash:
  assumes "tget i (rs_purchase s) = Some r" "\<not> finished r"
  shows "onto (A, s) (s\<lparr>rs_purchase := tput i (r\<lparr>pr_token := None, pr_state := PFailed, pr_error := Some e, pr_retryable := again,
       pr_updated_at := t\<rparr>) (rs_purchase s), rs_tx := tdel k (rs_tx s)\<rparr>)"
  using fail_drop [OF assms, where A = A and e = e and again = again and t = t and h = "pr_sign_tx_hash r" and k = k] by simp

lemma fail_purchase: "stepping (fail_purchase R i err retryable)"
proof -
  have "stepping (atomically (bnd (get_purchase i) (\<lambda>stored.
       case stored of None \<Rightarrow> ret ()
       | Some current \<Rightarrow>
           if pr_state current = Submitted \<or> pr_state current = PFailed then ret ()
           else
             bnd (get_tx (TxSign i)) (\<lambda>sign.
             bnd (now_ms R) (\<lambda>t.
             bnd (put_purchase i (current\<lparr>pr_token := None, pr_state := PFailed, pr_error := Some err, pr_retryable := retryable,
                    pr_updated_at := t,
                    pr_sign_tx_hash := (case sign of Some r \<Rightarrow> Some (tx_hash r) | None \<Rightarrow> pr_sign_tx_hash current)\<rparr>)) (\<lambda>_.
             del_tx (TxSign i)))))))"
    by (rule relay_onlyI) (auto simp: wp_rules store_defs finished_def split: option.split intro!: fail_drop fail_drop_hash)
  then show ?thesis
    unfolding fail_purchase_def get_purchase_def
    by (intro relay_bnd relay_reading) (auto intro!: relay_rules)
qed

lemma verified_signed:
  assumes "verified_mpc_signature C v bytes pk = Some sig"
  shows "mpc_signed C (sha256_hex C bytes) pk sig"
proof -
  from assms obtain raw where "base_decode C (drop 8 pk) = Some raw" "length raw = 32" "length sig = 64"
      "ed25519_verify C raw sig (sha256 C bytes)"
    by (auto simp: verified_mpc_signature_def Let_def split: option.splits json.splits if_splits)
  then show ?thesis unfolding mpc_signed_def by blast
qed

lemma keep_drop:
  assumes "tget i (rs_purchase s) = Some r" "pr_state r = Signing" "mpc_signed (rt_crypto R) i pk sig"
    and "named_by_hash (rt_crypto R) (rt_codec R) cfg i r0" "pr_public_key r0 = pk"
  shows "onto (A, s) (s\<lparr>rs_purchase := tput i (r\<lparr>pr_token := None, pr_state := Relaying, pr_signature := Some (btoa sig),
       pr_updated_at := t\<rparr>) (rs_purchase s), rs_tx := tdel k (rs_tx s)\<rparr>)"
proof (rule reached_step, rule rl_keep [OF assms(1-3)])
  show "\<exists>r0. named_by_hash (rt_crypto R) (rt_codec R) cfg i r0 \<and> pr_public_key r0 = pk" using assms(4,5) by blast
  show "onto (A, s\<lparr>rs_purchase := tput i (r\<lparr>pr_token := None, pr_state := Relaying, pr_signature := Some (btoa sig), pr_updated_at := t\<rparr>) (rs_purchase s)\<rparr>)
      (s\<lparr>rs_purchase := tput i (r\<lparr>pr_token := None, pr_state := Relaying, pr_signature := Some (btoa sig), pr_updated_at := t\<rparr>) (rs_purchase s),
         rs_tx := tdel k (rs_tx s)\<rparr>)"
    using rl_drop [of _ _ _ _ A "s\<lparr>rs_purchase := tput i (r\<lparr>pr_token := None, pr_state := Relaying, pr_signature := Some (btoa sig), pr_updated_at := t\<rparr>) (rs_purchase s)\<rparr>" k]
    by (intro reached_one) auto
qed

lemma keep_signature:
  assumes "mpc_signed (rt_crypto R) i pk sig" and "named_by_hash (rt_crypto R) (rt_codec R) cfg i r0" and "pr_public_key r0 = pk"
  shows "stepping (keep_signature R i sig)"
  unfolding keep_signature_def
  by (rule relay_onlyI) (auto simp: wp_rules store_defs Let_def split: option.split intro!: keep_drop [OF _ _ assms])

lemma record_submitted: "stepping (record_submitted R i hash)"
  unfolding record_submitted_def
  by (rule relay_onlyI) (auto simp: wp_rules store_defs split: option.split intro: reached_one [OF rl_submitted])

lemma get_parts [relay_rules]: "stepping (get_tx k)" "stepping (get_purchase i)" "stepping (get_device i)"
  by (simp_all add: store_defs)

lemma relay_signed: "stepping (relay_signed R cfg i kind rcd act)"
  unfolding relay_signed_def Let_def
  by (auto intro!: relay_rules now_ms fail_purchase submit record_submitted split: submit_result.split)

lemma lifting_known: "(\<And>v. r = Inr v \<Longrightarrow> keeps Q (k v)) \<Longrightarrow> keeps Q (bnd (lifting r) k)"
  by (cases r) (simp_all add: keeps_def run_bnd)

text \<open>The record that is advanced is named by the bytes it is signed over.\<close>

lemma signing_step:
  assumes "okay x" and again: "stepping again" and i: "i = sha256_hex (rt_crypto R) bytes"
    and r: "named_by_hash (rt_crypto R) (rt_codec R) cfg i r"
  shows "keeps (onto x) (bnd (attempt (submit R cfg (TxSign i) receiver payload acts resign_policy)) (\<lambda>res.
     case res of
       Inl e \<Rightarrow> if e = ''tx_failed'' then fail_purchase R i ''approval_rejected'' True else throw e
     | Inr Pending \<Rightarrow> ret (relay_reply kind i ''signing'' None 202)
     | Inr (Done value) \<Rightarrow>
         (case verified_mpc_signature (rt_crypto R) value bytes (pr_public_key r) of
            None \<Rightarrow> fail_purchase R i ''approval_rejected'' True
          | Some signature \<Rightarrow>
              bnd (keep_signature R i signature) (\<lambda>kept.
                case kept of
                  None \<Rightarrow> throw (if kind = Purchase then ''purchase_not_found'' else ''upload_not_found'')
                | Some record' \<Rightarrow>
                    if pr_state record' \<noteq> Relaying then again
                    else relay_signed R cfg i kind record' act))))"
proof -
  have keep: "stepping (keep_signature R i sig)"
    if "verified_mpc_signature (rt_crypto R) v bytes (pr_public_key r) = Some sig" for v sig
    using verified_signed [OF that] i by (intro keep_signature [OF _ r]) auto
  show ?thesis
    by (rule relay_only_keeps [OF _ assms(1)])
      (auto intro!: relay_rules submit fail_purchase keep relay_signed again split: submit_result.split)
qed

lemma named_bytes:
  "named_by_hash C K cfg i r \<Longrightarrow>
   encode_delegate K (delegate_for cfg (kind_of (Some r)) (pr_account r) (pr_public_key r) (pr_fields r)) = Inr b \<Longrightarrow> i = sha256_hex C b"
  by (auto simp: named_by_hash_def record_bytes_def)

lemma keeps_purchase_state:
  "keeps Q a \<Longrightarrow> keeps Q b \<Longrightarrow> keeps Q c \<Longrightarrow> keeps Q d \<Longrightarrow>
   keeps Q (case st of Signing \<Rightarrow> a | Relaying \<Rightarrow> b | Submitted \<Rightarrow> c | PFailed \<Rightarrow> d)"
  by (cases st) simp_all

lemma advance_step:
  assumes "stepping again"
  shows "stepping (advance_step again R cfg i expect)"
  unfolding advance_step_def get_purchase_def Let_def
proof (rule relay_onlyI_keeps, rule relay_from_read, assumption, rule keeps_option, rule keeps_throw)
  fix x A t r
  assume t: "okay (A, t)" and r: "tget i (rs_purchase t) = Some r"
  have named: "named_by_hash (rt_crypto R) (rt_codec R) cfg i r" by (rule known_name [OF t r])
  show "keeps (onto (A, t)) (if case expect of None \<Rightarrow> False | Some k \<Rightarrow> \<not> same_family k (kind_of (tget i (rs_purchase t)))
        then throw (not_found_error expect)
        else case pr_state r of PFailed \<Rightarrow> throw (case pr_error r of Some e \<Rightarrow> e | None \<Rightarrow> ''relay_failed'')
         | Submitted \<Rightarrow> ret (relay_reply (kind_of (tget i (rs_purchase t))) i ''submitted'' (pr_tx_hash r) 200)
         | _ \<Rightarrow> bnd (lifting (encode_delegate (rt_codec R)
              (delegate_for cfg (kind_of (tget i (rs_purchase t))) (pr_account r) (pr_public_key r) (pr_fields r)))) (\<lambda>bytes.
              if pr_state r = Relaying then relay_signed R cfg i (kind_of (tget i (rs_purchase t))) r
                   (delegate_for cfg (kind_of (tget i (rs_purchase t))) (pr_account r) (pr_public_key r) (pr_fields r))
              else
                bnd (attempt (submit R cfg (TxSign i) (fp_contract (cfg_provider cfg)) (''sign|'' @ i)
                       [sign_call cfg (or_empty (pr_token r)) bytes] resign_policy)) (\<lambda>res.
                  case res of
                    Inl e \<Rightarrow> if e = ''tx_failed'' then fail_purchase R i ''approval_rejected'' True else throw e
                  | Inr Pending \<Rightarrow> ret (relay_reply (kind_of (tget i (rs_purchase t))) i ''signing'' None 202)
                  | Inr (Done v) \<Rightarrow>
                      (case verified_mpc_signature (rt_crypto R) v bytes (pr_public_key r) of
                         None \<Rightarrow> fail_purchase R i ''approval_rejected'' True
                       | Some signature \<Rightarrow>
                           bnd (keep_signature R i signature) (\<lambda>kept.
                             case kept of
                               None \<Rightarrow> throw (if kind_of (tget i (rs_purchase t)) = Purchase then ''purchase_not_found'' else ''upload_not_found'')
                             | Some record' \<Rightarrow>
                                 if pr_state record' \<noteq> Relaying then again
                                 else relay_signed R cfg i (kind_of (tget i (rs_purchase t))) record'
                                   (delegate_for cfg (kind_of (tget i (rs_purchase t))) (pr_account r) (pr_public_key r) (pr_fields r)))))))"
    by (intro keeps_if keeps_throw keeps_purchase_state keeps_ret lifting_known signing_step [OF t assms _ named]
        relay_only_keeps [OF relay_signed t] named_bytes [OF named]) (simp_all add: r)
qed

lemma advance_purchase: "stepping (advance_purchase n R cfg i expect)"
  by (induction n) (simp_all only: advance_purchase.simps relay_throw advance_step)

lemma count_count_relay:
  assumes "count_of (day, c) s \<le> n" "n \<le> counter_limit cfg c" "count_of (day, d) s \<le> m" "m \<le> counter_limit cfg d" "c \<noteq> d"
    and "case tget i (rs_purchase s) of None \<Rightarrow> True | Some r \<Rightarrow> pr_state r = PFailed \<and> pr_retryable r"
    and "pr_state r = Signing" "named_by_hash (rt_crypto R) (rt_codec R) cfg i r"
  shows "onto (A, s) (s\<lparr>rs_count := tput (day, d) m (tput (day, c) n (rs_count s)), rs_purchase := tput i r (rs_purchase s)\<rparr>)"
proof (rule count_step [OF assms(1,2)], rule count_step [where day = day and c = d and n = m])
  show "count_of (day, d) (s\<lparr>rs_count := tput (day, c) n (rs_count s)\<rparr>) \<le> m" using assms(3,5) by (simp add: count_of_def)
  show "m \<le> counter_limit cfg d" by (rule assms(4))
  show "onto (A, s\<lparr>rs_count := tput (day, c) n (rs_count s)\<rparr>\<lparr>rs_count := tput (day, d) m (rs_count (s\<lparr>rs_count := tput (day, c) n (rs_count s)\<rparr>))\<rparr>)
     (s\<lparr>rs_count := tput (day, d) m (tput (day, c) n (rs_count s)), rs_purchase := tput i r (rs_purchase s)\<rparr>)"
    using rl_relay [of i "s\<lparr>rs_count := tput (day, d) m (tput (day, c) n (rs_count s))\<rparr>" r] assms(6-8)
    by (intro reached_one) auto
qed

lemma counter_names: "relay_counter kind @ ''s'' \<noteq> relay_counter kind @ '':'' @ i"
  by (simp add: relay_counter_def)

lemma fresh_relay:
  assumes "case tget i (rs_purchase s) of None \<Rightarrow> True | Some r \<Rightarrow> pr_state r = PFailed \<and> pr_retryable r"
    and "count_of (day, relay_counter kind @ ''s'') s + 1 \<le> relay_daily_limit cfg kind"
    and "count_of (day, relay_counter kind @ '':'' @ identity) s < relay_identity_limit cfg kind"
    and "named_by_hash (rt_crypto R) (rt_codec R) cfg i (new_purchase kind identity account pk f token t)"
  shows "onto (A, s) (s\<lparr>rs_count := tput (day, relay_counter kind @ '':'' @ identity) (count_of (day, relay_counter kind @ '':'' @ identity) s + 1)
        (tput (day, relay_counter kind @ ''s'') (count_of (day, relay_counter kind @ ''s'') s + 1) (rs_count s)),
      rs_purchase := tput i (new_purchase kind identity account pk f token t) (rs_purchase s)\<rparr>)"
  using assms counter_names [of kind identity] relay_counter_limits(1,2) [of cfg kind]
  by (intro count_count_relay) (simp_all add: new_purchase_def)

lemma charge_relay:
  assumes "\<And>t. named_by_hash (rt_crypto R) (rt_codec R) cfg i (new_purchase kind identity account pk f token t)"
  shows "stepping (charge_relay R cfg kind i identity account pk f token)"
  unfolding charge_relay_def consume_daily_def today_def Let_def
  by (rule relay_onlyI)
    (auto simp: wp_rules store_defs split: option.split intro!: fresh_relay [simplified] assms intro: reached_one [OF rl_token])

lemma relay_delegate: "stepping (relay_delegate R cfg body kind)"
proof -
  have named: "named_by_hash (rt_crypto R) (rt_codec R) cfg (sha256_hex (rt_crypto R) b) (new_purchase kind identity account pk f token t)"
    if "encode_delegate (rt_codec R) (delegate_for cfg kind account pk f) = Inr b" for identity account pk f token t b
    using that by (auto simp: named_by_hash_def record_bytes_def new_purchase_def kind_of_def)
  show ?thesis
    unfolding relay_delegate_def Let_def
    by (rule relay_onlyI_keeps)
      (intro keeps_bnd keeps_lifting keeps_require lifting_known keeps_require_bnd relay_only_keeps charge_relay named
        ensure_alarm advance_purchase)
qed

section \<open>Device links\<close>

lemma move_device:
  assumes "\<And>d t. same_device d ((f d)\<lparr>dr_updated_at := t\<rparr>) \<and> dr_state (f d) \<noteq> DSubmitting"
  shows "stepping (move_device R i f)"
  unfolding move_device_def
  by (rule relay_onlyI) (auto simp: wp_rules store_defs Let_def assms split: option.split intro!: reached_one [OF rl_move])

lemma device_moves:
  "stepping (list_device R i)" "stepping (fail_device R i err)" "stepping (settle_device R i d hash)"
  unfolding list_device_def fail_device_def settle_device_def
  by (auto intro!: relay_rules move_device simp: same_device_def)

lemma check_args: "stepping (check_add_device_args (rt_crypto R) (rt_near R) market a t)"
  unfolding check_add_device_args_def Let_def by (intro relay_rules view)

lemma device_failure: "stepping (device_failure R cfg d)"
  unfolding device_failure_def by (intro relay_rules now_ms check_args)

lemma device_listed: "stepping (device_listed R cfg d)"
  unfolding device_listed_def by (intro relay_rules view)

lemma submit_device: "stepping (submit_device R cfg i d)"
  unfolding submit_device_def by (intro submit) (simp add: policy_ok_def device_policy_def device_listed)

lemma stepping_result: "(\<And>v. stepping (d v)) \<Longrightarrow> stepping p \<Longrightarrow> stepping (case e of Done v \<Rightarrow> d v | Pending \<Rightarrow> p)"
  by (cases e) simp_all

lemma advance_device: "stepping (advance_device R cfg i)"
  unfolding advance_device_def Let_def
  by (auto intro!: relay_rules submit_device device_failure device_moves stepping_result split: device_state.split)

lemma device_written:
  assumes "tget i (rs_device s) = None" "dr_state r = DSubmitting" "i = device_request_id (rt_crypto R) (dr_args r)"
  shows "onto (A, s) (s\<lparr>rs_device := tput i r (rs_device s)\<rparr>)"
  by (rule reached_one, rule rl_device) (use assms in simp_all)

lemma count_count_device:
  assumes "count_of (day, c) s \<le> n" "n \<le> counter_limit cfg c" "count_of (day, d) s \<le> m" "m \<le> counter_limit cfg d" "c \<noteq> d"
    and "tget i (rs_device s) = None" "dr_state r = DSubmitting" "i = device_request_id (rt_crypto R) (dr_args r)"
  shows "onto (A, s) (s\<lparr>rs_count := tput (day, d) m (tput (day, c) n (rs_count s)), rs_device := tput i r (rs_device s)\<rparr>)"
proof (rule count_step [OF assms(1,2)], rule count_step [where day = day and c = d and n = m])
  show "count_of (day, d) (s\<lparr>rs_count := tput (day, c) n (rs_count s)\<rparr>) \<le> m" using assms(3,5) by (simp add: count_of_def)
  show "m \<le> counter_limit cfg d" by (rule assms(4))
  show "onto (A, s\<lparr>rs_count := tput (day, c) n (rs_count s)\<rparr>\<lparr>rs_count := tput (day, d) m (rs_count (s\<lparr>rs_count := tput (day, c) n (rs_count s)\<rparr>))\<rparr>)
     (s\<lparr>rs_count := tput (day, d) m (tput (day, c) n (rs_count s)), rs_device := tput i r (rs_device s)\<rparr>)"
    using device_written [of i "s\<lparr>rs_count := tput (day, d) m (tput (day, c) n (rs_count s))\<rparr>" r] assms(6-8) by simp
qed

lemma count_device:
  assumes "count_of (day, c) s \<le> n" "n \<le> counter_limit cfg c"
    and "tget i (rs_device s) = None" "dr_state r = DSubmitting" "i = device_request_id (rt_crypto R) (dr_args r)"
  shows "onto (A, s) (s\<lparr>rs_count := tput (day, c) n (rs_count s), rs_device := tput i r (rs_device s)\<rparr>)"
  using device_written [of i "s\<lparr>rs_count := tput (day, c) n (rs_count s)\<rparr>" r] assms(3-5)
  by (intro count_step [OF assms(1,2)]) simp

lemma charge_device:
  assumes "cfg_devices cfg = Some limits" and "i = device_request_id (rt_crypto R) args"
  shows "stepping (charge_device R limits i args evicts renewal)"
proof -
  have limits: "device_limit cfg dl_daily = limit_of (dl_daily limits)" "device_limit cfg dl_ticket_daily = limit_of (dl_ticket_daily limits)"
    by (simp_all add: device_limit_def assms(1))
  show ?thesis
    unfolding charge_device_def consume_daily_def today_def
    by (rule relay_onlyI)
      (auto simp: wp_rules store_defs limits relay_counter_limits [simplified] assms(2) intro!: count_count_device count_device)
qed

lemma link_device: "stepping (link_device R cfg body)"
  unfolding link_device_def Let_def
  by (auto intro!: relay_rules charge_device advance_device split: option.split json.split)

section \<open>Requests\<close>

lemma control_operation: "stepping (control_operation R cfg route body)"
  unfolding control_operation_def
  by (intro relay_if relay_ret relay_throw relay_bnd relay_lifting link_device ensure_account request_ckd create_invite
      redeem_invite invite_status relay_delegate advance_purchase advance_device)

lemma control_fetch: "relayer_config (rt_crypto R) e = Some cfg \<Longrightarrow> stepping (control_fetch R e route body)"
  unfolding control_fetch_def by (auto intro!: relay_rules control_operation)

section \<open>The alarm\<close>

lemma keep_put_unsigned:
  assumes "(k, r0) \<in> A" "same_tx r0 r"
  shows "keeps (onto (A, s)) (put_tx k (r\<lparr>tx_signed := None\<rparr>))"
  using assms by (intro keep_put_tx [where ?r0.0 = r0]) (auto simp: same_tx_def)

lemma visit_ckd:
  assumes "okay (A, s)" and "(TxCkd n, r0) \<in> A" "same_tx r0 r" and "c = None \<or> c = Some cfg"
  shows "keeps (onto (A, s)) (visit_ckd R c n r)"
  unfolding visit_ckd_def using assms
  by (auto intro!: keeps_rules relay_only_keeps [OF finish_ckd] relay_only_keeps [OF tx_status] relay_only_keeps [OF now_ms]
      keep_put_unsigned)

lemma purge_purchase: "purge \<Longrightarrow> stepping (del_purchase i)" and purge_device: "purge \<Longrightarrow> stepping (del_device i)"
  unfolding del_purchase_def del_device_def
  by (rule relay_onlyI, auto simp: wp_rules intro: reached_one [OF rl_purge_purchase] reached_one [OF rl_purge_device])+

lemma maybe_advance:
  "c = None \<or> c = Some cfg \<Longrightarrow> c = Some y \<Longrightarrow> stepping (advance_purchase n R y i expect)"
  "c = None \<or> c = Some cfg \<Longrightarrow> c = Some y \<Longrightarrow> stepping (advance_device R y i)"
  using advance_purchase advance_device by auto

lemma visit_purchase: "purge \<Longrightarrow> c = None \<or> c = Some cfg \<Longrightarrow> stepping (visit_purchase R c i r)"
  unfolding visit_purchase_def
  by (intro relay_if relay_bnd relay_option relay_ret relay_attempt now_ms del_tx get_parts fail_purchase purge_purchase
      maybe_advance) assumption+

lemma visit_device: "purge \<Longrightarrow> c = None \<or> c = Some cfg \<Longrightarrow> stepping (visit_device R c i r)"
  unfolding visit_device_def
  by (intro relay_if relay_bnd relay_option relay_ret relay_attempt now_ms del_tx purge_device maybe_advance) assumption+

lemma any_pending: "(\<And>x. x \<in> set xs \<Longrightarrow> keeps Q (f x)) \<Longrightarrow> keeps Q (any_pending f xs)"
  by (induction xs) (auto intro!: keeps_bnd)

lemma listed_ckd:
  assumes "okay (A, s)" "(n, r) \<in> set (list_ckd s)"
  shows "\<exists>r0. (TxCkd n, r0) \<in> A \<and> same_tx r0 r"
proof -
  have "(TxCkd n, r) \<in> set (rs_tx s)"
    using assms(2) by (auto simp: list_ckd_def map_filter_def split: tx_key.splits)
  then show ?thesis using assms(1) by (fastforce simp: sane_def tx_known_def)
qed

lemma control_alarm:
  assumes purge and "relayer_config (rt_crypto R) e = None \<or> relayer_config (rt_crypto R) e = Some cfg"
  shows "stepping (control_alarm R e)"
proof -
  let ?c = "relayer_config (rt_crypto R) e"
  have cleared: "stepping (writing (\<lambda>s. s\<lparr>rs_alarm := None\<rparr>))" and scheduled: "stepping (set_alarm t)" for t
    unfolding set_alarm_def by (rule relay_onlyI, auto simp: wp_rules intro: reached_one [OF rl_alarm])+
  have ckds: "stepping (bnd (reading list_ckd) (\<lambda>ckds. bnd (any_pending (\<lambda>(n, r). visit_ckd R ?c n r) ckds) k))"
    if "\<And>p. stepping (k p)" for k :: "bool \<Rightarrow> ('w, unit) ract"
  proof (rule relay_onlyI_keeps, rule relay_from_read, assumption, rule keeps_bnd)
    fix A t assume t: "okay (A, t)"
    show "keeps (onto (A, t)) (any_pending (\<lambda>(n, r). visit_ckd R ?c n r) (list_ckd t))"
      using listed_ckd [OF t] assms(2) t by (intro any_pending) (auto intro: visit_ckd)
    show "keeps (onto (A, t)) (k p)" for p by (rule relay_only_keeps [OF that t])
  qed
  have many: "stepping (any_pending f xs)" if "\<And>x. stepping (f x)" for f :: "'x \<Rightarrow> ('w, bool) ract" and xs
    by (rule relay_onlyI_keeps, rule any_pending, rule relay_only_keeps [OF that])
  have purchases: "stepping ((\<lambda>(i, r). visit_purchase R ?c i r) x)" for x
    by (cases x, simp only: prod.case, rule visit_purchase [OF assms])
  have devices: "stepping ((\<lambda>(i, r). visit_device R ?c i r) x)" for x
    by (cases x, simp only: prod.case, rule visit_device [OF assms])
  show ?thesis
    unfolding control_alarm_def Let_def
    by (rule relay_bnd [OF cleared], rule ckds, rule relay_bnd [OF relay_reading], rule relay_bnd [OF many], rule purchases,
        rule relay_bnd [OF relay_reading], rule relay_bnd [OF many], rule devices, rule relay_if, rule relay_bnd [OF now_ms],
        rule scheduled, rule relay_ret)
qed

end

end
