(* ===== verification/RelayWorld.thy ===== *)
theory RelayWorld
  imports RelayJobs Samples
begin

text \<open>
  The relayer on its own: a runtime whose RPC client, lock and clock act on the outside world only. It
  satisfies the interface of \<open>quiet_relayer\<close>; a concrete one gives the values the properties are applied to.
\<close>

definition outside_call :: "('w, 'a) act \<Rightarrow> ('w, 'a) ract" where
  "outside_call m s = (case m (rs_outside s) of (r, w) \<Rightarrow> (r, s\<lparr>rs_outside := w\<rparr>))"

lemma relay_outside [relay_rules]: "relay_only C K cfg purge (outside_call m)"
  by (rule relay_onlyI) (auto simp: wp_def outside_call_def split: prod.splits sum.splits intro: reached_one [OF rl_outside])

text \<open>What \<open>fetch\<close>, \<open>near-api-js\<close> and the runtime of the durable object do.\<close>

record 'w relay_surroundings =
  rw_crypto :: crypto
  rw_codec :: codec
  rw_rpc_url :: string
  rw_fetch :: "string \<Rightarrow> string \<Rightarrow> ('w, bool \<times> json option) act"
  rw_clock :: "'w \<Rightarrow> int"
  rw_sleep :: "int \<Rightarrow> ('w, unit) act"
  rw_lock :: "('w, unit) act"

definition relay_service :: "'w relay_surroundings \<Rightarrow> 'w runtime" where
  "relay_service W =
     \<lparr>rt_crypto = rw_crypto W, rt_codec = rw_codec W,
      rt_near = create_near_client (rw_rpc_url W) (\<lambda>u b. outside_call (rw_fetch W u b)),
      rt_now = (\<lambda>s. rw_clock W (rs_outside s)), rt_sleep = (\<lambda>d. outside_call (rw_sleep W d)), rt_lock = outside_call (rw_lock W)\<rparr>"

section \<open>The RPC client only calls \<open>fetch\<close>\<close>

lemma relay_rpc: "(\<And>u b. relay_only C K cfg purge (fetcher u b)) \<Longrightarrow> relay_only C K cfg purge (rpc fetcher url method params)"
  unfolding rpc_def by (auto intro!: relay_rules)

lemma relay_query: "(\<And>u b. relay_only C K cfg purge (fetcher u b)) \<Longrightarrow> relay_only C K cfg purge (query fetcher url params missing)"
  unfolding query_def Let_def by (auto intro!: relay_rules relay_rpc)

lemma relay_json: "relay_only C K cfg purge (case v of JArr vs \<Rightarrow> f vs | _ \<Rightarrow> throw e)"
  if "\<And>vs. relay_only C K cfg purge (f vs)"
  using that by (cases v) simp_all

lemma relay_near:
  assumes "\<And>u b. relay_only C K cfg purge (fetcher u b)"
  shows "relay_only C K cfg purge (nc_view (create_near_client url fetcher) c m a)"
    and "relay_only C K cfg purge (nc_account_exists (create_near_client url fetcher) acct)"
    and "relay_only C K cfg purge (nc_access_key (create_near_client url fetcher) acct pk)"
    and "relay_only C K cfg purge (nc_send_tx (create_near_client url fetcher) tx)"
    and "relay_only C K cfg purge (nc_tx_status (create_near_client url fetcher) h acct)"
  using assms
  by (auto simp: create_near_client_def view_call_def account_exists_call_def access_key_call_def send_tx_call_def tx_status_call_def
      intro!: relay_rules relay_query relay_rpc relay_json)

interpretation relay_world: quiet_relayer "relay_service W" cfg purge for W :: "'w relay_surroundings" and cfg and purge
  by unfold_locales (simp_all add: relay_service_def relay_near relay_outside)

section \<open>A concrete world\<close>

text \<open>
  A codec that writes the public key of a delegate action, and a hash that keeps its argument, so that
  different keys have different hashes; an RPC endpoint that is down.
\<close>

definition sample_codec :: codec where
  "sample_codec =
     \<lparr>encode_delegate = (\<lambda>d. Inr (map (\<lambda>c. of_nat (chr_code c)) (da_public_key d))), sign_transaction = (\<lambda>_ _ _ _ _ _. Inr ([1], [2]))\<rparr>"

definition open_crypto :: crypto where
  "open_crypto = sample_crypto\<lparr>sha256 := (\<lambda>b. b)\<rparr>"

definition relay_sample :: "int relay_surroundings" where
  "relay_sample =
     \<lparr>rw_crypto = open_crypto, rw_codec = sample_codec, rw_rpc_url = ''https://rpc.example'', rw_fetch = (\<lambda>_ _. throw ''down''),
      rw_clock = id, rw_sleep = (\<lambda>_. ret ()), rw_lock = ret ()\<rparr>"

section \<open>A concrete relayer\<close>

definition sample_relayer_env :: env where
  "sample_relayer_env =
     \<lparr>RELAYER_ENABLED = Some ''true'', RELAYER_MUTATIONS_ENABLED = Some ''true'', NEAR_NETWORK = Some ''testnet'',
      NEAR_RPC_URL = Some ''https://rpc.example'', RELAYER_ACCOUNT_ID = Some ''relayer.testnet'',
      RELAYER_PRIVATE_KEY = Some sample_key, NEAR_AUTH_CLIENT_ID = Some ''client'', CKD_GATE_ACCOUNT_IDS = Some ''gate.testnet'',
      USDC_CONTRACT_ID = Some ''usdc.testnet'', ACCOUNT_FUNDING_YOCTO = Some ''10'', MAX_STORAGE_DEPOSIT_YOCTO = Some ''10'',
      DAILY_ACCOUNT_LIMIT = Some ''5'', DAILY_CKD_LIMIT = Some ''5'', IDENTITY_DAILY_CKD_LIMIT = Some ''5'',
      DAILY_INVITE_USDC_MICRO_LIMIT = Some ''5'', MARKET_V2_CONTRACT_ID = Some ''market.testnet'', DAILY_PURCHASE_LIMIT = Some ''5'',
      IDENTITY_DAILY_PURCHASE_LIMIT = Some ''5'', DAILY_UPLOAD_LIMIT = Some ''5'', IDENTITY_DAILY_UPLOAD_LIMIT = Some ''5'',
      DAILY_DEVICE_LIMIT = Some ''5'', TICKET_DAILY_DEVICE_LIMIT = Some ''5'', UPLOAD_PROFILE_HASH_ALLOWLIST = None,
      INVITE_AMOUNTS_USDC_MICRO = Some ''5'', INVITE_TTL_DAYS = Some ''7'', ALLOWED_ORIGINS = Some ''https://app.example'',
      RELAYER_ADMIN_TOKEN = Some (replicate 32 CHR ''a'')\<rparr>"

definition sample_settings :: relayer_settings where
  "sample_settings = the (relayer_config open_crypto sample_relayer_env)"

lemma open_crypto_simps [simp]: "sha256 open_crypto = (\<lambda>b. b)" "key_pair_public open_crypto = (\<lambda>_. Some sample_key)"
  "base_decode open_crypto = (\<lambda>_. Some (sample_bytes 32))" "ed25519_verify open_crypto = (\<lambda>_ _ _. True)"
  by (simp_all add: open_crypto_def)

lemma code_points_text: "list_all (\<lambda>c. chr_code c < 128) s \<Longrightarrow> of_code_points (map chr_code s) = s"
  by (induction s) (auto simp: of_code_points_def utf8_def chr_code_def)

lemma js_trim_plain:
  assumes "list_all (\<lambda>c. 33 \<le> chr_code c \<and> chr_code c < 127) s"
  shows "js_trim s = s"
proof -
  have kept: "dropWhile white_space (map chr_code t) = map chr_code t" if "list_all (\<lambda>c. 33 \<le> chr_code c \<and> chr_code c < 127) t" for t
    using that by (cases t) (auto simp: white_space_def)
  have "list_all (\<lambda>c. chr_code c < 128) s" using assms by (auto simp: list_all_iff)
  then show ?thesis
    using kept [OF assms] kept [of "rev s"] assms
    by (simp add: js_trim_def code_points_ascii code_points_text flip: rev_map)
qed

lemma value_list_one:
  "s \<noteq> [] \<Longrightarrow> list_all (\<lambda>c. 33 \<le> chr_code c \<and> chr_code c < 127) s \<Longrightarrow> CHR '','' \<notin> set s \<Longrightarrow> value_list (Some s) = [s]"
  by (simp add: value_list_def or_empty_def split_at_char_no_sep js_trim_plain)

lemma sample_lists:
  "value_list (Some ''gate.testnet'') = [''gate.testnet'']" "value_list (Some ''5'') = [''5'']"
  "value_list (Some ''https://app.example'') = [''https://app.example'']"
  by (simp_all add: value_list_one chr_code_def)

lemma sample_admin_token: "repeated is_b64url 32 256 (replicate 32 CHR ''a'')"
  by (simp add: repeated_def list_all_iff is_b64url_def is_alnum_def char_defs)

lemma sample_values_ok: "values_ok sample_relayer_env"
  unfolding values_ok_def sample_relayer_env_def
  using sample_admin_token
  by (simp add: sample_lists or_empty_def required_numbers_def decimal1_def repeated_def starts_with_def account_id_def
      https_origin_def is_b64url_def is_alnum_def char_defs)

lemma sample_settings [simp]: "relayer_config open_crypto sample_relayer_env = Some sample_settings"
  using sample_values_ok by (simp add: sample_settings_def relayer_config_def sample_relayer_env_def network_of_env_def)

lemma sample_settings_simps [simp]:
  "cfg_mutations_enabled sample_settings" "cfg_daily_account_limit sample_settings = ''5''"
  using sample_values_ok
  by (simp_all add: sample_settings_def relayer_config_def sample_relayer_env_def network_of_env_def or_empty_def)

definition sample_relay :: purchase_record where
  "sample_relay =
     \<lparr>pr_state = Submitted, pr_kind = Some UploadKey, pr_identity = ''identity-1'', pr_account = ''alice.testnet'',
      pr_public_key = sample_key,
      pr_fields = \<lparr>rf_args = KeyArgs \<lparr>ua_job_id = ''job-1'', ua_new_public_key = sample_key, ua_expires_at_ms = ''9000''\<rparr>,
                   rf_nonce = ''1'', rf_max_block_height = ''1''\<rparr>,
      pr_token = None, pr_signature = Some sample_signature, pr_sign_tx_hash = None, pr_tx_hash = Some ''hash'',
      pr_error = None, pr_retryable = False, pr_created_at = 1000, pr_updated_at = 2000\<rparr>"

definition key_bytes :: "string \<Rightarrow> bytes" where
  "key_bytes pk = map (\<lambda>c. of_nat (chr_code c)) pk"

definition sample_relay_id :: string where
  "sample_relay_id = hex_of (key_bytes sample_key)"

definition sample_tx :: tx_record where
  "sample_tx =
     \<lparr>tx_state = Success, tx_payload_sha256 = ''00'', tx_receiver = ''alice.testnet'', tx_nonce = 7, tx_block_hash = ''block'',
      tx_signed = None, tx_hash = ''hash'', tx_value = None, tx_created_at = 1000, tx_broadcast_at = 1000\<rparr>"

definition sample_device :: device_record where
  "sample_device =
     \<lparr>dr_state = DListed, dr_ticket = ''ticket-1'',
      dr_args = \<lparr>ad_ticket_id = ''ticket-1'', ad_session_public_key = sample_key, ad_certificate_sha256 = replicate 64 CHR ''0'',
                 ad_device_epoch = ''1'', ad_expires_at_ms = ''9000'', ad_signature = sample_signature\<rparr>,
      dr_evicts = None, dr_renewal = False, dr_tx_hash = None, dr_error = None, dr_created_at = 1000, dr_updated_at = 2000\<rparr>"

definition sample_store :: "int relayer_state" where
  "sample_store =
     \<lparr>rs_tx = [(TxFund ''identity-1'', sample_tx)], rs_last_nonce = 7,
      rs_identity = [(''identity-1'', \<lparr>ir_account = ''alice.testnet'', ir_ready = True, ir_created_at = 1000\<rparr>)],
      rs_ckd_done = [(''ckd-1'', (1000, None))], rs_purchase = [(sample_relay_id, sample_relay)],
      rs_device = [(''link-1'', sample_device)],
      rs_invite = [(''invite-1'', \<lparr>iv_amount_micro = ''5'', iv_created_at = 1000, iv_expires_at = 9000, iv_state = Open,
                                   iv_identity = None, iv_account = None\<rparr>)],
      rs_invite_identity = [], rs_invited_account = [], rs_count = [((''1970-01-01'', ''accounts''), 1)], rs_alarm = Some 5000,
      rs_outside = 3000\<rparr>"

lemma sample_record_bytes: "record_bytes sample_codec cfg r = Inr (key_bytes (pr_public_key r))"
  by (simp add: record_bytes_def sample_codec_def delegate_for_def purchase_delegate_def upload_delegate_def upload_key_delegate_def
      delegate_def key_bytes_def split: relay_kind.split)

lemma sample_named: "named_by_hash open_crypto sample_codec cfg i r \<longleftrightarrow> i = hex_of (key_bytes (pr_public_key r))"
  by (simp add: named_by_hash_def sample_record_bytes sha256_hex_def)

end
