(* ===== verification/RelayerChecks.thy ===== *)
theory RelayerChecks
  imports RelayerFront RelayWorld JsonRoundTrip
begin

text \<open>
  What the front Worker of the relayer lets through: tokens signed by a key of the issuer, delegate actions
  the token approves byte for byte, and replies with CORS headers for allowed origins only. What the RPC client
  reports of a transaction rests on a reply of the chain.
\<close>

section \<open>Tokens\<close>







text \<open>How an issuer writes a token: the digits of base64 in the alphabet of URLs, without padding.\<close>

definition token_text :: "bytes \<Rightarrow> string" where
  "token_text bs = url_safe (map b64_chr (b64_digits (map unat bs)))"

definition token_of :: "json \<Rightarrow> json \<Rightarrow> bytes \<Rightarrow> string" where
  "token_of header claims sig =
     join ''.'' [token_text (encode_text (json_text header)), token_text (encode_text (json_text claims)), token_text sig]"

lemma b64_digits_bytes: "list_all (\<lambda>d. d < 64) (b64_digits (map unat (bs :: bytes)))"
  by (rule b64_digits_less) (use unsigned_less [where 'a = nat and 'b = 8] in \<open>simp add: list_all_iff\<close>)

lemma token_text_chars: "c \<in> set (token_text bs) \<Longrightarrow> is_b64url c"
  using b64_digits_bytes [of bs] b64_chr_class by (fastforce simp: token_text_def url_safe_def list_all_iff is_b64url_def)

lemma b64url_plain: "is_b64url c \<Longrightarrow> c \<noteq> CHR ''.'' \<and> chr_code c < 128"
  by (auto simp: is_b64url_def is_alnum_def char_defs)

lemma un_url_safe:
  assumes "list_all (\<lambda>c. is_alnum c \<or> c = CHR ''+'' \<or> c = CHR ''/'') s"
  shows "map (\<lambda>c. if c = CHR ''-'' then CHR ''+'' else if c = CHR ''_'' then CHR ''/'' else c) (url_safe s) = s"
  using assms by (induction s) (auto simp: url_safe_def is_alnum_def char_defs)

lemma token_text_padding:
  assumes "n = length bs" and "m = length (token_text bs)"
  shows "replicate ((m + 3) div 4 * 4 - m) CHR ''='' = b64_padding n"
proof -
  have m: "m = 4 * (n div 3) + (if n mod 3 = 0 then 0 else n mod 3 + 1)"
    using assms by (simp add: token_text_def url_safe_def length_b64_digits)
  consider "n mod 3 = 0" | "n mod 3 = 1" | "n mod 3 = 2" by linarith
  then show ?thesis
  proof cases
    case 1
    then show ?thesis by (simp add: m b64_padding_def)
  next
    case 2
    then have "(m + 3) div 4 * 4 - m = 2" by (simp add: m)
    then show ?thesis using 2 by (simp add: b64_padding_def numeral_2_eq_2)
  next
    case 3
    then have "(m + 3) div 4 * 4 - m = 1" by (simp add: m)
    then show ?thesis using 3 by (simp add: b64_padding_def)
  qed
qed

lemma token_text_round_trip:
  assumes "bs \<noteq> []"
  shows "base64_url_bytes (token_text bs) = Some bs"
proof -
  have "list_all (\<lambda>c. is_alnum c \<or> c = CHR ''+'' \<or> c = CHR ''/'') (map b64_chr (b64_digits (map unat bs)))"
    using b64_digits_bytes [of bs] b64_chr_class by (auto simp: list_all_iff)
  moreover have "list_all is_b64url (token_text bs)" using token_text_chars by (auto simp: list_all_iff)
  moreover have "b64_digits (map unat bs) \<noteq> []"
    using assms length_b64_digits [of "map unat bs"] by (cases "length bs mod 3 = 0") auto
  then have "token_text bs \<noteq> []" by (simp add: token_text_def url_safe_def)
  ultimately show ?thesis
    using token_text_padding [OF refl refl, of bs] atob_btoa [of bs]
    by (simp add: base64_url_bytes_def un_url_safe token_text_def btoa_def Let_def)
qed

abbreviation ascii :: "string \<Rightarrow> bool" where
  "ascii s \<equiv> list_all (\<lambda>c. chr_code c < 128) s"

lemma json_part_round_trip:
  assumes "plain v" and "is_obj v" and "ascii (json_text v)"
  shows "json_part (token_text (encode_text (json_text v))) = Some v"
proof -
  have s: "scalar_text (json_text v)" by (rule scalar_text_ascii [OF assms(3)])
  have ne: "json_text v \<noteq> []" using skip_ws_value(2) [OF assms(1)] .
  then have "encode_text (json_text v) \<noteq> []" by (simp add: encode_scalar_text [OF s])
  moreover have "take 1 (code_points (json_text v)) \<noteq> [65279]"
    using assms(3) ne by (cases "json_text v") (auto simp: code_points_ascii)
  ultimately show ?thesis
    using assms(1,2) by (simp add: json_part_def token_text_round_trip decode_encode [OF s] json_read_back)
qed

lemma token_of_ascii: "ascii (token_of header claims sig)"
  using b64url_plain token_text_chars by (auto simp: token_of_def list_all_iff chr_code_def)

lemma token_parts_round_trip:
  assumes "plain header" "is_obj header" "ascii (json_text header)" and "plain claims" "is_obj claims" "ascii (json_text claims)"
    and "sig \<noteq> []" and "length (token_of header claims sig) \<le> max_token_bytes"
  shows "token_parts (Some (JStr (token_of header claims sig))) =
    Inr (header, claims, sig, encode_text (token_text (encode_text (json_text header)) @ ''.'' @ token_text (encode_text (json_text claims))))"
proof -
  have "split_at_char CHR ''.'' (token_of header claims sig) =
      [token_text (encode_text (json_text header)), token_text (encode_text (json_text claims)), token_text sig]"
    unfolding token_of_def by (rule split_join) (use b64url_plain token_text_chars in auto)
  moreover have "length (encode_text (token_of header claims sig)) \<le> max_token_bytes"
    using assms(8) by (simp add: encode_scalar_text [OF scalar_text_ascii [OF token_of_ascii]])
  ultimately show ?thesis
    using assms(1-7) by (simp add: token_parts_def json_part_round_trip token_text_round_trip)
qed

definition sample_header :: json where
  "sample_header = JObj [(''alg'', JStr ''RS256''), (''kid'', JStr ''k'')]"

definition sample_claims :: json where
  "sample_claims = JObj [(''iss'', JStr ''issuer''), (''aud'', JStr ''client''), (''sub'', JStr ''subject''), (''exp'', JNum 9)]"





lemma nine_text: "num_text 9 = ''9''"
  by (simp add: num_text_def show_int_def show_nat.simps digit_chr_def)

lemmas sample_texts = sample_header_def sample_claims_def chr_code_def esc_chr_def Let_def nine_text

lemma sample_header_ok: "plain sample_header" "is_obj sample_header" "ascii (json_text sample_header)" "length (json_text sample_header) = 25"
  by (simp_all add: sample_texts index_key_def canonical_dec_def char_defs)

lemma sample_claims_ok: "plain sample_claims" "is_obj sample_claims" "ascii (json_text sample_claims)" "length (json_text sample_claims) = 55"
  by (simp_all add: sample_texts index_key_def canonical_dec_def char_defs)

lemma length_token_text: "length (token_text bs) = 4 * (length bs div 3) + (if length bs mod 3 = 0 then 0 else length bs mod 3 + 1)"
  by (simp add: token_text_def url_safe_def length_b64_digits)

lemma sample_token_length: "length (token_of sample_header sample_claims (sample_bytes 3)) \<le> max_token_bytes"
  by (simp add: sample_header_ok sample_claims_ok token_of_def length_token_text encode_scalar_text scalar_text_ascii max_token_bytes_def)


text \<open>
  A token as an issuer writes it, of at most 7168 characters, is read back as its header, its claims, its
  signature and the bytes that were signed.
\<close>

theorem token_read_back:
  assumes "plain header" "is_obj header" "ascii (json_text header)" and "plain claims" "is_obj claims" "ascii (json_text claims)"
    and "sig \<noteq> []" and "length (token_of header claims sig) \<le> max_token_bytes"
  shows "token_parts (Some (JStr (token_of header claims sig))) =
    Inr (header, claims, sig, encode_text (token_text (encode_text (json_text header)) @ ''.'' @ token_text (encode_text (json_text claims))))"
  by (rule token_parts_round_trip [OF assms])

theorem token_read_back_witness:
  "token_parts (Some (JStr (token_of sample_header sample_claims (sample_bytes 3)))) =
    Inr (sample_header, sample_claims, sample_bytes 3,
         encode_text (token_text (encode_text (json_text sample_header)) @ ''.'' @ token_text (encode_text (json_text sample_claims))))"
  by (rule token_read_back [OF sample_header_ok(1-3) sample_claims_ok(1-3) _ sample_token_length]) (simp add: sample_bytes_def)




section \<open>Approvals\<close>













definition sample_near :: "unit near_client" where
  "sample_near =
     \<lparr>nc_view = (\<lambda>_ m _. ret (if m = ''paused'' then JBool False else if m = ''mpc_address'' then JStr ''v1.signer-prod.testnet''
        else if m = ''mpc_domain_id'' then JNum 1 else if m = ''derived_public_key'' then JStr sample_key
        else if m = ''get_media_job'' then JObj [(''creator_id'', JStr (hex_of (sample_bytes 32))), (''status'', JStr ''Authorized'')]
        else JNull)),
      nc_account_exists = (\<lambda>_. ret True),
      nc_access_key = (\<lambda>_ _. ret \<lparr>ak_nonce = 0, ak_block_hash = ''block'', ak_full_access = True, ak_block_height = Some 10\<rparr>),
      nc_send_tx = (\<lambda>_. ret OUnknown), nc_tx_status = (\<lambda>_ _. ret OUnknown)\<rparr>"

definition sample_front_desk :: "unit front" where
  "sample_front_desk =
     \<lparr>fr_crypto = sample_crypto, fr_codec = sample_codec, fr_near = sample_near, fr_now = (\<lambda>_. 0),
      fr_verify = (\<lambda>_ _. ret \<lparr>vi_iss = ''issuer'', vi_sub = ''subject'', vi_exp = 9, vi_nonce = None,
                              vi_fatxn = Some (key_bytes sample_key)\<rparr>),
      fr_control = None, fr_limiter = None, fr_random = ret []\<rparr>"









section \<open>What is known of a transaction\<close>

text \<open>The final status of a transaction, in a reply without an error.\<close>

definition replied_status :: "bool \<times> json option \<Rightarrow> (string \<times> json) list \<Rightarrow> bool" where
  "replied_status reply st =
     (\<exists>v res. reply = (True, Some v) \<and> has_fields v \<and> \<not> truthy (obj_get ''error'' v) \<and> obj_get ''result'' v = Some res \<and>
        obj_get ''status'' res = Some (JObj st))"

definition status_body :: "string \<Rightarrow> string \<Rightarrow> string" where
  "status_body h sender =
     rpc_body ''tx'' (JObj [(''tx_hash'', JStr h), (''sender_account_id'', JStr sender), (''wait_until'', JStr ''EXECUTED_OPTIMISTIC'')])"

lemma status_error_decides: "classify_status_error err \<noteq> OFailed" "classify_status_error err \<noteq> OSuccess v"
  using status_error_outcomes [of err] by auto

lemma status_known:
  assumes "r = OFailed \<or> r = OSuccess v"
  shows "tx_status_call fetcher url h a s = (Inr r, t) \<longleftrightarrow>
    (\<exists>w. fetcher url (status_body h a) s = (Inr (True, Some w), t) \<and> has_fields w \<and> \<not> truthy (obj_get ''error'' w) \<and>
       outcome_from_result (obj_get ''result'' w) = r)"
proof -
  have "tx_status_call fetcher url h a s = (Inr r, t) \<longleftrightarrow>
    (\<exists>w. rpc fetcher url ''tx'' (JObj [(''tx_hash'', JStr h), (''sender_account_id'', JStr a),
           (''wait_until'', JStr ''EXECUTED_OPTIMISTIC'')]) s = (Inr w, t) \<and> \<not> truthy (obj_get ''error'' w) \<and>
       outcome_from_result (obj_get ''result'' w) = r)"
    using assms status_error_decides unfolding tx_status_run by (auto split: prod.splits sum.splits if_splits)
  then show ?thesis unfolding rpc_Inr status_body_def by blast
qed

lemma result_success:
  "outcome_from_result r = OSuccess v \<longleftrightarrow>
   (\<exists>w st. r = Some w \<and> obj_get ''status'' w = Some (JObj st) \<and> map_of st ''Failure'' = None \<and>
      (case map_of st ''SuccessValue'' of Some x \<Rightarrow> (\<exists>t. x = JStr t \<and> v = Some t)
       | None \<Rightarrow> map_of st ''SuccessReceiptId'' \<noteq> None \<and> v = None))"
proof (cases "Option.bind r (obj_get ''status'')")
  case None
  then show ?thesis by (cases r) (auto simp: outcome_from_result_def)
next
  case (Some x)
  then obtain w where w: "r = Some w" "obj_get ''status'' w = Some x" by (cases r) auto
  show ?thesis
  proof (cases x)
    case (JObj st)
    then show ?thesis
      using w by (cases "map_of st ''Failure''"; cases "map_of st ''SuccessValue''"; cases "the (map_of st ''SuccessValue'')")
        (auto simp: outcome_from_result_def)
  qed (use w in \<open>auto simp: outcome_from_result_def\<close>)
qed

text \<open>
  The status of a transaction is always an answer, never an exception, and it says failed or succeeded
  exactly when the chain replied so without an error; anything else, a broken reply or no reply, decides nothing.
\<close>

theorem status_rests_on_the_chain:
  "(\<exists>r t. tx_status_call fetcher url h sender s = (Inr r, t)) \<and>
   (tx_status_call fetcher url h sender s = (Inr OFailed, t) \<longleftrightarrow>
     (\<exists>reply st. fetcher url (status_body h sender) s = (Inr reply, t) \<and> replied_status reply st \<and> map_of st ''Failure'' \<noteq> None)) \<and>
   (tx_status_call fetcher url h sender s = (Inr (OSuccess v), t) \<longleftrightarrow>
     (\<exists>reply st. fetcher url (status_body h sender) s = (Inr reply, t) \<and> replied_status reply st \<and> map_of st ''Failure'' = None \<and>
        (case map_of st ''SuccessValue'' of Some x \<Rightarrow> (\<exists>w. x = JStr w \<and> v = Some w)
         | None \<Rightarrow> map_of st ''SuccessReceiptId'' \<noteq> None \<and> v = None)))"
proof (intro conjI)
  show "\<exists>r t. tx_status_call fetcher url h sender s = (Inr r, t)"
    by (simp add: tx_status_run split: prod.splits sum.splits)
qed (auto simp: status_known result_failed result_success replied_status_def)

section \<open>Replies\<close>

text \<open>A computation that always gives a value, and one with the property.\<close>

definition yields :: "('a \<Rightarrow> bool) \<Rightarrow> ('s, 'a) act \<Rightarrow> bool" where
  "yields P m = (\<forall>s. \<exists>x t. m s = (Inr x, t) \<and> P x)"

lemma yields_ret: "P x \<Longrightarrow> yields P (ret x)"
  by (simp add: yields_def)

lemma yields_bnd: "yields Q m \<Longrightarrow> (\<And>x. Q x \<Longrightarrow> yields P (k x)) \<Longrightarrow> yields P (bnd m k)"
  unfolding yields_def bnd_returns by metis

lemma yields_catch:
  assumes "\<And>s x t. m s = (Inr x, t) \<Longrightarrow> P x" and "\<And>e. yields P (h e)"
  shows "yields P (catch m h)"
  unfolding yields_def
proof
  fix s show "\<exists>x t. catch m h s = (Inr x, t) \<and> P x"
    using assms(1) assms(2) by (cases "m s"; cases "fst (m s)") (auto simp: run_catch yields_def)
qed

lemma yields_if: "(b \<Longrightarrow> yields P m) \<Longrightarrow> (\<not> b \<Longrightarrow> yields P n) \<Longrightarrow> yields P (if b then m else n)"
  by simp

lemma yields_option: "(x = None \<Longrightarrow> yields P m) \<Longrightarrow> (\<And>y. x = Some y \<Longrightarrow> yields P (n y)) \<Longrightarrow> yields P (case x of None \<Rightarrow> m | Some y \<Rightarrow> n y)"
  by (cases x) simp_all

text \<open>What a route replies of its own carries the CORS headers of the request.\<close>

definition reply_for :: "string option \<Rightarrow> step \<Rightarrow> bool" where
  "reply_for cors st = (case st of Reply r \<Rightarrow> fs_cors r = cors | Forward _ _ \<Rightarrow> True)"

lemma reply_for_simps [simp]:
  "reply_for cors (Reply (front_error code status cors))" "reply_for cors (Reply (front_json v status cors))"
  "reply_for cors (bad_request cors)" "reply_for cors (Forward p b)" "reply_for cors (forward_approved p ap token f)"
  "reply_for cors (Reply (route_error cors code))" "reply_for cors (route_status cors body key path name)"
  by (simp_all add: reply_for_def front_error_def front_json_def bad_request_def forward_approved_def route_error_def route_status_def
      split: option.split)

lemma route_replies: "route F cfg cors path body s = (Inr st, t) \<Longrightarrow> reply_for cors st"
  by (auto simp: route_def route_accounts_def route_ckd_def route_purchases_def route_uploads_def route_upload_keys_def route_devices_def
      route_redeem_def bnd_returns Let_def split: if_splits prod.splits)

text \<open>The services behind the front Worker answer.\<close>

definition answering :: "'s front \<Rightarrow> bool" where
  "answering F =
     (yields (\<lambda>_. True) (fr_random F) \<and> (\<forall>limit k. fr_limiter F = Some limit \<longrightarrow> yields (\<lambda>_. True) (limit k)) \<and>
      (\<forall>control p b. fr_control F = Some control \<longrightarrow> yields (\<lambda>_. True) (control p b)))"

lemma forward_yields: "yields (\<lambda>_. True) (control p b) \<Longrightarrow> yields (\<lambda>r. fs_cors r = cors) (forward control p b cors)"
  unfolding forward_def by (rule yields_bnd, assumption) (auto simp: front_json_def intro: yields_ret split: prod.split)

lemma public_yields:
  assumes "answering F" and "fr_control F = Some control"
  shows "yields (\<lambda>r. fs_cors r = Some org) (handle_public F cfg control org rq)"
proof -
  have limited: "yields (\<lambda>_. True) (case fr_limiter F of None \<Rightarrow> ret True | Some limit \<Rightarrow> limit k)" for k
    using assms(1) by (auto simp: answering_def intro: yields_ret split: option.split)
  have routed: "yields (reply_for (Some org)) (catch (route F cfg (Some org) path body) (\<lambda>code. ret (Reply (route_error (Some org) code))))"
    for path body
    by (rule yields_catch) (auto intro: route_replies yields_ret)
  have answered: "yields (\<lambda>r. fs_cors r = Some org) (case st of Reply r \<Rightarrow> ret r | Forward p v \<Rightarrow> forward control p v (Some org))"
    if "reply_for (Some org) st" for st
    using that assms by (cases st) (auto simp: reply_for_def answering_def intro: yields_ret forward_yields)
  show ?thesis
    unfolding handle_public_def Let_def
    by (intro yields_if yields_ret yields_bnd [OF limited] yields_option yields_bnd [OF routed] answered)
      (simp_all add: front_error_def front_json_def)
qed

lemma internal_yields:
  assumes "answering F" and "fr_control F = Some control"
  shows "yields (\<lambda>r. fs_cors r = None) (handle_internal F e control rq)"
proof -
  have control: "yields (\<lambda>_. True) (control p b)" for p b using assms by (simp add: answering_def)
  have random: "yields (\<lambda>_. True) (fr_random F)" using assms(1) by (simp add: answering_def)
  show ?thesis
    unfolding handle_internal_def Let_def
    by (auto simp: front_error_def front_json_def split: option.split prod.split
        intro!: yields_ret forward_yields control yields_bnd [OF random] yields_bnd [OF control])
qed

text \<open>
  C24 (error) While its services answer, the front Worker answers every request with a reply and never an exception, and
  only a reply to a \<open>/v1/\<close> request of an allowed origin carries CORS headers, those of that origin.
\<close>

theorem front_always_answers:
  assumes "answering F"
  shows "\<exists>r t. handle F e rq s = (Inr r, t) \<and>
    (fs_cors r = None \<or>
     (\<exists>cfg. relayer_config (fr_crypto F) e = Some cfg \<and> fs_cors r = Some (or_empty (rq_origin rq)) \<and>
        or_empty (rq_origin rq) \<in> set (cfg_allowed_origins cfg) \<and> starts_with ''/v1/'' (rq_path rq)))"
proof (cases "relayer_config (fr_crypto F) e = None \<or> fr_control F = None")
  case True
  then show ?thesis by (auto simp: handle_def front_error_def front_json_def split: option.split)
next
  case False
  then obtain cfg control where c: "relayer_config (fr_crypto F) e = Some cfg" "fr_control F = Some control" by auto
  show ?thesis
    using internal_yields [OF assms c(2)] public_yields [OF assms c(2)] c
    by (fastforce simp: handle_def yields_def front_error_def front_json_def)
qed

theorem front_always_answers_witness:
  "\<exists>r t. handle sample_front_desk sample_relayer_env
      \<lparr>rq_path = ''/v1/accounts'', rq_method = ''POST'', rq_origin = Some ''https://app.example'', rq_content_type = None,
       rq_authorization = None, rq_client_ip = None, rq_text = []\<rparr> () = (Inr r, t) \<and>
    (fs_cors r = None \<or>
     (\<exists>cfg. relayer_config (fr_crypto sample_front_desk) sample_relayer_env = Some cfg \<and> fs_cors r = Some ''https://app.example'' \<and>
        ''https://app.example'' \<in> set (cfg_allowed_origins cfg) \<and> starts_with ''/v1/'' ''/v1/accounts''))"
  using front_always_answers [of sample_front_desk sample_relayer_env
      "\<lparr>rq_path = ''/v1/accounts'', rq_method = ''POST'', rq_origin = Some ''https://app.example'', rq_content_type = None,
        rq_authorization = None, rq_client_ip = None, rq_text = []\<rparr>" "()"]
  by (simp add: answering_def sample_front_desk_def or_empty_def yields_ret)

end
