(* ===== verification/RelayLaws.thy ===== *)
theory RelayLaws
  imports RelayWorld
begin

text \<open>
  What the relayer promises over any run of requests and alarms, whatever other requests do while one of
  them waits.
\<close>

section \<open>Runs\<close>

inductive relayer_run :: "'w runtime \<Rightarrow> env \<Rightarrow> bool \<Rightarrow> 'w relayer_state \<Rightarrow> 'w relayer_state \<Rightarrow> bool" for R e purge s where
  relayer_start: "relayer_run R e purge s s"
| relayer_request: "relayer_run R e purge s t \<Longrightarrow> relayer_run R e purge s (snd (control_fetch R e path body t))"
| relayer_alarm: "purge \<Longrightarrow> relayer_run R e purge s t \<Longrightarrow> relayer_run R e purge s (snd (control_alarm R e t))"

text \<open>The transactions a state holds, as the ghost state a run starts with.\<close>

definition begin_at :: "'w relayer_state \<Rightarrow> 'w ghost" where
  "begin_at s = (set (rs_tx s), s)"

definition relays_named :: "'w runtime \<Rightarrow> relayer_settings \<Rightarrow> 'w relayer_state \<Rightarrow> bool" where
  "relays_named R cfg s = (\<forall>i r. tget i (rs_purchase s) = Some r \<longrightarrow> named_by_hash (rt_crypto R) (rt_codec R) cfg i r)"

lemma begin_sane: "relays_named R cfg s \<Longrightarrow> sane (rt_crypto R) (rt_codec R) cfg (begin_at s)"
  by (auto simp: sane_def tx_known_def all_named_def relays_named_def begin_at_def intro: same_tx_refl)

lemma relayer_run_steps:
  assumes R: "quiet_relayer R cfg purge" and e: "relayer_config (rt_crypto R) e = Some cfg" and s: "relays_named R cfg s"
    and run: "relayer_run R e purge s t"
  shows "reached (rt_crypto R) (rt_codec R) cfg purge (begin_at s) t"
  using run
proof induction
  case relayer_start
  then show ?case by (simp add: begin_at_def)
next
  case (relayer_request t path body)
  then show ?case
    using keepsD [OF relay_only_keeps [OF quiet_relayer.control_fetch [OF R e] begin_sane [OF s]]] by blast
next
  case (relayer_alarm t)
  then show ?case
    using keepsD [OF relay_only_keeps [OF quiet_relayer.control_alarm [OF R] begin_sane [OF s]]] e by blast
qed

lemma run_path:
  assumes "quiet_relayer R cfg purge" "relayer_config (rt_crypto R) e = Some cfg" "relays_named R cfg s" "relayer_run R e purge s t"
  obtains A where "relay_reach (rt_crypto R) (rt_codec R) cfg purge (begin_at s) (A, t)"
  using relayer_run_steps [OF assms] unfolding reached_def by blast

text \<open>The concrete run: a request for an account, then an alarm.\<close>

definition sample_body :: "json option" where
  "sample_body = Some (JObj [(''identityHash'', JStr (replicate 64 CHR ''0'')), (''accountId'', JStr (replicate 64 CHR ''1''))])"

definition sample_run_end :: "bool \<Rightarrow> int relayer_state" where
  "sample_run_end purge =
     (let t = snd (control_fetch (relay_service relay_sample) sample_relayer_env ''/account'' sample_body sample_store)
      in if purge then snd (control_alarm (relay_service relay_sample) sample_relayer_env t) else t)"

lemma sample_relayer_run: "relayer_run (relay_service relay_sample) sample_relayer_env purge sample_store (sample_run_end purge)"
  by (auto simp: sample_run_end_def Let_def intro: relayer_alarm relayer_request relayer_start)

lemma relay_service_simps [simp]:
  "rt_crypto (relay_service W) = rw_crypto W" "rt_codec (relay_service W) = rw_codec W"
  by (simp_all add: relay_service_def)

lemma relay_sample_simps [simp]: "rw_crypto relay_sample = open_crypto" "rw_codec relay_sample = sample_codec"
  by (simp_all add: relay_sample_def)

lemma sample_relays_named: "relays_named (relay_service relay_sample) cfg sample_store"
  by (auto simp: relays_named_def sample_named sample_store_def tget_def sample_relay_id_def sample_relay_def split: if_splits)

lemma sample_config: "relayer_config (rt_crypto (relay_service relay_sample)) sample_relayer_env = Some sample_settings"
  by simp

lemmas sample_relayer = relay_world.quiet_relayer_axioms [of relay_sample sample_settings] sample_config
  sample_relays_named sample_relayer_run

text \<open>
  C2 (refinement) Whatever the relayer does over any run of requests and alarms, with any interleaving at its waits,
  is a sequence of the steps of \<open>relay_step\<close>: the abstract store of nonces, transactions, accounts,
  invites, relays, devices and counters, in which every change has its guard.
\<close>

theorem relayer_refines_steps:
  assumes "quiet_relayer R cfg purge" and "relayer_config (rt_crypto R) e = Some cfg" and "relays_named R cfg s"
    and "relayer_run R e purge s t"
  shows "reached (rt_crypto R) (rt_codec R) cfg purge (begin_at s) t"
  using relayer_run_steps [OF assms] .

theorem relayer_refines_steps_witness:
  "reached open_crypto sample_codec sample_settings True (begin_at sample_store) (sample_run_end True)"
  using relayer_refines_steps [OF sample_relayer] by simp

section \<open>Nonces\<close>







lemma steps_counters_ok: "relay_reach C K cfg purge x y \<Longrightarrow> counters_ok cfg x \<Longrightarrow> counters_ok cfg y"
  by (rule steps_invariant [where I = "counters_ok cfg"], rule step_counters_ok)




text \<open>Every stored transaction was already stored.\<close>

definition no_new_tx :: "'w relayer_state \<Rightarrow> 'w relayer_state \<Rightarrow> bool" where
  "no_new_tx s t = (\<forall>k r. (k, r) \<in> set (rs_tx t) \<longrightarrow> (\<exists>r0. (k, r0) \<in> set (rs_tx s) \<and> same_tx r0 r))"

text \<open>
  While mutations are disabled no run reserves a nonce or stores a transaction that was not stored before.
\<close>

theorem disabled_relayer_sends_nothing_new:
  assumes "quiet_relayer R cfg purge" and "relayer_config (rt_crypto R) e = Some cfg" and "relays_named R cfg s"
    and "relayer_run R e purge s t" and "\<not> cfg_mutations_enabled cfg"
  shows "rs_last_nonce t = rs_last_nonce s \<and> no_new_tx s t"
proof -
  obtain A where A: "relay_reach (rt_crypto R) (rt_codec R) cfg purge (begin_at s) (A, t)" by (rule run_path [OF assms(1-4)])
  have "fst (A, t) = fst (begin_at s) \<and> rs_last_nonce (snd (A, t)) = rs_last_nonce (snd (begin_at s))"
    by (rule steps_invariant [where I = "\<lambda>y. fst y = fst (begin_at s) \<and> rs_last_nonce (snd y) = rs_last_nonce (snd (begin_at s))", OF _ A])
      (auto dest: step_no_mutations [OF _ assms(5)])
  moreover have "tx_known (A, t)" using steps_sane [OF A begin_sane [OF assms(3)]] by (simp add: sane_def)
  ultimately show ?thesis by (auto simp: begin_at_def tx_known_def no_new_tx_def)
qed

definition paused_env :: env where
  "paused_env = sample_relayer_env\<lparr>RELAYER_MUTATIONS_ENABLED := None\<rparr>"

definition paused_settings :: relayer_settings where
  "paused_settings = the (relayer_config open_crypto paused_env)"

lemma paused_settings: "relayer_config open_crypto paused_env = Some paused_settings" "\<not> cfg_mutations_enabled paused_settings"
proof -
  have "values_ok paused_env" using sample_values_ok by (simp add: paused_env_def values_ok_def required_numbers_def)
  then show "relayer_config open_crypto paused_env = Some paused_settings" "\<not> cfg_mutations_enabled paused_settings"
    by (simp_all add: paused_settings_def relayer_config_def paused_env_def sample_relayer_env_def network_of_env_def)
qed

theorem disabled_relayer_sends_nothing_new_witness:
  "rs_last_nonce (snd (control_fetch (relay_service relay_sample) paused_env ''/account'' sample_body sample_store)) = 7 \<and>
   no_new_tx sample_store (snd (control_fetch (relay_service relay_sample) paused_env ''/account'' sample_body sample_store))"
  using disabled_relayer_sends_nothing_new [OF relay_world.quiet_relayer_axioms [of relay_sample paused_settings False] _
      sample_relays_named relayer_request [OF relayer_start] paused_settings(2)] paused_settings(1)
  by (simp add: sample_store_def)

section \<open>Limits\<close>

text \<open>Every daily counter is within the limit the settings put on it.\<close>

definition within_limits :: "relayer_settings \<Rightarrow> 'w relayer_state \<Rightarrow> bool" where
  "within_limits cfg s = (\<forall>day c n. tget (day, c) (rs_count s) = Some n \<longrightarrow> n \<le> counter_limit cfg c)"

text \<open>
  C10 (bounds) Over any run no daily counter passes its limit, neither the relayer's own nor that of an identity or a
  ticket, and no counter is ever given back.
\<close>

theorem counters_within_limits:
  assumes "quiet_relayer R cfg purge" and "relayer_config (rt_crypto R) e = Some cfg" and "relays_named R cfg s"
    and "relayer_run R e purge s t" and "within_limits cfg s"
  shows "within_limits cfg t \<and> count_of k s \<le> count_of k t"
proof -
  obtain A where A: "relay_reach (rt_crypto R) (rt_codec R) cfg purge (begin_at s) (A, t)" by (rule run_path [OF assms(1-4)])
  have "counters_ok cfg (begin_at s)" using assms(5) by (simp add: within_limits_def counters_ok_def begin_at_def)
  then have "counters_ok cfg (A, t)" by (rule steps_counters_ok [OF A])
  moreover have "count_of k (snd (begin_at s)) \<le> count_of k (snd (A, t))"
    by (rule steps_invariant [where I = "\<lambda>y. count_of k (snd (begin_at s)) \<le> count_of k (snd y)", OF _ A])
      (auto dest: step_count [where k = k])
  ultimately show ?thesis by (simp add: within_limits_def counters_ok_def begin_at_def)
qed

theorem counters_within_limits_witness:
  "within_limits sample_settings (sample_run_end True) \<and>
     count_of (''1970-01-01'', ''accounts'') sample_store \<le> count_of (''1970-01-01'', ''accounts'') (sample_run_end True)"
  by (rule counters_within_limits [OF sample_relayer])
    (simp add: within_limits_def sample_store_def tget_def counter_limit_def limit_of_def dec_val_def digit_val_def chr_code_def split: if_splits)

section \<open>What is promised to an identity\<close>

lemma steps_ckd_done:
  assumes "relay_reach C K cfg purge x y" and "tget n (rs_ckd_done (snd x)) \<noteq> None"
  shows "tget n (rs_ckd_done (snd y)) \<noteq> None"
  by (rule steps_invariant [where I = "\<lambda>y. tget n (rs_ckd_done (snd y)) \<noteq> None", OF _ assms]) (rule step_ckd_done)

text \<open>
  Over any run an identity keeps the account it was given and never becomes unready, a key request
  once answered stays marked as answered, and an invite keeps its amount and its expiry.
\<close>

theorem promises_kept:
  assumes "quiet_relayer R cfg purge" and "relayer_config (rt_crypto R) e = Some cfg" and "relays_named R cfg s"
    and "relayer_run R e purge s t"
    and "tget i (rs_identity s) = Some r" and "tget n (rs_ckd_done s) \<noteq> None" and "tget j (rs_invite s) = Some v"
  shows "(\<exists>r'. tget i (rs_identity t) = Some r' \<and> same_identity r r') \<and> tget n (rs_ckd_done t) \<noteq> None \<and>
    (\<exists>v'. tget j (rs_invite t) = Some v' \<and> same_invite v v')"
proof -
  obtain A where A: "relay_reach (rt_crypto R) (rt_codec R) cfg purge (begin_at s) (A, t)" by (rule run_path [OF assms(1-4)])
  show ?thesis
    using steps_identity [OF A, of i r] steps_ckd_done [OF A, of n] steps_invite [OF A, of j v] assms(5-7)
    by (simp add: begin_at_def)
qed

theorem promises_kept_witness:
  "(\<exists>r'. tget ''identity-1'' (rs_identity (sample_run_end True)) = Some r' \<and>
      same_identity \<lparr>ir_account = ''alice.testnet'', ir_ready = True, ir_created_at = 1000\<rparr> r') \<and>
   tget ''ckd-1'' (rs_ckd_done (sample_run_end True)) \<noteq> None \<and>
   (\<exists>v'. tget ''invite-1'' (rs_invite (sample_run_end True)) = Some v' \<and>
      same_invite \<lparr>iv_amount_micro = ''5'', iv_created_at = 1000, iv_expires_at = 9000, iv_state = Open,
                   iv_identity = None, iv_account = None\<rparr> v')"
  by (rule promises_kept [OF sample_relayer]) (simp_all add: sample_store_def tget_def)

section \<open>Relays and device links\<close>

text \<open>
  Every relay is named by the hash of its delegate action; one that is relayed carries a signature of its own
  key over that hash.
\<close>

definition relays_signed :: "'w runtime \<Rightarrow> relayer_settings \<Rightarrow> 'w relayer_state \<Rightarrow> bool" where
  "relays_signed R cfg s = relays_ok (rt_crypto R) (rt_codec R) cfg (begin_at s)"

lemma relays_ok_store: "relays_ok C K cfg (A, s) \<longleftrightarrow> relays_ok C K cfg (B, s)"
  by (simp add: relays_ok_def)

lemma steps_relays_ok:
  assumes "hash_names_key C K cfg" and "relay_reach C K cfg purge x y" and "relays_ok C K cfg x"
  shows "relays_ok C K cfg y"
  by (rule steps_invariant [where I = "relays_ok C K cfg", OF step_relays_ok [OF assms(1)] assms(2,3)])

text \<open>
  C4 (safety) Over any run every purchase or upload that reaches \<open>relaying\<close> or \<open>submitted\<close> carries an MPC signature
  that verifies under the user's own key over the hash of the delegate action that names it, provided that the
  hash tells the keys of two delegate actions apart.
\<close>

theorem relayed_only_when_signed:
  assumes "quiet_relayer R cfg purge" and "relayer_config (rt_crypto R) e = Some cfg" and "relays_named R cfg s"
    and "relayer_run R e purge s t" and "hash_names_key (rt_crypto R) (rt_codec R) cfg" and "relays_signed R cfg s"
  shows "relays_signed R cfg t"
proof -
  obtain A where A: "relay_reach (rt_crypto R) (rt_codec R) cfg purge (begin_at s) (A, t)" by (rule run_path [OF assms(1-4)])
  show ?thesis using steps_relays_ok [OF assms(5) A] assms(6) relays_ok_store unfolding relays_signed_def begin_at_def by blast
qed

lemma hex_chr_inject: "m < 16 \<Longrightarrow> n < 16 \<Longrightarrow> hex_chr m = hex_chr n \<longleftrightarrow> m = n"
  unfolding hex_chr_def by (rule nth_eq_iff_index_eq) simp_all

lemma hex_byte_inject: "hex_byte a = hex_byte b \<longleftrightarrow> a = b"
proof
  assume "hex_byte a = hex_byte b"
  moreover have "unat (x :: 8 word) div 16 < 16" for x using unsigned_less [where 'a = nat, of x] by simp
  ultimately have "unat a div 16 = unat b div 16" "unat a mod 16 = unat b mod 16" by (simp_all add: hex_byte_def hex_chr_inject)
  then have "unat a = unat b" by (metis div_mult_mod_eq)
  then show "a = b" by (simp add: word_unat_eq_iff)
qed simp

lemma hex_of_inject: "hex_of a = hex_of b \<longleftrightarrow> a = b"
proof (induction a arbitrary: b)
  case Nil
  then show ?case by (cases b) (auto simp: hex_of_def hex_byte_def)
next
  case (Cons x xs)
  then show ?case using hex_byte_inject by (cases b) (auto simp: hex_of_def hex_byte_def)
qed

lemma sample_hash_names_key: "hash_names_key open_crypto sample_codec cfg"
  by (simp add: hash_names_key_def sample_named hex_of_inject key_bytes_def inj_map_eq_map [OF byte_of_chr_inj])

lemma sample_mpc_signed: "mpc_signed open_crypto sample_relay_id sample_key (sample_bytes 64)"
  by (auto simp: mpc_signed_def sha256_hex_def sample_relay_id_def)

lemma sample_relays_signed: "relays_signed (relay_service relay_sample) cfg sample_store"
  using sample_mpc_signed
  by (auto simp: relays_signed_def relays_ok_def begin_at_def sample_named sample_store_def sample_relay_def
      sample_signature_def tget_def sample_relay_id_def split: if_splits)

theorem relayed_only_when_signed_witness: "relays_signed (relay_service relay_sample) sample_settings (sample_run_end True)"
  by (rule relayed_only_when_signed [OF sample_relayer]) (simp_all add: sample_hash_names_key sample_relays_signed)

lemma steps_finished:
  assumes "relay_reach C K cfg False x y" and "tget i (rs_purchase (snd x)) = Some r" and "finished r" and "kept_relay r"
  shows "tget i (rs_purchase (snd y)) = Some r"
  by (rule steps_invariant [where I = "\<lambda>y. tget i (rs_purchase (snd y)) = Some r", OF _ assms(1,2)])
    (rule step_relay [OF _ _ assms(3,4)])

lemma steps_device:
  assumes "relay_reach C K cfg False x y" and "tget i (rs_device (snd x)) = Some d" and "dr_state d \<noteq> DSubmitting"
  shows "tget i (rs_device (snd y)) = Some d"
  by (rule steps_invariant [where I = "\<lambda>y. tget i (rs_device (snd y)) = Some d", OF _ assms(1,2)])
    (use step_device assms(3) in blast)

text \<open>
  Requests never change a relay that was submitted or failed for good, nor a device link that is
  decided: between two alarms, which remove old records, every answer about them stays the same.
\<close>

theorem decided_records_stay:
  assumes "quiet_relayer R cfg False" and "relayer_config (rt_crypto R) e = Some cfg" and "relays_named R cfg s"
    and "relayer_run R e False s t"
    and "tget i (rs_purchase s) = Some r" and "finished r" and "kept_relay r"
    and "tget j (rs_device s) = Some d" and "dr_state d \<noteq> DSubmitting"
  shows "tget i (rs_purchase t) = Some r \<and> tget j (rs_device t) = Some d"
proof -
  obtain A where A: "relay_reach (rt_crypto R) (rt_codec R) cfg False (begin_at s) (A, t)" by (rule run_path [OF assms(1-4)])
  show ?thesis using steps_finished [OF A _ assms(6,7)] steps_device [OF A _ assms(9)] assms(5,8) by (simp add: begin_at_def)
qed

theorem decided_records_stay_witness:
  "tget sample_relay_id (rs_purchase (sample_run_end False)) = Some sample_relay \<and>
   tget ''link-1'' (rs_device (sample_run_end False)) = Some sample_device"
  by (rule decided_records_stay [OF sample_relayer])
    (simp_all add: sample_store_def tget_def finished_def kept_relay_def sample_relay_def sample_device_def)

section \<open>The recursion of \<open>advancePurchase\<close>\<close>

lemma advance_finished:
  assumes "tget i (rs_purchase s) = Some r" and "finished r"
  shows "advance_step a R cfg i expect s = advance_step b R cfg i expect s"
  using assms by (auto simp: advance_step_def get_purchase_def finished_def Let_def)

lemma keep_signature_finished:
  assumes "keep_signature R i sig s = (Inr (Some r), t)" and "pr_state r \<noteq> Relaying"
  shows "tget i (rs_purchase t) = Some r \<and> finished r"
  using assms
  by (cases "pr_state r")
    (auto simp: keep_signature_def finished_def atomically_def get_purchase_def now_ms_def put_purchase_def del_tx_def Let_def
      split: option.splits if_splits)

lemma keep_then_again:
  assumes "\<And>s r. tget i (rs_purchase s) = Some r \<Longrightarrow> finished r \<Longrightarrow> a s = b s"
  shows "bnd (keep_signature R i sig) (\<lambda>kept. case kept of None \<Rightarrow> n | Some r \<Rightarrow> if pr_state r \<noteq> Relaying then a else f r) =
         bnd (keep_signature R i sig) (\<lambda>kept. case kept of None \<Rightarrow> n | Some r \<Rightarrow> if pr_state r \<noteq> Relaying then b else f r)"
proof
  fix s
  obtain r t where k: "keep_signature R i sig s = (r, t)" by fastforce
  show "bnd (keep_signature R i sig) (\<lambda>kept. case kept of None \<Rightarrow> n | Some r \<Rightarrow> if pr_state r \<noteq> Relaying then a else f r) s =
        bnd (keep_signature R i sig) (\<lambda>kept. case kept of None \<Rightarrow> n | Some r \<Rightarrow> if pr_state r \<noteq> Relaying then b else f r) s"
    using k keep_signature_finished [of R i sig s _ t] assms by (cases r) (auto split: option.split)
qed

lemma advance_step_again:
  assumes "\<And>s r. tget i (rs_purchase s) = Some r \<Longrightarrow> finished r \<Longrightarrow> a s = b s"
  shows "advance_step a R cfg i expect = advance_step b R cfg i expect"
  by (simp only: advance_step_def keep_then_again [of i a b, OF assms])

text \<open>
  C22 (termination) \<open>advancePurchase\<close> calls itself at most once: with two units of fuel it satisfies the recursion of
  the code, and more fuel never changes what it does.
\<close>

theorem advance_purchase_terminates:
  "advance_purchase 2 R cfg i expect = advance_step (advance_purchase 2 R cfg i expect) R cfg i expect \<and>
   advance_purchase (Suc (Suc n)) R cfg i expect = advance_purchase 2 R cfg i expect"
proof -
  have fixed: "advance_step (advance_step a R cfg i expect) R cfg i expect = advance_step (advance_step b R cfg i expect) R cfg i expect" for a b
    by (rule advance_step_again) (rule advance_finished)
  then show ?thesis by (simp add: numeral_2_eq_2)
qed

end
