(* ===== verification/PayMarket.thy ===== *)
theory PayMarket
  imports NearRpc Coerce
begin

text \<open>
  \<open>workers/payment-service/src/market.ts\<close>: final-state reads from Market V2, and the price of a
  publication that can be bought.
\<close>

type_synonym 's view = "string \<Rightarrow> string \<Rightarrow> json \<Rightarrow> ('s, json) act"

text \<open>\<open>btoa(text)\<close> throws for a character above U+00FF.\<close>

definition btoa_text :: "string \<Rightarrow> string option" where
  "btoa_text s =
     (if list_all (\<lambda>p. p < 256) (code_points s) then Some (btoa (map of_nat (code_points s))) else None)"

definition view_request :: "string \<Rightarrow> string \<Rightarrow> string \<Rightarrow> string" where
  "view_request contract method args_base64 =
     json_text (JObj [(''jsonrpc'', JStr ''2.0''), (''id'', JStr ''payment-service''), (''method'', JStr ''query''),
       (''params'', JObj [(''request_type'', JStr ''call_function''), (''finality'', JStr ''final''),
          (''account_id'', JStr contract), (''method_name'', JStr method), (''args_base64'', JStr args_base64)])])"

definition view_reply :: "json option \<Rightarrow> string + json" where
  "view_reply body =
     (case Option.bind (Option.bind body (obj_get ''result'')) (obj_get ''result'') of
        Some (JArr vs) \<Rightarrow>
          (if truthy (Option.bind body (obj_get ''error'')) \<or> length vs > 64 * 1024 then Inl ''rpc_unavailable''
           else parse_json (decode_text (map to_uint8 vs)))
      | _ \<Rightarrow> Inl ''rpc_unavailable'')"

definition rpc_view :: "string \<Rightarrow> 's fetcher \<Rightarrow> 's view" where
  "rpc_view url fetcher contract method args =
     (case btoa_text (json_text args) of None \<Rightarrow> throw ''rpc_unavailable''
      | Some args_base64 \<Rightarrow>
          bnd (attempt (fetcher url (view_request contract method args_base64))) (\<lambda>r.
            case r of Inl _ \<Rightarrow> throw ''rpc_unavailable''
            | Inr (ok, body) \<Rightarrow>
                if ok \<and> body = None then throw ''rpc_unavailable''
                else lifting (view_reply (if ok then body else None))))"

definition purchasable_price :: "string \<Rightarrow> json \<Rightarrow> string + int" where
  "purchasable_price publication_id publication =
     (if obj_get ''publication_id'' publication \<noteq> Some (JStr publication_id) then Inl ''publication_not_found''
      else if obj_get ''availability'' publication \<noteq> Some (JStr ''ACTIVE'') then Inl ''publication_not_available''
      else if \<not> has_str ''price_usdc'' publication \<or> \<not> decimal1 30 (str_of ''price_usdc'' publication) then Inl ''rpc_unavailable''
      else Inr (int (dec_val (str_of ''price_usdc'' publication))))"

definition read_purchasable_publication :: "'s view \<Rightarrow> string \<Rightarrow> string \<Rightarrow> ('s, int) act" where
  "read_purchasable_publication view contract publication_id =
     bnd (view contract ''get_publication'' (JObj [(''publication_id'', JStr publication_id)])) (\<lambda>publication.
     lifting (purchasable_price publication_id publication))"

end
