(* ===== verification/CardBook.thy ===== *)
theory CardBook
  imports PayMarket
begin

text \<open>
  The card path's order book (\<open>workers/payment-service/migrations\<close>) and
  \<open>src/card-events.ts\<close>, which applies authenticated provider events to it. A table is its rows
  under the primary key. Every SQL statement is one step; before each of them the statements of
  other requests may run (\<open>pr_db\<close>), and the database may fail.
\<close>

section \<open>Rows\<close>

datatype order_status = OCreated | OAwaiting | OPaid | OIssued | OVoidPending | OVoided | OCancelled

fun status_text :: "order_status \<Rightarrow> string" where
  "status_text OCreated = ''created''"
| "status_text OAwaiting = ''awaiting_payment''"
| "status_text OPaid = ''paid''"
| "status_text OIssued = ''issued''"
| "status_text OVoidPending = ''void_pending''"
| "status_text OVoided = ''voided''"
| "status_text OCancelled = ''cancelled''"

datatype void_reason = VRefund | VChargeback

record device_binding =
  db_session_public_key :: string
  db_certificate_sha256 :: string
  db_expires_at_ms :: int
  db_signature :: string

text \<open>The four device columns are null together until the ticket key signs, and are written together.\<close>

record card_order =
  co_provider :: string
  co_provider_order_id :: string
  co_reference_hmac :: string
  co_publication_id :: string
  co_creator_id :: string
  co_ticket_id :: string
  co_ticket_public_key :: string
  co_consent_version :: "string option"
  co_gross_minor :: int
  co_currency :: string
  co_device :: "device_binding option"
  co_status :: order_status
  co_void_reason :: "void_reason option"
  co_pending_tx :: "string option"
  co_issue_tx :: "string option"
  co_void_tx :: "string option"
  co_attempts :: nat
  co_last_error :: "string option"
  co_created_at :: int
  co_updated_at :: int
  co_paid_at :: "int option"

datatype event_kind = EPurchase | ERefund | EChargebackOpened | EChargebackLost | EChargebackWon

datatype event_outcome = Applied | Recorded | Duplicate | UnknownOrder | AmountMismatch | OrderNotOpen | AlreadyClosed

record card_event =
  ce_event_id :: string
  ce_kind :: event_kind
  ce_order_id :: string
  ce_amount_minor :: int
  ce_currency :: string
  ce_occurred_at :: int

record event_row =
  ev_kind :: event_kind
  ev_order :: "string option"
  ev_outcome :: event_outcome
  ev_received_at :: int

datatype ledger_kind = LSale | LRefund | LChargeback

record ledger_row =
  lg_order :: string
  lg_kind :: ledger_kind
  lg_amount_minor :: int
  lg_currency :: string
  lg_publication_id :: string
  lg_creator_id :: string
  lg_occurred_at :: int

record refund_row =
  rr_ticket_id :: string
  rr_publication_id :: string
  rr_refund_to :: string
  rr_expires_at_ms :: int
  rr_signature :: string
  rr_reason :: string
  rr_status :: string
  rr_created_at :: int
  rr_decided_at :: "int option"
  rr_decision_note :: "string option"
  rr_tx_hash :: "string option"

section \<open>The database and what is outside\<close>

text \<open>\<open>py_key_check\<close>: the VAT key the Market last confirmed, and when (\<open>keyCheck\<close> of \<open>index.ts\<close>).\<close>

record 'w pay_state =
  py_orders :: "(string, card_order) table"
  py_events :: "(string \<times> string, event_row) table"
  py_ledger :: "(string \<times> string, ledger_row) table"
  py_refunds :: "(string, refund_row) table"
  py_key_check :: "(string \<times> int) option"
  py_outside :: 'w

type_synonym ('w, 'a) pact = "('w pay_state, 'a) act"

record 'w pay_runtime =
  pr_crypto :: crypto
  pr_view :: "'w pay_state view"
  pr_now :: "'w pay_state \<Rightarrow> int"
  pr_db :: "('w, unit) pact"
  pr_random :: "('w, bytes) pact"

text \<open>One statement, after the wait for the database.\<close>

definition stmt :: "'w pay_runtime \<Rightarrow> ('w, 'a) pact \<Rightarrow> ('w, 'a) pact" where
  "stmt P m = bnd (pr_db P) (\<lambda>_. m)"

text \<open>
  \<open>UPDATE card_orders SET ... WHERE order_id = ? AND ...\<close>: changes the row when it satisfies the
  condition, and says whether it did (\<open>meta.changes\<close>).
\<close>

definition update_order ::
  "'w pay_runtime \<Rightarrow> string \<Rightarrow> (card_order \<Rightarrow> bool) \<Rightarrow> (card_order \<Rightarrow> card_order) \<Rightarrow> ('w, bool) pact" where
  "update_order P i cond f =
     stmt P (bnd (reading (\<lambda>s. tget i (py_orders s))) (\<lambda>row.
       case row of None \<Rightarrow> ret False
       | Some r \<Rightarrow>
           if cond r then bnd (writing (\<lambda>s. s\<lparr>py_orders := tput i (f r) (py_orders s)\<rparr>)) (\<lambda>_. ret True)
           else ret False))"

definition select_order :: "'w pay_runtime \<Rightarrow> string \<Rightarrow> ('w, card_order option) pact" where
  "select_order P i = stmt P (reading (\<lambda>s. tget i (py_orders s)))"

text \<open>The first row that satisfies a condition, with its key.\<close>

definition find_row :: "('k \<Rightarrow> 'v \<Rightarrow> bool) \<Rightarrow> ('k, 'v) table \<Rightarrow> ('k \<times> 'v) option" where
  "find_row p t = find (\<lambda>(k, v). p k v) t"

section \<open>Events\<close>

definition valid_card_event :: "card_event \<Rightarrow> bool" where
  "valid_card_event e =
     (ident128 (ce_event_id e) \<and> ident128 (ce_order_id e) \<and> safe_integer (ce_amount_minor e) \<and> 0 < ce_amount_minor e
      \<and> repeated is_upper 3 3 (ce_currency e) \<and> safe_integer (ce_occurred_at e) \<and> 0 < ce_occurred_at e)"

definition transition ::
  "'w pay_runtime \<Rightarrow> string \<Rightarrow> order_status list \<Rightarrow> (card_order \<Rightarrow> card_order) \<Rightarrow> bool \<Rightarrow> int \<Rightarrow> ('w, bool) pact" where
  "transition P i from f no_pending now_ms =
     update_order P i (\<lambda>r. co_status r \<in> set from \<and> (no_pending \<longrightarrow> co_pending_tx r = None))
       (\<lambda>r. (f r)\<lparr>co_updated_at := now_ms\<rparr>)"

text \<open>\<open>INSERT OR IGNORE\<close>: the first row of an event stays.\<close>

definition insert_ledger :: "'w pay_runtime \<Rightarrow> string \<Rightarrow> card_event \<Rightarrow> string \<Rightarrow> card_order \<Rightarrow> ledger_kind \<Rightarrow> ('w, unit) pact" where
  "insert_ledger P provider e i order kind =
     stmt P (writing (\<lambda>s.
       if tget (provider, ce_event_id e) (py_ledger s) \<noteq> None then s
       else s\<lparr>py_ledger := tput (provider, ce_event_id e)
                \<lparr>lg_order = i, lg_kind = kind, lg_amount_minor = (if kind = LSale then ce_amount_minor e else - ce_amount_minor e),
                 lg_currency = ce_currency e, lg_publication_id = co_publication_id order, lg_creator_id = co_creator_id order,
                 lg_occurred_at = ce_occurred_at e\<rparr> (py_ledger s)\<rparr>))"

definition insert_event ::
  "'w pay_runtime \<Rightarrow> string \<Rightarrow> card_event \<Rightarrow> string option \<Rightarrow> event_outcome \<Rightarrow> int \<Rightarrow> ('w, unit) pact" where
  "insert_event P provider e i outcome now_ms =
     stmt P (writing (\<lambda>s.
       if tget (provider, ce_event_id e) (py_events s) \<noteq> None then s
       else s\<lparr>py_events := tput (provider, ce_event_id e)
                \<lparr>ev_kind = ce_kind e, ev_order = i, ev_outcome = outcome, ev_received_at = now_ms\<rparr> (py_events s)\<rparr>))"

text \<open>Refund or lost chargeback: before any send the order is cancelled, after one the ticket must be voided.\<close>

definition close_order :: "'w pay_runtime \<Rightarrow> string \<Rightarrow> card_order \<Rightarrow> void_reason \<Rightarrow> int \<Rightarrow> ('w, bool) pact" where
  "close_order P i order reason now_ms =
     bnd (if co_status order = OCreated \<or> co_status order = OAwaiting \<or> (co_status order = OPaid \<and> co_pending_tx order = None)
          then transition P i [co_status order] (\<lambda>r. r\<lparr>co_status := OCancelled, co_void_reason := Some reason\<rparr>) True now_ms
          else ret False) (\<lambda>cancelled.
       if cancelled then ret True
       else transition P i [OPaid, OIssued]
              (\<lambda>r. r\<lparr>co_status := OVoidPending, co_void_reason := Some reason, co_attempts := 0, co_last_error := None\<rparr>) False now_ms)"

definition reason_of :: "event_kind \<Rightarrow> void_reason" where
  "reason_of kind = (if kind = ERefund then VRefund else VChargeback)"

definition ledger_kind_of :: "event_kind \<Rightarrow> ledger_kind" where
  "ledger_kind_of kind = (if kind = ERefund then LRefund else LChargeback)"

text \<open>What an event does to the order it names.\<close>

definition apply_to_order ::
  "'w pay_runtime \<Rightarrow> string \<Rightarrow> card_event \<Rightarrow> string \<Rightarrow> card_order \<Rightarrow> int \<Rightarrow> ('w, event_outcome) pact" where
  "apply_to_order P provider e i order now_ms =
     (if ce_kind e = EPurchase then
        (if ce_amount_minor e \<noteq> co_gross_minor order \<or> ce_currency e \<noteq> co_currency order then ret AmountMismatch
         else
           bnd (insert_ledger P provider e i order LSale) (\<lambda>_.
           bnd (transition P i [OCreated, OAwaiting] (\<lambda>r. r\<lparr>co_status := OPaid, co_paid_at := Some (ce_occurred_at e)\<rparr>) False now_ms) (\<lambda>changed.
           ret (if changed then Applied else OrderNotOpen))))
      else if ce_kind e = ERefund \<or> ce_kind e = EChargebackLost then
        bnd (insert_ledger P provider e i order (ledger_kind_of (ce_kind e))) (\<lambda>_.
        bnd (close_order P i order (reason_of (ce_kind e)) now_ms) (\<lambda>closed.
        ret (if closed then Applied else AlreadyClosed)))
      else ret Recorded)"

definition apply_card_event :: "'w pay_runtime \<Rightarrow> string \<Rightarrow> card_event \<Rightarrow> int \<Rightarrow> ('w, event_outcome) pact" where
  "apply_card_event P provider e now_ms =
     bnd (require (valid_card_event e) ''invalid_event'') (\<lambda>_.
     bnd (stmt P (reading (\<lambda>s. tget (provider, ce_event_id e) (py_events s)))) (\<lambda>seen.
       if seen \<noteq> None then ret Duplicate
       else
         bnd (stmt P (reading (\<lambda>s. find_row (\<lambda>_ r. co_provider r = provider \<and> co_provider_order_id r = ce_order_id e) (py_orders s)))) (\<lambda>found.
         bnd (case found of None \<Rightarrow> ret UnknownOrder
              | Some (i, order) \<Rightarrow> apply_to_order P provider e i order now_ms) (\<lambda>outcome.
         bnd (insert_event P provider e (map_option fst found) outcome now_ms) (\<lambda>_. ret outcome)))))"

end
