(* ===== verification/CardOrders.thy ===== *)
theory CardOrders
  imports CardBook
begin

text \<open>
  \<open>workers/payment-service/src/card-orders.ts\<close>: opening a card order for one ticket key, and storing
  the key's \<open>card_purchase\<close> signature. The card provider is a parameter.
\<close>

section \<open>Fields\<close>

definition max_device_signature_ttl_ms :: int where
  "max_device_signature_ttl_ms = 60 * 60 * 1000"

definition micro_per_cent :: int where
  "micro_per_cent = 10000"

definition hex32 :: "string \<Rightarrow> bool" where
  "hex32 s = repeated is_hex_digit 32 32 s"

text \<open>\<open>/^[a-z0-9][a-z0-9.-]{0,63}$/\<close>\<close>

definition consent_version :: "string \<Rightarrow> bool" where
  "consent_version s =
     (s \<noteq> [] \<and> (is_lower (hd s) \<or> is_digit (hd s))
      \<and> repeated (\<lambda>c. is_lower c \<or> is_digit c \<or> c = CHR ''.'' \<or> c = CHR ''-'') 0 63 (tl s))"

record device_input =
  di_session_public_key :: string
  di_certificate_sha256 :: string
  di_expires_at_ms :: string
  di_signature :: string

record order_request =
  or_publication_id :: string
  or_ticket_public_key :: string
  or_consent_version :: string

fun hex_pairs :: "string \<Rightarrow> nat list" where
  "hex_pairs (a # b # r) = (the (hex_digit_val a) * 16 + the (hex_digit_val b)) # hex_pairs r"
| "hex_pairs r = []"

definition payment_reference_hmac :: "crypto \<Rightarrow> string \<Rightarrow> string \<Rightarrow> string + string" where
  "payment_reference_hmac C secret provider_order =
     (if \<not> hex64 secret then Inl ''card_reference_secret_invalid''
      else Inr (hex_of (hmac_sha256 C (map of_nat (hex_pairs secret)) (encode_text provider_order))))"

text \<open>\<open>PublicKey.from\<close> throws for a text that is no key.\<close>

definition ticket_id_of :: "crypto \<Rightarrow> string \<Rightarrow> string + string" where
  "ticket_id_of C pk =
     (case public_key_data C pk of Some d \<Rightarrow> Inr (hex_of (sha256 C d)) | None \<Rightarrow> Inl ''PublicKeyError'')"

definition gross_minor_of :: "int \<Rightarrow> string + int" where
  "gross_minor_of price =
     (if price mod micro_per_cent \<noteq> 0 then Inl ''price_not_whole_cents''
      else Inr (int (double_of_nat (nat (price div micro_per_cent)))))"

definition card_purchase_lines ::
  "string \<Rightarrow> string \<Rightarrow> string \<Rightarrow> device_input \<Rightarrow> string \<Rightarrow> string \<Rightarrow> int \<Rightarrow> string \<Rightarrow> string list" where
  "card_purchase_lines network contract ticket device publication hmac gross currency =
     [''youtick.market-v2.ticket-sig.v1'', network, contract, ''card_purchase'', ticket, di_expires_at_ms device, publication,
      di_session_public_key device, di_certificate_sha256 device, hmac, show_int gross, currency]"

definition card_purchase_message ::
  "string \<Rightarrow> string \<Rightarrow> string \<Rightarrow> device_input \<Rightarrow> string \<Rightarrow> string \<Rightarrow> int \<Rightarrow> string \<Rightarrow> string" where
  "card_purchase_message network contract ticket device publication hmac gross currency =
     join [CHR 0x0A] (card_purchase_lines network contract ticket device publication hmac gross currency)"

definition parse_order_request :: "json \<Rightarrow> string + order_request" where
  "parse_order_request body =
     (if sorted_keys body \<noteq> ''consent_version,publication_id,ticket_public_key''
         \<or> \<not> has_str ''publication_id'' body \<or> \<not> ident128 (str_of ''publication_id'' body)
         \<or> \<not> has_str ''ticket_public_key'' body \<or> \<not> ed25519_text (str_of ''ticket_public_key'' body)
         \<or> \<not> has_str ''consent_version'' body \<or> \<not> consent_version (str_of ''consent_version'' body)
      then Inl ''invalid_request''
      else Inr \<lparr>or_publication_id = str_of ''publication_id'' body, or_ticket_public_key = str_of ''ticket_public_key'' body,
                or_consent_version = str_of ''consent_version'' body\<rparr>)"

definition parse_device :: "json \<Rightarrow> string + device_input" where
  "parse_device body =
     (if sorted_keys body \<noteq> ''certificate_sha256,expires_at_ms,session_public_key,signature''
         \<or> \<not> has_str ''session_public_key'' body \<or> \<not> ed25519_text (str_of ''session_public_key'' body)
         \<or> \<not> has_str ''certificate_sha256'' body \<or> \<not> hex64 (str_of ''certificate_sha256'' body)
         \<or> \<not> has_str ''expires_at_ms'' body \<or> \<not> decimal1 15 (str_of ''expires_at_ms'' body)
         \<or> \<not> has_str ''signature'' body \<or> \<not> base64_signature (str_of ''signature'' body)
      then Inl ''invalid_request''
      else Inr \<lparr>di_session_public_key = str_of ''session_public_key'' body, di_certificate_sha256 = str_of ''certificate_sha256'' body,
                di_expires_at_ms = str_of ''expires_at_ms'' body, di_signature = str_of ''signature'' body\<rparr>)"

section \<open>The provider\<close>

type_synonym checkout = "(string \<times> json) list"

record provider_order =
  po_id :: string
  po_checkout :: "checkout option"

record order_input =
  oi_order_id :: string
  oi_publication_id :: string
  oi_gross_minor :: int
  oi_currency :: string
  oi_country :: "string option"

record webhook_request =
  wr_text :: string
  wr_signature :: "string option"
  wr_delivery_id :: "string option"

record 's card_provider =
  cp_name :: string
  cp_create_order :: "order_input \<Rightarrow> ('s, provider_order) act"
  cp_checkout_session :: "(string \<Rightarrow> string \<Rightarrow> ('s, checkout) act) option"
  cp_parse_webhook :: "webhook_request \<Rightarrow> ('s, card_event list) act"

section \<open>Opening an order\<close>

text \<open>
  The unique indexes of \<open>card_orders\<close>: the provider's order, the payment reference and the ticket,
  and the primary key.
\<close>

definition order_clashes :: "string \<Rightarrow> card_order \<Rightarrow> (string, card_order) table \<Rightarrow> bool" where
  "order_clashes i r t =
     (list_ex (\<lambda>(k, x). k = i \<or> (co_provider x = co_provider r \<and> co_provider_order_id x = co_provider_order_id r)
        \<or> co_reference_hmac x = co_reference_hmac r \<or> co_ticket_id x = co_ticket_id r) t)"

definition insert_order :: "'w pay_runtime \<Rightarrow> string \<Rightarrow> card_order \<Rightarrow> ('w, unit) pact" where
  "insert_order P i r =
     stmt P (bnd (reading (\<lambda>s. order_clashes i r (py_orders s))) (\<lambda>clash.
       if clash then throw ''ticket_key_used''
       else writing (\<lambda>s. s\<lparr>py_orders := tput i r (py_orders s)\<rparr>)))"

definition new_order ::
  "string \<Rightarrow> string \<Rightarrow> string \<Rightarrow> order_request \<Rightarrow> string \<Rightarrow> string \<Rightarrow> int \<Rightarrow> int \<Rightarrow> card_order" where
  "new_order provider provider_order hmac req creator ticket gross now_ms =
     \<lparr>co_provider = provider, co_provider_order_id = provider_order, co_reference_hmac = hmac,
      co_publication_id = or_publication_id req, co_creator_id = creator, co_ticket_id = ticket,
      co_ticket_public_key = or_ticket_public_key req, co_consent_version = Some (or_consent_version req),
      co_gross_minor = gross, co_currency = ''USD'', co_device = None, co_status = OCreated, co_void_reason = None,
      co_pending_tx = None, co_issue_tx = None, co_void_tx = None, co_attempts = 0, co_last_error = None,
      co_created_at = now_ms, co_updated_at = now_ms, co_paid_at = None\<rparr>"

definition create_card_order ::
  "'w pay_runtime \<Rightarrow> 'w pay_state card_provider \<Rightarrow> string \<Rightarrow> string \<Rightarrow> int \<Rightarrow> string option \<Rightarrow> order_request
     \<Rightarrow> ('w, (string \<times> card_order) \<times> checkout option) pact" where
  "create_card_order P provider contract secret now_ms country req =
     bnd (lifting (ticket_id_of (pr_crypto P) (or_ticket_public_key req))) (\<lambda>ticket.
     bnd (read_purchasable_publication (pr_view P) contract (or_publication_id req)) (\<lambda>price.
     bnd (pr_view P contract ''get_publication'' (JObj [(''publication_id'', JStr (or_publication_id req))])) (\<lambda>publication.
     bnd (require (has_str ''creator_id'' publication) ''rpc_unavailable'') (\<lambda>_.
     bnd (pr_view P contract ''get_ticket'' (JObj [(''ticket_id'', JStr ticket)])) (\<lambda>chain_ticket.
     bnd (require (chain_ticket = JNull) ''ticket_exists'') (\<lambda>_.
     bnd (stmt P (reading (\<lambda>s. find_row (\<lambda>_ r. co_ticket_id r = ticket) (py_orders s)))) (\<lambda>existing.
     bnd (require (existing = None) ''ticket_key_used'') (\<lambda>_.
     bnd (lifting (gross_minor_of price)) (\<lambda>gross.
     bnd (pr_random P) (\<lambda>random.
       let i = hex_of random in
     bnd (cp_create_order provider \<lparr>oi_order_id = i, oi_publication_id = or_publication_id req, oi_gross_minor = gross,
            oi_currency = ''USD'', oi_country = country\<rparr>) (\<lambda>made.
     bnd (require (ident128 (po_id made)) ''provider_unavailable'') (\<lambda>_.
     bnd (lifting (payment_reference_hmac (pr_crypto P) secret (po_id made))) (\<lambda>hmac.
       let row = new_order (cp_name provider) (po_id made) hmac req (str_of ''creator_id'' publication) ticket gross now_ms in
     bnd (insert_order P i row) (\<lambda>_. ret ((i, row), po_checkout made)))))))))))))))"

section \<open>Signing an order\<close>

definition device_expiry :: "string \<Rightarrow> int \<Rightarrow> string + int" where
  "device_expiry v now_ms =
     (let expires = js_number v
      in if expires \<le> now_ms then Inl ''signature_expired''
         else if expires - now_ms > max_device_signature_ttl_ms then Inl ''signature_expiry_too_far''
         else Inr expires)"

definition purchase_signature_ok :: "crypto \<Rightarrow> string \<Rightarrow> string \<Rightarrow> card_order \<Rightarrow> device_input \<Rightarrow> bool" where
  "purchase_signature_ok C network contract order device =
     (case atob (di_signature device) of None \<Rightarrow> False
      | Some sig \<Rightarrow> public_key_verify C (co_ticket_public_key order) sig
          (encode_text (card_purchase_message network contract (co_ticket_id order) device (co_publication_id order)
             (co_reference_hmac order) (co_gross_minor order) (co_currency order))))"

definition sign_card_order ::
  "'w pay_runtime \<Rightarrow> string \<Rightarrow> string \<Rightarrow> int \<Rightarrow> string \<Rightarrow> device_input \<Rightarrow> ('w, string \<times> card_order) pact" where
  "sign_card_order P network contract now_ms i device =
     bnd (require (hex32 i) ''card_order_not_found'') (\<lambda>_.
     bnd (select_order P i) (\<lambda>row.
     case row of None \<Rightarrow> throw ''card_order_not_found''
     | Some order \<Rightarrow>
       bnd (require (co_status order \<in> {OCreated, OAwaiting, OPaid} \<and> co_pending_tx order = None) ''card_order_closed'') (\<lambda>_.
       bnd (lifting (device_expiry (di_expires_at_ms device) now_ms)) (\<lambda>expires.
       bnd (require (purchase_signature_ok (pr_crypto P) network contract order device) ''invalid_signature'') (\<lambda>_.
         let next_status = (if co_status order = OCreated then OAwaiting else co_status order);
             binding = \<lparr>db_session_public_key = di_session_public_key device, db_certificate_sha256 = di_certificate_sha256 device,
                        db_expires_at_ms = expires, db_signature = di_signature device\<rparr>;
             f = (\<lambda>r. r\<lparr>co_device := Some binding, co_status := next_status, co_last_error := None, co_updated_at := now_ms\<rparr>) in
       bnd (update_order P i (\<lambda>r. co_status r = co_status order \<and> co_pending_tx r = None) f) (\<lambda>updated.
       bnd (require updated ''card_order_closed'') (\<lambda>_. ret (i, f order))))))))"

definition public_order_view :: "string \<Rightarrow> card_order \<Rightarrow> (string \<times> json) list" where
  "public_order_view i r =
     [(''order_id'', JStr i), (''status'', JStr (status_text (co_status r))), (''ticket_id'', JStr (co_ticket_id r)),
      (''publication_id'', JStr (co_publication_id r)), (''payment_reference_hmac'', JStr (co_reference_hmac r)),
      (''gross_minor'', JStr (show_int (co_gross_minor r))), (''currency'', JStr (co_currency r)),
      (''needs_signature'', JBool (co_status r = OCreated
          \<or> (co_status r = OPaid \<and> co_last_error r = Some ''device_signature_expired'')))]"

end
