(* ===== verification/CardRoutes.thy ===== *)
theory CardRoutes
  imports CardOrders
begin

text \<open>
  \<open>workers/payment-service/src/card-routes.ts\<close>: the public card routes, the provider's webhook and the
  operator's internal routes, over the order book.
\<close>

record pay_response =
  py_status :: nat
  py_body :: "json option"
  py_cors :: "string option"

definition pay_json :: "json \<Rightarrow> nat \<Rightarrow> string option \<Rightarrow> pay_response" where
  "pay_json v status cors = \<lparr>py_status = status, py_body = Some v, py_cors = cors\<rparr>"

definition pay_error :: "string \<Rightarrow> nat \<Rightarrow> string option \<Rightarrow> pay_response" where
  "pay_error code status cors = pay_json (JObj [(''error'', JStr code)]) status cors"

definition card_errors :: "(string \<times> nat) list" where
  "card_errors =
     [(''invalid_request'', 400), (''invalid_signature'', 400), (''signature_expired'', 400), (''signature_expiry_too_far'', 400),
      (''invalid_event'', 400), (''publication_not_found'', 404), (''card_order_not_found'', 404), (''publication_not_available'', 409),
      (''price_below_minimum'', 409), (''price_not_whole_cents'', 409), (''ticket_exists'', 409), (''ticket_key_used'', 409),
      (''card_order_closed'', 409), (''invalid_webhook'', 401), (''buyer_country_unknown'', 403), (''rpc_unavailable'', 503),
      (''provider_unavailable'', 503)]"

definition card_error :: "string \<Rightarrow> string option \<Rightarrow> pay_response" where
  "card_error code cors =
     (case map_of card_errors code of Some status \<Rightarrow> pay_error code status cors
      | None \<Rightarrow> pay_error ''internal_error'' 500 cors)"

record 'w card_context =
  cc_runtime :: "'w pay_runtime"
  cc_provider :: "'w pay_state card_provider"
  cc_network :: string
  cc_market :: string
  cc_secret :: string
  cc_now_ms :: int
  cc_country :: "string option"
  cc_wake :: "('w, unit) pact"

section \<open>Public routes\<close>

datatype card_path = OrdersPath | OrderPath string | DevicePath string | CheckoutPath string | OtherPath

text \<open>\<open>/^\/v1\/card-orders\/([0-9a-f]{32})(\/device|\/checkout)?$/\<close>\<close>

definition card_path_of :: "string \<Rightarrow> card_path" where
  "card_path_of p =
     (let i = take 32 (drop 16 p); rest = drop 48 p
      in if p = ''/v1/card-orders'' then OrdersPath
         else if starts_with ''/v1/card-orders/'' p \<and> hex32 i then
           (if rest = [] then OrderPath i else if rest = ''/device'' then DevicePath i
            else if rest = ''/checkout'' then CheckoutPath i else OtherPath)
         else OtherPath)"

definition is_card_public_path :: "string \<Rightarrow> bool" where
  "is_card_public_path p = (card_path_of p \<noteq> OtherPath)"

definition found_order :: "'w card_context \<Rightarrow> string \<Rightarrow> ('w, card_order) pact" where
  "found_order X i =
     bnd (select_order (cc_runtime X) i) (\<lambda>row.
       case row of None \<Rightarrow> throw ''card_order_not_found'' | Some order \<Rightarrow> ret order)"

definition open_order :: "'w card_context \<Rightarrow> json \<Rightarrow> string option \<Rightarrow> ('w, pay_response) pact" where
  "open_order X body cors =
     bnd (lifting (parse_order_request body)) (\<lambda>req.
     bnd (create_card_order (cc_runtime X) (cc_provider X) (cc_market X) (cc_secret X) (cc_now_ms X) (cc_country X) req) (\<lambda>((i, row), checkout).
     ret (pay_json (JObj (public_order_view i row @ (case checkout of Some c \<Rightarrow> [(''checkout'', JObj c)] | None \<Rightarrow> []))) 201 cors)))"

definition new_checkout :: "'w card_context \<Rightarrow> string \<Rightarrow> string option \<Rightarrow> ('w, pay_response) pact" where
  "new_checkout X i cors =
     bnd (found_order X i) (\<lambda>order.
     bnd (require (co_status order = OCreated \<or> co_status order = OAwaiting) ''card_order_closed'') (\<lambda>_.
     case cp_checkout_session (cc_provider X) of None \<Rightarrow> throw ''provider_unavailable''
     | Some session \<Rightarrow>
         bnd (session i (co_provider_order_id order)) (\<lambda>checkout.
         ret (pay_json (JObj (public_order_view i order @ [(''checkout'', JObj checkout)])) 200 cors))))"

definition sign_order :: "'w card_context \<Rightarrow> string \<Rightarrow> json \<Rightarrow> string option \<Rightarrow> ('w, pay_response) pact" where
  "sign_order X i body cors =
     bnd (lifting (parse_device body)) (\<lambda>device.
     bnd (sign_card_order (cc_runtime X) (cc_network X) (cc_market X) (cc_now_ms X) i device) (\<lambda>(i', order).
     bnd (if co_status order = OPaid then cc_wake X else ret ()) (\<lambda>_.
     ret (pay_json (JObj (public_order_view i' order)) 200 cors))))"

definition handle_card_public ::
  "'w card_context \<Rightarrow> string \<Rightarrow> string \<Rightarrow> json option \<Rightarrow> string option \<Rightarrow> ('w, pay_response) pact" where
  "handle_card_public X method path body cors =
     (let given = (case body of Some v \<Rightarrow> v | None \<Rightarrow> JObj []) in
      catch
        (case card_path_of path of
           OrdersPath \<Rightarrow> (if method = ''POST'' then open_order X given cors else ret (pay_error ''method_not_allowed'' 405 cors))
         | CheckoutPath i \<Rightarrow> (if method = ''POST'' then new_checkout X i cors else ret (pay_error ''method_not_allowed'' 405 cors))
         | DevicePath i \<Rightarrow> (if method = ''POST'' then sign_order X i given cors else ret (pay_error ''method_not_allowed'' 405 cors))
         | OrderPath i \<Rightarrow>
             (if method = ''GET'' then bnd (found_order X i) (\<lambda>order. ret (pay_json (JObj (public_order_view i order)) 200 cors))
              else ret (pay_error ''method_not_allowed'' 405 cors))
         | OtherPath \<Rightarrow> ret (pay_error ''method_not_allowed'' 405 cors))
        (\<lambda>code. ret (card_error code cors)))"

section \<open>Webhooks\<close>

fun apply_events :: "'w card_context \<Rightarrow> card_event list \<Rightarrow> ('w, bool) pact" where
  "apply_events X [] = ret False"
| "apply_events X (e # es) =
     bnd (apply_card_event (cc_runtime X) (cp_name (cc_provider X)) e (cc_now_ms X)) (\<lambda>outcome.
     bnd (apply_events X es) (\<lambda>more. ret (outcome = Applied \<or> more)))"

definition handle_card_webhook :: "'w card_context \<Rightarrow> webhook_request \<Rightarrow> ('w, pay_response) pact" where
  "handle_card_webhook X rq =
     bnd (attempt (cp_parse_webhook (cc_provider X) rq)) (\<lambda>r.
       case r of Inl _ \<Rightarrow> ret (card_error ''invalid_webhook'' None)
       | Inr events \<Rightarrow>
           catch
             (bnd (apply_events X events) (\<lambda>wake.
              bnd (if wake then cc_wake X else ret ()) (\<lambda>_.
              ret (pay_json (JObj [(''received'', JNum (of_nat (length events)))]) 200 None))))
             (\<lambda>code. ret (card_error code None)))"

section \<open>Internal routes\<close>

definition kind_of_text :: "string \<Rightarrow> event_kind option" where
  "kind_of_text k = map_of [(''purchase'', EPurchase), (''refund'', ERefund), (''chargeback_opened'', EChargebackOpened),
     (''chargeback_lost'', EChargebackLost), (''chargeback_won'', EChargebackWon)] k"

definition status_of_text :: "string \<Rightarrow> order_status option" where
  "status_of_text k = map_of (map (\<lambda>x. (status_text x, x))
     [OCreated, OAwaiting, OPaid, OIssued, OVoidPending, OVoided, OCancelled]) k"

text \<open>
  The event of a report. \<open>validCardEvent\<close> tests its identifiers by \<open>RegExp.test\<close>, which converts its
  argument to text.
\<close>

definition parse_report_event :: "json \<Rightarrow> string + card_event" where
  "parse_report_event body =
     (case (Option.bind (as_str (obj_get ''kind'' body)) kind_of_text, json_safe_integer (obj_get ''amount_minor'' body),
            json_safe_integer (obj_get ''occurred_at_ms'' body)) of
        (Some kind, Some amount, Some occurred) \<Rightarrow>
          (let e = \<lparr>ce_event_id = string_of (obj_get ''provider_event_id'' body), ce_kind = kind,
                    ce_order_id = string_of (obj_get ''provider_order_id'' body), ce_amount_minor = amount,
                    ce_currency = string_of (obj_get ''currency'' body), ce_occurred_at = occurred\<rparr>
           in if sorted_keys body \<noteq> ''amount_minor,currency,kind,occurred_at_ms,provider_event_id,provider_order_id''
                 \<or> \<not> valid_card_event e \<or> \<not> starts_with ''report:'' (ce_event_id e) \<or> kind = EPurchase
              then Inl ''invalid_event'' else Inr e)
      | _ \<Rightarrow> Inl ''invalid_event'')"

fun outcome_text :: "event_outcome \<Rightarrow> string" where
  "outcome_text Applied = ''applied''"
| "outcome_text Recorded = ''recorded''"
| "outcome_text Duplicate = ''duplicate''"
| "outcome_text UnknownOrder = ''unknown_order''"
| "outcome_text AmountMismatch = ''amount_mismatch''"
| "outcome_text OrderNotOpen = ''order_not_open''"
| "outcome_text AlreadyClosed = ''already_closed''"

definition opt_json :: "string option \<Rightarrow> json" where
  "opt_json v = (case v of Some s \<Rightarrow> JStr s | None \<Rightarrow> JNull)"

definition order_columns :: "string \<times> card_order \<Rightarrow> json" where
  "order_columns x =
     (let i = fst x; r = snd x in
      JObj [(''order_id'', JStr i), (''provider'', JStr (co_provider r)), (''provider_order_id'', JStr (co_provider_order_id r)),
        (''payment_reference_hmac'', JStr (co_reference_hmac r)), (''publication_id'', JStr (co_publication_id r)),
        (''creator_id'', JStr (co_creator_id r)), (''ticket_id'', JStr (co_ticket_id r)), (''consent_version'', opt_json (co_consent_version r)),
        (''gross_minor'', JNum (of_int (co_gross_minor r))), (''currency'', JStr (co_currency r)), (''status'', JStr (status_text (co_status r))),
        (''void_reason'', opt_json (map_option (\<lambda>v. case v of VRefund \<Rightarrow> ''refund'' | VChargeback \<Rightarrow> ''chargeback'') (co_void_reason r))),
        (''pending_tx_hash'', opt_json (co_pending_tx r)), (''issue_tx_hash'', opt_json (co_issue_tx r)),
        (''void_tx_hash'', opt_json (co_void_tx r)), (''attempts'', JNum (of_nat (co_attempts r))), (''last_error'', opt_json (co_last_error r)),
        (''created_at_ms'', JNum (of_int (co_created_at r))), (''updated_at_ms'', JNum (of_int (co_updated_at r))),
        (''paid_at_ms'', (case co_paid_at r of Some t \<Rightarrow> JNum (of_int t) | None \<Rightarrow> JNull))])"

definition ledger_columns :: "(string \<times> string) \<times> ledger_row \<Rightarrow> json" where
  "ledger_columns x =
     (let r = snd x in
      JObj [(''provider'', JStr (fst (fst x))), (''provider_event_id'', JStr (snd (fst x))), (''order_id'', JStr (lg_order r)),
        (''kind'', JStr (case lg_kind r of LSale \<Rightarrow> ''sale'' | LRefund \<Rightarrow> ''refund'' | LChargeback \<Rightarrow> ''chargeback'')),
        (''amount_minor'', JNum (of_int (lg_amount_minor r))), (''currency'', JStr (lg_currency r)),
        (''publication_id'', JStr (lg_publication_id r)), (''creator_id'', JStr (lg_creator_id r)),
        (''occurred_at_ms'', JNum (of_int (lg_occurred_at r)))])"

definition list_orders :: "'w card_context \<Rightarrow> string option \<Rightarrow> string option \<Rightarrow> ('w, pay_response) pact" where
  "list_orders X status after =
     (let st = status_of_text (case status of Some t \<Rightarrow> t | None \<Rightarrow> ''paid'');
          from_ms = json_safe_integer (map_option JNum (text_number (case after of Some t \<Rightarrow> t | None \<Rightarrow> ''0''))) in
      case (st, from_ms) of
        (Some st, Some t) \<Rightarrow>
          bnd (stmt (cc_runtime X) (reading (\<lambda>s.
                 take 100 (sort_key (\<lambda>(_, r). co_created_at r)
                   (filter (\<lambda>(_, r). co_status r = st \<and> co_created_at r > t) (py_orders s)))))) (\<lambda>rows.
          ret (pay_json (JObj [(''orders'', JArr (map order_columns rows))]) 200 None))
      | _ \<Rightarrow> throw ''invalid_request'')"

definition list_ledger :: "'w card_context \<Rightarrow> ('w, pay_response) pact" where
  "list_ledger X =
     bnd (stmt (cc_runtime X) (reading (\<lambda>s. take 10001 (sort_key (\<lambda>(_, r). lg_occurred_at r) (py_ledger s))))) (\<lambda>rows.
       ret (if length rows > 10000 then pay_error ''ledger_too_large'' 507 None
            else pay_json (JObj [(''entries'', JArr (map ledger_columns rows))]) 200 None))"

definition report_event :: "'w card_context \<Rightarrow> json option \<Rightarrow> ('w, pay_response) pact" where
  "report_event X body =
     (case body of None \<Rightarrow> throw ''invalid_request''
      | Some v \<Rightarrow>
         bnd (lifting (parse_report_event v)) (\<lambda>e.
         bnd (apply_card_event (cc_runtime X) (cp_name (cc_provider X)) e (cc_now_ms X)) (\<lambda>outcome.
         bnd (if outcome = Applied then cc_wake X else ret ()) (\<lambda>_.
         ret (pay_json (JObj [(''outcome'', JStr (outcome_text outcome))]) 200 None)))))"

definition handle_card_internal ::
  "'w card_context \<Rightarrow> string \<Rightarrow> string \<Rightarrow> string option \<Rightarrow> string option \<Rightarrow> json option \<Rightarrow> ('w, pay_response) pact" where
  "handle_card_internal X method path status after body =
     catch
       (if method = ''GET'' \<and> path = ''/internal/card-orders'' then list_orders X status after
        else if method = ''GET'' \<and> path = ''/internal/card-ledger'' then list_ledger X
        else if method = ''POST'' \<and> path = ''/internal/card-events'' then report_event X body
        else ret (pay_error ''not_found'' 404 None))
       (\<lambda>code. ret (card_error code None))"

end
