(* ===== verification/PayEnv.thy ===== *)
theory PayEnv
  imports NearRpc
begin

text \<open>
  \<open>workers/payment-service/src/env.ts\<close>: the settings of the payment service, of its card path and of
  the Cleeng adapter. Each of the three is all or nothing. A binding is present or not.
\<close>

record pay_env =
  PAYMENT_SERVICE_ENABLED :: "string option"
  PAY_NEAR_NETWORK :: "string option"
  PAY_NEAR_RPC_URL :: "string option"
  PAY_MARKET_CONTRACT_ID :: "string option"
  VAT_POLICY :: "string option"
  VAT_RATE_BPS :: "string option"
  VAT_KEY_VERSION :: "string option"
  VAT_SIGNER_PRIVATE_KEY :: "string option"
  PAY_ALLOWED_ORIGINS :: "string option"
  REFUNDS_bound :: bool
  FUNNEL_bound :: bool
  REFUND_ADMIN_TOKEN :: "string option"
  CARD_PATH_ENABLED :: "string option"
  PAYMENT_OPERATOR_ID :: "string option"
  PAYMENT_OPERATOR_PRIVATE_KEY :: "string option"
  CARD_REFERENCE_SECRET :: "string option"
  CARD_OPERATOR_bound :: bool
  CLEENG_ENVIRONMENT :: "string option"
  CLEENG_PUBLISHER_ID :: "string option"
  CLEENG_PUBLISHER_TOKEN :: "string option"
  CLEENG_WEBHOOK_SECRET :: "string option"

record cleeng_settings =
  cl_publisher_id :: string
  cl_publisher_token :: string
  cl_webhook_secret :: string

record card_settings =
  cs_operator_id :: string
  cs_operator_private_key :: string
  cs_reference_secret :: string

record pay_settings =
  ps_rpc_url :: string
  ps_market :: string
  ps_rate_bps :: int
  ps_key_version :: int
  ps_signer :: string
  ps_public_key :: string
  ps_allowed_origins :: "string list"

definition text_or_empty :: "string option \<Rightarrow> string" where
  "text_or_empty v = (case v of Some s \<Rightarrow> s | None \<Rightarrow> [])"

definition visible_ascii :: "char \<Rightarrow> bool" where
  "visible_ascii c = chr_in 33 126 c"

definition cleeng_config :: "pay_env \<Rightarrow> cleeng_settings option" where
  "cleeng_config e =
     (if CLEENG_ENVIRONMENT e \<noteq> Some ''sandbox'' \<or> \<not> repeated is_digit 1 20 (text_or_empty (CLEENG_PUBLISHER_ID e))
         \<or> \<not> repeated visible_ascii 16 4096 (text_or_empty (CLEENG_PUBLISHER_TOKEN e))
         \<or> \<not> repeated visible_ascii 16 512 (text_or_empty (CLEENG_WEBHOOK_SECRET e))
      then None
      else Some \<lparr>cl_publisher_id = text_or_empty (CLEENG_PUBLISHER_ID e), cl_publisher_token = text_or_empty (CLEENG_PUBLISHER_TOKEN e),
                 cl_webhook_secret = text_or_empty (CLEENG_WEBHOOK_SECRET e)\<rparr>)"

text \<open>An ed25519 key (key type 0) that \<open>KeyPair.fromString\<close> reads.\<close>

definition ed25519_private_key :: "crypto \<Rightarrow> string option \<Rightarrow> bool" where
  "ed25519_private_key C key = (Option.bind key (key_pair_type C) = Some 0)"

definition card_config :: "crypto \<Rightarrow> pay_env \<Rightarrow> card_settings option" where
  "card_config C e =
     (if CARD_PATH_ENABLED e \<noteq> Some ''true'' \<or> \<not> REFUNDS_bound e \<or> \<not> CARD_OPERATOR_bound e
         \<or> \<not> account_id (text_or_empty (PAYMENT_OPERATOR_ID e)) \<or> \<not> hex64 (text_or_empty (CARD_REFERENCE_SECRET e))
         \<or> \<not> ed25519_private_key C (PAYMENT_OPERATOR_PRIVATE_KEY e)
      then None
      else Some \<lparr>cs_operator_id = text_or_empty (PAYMENT_OPERATOR_ID e),
                 cs_operator_private_key = text_or_empty (PAYMENT_OPERATOR_PRIVATE_KEY e),
                 cs_reference_secret = text_or_empty (CARD_REFERENCE_SECRET e)\<rparr>)"

definition origin_list :: "string option \<Rightarrow> string list" where
  "origin_list v = filter (\<lambda>i. i \<noteq> []) (map js_trim (split_at_char CHR '','' (text_or_empty v)))"

definition payment_config :: "crypto \<Rightarrow> pay_env \<Rightarrow> pay_settings option" where
  "payment_config C e =
     (let origins = origin_list (PAY_ALLOWED_ORIGINS e); rate = text_or_empty (VAT_RATE_BPS e);
          version = text_or_empty (VAT_KEY_VERSION e); signer = VAT_SIGNER_PRIVATE_KEY e
      in if PAYMENT_SERVICE_ENABLED e \<noteq> Some ''true'' \<or> PAY_NEAR_NETWORK e \<noteq> Some ''testnet'' \<or> VAT_POLICY e \<noteq> Some ''fixed-testnet''
         then None
         else if \<not> starts_with ''https://'' (text_or_empty (PAY_NEAR_RPC_URL e)) \<or> \<not> account_id (text_or_empty (PAY_MARKET_CONTRACT_ID e))
            \<or> \<not> decimal0 3 rate \<or> int (dec_val rate) > 2700 \<or> \<not> decimal1 8 version
            \<or> \<not> list_all (\<lambda>u. https_origin u \<or> localhost_origin u) origins
         then None
         else if \<not> ed25519_private_key C signer then None
         else case Option.bind signer (key_pair_public C) of None \<Rightarrow> None
           | Some pk \<Rightarrow> Some
              \<lparr>ps_rpc_url = text_or_empty (PAY_NEAR_RPC_URL e), ps_market = text_or_empty (PAY_MARKET_CONTRACT_ID e),
               ps_rate_bps = int (dec_val rate), ps_key_version = js_number version, ps_signer = text_or_empty signer,
               ps_public_key = pk, ps_allowed_origins = origins\<rparr>)"

end
