(* ===== verification/Cleeng.thy ===== *)
theory Cleeng
  imports CardOrders PayEnv
begin

unbundle bit_operations_syntax

text \<open>
  \<open>workers/payment-service/src/card-provider.ts\<close> and \<open>cleeng.ts\<close>: the signature of a webhook, and the
  Cleeng adapter: one offer and one customer per order, and the events of a delivery.
\<close>

section \<open>Webhook signatures\<close>

definition constant_time_equal :: "string \<Rightarrow> string \<Rightarrow> bool" where
  "constant_time_equal a b =
     (let left = encode_text a; right = encode_text b;
          start = (of_nat (length left) XOR of_nat (length right) :: 32 word)
      in foldl (\<lambda>diff i. diff OR (ucast (right ! i) XOR (if i < length left then ucast (left ! i) else 0)))
           start [0..<length right] = 0)"

definition verify_cleeng_signature :: "crypto \<Rightarrow> string \<Rightarrow> string option \<Rightarrow> string \<Rightarrow> bool" where
  "verify_cleeng_signature C raw header secret =
     (case header of None \<Rightarrow> False
      | Some h \<Rightarrow> h \<noteq> [] \<and> 16 \<le> utf16_length secret
          \<and> constant_time_equal (js_trim h) (btoa (hmac_sha256 C (encode_text secret) (encode_text raw))))"

section \<open>Amounts\<close>

text \<open>\<open>value.toFixed(4)\<close>: the nearest multiple of 0.0001, the larger one of two.\<close>

definition pad_to :: "nat \<Rightarrow> string \<Rightarrow> string" where
  "pad_to n s = replicate (n - length s) CHR ''0'' @ s"

definition to_fixed4 :: "rat \<Rightarrow> string" where
  "to_fixed4 q =
     (let n = nat \<lfloor>\<bar>q\<bar> * 10000 + 1 / 2\<rfloor>
      in if 10 ^ 21 \<le> \<bar>q\<bar> then num_text q
         else (if q < 0 then ''-'' else '''') @ show_nat (n div 10000) @ ''.'' @ pad_to 4 (show_nat (n mod 10000)))"

text \<open>\<open>/^([0-9]{1,9})(?:\.([0-9]{1,6}))?$/\<close>: the whole and the fraction digits.\<close>

definition amount_parts :: "string \<Rightarrow> (string \<times> string) option" where
  "amount_parts t =
     (let whole = takeWhile is_digit t; rest = drop (length whole) t; part = tl rest
      in if \<not> repeated is_digit 1 9 whole then None
         else if rest = [] then Some (whole, [])
         else if hd rest = CHR ''.'' \<and> repeated is_digit 1 6 part then Some (whole, part)
         else None)"

definition amount_text :: "json option \<Rightarrow> string" where
  "amount_text v = (case v of Some (JNum q) \<Rightarrow> to_fixed4 q | Some (JStr s) \<Rightarrow> js_trim s | _ \<Rightarrow> [])"

definition minor_units :: "json option \<Rightarrow> int option" where
  "minor_units v =
     (case amount_parts (amount_text v) of None \<Rightarrow> None
      | Some (whole, part) \<Rightarrow>
          (let fraction = part @ replicate (6 - length part) CHR ''0''
           in if drop 2 fraction \<noteq> ''0000'' then None
              else Some (int (dec_val whole * 100 + dec_val (take 2 fraction)))))"

definition seconds_ms :: "json option \<Rightarrow> int \<Rightarrow> int" where
  "seconds_ms v fallback =
     (case json_safe_integer v of Some n \<Rightarrow> if 0 < n then int (double_of_nat (nat n * 1000)) else fallback | None \<Rightarrow> fallback)"

section \<open>The adapter\<close>

datatype cleeng_environment = Sandbox | Production

fun core_host :: "cleeng_environment \<Rightarrow> string" where
  "core_host Sandbox = ''https://api.sandbox.cleeng.com/3.1''"
| "core_host Production = ''https://api.cleeng.com/3.1''"

fun mediastore_host :: "cleeng_environment \<Rightarrow> string" where
  "mediastore_host Sandbox = ''https://mediastoreapi-sandbox.cleeng.com''"
| "mediastore_host Production = ''https://mediastoreapi.cleeng.com''"

fun environment_text :: "cleeng_environment \<Rightarrow> string" where
  "environment_text Sandbox = ''sandbox''"
| "environment_text Production = ''production''"

text \<open>\<open>/^[A-Z][0-9]{6,12}(_[A-Z]{2})?$/\<close> and \<open>/^[A-Za-z0-9-]{8,64}$/\<close>\<close>

definition offer_id :: "string \<Rightarrow> bool" where
  "offer_id s =
     (s \<noteq> [] \<and> is_upper (hd s) \<and>
      (let ds = takeWhile is_digit (tl s); rest = drop (length ds) (tl s)
       in repeated is_digit 6 12 ds \<and> (rest = [] \<or> (hd rest = CHR ''_'' \<and> repeated is_upper 2 2 (tl rest)))))"

definition delivery_id :: "string \<Rightarrow> bool" where
  "delivery_id s = repeated (\<lambda>c. is_alnum c \<or> c = CHR ''-'') 8 64 s"

definition not_a_country :: "string list" where
  "not_a_country = [''XX'', ''T1'', ''A1'', ''A2'', ''O1'', ''EU'', ''AP'']"

definition unknown_currency :: string where
  "unknown_currency = ''XXX''"

definition buyer_email :: "string \<Rightarrow> string" where
  "buyer_email i = i @ ''@buyers.youtick.invalid''"

text \<open>Requests carry the publisher token; a reply is its \<open>ok\<close> and its JSON.\<close>

record 's cleeng_world =
  cw_fetch :: "string \<Rightarrow> string \<Rightarrow> string \<Rightarrow> ('s, bool \<times> json option) act"
  cw_now :: "'s \<Rightarrow> int"

definition cleeng_call :: "'s cleeng_world \<Rightarrow> cleeng_settings \<Rightarrow> string \<Rightarrow> json \<Rightarrow> ('s, json) act" where
  "cleeng_call W cfg url body =
     bnd (attempt (cw_fetch W url (json_text body) (cl_publisher_token cfg))) (\<lambda>r.
       case r of Inl _ \<Rightarrow> throw ''provider_unavailable''
       | Inr (ok, v) \<Rightarrow> (case v of Some j \<Rightarrow> if ok then ret j else throw ''provider_unavailable'' | None \<Rightarrow> throw ''provider_unavailable''))"

definition read_field :: "string \<Rightarrow> json \<Rightarrow> ('s, json option) act" where
  "read_field k v = (if v = JNull then throw type_error else ret (obj_get k v))"

definition cleeng_session ::
  "'s cleeng_world \<Rightarrow> cleeng_environment \<Rightarrow> cleeng_settings \<Rightarrow> string \<Rightarrow> ('s, checkout) act" where
  "cleeng_session W env cfg i =
     bnd (cleeng_call W cfg (mediastore_host env @ ''/sso/auths'') (JObj [(''email'', JStr (buyer_email i))])) (\<lambda>auth.
     bnd (read_field ''responseData'' auth) (\<lambda>data.
       case (as_str (Option.bind data (obj_get ''jwt'')), as_str (Option.bind data (obj_get ''refreshToken''))) of
         (Some jwt, Some refresh) \<Rightarrow>
           (if utf16_length jwt > 4096 \<or> utf16_length refresh > 4096 then throw ''provider_unavailable''
            else ret [(''provider'', JStr ''cleeng''), (''environment'', JStr (environment_text env)),
                      (''publisher_id'', JStr (cl_publisher_id cfg)), (''jwt'', JStr jwt), (''refresh_token'', JStr refresh)])
       | _ \<Rightarrow> throw ''provider_unavailable''))"

definition offer_body :: "order_input \<Rightarrow> json" where
  "offer_body input =
     JObj [(''title'', JStr (take 70 (''youtick ticket '' @ oi_publication_id input))), (''type'', JStr ''vod''),
       (''price'', JObj [(''amount'', JNum (the (ratio_double (nat (oi_gross_minor input)) 100))), (''currency'', JStr (oi_currency input))]),
       (''entitlement'', JObj [(''duration'', JObj [(''periodUnit'', JStr ''hour''), (''amount'', JNum 1)])]),
       (''externalProperties'', JObj [(''order_id'', JStr (oi_order_id input)), (''publication_id'', JStr (oi_publication_id input))])]"

definition known_country :: "string option \<Rightarrow> bool" where
  "known_country c = (case c of Some s \<Rightarrow> repeated is_upper 2 2 s \<and> s \<notin> set not_a_country | None \<Rightarrow> False)"

definition cleeng_create_order ::
  "'s cleeng_world \<Rightarrow> cleeng_environment \<Rightarrow> cleeng_settings \<Rightarrow> order_input \<Rightarrow> ('s, provider_order) act" where
  "cleeng_create_order W env cfg input =
     bnd (require (known_country (oi_country input)) ''buyer_country_unknown'') (\<lambda>_.
     bnd (require (safe_integer (oi_gross_minor input) \<and> 0 < oi_gross_minor input \<and> oi_currency input = ''USD'') ''invalid_request'') (\<lambda>_.
     bnd (cleeng_call W cfg (core_host env @ ''/offers'') (offer_body input)) (\<lambda>offer.
     bnd (read_field ''id'' offer) (\<lambda>offer_i.
     case as_str offer_i of None \<Rightarrow> throw ''provider_unavailable''
     | Some oid \<Rightarrow>
       bnd (require (offer_id oid) ''provider_unavailable'') (\<lambda>_.
       bnd (cleeng_call W cfg (core_host env @ ''/customers'')
              (JObj [(''email'', JStr (buyer_email (oi_order_id input))), (''externalId'', JStr (oi_order_id input)),
                     (''locale'', JStr ''en_US''), (''country'', JStr (text_or_empty (oi_country input))),
                     (''currency'', JStr (oi_currency input))])) (\<lambda>customer.
       bnd (read_field ''data'' customer) (\<lambda>data.
       bnd (require (json_safe_integer (Option.bind data (obj_get ''id'')) \<noteq> None) ''provider_unavailable'') (\<lambda>_.
       bnd (cleeng_session W env cfg (oi_order_id input)) (\<lambda>session.
       ret \<lparr>po_id = oid, po_checkout = Some (session @ [(''offer_id'', JStr oid)])\<rparr>)))))))))"

definition cleeng_checkout ::
  "'s cleeng_world \<Rightarrow> cleeng_environment \<Rightarrow> cleeng_settings \<Rightarrow> string \<Rightarrow> string \<Rightarrow> ('s, checkout) act" where
  "cleeng_checkout W env cfg i provider_order =
     bnd (cleeng_session W env cfg i) (\<lambda>session. ret (session @ [(''offer_id'', JStr provider_order)]))"

section \<open>Webhooks\<close>

definition event_of ::
  "string \<Rightarrow> string option \<Rightarrow> event_kind \<Rightarrow> int option \<Rightarrow> string \<Rightarrow> int \<Rightarrow> string + card_event list" where
  "event_of delivery offer kind amount currency occurred =
     (case (offer, amount) of
        (Some oid, Some a) \<Rightarrow>
          (if a \<le> 0 \<or> \<not> repeated is_upper 3 3 currency then Inl ''invalid_webhook''
           else Inr [\<lparr>ce_event_id = delivery @ '':0'', ce_kind = kind, ce_order_id = oid, ce_amount_minor = a,
                      ce_currency = currency, ce_occurred_at = occurred\<rparr>])
      | _ \<Rightarrow> Inl ''invalid_webhook'')"

definition webhook_events :: "string \<Rightarrow> json \<Rightarrow> json option \<Rightarrow> int \<Rightarrow> string + card_event list" where
  "webhook_events delivery data topic now_ms =
     (let offer = (case as_str (obj_get ''offerId'' data) of Some s \<Rightarrow> if offer_id s then Some s else None | None \<Rightarrow> None)
      in if topic = Some (JStr ''transactionCreated'') then
           event_of delivery offer EPurchase (minor_units (obj_get ''offerPrice'' data)) (str_of ''offerCurrency'' data)
             (seconds_ms (obj_get ''transactionDate'' data) now_ms)
         else if topic = Some (JStr ''paymentRefunded'') then
           event_of delivery offer ERefund (minor_units (obj_get ''amount'' data)) unknown_currency now_ms
         else Inr [])"

definition cleeng_webhook :: "crypto \<Rightarrow> cleeng_settings \<Rightarrow> webhook_request \<Rightarrow> int \<Rightarrow> string + card_event list" where
  "cleeng_webhook C cfg rq now_ms =
     ebind (erequire (utf16_length (wr_text rq) \<le> 64 * 1024
              \<and> verify_cleeng_signature C (wr_text rq) (wr_signature rq) (cl_webhook_secret cfg)) ''invalid_webhook'') (\<lambda>_.
     case json_parse (wr_text rq) of None \<Rightarrow> Inl ''invalid_webhook''
     | Some envelope \<Rightarrow>
         (let delivery = text_or_empty (wr_delivery_id rq)
          in if \<not> delivery_id delivery then Inl ''invalid_webhook''
             else if envelope = JNull then Inl type_error
             else if string_of (obj_get ''broadcasterId'' envelope) \<noteq> cl_publisher_id cfg then Inl ''invalid_webhook''
             else case obj_get ''data'' envelope of None \<Rightarrow> Inl ''invalid_webhook''
               | Some data \<Rightarrow>
                   if \<not> has_fields data then Inl ''invalid_webhook''
                   else webhook_events delivery data (obj_get ''topic'' envelope) now_ms))"

definition cleeng_provider ::
  "crypto \<Rightarrow> 's cleeng_world \<Rightarrow> cleeng_environment \<Rightarrow> cleeng_settings \<Rightarrow> 's card_provider" where
  "cleeng_provider C W env cfg =
     \<lparr>cp_name = ''cleeng'', cp_create_order = cleeng_create_order W env cfg,
      cp_checkout_session = Some (cleeng_checkout W env cfg),
      cp_parse_webhook = (\<lambda>rq. bnd (reading (cw_now W)) (\<lambda>t. lifting (cleeng_webhook C cfg rq t)))\<rparr>"

end
