(* ===== verification/Funnel.thy ===== *)
theory Funnel
  imports Json
begin

text \<open>
  \<open>workers/payment-service/src/funnel.ts\<close>: the counted checkout steps. Only words of three closed
  lists are ever written.
\<close>

definition funnel_steps :: "string list" where
  "funnel_steps = [''checkout_view'', ''sign_in_prompt'', ''balance_low'', ''funding_quote'', ''funding_deposit'',
     ''approval_started'', ''purchase_submitted'', ''ticket_confirmed'', ''purchase_failed'']"

definition funnel_rails :: "string list" where
  "funnel_rails = [''crypto'', ''card'']"

definition funnel_failure_codes :: "string list" where
  "funnel_failure_codes = [''publication_not_available'', ''publication_unavailable'', ''price_below_minimum'', ''price_mismatch'',
     ''insufficient_balance'', ''near_auth_login_cancelled'', ''near_auth_access_denied'', ''delegate_stale'', ''identity_limit_reached'',
     ''daily_limit_reached'', ''rate_limited'', ''purchase_not_confirmed'', ''ticket_exists'', ''signature_expired'',
     ''approval_rejected'', ''approval_expired'', ''account_not_ready'', ''purchase_pending'', ''purchases_paused'', ''popup_blocked'',
     ''buyer_country_unknown'', ''provider_unavailable'', ''card_order_closed'', ''card_payment_cancelled'', ''card_payment_timeout'',
     ''checkout_unavailable'', ''other'']"

record funnel_event =
  fe_step :: string
  fe_rail :: string
  fe_code :: string

definition listed :: "string \<Rightarrow> json \<Rightarrow> string list \<Rightarrow> bool" where
  "listed k v words = (has_str k v \<and> str_of k v \<in> set words)"

definition parse_funnel_event :: "json \<Rightarrow> string + funnel_event" where
  "parse_funnel_event body =
     (let keys = (if is_obj body then sorted_keys body else [])
      in if (keys \<noteq> ''rail,step'' \<and> keys \<noteq> ''code,rail,step'') \<or> \<not> listed ''step'' body funnel_steps
            \<or> \<not> listed ''rail'' body funnel_rails
         then Inl ''invalid_request''
         else if str_of ''step'' body \<noteq> ''purchase_failed'' then
           (if obj_get ''code'' body \<noteq> None then Inl ''invalid_request''
            else Inr \<lparr>fe_step = str_of ''step'' body, fe_rail = str_of ''rail'' body, fe_code = []\<rparr>)
         else Inr \<lparr>fe_step = str_of ''step'' body, fe_rail = str_of ''rail'' body,
                   fe_code = (if listed ''code'' body funnel_failure_codes then str_of ''code'' body else ''other'')\<rparr>)"

text \<open>One data point: an index, three words and the count.\<close>

record data_point =
  pt_indexes :: "string list"
  pt_blobs :: "string list"
  pt_doubles :: "int list"

definition funnel_point :: "funnel_event \<Rightarrow> data_point" where
  "funnel_point e = \<lparr>pt_indexes = [fe_step e], pt_blobs = [fe_step e, fe_rail e, fe_code e], pt_doubles = [1]\<rparr>"

end
