(* ===== verification/Refunds.thy ===== *)
theory Refunds
  imports CardBook
begin

unbundle bit_operations_syntax

text \<open>
  \<open>workers/payment-service/src/refunds.ts\<close>: the refund request inbox. A request is checked as the
  contract will check the refund, kept until a decision, and marked refunded only when the chain
  shows the ticket refunded.
\<close>

definition refund_window_ms :: int where
  "refund_window_ms = 30 * 24 * 60 * 60 * 1000"

definition max_refund_signature_ttl_ms :: int where
  "max_refund_signature_ttl_ms = 7 * 24 * 60 * 60 * 1000"

definition answer_within_ms :: int where
  "answer_within_ms = 72 * 60 * 60 * 1000"

record refund_input =
  ri_ticket_id :: string
  ri_refund_to :: string
  ri_expires_at_ms :: string
  ri_signature :: string
  ri_reason :: string

section \<open>Requests\<close>

text \<open>\<open>text.replace(/\r\n?/g, '\n')\<close>\<close>

fun plain_line_breaks :: "string \<Rightarrow> string" where
  "plain_line_breaks [] = []"
| "plain_line_breaks (c # cs) =
     (if c = CHR 0x0D then CHR 0x0A # plain_line_breaks (if take 1 cs = [CHR 0x0A] then tl cs else cs)
      else c # plain_line_breaks cs)"

text \<open>\<open>[\u0000-\u0009\u000b-\u001f\u007f]\<close>\<close>

definition forbidden_point :: "nat \<Rightarrow> bool" where
  "forbidden_point p = (p \<le> 9 \<or> (11 \<le> p \<and> p \<le> 31) \<or> p = 127)"

definition clean_reason :: "json option \<Rightarrow> string + string" where
  "clean_reason v =
     (case as_str v of None \<Rightarrow> Inl ''invalid_request''
      | Some t \<Rightarrow>
          (let reason = js_trim (plain_line_breaks t); ps = code_points reason
           in if length ps < 10 \<or> length ps > 1000 \<or> list_ex forbidden_point ps then Inl ''invalid_reason''
              else Inr reason))"

definition parse_refund_request :: "json \<Rightarrow> string + refund_input" where
  "parse_refund_request body =
     (if sorted_keys body \<noteq> ''expires_at_ms,reason,refund_to,signature,ticket_id''
         \<or> \<not> has_str ''ticket_id'' body \<or> \<not> hex64 (str_of ''ticket_id'' body)
         \<or> \<not> has_str ''refund_to'' body \<or> \<not> account_id (str_of ''refund_to'' body)
         \<or> \<not> has_str ''expires_at_ms'' body \<or> \<not> decimal1 15 (str_of ''expires_at_ms'' body)
         \<or> \<not> has_str ''signature'' body \<or> \<not> base64_signature (str_of ''signature'' body)
      then Inl ''invalid_request''
      else ebind (clean_reason (obj_get ''reason'' body)) (\<lambda>reason.
        Inr \<lparr>ri_ticket_id = str_of ''ticket_id'' body, ri_refund_to = str_of ''refund_to'' body,
             ri_expires_at_ms = str_of ''expires_at_ms'' body, ri_signature = str_of ''signature'' body, ri_reason = reason\<rparr>))"

definition refund_lines :: "string \<Rightarrow> string \<Rightarrow> refund_input \<Rightarrow> string list" where
  "refund_lines network contract input =
     [''youtick.market-v2.ticket-sig.v1'', network, contract, ''refund_ticket'', ri_ticket_id input, ri_expires_at_ms input,
      ri_refund_to input]"

definition refund_signature_ok :: "crypto \<Rightarrow> string \<Rightarrow> string \<Rightarrow> string \<Rightarrow> refund_input \<Rightarrow> bool" where
  "refund_signature_ok C network contract ticket_key input =
     (case atob (ri_signature input) of None \<Rightarrow> False
      | Some sig \<Rightarrow> public_key_verify C ticket_key sig (encode_text (join [CHR 0x0A] (refund_lines network contract input))))"

definition refund_expiry :: "string \<Rightarrow> int \<Rightarrow> string + int" where
  "refund_expiry v now_ms =
     (let expires = js_number v
      in if expires \<le> now_ms then Inl ''signature_expired''
         else if expires - now_ms > max_refund_signature_ttl_ms then Inl ''signature_expiry_too_far''
         else Inr expires)"

definition refundable_ticket :: "string \<Rightarrow> json \<Rightarrow> string + unit" where
  "refundable_ticket ticket_id ticket =
     ebind (erequire (obj_get ''ticket_id'' ticket = Some (JStr ticket_id)) ''ticket_not_found'') (\<lambda>_.
     ebind (erequire (obj_get ''rail'' ticket = Some (JStr ''crypto'')) ''ticket_not_refundable'') (\<lambda>_.
     erequire (obj_get ''status'' ticket \<in> {Some (JStr ''purchased''), Some (JStr ''watched_in_escrow'')}) ''ticket_not_refundable''))"

text \<open>
  When the refund window closes: \<open>Number(ticket.purchased_at_ms)\<close> plus 30 days; never after a
  takedown; and a value that is no number closes nothing, as a comparison with \<open>NaN\<close> is false.
\<close>

datatype closing = NeverCloses | ClosesAt rat | ClosesNaN

definition window_closes :: "json \<Rightarrow> json \<Rightarrow> closing" where
  "window_closes ticket publication =
     (if obj_get ''availability'' publication = Some (JStr ''TAKEDOWN'') then NeverCloses
      else case Option.bind (obj_get ''purchased_at_ms'' ticket) number_of of
        Some q \<Rightarrow> ClosesAt (q + of_int refund_window_ms) | None \<Rightarrow> ClosesNaN)"

definition window_check :: "closing \<Rightarrow> int \<Rightarrow> string + unit" where
  "window_check closes now_ms =
     erequire (case closes of ClosesAt t \<Rightarrow> of_int now_ms < t | _ \<Rightarrow> True) ''refund_window_closed''"

definition verify_refund_request ::
  "crypto \<Rightarrow> 's view \<Rightarrow> string \<Rightarrow> string \<Rightarrow> int \<Rightarrow> refund_input \<Rightarrow> ('s, json \<times> closing) act" where
  "verify_refund_request C view network contract now_ms input =
     bnd (lifting (refund_expiry (ri_expires_at_ms input) now_ms)) (\<lambda>_.
     bnd (view contract ''get_ticket'' (JObj [(''ticket_id'', JStr (ri_ticket_id input))])) (\<lambda>ticket.
     bnd (lifting (refundable_ticket (ri_ticket_id input) ticket)) (\<lambda>_.
     bnd (view contract ''get_publication'' (JObj (case obj_get ''publication_id'' ticket of Some v \<Rightarrow> [(''publication_id'', v)] | None \<Rightarrow> []))) (\<lambda>publication.
       let closes = window_closes ticket publication in
     bnd (lifting (window_check closes now_ms)) (\<lambda>_.
     bnd (require (has_str ''ticket_public_key'' ticket \<and> refund_signature_ok C network contract (str_of ''ticket_public_key'' ticket) input) ''invalid_signature'') (\<lambda>_.
     ret (ticket, closes)))))))"

section \<open>The inbox\<close>

text \<open>The primary key, and the partial unique index: one pending request per ticket.\<close>

definition refund_clashes :: "string \<Rightarrow> string \<Rightarrow> (string, refund_row) table \<Rightarrow> bool" where
  "refund_clashes i ticket t = list_ex (\<lambda>(k, x). k = i \<or> (rr_status x = ''pending'' \<and> rr_ticket_id x = ticket)) t"

definition new_refund :: "refund_input \<Rightarrow> string \<Rightarrow> int \<Rightarrow> refund_row" where
  "new_refund input publication now_ms =
     \<lparr>rr_ticket_id = ri_ticket_id input, rr_publication_id = publication, rr_refund_to = ri_refund_to input,
      rr_expires_at_ms = js_number (ri_expires_at_ms input), rr_signature = ri_signature input, rr_reason = ri_reason input,
      rr_status = ''pending'', rr_created_at = now_ms, rr_decided_at = None, rr_decision_note = None, rr_tx_hash = None\<rparr>"

definition insert_refund :: "'w pay_runtime \<Rightarrow> string \<Rightarrow> refund_row \<Rightarrow> ('w, unit) pact" where
  "insert_refund P i row =
     stmt P (bnd (reading (\<lambda>s. refund_clashes i (rr_ticket_id row) (py_refunds s))) (\<lambda>clash.
       if clash then throw ''refund_request_pending''
       else writing (\<lambda>s. s\<lparr>py_refunds := tput i row (py_refunds s)\<rparr>)))"

definition store_refund_request ::
  "'w pay_runtime \<Rightarrow> refund_input \<Rightarrow> string \<Rightarrow> int \<Rightarrow> ('w, string \<times> refund_row) pact" where
  "store_refund_request P input publication now_ms =
     bnd (stmt P (reading (\<lambda>s. find_row (\<lambda>_ r. rr_ticket_id r = ri_ticket_id input \<and> rr_status r = ''pending'') (py_refunds s)))) (\<lambda>existing.
     bnd (require (existing = None) ''refund_request_pending'') (\<lambda>_.
     bnd (pr_random P) (\<lambda>random.
       let i = hex_of random; row = new_refund input publication now_ms in
     bnd (insert_refund P i row) (\<lambda>_. ret (i, row)))))"

definition list_refund_requests :: "'w pay_runtime \<Rightarrow> string \<Rightarrow> ('w, (string \<times> refund_row) list) pact" where
  "list_refund_requests P status =
     bnd (require (status \<in> set [''pending'', ''refunded'', ''declined'']) ''invalid_request'') (\<lambda>_.
     stmt P (reading (\<lambda>s.
       take 100 (sort_key (\<lambda>(_, r). rr_created_at r) (filter (\<lambda>(_, r). rr_status r = status) (py_refunds s))))))"

section \<open>Decisions\<close>

record decision =
  dn_decision :: string
  dn_note :: "string option"
  dn_tx_hash :: "string option"

definition parse_decision :: "json \<Rightarrow> string + decision" where
  "parse_decision body =
     (let keys = sorted_keys body; note = str_of ''note'' body
      in if obj_get ''decision'' body = Some (JStr ''declined'') \<and> keys = ''decision,note'' then
           (if \<not> has_str ''note'' body \<or> utf16_length (js_trim note) < 3 \<or> utf16_length note > 500 then Inl ''invalid_request''
            else Inr \<lparr>dn_decision = ''declined'', dn_note = Some (js_trim note), dn_tx_hash = None\<rparr>)
         else if obj_get ''decision'' body = Some (JStr ''refunded'') \<and> keys = ''decision,tx_hash'' \<and> has_str ''tx_hash'' body
              \<and> repeated is_base58 43 44 (str_of ''tx_hash'' body)
         then Inr \<lparr>dn_decision = ''refunded'', dn_note = None, dn_tx_hash = Some (str_of ''tx_hash'' body)\<rparr>
         else Inl ''invalid_request'')"

definition decided_row :: "decision \<Rightarrow> int \<Rightarrow> refund_row \<Rightarrow> refund_row" where
  "decided_row d now_ms r =
     r\<lparr>rr_status := dn_decision d, rr_decided_at := Some now_ms, rr_decision_note := dn_note d, rr_tx_hash := dn_tx_hash d\<rparr>"

text \<open>\<open>UPDATE refund_requests ... WHERE request_id = ? AND status = 'pending'\<close>\<close>

definition update_refund :: "'w pay_runtime \<Rightarrow> string \<Rightarrow> (refund_row \<Rightarrow> refund_row) \<Rightarrow> ('w, bool) pact" where
  "update_refund P i f =
     stmt P (bnd (reading (\<lambda>s. tget i (py_refunds s))) (\<lambda>row.
       case row of None \<Rightarrow> ret False
       | Some r \<Rightarrow>
           if rr_status r = ''pending''
           then bnd (writing (\<lambda>s. s\<lparr>py_refunds := tput i (f r) (py_refunds s)\<rparr>)) (\<lambda>_. ret True)
           else ret False))"

definition decide_refund_request ::
  "'w pay_runtime \<Rightarrow> string \<Rightarrow> string \<Rightarrow> decision \<Rightarrow> int \<Rightarrow> ('w, string \<times> refund_row) pact" where
  "decide_refund_request P contract i d now_ms =
     bnd (require (repeated is_hex_digit 32 32 i) ''invalid_request'') (\<lambda>_.
     bnd (stmt P (reading (\<lambda>s. tget i (py_refunds s)))) (\<lambda>found.
     case found of None \<Rightarrow> throw ''refund_request_not_found''
     | Some row \<Rightarrow>
       bnd (require (rr_status row = ''pending'') ''refund_request_decided'') (\<lambda>_.
       bnd (if dn_decision d = ''refunded''
            then bnd (pr_view P contract ''get_ticket'' (JObj [(''ticket_id'', JStr (rr_ticket_id row))])) (\<lambda>ticket.
                   require (obj_get ''status'' ticket = Some (JStr ''refunded'')) ''ticket_not_refunded'')
            else ret ()) (\<lambda>_.
       bnd (update_refund P i (decided_row d now_ms)) (\<lambda>updated.
       bnd (require updated ''refund_request_decided'') (\<lambda>_. ret (i, decided_row d now_ms row)))))))"

section \<open>The operator's token\<close>

definition bearer_authorized :: "string option \<Rightarrow> string option \<Rightarrow> bool" where
  "bearer_authorized header token =
     (case (header, token) of
        (Some h, Some t) \<Rightarrow>
          t \<noteq> [] \<and> 32 \<le> utf16_length t \<and> starts_with ''Bearer '' h \<and>
          (let given = encode_text (drop 7 h); expected = encode_text t;
               start = (of_nat (length given) XOR of_nat (length expected) :: 32 word)
           in foldl (\<lambda>diff i. diff OR (ucast (expected ! i) XOR (if i < length given then ucast (given ! i) else 0)))
                start [0..<length expected] = 0)
      | _ \<Rightarrow> False)"

end
