(* ===== verification/Vat.thy ===== *)
theory Vat
  imports NearRpc Samples "HOL-Library.Signed_Division"
begin

text \<open>
  \<open>workers/payment-service/src/vat.ts\<close>: the VAT part of a VAT-inclusive price, within the contract's
  27% cap, and the signed attestation of it.
\<close>

definition max_vat_rate_bps :: int where
  "max_vat_rate_bps = 2700"

definition min_gross_usdc_micro :: int where
  "min_gross_usdc_micro = 5000000"

definition attestation_ttl_ms :: int where
  "attestation_ttl_ms = 10 * 60 * 1000"

record vat_input =
  vi_network :: string
  vi_contract :: string
  vi_ticket :: string
  vi_publication :: string
  vi_gross :: int
  vi_rate_bps :: int
  vi_key_version :: int
  vi_now_ms :: int

record vat_attestation =
  va_gross :: string
  va_vat :: string
  va_expires_at_ms :: string
  va_key_version :: string
  va_signature :: string

definition within_cap :: "int \<Rightarrow> int \<Rightarrow> bool" where
  "within_cap gross vat = (0 \<le> vat \<and> vat * (10000 + max_vat_rate_bps) \<le> gross * max_vat_rate_bps)"

text \<open>\<open>BigInt\<close> division truncates.\<close>

definition inclusive_vat :: "int \<Rightarrow> int \<Rightarrow> string + int" where
  "inclusive_vat gross rate =
     (if rate < 0 \<or> max_vat_rate_bps < rate then Inl ''vat_rate_invalid''
      else let numerator = gross * rate; denominator = 10000 + rate;
               up = (numerator + denominator - 1) sdiv denominator
           in Inr (if within_cap gross up then up else numerator sdiv denominator))"

definition vat_message_lines :: "string \<Rightarrow> string \<Rightarrow> string \<Rightarrow> string \<Rightarrow> string \<Rightarrow> string \<Rightarrow> string \<Rightarrow> string \<Rightarrow> string list" where
  "vat_message_lines network contract ticket publication gross vat expires version =
     [''youtick.market-v2.vat.v1'', network, contract, ticket, publication, gross, vat, expires, version]"

definition vat_message :: "string list \<Rightarrow> string + string" where
  "vat_message lines =
     (if list_ex (\<lambda>l. l = [] \<or> has_line_break l) lines then Inl ''invalid_vat_message''
      else Inr (join [CHR 0x0A] lines))"

definition attest_vat :: "crypto \<Rightarrow> vat_input \<Rightarrow> string \<Rightarrow> string + vat_attestation" where
  "attest_vat C input signer =
     ebind (erequire (hex64 (vi_ticket input) \<and> ident128 (vi_publication input)) ''invalid_request'') (\<lambda>_.
     ebind (erequire (min_gross_usdc_micro \<le> vi_gross input) ''price_below_minimum'') (\<lambda>_.
     ebind (inclusive_vat (vi_gross input) (vi_rate_bps input)) (\<lambda>vat.
       let gross = show_int (vi_gross input); vat_text = show_int vat;
           expires = show_int (vi_now_ms input + attestation_ttl_ms); version = show_int (vi_key_version input)
       in ebind (vat_message (vat_message_lines (vi_network input) (vi_contract input) (vi_ticket input) (vi_publication input)
                   gross vat_text expires version)) (\<lambda>message.
          Inr \<lparr>va_gross = gross, va_vat = vat_text, va_expires_at_ms = expires, va_key_version = version,
               va_signature = btoa (key_pair_sign C signer (encode_text message))\<rparr>))))"

section \<open>The VAT part is exact to one unit, within the cap, and never under-collected\<close>

lemma sdiv_nonneg: "0 \<le> a \<Longrightarrow> 0 < (b::int) \<Longrightarrow> a sdiv b = a div b"
  by (cases "a = 0") (simp_all add: signed_divide_int_def)

lemma floor_bounds:
  assumes "0 < (d::int)"
  shows "(n div d) * d \<le> n" and "n < (n div d) * d + d"
proof -
  have "n mod d < d" "0 \<le> n mod d" "(n div d) * d + n mod d = n" using assms by simp_all
  then show "(n div d) * d \<le> n" and "n < (n div d) * d + d" by linarith+
qed

lemma ceiling_bounds:
  assumes "0 < (d::int)"
  shows "n \<le> ((n + d - 1) div d) * d" and "((n + d - 1) div d) * d < n + d"
  using floor_bounds [OF assms, of "n + d - 1"] by linarith+

lemma floor_within_cap:
  assumes g: "0 \<le> gross" and r: "0 \<le> rate" "rate \<le> 2700"
    and f: "0 \<le> f" "f * (10000 + rate) \<le> gross * rate"
  shows "within_cap gross f"
proof -
  have split: "f * 10000 \<le> (gross - f) * rate" using f(2) by (simp add: algebra_simps)
  have "0 \<le> gross - f"
  proof (rule ccontr)
    assume "\<not> 0 \<le> gross - f"
    then have "(gross - f) * rate \<le> 0" and "0 < f" using r g by (simp_all add: mult_nonpos_nonneg)
    with split show False by linarith
  qed
  then have "(gross - f) * rate \<le> (gross - f) * 2700" by (rule mult_left_mono [rotated]) (rule r(2))
  with split have "f * 10000 \<le> (gross - f) * 2700" by linarith
  then show ?thesis using f(1) by (simp add: within_cap_def max_vat_rate_bps_def algebra_simps)
qed

lemma inclusive_vat_value:
  assumes "0 \<le> gross" "0 \<le> rate" "rate \<le> max_vat_rate_bps"
  shows "inclusive_vat gross rate =
     Inr (let up = (gross * rate + (10000 + rate) - 1) div (10000 + rate)
          in if within_cap gross up then up else (gross * rate) div (10000 + rate))"
  using assms by (simp add: inclusive_vat_def Let_def sdiv_nonneg)

text \<open>
  C15 (inclusiveVat). For every price and every rate from 0 to 27%, the VAT part is within the cap the
  contract enforces, is less than one micro-unit away from the exact part
  \<open>gross * rate / (10000 + rate)\<close>, and is below it only where one unit more would break the cap.
\<close>

theorem inclusive_vat_correct:
  assumes "0 \<le> gross" and "0 \<le> rate" and "rate \<le> max_vat_rate_bps"
  shows "\<exists>vat. inclusive_vat gross rate = Inr vat \<and> within_cap gross vat \<and>
      gross * rate - (10000 + rate) < vat * (10000 + rate) \<and> vat * (10000 + rate) < gross * rate + (10000 + rate) \<and>
      (vat * (10000 + rate) < gross * rate \<longrightarrow> \<not> within_cap gross (vat + 1))"
proof -
  let ?d = "10000 + rate" and ?n = "gross * rate"
  let ?up = "(?n + ?d - 1) div ?d" and ?down = "?n div ?d"
  have d: "0 < ?d" and n: "0 \<le> ?n" using assms by simp_all
  note down = floor_bounds [OF d, of ?n] and up = ceiling_bounds [OF d, of ?n]
  have down0: "0 \<le> ?down" using d n by (simp add: pos_imp_zdiv_nonneg_iff)
  have cap: "within_cap gross ?down"
    using floor_within_cap assms down0 down(1) by (simp add: max_vat_rate_bps_def)
  have step: "?up \<le> ?down + 1"
  proof -
    have "?up * ?d < (?down + 2) * ?d" using up(2) down(2) by (simp add: algebra_simps)
    then show ?thesis using d by (simp add: mult_less_cancel_right)
  qed
  have "?down + 1 = ?up" if "?down * ?d < ?n"
  proof -
    have "?down * ?d < ?up * ?d" using that up(1) by linarith
    then have "?down < ?up" using d by (simp add: mult_less_cancel_right)
    with step show ?thesis by linarith
  qed
  then show ?thesis
    using cap up down inclusive_vat_value [OF assms]
    by (cases "within_cap gross ?up") (auto simp: Let_def)
qed

theorem inclusive_vat_correct_witness:
  "\<exists>vat. inclusive_vat 5000000 2700 = Inr vat \<and> within_cap 5000000 vat \<and>
      5000000 * 2700 - (10000 + 2700) < vat * (10000 + 2700) \<and> vat * (10000 + 2700) < 5000000 * 2700 + (10000 + 2700) \<and>
      (vat * (10000 + 2700) < 5000000 * 2700 \<longrightarrow> \<not> within_cap 5000000 (vat + 1))"
  using inclusive_vat_correct [of 5000000 2700] by (simp add: max_vat_rate_bps_def)

text \<open>
  An attestation names the price it was asked for, a VAT part within the contract's cap
  and an expiry ten minutes ahead, and its signature is the signer's over the nine lines of the VAT
  message, none of them empty or broken by a line break; it is refused below five USDC.
\<close>

theorem attest_vat_signs_the_message:
  assumes "attest_vat C input signer = Inr a"
  shows "\<exists>vat. 5000000 \<le> vi_gross input \<and> hex64 (vi_ticket input) \<and> ident128 (vi_publication input) \<and>
      inclusive_vat (vi_gross input) (vi_rate_bps input) = Inr vat \<and> within_cap (vi_gross input) vat \<and>
      va_gross a = show_int (vi_gross input) \<and> va_vat a = show_int vat \<and>
      va_expires_at_ms a = show_int (vi_now_ms input + 600000) \<and> va_key_version a = show_int (vi_key_version input) \<and>
      va_signature a = btoa (key_pair_sign C signer (encode_text (join [CHR 0x0A]
        [''youtick.market-v2.vat.v1'', vi_network input, vi_contract input, vi_ticket input, vi_publication input,
         va_gross a, va_vat a, va_expires_at_ms a, va_key_version a]))) \<and>
      (\<forall>l \<in> set [vi_network input, vi_contract input, va_gross a, va_vat a, va_expires_at_ms a, va_key_version a].
         l \<noteq> [] \<and> \<not> has_line_break l)"
proof -
  from assms obtain vat where ids: "hex64 (vi_ticket input)" "ident128 (vi_publication input)"
      and gross: "5000000 \<le> vi_gross input"
      and vat: "inclusive_vat (vi_gross input) (vi_rate_bps input) = Inr vat"
      and rest: "ebind (vat_message (vat_message_lines (vi_network input) (vi_contract input) (vi_ticket input)
          (vi_publication input) (show_int (vi_gross input)) (show_int vat) (show_int (vi_now_ms input + 600000))
          (show_int (vi_key_version input)))) (\<lambda>message.
            Inr \<lparr>va_gross = show_int (vi_gross input), va_vat = show_int vat,
                 va_expires_at_ms = show_int (vi_now_ms input + 600000), va_key_version = show_int (vi_key_version input),
                 va_signature = btoa (key_pair_sign C signer (encode_text message))\<rparr>) = Inr a"
    by (auto simp: attest_vat_def Let_def ebind_Inr_iff min_gross_usdc_micro_def attestation_ttl_ms_def)
  have "0 \<le> vi_rate_bps input" "vi_rate_bps input \<le> max_vat_rate_bps"
    using vat by (auto simp: inclusive_vat_def split: if_splits)
  then have "within_cap (vi_gross input) vat"
    using inclusive_vat_value [of "vi_gross input" "vi_rate_bps input"] vat gross
      floor_within_cap [of "vi_gross input" "vi_rate_bps input" vat]
      floor_bounds(1) [of "10000 + vi_rate_bps input" "vi_gross input * vi_rate_bps input"]
    by (auto simp: Let_def max_vat_rate_bps_def pos_imp_zdiv_nonneg_iff split: if_splits)
  then show ?thesis
    using ids gross vat rest
    by (auto simp: vat_message_def vat_message_lines_def split: if_splits)
qed

definition sample_vat_input :: vat_input where
  "sample_vat_input =
     \<lparr>vi_network = ''testnet'', vi_contract = ''market.testnet'', vi_ticket = replicate 64 CHR ''0'', vi_publication = ''p1'',
      vi_gross = 5000000, vi_rate_bps = 2700, vi_key_version = 1, vi_now_ms = 0\<rparr>"

lemma sample_attestation:
  "attest_vat sample_crypto sample_vat_input ''k'' =
     Inr \<lparr>va_gross = ''5000000'', va_vat = ''1062992'', va_expires_at_ms = ''600000'', va_key_version = ''1'',
          va_signature = sample_signature\<rparr>"
proof -
  have vat: "inclusive_vat 5000000 2700 = Inr 1062992"
    by (simp add: inclusive_vat_def max_vat_rate_bps_def within_cap_def sdiv_nonneg)
  have digits: "show_int 5000000 = ''5000000''" "show_int 1062992 = ''1062992''" "show_int 600000 = ''600000''" "show_int 1 = ''1''"
    by (simp_all add: show_int_def show_nat.simps digit_chr_def)
  have "ident128 ''p1''" by (simp add: ident128_def repeated_def is_alnum_def char_defs)
  then show ?thesis
    by (simp add: attest_vat_def sample_vat_input_def vat digits Let_def min_gross_usdc_micro_def attestation_ttl_ms_def
        vat_message_def vat_message_lines_def has_line_break_def chr_code_def sample_signature_def list_ex_iff)
qed

theorem attest_vat_signs_the_message_witness:
  "\<exists>a vat. 5000000 \<le> vi_gross sample_vat_input \<and>
      inclusive_vat (vi_gross sample_vat_input) (vi_rate_bps sample_vat_input) = Inr vat \<and>
      within_cap (vi_gross sample_vat_input) vat \<and> va_vat a = show_int vat \<and>
      attest_vat sample_crypto sample_vat_input ''k'' = Inr a"
  using attest_vat_signs_the_message [OF sample_attestation] sample_attestation by blast

end
