(* ===== verification/PayFront.thy ===== *)
theory PayFront
  imports CardRoutes Cleeng Funnel Refunds Vat
begin

text \<open>
  \<open>workers/payment-service/src/index.ts\<close>: the payment service's requests. VAT attestations, funnel
  counts and refund requests from the allowed origins, the card routes, the provider's webhook, and
  the operator's routes behind a token.
\<close>

section \<open>Requests\<close>

record pay_request =
  pq_path :: string
  pq_method :: string
  pq_origin :: "string option"
  pq_content_type :: "string option"
  pq_authorization :: "string option"
  pq_client_ip :: "string option"
  pq_country :: "string option"
  pq_text :: string
  pq_status :: "string option"
  pq_after :: "string option"
  pq_signature :: "string option"
  pq_delivery_id :: "string option"

text \<open>
  What the service is given: the database, the view and the clock (\<open>pf_runtime\<close>), a provider
  adapter or what the Cleeng adapter needs, the limiter, the funnel dataset and the operator object.
\<close>

record 'w pay_front =
  pf_runtime :: "'w pay_runtime"
  pf_provider :: "'w pay_state card_provider option"
  pf_cleeng :: "'w pay_state cleeng_world"
  pf_limiter :: "(string \<Rightarrow> ('w, bool) pact) option"
  pf_funnel :: "data_point \<Rightarrow> ('w, unit) pact"
  pf_wake :: "('w, unit) pact"

definition pay_network :: string where
  "pay_network = ''testnet''"

definition card_context_of :: "'w pay_front \<Rightarrow> pay_env \<Rightarrow> pay_settings \<Rightarrow> pay_request \<Rightarrow> 'w pay_state \<Rightarrow> 'w card_context option" where
  "card_context_of F e cfg rq s =
     (let P = pf_runtime F;
          provider = (case pf_provider F of Some p \<Rightarrow> Some p
            | None \<Rightarrow> map_option (cleeng_provider (pr_crypto P) (pf_cleeng F) Sandbox) (cleeng_config e))
      in case (card_config (pr_crypto P) e, provider) of
           (Some settings, Some p) \<Rightarrow>
             (if \<not> REFUNDS_bound e then None
              else Some \<lparr>cc_runtime = P, cc_provider = p, cc_network = pay_network, cc_market = ps_market cfg,
                         cc_secret = cs_reference_secret settings, cc_now_ms = pr_now P s, cc_country = pq_country rq,
                         cc_wake = pf_wake F\<rparr>)
         | _ \<Rightarrow> None)"

definition read_body :: "pay_request \<Rightarrow> nat \<Rightarrow> json option" where
  "read_body rq limit =
     (case pq_content_type rq of None \<Rightarrow> None
      | Some ct \<Rightarrow>
          if js_trim (hd (split_at_char CHR '';'' ct)) \<noteq> ''application/json'' \<or> utf16_length (pq_text rq) > limit then None
          else Option.bind (json_parse (pq_text rq)) (\<lambda>v. if is_obj v then Some v else None))"

section \<open>VAT attestations\<close>

definition key_check_ttl_ms :: int where
  "key_check_ttl_ms = 60000"

definition key_check_key :: "pay_settings \<Rightarrow> string" where
  "key_check_key cfg = ps_market cfg @ ''|'' @ show_int (ps_key_version cfg) @ ''|'' @ ps_public_key cfg"

definition assert_key_registered :: "'w pay_runtime \<Rightarrow> pay_settings \<Rightarrow> int \<Rightarrow> ('w, unit) pact" where
  "assert_key_registered P cfg now_ms =
     bnd (reading py_key_check) (\<lambda>check.
       if (case check of Some (k, t) \<Rightarrow> k = key_check_key cfg \<and> now_ms - t < key_check_ttl_ms | None \<Rightarrow> False) then ret ()
       else
         bnd (pr_view P (ps_market cfg) ''get_vat_public_key'' (JObj [(''key_version'', JNum (of_int (ps_key_version cfg)))])) (\<lambda>registered.
           if registered \<noteq> JStr (ps_public_key cfg)
           then bnd (writing (\<lambda>s. s\<lparr>py_key_check := None\<rparr>)) (\<lambda>_. throw ''vat_key_not_registered'')
           else writing (\<lambda>s. s\<lparr>py_key_check := Some (key_check_key cfg, now_ms)\<rparr>)))"

definition attestation_json :: "vat_attestation \<Rightarrow> json" where
  "attestation_json a =
     JObj [(''gross_usdc_micro'', JStr (va_gross a)), (''vat_usdc_micro'', JStr (va_vat a)), (''expires_at_ms'', JStr (va_expires_at_ms a)),
           (''key_version'', JStr (va_key_version a)), (''signature'', JStr (va_signature a))]"

definition vat_errors :: "(string \<times> nat) list" where
  "vat_errors = [(''publication_not_found'', 404), (''publication_not_available'', 409), (''price_below_minimum'', 409),
     (''vat_key_not_registered'', 503), (''rpc_unavailable'', 503)]"

definition vat_request_ok :: "json \<Rightarrow> bool" where
  "vat_request_ok body =
     (sorted_keys body = ''publication_id,ticket_id'' \<and> has_str ''ticket_id'' body \<and> hex64 (str_of ''ticket_id'' body)
      \<and> has_str ''publication_id'' body \<and> ident128 (str_of ''publication_id'' body))"

definition vat_input_of :: "pay_settings \<Rightarrow> json \<Rightarrow> int \<Rightarrow> int \<Rightarrow> vat_input" where
  "vat_input_of cfg body gross now_ms =
     \<lparr>vi_network = pay_network, vi_contract = ps_market cfg, vi_ticket = str_of ''ticket_id'' body,
      vi_publication = str_of ''publication_id'' body, vi_gross = gross, vi_rate_bps = ps_rate_bps cfg,
      vi_key_version = ps_key_version cfg, vi_now_ms = now_ms\<rparr>"

definition attest_request :: "'w pay_runtime \<Rightarrow> pay_settings \<Rightarrow> json \<Rightarrow> int \<Rightarrow> string option \<Rightarrow> ('w, pay_response) pact" where
  "attest_request P cfg body now_ms cors =
     bnd (assert_key_registered P cfg now_ms) (\<lambda>_.
     bnd (read_purchasable_publication (pr_view P) (ps_market cfg) (str_of ''publication_id'' body)) (\<lambda>gross.
     bnd (pr_view P (ps_market cfg) ''get_ticket'' (JObj [(''ticket_id'', JStr (str_of ''ticket_id'' body))])) (\<lambda>ticket.
       if ticket \<noteq> JNull then ret (pay_error ''ticket_exists'' 409 cors)
       else
         bnd (lifting (attest_vat (pr_crypto P) (vat_input_of cfg body gross now_ms) (ps_signer cfg))) (\<lambda>a.
         ret (pay_json (attestation_json a) 200 cors)))))"

definition handle_vat :: "'w pay_runtime \<Rightarrow> pay_settings \<Rightarrow> json \<Rightarrow> string option \<Rightarrow> ('w, pay_response) pact" where
  "handle_vat P cfg body cors =
     (if \<not> vat_request_ok body then ret (pay_error ''invalid_request'' 400 cors)
      else
        bnd (reading (pr_now P)) (\<lambda>now_ms.
        catch (attest_request P cfg body now_ms cors)
          (\<lambda>code. ret (case map_of vat_errors code of Some status \<Rightarrow> pay_error code status cors
                       | None \<Rightarrow> pay_error ''internal_error'' 500 cors))))"

section \<open>Refund requests\<close>

definition refund_errors :: "(string \<times> nat) list" where
  "refund_errors =
     [(''invalid_request'', 400), (''invalid_reason'', 400), (''invalid_signature'', 400), (''signature_expired'', 400),
      (''signature_expiry_too_far'', 400), (''ticket_not_found'', 404), (''ticket_not_refundable'', 409), (''refund_window_closed'', 409),
      (''refund_request_pending'', 409), (''refund_request_not_found'', 404), (''refund_request_decided'', 409),
      (''ticket_not_refunded'', 409), (''rpc_unavailable'', 503)]"

definition refund_error :: "string \<Rightarrow> string option \<Rightarrow> pay_response" where
  "refund_error code cors =
     (case map_of refund_errors code of Some status \<Rightarrow> pay_error code status cors
      | None \<Rightarrow> pay_error ''internal_error'' 500 cors)"

text \<open>The answer must come while the contract still accepts the refund.\<close>

definition refund_reply :: "string \<Rightarrow> refund_row \<Rightarrow> closing \<Rightarrow> int \<Rightarrow> string option \<Rightarrow> pay_response" where
  "refund_reply i row closes now_ms cors =
     pay_json (JObj
       [(''request_id'', JStr i), (''status'', JStr (rr_status row)),
        (''answer_by_ms'', JStr (case closes of NeverCloses \<Rightarrow> show_int (now_ms + answer_within_ms)
           | ClosesAt t \<Rightarrow> num_text (min (of_int (now_ms + answer_within_ms)) t) | ClosesNaN \<Rightarrow> ''NaN'')),
        (''refund_window_closes_at_ms'', (case closes of NeverCloses \<Rightarrow> JNull | ClosesAt t \<Rightarrow> JStr (num_text t) | ClosesNaN \<Rightarrow> JStr ''NaN''))])
       201 cors"

definition handle_refund :: "'w pay_runtime \<Rightarrow> pay_settings \<Rightarrow> json \<Rightarrow> string option \<Rightarrow> ('w, pay_response) pact" where
  "handle_refund P cfg body cors =
     bnd (reading (pr_now P)) (\<lambda>now_ms.
     catch
       (bnd (lifting (parse_refund_request body)) (\<lambda>input.
        bnd (verify_refund_request (pr_crypto P) (pr_view P) pay_network (ps_market cfg) now_ms input) (\<lambda>(ticket, closes).
        bnd (store_refund_request P input (str_of ''publication_id'' ticket) now_ms) (\<lambda>(i, row).
        ret (refund_reply i row closes now_ms cors)))))
       (\<lambda>code. ret (refund_error code cors)))"

section \<open>The operator's routes\<close>

definition refund_columns :: "string \<times> refund_row \<Rightarrow> json" where
  "refund_columns x =
     (let r = snd x in
      JObj [(''request_id'', JStr (fst x)), (''ticket_id'', JStr (rr_ticket_id r)), (''publication_id'', JStr (rr_publication_id r)),
        (''refund_to'', JStr (rr_refund_to r)), (''expires_at_ms'', JNum (of_int (rr_expires_at_ms r))), (''signature'', JStr (rr_signature r)),
        (''reason'', JStr (rr_reason r)), (''status'', JStr (rr_status r)), (''created_at_ms'', JNum (of_int (rr_created_at r))),
        (''decided_at_ms'', (case rr_decided_at r of Some t \<Rightarrow> JNum (of_int t) | None \<Rightarrow> JNull)),
        (''decision_note'', opt_json (rr_decision_note r)), (''tx_hash'', opt_json (rr_tx_hash r))])"

text \<open>\<open>/^\/internal\/refund-requests\/([0-9a-f]{32})\/decision$/\<close>\<close>

definition decision_path :: "string \<Rightarrow> string option" where
  "decision_path p =
     (let i = take 32 (drop 26 p)
      in if starts_with ''/internal/refund-requests/'' p \<and> hex32 i \<and> drop 58 p = ''/decision'' then Some i else None)"

definition handle_pay_internal :: "'w pay_front \<Rightarrow> pay_env \<Rightarrow> pay_settings \<Rightarrow> pay_request \<Rightarrow> ('w, pay_response) pact" where
  "handle_pay_internal F e cfg rq =
     (let P = pf_runtime F; path = pq_path rq in
      if \<not> bearer_authorized (pq_authorization rq) (REFUND_ADMIN_TOKEN e) then ret (pay_error ''unauthorized'' 401 None)
      else if starts_with ''/internal/card-'' path then
        bnd (reading (card_context_of F e cfg rq)) (\<lambda>context.
          case context of None \<Rightarrow> ret (pay_error ''card_path_disabled'' 503 None)
          | Some X \<Rightarrow> handle_card_internal X (pq_method rq) path (pq_status rq) (pq_after rq) (read_body rq 2048))
      else if \<not> REFUNDS_bound e then ret (pay_error ''refund_inbox_unavailable'' 503 None)
      else
        catch
          (if pq_method rq = ''GET'' \<and> path = ''/internal/refund-requests'' then
             bnd (list_refund_requests P (case pq_status rq of Some t \<Rightarrow> t | None \<Rightarrow> ''pending'')) (\<lambda>rows.
             ret (pay_json (JObj [(''requests'', JArr (map refund_columns rows))]) 200 None))
           else case (if pq_method rq = ''POST'' then decision_path path else None) of
             None \<Rightarrow> ret (pay_error ''not_found'' 404 None)
           | Some i \<Rightarrow>
               bnd (lifting (case read_body rq 1024 of Some v \<Rightarrow> Inr v | None \<Rightarrow> Inl ''invalid_request'')) (\<lambda>body.
               bnd (lifting (parse_decision body)) (\<lambda>d.
               bnd (reading (pr_now P)) (\<lambda>t.
               bnd (decide_refund_request P (ps_market cfg) i d t) (\<lambda>row.
               ret (pay_json (JObj [(''request'', refund_columns row)]) 200 None))))))
          (\<lambda>code. ret (refund_error code None)))"

section \<open>The handler\<close>

definition public_paths :: "string list" where
  "public_paths = [''/v1/vat-attestations'', ''/v1/funnel'', ''/v1/refund-requests'']"

definition limiter_scope :: "string \<Rightarrow> string" where
  "limiter_scope path =
     (if is_card_public_path path then ''card'' else if path = ''/v1/funnel'' then ''funnel''
      else if path = ''/v1/refund-requests'' then ''refund'' else ''vat'')"

definition handle_funnel :: "'w pay_front \<Rightarrow> pay_env \<Rightarrow> json \<Rightarrow> string option \<Rightarrow> ('w, pay_response) pact" where
  "handle_funnel F e body cors =
     bnd (attempt (bnd (lifting (parse_funnel_event body)) (\<lambda>ev.
            if FUNNEL_bound e then pf_funnel F (funnel_point ev) else ret ()))) (\<lambda>r.
     ret (case r of Inl _ \<Rightarrow> pay_error ''invalid_request'' 400 cors
          | Inr _ \<Rightarrow> \<lparr>py_status = 204, py_body = None, py_cors = cors\<rparr>))"

definition handle_card_request :: "'w pay_front \<Rightarrow> pay_env \<Rightarrow> pay_settings \<Rightarrow> pay_request \<Rightarrow> string option \<Rightarrow> ('w, pay_response) pact" where
  "handle_card_request F e cfg rq cors =
     bnd (reading (card_context_of F e cfg rq)) (\<lambda>context.
       case context of None \<Rightarrow> ret (pay_error ''card_path_disabled'' 503 cors)
       | Some X \<Rightarrow>
           if pq_method rq = ''POST'' \<and> read_body rq 2048 = None then ret (pay_error ''invalid_request'' 400 cors)
           else handle_card_public X (pq_method rq) (pq_path rq) (if pq_method rq = ''POST'' then read_body rq 2048 else None) cors)"

definition handle_allowed :: "'w pay_front \<Rightarrow> pay_env \<Rightarrow> pay_settings \<Rightarrow> pay_request \<Rightarrow> string option \<Rightarrow> ('w, pay_response) pact" where
  "handle_allowed F e cfg rq cors =
     (let path = pq_path rq; is_card = is_card_public_path path in
      bnd (case pf_limiter F of None \<Rightarrow> ret True
           | Some limit \<Rightarrow> limit (limiter_scope path @ '':ip:'' @ (case pq_client_ip rq of Some ip \<Rightarrow> ip | None \<Rightarrow> ''unknown''))) (\<lambda>allowed.
        if \<not> allowed then ret (pay_error ''rate_limited'' 429 cors)
        else if is_card then handle_card_request F e cfg rq cors
        else case read_body rq (if path = ''/v1/refund-requests'' then 8192 else 2048) of
          None \<Rightarrow> ret (pay_error ''invalid_request'' 400 cors)
        | Some body \<Rightarrow>
            if path = ''/v1/refund-requests'' then
              (if \<not> REFUNDS_bound e then ret (pay_error ''refund_inbox_unavailable'' 503 cors)
               else handle_refund (pf_runtime F) cfg body cors)
            else if path = ''/v1/funnel'' then handle_funnel F e body cors
            else handle_vat (pf_runtime F) cfg body cors))"

definition handle_webhook_request :: "'w pay_front \<Rightarrow> pay_env \<Rightarrow> pay_settings \<Rightarrow> pay_request \<Rightarrow> ('w, pay_response) pact" where
  "handle_webhook_request F e cfg rq =
     (if pq_method rq \<noteq> ''POST'' then ret (pay_error ''method_not_allowed'' 405 None)
      else
        bnd (reading (card_context_of F e cfg rq)) (\<lambda>context.
          case context of None \<Rightarrow> ret (pay_error ''card_path_disabled'' 503 None)
          | Some X \<Rightarrow> handle_card_webhook X \<lparr>wr_text = pq_text rq, wr_signature = pq_signature rq, wr_delivery_id = pq_delivery_id rq\<rparr>))"

definition pay_handle :: "'w pay_front \<Rightarrow> pay_env \<Rightarrow> pay_request \<Rightarrow> ('w, pay_response) pact" where
  "pay_handle F e rq =
     (case payment_config (pr_crypto (pf_runtime F)) e of None \<Rightarrow> ret (pay_error ''payment_service_disabled'' 503 None)
      | Some cfg \<Rightarrow>
        let path = pq_path rq; is_card = is_card_public_path path; org = text_or_empty (pq_origin rq); cors = Some org in
        if starts_with ''/internal/'' path then handle_pay_internal F e cfg rq
        else if path = ''/webhooks/card'' then handle_webhook_request F e cfg rq
        else if path \<notin> set public_paths \<and> \<not> is_card then ret (pay_error ''not_found'' 404 None)
        else if org \<notin> set (ps_allowed_origins cfg) then ret (pay_error ''origin_denied'' 403 None)
        else if pq_method rq = ''OPTIONS'' then ret \<lparr>py_status = 204, py_body = None, py_cors = cors\<rparr>
        else if pq_method rq \<noteq> ''POST'' \<and> \<not> (is_card \<and> pq_method rq = ''GET'') then ret (pay_error ''method_not_allowed'' 405 cors)
        else handle_allowed F e cfg rq cors)"

text \<open>The cron, a safety net for the operator's own alarm.\<close>

definition pay_scheduled :: "'w pay_front \<Rightarrow> pay_env \<Rightarrow> ('w, unit) pact" where
  "pay_scheduled F e = (if card_config (pr_crypto (pf_runtime F)) e = None then ret () else pf_wake F)"

end
