(* ===== verification/CardOperator.thy ===== *)
theory CardOperator
  imports CardBook
begin

text \<open>
  \<open>workers/payment-service/src/card-operator.ts\<close> and \<open>card-operator-object.ts\<close>: the sender of card
  ticket transactions. It issues tickets of paid orders and voids those of refunded ones, one at a
  time; the hash of a transaction is stored before it is sent, and an unknown outcome is settled by
  reading the ticket. Signing, sending and transaction status are parameters.
\<close>

definition card_operator_gas :: int where
  "card_operator_gas = 100000000000000"

definition reserve_headroom_refusal :: string where
  "reserve_headroom_refusal = ''Card ticket storage exceeds the operational reserve headroom''"

definition max_send_attempts :: nat where
  "max_send_attempts = 5"

definition device_expiry_margin_ms :: int where
  "device_expiry_margin_ms = 2 * 60 * 1000"

definition batch_size :: nat where
  "batch_size = 10"

datatype send_outcome = SSuccess | SFailure | SUnknown | SReserveExhausted

text \<open>A signed call has its hash; sending it gives an outcome.\<close>

record 'w operator_deps =
  op_runtime :: "'w pay_runtime"
  op_contract :: string
  op_sign :: "string \<Rightarrow> json \<Rightarrow> int \<Rightarrow> ('w, string) pact"
  op_send :: "string \<Rightarrow> ('w, send_outcome) pact"
  op_tx_status :: "string \<Rightarrow> ('w, send_outcome) pact"

definition outcome_of :: "json \<Rightarrow> send_outcome" where
  "outcome_of res =
     (case obj_get ''status'' res of
        Some (JObj st) \<Rightarrow>
          (case map_of st ''Failure'' of
             None \<Rightarrow> SSuccess
           | Some f \<Rightarrow> if contains reserve_headroom_refusal (json_text f) then SReserveExhausted else SFailure)
      | _ \<Rightarrow> SSuccess)"

definition failed_outcome :: "send_outcome \<Rightarrow> bool" where
  "failed_outcome r = (r = SFailure \<or> r = SReserveExhausted)"

text \<open>
  \<open>nearSigner\<close>: what \<open>near-api-js\<close> returns for a status or a send is read by \<open>outcomeOf\<close>, and
  whatever it throws decides nothing.
\<close>

definition near_outcome :: "('s, json) act \<Rightarrow> ('s, send_outcome) act" where
  "near_outcome m =
     bnd (attempt m) (\<lambda>r. ret (case r of Inl _ \<Rightarrow> SUnknown | Inr v \<Rightarrow> if v = JNull then SUnknown else outcome_of v))"

definition read_ticket :: "'w operator_deps \<Rightarrow> string \<Rightarrow> ('w, json) pact" where
  "read_ticket D ticket = pr_view (op_runtime D) (op_contract D) ''get_ticket'' (JObj [(''ticket_id'', JStr ticket)])"

text \<open>Updates the order only if its status is still the one read.\<close>

definition update_read :: "'w operator_deps \<Rightarrow> string \<Rightarrow> card_order \<Rightarrow> (card_order \<Rightarrow> card_order) \<Rightarrow> ('w, bool) pact" where
  "update_read D i order f =
     bnd (reading (pr_now (op_runtime D))) (\<lambda>t.
     update_order (op_runtime D) i (\<lambda>r. co_status r = co_status order) (\<lambda>r. (f r)\<lparr>co_updated_at := t\<rparr>))"

definition ours :: "json \<Rightarrow> card_order \<Rightarrow> bool" where
  "ours ticket order =
     (obj_get ''rail'' ticket = Some (JStr ''card'') \<and>
      Option.bind (obj_get ''card'' ticket) (obj_get ''payment_reference_hmac'') = Some (JStr (co_reference_hmac order)))"

definition note_error :: "'w operator_deps \<Rightarrow> string \<Rightarrow> card_order \<Rightarrow> string \<Rightarrow> ('w, unit) pact" where
  "note_error D i order code = bnd (update_read D i order (\<lambda>r. r\<lparr>co_last_error := Some code\<rparr>)) (\<lambda>_. ret ())"

section \<open>Issuing\<close>

definition issue_args :: "card_order \<Rightarrow> device_binding \<Rightarrow> json" where
  "issue_args order d =
     JObj [(''ticket_public_key'', JStr (co_ticket_public_key order)), (''publication_id'', JStr (co_publication_id order)),
       (''device'', JObj [(''session_public_key'', JStr (db_session_public_key d)),
          (''certificate_sha256'', JStr (db_certificate_sha256 d)), (''expires_at_ms'', JStr (show_int (db_expires_at_ms d))),
          (''signature'', JStr (db_signature d))]),
       (''payment_reference_hmac'', JStr (co_reference_hmac order)), (''gross_minor'', JStr (show_int (co_gross_minor order))),
       (''currency'', JStr (co_currency order))]"

text \<open>Stores the hash, sends, and settles by the ticket. Gives whether a ticket was issued.\<close>

definition send_issue :: "'w operator_deps \<Rightarrow> string \<Rightarrow> card_order \<Rightarrow> device_binding \<Rightarrow> ('w, bool) pact" where
  "send_issue D i order d =
     bnd (op_sign D ''issue_card_ticket'' (issue_args order d) 0) (\<lambda>hash.
     bnd (update_read D i order (\<lambda>r. r\<lparr>co_pending_tx := Some hash, co_attempts := co_attempts order + 1\<rparr>)) (\<lambda>stored.
       if \<not> stored then ret False
       else
         bnd (op_send D hash) (\<lambda>outcome.
         bnd (read_ticket D (co_ticket_id order)) (\<lambda>after.
           if ours after order then
             bnd (update_read D i order (\<lambda>r. r\<lparr>co_status := OIssued, co_issue_tx := Some hash, co_pending_tx := None,
                    co_last_error := None\<rparr>)) (\<lambda>_. ret True)
           else if outcome = SUnknown then bnd (note_error D i order ''outcome_unknown'') (\<lambda>_. ret False)
           else if outcome = SReserveExhausted then
             bnd (update_read D i order (\<lambda>r. r\<lparr>co_last_error := Some ''reserve_exhausted'', co_pending_tx := None,
                    co_attempts := co_attempts order\<rparr>)) (\<lambda>_. ret False)
           else
             bnd (update_read D i order (\<lambda>r. r\<lparr>co_last_error := Some ''send_failed'', co_pending_tx := None\<rparr>)) (\<lambda>_. ret False)))))"

definition issue_fresh :: "'w operator_deps \<Rightarrow> string \<Rightarrow> card_order \<Rightarrow> ('w, bool) pact" where
  "issue_fresh D i order =
     (case co_device order of
        None \<Rightarrow> bnd (note_error D i order ''device_signature_missing'') (\<lambda>_. ret False)
      | Some d \<Rightarrow>
          bnd (reading (pr_now (op_runtime D))) (\<lambda>t.
            if db_expires_at_ms d - device_expiry_margin_ms \<le> t
            then bnd (note_error D i order ''device_signature_expired'') (\<lambda>_. ret False)
            else send_issue D i order d))"

definition issue :: "'w operator_deps \<Rightarrow> string \<Rightarrow> card_order \<Rightarrow> ('w, bool) pact" where
  "issue D i order =
     bnd (read_ticket D (co_ticket_id order)) (\<lambda>before.
       if truthy (Some before) then
         (if \<not> ours before order
          then bnd (update_read D i order (\<lambda>r. r\<lparr>co_last_error := Some ''ticket_conflict'', co_attempts := max_send_attempts\<rparr>))
                 (\<lambda>_. ret False)
          else bnd (update_read D i order (\<lambda>r. r\<lparr>co_status := OIssued, co_issue_tx := co_pending_tx order, co_pending_tx := None,
                      co_last_error := None\<rparr>)) (\<lambda>_. ret False))
       else case co_pending_tx order of
         None \<Rightarrow> issue_fresh D i order
       | Some hash \<Rightarrow>
           bnd (op_tx_status D hash) (\<lambda>outcome.
             if \<not> failed_outcome outcome then bnd (note_error D i order ''outcome_unknown'') (\<lambda>_. ret False)
             else
               bnd (update_read D i order (\<lambda>r. r\<lparr>co_pending_tx := None\<rparr>)) (\<lambda>released.
                 if \<not> released then ret False else issue_fresh D i (order\<lparr>co_pending_tx := None\<rparr>))))"

section \<open>Voiding\<close>

fun void_reason_text :: "void_reason \<Rightarrow> string" where
  "void_reason_text VRefund = ''refund''"
| "void_reason_text VChargeback = ''chargeback''"

definition send_void :: "'w operator_deps \<Rightarrow> string \<Rightarrow> card_order \<Rightarrow> ('w, unit) pact" where
  "send_void D i order =
     bnd (op_sign D ''void_card_ticket''
            (JObj [(''ticket_id'', JStr (co_ticket_id order)),
                   (''reason'', JStr (case co_void_reason order of Some r \<Rightarrow> void_reason_text r | None \<Rightarrow> ''refund''))]) 0) (\<lambda>hash.
     bnd (update_read D i order (\<lambda>r. r\<lparr>co_pending_tx := Some hash, co_attempts := co_attempts order + 1\<rparr>)) (\<lambda>stored.
       if \<not> stored then ret ()
       else
         bnd (op_send D hash) (\<lambda>outcome.
         bnd (read_ticket D (co_ticket_id order)) (\<lambda>after.
           if obj_get ''status'' after = Some (JStr ''voided'') then
             bnd (update_read D i order (\<lambda>r. r\<lparr>co_status := OVoided, co_void_tx := Some hash, co_pending_tx := None,
                    co_last_error := None\<rparr>)) (\<lambda>_. ret ())
           else note_error D i order (if outcome = SUnknown then ''outcome_unknown'' else ''send_failed'')))))"

definition void_ticket :: "'w operator_deps \<Rightarrow> string \<Rightarrow> card_order \<Rightarrow> ('w, unit) pact" where
  "void_ticket D i order =
     bnd (read_ticket D (co_ticket_id order)) (\<lambda>before.
       if \<not> truthy (Some before) \<and> co_issue_tx order = None then
         bnd (case co_pending_tx order of None \<Rightarrow> ret True
              | Some hash \<Rightarrow> bnd (op_tx_status D hash) (\<lambda>outcome. ret (failed_outcome outcome))) (\<lambda>nothing_landed.
           if nothing_landed
           then bnd (update_read D i order (\<lambda>r. r\<lparr>co_status := OCancelled, co_pending_tx := None, co_last_error := None\<rparr>)) (\<lambda>_. ret ())
           else note_error D i order ''outcome_unknown'')
       else if obj_get ''status'' before = Some (JStr ''voided'') \<and> ours before order then
         bnd (update_read D i order (\<lambda>r. r\<lparr>co_status := OVoided, co_void_tx := co_pending_tx order, co_pending_tx := None,
                co_last_error := None\<rparr>)) (\<lambda>_. ret ())
       else if \<not> ours before order \<or> obj_get ''status'' before \<notin> {Some (JStr ''purchased''), Some (JStr ''watched'')} then
         bnd (update_read D i order (\<lambda>r. r\<lparr>co_last_error := Some ''ticket_not_voidable'', co_attempts := max_send_attempts\<rparr>)) (\<lambda>_. ret ())
       else send_void D i order)"

section \<open>One run\<close>

definition waiting_for_chain :: "card_order \<Rightarrow> bool" where
  "waiting_for_chain r = ((co_status r = OPaid \<or> co_status r = OVoidPending) \<and> co_attempts r < max_send_attempts)"

text \<open>\<open>SELECT ... ORDER BY updated_at_ms LIMIT 10\<close>\<close>

definition orders_to_send :: "'w pay_state \<Rightarrow> (string \<times> card_order) list" where
  "orders_to_send s =
     take batch_size (sort_key (\<lambda>(_, r). co_updated_at r) (filter (\<lambda>(_, r). waiting_for_chain r) (py_orders s)))"

definition work_order :: "'w operator_deps \<Rightarrow> string \<Rightarrow> card_order \<Rightarrow> ('w, bool) pact" where
  "work_order D i order =
     (if co_status order = OPaid then issue D i order
      else bnd (void_ticket D i order) (\<lambda>_. ret False))"

text \<open>Every order in turn; gives how many were processed and whether a ticket was issued.\<close>

fun work_orders :: "'w operator_deps \<Rightarrow> (string \<times> card_order) list \<Rightarrow> ('w, nat \<times> bool) pact" where
  "work_orders D [] = ret (0, False)"
| "work_orders D (x # xs) =
     bnd (attempt (work_order D (fst x) (snd x))) (\<lambda>r.
     bnd (case r of Inl _ \<Rightarrow> bnd (attempt (note_error D (fst x) (snd x) ''rpc_unavailable'')) (\<lambda>_. ret (0, False))
          | Inr issued \<Rightarrow> ret (1, issued)) (\<lambda>(n, issued).
     bnd (work_orders D xs) (\<lambda>(m, more). ret (n + m, issued \<or> more))))"

definition parked_errors :: "bool \<Rightarrow> string list" where
  "parked_errors issued =
     [''device_signature_missing'', ''device_signature_expired'', ''outcome_unknown''] @ (if issued then [] else [''reserve_exhausted''])"

definition waiting_count :: "bool \<Rightarrow> 'w pay_state \<Rightarrow> nat" where
  "waiting_count issued s =
     length (filter (\<lambda>(_, r). waiting_for_chain r
       \<and> (case co_last_error r of None \<Rightarrow> True | Some e \<Rightarrow> e \<notin> set (parked_errors issued))) (py_orders s))"

definition run_card_operator :: "'w operator_deps \<Rightarrow> ('w, nat \<times> nat) pact" where
  "run_card_operator D =
     bnd (stmt (op_runtime D) (reading orders_to_send)) (\<lambda>rows.
     bnd (work_orders D rows) (\<lambda>(processed, issued).
     bnd (stmt (op_runtime D) (reading (waiting_count issued))) (\<lambda>waiting. ret (processed, waiting))))"

section \<open>The operator object\<close>

definition retry_ms :: int where
  "retry_ms = 30000"

text \<open>The object's own alarm; \<open>fetch\<close> sets it when none is set and \<open>alarm\<close> runs the operator once.\<close>

definition operator_fetch :: "int \<Rightarrow> int option \<Rightarrow> int option" where
  "operator_fetch now_ms alarm = (case alarm of None \<Rightarrow> Some now_ms | Some t \<Rightarrow> Some t)"

definition operator_alarm :: "bool \<Rightarrow> 'w operator_deps \<Rightarrow> ('w, int option) pact" where
  "operator_alarm configured D =
     (if \<not> configured then ret None
      else bnd (run_card_operator D) (\<lambda>(_, waiting).
        bnd (reading (pr_now (op_runtime D))) (\<lambda>t. ret (if 0 < waiting then Some (t + retry_ms) else None))))"

end
