(* ===== verification/BookSteps.thy ===== *)
theory BookSteps
  imports CardOrders CardOperator Refunds
begin

text \<open>
  The card path's order book and the refund inbox as a state machine. \<open>order_move\<close> lists every change
  an \<open>UPDATE card_orders\<close> of the code makes to a row, \<open>pay_step\<close> every statement that changes the
  database, with the condition the code tests in that statement. The handlers are shown to make only
  such steps (theory \<open>BookRuns\<close>), while any number of steps of other requests run between two of their
  own; what the service promises then follows by induction over the steps.
\<close>

section \<open>Changes of an order\<close>

inductive order_edge :: "order_status \<Rightarrow> order_status \<Rightarrow> bool" where
  "order_edge OCreated OAwaiting"
| "order_edge OCreated OPaid"
| "order_edge OAwaiting OPaid"
| "order_edge OCreated OCancelled"
| "order_edge OAwaiting OCancelled"
| "order_edge OPaid OCancelled"
| "order_edge OPaid OIssued"
| "order_edge OPaid OVoidPending"
| "order_edge OIssued OVoidPending"
| "order_edge OVoidPending OVoided"
| "order_edge OVoidPending OCancelled"

inductive_cases order_edgeE: "order_edge a b"

inductive_simps order_edge_from [simp]:
  "order_edge OCreated b" "order_edge OAwaiting b" "order_edge OPaid b" "order_edge OIssued b"
  "order_edge OVoidPending b" "order_edge OVoided b" "order_edge OCancelled b"

text \<open>The columns no statement changes: what is sold, for how much, to which ticket key.\<close>

definition same_sale :: "card_order \<Rightarrow> card_order \<Rightarrow> bool" where
  "same_sale r r' =
     (co_provider r' = co_provider r \<and> co_provider_order_id r' = co_provider_order_id r \<and>
      co_reference_hmac r' = co_reference_hmac r \<and> co_publication_id r' = co_publication_id r \<and>
      co_creator_id r' = co_creator_id r \<and> co_ticket_id r' = co_ticket_id r \<and>
      co_ticket_public_key r' = co_ticket_public_key r \<and> co_consent_version r' = co_consent_version r \<and>
      co_gross_minor r' = co_gross_minor r \<and> co_currency r' = co_currency r \<and> co_created_at r' = co_created_at r)"

definition unpaid :: "card_order \<Rightarrow> bool" where
  "unpaid r = (co_status r \<in> {OCreated, OAwaiting})"

definition at_chain :: "card_order \<Rightarrow> bool" where
  "at_chain r = (co_status r \<in> {OPaid, OVoidPending})"

inductive order_move :: "card_order \<Rightarrow> card_order \<Rightarrow> bool" where
  om_sign: "unpaid r \<or> co_status r = OPaid \<Longrightarrow> co_pending_tx r = None \<Longrightarrow>
    order_move r (r\<lparr>co_device := Some d, co_status := (if co_status r = OCreated then OAwaiting else co_status r),
                    co_last_error := None, co_updated_at := t\<rparr>)"
| om_cancel: "unpaid r \<or> co_status r = OPaid \<Longrightarrow> co_pending_tx r = None \<Longrightarrow>
    order_move r (r\<lparr>co_status := OCancelled, co_void_reason := Some v, co_updated_at := t\<rparr>)"
| om_to_void: "co_status r = OPaid \<or> co_status r = OIssued \<Longrightarrow>
    order_move r (r\<lparr>co_status := OVoidPending, co_void_reason := Some v, co_attempts := 0, co_last_error := None,
                    co_updated_at := t\<rparr>)"
| om_note: "at_chain r \<Longrightarrow> order_move r (r\<lparr>co_last_error := e, co_updated_at := t\<rparr>)"
| om_park: "at_chain r \<Longrightarrow> order_move r (r\<lparr>co_last_error := e, co_attempts := max_send_attempts, co_updated_at := t\<rparr>)"
| om_send: "at_chain r \<Longrightarrow> n \<le> max_send_attempts \<Longrightarrow>
    order_move r (r\<lparr>co_pending_tx := Some h, co_attempts := n, co_updated_at := t\<rparr>)"
| om_release: "co_status r = OPaid \<Longrightarrow> order_move r (r\<lparr>co_pending_tx := None, co_updated_at := t\<rparr>)"
| om_fail: "co_status r = OPaid \<Longrightarrow> order_move r (r\<lparr>co_last_error := e, co_pending_tx := None, co_updated_at := t\<rparr>)"
| om_exhausted: "co_status r = OPaid \<Longrightarrow> n \<le> max_send_attempts \<Longrightarrow>
    order_move r (r\<lparr>co_last_error := e, co_pending_tx := None, co_attempts := n, co_updated_at := t\<rparr>)"
| om_issued: "co_status r = OPaid \<Longrightarrow>
    order_move r (r\<lparr>co_status := OIssued, co_issue_tx := h, co_pending_tx := None, co_last_error := None, co_updated_at := t\<rparr>)"
| om_void_cancel: "co_status r = OVoidPending \<Longrightarrow> co_issue_tx r = None \<Longrightarrow>
    order_move r (r\<lparr>co_status := OCancelled, co_pending_tx := None, co_last_error := None, co_updated_at := t\<rparr>)"
| om_voided: "co_status r = OVoidPending \<Longrightarrow>
    order_move r (r\<lparr>co_status := OVoided, co_void_tx := h, co_pending_tx := None, co_last_error := None, co_updated_at := t\<rparr>)"

definition fresh_order :: "card_order \<Rightarrow> bool" where
  "fresh_order r =
     (co_status r = OCreated \<and> co_pending_tx r = None \<and> co_issue_tx r = None \<and> co_void_tx r = None \<and> co_device r = None \<and>
      co_attempts r = 0 \<and> co_paid_at r = None \<and> co_void_reason r = None)"

text \<open>The event that pays an order: a purchase of its provider, of exactly its amount and currency.\<close>

definition pays :: "string \<Rightarrow> card_event \<Rightarrow> card_order \<Rightarrow> bool" where
  "pays provider e r =
     (valid_card_event e \<and> ce_kind e = EPurchase \<and> co_provider r = provider \<and> co_provider_order_id r = ce_order_id e \<and>
      co_gross_minor r = ce_amount_minor e \<and> co_currency r = ce_currency e)"

text \<open>A ledger row repeats the order's publication and creator; a sale is the order's whole price.\<close>

definition ledger_fits :: "card_order \<Rightarrow> ledger_row \<Rightarrow> bool" where
  "ledger_fits r g =
     (lg_publication_id g = co_publication_id r \<and> lg_creator_id g = co_creator_id r \<and>
      (if lg_kind g = LSale then lg_amount_minor g = co_gross_minor r \<and> lg_currency g = co_currency r \<and> 0 < lg_amount_minor g
       else lg_amount_minor g < 0))"

section \<open>Statements\<close>

inductive pay_step :: "'w pay_state \<Rightarrow> 'w pay_state \<Rightarrow> bool" where
  ps_outside: "pay_step s (s\<lparr>py_outside := w\<rparr>)"
| ps_key_check: "pay_step s (s\<lparr>py_key_check := k\<rparr>)"
| ps_open: "\<not> order_clashes i r (py_orders s) \<Longrightarrow> fresh_order r \<Longrightarrow> pay_step s (s\<lparr>py_orders := tput i r (py_orders s)\<rparr>)"
| ps_pay: "tget i (py_orders s) = Some r \<Longrightarrow> unpaid r \<Longrightarrow> pays p e r \<Longrightarrow> tget (p, ce_event_id e) (py_ledger s) \<noteq> None \<Longrightarrow>
    pay_step s (s\<lparr>py_orders := tput i (r\<lparr>co_status := OPaid, co_paid_at := Some (ce_occurred_at e), co_updated_at := t\<rparr>)
      (py_orders s)\<rparr>)"
| ps_move: "tget i (py_orders s) = Some r \<Longrightarrow> order_move r r' \<Longrightarrow> pay_step s (s\<lparr>py_orders := tput i r' (py_orders s)\<rparr>)"
| ps_ledger: "tget k (py_ledger s) = None \<Longrightarrow> tget (lg_order g) (py_orders s) = Some r \<Longrightarrow> ledger_fits r g \<Longrightarrow>
    pay_step s (s\<lparr>py_ledger := tput k g (py_ledger s)\<rparr>)"
| ps_event: "tget k (py_events s) = None \<Longrightarrow> pay_step s (s\<lparr>py_events := tput k v (py_events s)\<rparr>)"
| ps_refund: "\<not> refund_clashes i (rr_ticket_id q) (py_refunds s) \<Longrightarrow> rr_status q = ''pending'' \<Longrightarrow>
    pay_step s (s\<lparr>py_refunds := tput i q (py_refunds s)\<rparr>)"
| ps_decide: "tget i (py_refunds s) = Some q \<Longrightarrow> rr_status q = ''pending'' \<Longrightarrow> dn_decision d \<in> {''refunded'', ''declined''} \<Longrightarrow>
    pay_step s (s\<lparr>py_refunds := tput i (decided_row d t q) (py_refunds s)\<rparr>)"

text \<open>What any number of steps, of this request or of others, can reach.\<close>

abbreviation reach_from :: "'w pay_state \<Rightarrow> 'w pay_state \<Rightarrow> bool" where
  "reach_from s0 s \<equiv> pay_step^** s0 s"

section \<open>What steps keep\<close>

definition row_from :: "card_order \<Rightarrow> card_order \<Rightarrow> bool" where
  "row_from r r' =
     (same_sale r r' \<and> order_edge^** (co_status r) (co_status r') \<and>
      (co_status r \<notin> {OCreated, OAwaiting, OPaid} \<longrightarrow> co_issue_tx r' = co_issue_tx r))"

lemma row_from_refl [simp]: "row_from r r"
  by (simp add: row_from_def same_sale_def)

lemma edge_leaves_chain: "order_edge^** a b \<Longrightarrow> a \<notin> {OCreated, OAwaiting, OPaid} \<Longrightarrow> b \<notin> {OCreated, OAwaiting, OPaid}"
  by (induction rule: rtranclp_induct) (auto elim!: order_edgeE)

lemma row_from_trans: "row_from r r' \<Longrightarrow> row_from r' r'' \<Longrightarrow> row_from r r''"
  using edge_leaves_chain [of "co_status r" "co_status r'"]
  by (auto simp: row_from_def same_sale_def intro: rtranclp_trans)

lemma move_row_from: "order_move r r' \<Longrightarrow> row_from r r'"
  by (induction rule: order_move.induct) (auto simp: row_from_def same_sale_def unpaid_def at_chain_def)

lemma paid_row_from: "unpaid r \<Longrightarrow> row_from r (r\<lparr>co_status := OPaid, co_paid_at := a, co_updated_at := t\<rparr>)"
  by (auto simp: row_from_def same_sale_def unpaid_def)

lemma clash_free: "\<not> order_clashes i r t \<Longrightarrow> tget j t = Some x \<Longrightarrow>
   j \<noteq> i \<and> (co_provider x, co_provider_order_id x) \<noteq> (co_provider r, co_provider_order_id r) \<and>
   co_reference_hmac x \<noteq> co_reference_hmac r \<and> co_ticket_id x \<noteq> co_ticket_id r"
  by (auto simp: order_clashes_def list_ex_iff tget_def dest!: map_of_SomeD)

lemma step_row:
  "pay_step s s' \<Longrightarrow> tget i (py_orders s) = Some r \<Longrightarrow> \<exists>r'. tget i (py_orders s') = Some r' \<and> row_from r r'"
  by (induction rule: pay_step.induct) (auto dest: clash_free simp: move_row_from paid_row_from)

lemma steps_row:
  "reach_from s s' \<Longrightarrow> tget i (py_orders s) = Some r \<Longrightarrow> \<exists>r'. tget i (py_orders s') = Some r' \<and> row_from r r'"
proof (induction rule: rtranclp_induct)
  case (step t u)
  then show ?case using step_row row_from_trans by blast
qed auto

lemma step_ledger: "pay_step s s' \<Longrightarrow> tget k (py_ledger s) = Some g \<Longrightarrow> tget k (py_ledger s') = Some g"
  by (induction rule: pay_step.induct) auto

lemma steps_ledger: "reach_from s s' \<Longrightarrow> tget k (py_ledger s) = Some g \<Longrightarrow> tget k (py_ledger s') = Some g"
  by (induction rule: rtranclp_induct) (auto dest: step_ledger)

lemma step_events: "pay_step s s' \<Longrightarrow> tget k (py_events s) = Some v \<Longrightarrow> tget k (py_events s') = Some v"
  by (induction rule: pay_step.induct) auto

lemma steps_events: "reach_from s s' \<Longrightarrow> tget k (py_events s) = Some v \<Longrightarrow> tget k (py_events s') = Some v"
  by (induction rule: rtranclp_induct) (auto dest: step_events)

section \<open>One row per key\<close>

definition one_row_per_key :: "'w pay_state \<Rightarrow> bool" where
  "one_row_per_key s = (distinct (map fst (py_orders s)) \<and> distinct (map fst (py_refunds s)))"

lemma distinct_tput: "distinct (map fst t) \<Longrightarrow> distinct (map fst (tput k v t))"
  by (simp add: tput_def distinct_update)

lemma step_distinct: "pay_step s s' \<Longrightarrow> one_row_per_key s \<Longrightarrow> one_row_per_key s'"
  by (induction rule: pay_step.induct) (auto simp: one_row_per_key_def distinct_tput)

lemma steps_distinct: "reach_from s s' \<Longrightarrow> one_row_per_key s \<Longrightarrow> one_row_per_key s'"
  by (induction rule: rtranclp_induct) (auto dest: step_distinct)

lemma row_of_key: "distinct (map fst t) \<Longrightarrow> (k, v) \<in> set t \<Longrightarrow> tget k t = Some v"
  by (simp add: tget_def)

end
