(* ===== verification/BookRuns.thy ===== *)
theory BookRuns
  imports BookSteps
begin

text \<open>
  Every operation on the order book and the refund inbox makes only the steps of \<open>pay_step\<close>. What is
  awaited (the database, the chain, the provider) may itself make any number of steps: those of the
  requests that run meanwhile. The interface is the locale \<open>quiet_db\<close>; the operator's calls extend it.
\<close>

section \<open>Computations that only step\<close>

definition steps_only :: "('w, 'a) pact \<Rightarrow> bool" where
  "steps_only m = (\<forall>s0. keeps (reach_from s0) m)"

lemma steps_onlyI: "(\<And>s. reach_from s (snd (m s))) \<Longrightarrow> steps_only m"
  by (auto simp: steps_only_def keeps_def intro: rtranclp_trans)

lemma steps_onlyD: "steps_only m \<Longrightarrow> reach_from s (snd (m s))"
  by (simp add: steps_only_def keeps_def)

lemma steps_only_keeps: "steps_only m \<Longrightarrow> keeps (reach_from s0) m"
  by (simp add: steps_only_def)

named_theorems steps_rules \<open>computations that only make steps of the order book\<close>

lemma steps_ret [steps_rules, simp]: "steps_only (ret x)"
  by (simp add: steps_only_def)

lemma steps_throw [steps_rules, simp]: "steps_only (throw e)"
  by (simp add: steps_only_def)

lemma steps_reading [steps_rules, simp]: "steps_only (reading f)"
  by (simp add: steps_only_def)

lemma steps_lifting [steps_rules, simp]: "steps_only (lifting r)"
  by (simp add: steps_only_def)

lemma steps_require [steps_rules, simp]: "steps_only (require b e)"
  by (simp add: steps_only_def)

lemma steps_bnd [steps_rules]: "steps_only m \<Longrightarrow> (\<And>x. steps_only (k x)) \<Longrightarrow> steps_only (bnd m k)"
  by (simp add: steps_only_def keeps_bnd)

lemma steps_catch [steps_rules]: "steps_only m \<Longrightarrow> (\<And>e. steps_only (h e)) \<Longrightarrow> steps_only (catch m h)"
  by (simp add: steps_only_def keeps_catch)

lemma steps_attempt [steps_rules]: "steps_only m \<Longrightarrow> steps_only (attempt m)"
  by (simp add: steps_only_def keeps_attempt)

lemma steps_if [steps_rules]: "(b \<Longrightarrow> steps_only m) \<Longrightarrow> (\<not> b \<Longrightarrow> steps_only n) \<Longrightarrow> steps_only (if b then m else n)"
  by simp

lemma steps_option [steps_rules]:
  "(x = None \<Longrightarrow> steps_only m) \<Longrightarrow> (\<And>y. x = Some y \<Longrightarrow> steps_only (n y)) \<Longrightarrow>
   steps_only (case x of None \<Rightarrow> m | Some y \<Rightarrow> n y)"
  by (cases x) simp_all

lemma steps_sum [steps_rules]:
  "(\<And>y. x = Inl y \<Longrightarrow> steps_only (m y)) \<Longrightarrow> (\<And>y. x = Inr y \<Longrightarrow> steps_only (n y)) \<Longrightarrow>
   steps_only (case x of Inl y \<Rightarrow> m y | Inr y \<Rightarrow> n y)"
  by (cases x) simp_all

lemma steps_prod [steps_rules]:
  "(\<And>a b. x = (a, b) \<Longrightarrow> steps_only (m a b)) \<Longrightarrow> steps_only (case x of (a, b) \<Rightarrow> m a b)"
  by (cases x) simp_all

lemma steps_Let [steps_rules]: "steps_only (f x) \<Longrightarrow> steps_only (let y = x in f y)"
  by simp

lemma steps_writing: "(\<And>s. pay_step s (f s) \<or> f s = s) \<Longrightarrow> steps_only (writing f)"
  by (rule steps_onlyI) (metis r_into_rtranclp rtranclp.rtrancl_refl run_writing snd_conv)

text \<open>
  What a request read stays true of its past: the rest of the request is judged from the state it
  read, after which other requests may have run.
\<close>

lemma keeps_from_read:
  assumes "keeps (reach_from s0) m"
    and "\<And>s x t. m s = (Inr x, t) \<Longrightarrow> reach_from s0 t \<Longrightarrow> keeps (reach_from t) (k x)"
  shows "keeps (reach_from s0) (bnd m k)"
proof (rule keepsI)
  fix s assume s0: "reach_from s0 s"
  obtain r t where m: "m s = (r, t)" by fastforce
  have t: "reach_from s0 t" using keepsD [OF assms(1) s0] m by simp
  show "reach_from s0 (snd (bnd m k s))"
  proof (cases r)
    case (Inl e)
    then show ?thesis using m t by simp
  next
    case (Inr x)
    then have "reach_from t (snd (k x t))" using assms(2) [of s x t] m t by (simp add: keeps_def)
    then show ?thesis using m t Inr by (simp add: rtranclp_trans)
  qed
qed

section \<open>The database\<close>

locale quiet_db =
  fixes P :: "'w pay_runtime"
  assumes db: "steps_only (pr_db P)"
    and view: "steps_only (pr_view P c m a)"
    and random: "steps_only (pr_random P)"
begin

lemma stmt: "steps_only m \<Longrightarrow> steps_only (stmt P m)"
  by (simp add: stmt_def steps_bnd db)

lemma stmt_read: "steps_only (stmt P (reading f))"
  by (simp add: stmt)

text \<open>A row that is read is a row of the state read.\<close>

lemma stmt_result: "stmt P (reading f) s = (Inr x, t) \<Longrightarrow> x = f t"
  by (auto simp: stmt_def bnd_returns)

lemma from_read:
  "(\<And>t. reach_from s0 t \<Longrightarrow> keeps (reach_from t) (k (f t))) \<Longrightarrow> keeps (reach_from s0) (bnd (stmt P (reading f)) k)"
  by (rule keeps_from_read [OF steps_only_keeps [OF stmt_read]]) (auto dest: stmt_result)

lemma keeps_read: "keeps (reach_from s0) (stmt P (reading f))"
  by (rule steps_only_keeps [OF stmt_read])

lemma keeps_db: "keeps (reach_from s0) (pr_db P)"
  by (rule steps_only_keeps [OF db])

text \<open>An update of an order is a step when the condition it tests makes it one.\<close>

lemma update_order:
  assumes "\<And>s r. reach_from s0 s \<Longrightarrow> tget i (py_orders s) = Some r \<Longrightarrow> cond r \<Longrightarrow>
      pay_step s (s\<lparr>py_orders := tput i (f r) (py_orders s)\<rparr>)"
  shows "keeps (reach_from s0) (update_order P i cond f)"
  unfolding update_order_def stmt_def
proof (rule keeps_bnd [OF keeps_db], rule keepsI)
  fix s assume s: "reach_from s0 s"
  show "reach_from s0 (snd (bnd (reading (\<lambda>s. tget i (py_orders s))) (\<lambda>row. case row of None \<Rightarrow> ret False
      | Some r \<Rightarrow> if cond r then bnd (writing (\<lambda>s. s\<lparr>py_orders := tput i (f r) (py_orders s)\<rparr>)) (\<lambda>_. ret True)
          else ret False) s))"
    using assms [OF s] s by (auto simp: run_bnd split: option.splits intro: rtranclp.rtrancl_into_rtrancl)
qed

lemma move_order:
  assumes "\<And>s r. reach_from s0 s \<Longrightarrow> tget i (py_orders s) = Some r \<Longrightarrow> cond r \<Longrightarrow> order_move r (f r)"
  shows "keeps (reach_from s0) (update_order P i cond f)"
  using assms by (intro update_order ps_move) auto

lemma insert_order: "fresh_order r \<Longrightarrow> steps_only (insert_order P i r)"
  unfolding insert_order_def
  by (intro stmt steps_onlyI) (auto simp: run_bnd intro: ps_open)

lemma insert_event: "steps_only (insert_event P provider e i outcome t)"
  unfolding insert_event_def by (intro stmt steps_writing) (auto intro: ps_event)

lemma insert_refund: "rr_status q = ''pending'' \<Longrightarrow> steps_only (insert_refund P i q)"
  unfolding insert_refund_def
  by (intro stmt steps_onlyI) (auto simp: run_bnd intro: ps_refund)

lemma update_refund: "dn_decision d \<in> {''refunded'', ''declined''} \<Longrightarrow> steps_only (update_refund P i (decided_row d t))"
  unfolding update_refund_def
  by (intro stmt steps_onlyI) (auto simp: run_bnd split: option.splits intro: ps_decide)

section \<open>Provider events\<close>

lemma row_now: "reach_from s0 s \<Longrightarrow> tget i (py_orders s0) = Some order \<Longrightarrow> tget i (py_orders s) = Some r \<Longrightarrow> row_from order r"
  using steps_row by fastforce

lemma insert_ledger:
  assumes "tget i (py_orders s0) = Some order" and "0 < ce_amount_minor e"
    and "kind = LSale \<Longrightarrow> ce_amount_minor e = co_gross_minor order \<and> ce_currency e = co_currency order"
  shows "keeps (reach_from s0) (insert_ledger P provider e i order kind)"
  unfolding insert_ledger_def stmt_def
proof (rule keeps_bnd [OF keeps_db], rule keeps_writing)
  let ?k = "(provider, ce_event_id e)"
  let ?g = "\<lparr>lg_order = i, lg_kind = kind, lg_amount_minor = (if kind = LSale then ce_amount_minor e else - ce_amount_minor e),
      lg_currency = ce_currency e, lg_publication_id = co_publication_id order, lg_creator_id = co_creator_id order,
      lg_occurred_at = ce_occurred_at e\<rparr>"
  fix s assume s: "reach_from s0 s"
  obtain r where r: "tget i (py_orders s) = Some r" "row_from order r" using steps_row [OF s assms(1)] by blast
  have "ledger_fits r ?g"
    using r(2) assms(2,3) by (auto simp: ledger_fits_def row_from_def same_sale_def)
  then have "pay_step s (s\<lparr>py_ledger := tput ?k ?g (py_ledger s)\<rparr>)" if "tget ?k (py_ledger s) = None"
    using that r(1) by (intro ps_ledger) auto
  then show "reach_from s0 (if tget ?k (py_ledger s) \<noteq> None then s else s\<lparr>py_ledger := tput ?k ?g (py_ledger s)\<rparr>)"
    using s by (auto intro: rtranclp.rtrancl_into_rtrancl)
qed

lemma insert_ledger_row:
  "insert_ledger P provider e i order kind s = (Inr x, t) \<Longrightarrow> tget (provider, ce_event_id e) (py_ledger t) \<noteq> None"
  by (auto simp: insert_ledger_def stmt_def bnd_returns)

lemma pay_transition:
  assumes "tget i (py_orders s0) = Some order" and "pays provider e order"
    and "tget (provider, ce_event_id e) (py_ledger s0) \<noteq> None"
  shows "keeps (reach_from s0)
     (transition P i [OCreated, OAwaiting] (\<lambda>r. r\<lparr>co_status := OPaid, co_paid_at := Some (ce_occurred_at e)\<rparr>) False t)"
  unfolding transition_def
proof (rule update_order)
  fix s r
  assume s: "reach_from s0 s" and r: "tget i (py_orders s) = Some r"
    and c: "co_status r \<in> set [OCreated, OAwaiting] \<and> (False \<longrightarrow> co_pending_tx r = None)"
  have "pays provider e r" using assms(2) row_now [OF s assms(1) r] by (auto simp: pays_def row_from_def same_sale_def)
  moreover have "tget (provider, ce_event_id e) (py_ledger s) \<noteq> None" using steps_ledger [OF s] assms(3) by fastforce
  ultimately show "pay_step s (s\<lparr>py_orders := tput i ((r\<lparr>co_status := OPaid, co_paid_at := Some (ce_occurred_at e)\<rparr>)
      \<lparr>co_updated_at := t\<rparr>) (py_orders s)\<rparr>)"
    using r c by (intro ps_pay) (auto simp: unpaid_def)
qed

lemma close_order: "keeps (reach_from s0) (close_order P i order reason t)"
proof -
  have cancel: "keeps (reach_from s0)
      (transition P i [co_status order] (\<lambda>r. r\<lparr>co_status := OCancelled, co_void_reason := Some reason\<rparr>) True t)"
    if "co_status order = OCreated \<or> co_status order = OAwaiting \<or> co_status order = OPaid \<and> co_pending_tx order = None"
    unfolding transition_def
  proof (rule move_order)
    fix s and r :: card_order
    assume c: "co_status r \<in> set [co_status order] \<and> (True \<longrightarrow> co_pending_tx r = None)"
    show "order_move r ((r\<lparr>co_status := OCancelled, co_void_reason := Some reason\<rparr>)\<lparr>co_updated_at := t\<rparr>)"
      using c that by (intro om_cancel) (auto simp: unpaid_def)
  qed
  have void: "keeps (reach_from s0) (transition P i [OPaid, OIssued]
      (\<lambda>r. r\<lparr>co_status := OVoidPending, co_void_reason := Some reason, co_attempts := 0, co_last_error := None\<rparr>) False t)"
    unfolding transition_def
  proof (rule move_order)
    fix s and r :: card_order
    assume c: "co_status r \<in> set [OPaid, OIssued] \<and> (False \<longrightarrow> co_pending_tx r = None)"
    show "order_move r ((r\<lparr>co_status := OVoidPending, co_void_reason := Some reason, co_attempts := 0, co_last_error := None\<rparr>)
        \<lparr>co_updated_at := t\<rparr>)"
      using c by (intro om_to_void) auto
  qed
  show ?thesis unfolding close_order_def by (intro keeps_rules cancel void)
qed

lemma apply_to_order:
  assumes row: "tget i (py_orders s0) = Some order" and e: "valid_card_event e"
    and "co_provider order = provider" and "co_provider_order_id order = ce_order_id e"
  shows "keeps (reach_from s0) (apply_to_order P provider e i order t)"
proof -
  have amount: "0 < ce_amount_minor e" using e by (simp add: valid_card_event_def)
  have pay: "keeps (reach_from s0)
      (bnd (insert_ledger P provider e i order LSale) (\<lambda>_.
       bnd (transition P i [OCreated, OAwaiting] (\<lambda>r. r\<lparr>co_status := OPaid, co_paid_at := Some (ce_occurred_at e)\<rparr>) False t)
         (\<lambda>changed. ret (if changed then Applied else OrderNotOpen))))"
    if kind: "ce_kind e = EPurchase" and same: "ce_amount_minor e = co_gross_minor order" "ce_currency e = co_currency order"
  proof (rule keeps_from_read [OF insert_ledger [OF row amount]])
    fix s x u
    assume u: "insert_ledger P provider e i order LSale s = (Inr x, u)" "reach_from s0 u"
    obtain r where r: "tget i (py_orders u) = Some r" "row_from order r" using steps_row [OF u(2) row] by blast
    have "pays provider e r"
      using e kind same assms(3,4) r(2) by (auto simp: pays_def row_from_def same_sale_def)
    then show "keeps (reach_from u)
       (bnd (transition P i [OCreated, OAwaiting] (\<lambda>r. r\<lparr>co_status := OPaid, co_paid_at := Some (ce_occurred_at e)\<rparr>) False t)
         (\<lambda>changed. ret (if changed then Applied else OrderNotOpen)))"
      using r(1) insert_ledger_row [OF u(1)] by (intro keeps_bnd pay_transition keeps_ret)
  qed (use same in simp)
  have close: "keeps (reach_from s0)
      (bnd (insert_ledger P provider e i order (ledger_kind_of (ce_kind e))) (\<lambda>_.
       bnd (close_order P i order (reason_of (ce_kind e)) t) (\<lambda>closed. ret (if closed then Applied else AlreadyClosed))))"
    by (intro keeps_rules insert_ledger [OF row amount] close_order) (simp_all add: ledger_kind_of_def split: if_splits)
  show ?thesis unfolding apply_to_order_def using pay close by (intro keeps_if) auto
qed

lemma apply_card_event:
  assumes "one_row_per_key s0"
  shows "keeps (reach_from s0) (apply_card_event P provider e t)"
proof -
  have "keeps (reach_from s0)
      (bnd (case found of None \<Rightarrow> ret UnknownOrder | Some (i, order) \<Rightarrow> apply_to_order P provider e i order t) (\<lambda>outcome.
       bnd (insert_event P provider e (map_option fst found) outcome t) (\<lambda>_. ret outcome)))"
    if "valid_card_event e" "one_row_per_key s0"
      and found: "found = find_row (\<lambda>_ r. co_provider r = provider \<and> co_provider_order_id r = ce_order_id e) (py_orders s0)" for found s0
  proof -
    have "keeps (reach_from s0) (apply_to_order P provider e i order t)" if "found = Some (i, order)" for i order
    proof -
      have "(i, order) \<in> set (py_orders s0)" "co_provider order = provider" "co_provider_order_id order = ce_order_id e"
        using that found by (auto simp: find_row_def dest!: find_result)
      then show ?thesis
        using \<open>one_row_per_key s0\<close> \<open>valid_card_event e\<close> by (intro apply_to_order row_of_key) (auto simp: one_row_per_key_def)
    qed
    then show ?thesis
      by (intro keeps_rules steps_only_keeps [OF insert_event]) auto
  qed
  then show ?thesis
    unfolding apply_card_event_def
    using assms
    by (intro keeps_require_bnd from_read keeps_if keeps_ret) (auto dest: steps_distinct)
qed

section \<open>Orders and refund requests\<close>

lemma read_publication: "steps_only (read_purchasable_publication (pr_view P) c i)"
  unfolding read_purchasable_publication_def by (intro steps_rules view)

lemma create_card_order:
  assumes "\<And>x. steps_only (cp_create_order provider x)"
  shows "steps_only (create_card_order P provider contract secret t country req)"
  unfolding create_card_order_def Let_def
  by (intro steps_rules read_publication view random stmt_read assms insert_order)
    (simp add: fresh_order_def new_order_def)

lemma sign_card_order: "steps_only (sign_card_order P network contract t i device)"
proof -
  have "keeps (reach_from s0) (update_order P i (\<lambda>r. co_status r = co_status order \<and> co_pending_tx r = None)
      (\<lambda>r. r\<lparr>co_device := Some d, co_status := (if co_status order = OCreated then OAwaiting else co_status order),
             co_last_error := None, co_updated_at := t\<rparr>))"
    if "co_status order \<in> {OCreated, OAwaiting, OPaid}" for s0 d and order :: card_order
  proof (rule move_order)
    fix s and r :: card_order
    assume c: "co_status r = co_status order \<and> co_pending_tx r = None"
    show "order_move r (r\<lparr>co_device := Some d, co_status := (if co_status order = OCreated then OAwaiting else co_status order),
        co_last_error := None, co_updated_at := t\<rparr>)"
      unfolding c [THEN conjunct1, symmetric] using c that by (intro om_sign) (auto simp: unpaid_def)
  qed
  then show ?thesis
    unfolding sign_card_order_def select_order_def Let_def steps_only_def
    by (auto intro!: keeps_require_bnd keeps_bnd keeps_read keeps_option)
qed

lemma store_refund: "steps_only (store_refund_request P input publication t)"
  unfolding store_refund_request_def Let_def
  by (intro steps_rules stmt_read random insert_refund) (simp add: new_refund_def)

lemma verify_refund: "steps_only (verify_refund_request C (pr_view P) network contract t input)"
  unfolding verify_refund_request_def Let_def by (intro steps_rules view)

lemma list_refunds: "steps_only (list_refund_requests P status)"
  unfolding list_refund_requests_def by (intro steps_rules stmt_read)

lemma decide_refund:
  assumes "dn_decision d \<in> {''refunded'', ''declined''}"
  shows "steps_only (decide_refund_request P contract i d t)"
  unfolding decide_refund_request_def by (intro steps_rules stmt_read view update_refund assms)

end

section \<open>The operator\<close>

locale quiet_operator = quiet_db "op_runtime D" for D :: "'w operator_deps" +
  assumes sign: "steps_only (op_sign D m a n)"
    and send: "steps_only (op_send D h)"
    and tx_status: "steps_only (op_tx_status D h)"
begin

lemma read_ticket: "steps_only (read_ticket D ticket)"
  by (simp add: read_ticket_def view)

lemmas keeps_calls = steps_only_keeps [OF read_ticket] steps_only_keeps [OF sign] steps_only_keeps [OF send]
  steps_only_keeps [OF tx_status]

lemma update_read:
  assumes "\<And>s r t. reach_from s0 s \<Longrightarrow> tget i (py_orders s) = Some r \<Longrightarrow> co_status r = co_status order \<Longrightarrow>
     order_move r ((f r)\<lparr>co_updated_at := t\<rparr>)"
  shows "keeps (reach_from s0) (update_read D i order f)"
  unfolding update_read_def using assms by (intro keeps_bnd keeps_reading move_order)

lemma note_error: "at_chain order \<Longrightarrow> keeps (reach_from s0) (note_error D i order code)"
  unfolding note_error_def by (intro keeps_bnd keeps_ret update_read om_note) (simp add: at_chain_def)

lemma send_issue:
  assumes "co_status order = OPaid" and "co_attempts order < max_send_attempts"
  shows "keeps (reach_from s0) (send_issue D i order d)"
proof -
  have "at_chain order" using assms(1) by (simp add: at_chain_def)
  then show ?thesis
    unfolding send_issue_def using assms
    by (intro keeps_bnd keeps_if keeps_ret keeps_calls note_error update_read)
      (auto intro: om_send om_issued om_exhausted om_fail simp: at_chain_def)
qed

lemma issue_fresh:
  assumes "co_status order = OPaid" and "co_attempts order < max_send_attempts"
  shows "keeps (reach_from s0) (issue_fresh D i order)"
  unfolding issue_fresh_def using assms
  by (intro keeps_rules note_error send_issue) (auto simp: at_chain_def)

lemma issue:
  assumes "co_status order = OPaid" and "co_attempts order < max_send_attempts"
  shows "keeps (reach_from s0) (issue D i order)"
  unfolding issue_def using assms
  by (intro keeps_rules keeps_calls note_error issue_fresh update_read)
    (auto intro: om_park om_issued om_release simp: at_chain_def)

lemma void_ticket:
  assumes row: "tget i (py_orders s0) = Some order"
    and "co_status order = OVoidPending" and "co_attempts order < max_send_attempts"
  shows "keeps (reach_from s0) (void_ticket D i order)"
proof -
  have cancel: "order_move r ((r\<lparr>co_status := OCancelled, co_pending_tx := None, co_last_error := None\<rparr>)\<lparr>co_updated_at := t\<rparr>)"
    if "reach_from s0 s" "tget i (py_orders s) = Some r" "co_status r = co_status order" "co_issue_tx order = None" for s r t
    using row_now [OF that(1) row that(2)] that(3,4) assms(2) by (intro om_void_cancel) (auto simp: row_from_def)
  have "at_chain order" using assms(2) by (simp add: at_chain_def)
  then have "keeps (reach_from s0) (send_void D i order)"
    unfolding send_void_def using assms
    by (intro keeps_rules keeps_calls note_error update_read) (auto intro: om_send om_voided simp: at_chain_def)
  then show ?thesis
    unfolding void_ticket_def using assms cancel \<open>at_chain order\<close>
    by (intro keeps_rules keeps_calls note_error update_read) (auto intro: om_voided om_park simp: at_chain_def)
qed

lemma work_order:
  assumes "tget i (py_orders s0) = Some order" and "waiting_for_chain order"
  shows "keeps (reach_from s0) (work_order D i order)"
  unfolding work_order_def using assms
  by (intro keeps_rules issue void_ticket) (auto simp: waiting_for_chain_def)

lemma work_orders:
  "(\<And>x. x \<in> set xs \<Longrightarrow> tget (fst x) (py_orders s0) = Some (snd x) \<and> waiting_for_chain (snd x)) \<Longrightarrow>
   keeps (reach_from s0) (work_orders D xs)"
proof (induction xs)
  case (Cons x xs)
  have x: "tget (fst x) (py_orders s0) = Some (snd x)" "waiting_for_chain (snd x)" using Cons.prems [of x] by simp_all
  then have "at_chain (snd x)" by (auto simp: waiting_for_chain_def at_chain_def)
  moreover have "keeps (reach_from s0) (work_orders D xs)" using Cons by simp
  ultimately show ?case
    unfolding work_orders.simps by (intro keeps_rules work_order note_error x)
qed simp

lemma run_card_operator:
  assumes "one_row_per_key s0"
  shows "keeps (reach_from s0) (run_card_operator D)"
  unfolding run_card_operator_def
proof (rule from_read)
  fix t assume t: "reach_from s0 t"
  have "tget (fst x) (py_orders t) = Some (snd x) \<and> waiting_for_chain (snd x)" if "x \<in> set (orders_to_send t)" for x
  proof -
    from that have "x \<in> set (py_orders t)" "waiting_for_chain (snd x)"
      by (auto simp: orders_to_send_def dest!: in_set_takeD)
    then show ?thesis using steps_distinct [OF t assms] row_of_key [of "py_orders t" "fst x" "snd x"]
      by (simp add: one_row_per_key_def)
  qed
  then show "keeps (reach_from t) (bnd (work_orders D (orders_to_send t)) (\<lambda>(processed, issued).
      bnd (stmt (op_runtime D) (reading (waiting_count issued))) (\<lambda>waiting. ret (processed, waiting))))"
    by (intro keeps_bnd work_orders keeps_prod keeps_read keeps_ret)
qed

lemma operator_alarm: "one_row_per_key s0 \<Longrightarrow> keeps (reach_from s0) (operator_alarm configured D)"
  unfolding operator_alarm_def by (intro keeps_rules run_card_operator)

end

end
