(* ===== verification/PaymentRuns.thy ===== *)
theory PaymentRuns
  imports PayFront BookRuns
begin

text \<open>
  The payment service as a whole: every request and every run of the operator makes only the steps of
  \<open>pay_step\<close>, so the promises below hold over any run of requests and alarms, with any interleaving.
\<close>

section \<open>What a request needs of its surroundings\<close>

text \<open>A card provider whose calls only step.\<close>

definition quiet_provider :: "'w pay_state card_provider \<Rightarrow> bool" where
  "quiet_provider p =
     ((\<forall>x. steps_only (cp_create_order p x)) \<and>
      (\<forall>f. cp_checkout_session p = Some f \<longrightarrow> (\<forall>i o'. steps_only (f i o'))) \<and>
      (\<forall>rq. steps_only (cp_parse_webhook p rq)))"

locale quiet_front = quiet_db "pf_runtime F" for F :: "'w pay_front" +
  assumes provider: "pf_provider F = Some p \<Longrightarrow> quiet_provider p"
    and fetch: "steps_only (cw_fetch (pf_cleeng F) u b t)"
    and limiter: "pf_limiter F = Some limit \<Longrightarrow> steps_only (limit k)"
    and funnel: "steps_only (pf_funnel F d)"
    and wake: "steps_only (pf_wake F)"
begin

lemma keeps_reading_bnd: "(\<And>s. keeps Q (k (f s))) \<Longrightarrow> keeps Q (bnd (reading f) k)"
  by (simp add: keeps_def run_bnd)

lemma cleeng_call: "steps_only (cleeng_call (pf_cleeng F) cfg url body)"
  unfolding cleeng_call_def by (intro steps_rules fetch)

lemma read_field: "steps_only (read_field k v)"
  unfolding read_field_def by (intro steps_rules)

lemma cleeng_session: "steps_only (cleeng_session (pf_cleeng F) env cfg i)"
  unfolding cleeng_session_def by (intro steps_rules cleeng_call read_field)

lemma cleeng_provider: "quiet_provider (cleeng_provider C (pf_cleeng F) env cfg)"
  unfolding quiet_provider_def cleeng_provider_def cleeng_create_order_def cleeng_checkout_def
  by (auto intro!: steps_rules cleeng_call read_field cleeng_session)

text \<open>The context of the card routes.\<close>

lemma card_context:
  assumes "card_context_of F e cfg rq s = Some X"
  shows "cc_runtime X = pf_runtime F \<and> cc_wake X = pf_wake F \<and> quiet_provider (cc_provider X)"
proof -
  have "quiet_provider p"
    if "(case pf_provider F of Some p \<Rightarrow> Some p
         | None \<Rightarrow> map_option (cleeng_provider (pr_crypto (pf_runtime F)) (pf_cleeng F) Sandbox) (cleeng_config e)) = Some p" for p
    using that provider cleeng_provider by (auto split: option.splits)
  then show ?thesis
    using assms by (auto simp: card_context_of_def Let_def split: option.splits if_splits)
qed

end

section \<open>Requests\<close>

context quiet_front
begin

lemmas steps_parts = steps_only_keeps [OF stmt_read] steps_only_keeps [OF view] steps_only_keeps [OF random]
  steps_only_keeps [OF read_publication] steps_only_keeps [OF sign_card_order] steps_only_keeps [OF store_refund]
  steps_only_keeps [OF verify_refund] steps_only_keeps [OF list_refunds] steps_only_keeps [OF limiter]
  steps_only_keeps [OF funnel] steps_only_keeps [OF wake]

text \<open>In the next lemmas \<open>X\<close> is a context that \<open>card_context_of\<close> gives.\<close>

lemma found_order: "cc_runtime X = pf_runtime F \<Longrightarrow> keeps (reach_from s0) (found_order X i)"
  unfolding found_order_def select_order_def by (simp, intro keeps_rules steps_parts)

lemma open_order:
  "cc_runtime X = pf_runtime F \<Longrightarrow> quiet_provider (cc_provider X) \<Longrightarrow> keeps (reach_from s0) (open_order X body cors)"
  unfolding open_order_def
  by (auto intro!: keeps_rules steps_only_keeps [OF create_card_order] simp: quiet_provider_def split: prod.split)

lemma new_checkout:
  "cc_runtime X = pf_runtime F \<Longrightarrow> quiet_provider (cc_provider X) \<Longrightarrow> keeps (reach_from s0) (new_checkout X i cors)"
  unfolding new_checkout_def
  by (intro keeps_rules found_order steps_only_keeps) (auto simp: quiet_provider_def)

lemma sign_order:
  "cc_runtime X = pf_runtime F \<Longrightarrow> cc_wake X = pf_wake F \<Longrightarrow> keeps (reach_from s0) (sign_order X i body cors)"
  unfolding sign_order_def by (auto intro!: keeps_rules steps_parts)

lemma card_public:
  assumes "cc_runtime X = pf_runtime F \<and> cc_wake X = pf_wake F \<and> quiet_provider (cc_provider X)"
  shows "keeps (reach_from s0) (handle_card_public X method path body cors)"
  unfolding handle_card_public_def Let_def
  using assms open_order new_checkout sign_order found_order
  by (intro keeps_catch keeps_ret) (auto intro!: keeps_rules split: card_path.split)

lemma apply_events:
  "one_row_per_key s0 \<Longrightarrow> cc_runtime X = pf_runtime F \<Longrightarrow> keeps (reach_from s0) (apply_events X es)"
  by (induction es) (auto intro!: keeps_rules apply_card_event)

lemma card_webhook:
  assumes "one_row_per_key s0"
    and "cc_runtime X = pf_runtime F \<and> cc_wake X = pf_wake F \<and> quiet_provider (cc_provider X)"
  shows "keeps (reach_from s0) (handle_card_webhook X rq)"
proof -
  have "steps_only (cp_parse_webhook (cc_provider X) rq)" using assms(2) by (simp add: quiet_provider_def)
  then show ?thesis
    unfolding handle_card_webhook_def using assms
    by (intro keeps_rules apply_events steps_only_keeps [OF wake] steps_only_keeps [where m = "cp_parse_webhook (cc_provider X) rq"])
      (auto intro: steps_only_keeps [OF wake])
qed

lemma card_internal:
  assumes "one_row_per_key s0"
    and "cc_runtime X = pf_runtime F \<and> cc_wake X = pf_wake F \<and> quiet_provider (cc_provider X)"
  shows "keeps (reach_from s0) (handle_card_internal X method path status after body)"
proof -
  have "keeps (reach_from s0) (list_orders X status after)" "keeps (reach_from s0) (list_ledger X)"
      "keeps (reach_from s0) (report_event X body)"
    using assms apply_card_event [OF assms(1)] steps_only_keeps [OF wake] steps_only_keeps [OF stmt_read]
    unfolding list_orders_def list_ledger_def report_event_def Let_def
    by (auto intro!: keeps_rules split: prod.split option.split)
  then show ?thesis unfolding handle_card_internal_def by (intro keeps_rules) auto
qed

lemma key_check: "keeps (reach_from s0) (assert_key_registered (pf_runtime F) cfg t)"
  unfolding assert_key_registered_def
  by (intro keeps_rules keeps_writing steps_parts) (auto intro: rtranclp.rtrancl_into_rtrancl ps_key_check)

lemma vat: "keeps (reach_from s0) (handle_vat (pf_runtime F) cfg body cors)"
  unfolding handle_vat_def attest_request_def by (intro keeps_rules key_check steps_parts)

lemma refund: "keeps (reach_from s0) (handle_refund (pf_runtime F) cfg body cors)"
  unfolding handle_refund_def by (intro keeps_rules steps_parts)

lemma decided: "parse_decision body = Inr d \<Longrightarrow> dn_decision d \<in> {''refunded'', ''declined''}"
  by (auto simp: parse_decision_def Let_def split: if_splits)

lemma pay_internal:
  assumes "one_row_per_key s0"
  shows "keeps (reach_from s0) (handle_pay_internal F e cfg rq)"
  unfolding handle_pay_internal_def Let_def
  by (intro keeps_if keeps_ret keeps_reading_bnd keeps_catch keeps_lifting_bnd keeps_bnd keeps_option
      card_internal [OF assms] card_context steps_parts steps_only_keeps [OF decide_refund] decided)

lemma funnel_request: "keeps (reach_from s0) (handle_funnel F e body cors)"
  unfolding handle_funnel_def by (intro keeps_rules steps_parts)

lemma card_request: "keeps (reach_from s0) (handle_card_request F e cfg rq cors)"
  unfolding handle_card_request_def
  by (intro keeps_reading_bnd keeps_option keeps_if keeps_ret card_public card_context)

lemma allowed: "keeps (reach_from s0) (handle_allowed F e cfg rq cors)"
  unfolding handle_allowed_def Let_def
  by (intro keeps_rules card_request refund funnel_request vat steps_parts)

lemma webhook_request: "one_row_per_key s0 \<Longrightarrow> keeps (reach_from s0) (handle_webhook_request F e cfg rq)"
  unfolding handle_webhook_request_def
  by (intro keeps_reading_bnd keeps_option keeps_if keeps_ret card_webhook card_context)

lemma request: "one_row_per_key s0 \<Longrightarrow> keeps (reach_from s0) (pay_handle F e rq)"
  unfolding pay_handle_def Let_def
  by (intro keeps_option keeps_if keeps_ret pay_internal webhook_request allowed)

lemma scheduled: "keeps (reach_from s0) (pay_scheduled F e)"
  unfolding pay_scheduled_def by (intro keeps_if keeps_ret steps_parts)

end

end
