(* ===== verification/PaymentWorld.thy ===== *)
theory PaymentWorld
  imports PaymentRuns
begin

text \<open>
  The payment service on its own: a runtime whose view, clock, random bytes, near signer, provider,
  limiter and dataset act on the outside world only. It satisfies the interfaces the other theories
  rely on, so they hold of it; a concrete world gives the values the properties are applied to.
\<close>

section \<open>A service whose calls stay outside\<close>

definition outside :: "('w, 'a) act \<Rightarrow> ('w, 'a) pact" where
  "outside m s = (case m (py_outside s) of (r, w) \<Rightarrow> (r, s\<lparr>py_outside := w\<rparr>))"

lemma steps_outside [steps_rules]: "steps_only (outside m)"
  by (rule steps_onlyI) (auto simp: outside_def split: prod.splits intro: r_into_rtranclp ps_outside)

text \<open>
  What \<open>fetch\<close>, \<open>near-api-js\<close>, the rate limiter, the analytics dataset and the operator object do,
  each a computation on the outside world.
\<close>

record 'w surroundings =
  sr_crypto :: crypto
  sr_rpc_url :: string
  sr_fetch :: "string \<Rightarrow> string \<Rightarrow> ('w, bool \<times> json option) act"
  sr_fetch_token :: "string \<Rightarrow> string \<Rightarrow> string \<Rightarrow> ('w, bool \<times> json option) act"
  sr_clock :: "'w \<Rightarrow> int"
  sr_random :: "('w, bytes) act"
  sr_db :: "('w, unit) act"
  sr_sign :: "string \<Rightarrow> json \<Rightarrow> int \<Rightarrow> ('w, string) act"
  sr_send :: "string \<Rightarrow> ('w, json) act"
  sr_tx_status :: "string \<Rightarrow> ('w, json) act"
  sr_limit :: "(string \<Rightarrow> ('w, bool) act) option"
  sr_point :: "data_point \<Rightarrow> ('w, unit) act"
  sr_wake :: "('w, unit) act"

definition service_runtime :: "'w surroundings \<Rightarrow> 'w pay_runtime" where
  "service_runtime W =
     \<lparr>pr_crypto = sr_crypto W, pr_view = rpc_view (sr_rpc_url W) (\<lambda>u b. outside (sr_fetch W u b)),
      pr_now = (\<lambda>s. sr_clock W (py_outside s)), pr_db = outside (sr_db W), pr_random = outside (sr_random W)\<rparr>"

definition service_operator :: "'w surroundings \<Rightarrow> string \<Rightarrow> 'w operator_deps" where
  "service_operator W contract =
     \<lparr>op_runtime = service_runtime W, op_contract = contract, op_sign = (\<lambda>m a g. outside (sr_sign W m a g)),
      op_send = (\<lambda>h. near_outcome (outside (sr_send W h))), op_tx_status = (\<lambda>h. near_outcome (outside (sr_tx_status W h)))\<rparr>"

definition service_front :: "'w surroundings \<Rightarrow> 'w pay_front" where
  "service_front W =
     \<lparr>pf_runtime = service_runtime W, pf_provider = None,
      pf_cleeng = \<lparr>cw_fetch = (\<lambda>u b k. outside (sr_fetch_token W u b k)), cw_now = (\<lambda>s. sr_clock W (py_outside s))\<rparr>,
      pf_limiter = map_option (\<lambda>f k. outside (f k)) (sr_limit W), pf_funnel = (\<lambda>d. outside (sr_point W d)),
      pf_wake = outside (sr_wake W)\<rparr>"

lemma steps_rpc_view: "(\<And>u b. steps_only (fetcher u b)) \<Longrightarrow> steps_only (rpc_view url fetcher c m a)"
  unfolding rpc_view_def by (intro steps_rules) auto

lemma steps_near_outcome: "steps_only m \<Longrightarrow> steps_only (near_outcome m)"
  unfolding near_outcome_def by (intro steps_rules)

lemma service_runtime_calls [simp]:
  "pr_db (service_runtime W) = outside (sr_db W)" "pr_random (service_runtime W) = outside (sr_random W)"
  "pr_view (service_runtime W) = rpc_view (sr_rpc_url W) (\<lambda>u b. outside (sr_fetch W u b))"
  "pr_crypto (service_runtime W) = sr_crypto W"
  by (simp_all add: service_runtime_def)

lemma service_operator_runtime [simp]: "op_runtime (service_operator W c) = service_runtime W"
  by (simp add: service_operator_def)

lemma service_front_runtime [simp]: "pf_runtime (service_front W) = service_runtime W"
  by (simp add: service_front_def)

interpretation service_db: quiet_db "service_runtime W" for W :: "'w surroundings"
  by unfold_locales (simp_all add: steps_outside steps_rpc_view)

interpretation service_chain: quiet_operator "service_operator W contract" for W :: "'w surroundings" and contract
  by unfold_locales (simp_all add: service_operator_def steps_outside steps_rpc_view steps_near_outcome)

interpretation service_http: quiet_front "service_front W" for W :: "'w surroundings"
  by unfold_locales (auto simp: service_front_def steps_outside steps_rpc_view)

section \<open>A concrete world\<close>

text \<open>A clock that stands still, a chain that shows no ticket, and a database that never fails.\<close>

definition sample_surroundings :: "int surroundings" where
  "sample_surroundings =
     \<lparr>sr_crypto = sample_crypto, sr_rpc_url = ''https://rpc.example'',
      sr_fetch = (\<lambda>_ _. ret (True, Some JNull)), sr_fetch_token = (\<lambda>_ _ _. ret (True, Some JNull)),
      sr_clock = id, sr_random = ret (sample_bytes 16), sr_db = ret (), sr_sign = (\<lambda>_ _ _. ret ''hash''),
      sr_send = (\<lambda>_. ret JNull), sr_tx_status = (\<lambda>_. ret JNull), sr_limit = None, sr_point = (\<lambda>_. ret ()), sr_wake = ret ()\<rparr>"

abbreviation sample_front :: "int pay_front" where
  "sample_front \<equiv> service_front sample_surroundings"

abbreviation sample_operator :: "int operator_deps" where
  "sample_operator \<equiv> service_operator sample_surroundings ''market.testnet''"

abbreviation sample_runtime :: "int pay_runtime" where
  "sample_runtime \<equiv> service_runtime sample_surroundings"

definition sample_order :: card_order where
  "sample_order =
     \<lparr>co_provider = ''cleeng'', co_provider_order_id = ''S12345678_US'', co_reference_hmac = ''ref'', co_publication_id = ''film-1'',
      co_creator_id = ''creator.testnet'', co_ticket_id = ''ticket-1'', co_ticket_public_key = sample_key,
      co_consent_version = Some ''v1'', co_gross_minor = 499, co_currency = ''USD'', co_device = None, co_status = OCreated,
      co_void_reason = None, co_pending_tx = None, co_issue_tx = None, co_void_tx = None, co_attempts = 0,
      co_last_error = None, co_created_at = 1000, co_updated_at = 1000, co_paid_at = None\<rparr>"

definition sample_purchase :: card_event where
  "sample_purchase =
     \<lparr>ce_event_id = ''delivery-1:0'', ce_kind = EPurchase, ce_order_id = ''S12345678_US'', ce_amount_minor = 499,
      ce_currency = ''USD'', ce_occurred_at = 2000\<rparr>"

definition sample_refund :: refund_row where
  "sample_refund =
     \<lparr>rr_ticket_id = ''ticket-1'', rr_publication_id = ''film-1'', rr_refund_to = ''alice.testnet'', rr_expires_at_ms = 9000,
      rr_signature = sample_signature, rr_reason = ''it never played'', rr_status = ''pending'', rr_created_at = 3000,
      rr_decided_at = None, rr_decision_note = None, rr_tx_hash = None\<rparr>"

definition sample_sale :: ledger_row where
  "sample_sale =
     \<lparr>lg_order = ''order-1'', lg_kind = LSale, lg_amount_minor = 499, lg_currency = ''USD'', lg_publication_id = ''film-1'',
      lg_creator_id = ''creator.testnet'', lg_occurred_at = 2000\<rparr>"

definition sample_book :: "int pay_state" where
  "sample_book =
     \<lparr>py_orders = [(''order-1'', sample_order\<lparr>co_status := OPaid, co_paid_at := Some 2000\<rparr>)],
      py_events = [((''cleeng'', ''delivery-1:0''), \<lparr>ev_kind = EPurchase, ev_order = Some ''order-1'', ev_outcome = Applied, ev_received_at = 2000\<rparr>)],
      py_ledger = [((''cleeng'', ''delivery-1:0''), sample_sale)], py_refunds = [(''refund-1'', sample_refund)],
      py_key_check = None, py_outside = 5000\<rparr>"

lemma sample_book_rows [simp]:
  "py_orders sample_book = [(''order-1'', sample_order\<lparr>co_status := OPaid, co_paid_at := Some 2000\<rparr>)]"
  "py_events sample_book = [((''cleeng'', ''delivery-1:0''), \<lparr>ev_kind = EPurchase, ev_order = Some ''order-1'', ev_outcome = Applied, ev_received_at = 2000\<rparr>)]"
  "py_ledger sample_book = [((''cleeng'', ''delivery-1:0''), sample_sale)]"
  "py_refunds sample_book = [(''refund-1'', sample_refund)]"
  by (simp_all add: sample_book_def)

lemma sample_book_keys [simp]: "one_row_per_key sample_book"
  by (simp add: one_row_per_key_def)

end
