(* ===== verification/PaymentLaws.thy ===== *)
theory PaymentLaws
  imports PaymentWorld
begin

text \<open>
  What the payment service promises over any run of requests, crons and operator alarms, whatever
  other requests do while one of them waits: orders keep what was sold and only move along
  \<open>order_edge\<close>, tickets and references stay unique, the ledger is append-only and consistent, and a
  refund request is decided once. The interfaces are interpreted on a service whose outside calls
  touch only the outside world.
\<close>

section \<open>Runs\<close>

inductive pay_run :: "'w pay_front \<Rightarrow> 'w operator_deps \<Rightarrow> 'w pay_state \<Rightarrow> 'w pay_state \<Rightarrow> bool" for F D s where
  run_start: "pay_run F D s s"
| run_request: "pay_run F D s t \<Longrightarrow> pay_run F D s (snd (pay_handle F e rq t))"
| run_cron: "pay_run F D s t \<Longrightarrow> pay_run F D s (snd (pay_scheduled F e t))"
| run_alarm: "pay_run F D s t \<Longrightarrow> pay_run F D s (snd (operator_alarm configured D t))"

lemma run_steps:
  assumes F: "quiet_front F" and D: "quiet_operator D" and s: "one_row_per_key s" and run: "pay_run F D s t"
  shows "reach_from s t"
  using run
proof induction
  case (run_request t e rq)
  then show ?case using keepsD [OF quiet_front.request [OF F s]] by blast
next
  case (run_cron t e)
  then show ?case using keepsD [OF quiet_front.scheduled [OF F]] by blast
next
  case (run_alarm t configured)
  then show ?case using keepsD [OF quiet_operator.operator_alarm [OF D s]] by blast
qed simp

section \<open>Invariants of the steps\<close>

text \<open>The unique indexes of the order book.\<close>

definition unique_orders :: "'w pay_state \<Rightarrow> bool" where
  "unique_orders s =
     (\<forall>i j r x. tget i (py_orders s) = Some r \<longrightarrow> tget j (py_orders s) = Some x \<longrightarrow> i \<noteq> j \<longrightarrow>
        co_ticket_id r \<noteq> co_ticket_id x \<and> co_reference_hmac r \<noteq> co_reference_hmac x \<and>
        (co_provider r, co_provider_order_id r) \<noteq> (co_provider x, co_provider_order_id x))"

lemma unique_replace:
  assumes "unique_orders s" and "tget i (py_orders s) = Some r" and "same_sale r r'"
  shows "unique_orders (s\<lparr>py_orders := tput i r' (py_orders s)\<rparr>)"
  unfolding unique_orders_def
proof (intro allI impI)
  fix j k a b
  assume a: "tget j (py_orders (s\<lparr>py_orders := tput i r' (py_orders s)\<rparr>)) = Some a"
    and b: "tget k (py_orders (s\<lparr>py_orders := tput i r' (py_orders s)\<rparr>)) = Some b" and "j \<noteq> k"
  have old: "\<exists>a0. tget j (py_orders s) = Some a0 \<and> same_sale a0 a" if "tget j (py_orders (s\<lparr>py_orders := tput i r' (py_orders s)\<rparr>)) = Some a" for j a
    using that assms(2,3) by (auto simp: same_sale_def split: if_splits)
  obtain a0 b0 where "tget j (py_orders s) = Some a0" "same_sale a0 a" "tget k (py_orders s) = Some b0" "same_sale b0 b"
    using old [OF a] old [OF b] by blast
  then show "co_ticket_id a \<noteq> co_ticket_id b \<and> co_reference_hmac a \<noteq> co_reference_hmac b \<and>
        (co_provider a, co_provider_order_id a) \<noteq> (co_provider b, co_provider_order_id b)"
    using assms(1) \<open>j \<noteq> k\<close> unfolding unique_orders_def same_sale_def by metis
qed

lemma unique_insert:
  assumes "unique_orders s" and "\<not> order_clashes i r (py_orders s)"
  shows "unique_orders (s\<lparr>py_orders := tput i r (py_orders s)\<rparr>)"
  using assms(1) clash_free [OF assms(2)]
  by (auto simp: unique_orders_def split: if_splits) metis+

lemma move_same_sale: "order_move r r' \<Longrightarrow> same_sale r r'"
  using move_row_from by (simp add: row_from_def)

lemma step_unique: "pay_step s s' \<Longrightarrow> unique_orders s \<Longrightarrow> unique_orders s'"
proof (induction rule: pay_step.induct)
  case (ps_open i r s)
  then show ?case by (intro unique_insert)
next
  case (ps_pay i s r p e t)
  then show ?case by (intro unique_replace) (auto simp: same_sale_def)
next
  case (ps_move i s r r')
  then show ?case by (intro unique_replace) (auto simp: move_same_sale)
qed (simp_all add: unique_orders_def)

text \<open>The columns of an order fit its status.\<close>

definition row_ok :: "card_order \<Rightarrow> bool" where
  "row_ok r =
     ((co_pending_tx r \<noteq> None \<longrightarrow> co_status r \<in> {OPaid, OVoidPending}) \<and>
      (co_status r \<in> {OCreated, OAwaiting, OPaid, OCancelled} \<longrightarrow> co_issue_tx r = None) \<and>
      (co_status r \<in> {OPaid, OIssued, OVoidPending, OVoided} \<longrightarrow> co_paid_at r \<noteq> None) \<and>
      (co_status r \<in> {OVoidPending, OVoided, OCancelled} \<longrightarrow> co_void_reason r \<noteq> None) \<and>
      (co_status r = OAwaiting \<longrightarrow> co_device r \<noteq> None) \<and>
      co_attempts r \<le> max_send_attempts)"

lemma move_row_ok: "order_move r r' \<Longrightarrow> row_ok r \<Longrightarrow> row_ok r'"
  by (induction rule: order_move.induct) (auto simp: row_ok_def unpaid_def at_chain_def)

definition rows_ok :: "'w pay_state \<Rightarrow> bool" where
  "rows_ok s = (\<forall>i r. tget i (py_orders s) = Some r \<longrightarrow> row_ok r)"

lemma step_rows_ok: "pay_step s s' \<Longrightarrow> rows_ok s \<Longrightarrow> rows_ok s'"
  by (induction rule: pay_step.induct)
    (auto simp: rows_ok_def fresh_order_def intro: move_row_ok, auto simp: row_ok_def unpaid_def)

text \<open>Every ledger row belongs to an order and fits it.\<close>

definition ledger_ok :: "'w pay_state \<Rightarrow> bool" where
  "ledger_ok s =
     (\<forall>k g. tget k (py_ledger s) = Some g \<longrightarrow> (\<exists>r. tget (lg_order g) (py_orders s) = Some r \<and> ledger_fits r g))"

lemma fits_same_sale: "ledger_fits r g \<Longrightarrow> same_sale r r' \<Longrightarrow> ledger_fits r' g"
  by (auto simp: ledger_fits_def same_sale_def)

lemma step_ledger_new:
  "pay_step s s' \<Longrightarrow> tget k (py_ledger s') = Some g \<Longrightarrow>
   tget k (py_ledger s) = Some g \<or> (\<exists>r. tget (lg_order g) (py_orders s') = Some r \<and> ledger_fits r g)"
  by (induction rule: pay_step.induct) (auto split: if_splits)

lemma step_ledger_ok:
  assumes step: "pay_step s s'" and ok: "ledger_ok s"
  shows "ledger_ok s'"
  unfolding ledger_ok_def
proof (intro allI impI)
  fix k g assume g: "tget k (py_ledger s') = Some g"
  show "\<exists>r. tget (lg_order g) (py_orders s') = Some r \<and> ledger_fits r g"
  proof (cases "tget k (py_ledger s) = Some g")
    case True
    then obtain r where r: "tget (lg_order g) (py_orders s) = Some r" "ledger_fits r g"
      using ok unfolding ledger_ok_def by blast
    obtain r' where "tget (lg_order g) (py_orders s') = Some r'" "row_from r r'" using step_row [OF step r(1)] by blast
    then show ?thesis using fits_same_sale [OF r(2)] by (auto simp: row_from_def)
  qed (use step_ledger_new [OF step g] in auto)
qed

text \<open>One pending refund request per ticket.\<close>

definition one_pending :: "'w pay_state \<Rightarrow> bool" where
  "one_pending s =
     (\<forall>i j q x. tget i (py_refunds s) = Some q \<longrightarrow> tget j (py_refunds s) = Some x \<longrightarrow>
        rr_status q = ''pending'' \<longrightarrow> rr_status x = ''pending'' \<longrightarrow> rr_ticket_id q = rr_ticket_id x \<longrightarrow> i = j)"

lemma refund_clash_free: "\<not> refund_clashes i ticket t \<Longrightarrow> tget j t = Some x \<Longrightarrow>
   j \<noteq> i \<and> (rr_status x = ''pending'' \<longrightarrow> rr_ticket_id x \<noteq> ticket)"
  by (auto simp: refund_clashes_def list_ex_iff tget_def dest!: map_of_SomeD)

lemma step_one_pending: "pay_step s s' \<Longrightarrow> one_pending s \<Longrightarrow> one_pending s'"
proof (induction rule: pay_step.induct)
  case (ps_refund i q s)
  then show ?case using refund_clash_free [OF ps_refund(1)]
    by (auto simp: one_pending_def split: if_splits) metis+
next
  case (ps_decide i s q d t)
  then show ?case by (auto simp: one_pending_def decided_row_def split: if_splits)
qed (simp_all add: one_pending_def)

text \<open>A refund request is decided once, and keeps what the buyer signed.\<close>

definition refund_from :: "refund_row \<Rightarrow> refund_row \<Rightarrow> bool" where
  "refund_from q q' =
     (q' = q \<or> (rr_status q = ''pending'' \<and> (\<exists>d t. dn_decision d \<in> {''refunded'', ''declined''} \<and> q' = decided_row d t q)))"

lemma refund_from_trans: "refund_from q q' \<Longrightarrow> refund_from q' q'' \<Longrightarrow> refund_from q q''"
  by (auto simp: refund_from_def decided_row_def)

lemma step_refund: "pay_step s s' \<Longrightarrow> tget i (py_refunds s) = Some q \<Longrightarrow>
    \<exists>q'. tget i (py_refunds s') = Some q' \<and> refund_from q q'"
proof (induction rule: pay_step.induct)
  case (ps_refund i q s)
  then show ?case using refund_clash_free [OF ps_refund(1)] by (auto simp: refund_from_def)
next
  case (ps_decide j s q' d t)
  then show ?case by (cases "j = i") (auto simp: refund_from_def)
qed (auto simp: refund_from_def)

lemma steps_refund: "reach_from s s' \<Longrightarrow> tget i (py_refunds s) = Some q \<Longrightarrow>
    \<exists>q'. tget i (py_refunds s') = Some q' \<and> refund_from q q'"
proof (induction rule: rtranclp_induct)
  case (step t u)
  then show ?case using step_refund refund_from_trans by blast
qed (auto simp: refund_from_def)

text \<open>Ledger rows and events, once written, stay as they are.\<close>

definition books_grow :: "'w pay_state \<Rightarrow> 'w pay_state \<Rightarrow> bool" where
  "books_grow s t =
     ((\<forall>k g. tget k (py_ledger s) = Some g \<longrightarrow> tget k (py_ledger t) = Some g) \<and>
      (\<forall>k v. tget k (py_events s) = Some v \<longrightarrow> tget k (py_events t) = Some v))"

lemma steps_books_grow: "reach_from s t \<Longrightarrow> books_grow s t"
  using steps_ledger steps_events unfolding books_grow_def by blast

lemma steps_keep:
  assumes "\<And>s s'. pay_step s s' \<Longrightarrow> I s \<Longrightarrow> I s'"
  shows "reach_from s s' \<Longrightarrow> I s \<Longrightarrow> I s'"
  by (induction rule: rtranclp_induct) (auto intro: assms)

lemma steps_unique: "reach_from s s' \<Longrightarrow> unique_orders s \<Longrightarrow> unique_orders s'"
  by (rule steps_keep [where I = unique_orders], rule step_unique)

lemma steps_rows_ok: "reach_from s s' \<Longrightarrow> rows_ok s \<Longrightarrow> rows_ok s'"
  by (rule steps_keep [where I = rows_ok], rule step_rows_ok)

lemma steps_ledger_ok: "reach_from s s' \<Longrightarrow> ledger_ok s \<Longrightarrow> ledger_ok s'"
  by (rule steps_keep [where I = ledger_ok], rule step_ledger_ok)

lemma steps_one_pending: "reach_from s s' \<Longrightarrow> one_pending s \<Longrightarrow> one_pending s'"
  by (rule steps_keep [where I = one_pending], rule step_one_pending)

section \<open>Properties of a run\<close>

text \<open>The first run of the concrete service: an alarm of the operator, then a webhook.\<close>

definition sample_request :: pay_request where
  "sample_request =
     \<lparr>pq_path = ''/webhooks/card'', pq_method = ''POST'', pq_origin = None, pq_content_type = Some ''application/json'',
      pq_authorization = None, pq_client_ip = None, pq_country = None, pq_text = ''{}'', pq_status = None, pq_after = None,
      pq_signature = None, pq_delivery_id = None\<rparr>"

definition sample_env :: pay_env where
  "sample_env =
     \<lparr>PAYMENT_SERVICE_ENABLED = Some ''true'', PAY_NEAR_NETWORK = Some ''testnet'', PAY_NEAR_RPC_URL = Some ''https://rpc.example'',
      PAY_MARKET_CONTRACT_ID = Some ''market.testnet'', VAT_POLICY = Some ''fixed-testnet'', VAT_RATE_BPS = Some ''2000'',
      VAT_KEY_VERSION = Some ''1'', VAT_SIGNER_PRIVATE_KEY = Some sample_key, PAY_ALLOWED_ORIGINS = None, REFUNDS_bound = True,
      FUNNEL_bound = False, REFUND_ADMIN_TOKEN = None, CARD_PATH_ENABLED = Some ''true'',
      PAYMENT_OPERATOR_ID = Some ''operator.testnet'', PAYMENT_OPERATOR_PRIVATE_KEY = Some sample_key,
      CARD_REFERENCE_SECRET = Some (replicate 64 CHR ''0''), CARD_OPERATOR_bound = True, CLEENG_ENVIRONMENT = Some ''sandbox'',
      CLEENG_PUBLISHER_ID = Some ''123456'', CLEENG_PUBLISHER_TOKEN = Some (replicate 16 CHR ''t''),
      CLEENG_WEBHOOK_SECRET = Some (replicate 16 CHR ''s'')\<rparr>"

definition sample_end :: "int pay_state" where
  "sample_end =
     snd (pay_handle sample_front sample_env sample_request (snd (operator_alarm True sample_operator sample_book)))"

lemma sample_run: "pay_run sample_front sample_operator sample_book sample_end"
  unfolding sample_end_def by (intro run_request run_alarm run_start)

lemmas sample_quiet = service_http.quiet_front_axioms [of sample_surroundings]
  service_chain.quiet_operator_axioms [of sample_surroundings "''market.testnet''"] sample_book_keys sample_run

text \<open>
  C1 (refinement) Whatever the service does, over any run of requests, crons and operator alarms, and
  whatever other requests do while one of them waits, is a sequence of the steps of \<open>pay_step\<close>: the
  abstract order book, ledger and refund inbox, in which every change has its guard.
\<close>

theorem service_refines_book:
  assumes "quiet_front F" and "quiet_operator D" and "one_row_per_key s" and "pay_run F D s t"
  shows "reach_from s t"
  using run_steps [OF assms] .

theorem service_refines_book_witness: "reach_from sample_book sample_end"
  using service_refines_book [OF sample_quiet] .

text \<open>
  C7 (invariant) Over any run an order is never lost, keeps the publication, price, currency, buyer key and
  payment reference it was opened with, and its status only moves along \<open>order_edge\<close>: a ticket is
  issued only from \<open>paid\<close>, and \<open>voided\<close> and \<open>cancelled\<close> are final.
\<close>

theorem orders_keep_their_sale:
  assumes "quiet_front F" and "quiet_operator D" and "one_row_per_key s" and "pay_run F D s t"
    and "tget i (py_orders s) = Some r"
  shows "\<exists>r'. tget i (py_orders t) = Some r' \<and> same_sale r r' \<and> order_edge^** (co_status r) (co_status r')"
  using steps_row [OF run_steps [OF assms(1-4)] assms(5)] by (auto simp: row_from_def)

theorem orders_keep_their_sale_witness:
  "\<exists>r'. tget ''order-1'' (py_orders sample_end) = Some r' \<and>
     same_sale (sample_order\<lparr>co_status := OPaid, co_paid_at := Some 2000\<rparr>) r' \<and> order_edge^** OPaid (co_status r')"
  using orders_keep_their_sale [OF sample_quiet, of "''order-1''"] by (simp add: tget_def)

text \<open>
  C16 (invariant) Over any run no two orders share a ticket, a payment reference or a provider order.
\<close>

theorem orders_stay_unique:
  assumes "quiet_front F" and "quiet_operator D" and "one_row_per_key s" and "pay_run F D s t" and "unique_orders s"
  shows "unique_orders t"
  using steps_unique [OF run_steps [OF assms(1-4)] assms(5)] .

theorem orders_stay_unique_witness: "unique_orders sample_end"
  by (rule orders_stay_unique [OF sample_quiet]) (simp add: unique_orders_def tget_def)

text \<open>
  C17 (invariant) Over any run the columns of every order fit its status: a transaction is pending only while the
  order waits for the chain, an issue hash exists only once a ticket was issued, a paid order has its
  payment time, a closed one its reason, and the operator never passes its number of attempts.
\<close>

theorem order_columns_fit_status:
  assumes "quiet_front F" and "quiet_operator D" and "one_row_per_key s" and "pay_run F D s t" and "rows_ok s"
  shows "rows_ok t"
  using steps_rows_ok [OF run_steps [OF assms(1-4)] assms(5)] .

theorem order_columns_fit_status_witness: "rows_ok sample_end"
  by (rule order_columns_fit_status [OF sample_quiet])
    (simp add: rows_ok_def row_ok_def tget_def sample_order_def max_send_attempts_def split: if_splits)

text \<open>
  C8 (invariant) Over any run the ledger and the event log only grow, and every ledger row belongs to an order
  that exists, repeats its publication and creator, and is the whole price of the order for a sale and
  negative for a refund or a chargeback.
\<close>

theorem ledger_is_append_only:
  assumes "quiet_front F" and "quiet_operator D" and "one_row_per_key s" and "pay_run F D s t" and "ledger_ok s"
  shows "books_grow s t \<and> ledger_ok t"
  using steps_books_grow [OF run_steps [OF assms(1-4)]] steps_ledger_ok [OF run_steps [OF assms(1-4)] assms(5)]
  by blast

theorem ledger_is_append_only_witness: "books_grow sample_book sample_end \<and> ledger_ok sample_end"
  by (rule ledger_is_append_only [OF sample_quiet])
    (simp add: ledger_ok_def tget_def sample_order_def sample_sale_def ledger_fits_def split: if_splits)

text \<open>
  C18 (invariant) Over any run a refund request is decided at most once and keeps what the buyer signed, and a
  ticket never has two pending requests.
\<close>

theorem refunds_decided_once:
  assumes "quiet_front F" and "quiet_operator D" and "one_row_per_key s" and "pay_run F D s t" and "one_pending s"
    and "tget i (py_refunds s) = Some q"
  shows "one_pending t \<and> (\<exists>q'. tget i (py_refunds t) = Some q' \<and> refund_from q q')"
  using steps_one_pending [OF run_steps [OF assms(1-4)] assms(5)] steps_refund [OF run_steps [OF assms(1-4)] assms(6)]
  by blast

theorem refunds_decided_once_witness:
  "one_pending sample_end \<and> (\<exists>q'. tget ''refund-1'' (py_refunds sample_end) = Some q' \<and> refund_from sample_refund q')"
  by (rule refunds_decided_once [OF sample_quiet])
    (auto simp: one_pending_def tget_def split: if_splits)

end
