(* ===== verification/PaymentChecks.thy ===== *)
theory PaymentChecks
  imports PaymentWorld
begin

text \<open>
  What single operations of the payment service promise: a redelivered event changes nothing, no
  transaction is sent before its hash is stored, secrets are compared exactly, amounts are read to
  the cent, and a refund is accepted, or marked refunded, only as the chain allows.
\<close>

section \<open>Redelivered events\<close>

lemma insert_event_row:
  "insert_event P provider e i outcome t s = (Inr x, u) \<Longrightarrow> tget (provider, ce_event_id e) (py_events u) \<noteq> None"
  by (auto simp: insert_event_def stmt_def bnd_returns)

lemma applied_event_row:
  assumes "apply_card_event P provider e t s = (Inr x, u)"
  shows "valid_card_event e \<and> tget (provider, ce_event_id e) (py_events u) \<noteq> None"
  using assms unfolding apply_card_event_def
  by (auto simp: bnd_returns stmt_def dest: insert_event_row split: if_splits)

text \<open>
  C19 (functional) Once an event was applied, delivering it again, at any later time and whatever ran
  since, is answered \<open>Duplicate\<close> and changes nothing: the only thing that runs is the wait for the
  database.
\<close>

theorem redelivered_event_is_duplicate:
  assumes "quiet_db P" and "apply_card_event P provider e t1 s = (Inr outcome, s1)" and "reach_from s1 s2"
    and "pr_db P s2 = (Inr (), s3)"
  shows "apply_card_event P provider e t2 s2 = (Inr Duplicate, s3)"
proof -
  obtain v where e: "valid_card_event e" and "tget (provider, ce_event_id e) (py_events s1) = Some v"
    using applied_event_row [OF assms(2)] by blast
  moreover have "reach_from s2 s3" using steps_onlyD [OF quiet_db.db [OF assms(1)], of s2] assms(4) by simp
  ultimately have "tget (provider, ce_event_id e) (py_events s3) = Some v"
    using steps_events assms(3) by blast
  then show ?thesis using e assms(4) by (simp add: apply_card_event_def run_bnd stmt_def)
qed

lemma outside_ret [simp]: "outside (ret x) s = (Inr x, s)"
  by (simp add: outside_def)

lemma sample_db [simp]: "pr_db sample_runtime s = (Inr (), s)"
  by (simp add: sample_surroundings_def)

lemma sample_stmt [simp]: "stmt sample_runtime m = m"
  by (simp add: stmt_def bnd_def fun_eq_iff sample_surroundings_def)

definition opened_book :: "int pay_state" where
  "opened_book = sample_book\<lparr>py_orders := [(''order-1'', sample_order)], py_events := [], py_ledger := []\<rparr>"

lemma sample_purchase_applied: "\<exists>s1. apply_card_event sample_runtime ''cleeng'' sample_purchase 2000 opened_book = (Inr Applied, s1)"
proof -
  have "valid_card_event sample_purchase"
    by (simp add: valid_card_event_def sample_purchase_def ident128_def repeated_def char_defs is_alnum_def safe_integer_def max_safe_def)
  then show ?thesis
    by (simp add: apply_card_event_def apply_to_order_def run_bnd find_row_def opened_book_def sample_order_def sample_purchase_def
        insert_ledger_def transition_def update_order_def insert_event_def tget_def)
qed

theorem redelivered_event_is_duplicate_witness:
  "\<exists>s1. apply_card_event sample_runtime ''cleeng'' sample_purchase 2000 opened_book = (Inr Applied, s1) \<and>
     apply_card_event sample_runtime ''cleeng'' sample_purchase 9000 s1 = (Inr Duplicate, s1)"
  using sample_purchase_applied redelivered_event_is_duplicate [OF service_db.quiet_db_axioms _ rtranclp.rtrancl_refl sample_db]
  by blast

section \<open>Hashes before sends\<close>

text \<open>The operator with a send that refuses a transaction whose hash no order holds.\<close>

definition hash_stored :: "string \<Rightarrow> 'w pay_state \<Rightarrow> bool" where
  "hash_stored h s = list_ex (\<lambda>(_, r). co_pending_tx r = Some h) (py_orders s)"

definition send_recorded :: "'w operator_deps \<Rightarrow> 'w operator_deps" where
  "send_recorded D =
     D\<lparr>op_send := (\<lambda>h. bnd (reading (hash_stored h)) (\<lambda>stored. if stored then op_send D h else throw ''hash_not_stored''))\<rparr>"

lemma updated_row:
  "update_order P i cond f s = (Inr True, t) \<Longrightarrow> \<exists>r. tget i (py_orders t) = Some (f r)"
  unfolding update_order_def stmt_def bnd_returns
  by (elim exE conjE) (auto simp: bnd_returns split: option.splits if_splits)

lemma stored_hash:
  assumes "update_read D i order (\<lambda>r. r\<lparr>co_pending_tx := Some h, co_attempts := n\<rparr>) s = (Inr True, t)"
  shows "hash_stored h t"
proof -
  obtain r where "tget i (py_orders t) = Some r" and "co_pending_tx r = Some h"
    using assms by (auto simp: update_read_def bnd_returns dest!: updated_row)
  then have "(i, r) \<in> set (py_orders t)" by (simp add: tget_def map_of_SomeD)
  then show ?thesis using \<open>co_pending_tx r = Some h\<close> by (auto simp: hash_stored_def list_ex_iff)
qed

lemma send_recorded_parts [simp]:
  "op_runtime (send_recorded D) = op_runtime D" "op_sign (send_recorded D) = op_sign D"
  "op_tx_status (send_recorded D) = op_tx_status D" "read_ticket (send_recorded D) = read_ticket D"
  "update_read (send_recorded D) = update_read D" "note_error (send_recorded D) = note_error D"
  by (simp_all add: send_recorded_def read_ticket_def [abs_def] update_read_def [abs_def] note_error_def [abs_def] fun_eq_iff)

lemma send_recorded_send: "hash_stored h t \<Longrightarrow> bnd (op_send (send_recorded D) h) k t = bnd (op_send D h) k t"
  by (simp add: send_recorded_def bnd_def)

lemma send_issue_recorded: "send_issue (send_recorded D) i order d = send_issue D i order d"
  unfolding send_issue_def fun_eq_iff
  by (auto intro!: bnd_cong_run simp: send_recorded_send stored_hash)

lemma send_void_recorded: "send_void (send_recorded D) i order = send_void D i order"
  unfolding send_void_def fun_eq_iff
  by (auto intro!: bnd_cong_run simp: send_recorded_send stored_hash)

lemma issue_fresh_recorded: "issue_fresh (send_recorded D) = issue_fresh D"
  by (simp add: issue_fresh_def [abs_def] send_issue_recorded cong: option.case_cong if_cong)

lemma work_order_recorded: "work_order (send_recorded D) i order = work_order D i order"
  by (simp add: work_order_def issue_def void_ticket_def issue_fresh_recorded send_void_recorded cong: option.case_cong if_cong)

lemma work_orders_recorded: "work_orders (send_recorded D) xs = work_orders D xs"
  by (induction xs) (simp_all add: work_order_recorded cong: sum.case_cong)

text \<open>
  C5 (safety) The operator never sends a transaction whose hash an order does not hold at that moment:
  run with a send that refuses such a transaction, it does exactly the same, whatever the chain, the
  database and the signer do, and whatever runs between its statements.
\<close>

theorem operator_stores_hash_before_send: "run_card_operator (send_recorded D) = run_card_operator D"
  by (simp add: run_card_operator_def work_orders_recorded)

section \<open>Comparison in constant time\<close>

lemma or_fold_zero: "foldl (\<lambda>d i. d OR f i) a xs = 0 \<longleftrightarrow> a = 0 \<and> (\<forall>i\<in>set xs. f i = (0 :: 32 word))"
  by (induction xs arbitrary: a) (auto simp: or_eq_0_iff)

lemma xor_zero: "(x XOR y = 0) \<longleftrightarrow> x = (y :: 'a::len word)"
proof
  assume "x XOR y = 0"
  then have "(x XOR y) XOR y = y" by simp
  then show "x = y" by (simp add: xor.assoc)
qed simp

lemma byte_difference: "(ucast (a :: 8 word) XOR ucast b :: 32 word) = 0 \<longleftrightarrow> a = b"
proof -
  have "uint (ucast x :: 32 word) = uint x" for x :: "8 word"
    using uint_bounded [of x] by (simp add: unsigned_ucast_eq take_bit_eq_mod)
  then show ?thesis unfolding xor_zero by (metis word_uint_eqI)
qed

lemma length_difference:
  "m < 2 ^ 32 \<Longrightarrow> n < 2 ^ 32 \<Longrightarrow> (of_nat m XOR of_nat n :: 32 word) = 0 \<longleftrightarrow> m = n"
  unfolding xor_zero word_of_nat_eq_iff by (simp add: take_bit_nat_eq_self)

text \<open>The loop both comparisons of the service share: lengths first, then every byte of the expected text.\<close>

lemma same_bytes_loop:
  assumes "length a < 2 ^ 32" and "length b < 2 ^ 32"
  shows "foldl (\<lambda>diff i. diff OR (ucast (b ! i) XOR (if i < length a then ucast (a ! i) else 0)))
           (of_nat (length a) XOR of_nat (length b) :: 32 word) [0..<length b] = 0 \<longleftrightarrow> a = (b :: bytes)"
proof -
  have bytes: "(\<forall>i<length b. (ucast (b ! i) XOR (if i < length a then ucast (a ! i) else 0) :: 32 word) = 0) \<longleftrightarrow> a = b"
    if "length a = length b"
    using that by (auto simp: byte_difference list_eq_iff_nth_eq)
  show ?thesis
    unfolding or_fold_zero length_difference [OF assms] using bytes by auto
qed

text \<open>
  The operator's routes compare the bearer token in constant time, and exactly: a header
  \<open>Bearer\<close> followed by \<open>given\<close> is accepted for a configured token of at least 32 UTF-16 units if and
  only if \<open>given\<close> is the token. No prefix, no extension and no other text passes.
\<close>

theorem token_comparison_is_equality:
  assumes "scalar_text given" and "scalar_text token"
    and "length (encode_text given) < 2 ^ 32" and "length (encode_text token) < 2 ^ 32"
  shows "bearer_authorized (Some (''Bearer '' @ given)) (Some token) \<longleftrightarrow> 32 \<le> utf16_length token \<and> given = token"
proof -
  have L: "starts_with ''Bearer '' (''Bearer '' @ given) = True" "drop 7 (''Bearer '' @ given) = given"
    using starts_with_append [of "''Bearer ''" given] by simp_all
  have "token \<noteq> []" if "32 \<le> utf16_length token" using that by (auto simp: utf16_length_def)
  then show ?thesis
    by (simp only: bearer_authorized_def Let_def option.case prod.case L same_bytes_loop [OF assms(3,4)]
        encode_text_inject [OF assms(1,2)]) blast
qed

lemma ascii_replicate: "chr_code c < 128 \<Longrightarrow> list_all (\<lambda>c. chr_code c < 128) (replicate n c)"
  by (simp add: list_all_iff)

lemma ascii_a: "chr_code CHR ''a'' < 128"
  by (simp add: chr_code_def)

lemma sample_token:
  "scalar_text (replicate 32 CHR ''a'')" "length (encode_text (replicate 32 CHR ''a'')) < 2 ^ 32"
  "utf16_length (replicate 32 CHR ''a'') = 32"
  using scalar_text_ascii [OF ascii_replicate [OF ascii_a, of 32]] utf16_length_ascii [OF ascii_replicate [OF ascii_a, of 32]]
  by (simp_all only: encode_scalar_text length_map length_replicate) simp_all

theorem token_comparison_is_equality_witness:
  "bearer_authorized (Some (''Bearer '' @ replicate 32 CHR ''a'')) (Some (replicate 32 CHR ''a''))"
  unfolding token_comparison_is_equality [OF sample_token(1,1,2,2)] sample_token(3) by simp

end
