(* ===== verification/PaymentAmounts.thy ===== *)
theory PaymentAmounts
  imports PaymentChecks
begin

text \<open>
  Money is read to the cent: what the Cleeng adapter takes from a webhook, and what an order is opened
  with. The reference is the rational number the digits stand for.
\<close>

section \<open>Digits\<close>

lemma dec_val_append: "dec_val (s @ t) = dec_val s * 10 ^ length t + dec_val t"
  by (induction t rule: rev_induct) (simp_all add: dec_val_snoc algebra_simps flip: append_assoc, simp add: dec_val_def)

lemma dec_val_zeros [simp]: "dec_val (replicate n CHR ''0'') = 0"
  by (induction n) (simp_all add: dec_val_append [of "[CHR ''0'']", simplified] digit_val_def chr_code_def dec_val_def)

lemma dec_val_bound: "list_all is_digit s \<Longrightarrow> dec_val s < 10 ^ length s"
proof (induction s rule: rev_induct)
  case (snoc c s)
  then show ?case using digit_val_less [of c] by (simp add: dec_val_snoc)
qed (simp add: dec_val_def)

lemma digit_zero: "digit_chr 0 = CHR ''0''" "digit_val CHR ''0'' = 0" "is_digit CHR ''0''"
  by (simp_all add: digit_chr_def digit_val_def char_defs)

lemma dec_val_zero: "list_all is_digit s \<Longrightarrow> dec_val s = 0 \<longleftrightarrow> s = replicate (length s) CHR ''0''"
proof (induction s rule: rev_induct)
  case (snoc c s)
  have c: "digit_chr (digit_val c) = c" using digit_chr_val snoc.prems by simp
  have "digit_val c = 0 \<longleftrightarrow> c = CHR ''0''"
  proof
    assume "digit_val c = 0"
    then show "c = CHR ''0''" using c digit_zero(1) by simp
  qed (simp add: digit_zero)
  then show ?case using snoc by (simp add: dec_val_snoc replicate_append_same [symmetric])
qed (simp add: dec_val_def)

section \<open>Amounts of a webhook\<close>

text \<open>The number that the digits before and after the point stand for.\<close>

definition decimal_value :: "string \<Rightarrow> string \<Rightarrow> rat" where
  "decimal_value whole part = of_nat (dec_val whole) + of_nat (dec_val part) / 10 ^ length part"

lemma amount_parts_digits:
  "amount_parts t = Some (w, p) \<Longrightarrow> list_all is_digit w \<and> list_all is_digit p \<and> length w \<le> 9 \<and> length p \<le> 6"
  by (auto simp: amount_parts_def Let_def repeated_def split: if_splits)

lemma cents_of_digits:
  assumes "list_all is_digit p" and "length p \<le> 6"
  defines "f \<equiv> p @ replicate (6 - length p) CHR ''0''"
  shows "100 * decimal_value w p = of_nat (dec_val w * 100 + dec_val (take 2 f)) + of_nat (dec_val (drop 2 f)) / 10 ^ 4"
    and "dec_val (drop 2 f) < 10 ^ 4" and "dec_val (drop 2 f) = 0 \<longleftrightarrow> drop 2 f = ''0000''"
proof -
  have digits: "list_all is_digit f" using assms(1) by (auto simp: f_def list_all_iff digit_zero)
  have len: "length f = 6" using assms(2) by (simp add: f_def)
  have d2: "list_all is_digit (drop 2 f)" using digits by (auto simp: list_all_iff dest: in_set_dropD)
  show "dec_val (drop 2 f) < 10 ^ 4" using dec_val_bound [OF d2] len by simp
  show "dec_val (drop 2 f) = 0 \<longleftrightarrow> drop 2 f = ''0000''" using dec_val_zero [OF d2] len by (simp add: numeral_eq_Suc)
  have "dec_val f = dec_val (take 2 f) * 10 ^ 4 + dec_val (drop 2 f)"
    using dec_val_append [of "take 2 f" "drop 2 f"] len by simp
  moreover have "dec_val f = dec_val p * 10 ^ (6 - length p)" by (simp add: f_def dec_val_append)
  moreover have "(of_nat (dec_val p) / 10 ^ length p :: rat) = of_nat (dec_val p * 10 ^ (6 - length p)) / 10 ^ 6"
    using assms(2) by (simp add: divide_simps flip: power_add)
  ultimately show "100 * decimal_value w p = of_nat (dec_val w * 100 + dec_val (take 2 f)) + of_nat (dec_val (drop 2 f)) / 10 ^ 4"
    by (simp add: decimal_value_def field_simps)
qed

lemma whole_cents:
  assumes "k < 10 ^ 4"
  shows "(of_nat c + of_nat k / 10 ^ 4 :: rat) \<in> \<int> \<longleftrightarrow> k = 0"
proof
  assume "(of_nat c + of_nat k / 10 ^ 4 :: rat) \<in> \<int>"
  then have "(of_nat k / 10 ^ 4 :: rat) \<in> \<int>" using Ints_diff [OF _ Ints_of_nat [of c]] by fastforce
  then obtain z where "(of_nat k / 10 ^ 4 :: rat) = of_int z" by (auto elim: Ints_cases)
  then have "(of_int (int k) :: rat) = of_int (z * 10 ^ 4)" by (simp add: field_simps)
  then have "int k = z * 10 ^ 4" by (simp only: of_int_eq_iff)
  then have "int k = z * 10000" "k < 10000" using assms by simp_all
  then show "k = 0" by (cases "z \<le> 0") auto
qed simp

text \<open>
  The amount of a Cleeng webhook is read exactly or not at all: the digits, before and
  after the point, are taken if and only if they stand for a whole number of cents, and then as that
  number. Nothing is rounded.
\<close>

theorem minor_units_exact:
  "minor_units v =
     (case amount_parts (amount_text v) of None \<Rightarrow> None
      | Some (w, p) \<Rightarrow> if 100 * decimal_value w p \<in> \<int> then Some \<lfloor>100 * decimal_value w p\<rfloor> else None)"
proof (cases "amount_parts (amount_text v)")
  case (Some x)
  obtain w p where x: "x = (w, p)" by fastforce
  note d = amount_parts_digits [OF Some [unfolded x]]
  define f where "f = p @ replicate (6 - length p) CHR ''0''"
  define c where "c = dec_val w * 100 + dec_val (take 2 f)"
  define k where "k = dec_val (drop 2 f)"
  have dv: "100 * decimal_value w p = of_nat c + of_nat k / 10 ^ 4" and k: "k < 10 ^ 4" "k = 0 \<longleftrightarrow> drop 2 f = ''0000''"
    using cents_of_digits [of p] d unfolding c_def k_def f_def by blast+
  have "minor_units v = (if k \<noteq> 0 then None else Some (int c))"
    using Some x k(2) by (simp add: minor_units_def Let_def f_def c_def)
  also have "\<dots> = (if 100 * decimal_value w p \<in> \<int> then Some \<lfloor>100 * decimal_value w p\<rfloor> else None)"
    unfolding dv whole_cents [OF k(1)] by simp
  finally show ?thesis using Some x by simp
qed (simp add: minor_units_def)

section \<open>Amounts as numbers\<close>

lemma show_nat_short: "n < 10 ^ k \<Longrightarrow> 0 < k \<Longrightarrow> length (show_nat n) \<le> k"
proof (induction k arbitrary: n)
  case (Suc k)
  show ?case
  proof (cases "n < 10")
    case False
    then have "0 < k" using Suc.prems(1) by (cases k) auto
    moreover have "n div 10 < 10 ^ k" using Suc.prems(1) by (simp add: div_less_iff_less_mult algebra_simps)
    ultimately show ?thesis using Suc.IH [of "n div 10"] False by (subst show_nat.simps) simp
  qed (subst show_nat.simps, simp)
qed simp

lemma point_not_digit: "\<not> is_digit CHR ''.''"
  by (simp add: char_defs)

lemma digits_before_point: "list_all is_digit w \<Longrightarrow> takeWhile is_digit (w @ CHR ''.'' # p) = w"
  by (simp add: takeWhile_append list_all_iff point_not_digit)

lemma amount_parts_point:
  "repeated is_digit 1 9 w \<Longrightarrow> repeated is_digit 1 6 p \<Longrightarrow> amount_parts (w @ CHR ''.'' # p) = Some (w, p)"
  using digits_before_point [of w p] by (simp add: amount_parts_def Let_def repeated_def)

lemma pad_to_digits: "n < 10 ^ k \<Longrightarrow> 0 < k \<Longrightarrow> repeated is_digit k k (pad_to k (show_nat n)) \<and> dec_val (pad_to k (show_nat n)) = n"
  using show_nat_short [of n k] show_nat_digits [of n]
  by (auto simp: pad_to_def repeated_def dec_val_append list_all_iff digit_zero)

text \<open>
  A JSON number is read as the cents it is nearest to when it is within half of a
  hundredth of a cent of them, so whatever double the provider prints for a price below a billion is
  read as that price.
\<close>

theorem minor_units_of_number:
  assumes "n < 10 ^ 11" and "0 \<le> q" and "\<bar>q - of_nat n / 100\<bar> < 1 / 20000"
  shows "minor_units (Some (JNum q)) = Some (int n)"
proof -
  have near: "q - of_nat n / 100 < 1 / 20000" "- (1 / 20000) < q - of_nat n / 100" using assms(3) by linarith+
  have "\<lfloor>q * 10000 + 1 / 2\<rfloor> = int (100 * n)"
    using near by (intro floor_unique) (auto simp: field_simps)
  then have N: "nat \<lfloor>q * 10000 + 1 / 2\<rfloor> = 100 * n" by simp
  have "(of_nat n :: rat) < 10 ^ 11" using assms(1) by (metis of_nat_less_iff of_nat_numeral of_nat_power)
  then have small: "\<not> 10 ^ 21 \<le> \<bar>q\<bar>" using near assms(2) by (simp add: abs_if field_simps)
  define w where "w = show_nat (100 * n div 10000)"
  define p where "p = pad_to 4 (show_nat (100 * n mod 10000))"
  have "amount_text (Some (JNum q)) = w @ CHR ''.'' # p"
    using small assms(2) by (simp add: amount_text_def to_fixed4_def Let_def N w_def p_def)
  moreover have w: "repeated is_digit 1 9 w"
    using assms(1) show_nat_short [of "100 * n div 10000" 9] show_nat_digits [of "100 * n div 10000"]
    by (cases w) (auto simp: w_def repeated_def div_less_iff_less_mult)
  moreover have p: "repeated is_digit 4 4 p" "dec_val p = 100 * n mod 10000"
    using pad_to_digits [of "100 * n mod 10000" 4] by (simp_all add: p_def)
  ultimately have "amount_parts (amount_text (Some (JNum q))) = Some (w, p)"
    using amount_parts_point [of w p] by (simp add: repeated_def)
  moreover have "100 * decimal_value w p = of_nat n"
  proof -
    have "(of_nat (100 * n) :: rat) = of_nat (10000 * (100 * n div 10000) + 100 * n mod 10000)"
      by (simp only: mult_div_mod_eq)
    then have "(100 * of_nat n :: rat) = 10000 * of_nat (100 * n div 10000) + of_nat (100 * n mod 10000)" by (simp only: of_nat_add of_nat_mult of_nat_numeral)
    moreover have "length p = 4" using p(1) by (simp add: repeated_def)
    ultimately show ?thesis using p(2) by (simp add: decimal_value_def w_def field_simps del: of_nat_mult)
  qed
  ultimately show ?thesis by (simp add: minor_units_exact)
qed

theorem minor_units_of_number_witness: "minor_units (Some (JNum (4989999999999999769 / 10 ^ 18))) = Some 499"
  using minor_units_of_number [of 499 "4989999999999999769 / 10 ^ 18"] by simp

end
