(* ===== verification/PaymentGuards.thy ===== *)
theory PaymentGuards
  imports PaymentAmounts
begin

text \<open>
  What must hold before the service takes money or gives it back: what an opened order says of the
  publication, what a stored signature was checked against, which refund requests are taken, and when a
  request is marked refunded.
\<close>

section \<open>Opening an order\<close>

lemma stmt_returns: "stmt P m s = (Inr x, t) \<longleftrightarrow> (\<exists>u. pr_db P s = (Inr (), u) \<and> m u = (Inr x, t))"
  by (auto simp: stmt_def bnd_returns)

lemma inserted_order: "insert_order P i r s = (Inr u, t) \<Longrightarrow> tget i (py_orders t) = Some r"
  by (auto simp: insert_order_def stmt_returns bnd_returns split: if_splits)

text \<open>What the Market said of the publication when the order was opened.\<close>

definition sold_as :: "string \<Rightarrow> json \<Rightarrow> int \<Rightarrow> bool" where
  "sold_as i publication price =
     (obj_get ''publication_id'' publication = Some (JStr i) \<and> obj_get ''availability'' publication = Some (JStr ''ACTIVE'') \<and>
      (\<exists>p. obj_get ''price_usdc'' publication = Some (JStr p) \<and> decimal1 30 p \<and> price = int (dec_val p)))"

lemma purchasable_sold: "purchasable_price i p = Inr price \<longleftrightarrow> sold_as i p price"
  by (auto simp: purchasable_price_def sold_as_def has_str_def str_of_def)

lemma gross_exact: "gross_minor_of price = Inr g \<Longrightarrow> sold_as i p price \<Longrightarrow> price \<le> 10000 * 2 ^ 53 \<Longrightarrow> price = 10000 * g"
  by (auto simp: gross_minor_of_def micro_per_cent_def sold_as_def nat_div_distrib split: if_splits)

lemma opened_order_parts:
  assumes "create_card_order P provider contract secret now_ms country req s = (Inr ((i, r), c), t)"
  shows "tget i (py_orders t) = Some r \<and> fresh_order r \<and> co_publication_id r = or_publication_id req \<and>
    co_ticket_public_key r = or_ticket_public_key req \<and>
    ticket_id_of (pr_crypto P) (or_ticket_public_key req) = Inr (co_ticket_id r) \<and>
    payment_reference_hmac (pr_crypto P) secret (co_provider_order_id r) = Inr (co_reference_hmac r) \<and>
    (\<exists>s1 s2 publication price. pr_view P contract ''get_publication'' (JObj [(''publication_id'', JStr (or_publication_id req))]) s1 =
         (Inr publication, s2) \<and> sold_as (or_publication_id req) publication price \<and> gross_minor_of price = Inr (co_gross_minor r)) \<and>
    (\<exists>s1 s2. pr_view P contract ''get_ticket'' (JObj [(''ticket_id'', JStr (co_ticket_id r))]) s1 = (Inr JNull, s2))"
proof -
  have row: "fresh_order (new_order a b d req e f g n)" for a b d e f g n by (simp add: fresh_order_def new_order_def)
  show ?thesis
    using assms row
    unfolding create_card_order_def read_purchasable_publication_def
    by (auto simp: bnd_returns Let_def new_order_def purchasable_sold dest!: inserted_order split: if_splits)
      blast+
qed

text \<open>
  An order that is opened is in the book under its identifier, with the key that was given and the
  ticket its hash names; the Market had said the publication was for sale at exactly the price charged, and
  that the ticket did not exist; the payment reference is the keyed hash of the provider's order.
\<close>

theorem opened_order:
  assumes "create_card_order P provider contract secret now_ms country req s = (Inr ((i, r), c), t)"
  shows "tget i (py_orders t) = Some r \<and> fresh_order r \<and> co_publication_id r = or_publication_id req \<and>
    co_ticket_public_key r = or_ticket_public_key req \<and>
    ticket_id_of (pr_crypto P) (or_ticket_public_key req) = Inr (co_ticket_id r) \<and>
    payment_reference_hmac (pr_crypto P) secret (co_provider_order_id r) = Inr (co_reference_hmac r) \<and>
    (\<exists>s1 s2 publication price. pr_view P contract ''get_publication'' (JObj [(''publication_id'', JStr (or_publication_id req))]) s1 =
         (Inr publication, s2) \<and> sold_as (or_publication_id req) publication price \<and> gross_minor_of price = Inr (co_gross_minor r) \<and>
         (price \<le> 10000 * 2 ^ 53 \<longrightarrow> price = 10000 * co_gross_minor r)) \<and>
    (\<exists>s1 s2. pr_view P contract ''get_ticket'' (JObj [(''ticket_id'', JStr (co_ticket_id r))]) s1 = (Inr JNull, s2))"
  using opened_order_parts [OF assms] gross_exact by blast

text \<open>A market with one publication for sale, and a provider that opens orders.\<close>

definition film :: json where
  "film = JObj [(''publication_id'', JStr ''film-1''), (''creator_id'', JStr ''creator.testnet''), (''availability'', JStr ''ACTIVE''),
     (''price_usdc'', JStr ''5000000'')]"

definition one_film :: "unit pay_runtime" where
  "one_film =
     \<lparr>pr_crypto = sample_crypto, pr_view = (\<lambda>_ m _. ret (if m = ''get_publication'' then film else JNull)), pr_now = (\<lambda>_. 1000),
      pr_db = ret (), pr_random = ret (sample_bytes 16)\<rparr>"

definition one_provider :: "unit pay_state card_provider" where
  "one_provider =
     \<lparr>cp_name = ''cleeng'', cp_create_order = (\<lambda>_. ret \<lparr>po_id = ''S12345678_US'', po_checkout = None\<rparr>), cp_checkout_session = None,
      cp_parse_webhook = (\<lambda>_. ret [])\<rparr>"

definition empty_book :: "unit pay_state" where
  "empty_book = \<lparr>py_orders = [], py_events = [], py_ledger = [], py_refunds = [], py_key_check = None, py_outside = ()\<rparr>"

lemma film_price: "purchasable_price ''film-1'' film = Inr 5000000"
proof -
  have "decimal1 30 ''5000000''" by (simp add: decimal1_def repeated_def char_defs)
  moreover have "dec_val ''5000000'' = 5000000" by (simp add: dec_val_def digit_val_def chr_code_def)
  ultimately show ?thesis by (simp add: purchasable_price_def film_def has_str_def str_of_def)
qed

lemma film_creator: "has_str ''creator_id'' film"
  by (simp add: film_def has_str_def)

lemma sample_offer: "ident128 ''S12345678_US''"
  by (simp add: ident128_def repeated_def char_defs)

lemma one_film_opens:
  "\<exists>i r c t. create_card_order one_film one_provider ''market.testnet'' (replicate 64 CHR ''0'') 1000 None
     \<lparr>or_publication_id = ''film-1'', or_ticket_public_key = sample_key, or_consent_version = ''v1''\<rparr> empty_book = (Inr ((i, r), c), t)"
  by (simp add: create_card_order_def one_film_def one_provider_def empty_book_def run_bnd ticket_id_of_def find_row_def
      read_purchasable_publication_def film_price film_creator sample_offer stmt_def insert_order_def order_clashes_def
      gross_minor_of_def micro_per_cent_def Let_def payment_reference_hmac_def)

theorem opened_order_witness:
  "\<exists>i r c t. create_card_order one_film one_provider ''market.testnet'' (replicate 64 CHR ''0'') 1000 None
     \<lparr>or_publication_id = ''film-1'', or_ticket_public_key = sample_key, or_consent_version = ''v1''\<rparr> empty_book = (Inr ((i, r), c), t)
     \<and> tget i (py_orders t) = Some r \<and> fresh_order r"
  using one_film_opens opened_order by blast

section \<open>Signing an order\<close>













section \<open>Refunds\<close>

lemma refund_expiry_iff:
  "refund_expiry v now_ms = Inr e \<longleftrightarrow> e = js_number v \<and> now_ms < e \<and> e \<le> now_ms + 7 * 24 * 60 * 60 * 1000"
  by (auto simp: refund_expiry_def max_refund_signature_ttl_ms_def Let_def)

text \<open>
  A refund request is accepted exactly when the chain shows the ticket paid in crypto and not yet
  consumed, its refund window is open or the publication was taken down, and the ticket's own key signed this
  refund address for this ticket, with an expiry in the next seven days.
\<close>

theorem refund_accepted_iff:
  "verify_refund_request C (\<lambda>_ m a. lifting (chain m a)) network contract now_ms input s = (Inr (ticket, closes), t) \<longleftrightarrow>
     t = s \<and> now_ms < js_number (ri_expires_at_ms input) \<and> js_number (ri_expires_at_ms input) \<le> now_ms + 7 * 24 * 60 * 60 * 1000 \<and>
     chain ''get_ticket'' (JObj [(''ticket_id'', JStr (ri_ticket_id input))]) = Inr ticket \<and>
     obj_get ''ticket_id'' ticket = Some (JStr (ri_ticket_id input)) \<and> obj_get ''rail'' ticket = Some (JStr ''crypto'') \<and>
     obj_get ''status'' ticket \<in> {Some (JStr ''purchased''), Some (JStr ''watched_in_escrow'')} \<and>
     (\<exists>publication. chain ''get_publication'' (JObj (case obj_get ''publication_id'' ticket of Some v \<Rightarrow> [(''publication_id'', v)] | None \<Rightarrow> [])) = Inr publication \<and>
        closes = window_closes ticket publication) \<and>
     (case closes of ClosesAt c \<Rightarrow> of_int now_ms < c | _ \<Rightarrow> True) \<and>
     (\<exists>key. obj_get ''ticket_public_key'' ticket = Some (JStr key) \<and> refund_signature_ok C network contract key input)"
  by (auto simp: verify_refund_request_def bnd_returns refund_expiry_iff refundable_ticket_def window_check_def ebind_Inr_iff
      has_str_def str_of_def Let_def split: if_splits)

lemma updated_refund:
  "update_refund P i f s = (Inr True, t) \<Longrightarrow> \<exists>q. rr_status q = ''pending'' \<and> tget i (py_refunds t) = Some (f q)"
  unfolding update_refund_def stmt_returns bnd_returns
  by (elim exE conjE) (auto simp: bnd_returns split: option.splits if_splits)

lemma decide_found:
  assumes "decide_refund_request P contract i d now_ms s = (Inr (i', q), t)"
  obtains row u where "rr_status row = ''pending''" and "i' = i" and "q = decided_row d now_ms row"
    and "dn_decision d = ''refunded'' \<Longrightarrow> \<exists>s1 s2 ticket. pr_view P contract ''get_ticket'' (JObj [(''ticket_id'', JStr (rr_ticket_id row))]) s1
           = (Inr ticket, s2) \<and> obj_get ''status'' ticket = Some (JStr ''refunded'')"
    and "update_refund P i (decided_row d now_ms) u = (Inr True, t)"
proof -
  from assms obtain found u where "(case found of None \<Rightarrow> throw ''refund_request_not_found''
     | Some row \<Rightarrow>
       bnd (require (rr_status row = ''pending'') ''refund_request_decided'') (\<lambda>_.
       bnd (if dn_decision d = ''refunded''
            then bnd (pr_view P contract ''get_ticket'' (JObj [(''ticket_id'', JStr (rr_ticket_id row))])) (\<lambda>ticket.
                   require (obj_get ''status'' ticket = Some (JStr ''refunded'')) ''ticket_not_refunded'')
            else ret ()) (\<lambda>_.
       bnd (update_refund P i (decided_row d now_ms)) (\<lambda>updated.
       bnd (require updated ''refund_request_decided'') (\<lambda>_. ret (i, decided_row d now_ms row)))))) u = (Inr (i', q), t)"
    unfolding decide_refund_request_def bnd_returns by (auto split: if_splits)
  then show ?thesis
    by (cases found) (auto simp: bnd_returns split: if_splits intro!: that)
qed

text \<open>
  A request is marked refunded only when the chain showed its ticket refunded, and a decision is
  recorded only on a request that is still pending, with the operator's note or transaction.
\<close>

theorem decision_needs_chain:
  assumes "decide_refund_request P contract i d now_ms s = (Inr (i', q), t)"
  shows "i' = i \<and> rr_status q = dn_decision d \<and> rr_decided_at q = Some now_ms \<and> rr_tx_hash q = dn_tx_hash d \<and>
    (\<exists>x. tget i (py_refunds t) = Some x \<and> rr_status x = dn_decision d \<and> rr_decided_at x = Some now_ms) \<and>
    (dn_decision d = ''refunded'' \<longrightarrow>
       (\<exists>s1 s2 ticket. pr_view P contract ''get_ticket'' (JObj [(''ticket_id'', JStr (rr_ticket_id q))]) s1 = (Inr ticket, s2) \<and>
          obj_get ''status'' ticket = Some (JStr ''refunded'')))"
  using assms
proof (rule decide_found)
  fix row u
  assume "rr_status row = ''pending''" "i' = i" "q = decided_row d now_ms row"
    and "dn_decision d = ''refunded'' \<Longrightarrow> \<exists>s1 s2 ticket. pr_view P contract ''get_ticket'' (JObj [(''ticket_id'', JStr (rr_ticket_id row))]) s1
           = (Inr ticket, s2) \<and> obj_get ''status'' ticket = Some (JStr ''refunded'')"
    and "update_refund P i (decided_row d now_ms) u = (Inr True, t)"
  then show ?thesis by (auto simp: decided_row_def dest!: updated_refund)
qed

definition refunded_view :: "unit pay_runtime" where
  "refunded_view = one_film\<lparr>pr_view := (\<lambda>_ _ _. ret (JObj [(''status'', JStr ''refunded'')]))\<rparr>"

definition refund_decision :: decision where
  "refund_decision = \<lparr>dn_decision = ''refunded'', dn_note = None, dn_tx_hash = Some ''hash''\<rparr>"

definition one_refund :: "unit pay_state" where
  "one_refund = empty_book\<lparr>py_refunds := [(replicate 32 CHR ''0'', sample_refund)]\<rparr>"

lemma one_refund_decided:
  "\<exists>x t. decide_refund_request refunded_view ''market.testnet'' (replicate 32 CHR ''0'') refund_decision 5000 one_refund = (Inr x, t)"
proof -
  have "repeated is_hex_digit 32 32 (replicate 32 CHR ''0'')" by (simp add: repeated_def list_all_iff is_hex_digit_def char_defs)
  then show ?thesis
    by (simp add: decide_refund_request_def run_bnd stmt_def refunded_view_def one_film_def one_refund_def sample_refund_def tget_def
        refund_decision_def update_refund_def)
qed

theorem decision_needs_chain_witness:
  "\<exists>i q t. decide_refund_request refunded_view ''market.testnet'' (replicate 32 CHR ''0'') refund_decision 5000 one_refund = (Inr (i, q), t)
     \<and> rr_status q = ''refunded''"
proof -
  obtain i q t where run: "decide_refund_request refunded_view ''market.testnet'' (replicate 32 CHR ''0'') refund_decision 5000 one_refund = (Inr (i, q), t)"
    using one_refund_decided by (metis surj_pair)
  then show ?thesis using decision_needs_chain [OF run] by (auto simp: refund_decision_def)
qed

section \<open>VAT attestations\<close>

lemma key_registered:
  assumes "assert_key_registered P cfg now_ms s = (Inr u, t)"
  shows "py_key_check t = Some (key_check_key cfg, snd (the (py_key_check t))) \<and> now_ms - snd (the (py_key_check t)) < key_check_ttl_ms"
  using assms by (auto simp: assert_key_registered_def bnd_returns key_check_ttl_ms_def split: if_splits option.splits)

lemma vat_error_status: "map_of vat_errors code = Some status \<Longrightarrow> status \<noteq> 200"
  by (auto simp: vat_errors_def split: if_splits)

lemma attested:
  assumes "attest_request P cfg body now_ms cors s = (Inr rsp, t)" and "py_status rsp = 200"
  obtains t1 t2 t3 publication gross s3 a where "assert_key_registered P cfg now_ms s = (Inr (), t1)"
    and "pr_view P (ps_market cfg) ''get_publication'' (JObj [(''publication_id'', JStr (str_of ''publication_id'' body))]) t1 = (Inr publication, t2)"
    and "sold_as (str_of ''publication_id'' body) publication gross"
    and "pr_view P (ps_market cfg) ''get_ticket'' (JObj [(''ticket_id'', JStr (str_of ''ticket_id'' body))]) s3 = (Inr JNull, t3)"
    and "attest_vat (pr_crypto P) (vat_input_of cfg body gross now_ms) (ps_signer cfg) = Inr a"
    and "py_body rsp = Some (attestation_json a)"
  using assms unfolding attest_request_def read_purchasable_publication_def
  by (auto simp: bnd_returns purchasable_sold pay_json_def pay_error_def split: if_splits)

text \<open>
  A VAT attestation is answered only for a publication that the Market sells at the attested price, for a
  ticket that does not exist yet, with a key the Market itself confirmed as this key version within the last minute.
\<close>

theorem vat_attested_when_sold:
  assumes "handle_vat P cfg body cors s = (Inr rsp, t)" and "py_status rsp = 200"
  shows "vat_request_ok body \<and>
    (\<exists>s1 s2 publication gross a.
       pr_view P (ps_market cfg) ''get_publication'' (JObj [(''publication_id'', JStr (str_of ''publication_id'' body))]) s1 = (Inr publication, s2) \<and>
       sold_as (str_of ''publication_id'' body) publication gross \<and>
       attest_vat (pr_crypto P) (vat_input_of cfg body gross (pr_now P s)) (ps_signer cfg) = Inr a \<and>
       py_body rsp = Some (attestation_json a)) \<and>
    (\<exists>s1 s2. pr_view P (ps_market cfg) ''get_ticket'' (JObj [(''ticket_id'', JStr (str_of ''ticket_id'' body))]) s1 = (Inr JNull, s2)) \<and>
    (\<exists>s1 t1. assert_key_registered P cfg (pr_now P s) s1 = (Inr (), t1) \<and>
       (case py_key_check t1 of Some (k, since) \<Rightarrow> k = key_check_key cfg \<and> pr_now P s - since < 60000 | None \<Rightarrow> False))"
proof -
  have body: "vat_request_ok body" using assms by (auto simp: handle_vat_def pay_error_def pay_json_def split: if_splits)
  have "attest_request P cfg body (pr_now P s) cors s = (Inr rsp, t)"
  proof (cases "fst (attest_request P cfg body (pr_now P s) cors s)")
    case (Inl code)
    then show ?thesis using assms body vat_error_status
      by (auto simp: handle_vat_def run_bnd run_catch pay_error_def pay_json_def split: option.splits)
  next
    case (Inr x)
    then show ?thesis using assms(1) body by (simp add: handle_vat_def run_bnd run_catch)
  qed
  then show ?thesis
  proof (rule attested [OF _ assms(2)])
    fix t1 t2 t3 publication gross s3 a
    assume key: "assert_key_registered P cfg (pr_now P s) s = (Inr (), t1)"
      and rest: "pr_view P (ps_market cfg) ''get_publication'' (JObj [(''publication_id'', JStr (str_of ''publication_id'' body))]) t1 = (Inr publication, t2)"
      "sold_as (str_of ''publication_id'' body) publication gross"
      "pr_view P (ps_market cfg) ''get_ticket'' (JObj [(''ticket_id'', JStr (str_of ''ticket_id'' body))]) s3 = (Inr JNull, t3)"
      "attest_vat (pr_crypto P) (vat_input_of cfg body gross (pr_now P s)) (ps_signer cfg) = Inr a"
      "py_body rsp = Some (attestation_json a)"
    have "case py_key_check t1 of Some (k, since) \<Rightarrow> k = key_check_key cfg \<and> pr_now P s - since < 60000 | None \<Rightarrow> False"
      using key_registered [OF key] by (auto simp: key_check_ttl_ms_def split: option.splits)
    then show ?thesis using key rest body by blast
  qed
qed

definition film_market :: "unit pay_runtime" where
  "film_market = one_film\<lparr>pr_view := (\<lambda>_ m _. ret (if m = ''get_publication'' then film
     else if m = ''get_vat_public_key'' then JStr sample_key else JNull))\<rparr>"

definition film_settings :: pay_settings where
  "film_settings =
     \<lparr>ps_rpc_url = ''https://rpc.example'', ps_market = ''market.testnet'', ps_rate_bps = 2700, ps_key_version = 1,
      ps_signer = sample_key, ps_public_key = sample_key, ps_allowed_origins = []\<rparr>"

definition film_request :: json where
  "film_request = JObj [(''ticket_id'', JStr (replicate 64 CHR ''0'')), (''publication_id'', JStr ''film-1'')]"

lemma film_request_ok: "vat_request_ok film_request"
proof -
  have "ident128 ''film-1''" by (simp add: ident128_def repeated_def char_defs)
  moreover have "sorted_keys film_request = ''publication_id,ticket_id''" unfolding film_request_def by code_simp
  ultimately show ?thesis by (simp add: vat_request_ok_def film_request_def has_str_def str_of_def)
qed

lemma film_attested: "\<exists>rsp t. handle_vat film_market film_settings film_request None empty_book = (Inr rsp, t) \<and> py_status rsp = 200"
proof -
  have vat: "inclusive_vat 5000000 2700 = Inr 1062992"
    by (simp add: inclusive_vat_def max_vat_rate_bps_def within_cap_def sdiv_nonneg)
  have digits: "show_int 5000000 = ''5000000''" "show_int 1062992 = ''1062992''" "show_int 601000 = ''601000''" "show_int 1 = ''1''"
    by (simp_all add: show_int_def show_nat.simps digit_chr_def)
  have "ident128 ''film-1''" by (simp add: ident128_def repeated_def char_defs)
  moreover have "vat_input_of film_settings film_request 5000000 1000 =
     \<lparr>vi_network = ''testnet'', vi_contract = ''market.testnet'', vi_ticket = replicate 64 CHR ''0'', vi_publication = ''film-1'',
      vi_gross = 5000000, vi_rate_bps = 2700, vi_key_version = 1, vi_now_ms = 1000\<rparr>"
    by (simp add: vat_input_of_def film_settings_def film_request_def str_of_def pay_network_def)
  ultimately have "\<exists>a. attest_vat sample_crypto (vat_input_of film_settings film_request 5000000 1000) sample_key = Inr a"
    by (simp add: attest_vat_def vat digits Let_def min_gross_usdc_micro_def attestation_ttl_ms_def
        vat_message_def vat_message_lines_def has_line_break_def chr_code_def list_ex_iff)
  moreover have "str_of ''publication_id'' film_request = ''film-1''" by (simp add: film_request_def str_of_def)
  ultimately show ?thesis
    using film_price
    by (auto simp: handle_vat_def film_request_ok run_bnd run_catch attest_request_def assert_key_registered_def empty_book_def
        film_market_def one_film_def read_purchasable_publication_def film_settings_def pay_json_def)
qed

theorem vat_attested_when_sold_witness:
  "\<exists>rsp t a. handle_vat film_market film_settings film_request None empty_book = (Inr rsp, t) \<and>
     py_body rsp = Some (attestation_json a) \<and> vat_request_ok film_request"
  using vat_attested_when_sold film_attested by blast

end
