(* ===== verification/PaymentHooks.thy ===== *)
theory PaymentHooks
  imports PaymentGuards JsonRoundTrip
begin

text \<open>
  The provider's webhook: what its signature covers, and what it does not.
\<close>

section \<open>Authentic events\<close>

lemma event_of_one:
  "event_of delivery offer kind amount currency occurred = Inr es \<longleftrightarrow>
     (\<exists>oid a. offer = Some oid \<and> amount = Some a \<and> 0 < a \<and> repeated is_upper 3 3 currency \<and>
       es = [\<lparr>ce_event_id = delivery @ '':0'', ce_kind = kind, ce_order_id = oid, ce_amount_minor = a, ce_currency = currency,
              ce_occurred_at = occurred\<rparr>])"
  by (auto simp: event_of_def split: option.splits)

lemma webhook_parts:
  "cleeng_webhook C cfg rq now_ms = Inr es \<longleftrightarrow>
     utf16_length (wr_text rq) \<le> 64 * 1024 \<and> verify_cleeng_signature C (wr_text rq) (wr_signature rq) (cl_webhook_secret cfg) \<and>
     (\<exists>envelope data. json_parse (wr_text rq) = Some envelope \<and> delivery_id (text_or_empty (wr_delivery_id rq)) \<and> envelope \<noteq> JNull \<and>
        string_of (obj_get ''broadcasterId'' envelope) = cl_publisher_id cfg \<and> obj_get ''data'' envelope = Some data \<and> has_fields data \<and>
        webhook_events (text_or_empty (wr_delivery_id rq)) data (obj_get ''topic'' envelope) now_ms = Inr es)"
  by (auto simp: cleeng_webhook_def ebind_Inr_iff Let_def split: option.splits if_splits)

definition solid :: "char \<Rightarrow> bool" where
  "solid c = (chr_code c < 128 \<and> \<not> white_space (chr_code c))"

lemma solid_b64: "n < 64 \<Longrightarrow> solid (b64_chr n)"
  using b64_chr_class [of n] by (auto simp: solid_def white_space_def char_defs is_alnum_def)

lemma btoa_solid: "list_all solid (btoa bs)"
proof -
  have "list_all (\<lambda>a. a < 256) (map unat bs)"
    using unsigned_less [where 'a = nat and 'b = 8] by (simp add: list_all_iff)
  note b64_digits_less [OF this]
  moreover have "solid CHR ''=''" by (simp add: solid_def white_space_def chr_code_def)
  ultimately show ?thesis by (auto simp: btoa_def list_all_iff b64_padding_def solid_b64)
qed

lemma btoa_ascii: "list_all (\<lambda>c. chr_code c < 128) (btoa bs)"
  using btoa_solid [of bs] by (simp add: list_all_iff solid_def)

lemma js_trim_solid:
  assumes "list_all solid s"
  shows "js_trim s = s"
proof -
  have "code_points s = map chr_code s" using assms by (intro code_points_ascii) (auto simp: list_all_iff solid_def)
  moreover have "dropWhile white_space (map chr_code s) = map chr_code s"
    using assms by (cases s) (simp_all add: solid_def)
  moreover have "dropWhile white_space (rev (map chr_code s)) = rev (map chr_code s)"
    using assms by (cases s rule: rev_cases) (simp_all add: solid_def)
  moreover have "of_code_points (map chr_code s) = s"
    using assms by (induction s) (simp_all add: of_code_points_def utf8_def chr_code_def solid_def)
  ultimately show ?thesis by (simp add: js_trim_def)
qed

text \<open>
  C21 (safety) A webhook that yields an event carries the HMAC of exactly the bytes of its body under the webhook secret,
  and yields one event: a purchase or a refund of a positive amount, named after its delivery.
\<close>

theorem webhook_event_is_signed:
  assumes "cleeng_webhook C cfg rq now_ms = Inr (e # es)" and "wr_signature rq = Some header" and "scalar_text (js_trim header)"
    and "length (encode_text (js_trim header)) < 2 ^ 32"
    and "length (hmac_sha256 C (encode_text (cl_webhook_secret cfg)) (encode_text (wr_text rq))) = 32"
  shows "js_trim header = btoa (hmac_sha256 C (encode_text (cl_webhook_secret cfg)) (encode_text (wr_text rq))) \<and> es = [] \<and>
    0 < ce_amount_minor e \<and> ce_kind e \<in> {EPurchase, ERefund} \<and> (\<exists>d. wr_delivery_id rq = Some d \<and> delivery_id d \<and> ce_event_id e = d @ '':0'')"
proof -
  let ?mac = "btoa (hmac_sha256 C (encode_text (cl_webhook_secret cfg)) (encode_text (wr_text rq)))"
  have "list_all (\<lambda>c. chr_code c < 128) ?mac" by (rule btoa_ascii)
  then have mac: "scalar_text ?mac" "length (encode_text ?mac) < 2 ^ 32"
    using assms(5) by (simp_all add: scalar_text_ascii encode_scalar_text btoa_def length_b64_digits b64_padding_def)
  have "constant_time_equal (js_trim header) ?mac"
    using assms(1,2) by (simp add: webhook_parts verify_cleeng_signature_def)
  then have "js_trim header = ?mac"
    by (simp only: constant_time_equal_def Let_def same_bytes_loop [OF assms(4) mac(2)] encode_text_inject [OF assms(3) mac(1)])
  moreover obtain data topic where "webhook_events (text_or_empty (wr_delivery_id rq)) data topic now_ms = Inr (e # es)"
      and delivery: "delivery_id (text_or_empty (wr_delivery_id rq))"
    using assms(1) by (auto simp: webhook_parts)
  moreover have "\<exists>d. wr_delivery_id rq = Some d \<and> delivery_id d"
    using delivery by (cases "wr_delivery_id rq") (auto simp: text_or_empty_def delivery_id_def repeated_def)
  ultimately show ?thesis
    by (auto simp: webhook_events_def Let_def event_of_one text_or_empty_def split: if_splits)
qed

text \<open>A signed purchase.\<close>

definition purchase_data :: json where
  "purchase_data =
     JObj [(''offerId'', JStr ''S12345678_US''), (''offerPrice'', JStr ''4.99''), (''offerCurrency'', JStr ''USD''),
           (''transactionDate'', JNum 2)]"

definition purchase_envelope :: json where
  "purchase_envelope =
     JObj [(''broadcasterId'', JStr ''123456''), (''topic'', JStr ''transactionCreated''), (''data'', purchase_data)]"

definition sample_cleeng :: cleeng_settings where
  "sample_cleeng = \<lparr>cl_publisher_id = ''123456'', cl_publisher_token = ''token'', cl_webhook_secret = replicate 16 CHR ''s''\<rparr>"

definition purchase_webhook :: webhook_request where
  "purchase_webhook =
     \<lparr>wr_text = json_text purchase_envelope, wr_signature = Some (btoa (sample_bytes 32)), wr_delivery_id = Some ''delivery-1''\<rparr>"

lemma esc_plain: "list_all (\<lambda>c. chr_code c < 128 \<and> esc_chr c = [c]) s \<Longrightarrow> esc_text s = s"
  by (induction s rule: esc_text.induct) (auto simp: chr_code_def)

lemma two_text: "num_text 2 = ''2''"
  by (simp add: num_text_def show_int_def show_nat.simps digit_chr_def)

lemma purchase_text: "utf16_length (json_text purchase_envelope) \<le> 64 * 1024"
proof -
  have "list_all (\<lambda>c. chr_code c < 128) (json_text purchase_envelope) \<and> length (json_text purchase_envelope) \<le> 64 * 1024"
    by (simp add: purchase_envelope_def purchase_data_def esc_plain two_text esc_chr_def chr_code_def)
  then show ?thesis by (simp add: utf16_length_ascii)
qed

lemma purchase_parses: "json_parse (json_text purchase_envelope) = Some purchase_envelope"
proof (rule json_read_back)
  show "plain purchase_envelope" unfolding purchase_envelope_def purchase_data_def by code_simp
qed

lemma sample_mac: "js_trim (btoa (sample_bytes 32)) = btoa (sample_bytes 32)"
  by (rule js_trim_solid [OF btoa_solid])

lemma sample_mac_nonempty: "btoa (sample_bytes 32) \<noteq> []"
  by (simp add: btoa_def b64_padding_def)

lemma sample_mac_length: "length (encode_text (btoa (sample_bytes 32))) = 44"
  using encode_scalar_text [OF scalar_text_ascii [OF btoa_ascii [of "sample_bytes 32"]]]
  by (simp add: btoa_def length_b64_digits b64_padding_def)

lemma amount_499: "amount_parts (js_trim ''4.99'') = Some (''4'', ''99'')"
proof -
  have "js_trim ''4.99'' = ''4.99''" by (rule js_trim_solid) (simp add: solid_def white_space_def chr_code_def)
  then show ?thesis by (simp add: amount_parts_def Let_def repeated_def char_defs)
qed

lemma purchase_event:
  "cleeng_webhook sample_crypto sample_cleeng purchase_webhook 9000 =
     Inr [sample_purchase]"
proof -
  have "scalar_text (btoa (sample_bytes 32))" by (rule scalar_text_ascii [OF btoa_ascii])
  then have "constant_time_equal (btoa (sample_bytes 32)) (btoa (sample_bytes 32))"
    by (simp only: constant_time_equal_def Let_def) (subst same_bytes_loop, simp_all add: sample_mac_length)
  then have verified: "verify_cleeng_signature sample_crypto (json_text purchase_envelope) (Some (btoa (sample_bytes 32))) (replicate 16 CHR ''s'')"
    using utf16_length_ascii [OF ascii_replicate, of "CHR ''s''" 16]
    by (simp add: verify_cleeng_signature_def sample_mac chr_code_def sample_mac_nonempty)
  have delivery: "delivery_id ''delivery-1''" by (simp add: delivery_id_def repeated_def char_defs is_alnum_def)
  have "minor_units (Some (JStr ''4.99'')) = Some 499"
    by (simp add: amount_499 [unfolded amount_text_def] minor_units_def amount_text_def Let_def dec_val_def digit_val_def chr_code_def numeral_eq_Suc)
  moreover have "offer_id ''S12345678_US''" by (simp add: offer_id_def repeated_def char_defs Let_def)
  moreover have "double_of_nat 2000 = 2000" by simp
  ultimately have "webhook_events ''delivery-1'' purchase_data (Some (JStr ''transactionCreated'')) 9000 = Inr [sample_purchase]"
    by (simp add: webhook_events_def event_of_one purchase_data_def str_of_def sample_purchase_def seconds_ms_def repeated_def
       char_defs safe_integer_def max_safe_def)
  then have envelope: "purchase_envelope \<noteq> JNull \<and> string_of (obj_get ''broadcasterId'' purchase_envelope) = ''123456'' \<and>
     obj_get ''data'' purchase_envelope = Some purchase_data \<and> has_fields purchase_data \<and>
     webhook_events ''delivery-1'' purchase_data (obj_get ''topic'' purchase_envelope) 9000 = Inr [sample_purchase]"
    by (simp add: purchase_envelope_def purchase_data_def string_of_def)
  show ?thesis
    unfolding webhook_parts purchase_webhook_def sample_cleeng_def webhook_request.simps cleeng_settings.simps text_or_empty_def option.case
    using purchase_text purchase_parses envelope verified delivery by blast
qed

theorem webhook_event_is_signed_witness:
  "js_trim (btoa (sample_bytes 32)) = btoa (hmac_sha256 sample_crypto (encode_text (replicate 16 CHR ''s'')) (encode_text (json_text purchase_envelope)))
   \<and> 0 < ce_amount_minor sample_purchase"
  using webhook_event_is_signed [OF purchase_event, of "btoa (sample_bytes 32)"] sample_mac_length
    scalar_text_ascii [OF btoa_ascii, of "sample_bytes 32"]
  by (simp add: sample_mac purchase_webhook_def sample_cleeng_def)

text \<open>
  The signature does not cover the delivery identifier: the same signed body under another identifier is
  accepted again, as a new event with that identifier.
\<close>

theorem webhook_replayed_as_new_event:
  assumes "cleeng_webhook C cfg rq now_ms = Inr [e]" and "delivery_id d"
  shows "cleeng_webhook C cfg (rq\<lparr>wr_delivery_id := Some d\<rparr>) now_ms = Inr [e\<lparr>ce_event_id := d @ '':0''\<rparr>]"
  using assms unfolding webhook_parts
  by (auto simp: webhook_events_def Let_def event_of_one text_or_empty_def split: if_splits)

theorem webhook_replayed_as_new_event_witness:
  "cleeng_webhook sample_crypto sample_cleeng (purchase_webhook\<lparr>wr_delivery_id := Some ''delivery-2''\<rparr>) 9000 =
     Inr [sample_purchase\<lparr>ce_event_id := ''delivery-2:0''\<rparr>]"
proof -
  have "delivery_id ''delivery-2''" by (simp add: delivery_id_def repeated_def char_defs is_alnum_def)
  then show ?thesis using webhook_replayed_as_new_event [OF purchase_event] by fastforce
qed

end
