(* ===== verification/BridgeBase.thy ===== *)
theory BridgeBase
  imports NearRpc
begin

text \<open>
  Small modules of the media bridge (\<open>workers/livepeer-bridge/src\<close>): \<open>base58.ts\<close>, \<open>durable-object-capacity.ts\<close>,
  \<open>operator-outbox-archive.ts\<close>, \<open>upload-job-archive.ts\<close> and \<open>provider-webhook.ts\<close>.
\<close>

section \<open>Base58\<close>

definition alphabet58 :: string where
  "alphabet58 = ''123456789ABCDEFGHJKLMNPQRSTUVWXYZabcdefghijkmnopqrstuvwxyz''"

text \<open>\<open>ALPHABET.indexOf(char)\<close>\<close>

fun index_of :: "'a \<Rightarrow> 'a list \<Rightarrow> nat option" where
  "index_of c [] = None"
| "index_of c (d # ds) = (if c = d then Some 0 else map_option Suc (index_of c ds))"

definition strip_ed25519 :: "string \<Rightarrow> string" where
  "strip_ed25519 v = (if starts_with ''ed25519:'' v then drop 8 v else v)"

text \<open>\<open>while (carry > 0) { bytes.push(carry & 0xff); carry >>= 8 }\<close>\<close>

fun push_carry :: "nat \<Rightarrow> nat list" where
  "push_carry carry = (if carry = 0 then [] else carry mod 256 # push_carry (carry div 256))"

declare push_carry.simps [simp del]

text \<open>One digit: the bytes, least significant first, times 58 plus the digit. No carry leaves 32 bits: it stays below 58.\<close>

fun carry_in :: "nat \<Rightarrow> nat list \<Rightarrow> nat list" where
  "carry_in carry [] = push_carry carry"
| "carry_in carry (b # bs) = (carry + b * 58) mod 256 # carry_in ((carry + b * 58) div 256) bs"

fun base58_digits :: "string \<Rightarrow> nat list \<Rightarrow> nat list option" where
  "base58_digits [] bytes = Some bytes"
| "base58_digits (c # cs) bytes =
     (case index_of c alphabet58 of None \<Rightarrow> None | Some digit \<Rightarrow> base58_digits cs (carry_in digit bytes))"

text \<open>\<open>None\<close>: a character of another alphabet, it throws.\<close>

definition base58_decode :: "string \<Rightarrow> bytes option" where
  "base58_decode v =
     (let encoded = strip_ed25519 v
      in map_option (\<lambda>bytes. rev (map of_nat (bytes @ replicate (length (takeWhile (\<lambda>c. c = CHR ''1'') encoded)) 0)))
           (base58_digits encoded [0]))"

section \<open>How many records a durable object holds\<close>

definition max_persistent_records :: nat where
  "max_persistent_records = 256"

text \<open>\<open>storage.list({ limit })\<close> never gives more than the limit.\<close>

definition assert_record_capacity :: "'k list \<Rightarrow> (('k, 'v) table, unit) act" where
  "assert_record_capacity keys =
     bnd (reading (\<lambda>t. filter (\<lambda>k. tget k t = None) (remdups keys))) (\<lambda>missing.
       if missing = [] then ret ()
       else
         bnd (reading (\<lambda>t. min max_persistent_records (length t))) (\<lambda>size.
         require (size + length missing \<le> max_persistent_records) ''durable_object_record_limit''))"

section \<open>Archives\<close>

text \<open>
  What the database says after the wait for it: \<open>result.success\<close>. A statement that does not succeed writes nothing.
\<close>

record 's archive_db =
  ad_insert :: "('s, bool) act"
  ad_select :: "('s, unit) act"

record operator_outbox_archive =
  oa_network :: string
  oa_contract_id :: string
  oa_operator_account_id :: string
  oa_operator_key_epoch :: int
  oa_idempotency_key :: string
  oa_method :: string
  oa_payload_sha256 :: string
  oa_tx_hash :: "string option"
  oa_created_at_ms :: int
  oa_confirmed_at_ms :: int
  oa_archive_requested_at_ms :: int
  oa_cleanup_eligible_at_ms :: int
  oa_archive_sha256 :: string

type_synonym outbox_row_key = "string \<times> string \<times> string \<times> int \<times> string"

definition outbox_key :: "operator_outbox_archive \<Rightarrow> outbox_row_key" where
  "outbox_key a = (oa_network a, oa_contract_id a, oa_operator_account_id a, oa_operator_key_epoch a, oa_idempotency_key a)"

text \<open>The columns the code reads back and compares.\<close>

definition same_outbox_columns :: "operator_outbox_archive \<Rightarrow> operator_outbox_archive \<Rightarrow> bool" where
  "same_outbox_columns stored a =
     (oa_method stored = oa_method a \<and> oa_payload_sha256 stored = oa_payload_sha256 a \<and> oa_tx_hash stored = oa_tx_hash a
      \<and> oa_created_at_ms stored = oa_created_at_ms a \<and> oa_confirmed_at_ms stored = oa_confirmed_at_ms a
      \<and> oa_archive_requested_at_ms stored = oa_archive_requested_at_ms a
      \<and> oa_cleanup_eligible_at_ms stored = oa_cleanup_eligible_at_ms a \<and> oa_archive_sha256 stored = oa_archive_sha256 a)"

text \<open>\<open>INSERT ... ON CONFLICT DO NOTHING\<close>, then the row that is there.\<close>

definition insert_or_ignore :: "'k \<Rightarrow> 'v \<Rightarrow> ('k, 'v) table \<Rightarrow> ('k, 'v) table" where
  "insert_or_ignore k v t = (if tget k t = None then tput k v t else t)"

definition commit_operator_outbox_archive ::
  "(outbox_row_key, operator_outbox_archive) table archive_db \<Rightarrow> operator_outbox_archive \<Rightarrow> ((outbox_row_key, operator_outbox_archive) table, unit) act" where
  "commit_operator_outbox_archive D a =
     bnd (ad_insert D) (\<lambda>success.
     bnd (if success then writing (insert_or_ignore (outbox_key a) a) else ret ()) (\<lambda>_.
     bnd (require success ''operator_archive_unavailable'') (\<lambda>_.
     bnd (ad_select D) (\<lambda>_.
     bnd (reading (tget (outbox_key a))) (\<lambda>stored.
       case stored of None \<Rightarrow> throw ''operator_archive_unavailable''
       | Some row \<Rightarrow> require (same_outbox_columns row a) ''operator_archive_conflict'')))))"

record upload_job_archive =
  ja_network :: string
  ja_contract_id :: string
  ja_job_id :: string
  ja_generation :: int
  ja_creator_id :: string
  ja_terminal_state :: string
  ja_terminal_at_ms :: int
  ja_expected_source_bytes :: string
  ja_source_fingerprint_sha256 :: "string option"
  ja_asset_id_sha256 :: "string option"
  ja_project_id_sha256 :: "string option"
  ja_archive_requested_at_ms :: int
  ja_cleanup_eligible_at_ms :: int
  ja_archive_sha256 :: string

type_synonym job_row_key = "string \<times> string \<times> string \<times> int"

definition job_key :: "upload_job_archive \<Rightarrow> job_row_key" where
  "job_key a = (ja_network a, ja_contract_id a, ja_job_id a, ja_generation a)"

definition same_job_columns :: "upload_job_archive \<Rightarrow> upload_job_archive \<Rightarrow> bool" where
  "same_job_columns stored a =
     (ja_creator_id stored = ja_creator_id a \<and> ja_terminal_state stored = ja_terminal_state a
      \<and> ja_terminal_at_ms stored = ja_terminal_at_ms a \<and> ja_expected_source_bytes stored = ja_expected_source_bytes a
      \<and> ja_source_fingerprint_sha256 stored = ja_source_fingerprint_sha256 a \<and> ja_asset_id_sha256 stored = ja_asset_id_sha256 a
      \<and> ja_project_id_sha256 stored = ja_project_id_sha256 a \<and> ja_archive_requested_at_ms stored = ja_archive_requested_at_ms a
      \<and> ja_cleanup_eligible_at_ms stored = ja_cleanup_eligible_at_ms a \<and> ja_archive_sha256 stored = ja_archive_sha256 a)"

definition commit_upload_job_archive ::
  "(job_row_key, upload_job_archive) table archive_db \<Rightarrow> upload_job_archive \<Rightarrow> ((job_row_key, upload_job_archive) table, unit) act" where
  "commit_upload_job_archive D a =
     bnd (ad_insert D) (\<lambda>success.
     bnd (if success then writing (insert_or_ignore (job_key a) a) else ret ()) (\<lambda>_.
     bnd (require success ''upload_archive_unavailable'') (\<lambda>_.
     bnd (ad_select D) (\<lambda>_.
     bnd (reading (tget (job_key a))) (\<lambda>stored.
       case stored of None \<Rightarrow> throw ''upload_archive_unavailable''
       | Some row \<Rightarrow> require (same_job_columns row a) ''upload_archive_conflict'')))))"

section \<open>Webhook events\<close>

datatype webhook_kind = WReady | WProcessing | WFailed | WDeleted

datatype media_provider_kind = Studio | Stream

fun media_kind_name :: "media_provider_kind \<Rightarrow> string" where
  "media_kind_name Studio = ''studio''"
| "media_kind_name Stream = ''stream''"

fun webhook_kind_name :: "webhook_kind \<Rightarrow> string" where
  "webhook_kind_name WReady = ''ready''"
| "webhook_kind_name WProcessing = ''processing''"
| "webhook_kind_name WFailed = ''failed''"
| "webhook_kind_name WDeleted = ''deleted''"

record webhook_route =
  wr_job_id :: string
  wr_generation :: int

record webhook_event =
  we_provider :: media_provider_kind
  we_event :: webhook_kind
  we_provider_event :: string
  we_asset_id :: string
  we_route :: "webhook_route option"
  we_phase :: string
  we_timestamp_ms :: int
  we_failure_code :: "string option"
  we_stream_progress :: "(string \<times> rat) option"
  we_digest :: string

definition active_upload_states :: "string list" where
  "active_upload_states = [''UPLOAD_READY'', ''UPLOADING'', ''PROCESSING'']"

definition is_readiness_event :: "webhook_event \<Rightarrow> string \<Rightarrow> bool" where
  "is_readiness_event e job_state =
     (we_event e = WReady
      \<or> (we_event e = WProcessing \<and> job_state \<in> set active_upload_states \<and> we_phase e = ''ready''))"

definition is_provider_failure_event :: "webhook_event \<Rightarrow> bool" where
  "is_provider_failure_event e = (we_event e = WFailed \<or> we_event e = WDeleted)"

definition is_processing_event :: "webhook_event \<Rightarrow> bool" where
  "is_processing_event e = (we_event e = WProcessing \<and> we_phase e = ''processing'')"

text \<open>An observation the job object makes itself.\<close>

definition synthesized_provider_event ::
  "crypto \<Rightarrow> media_provider_kind \<Rightarrow> webhook_kind \<Rightarrow> string \<Rightarrow> string \<Rightarrow> int \<Rightarrow> webhook_event" where
  "synthesized_provider_event C provider event asset phase now_ms =
     \<lparr>we_provider = provider, we_event = event, we_provider_event = ''synthesized.'' @ webhook_kind_name event,
      we_asset_id = asset, we_route = None, we_phase = phase, we_timestamp_ms = now_ms, we_failure_code = None,
      we_stream_progress = None,
      we_digest = hex_of (sha256 C (encode_text (join [CHR 0x0A]
        [''youtick.synthesized-provider-event.v1'', media_kind_name provider, webhook_kind_name event, show_int now_ms, asset, phase])))\<rparr>"

end
