(* ===== verification/BridgePlayback.thy ===== *)
theory BridgePlayback
  imports BridgeBase Coerce
begin

text \<open>
  Ticket playback of the media bridge: \<open>playback-v3.ts\<close>, the profile catalogs of \<open>media-provider.ts\<close>, and the route
  \<open>/v3/playback-tokens\<close> of \<open>index.ts\<close> with the functions it calls. The device session key signs the request, the final
  ticket view authorises it, and the first play is settled on the chain before any token. The chain, the media
  adapters, the operator object and the URL parser are parameters; each call may change the whole state.
\<close>

section \<open>Profiles\<close>

text \<open>The catalogs of \<open>protocol/paid-media-livepeer-v1/profiles.json\<close> and \<open>protocol/paid-media-v1/stream-profile.json\<close>.\<close>

definition studio_profiles :: "(string \<times> (nat \<times> nat) list) list" where
  "studio_profiles =
     [(''96197f502ab9777df0e1c1360803461c3f7e2809495ad575bfe338bc69f5bf77'', [(1280, 720)]),
      (''28ba12452dd2cc55e64baf73a3dbf665784eeb8fd87892163818513165bbd3b2'', [(640, 360), (1280, 720)]),
      (''a6751ecd819f080430d3bea4cab0d7b906cd729993c925ae16c676433fe65752'', [(640, 360), (1280, 720), (1920, 1080)])]"

definition stream_profile_hash :: string where
  "stream_profile_hash = ''1128da32be3187c804326ef68a3c4c5344b47fc956a09ee88f8c0779ea5f4c64''"

definition stream_renditions :: "(nat \<times> nat) list" where
  "stream_renditions = [(426, 240), (640, 360), (852, 480), (1280, 720), (1920, 1080)]"

definition media_provider_kind_of :: "json option \<Rightarrow> media_provider_kind option" where
  "media_provider_kind_of v =
     (if v = Some (JStr ''studio'') then Some Studio else if v = Some (JStr ''stream'') then Some Stream else None)"

definition media_profile_family :: "string option \<Rightarrow> media_provider_kind option" where
  "media_profile_family hash =
     (case hash of None \<Rightarrow> None
      | Some h \<Rightarrow> if h \<in> set (map fst studio_profiles) then Some Studio else if h = stream_profile_hash then Some Stream else None)"

definition supports_media_profile :: "string option \<Rightarrow> bool" where
  "supports_media_profile hash = (media_profile_family hash \<noteq> None)"

definition describe_media_profile :: "string option \<Rightarrow> string + (nat \<times> nat) list" where
  "describe_media_profile hash =
     (case media_profile_family hash of
        Some Stream \<Rightarrow> Inr stream_renditions
      | Some Studio \<Rightarrow> Inr (the (map_of studio_profiles (the hash)))
      | None \<Rightarrow> Inl ''unsupported_profile'')"

definition stream_supports_profile :: "string option \<Rightarrow> bool" where
  "stream_supports_profile hash = (media_profile_family hash = Some Stream)"

definition stream_describe_profile :: "string option \<Rightarrow> string + (nat \<times> nat) list" where
  "stream_describe_profile hash =
     (if \<not> stream_supports_profile hash then Inl ''unsupported_profile'' else describe_media_profile hash)"

section \<open>The request\<close>

record playback_request =
  pq_network :: string
  pq_contract_id :: string
  pq_ticket_id :: string
  pq_session_public_key :: string
  pq_request_origin :: string
  pq_device_nonce :: string
  pq_expires_at_ms :: string

record playback_binding =
  pg_network :: "string option"
  pg_contract_id :: "string option"
  pg_origins :: "string list"
  pg_now_ms :: int

definition playback_domain :: string where
  "playback_domain = ''youtick.market-v2.playback.v1''"

definition max_request_ahead_ms :: int where
  "max_request_ahead_ms = 5 * 60 * 1000"

definition request_keys :: "string list" where
  "request_keys = [''network'', ''contract_id'', ''ticket_id'', ''session_public_key'', ''origin'', ''device_nonce'', ''expires_at_ms'']"

definition require_object :: "json option \<Rightarrow> string \<Rightarrow> string + json" where
  "require_object v code = (case v of Some j \<Rightarrow> if is_obj j then Inr j else Inl code | None \<Rightarrow> Inl code)"

text \<open>\<open>exactKeys\<close> and \<open>requireExactKeys\<close>: the sorted keys are the sorted expected keys.\<close>

definition require_exact_keys :: "json \<Rightarrow> string list \<Rightarrow> string \<Rightarrow> string + unit" where
  "require_exact_keys v ks code = erequire (sort (obj_keys v) = sort ks) code"

definition read_playback_request :: "json \<Rightarrow> playback_request" where
  "read_playback_request v =
     \<lparr>pq_network = str_of ''network'' v, pq_contract_id = str_of ''contract_id'' v, pq_ticket_id = str_of ''ticket_id'' v,
      pq_session_public_key = str_of ''session_public_key'' v, pq_request_origin = str_of ''origin'' v,
      pq_device_nonce = str_of ''device_nonce'' v, pq_expires_at_ms = str_of ''expires_at_ms'' v\<rparr>"

definition playback_v3_fields :: "playback_request \<Rightarrow> json option \<Rightarrow> bool" where
  "playback_v3_fields r sig =
     (hex64 (pq_ticket_id r) \<and> ed25519_text (pq_session_public_key r) \<and> repeated is_hex_digit 32 32 (pq_device_nonce r)
      \<and> decimal1 19 (pq_expires_at_ms r) \<and> (case as_str sig of Some s \<Rightarrow> base64_signature s | None \<Rightarrow> False))"

definition parse_playback_v3_body :: "json \<Rightarrow> playback_binding \<Rightarrow> string + playback_request \<times> string" where
  "parse_playback_v3_body value binding =
     (let code = ''invalid_playback_v3_request'' in
      ebind (require_object (Some value) code) (\<lambda>body.
      ebind (require_exact_keys body [''request'', ''signature''] code) (\<lambda>_.
      ebind (require_object (obj_get ''request'' body) code) (\<lambda>request.
      ebind (require_exact_keys request request_keys code) (\<lambda>_.
      ebind (erequire (list_all (\<lambda>k. has_str k request) request_keys) code) (\<lambda>_.
      let typed = read_playback_request request in
      ebind (erequire (playback_v3_fields typed (obj_get ''signature'' body)) code) (\<lambda>_.
      ebind (erequire (pg_network binding = Some (pq_network typed) \<and> pg_contract_id binding = Some (pq_contract_id typed))
               ''deployment_binding_mismatch'') (\<lambda>_.
      ebind (erequire (pq_request_origin typed \<in> set (pg_origins binding)) ''origin_denied'') (\<lambda>_.
      let expires = js_number (pq_expires_at_ms typed) in
      ebind (erequire (\<not> expires \<le> pg_now_ms binding) ''control_request_expired'') (\<lambda>_.
      ebind (erequire (\<not> expires > pg_now_ms binding + max_request_ahead_ms) code) (\<lambda>_.
      Inr (typed, str_of ''signature'' body))))))))))))"

definition playback_v3_lines :: "playback_request \<Rightarrow> string list" where
  "playback_v3_lines r =
     [playback_domain, pq_network r, pq_contract_id r, pq_ticket_id r, pq_session_public_key r, pq_request_origin r,
      pq_device_nonce r, pq_expires_at_ms r]"

definition canonical_playback_v3_message :: "playback_request \<Rightarrow> string" where
  "canonical_playback_v3_message r = join [CHR 0x0A] (playback_v3_lines r)"

section \<open>The decision\<close>

datatype decision_kind = Watch | Play

record playback_decision =
  pd_kind :: decision_kind
  pd_playback_id :: string
  pd_device_expires_at_ms :: int

definition playback_statuses :: "string list" where
  "playback_statuses = [''purchased'', ''watched'', ''watched_in_escrow'', ''released'']"

definition playable_availability :: "string list" where
  "playable_availability = [''ACTIVE'', ''SALES_SUSPENDED'']"

text \<open>\<open>a === b\<close> for values of two parsed texts: objects and arrays are never the same.\<close>

definition strict_equal :: "json option \<Rightarrow> json option \<Rightarrow> bool" where
  "strict_equal a b = (a = b \<and> (case a of Some v \<Rightarrow> \<not> has_fields v | None \<Rightarrow> True))"

definition text_in :: "json option \<Rightarrow> string list \<Rightarrow> bool" where
  "text_in v xs = (case as_str v of Some s \<Rightarrow> s \<in> set xs | None \<Rightarrow> False)"

definition device_expiry_of :: "json option \<Rightarrow> int" where
  "device_expiry_of device =
     (case as_str (Option.bind device (obj_get ''expires_at_ms'')) of
        Some s \<Rightarrow> if decimal1 19 s then js_number s else 0
      | None \<Rightarrow> 0)"

definition decide_ticket_playback :: "json \<Rightarrow> json \<Rightarrow> playback_request \<Rightarrow> int \<Rightarrow> string + playback_decision" where
  "decide_ticket_playback ticket_value publication_value r now_ms =
     ebind (erequire (ticket_value \<noteq> JNull \<and> publication_value \<noteq> JNull) ''playback_denied'') (\<lambda>_.
     ebind (require_object (Some ticket_value) ''playback_authorization_unavailable'') (\<lambda>ticket.
     ebind (require_object (Some publication_value) ''playback_authorization_unavailable'') (\<lambda>publication.
     ebind (erequire (obj_get ''ticket_id'' ticket = Some (JStr (pq_ticket_id r))
              \<and> text_in (obj_get ''status'' ticket) playback_statuses
              \<and> strict_equal (obj_get ''publication_id'' publication) (obj_get ''publication_id'' ticket)
              \<and> text_in (obj_get ''availability'' publication) playable_availability
              \<and> has_str ''playback_id'' publication) ''playback_denied'') (\<lambda>_.
     let devices = (case obj_get ''devices'' ticket of Some (JArr vs) \<Rightarrow> vs | _ \<Rightarrow> []) in
     ebind (erequire (list_all is_obj devices) ''playback_authorization_unavailable'') (\<lambda>_.
     let device = find (\<lambda>d. obj_get ''session_public_key'' d = Some (JStr (pq_session_public_key r))) devices;
         expires = device_expiry_of device in
     ebind (erequire (\<not> expires \<le> now_ms) ''playback_denied'') (\<lambda>_.
     Inr \<lparr>pd_kind = (if obj_get ''status'' ticket = Some (JStr ''purchased'') then Watch else Play),
          pd_playback_id = str_of ''playback_id'' publication, pd_device_expires_at_ms = expires\<rparr>))))))"

section \<open>Errors\<close>

definition safe_error_codes :: "string list" where
  "safe_error_codes =
     [''invalid_creator_pending_upload'', ''creator_pending_upload_record_failed'', ''control_body_too_large'',
      ''control_request_expired'', ''creator_fee_quote_rate_limited'', ''admission_closed'', ''admission_denied'',
      ''admission_reopen_conflict'', ''admission_reopen_denied'', ''device_key_not_authorized'', ''device_nonce_replayed'',
      ''deployment_binding_mismatch'', ''durable_object_record_limit'', ''invalid_control_envelope'',
      ''invalid_control_request'', ''invalid_creator_fee_quote_request'', ''invalid_json'', ''invalid_finalize_request'',
      ''invalid_admission_reopen'', ''invalid_outbox'', ''invalid_playback_request'', ''invalid_playback_v2_request'',
      ''invalid_playback_v3_request'', ''playback_pending'', ''invalid_sponsored_upload_quote_request'',
      ''invalid_sponsored_upload_relay'', ''invalid_upload_preflight'', ''invalid_upload_intent'', ''invalid_webhook'',
      ''invalid_webhook_signature'', ''near_finalize_failed'', ''near_finalize_mismatch'', ''near_finalize_pending'',
      ''near_job_not_found'', ''near_job_query_failed'', ''near_job_response_invalid'', ''on_chain_job_mismatch'',
      ''origin_denied'', ''operator_unauthorized'', ''operator_mutations_disabled'', ''operator_archive_conflict'',
      ''operator_archive_eligible_count_invalid'', ''operator_archive_scan_active'', ''operator_archive_unavailable'',
      ''outbox_conflict'', ''provider_identity_mismatch'', ''provider_asset_missing'', ''provider_admission_closed'',
      ''provider_playback_missing'', ''provider_playback_exposed'', ''provider_playback_mismatch'',
      ''publication_cover_image_denied'', ''provider_verification_incomplete'', ''provider_verification_budget_exceeded'',
      ''verification_evidence_missing'', ''publication_cover_image_redirected'', ''publication_cover_image_status'',
      ''publication_cover_image_type'', ''publication_cover_image_size'', ''publication_cover_image_invalid'',
      ''provider_state_invalid'', ''provider_tus_state_invalid'', ''provider_tus_url_expired'', ''provider_unavailable'',
      ''provider_mutations_disabled'', ''rate_source_invalid'', ''rate_limited'', ''rate_source_stale'',
      ''rate_source_unavailable'', ''playback_authorization_unavailable'', ''playback_denied'', ''protocol_binding_mismatch'',
      ''provider_create_ambiguous'', ''provider_create_pending'', ''provider_recovery_not_ready'',
      ''provider_delete_ambiguous'', ''reservation_conflict'', ''runtime_not_configured'', ''sponsor_balance_insufficient'',
      ''sponsor_job_conflict'', ''sponsor_relay_conflict'', ''sponsor_relay_failed'', ''sponsor_relay_mutations_disabled'',
      ''sponsor_relay_pending'', ''upload_archive_conflict'', ''upload_archive_unavailable'', ''upload_cancel_denied'',
      ''webhook_expired'', ''webhook_queue_unavailable'']"

definition sponsored_relay_rejection_codes :: "string list" where
  "sponsored_relay_rejection_codes =
     map (\<lambda>reason. ''invalid_sponsored_upload_relay_'' @ reason)
       [''delegate_decode'', ''delegate_shape'', ''quote_validation'', ''signature_validation'', ''freshness'', ''access_key'']"

definition safe_error_code :: "string \<Rightarrow> string" where
  "safe_error_code code =
     (if code \<in> set sponsored_relay_rejection_codes then ''invalid_sponsored_upload_relay''
      else if code \<in> set safe_error_codes then code else ''internal_error'')"

definition error_status :: "string \<Rightarrow> nat" where
  "error_status code =
     (if code = ''internal_error'' then 500
      else if code \<in> set [''creator_fee_quote_rate_limited'', ''rate_limited''] then 429
      else if code \<in> set
        [''origin_denied'', ''device_key_not_authorized'', ''invalid_webhook_signature'', ''admission_reopen_denied'',
        ''operator_unauthorized'', ''playback_denied''] then 403
      else if contains ''conflict'' code \<or> code \<in> set
        [''admission_denied'', ''operator_archive_eligible_count_invalid'', ''operator_archive_scan_active'',
        ''on_chain_job_mismatch'', ''near_finalize_failed'', ''near_finalize_mismatch'', ''provider_asset_missing'',
        ''provider_identity_mismatch'', ''provider_playback_missing'', ''provider_playback_exposed'',
        ''provider_playback_mismatch'', ''provider_verification_incomplete'', ''provider_verification_budget_exceeded'',
        ''verification_evidence_missing'', ''provider_state_invalid'', ''provider_tus_state_invalid'',
        ''provider_tus_url_expired'', ''device_nonce_replayed'', ''provider_create_pending'', ''provider_delete_ambiguous'',
        ''provider_recovery_not_ready'', ''upload_cancel_denied'', ''sponsor_balance_insufficient'', ''sponsor_job_conflict'',
        ''sponsor_relay_failed''] then 409
      else if starts_with ''near_'' code \<or> code \<in> set
        [''admission_closed'', ''runtime_not_configured'', ''webhook_queue_unavailable'',
        ''playback_authorization_unavailable'', ''playback_pending'', ''rate_source_invalid'', ''rate_source_stale'',
        ''rate_source_unavailable'', ''provider_unavailable'', ''durable_object_record_limit'',
        ''provider_mutations_disabled'', ''operator_mutations_disabled'', ''sponsor_relay_mutations_disabled'',
        ''sponsor_relay_pending'', ''provider_admission_closed'', ''provider_create_ambiguous''] then 503
      else 400)"

section \<open>Adapters\<close>

text \<open>The parts of a parsed URL the code reads; the platform's parser is a parameter.\<close>

record url_parts =
  up_protocol :: string
  up_origin :: string
  up_hostname :: string
  up_port :: string
  up_username :: string
  up_password :: string
  up_pathname :: string
  up_search :: string
  up_hash :: string

record host_allowlist =
  ha_exact :: "string list"
  ha_suffixes :: "string list"

datatype source_kind = HlsSource | Mp4Source | VttSource | UnknownSource

record playback_source =
  sc_kind :: source_kind
  sc_url :: string
  sc_width :: "json option"
  sc_height :: "json option"
  sc_bitrate :: "json option"

record provider_playback =
  pp_kind :: string
  pp_policy :: string
  pp_sources :: "playback_source list"

record signed_playback =
  sp_token :: string
  sp_hls_url :: string
  sp_expires_at_seconds :: int

record 's media_adapter =
  ma_id :: media_provider_kind
  ma_read_playback :: "string \<Rightarrow> ('s, provider_playback) act"
  ma_sign_playback :: "string \<Rightarrow> int \<Rightarrow> int \<Rightarrow> ('s, signed_playback) act"
  ma_hosts :: host_allowlist

section \<open>The authorization cache\<close>

text \<open>A \<open>Map\<close> in its order of insertion; entries of other routes have keys of other kinds.\<close>

datatype cached_value = Policy "string option" | OtherValue

type_synonym playback_cache = "(string \<times> cached_value \<times> int) list"

record 's playback_state =
  pb_cache :: playback_cache
  pb_outside :: 's

type_synonym ('s, 'a) bact = "('s playback_state, 'a) act"

record 's playback_world =
  pw_crypto :: crypto
  pw_now :: "'s playback_state \<Rightarrow> int"
  pw_fetch_near :: "string \<Rightarrow> ('s, bool \<times> json option) bact"
  pw_mark_watched :: "string \<Rightarrow> ('s, nat \<times> json option) bact"
  pw_adapter :: "media_provider_kind \<Rightarrow> string + 's playback_state media_adapter"
  pw_url :: "string \<Rightarrow> url_parts option"

record playback_env =
  pe_near_network :: "string option"
  pe_market_contract_id :: "string option"
  pe_allowed_origins :: "string option"
  pe_version_id :: string

definition playback_cache_max_records :: nat where
  "playback_cache_max_records = 1024"

definition provider_policy_cache_ms :: int where
  "provider_policy_cache_ms = 30 * 1000"

definition playback_v2_ttl_seconds :: int where
  "playback_v2_ttl_seconds = 180"

definition cache_drop :: "string \<Rightarrow> playback_cache \<Rightarrow> playback_cache" where
  "cache_drop key c = filter (\<lambda>e. fst e \<noteq> key) c"

definition playback_cache_key :: "'s playback_world \<Rightarrow> playback_env \<Rightarrow> string \<Rightarrow> string \<Rightarrow> string" where
  "playback_cache_key W e kind value = pe_version_id e @ '':'' @ kind @ '':'' @ hex_of (sha256 (pw_crypto W) (encode_text value))"

definition playback_cache_get :: "'s playback_world \<Rightarrow> string \<Rightarrow> ('s, cached_value option) bact" where
  "playback_cache_get W key =
     bnd (reading (\<lambda>s. (map_of (pb_cache s) key, pw_now W s))) (\<lambda>(entry, now).
       case entry of None \<Rightarrow> ret None
       | Some (v, expires) \<Rightarrow>
           if expires \<le> now then bnd (writing (\<lambda>s. s\<lparr>pb_cache := cache_drop key (pb_cache s)\<rparr>)) (\<lambda>_. ret None)
           else bnd (writing (\<lambda>s. s\<lparr>pb_cache := cache_drop key (pb_cache s) @ [(key, v, expires)]\<rparr>)) (\<lambda>_. ret (Some v)))"

text \<open>The oldest entries go until there is room; an entry with an empty key stops the loop, and there is none.\<close>

definition make_room :: "playback_cache \<Rightarrow> playback_cache" where
  "make_room c = drop (length c + 1 - playback_cache_max_records) c"

definition playback_cache_put :: "'s playback_world \<Rightarrow> string \<Rightarrow> cached_value \<Rightarrow> int \<Rightarrow> ('s, unit) bact" where
  "playback_cache_put W key v expires =
     bnd (reading (pw_now W)) (\<lambda>now.
       if expires \<le> now then ret ()
       else writing (\<lambda>s. s\<lparr>pb_cache := make_room (cache_drop key (pb_cache s)) @ [(key, v, expires)]\<rparr>))"

section \<open>The route\<close>

definition max_control_body_bytes :: nat where
  "max_control_body_bytes = 64 * 1024"

definition read_json_object :: "bytes \<Rightarrow> string + json" where
  "read_json_object body =
     (if length body > max_control_body_bytes then Inl ''control_body_too_large''
      else case json_parse (decode_text body) of None \<Rightarrow> Inl ''invalid_json''
        | Some v \<Rightarrow> require_object (Some v) ''invalid_json'')"

definition default_allowed_origins :: string where
  "default_allowed_origins = ''https://youtick.net,https://www.youtick.net''"

definition bridge_origins :: "string option \<Rightarrow> string list" where
  "bridge_origins v =
     filter (\<lambda>i. i \<noteq> []) (map js_trim (split_at_char CHR '',''
       (case v of Some t \<Rightarrow> if t \<noteq> [] then t else default_allowed_origins | None \<Rightarrow> default_allowed_origins)))"

definition verify_ed25519_signature :: "crypto \<Rightarrow> string \<Rightarrow> string \<Rightarrow> string \<Rightarrow> string + unit" where
  "verify_ed25519_signature C public_key encoded message =
     (case (atob encoded, base58_decode public_key) of
        (Some signature, Some key) \<Rightarrow>
          erequire (length signature = 64 \<and> length key = 32 \<and> ed25519_verify C key signature (encode_text message)) ''playback_denied''
      | _ \<Rightarrow> Inl ''playback_denied'')"

definition view_body :: "string option \<Rightarrow> string \<Rightarrow> json \<Rightarrow> string option \<Rightarrow> string" where
  "view_body contract method args block =
     json_text (JObj [(''jsonrpc'', JStr ''2.0''), (''id'', JStr (''paid-media-livepeer-v1-playback-'' @ method)),
       (''method'', JStr ''query''),
       (''params'', JObj ([(''request_type'', JStr ''call_function''),
          (case block of Some b \<Rightarrow> if b \<noteq> [] then (''block_id'', JStr b) else (''finality'', JStr ''final'')
           | None \<Rightarrow> (''finality'', JStr ''final''))]
          @ (case contract of Some c \<Rightarrow> [(''account_id'', JStr c)] | None \<Rightarrow> [])
          @ [(''method_name'', JStr method), (''args_base64'', JStr (btoa (encode_text (json_text args))))]))])"

text \<open>
  The reply of the RPC: a \<open>null\<close> body of an accepted reply is dereferenced outside the \<open>try\<close>, so that one is a
  \<open>TypeError\<close>. An empty result stands for \<open>null\<close>.
\<close>

definition view_value :: "json \<Rightarrow> string option \<Rightarrow> string + json \<times> string" where
  "view_value payload block =
     (case (obj_get ''result'' payload, Option.bind (obj_get ''result'' payload) (obj_get ''result''),
            as_str (Option.bind (obj_get ''result'' payload) (obj_get ''block_hash''))) of
        (Some _, Some (JArr vs), Some hash) \<Rightarrow>
          (if truthy (obj_get ''error'' payload) \<or> (block \<noteq> None \<and> block \<noteq> Some [] \<and> block \<noteq> Some hash)
           then Inl ''playback_authorization_unavailable''
           else let raw = decode_text (map to_uint8 vs)
                in if raw = [] then Inr (JNull, hash)
                   else case json_parse raw of Some v \<Rightarrow> Inr (v, hash) | None \<Rightarrow> Inl ''playback_authorization_unavailable'')
      | _ \<Rightarrow> Inl ''playback_authorization_unavailable'')"

definition near_view_with ::
  "(string \<Rightarrow> ('s, bool \<times> json option) act) \<Rightarrow> string option \<Rightarrow> string \<Rightarrow> json \<Rightarrow> string option \<Rightarrow> ('s, json \<times> string) act" where
  "near_view_with F contract method args block =
     bnd (attempt (F (view_body contract method args block))) (\<lambda>r.
       case r of
         Inr (ok, Some payload) \<Rightarrow>
           if \<not> ok then throw ''playback_authorization_unavailable''
           else if payload = JNull then throw ''TypeError''
           else lifting (view_value payload block)
       | _ \<Rightarrow> throw ''playback_authorization_unavailable'')"

definition near_playback_view ::
  "'s playback_world \<Rightarrow> string option \<Rightarrow> string \<Rightarrow> json \<Rightarrow> string option \<Rightarrow> ('s, json \<times> string) bact" where
  "near_playback_view W = near_view_with (pw_fetch_near W)"

definition publication_profile_hash :: "json \<Rightarrow> string option" where
  "publication_profile_hash publication = as_str (obj_get ''profile_config_sha256'' publication)"

text \<open>\<open>mediaProvider(env, profileConfigSha256)\<close>: the adapter of the catalog that lists the hash, else Studio.\<close>

definition media_provider :: "'s playback_world \<Rightarrow> string option \<Rightarrow> string + 's playback_state media_adapter" where
  "media_provider W hash = pw_adapter W (case media_profile_family hash of Some k \<Rightarrow> k | None \<Rightarrow> Studio)"

definition playback_url_allowed :: "(string \<Rightarrow> url_parts option) \<Rightarrow> string \<Rightarrow> host_allowlist \<Rightarrow> bool" where
  "playback_url_allowed parse value hosts =
     (case parse value of None \<Rightarrow> False
      | Some u \<Rightarrow> up_protocol u = ''https:'' \<and> up_port u = [] \<and> up_username u = [] \<and> up_password u = []
          \<and> length (up_pathname u) > 1
          \<and> (up_hostname u \<in> set (ha_exact hosts) \<or> list_ex (\<lambda>suffix. ends_with suffix (up_hostname u)) (ha_suffixes hosts)))"

definition max_provider_playback_outputs :: nat where
  "max_provider_playback_outputs = 16"

definition preview_source :: "(string \<Rightarrow> url_parts option) \<Rightarrow> host_allowlist \<Rightarrow> playback_source \<Rightarrow> bool" where
  "preview_source parse hosts source =
     (sc_kind source = VttSource \<and> utf16_length (sc_url source) \<le> 2048 \<and> playback_url_allowed parse (sc_url source) hosts
      \<and> (case parse (sc_url source) of Some u \<Rightarrow> up_search u = [] \<and> up_hash u = [] | None \<Rightarrow> False))"

definition verify_stateless_provider_policy :: "'s playback_world \<Rightarrow> string \<Rightarrow> string option \<Rightarrow> ('s, string option) bact" where
  "verify_stateless_provider_policy W playback_id hash =
     bnd (lifting (media_provider W hash)) (\<lambda>provider.
     bnd (catch (ma_read_playback provider playback_id) (\<lambda>e.
            throw (if safe_error_code e = ''provider_unavailable'' then e else ''playback_denied''))) (\<lambda>playback.
     bnd (require (pp_kind playback = ''vod'' \<and> pp_policy playback = ''jwt'') ''playback_denied'') (\<lambda>_.
     ret (if length (pp_sources playback) \<le> max_provider_playback_outputs
          then map_option sc_url (find (preview_source (pw_url W) (ma_hosts provider)) (pp_sources playback))
          else None))))"

text \<open>The provider policy, from the cache of the last 30 seconds or from the adapter.\<close>

definition provider_policy :: "'s playback_world \<Rightarrow> playback_env \<Rightarrow> string \<Rightarrow> string option \<Rightarrow> ('s, string option) bact" where
  "provider_policy W e playback_id hash =
     (let key = playback_cache_key W e ''provider-policy''
            (if media_profile_family hash = Some Stream then ''stream:'' @ playback_id else playback_id) in
      bnd (playback_cache_get W key) (\<lambda>cached.
        case cached of
          Some (Policy p) \<Rightarrow> ret p
        | Some OtherValue \<Rightarrow> ret None
        | None \<Rightarrow>
            bnd (verify_stateless_provider_policy W playback_id hash) (\<lambda>p.
            bnd (reading (pw_now W)) (\<lambda>now.
            bnd (playback_cache_put W key (Policy p) (now + provider_policy_cache_ms)) (\<lambda>_. ret p)))))"

text \<open>The first play: \<open>mark_watched\<close> must be final. Only a refusal is reported as such.\<close>

definition settle_watch :: "'s playback_world \<Rightarrow> decision_kind \<Rightarrow> string \<Rightarrow> ('s, unit) bact" where
  "settle_watch W kind ticket =
     (if kind \<noteq> Watch then ret ()
      else bnd (pw_mark_watched W ticket) (\<lambda>(status, body).
        if status = 200 then ret ()
        else throw (if Option.bind body (obj_get ''error'') = Some (JStr ''playback_denied'') then ''playback_denied''
                    else ''playback_pending'')))"

definition token_reply :: "media_provider_kind \<Rightarrow> string \<Rightarrow> signed_playback \<Rightarrow> string option \<Rightarrow> json" where
  "token_reply adapter playback_id sg preview =
     JObj ([(''schema'', JStr ''youtick.livepeer-playback-token.v3''), (''playback_id'', JStr playback_id),
            (''token'', JStr (sp_token sg)), (''expires_at_ms'', JStr (show_int (sp_expires_at_seconds sg * 1000))),
            (''hls_url'', JStr (sp_hls_url sg))]
           @ (if adapter = Stream then [(''provider'', JStr ''cloudflare-stream'')]
              else case preview of Some url \<Rightarrow> if url \<noteq> [] then [(''preview_vtt_url'', JStr url)] else [] | None \<Rightarrow> []))"

definition ticket_views :: "'s playback_world \<Rightarrow> playback_env \<Rightarrow> string \<Rightarrow> ('s, json \<times> json) bact" where
  "ticket_views W e ticket_id =
     bnd (near_playback_view W (pe_market_contract_id e) ''get_ticket'' (JObj [(''ticket_id'', JStr ticket_id)]) None) (\<lambda>(ticket, block).
       if ticket = JNull then ret (JNull, JNull)
       else
         bnd (lifting (require_object (Some ticket) ''playback_authorization_unavailable'')) (\<lambda>_.
         bnd (near_playback_view W (pe_market_contract_id e) ''get_publication''
                (JObj (case obj_get ''publication_id'' ticket of Some v \<Rightarrow> [(''publication_id'', v)] | None \<Rightarrow> [])) (Some block)) (\<lambda>(publication, _).
         ret (ticket, publication))))"

text \<open>
  Doubles hold the milliseconds exactly below \<open>2\<^sup>5\<^sup>3\<close>; above, only that more than 180 seconds remain matters.
\<close>

definition authorize_ticket_playback :: "'s playback_world \<Rightarrow> playback_env \<Rightarrow> bytes \<Rightarrow> ('s, nat \<times> json) bact" where
  "authorize_ticket_playback W e body =
     bnd (lifting (read_json_object body)) (\<lambda>value.
     bnd (reading (pw_now W)) (\<lambda>t0.
     bnd (lifting (parse_playback_v3_body value
            \<lparr>pg_network = pe_near_network e, pg_contract_id = pe_market_contract_id e,
             pg_origins = bridge_origins (pe_allowed_origins e), pg_now_ms = t0\<rparr>)) (\<lambda>(request, signature).
     bnd (lifting (verify_ed25519_signature (pw_crypto W) (pq_session_public_key request) signature
            (canonical_playback_v3_message request))) (\<lambda>_.
     bnd (ticket_views W e (pq_ticket_id request)) (\<lambda>(ticket, publication).
     bnd (reading (pw_now W)) (\<lambda>t1.
     bnd (lifting (decide_ticket_playback ticket publication request t1)) (\<lambda>decision.
     bnd (settle_watch W (pd_kind decision) (pq_ticket_id request)) (\<lambda>_.
     let hash = publication_profile_hash publication in
     bnd (provider_policy W e (pd_playback_id decision) hash) (\<lambda>preview.
     bnd (reading (pw_now W)) (\<lambda>now.
     let remaining = (pd_device_expires_at_ms decision - now) div 1000 in
     bnd (require (\<not> remaining < 1) ''playback_denied'') (\<lambda>_.
     bnd (lifting (media_provider W hash)) (\<lambda>adapter.
     bnd (ma_sign_playback adapter (pd_playback_id decision) (min playback_v2_ttl_seconds remaining) (now div 1000)) (\<lambda>sg.
     ret (200, token_reply (ma_id adapter) (pd_playback_id decision) sg preview))))))))))))))"

definition issue_ticket_playback_token :: "'s playback_world \<Rightarrow> playback_env \<Rightarrow> bytes \<Rightarrow> ('s, nat \<times> json) bact" where
  "issue_ticket_playback_token W e body =
     catch (authorize_ticket_playback W e body) (\<lambda>err.
       ret (error_status (safe_error_code err), JObj [(''error'', JStr (safe_error_code err))]))"

end
