(* ===== verification/Wire.thy ===== *)
theory Wire
  imports JsonRoundTrip Encoding Coerce "HOL-Library.Multiset"
begin

text \<open>
  JSON on the wire: a value of ASCII strings that need no escape is encoded, decoded and parsed back to itself, also
  when its bytes come as an array of JSON numbers. The properties are applied at such values.
\<close>

definition plain_chr :: "char \<Rightarrow> bool" where
  "plain_chr c = (esc_chr c = [c] \<and> chr_code c < 128)"

fun wire :: "json \<Rightarrow> bool" where
  "wire (JStr s) = list_all plain_chr s"
| "wire (JObj ms) = (distinct (map fst ms) \<and> list_all (\<lambda>(k, v). list_all plain_chr k \<and> \<not> index_key k \<and> wire v) ms)"
| "wire (JArr vs) = list_all wire vs"
| "wire (JNum q) = False"
| "wire (JInf s) = False"
| "wire v = True"

definition seven_bit :: "string \<Rightarrow> bool" where
  "seven_bit s = list_all (\<lambda>c. chr_code c < 128) s"

lemma seven_bit_simps [simp]:
  "seven_bit []" "seven_bit (c # s) \<longleftrightarrow> chr_code c < 128 \<and> seven_bit s" "seven_bit (s @ t) \<longleftrightarrow> seven_bit s \<and> seven_bit t"
  by (simp_all add: seven_bit_def)

lemma seven_bit_join: "seven_bit d \<Longrightarrow> list_all seven_bit xs \<Longrightarrow> seven_bit (join d xs)"
  by (induction d xs rule: join.induct) auto

lemma esc_text_plain: "list_all plain_chr s \<Longrightarrow> esc_text s = s"
  by (induction s rule: esc_text.induct) (auto simp: plain_chr_def)

lemma plain_replicate [simp]: "plain_chr c \<Longrightarrow> list_all plain_chr (replicate n c)"
  by (simp add: list_all_iff)

lemma plain_b64:
  assumes "is_alnum c \<or> c = CHR ''+'' \<or> c = CHR ''/''"
  shows "plain_chr c"
proof -
  have "c \<noteq> CHR 0x22" "c \<noteq> CHR 0x5C" "32 \<le> chr_code c" "chr_code c < 128"
    using assms by (auto simp: is_alnum_def char_defs)
  moreover from this(3) have "c \<noteq> CHR 0x08" "c \<noteq> CHR 0x0C" "c \<noteq> CHR 0x0A" "c \<noteq> CHR 0x0D" "c \<noteq> CHR 0x09"
    by (auto simp: chr_code_def)
  ultimately show ?thesis by (simp add: plain_chr_def esc_chr_def)
qed

lemma plain_signature: "base64_signature s \<Longrightarrow> list_all plain_chr s"
proof -
  assume a: "base64_signature s"
  have s: "s = take 86 s @ ''==''" using a append_take_drop_id [of 86 s] by (simp add: base64_signature_def)
  have "list_all plain_chr (take 86 s)"
    using a plain_b64 by (auto simp: base64_signature_def repeated_def list_all_iff)
  then have "list_all plain_chr (take 86 s @ ''=='')" by (simp add: plain_chr_def esc_chr_def chr_code_def)
  then show ?thesis by (simp only: s [symmetric])
qed

lemma length_signature: "base64_signature s \<Longrightarrow> length s = 88"
  using length_drop [of 86 s] by (auto simp: base64_signature_def repeated_def)

lemma seven_bit_plain: "list_all plain_chr s \<Longrightarrow> seven_bit s"
  by (auto simp: seven_bit_def list_all_iff plain_chr_def)

lemma good_plain: "list_all plain_chr s \<Longrightarrow> good_text s"
  by (rule good_text_ascii [OF seven_bit_plain [unfolded seven_bit_def]])

lemma wire_plain: "wire v \<Longrightarrow> plain v"
  by (induction v) (fastforce simp: list_all_iff good_plain)+

lemma wire_ascii: "wire v \<Longrightarrow> seven_bit (json_text v)"
proof (induction v)
  case (JObj ms)
  have "list_all seven_bit (map (\<lambda>(k, v). CHR 0x22 # esc_text k @ [CHR 0x22, CHR '':''] @ json_text v) ms)"
    using JObj by (fastforce simp: list_all_iff esc_text_plain seven_bit_plain chr_code_def)
  then show ?case by (auto simp: seven_bit_join chr_code_def)
next
  case (JArr vs)
  then have "list_all seven_bit (map json_text vs)" by (auto simp: list_all_iff)
  then show ?case by (auto simp: seven_bit_join chr_code_def)
qed (auto simp: chr_code_def esc_text_plain seven_bit_plain)

lemma decode_ascii: "seven_bit s \<Longrightarrow> decode_text (encode_text s) = s"
proof -
  assume "seven_bit s"
  then have a: "list_all (\<lambda>c. chr_code c < 128) s" by (simp add: seven_bit_def)
  have "take 1 (code_points s) \<noteq> [65279]"
    using a code_points_ascii [OF a] by (cases s) auto
  from decode_encode [OF scalar_text_ascii [OF a] this] show ?thesis
    by (simp add: decode_text_fatal_def decode_text_def Let_def list_all_iff split: if_splits)
      (erule subst, rule arg_cong [where f = "\<lambda>ps. of_code_points (drop_mark ps)"], auto)
qed

text \<open>Reading back what was sent, as bytes and as an array of numbers.\<close>

definition wire_bytes :: "json \<Rightarrow> bytes" where
  "wire_bytes v = encode_text (json_text v)"

lemma wire_read [simp]: "wire v \<Longrightarrow> json_parse (decode_text (wire_bytes v)) = Some v"
  by (simp add: wire_bytes_def decode_ascii wire_ascii json_read_back wire_plain)

lemma json_text_nonempty: "json_text v \<noteq> [] \<or> (\<exists>q. v = JNum q)"
  by (cases v) auto

lemma wire_text [simp]: "wire v \<Longrightarrow> decode_text (wire_bytes v) \<noteq> []"
  using json_text_nonempty [of v] by (auto simp: wire_bytes_def decode_ascii wire_ascii)

definition byte_array :: "bytes \<Rightarrow> json" where
  "byte_array bs = JArr (map (\<lambda>b. JNum (of_int (uint b))) bs)"

lemma to_uint8_uint: "to_uint8 (JNum (of_int (uint b))) = (b :: 8 word)"
proof -
  have "\<not> (of_int (uint b) :: rat) < 0" by (simp only: of_int_less_0_iff not_less uint_nonnegative)
  moreover have "word_of_int \<lfloor>of_int (uint b) :: rat\<rfloor> = b" unfolding floor_of_int by simp
  ultimately show ?thesis by (simp only: to_uint8_def number_of.simps option.case if_False)
qed

lemma to_uint8_byte [simp]: "to_uint8 (JNum (unsigned b)) = (b :: 8 word)"
  using to_uint8_uint [of b] by simp

lemma bytes_of_array [simp]: "byte_array bs = JArr vs \<Longrightarrow> map to_uint8 vs = bs"
  by (auto simp: byte_array_def comp_def)

lemma bytes_of_byte_array [simp]: "bytes_of (map (\<lambda>b. JNum (unsigned b)) bs) = Some bs"
proof -
  have "byte_of (JNum (unsigned b)) = Some b" for b :: "8 word"
  proof -
    have "unsigned b = (of_int (uint b) :: rat)" by simp
    moreover have "uint b \<le> 255" using uint_lt2p [of b] by simp
    moreover have "(of_int (uint b) :: rat) \<le> 255" using of_int_le_iff [of "uint b" 255, where 'a = rat] calculation(2) by (simp del: of_int_le_iff)
    moreover have "\<lfloor>unsigned b :: rat\<rfloor> = uint b" using calculation(1) by (metis floor_of_int)
    moreover have "(0 :: rat) \<le> unsigned b" by (metis of_nat_0_le_iff of_nat_unat)
    ultimately show ?thesis by simp
  qed
  then show ?thesis by (induction bs) auto
qed

lemma perm_sort: "mset xs = mset ys \<Longrightarrow> sort xs = sort ys"
  by (intro properties_for_sort) simp_all

text \<open>The length of what was sent.\<close>

lemma length_encode_ascii: "seven_bit s \<Longrightarrow> length (encode_text s) = length s"
  by (simp add: encode_scalar_text scalar_text_ascii seven_bit_def)

end
