(* ===== verification/BridgeLaws.thy ===== *)
theory BridgeLaws
  imports BridgePlayback Samples Wire
begin

text \<open>
  What the modules of the media bridge promise: base58 texts name their bytes and nothing else, a durable object
  never holds more records than it may, an archived row is the one that was written, and a playback token is
  issued only to a listed device of a playable ticket whose first play was settled.
\<close>

section \<open>Base58\<close>

text \<open>The number a text stands for, its digits first to last, and the bytes of a number, last to first.\<close>

definition digits58 :: "string \<Rightarrow> nat list" where
  "digits58 s = map (\<lambda>c. the (index_of c alphabet58)) s"

definition number58 :: "nat \<Rightarrow> nat list \<Rightarrow> nat" where
  "number58 n ds = foldl (\<lambda>a d. a * 58 + d) n ds"

fun le_bytes :: "nat \<Rightarrow> nat list" where
  "le_bytes n = (if n < 256 then [n] else n mod 256 # le_bytes (n div 256))"

declare le_bytes.simps [simp del]

definition le_number :: "nat list \<Rightarrow> nat" where
  "le_number bs = foldr (\<lambda>b a. a * 256 + b) bs 0"

lemma index_of_less: "index_of c xs = Some i \<Longrightarrow> i < length xs \<and> xs ! i = c"
  by (induction xs arbitrary: i) (auto split: if_splits)

lemma index_of_None: "index_of c xs = None \<longleftrightarrow> c \<notin> set xs"
  by (induction xs) auto

lemma digit58_less: "index_of c alphabet58 = Some d \<Longrightarrow> d < 58"
  using index_of_less [of c alphabet58 d] by (simp add: alphabet58_def)

lemma carry_in_value:
  assumes "c < 58"
  shows "carry_in c (le_bytes n) = le_bytes (n * 58 + c)"
  using assms
proof (induction n arbitrary: c rule: le_bytes.induct)
  case (1 n)
  show ?case
  proof (cases "n < 256")
    case True
    define t where "t = c + n * 58"
    have t: "t div 256 < 256" using True 1(2) by (simp add: t_def)
    have "carry_in c (le_bytes n) = t mod 256 # push_carry (t div 256)" using True by (simp add: le_bytes.simps t_def)
    also have "\<dots> = le_bytes t"
      using t by (cases "t < 256") (simp_all add: push_carry.simps le_bytes.simps)
    finally show ?thesis by (simp add: t_def add.commute)
  next
    case False
    define t where "t = c + n mod 256 * 58"
    define q where "q = n div 256 * 58"
    have "n * 58 + c = t + 256 * q"
      using div_mult_mod_eq [of n 256] unfolding t_def q_def by linarith
    then have d: "(n * 58 + c) div 256 = n div 256 * 58 + t div 256" and m: "(n * 58 + c) mod 256 = t mod 256"
      by (simp_all add: q_def [symmetric])
    have small: "t div 256 < 58" using 1(2) mod_less_divisor [of 256 n] by (simp add: t_def less_mult_imp_div_less)
    have "carry_in c (le_bytes n) = t mod 256 # carry_in (t div 256) (le_bytes (n div 256))"
      using False by (subst le_bytes.simps) (simp add: t_def)
    also have "\<dots> = t mod 256 # le_bytes (n div 256 * 58 + t div 256)" using 1(1) [OF False small] by simp
    also have "\<dots> = le_bytes (n * 58 + c)"
      using False d m by (subst (2) le_bytes.simps) simp
    finally show ?thesis .
  qed
qed

lemma base58_digits_value:
  "base58_digits s (le_bytes n) =
     (if set s \<subseteq> set alphabet58 then Some (le_bytes (number58 n (digits58 s))) else None)"
proof (induction s arbitrary: n)
  case Nil
  then show ?case by (simp add: number58_def digits58_def)
next
  case (Cons c s)
  then show ?case
    using index_of_None [of c alphabet58] digit58_less [of c]
    by (auto simp: carry_in_value number58_def digits58_def split: option.split)
qed

text \<open>A closed form of the loops.\<close>

lemma base58_decode_value:
  "base58_decode v =
     (let s = strip_ed25519 v
      in if set s \<subseteq> set alphabet58
         then Some (map of_nat (replicate (length (takeWhile (\<lambda>c. c = CHR ''1'') s)) 0 @ rev (le_bytes (number58 0 (digits58 s)))))
         else None)"
  using base58_digits_value [of "strip_ed25519 v" 0]
  by (simp add: base58_decode_def Let_def le_bytes.simps rev_map)

lemma le_number_bytes: "le_number (le_bytes n) = n"
  by (induction n rule: le_bytes.induct) (subst le_bytes.simps, simp add: le_number_def)

lemma length_le_bytes: "256 ^ k \<le> n \<Longrightarrow> n < 256 ^ Suc k \<Longrightarrow> length (le_bytes n) = Suc k"
proof (induction k arbitrary: n)
  case 0
  then show ?case by (simp add: le_bytes.simps)
next
  case (Suc k)
  have "256 ^ k \<le> n div 256" "n div 256 < 256 ^ Suc k"
    using Suc.prems by (simp_all add: less_eq_div_iff_mult_less_eq div_less_iff_less_mult mult.commute)
  then show ?case using Suc.IH [of "n div 256"] Suc.prems(1) by (subst le_bytes.simps) auto
qed

lemma le_bytes_small: "b \<in> set (le_bytes n) \<Longrightarrow> b < 256"
  by (induction n rule: le_bytes.induct) (subst (asm) le_bytes.simps, auto split: if_splits)

lemma le_bytes_last: "n \<noteq> 0 \<Longrightarrow> last (le_bytes n) \<noteq> 0"
proof (induction n rule: le_bytes.induct)
  case (1 n)
  then show ?case by (cases "n < 256") (auto simp: le_bytes.simps [of n] le_bytes.simps [of "n div 256"] div_eq_0_iff)
qed

lemma le_bytes_nonempty [simp]: "le_bytes n \<noteq> []"
  by (subst le_bytes.simps) simp

text \<open>Digits without a leading zero are determined by their number.\<close>

lemma number58_snoc: "number58 0 (ds @ [d]) = number58 0 ds * 58 + d"
  by (simp add: number58_def)

lemma number58_grow: "n \<le> number58 n ds"
proof (induction ds arbitrary: n)
  case (Cons d ds)
  have "n \<le> n * 58 + d" by simp
  also have "\<dots> \<le> number58 (n * 58 + d) ds" by (rule Cons)
  finally show ?case by (simp add: number58_def)
qed (simp add: number58_def)

lemma number58_pos: "ds \<noteq> [] \<Longrightarrow> hd ds \<noteq> 0 \<Longrightarrow> number58 0 ds \<noteq> 0"
  using number58_grow [of "hd ds" "tl ds"] by (cases ds) (auto simp: number58_def)

lemma number58_unique:
  assumes "list_all (\<lambda>d. d < 58) ds" "list_all (\<lambda>d. d < 58) es"
    and "ds = [] \<or> hd ds \<noteq> 0" "es = [] \<or> hd es \<noteq> 0" and "number58 0 ds = number58 0 es"
  shows "ds = es"
  using assms
proof (induction ds arbitrary: es rule: rev_induct)
  case Nil
  then show ?case using number58_pos [of es] by (cases "es = []") (auto simp: number58_def)
next
  case (snoc d ds)
  show ?case
  proof (cases es rule: rev_cases)
    case Nil
    then show ?thesis using snoc.prems number58_pos [of "ds @ [d]"] by (auto simp: number58_def)
  next
    case (snoc es' e)
    have n: "number58 0 ds * 58 + d = number58 0 es' * 58 + e" and de: "d < 58" "e < 58"
      using snoc.prems snoc by (auto simp: number58_snoc)
    have "(number58 0 ds * 58 + d) mod 58 = d" "(number58 0 es' * 58 + e) mod 58 = e" using de by simp_all
    then have "d = e" using n by metis
    then have "number58 0 ds = number58 0 es'" using n by simp
    moreover have "ds = [] \<or> hd ds \<noteq> 0" "es' = [] \<or> hd es' \<noteq> 0" using snoc.prems(3,4) snoc by (auto simp: hd_append split: if_splits)
    ultimately show ?thesis using snoc.IH [of es'] snoc.prems(1,2) snoc \<open>d = e\<close> by simp
  qed
qed

text \<open>The number of big-endian bytes.\<close>

definition bytes_number :: "bytes \<Rightarrow> nat" where
  "bytes_number bs = le_number (rev (map unat bs))"

lemma le_number_zeros: "le_number (bs @ replicate k 0) = le_number bs"
proof -
  have "foldr (\<lambda>b a. a * 256 + b) (replicate k 0) 0 = (0 :: nat)" by (induction k) simp_all
  then show ?thesis by (simp add: le_number_def)
qed

lemma unat_small: "list_all (\<lambda>b. b < 256) bs \<Longrightarrow> map unat (map of_nat bs :: bytes) = bs"
  by (induction bs) (auto simp: unsigned_of_nat take_bit_nat_eq_self)

lemma decoded_bytes:
  assumes "base58_decode v = Some bs"
  shows "set (strip_ed25519 v) \<subseteq> set alphabet58"
    and "map unat bs = replicate (length (takeWhile (\<lambda>c. c = CHR ''1'') (strip_ed25519 v))) 0 @ rev (le_bytes (number58 0 (digits58 (strip_ed25519 v))))"
proof -
  show "set (strip_ed25519 v) \<subseteq> set alphabet58" using assms by (auto simp: base58_decode_value Let_def split: if_splits)
  have "list_all (\<lambda>b. b < 256) (replicate k 0 @ rev (le_bytes n))" for k n by (auto simp: list_all_iff dest: le_bytes_small)
  note unat_small [OF this]
  then show "map unat bs = replicate (length (takeWhile (\<lambda>c. c = CHR ''1'') (strip_ed25519 v))) 0 @ rev (le_bytes (number58 0 (digits58 (strip_ed25519 v))))"
    using assms by (auto simp: base58_decode_value Let_def split: if_splits)
qed

lemma decoded_number: "base58_decode v = Some bs \<Longrightarrow> bytes_number bs = number58 0 (digits58 (strip_ed25519 v))"
  using decoded_bytes(2) [of v bs] by (simp add: bytes_number_def le_number_zeros le_number_bytes)

lemma leading_zeros:
  "length (takeWhile (\<lambda>b. b = 0) (replicate k 0 @ rev (le_bytes n))) = k + (if n = 0 then 1 else 0)"
proof (cases "n = 0")
  case True
  then show ?thesis by (simp add: le_bytes.simps takeWhile_append)
next
  case False
  then have "hd (rev (le_bytes n)) \<noteq> 0" using le_bytes_last by (simp add: hd_rev)
  then show ?thesis using False by (cases "rev (le_bytes n)") (simp_all add: takeWhile_append)
qed

lemma digit_one: "c \<in> set alphabet58 \<Longrightarrow> the (index_of c alphabet58) = 0 \<longleftrightarrow> c = CHR ''1''"
  by (auto simp: alphabet58_def)

lemma digits58_inject: "set s \<subseteq> set alphabet58 \<Longrightarrow> set t \<subseteq> set alphabet58 \<Longrightarrow> digits58 s = digits58 t \<Longrightarrow> s = t"
proof (induction s arbitrary: t)
  case Nil
  then show ?case by (simp add: digits58_def)
next
  case (Cons c s)
  then obtain d u where t: "t = d # u" by (cases t) (auto simp: digits58_def)
  have "c = d"
    using Cons.prems t index_of_None [of c alphabet58] index_of_None [of d alphabet58] index_of_less [of c alphabet58] index_of_less [of d alphabet58]
    by (auto simp: digits58_def)
  then show ?case using Cons t by (simp add: digits58_def)
qed

text \<open>The ones in front, and the digits after them.\<close>

lemma takeWhile_ones: "takeWhile (\<lambda>c. c = x) s = replicate (length (takeWhile (\<lambda>c. c = x) s)) x"
  by (induction s) auto

lemma digit_of_one: "index_of CHR ''1'' alphabet58 = Some 0"
  by (simp add: alphabet58_def)

lemma number58_ones: "number58 0 (digits58 (replicate k CHR ''1'' @ u)) = number58 0 (digits58 u)"
  by (induction k) (simp_all add: digits58_def number58_def digit_of_one)

lemma ones_split: "\<exists>k. s = replicate k CHR ''1'' @ dropWhile (\<lambda>c. c = CHR ''1'') s"
  using takeWhile_ones [of "CHR ''1''" s] takeWhile_dropWhile_id [of "\<lambda>c. c = CHR ''1''" s] by metis

lemma digits58_split:
  assumes "set s \<subseteq> set alphabet58"
  defines "rest \<equiv> dropWhile (\<lambda>c. c = CHR ''1'') s"
  shows "number58 0 (digits58 s) = number58 0 (digits58 rest)" and "digits58 rest = [] \<or> hd (digits58 rest) \<noteq> 0"
    and "list_all (\<lambda>d. d < 58) (digits58 rest)" and "set rest \<subseteq> set alphabet58"
proof -
  show sub: "set rest \<subseteq> set alphabet58" using assms set_dropWhileD [of _ "\<lambda>c. c = CHR ''1''" s] by auto
  obtain k where "s = replicate k CHR ''1'' @ rest" using ones_split [of s] unfolding rest_def by blast
  then show "number58 0 (digits58 s) = number58 0 (digits58 rest)" using number58_ones [of k rest] by (rule ssubst)
  show "digits58 rest = [] \<or> hd (digits58 rest) \<noteq> 0"
  proof (cases rest)
    case (Cons c u)
    then have "c \<noteq> CHR ''1''" using hd_dropWhile [of "\<lambda>c. c = CHR ''1''" s, folded rest_def] by simp
    moreover have "c \<in> set alphabet58" using sub Cons by simp
    ultimately show ?thesis using Cons digit_one by (simp add: digits58_def)
  qed (simp add: digits58_def)
  show "list_all (\<lambda>d. d < 58) (digits58 rest)"
    using sub index_of_None digit58_less by (fastforce simp: digits58_def list_all_iff)
qed

text \<open>
  \<open>base58Decode\<close> computes the number its text stands for, and two texts of the same bytes are the same
  text but for the \<open>ed25519:\<close> prefix: a key has one spelling.
\<close>

theorem base58_names_bytes:
  assumes "base58_decode v = Some bs" and "base58_decode w = Some bs"
  shows "bytes_number bs = number58 0 (digits58 (strip_ed25519 v)) \<and> strip_ed25519 v = strip_ed25519 w"
proof -
  define s t where "s = strip_ed25519 v" and "t = strip_ed25519 w"
  define k l where "k = length (takeWhile (\<lambda>c. c = CHR ''1'') s)" and "l = length (takeWhile (\<lambda>c. c = CHR ''1'') t)"
  note v = decoded_bytes [OF assms(1), folded s_def] and w = decoded_bytes [OF assms(2), folded t_def]
  have n: "number58 0 (digits58 s) = number58 0 (digits58 t)"
    using decoded_number [OF assms(1)] decoded_number [OF assms(2)] by (simp add: s_def t_def)
  then have "k = l" using leading_zeros [of k] leading_zeros [of l] v(2) w(2) unfolding k_def l_def by (metis add_right_cancel)
  then have "takeWhile (\<lambda>c. c = CHR ''1'') s = takeWhile (\<lambda>c. c = CHR ''1'') t"
    using takeWhile_ones [of "CHR ''1''" s] takeWhile_ones [of "CHR ''1''" t] unfolding k_def l_def by simp
  moreover have "dropWhile (\<lambda>c. c = CHR ''1'') s = dropWhile (\<lambda>c. c = CHR ''1'') t"
    using digits58_inject [OF digits58_split(4) [OF v(1)] digits58_split(4) [OF w(1)]]
      number58_unique [OF digits58_split(3) [OF v(1)] digits58_split(3) [OF w(1)] digits58_split(2) [OF v(1)] digits58_split(2) [OF w(1)]]
      n digits58_split(1) [OF v(1)] digits58_split(1) [OF w(1)] by simp
  ultimately have "s = t" by (metis takeWhile_dropWhile_id)
  then show ?thesis using decoded_number [OF assms(1)] by (simp add: s_def t_def)
qed

lemma sample_base58: "base58_decode ''ed25519:2g'' = Some [97]" "base58_decode ''2g'' = Some [97]"
  by (simp_all add: base58_decode_def strip_ed25519_def starts_with_def alphabet58_def push_carry.simps)

theorem base58_names_bytes_witness:
  "bytes_number [97] = number58 0 (digits58 ''2g'') \<and> strip_ed25519 ''ed25519:2g'' = strip_ed25519 ''2g''"
  using base58_names_bytes [OF sample_base58] by (simp add: strip_ed25519_def starts_with_def)

section \<open>Records of a durable object\<close>

text \<open>A store as the platform keeps it: one value per key.\<close>

definition one_per_key :: "('k, 'v) table \<Rightarrow> bool" where
  "one_per_key t = distinct (map fst t)"

definition put_all :: "('k \<times> 'v) list \<Rightarrow> ('k, 'v) table \<Rightarrow> ('k, 'v) table" where
  "put_all kvs t = foldl (\<lambda>t (k, v). tput k v t) t kvs"

lemma put_all_keys:
  "one_per_key t \<Longrightarrow> one_per_key (put_all kvs t) \<and> fst ` set (put_all kvs t) = fst ` set t \<union> fst ` set kvs"
proof (induction kvs arbitrary: t)
  case (Cons kv kvs)
  obtain k v where kv: "kv = (k, v)" by (cases kv)
  have "one_per_key (tput k v t)" "fst ` set (tput k v t) = insert k (fst ` set t)"
    using Cons.prems unfolding one_per_key_def tput_def by (simp_all add: distinct_update update_keys dom_update)
  then show ?case using Cons.IH [of "tput k v t"] by (simp add: put_all_def kv)
qed (simp add: put_all_def)

lemma table_length: "one_per_key t \<Longrightarrow> length t = card (fst ` set t)"
  unfolding one_per_key_def by (metis distinct_card length_map list.set_map)

lemma missing_keys: "filter (\<lambda>k. tget k t = None) (remdups keys) = filter (\<lambda>k. k \<notin> fst ` set t) (remdups keys)"
  by (simp add: tget_def map_of_eq_None_iff)

text \<open>
  Once the capacity check passed for some keys, writing values under them, new or not, leaves a durable
  object with at most 256 records.
\<close>

theorem record_capacity_holds:
  assumes "assert_record_capacity keys t = (Inr (), t')" and "one_per_key t" and "length t \<le> max_persistent_records"
    and "fst ` set kvs \<subseteq> set keys"
  shows "length (put_all kvs t') \<le> max_persistent_records"
proof -
  define missing where "missing = filter (\<lambda>k. tget k t = None) (remdups keys)"
  have t': "t' = t" and room: "missing = [] \<or> length t + length missing \<le> max_persistent_records"
    using assms(1,3) by (auto simp: assert_record_capacity_def missing_def split: if_splits)
  have d: "distinct missing" "set missing = set keys - fst ` set t" by (auto simp: missing_def missing_keys)
  have "length (put_all kvs t) = card (fst ` set t \<union> fst ` set kvs)"
    using put_all_keys [OF assms(2)] table_length by metis
  also have "\<dots> \<le> card (fst ` set t \<union> set missing)"
    using assms(4) d(2) by (intro card_mono) auto
  also have "\<dots> \<le> length t + length missing"
    using card_Un_le [of "fst ` set t" "set missing"] table_length [OF assms(2)] distinct_card [OF d(1)] by simp
  finally show ?thesis using room assms(3) t' by auto
qed

theorem record_capacity_holds_witness:
  "length (put_all [(''job'', 1 :: int), (''audit'', 2)] [(''job'', 0)]) \<le> max_persistent_records"
  by (rule record_capacity_holds [of "[''job'', ''audit'']" "[(''job'', 0)]"])
    (simp_all add: assert_record_capacity_def one_per_key_def max_persistent_records_def tget_def)

section \<open>The authorization cache\<close>

text \<open>At most 1024 entries, one per key.\<close>

definition cache_ok :: "playback_cache \<Rightarrow> bool" where
  "cache_ok c = (length c \<le> playback_cache_max_records \<and> distinct (map fst c))"

lemma distinct_drop_keys: "distinct (map fst c) \<Longrightarrow> distinct (map fst (filter P c)) \<and> distinct (map fst (drop n c))"
  by (simp add: distinct_map_filter drop_map [symmetric])

lemma dropped_absent: "k \<notin> fst ` set (cache_drop k c)"
  by (auto simp: cache_drop_def)

lemma length_cache_drop: "length (cache_drop k c) \<le> length c"
  by (simp add: cache_drop_def)

lemma length_cache_drop_present:
  assumes "map_of c k = Some v"
  shows "length (cache_drop k c) < length c"
  using assms length_filter_less [of "(k, v)" c "\<lambda>e. fst e \<noteq> k"] by (auto simp: cache_drop_def dest: map_of_SomeD)

lemma cache_get_ok:
  assumes "cache_ok (pb_cache s)"
  shows "cache_ok (pb_cache (snd (playback_cache_get W k s)))"
proof (cases "map_of (pb_cache s) k")
  case (Some entry)
  then show ?thesis
    using assms length_cache_drop_present [OF Some] dropped_absent [of k "pb_cache s"]
    by (cases entry) (auto simp: playback_cache_get_def cache_ok_def run_bnd cache_drop_def distinct_drop_keys)
qed (use assms in \<open>simp add: playback_cache_get_def run_bnd\<close>)

lemma make_room_length: "length (make_room c) < playback_cache_max_records"
  by (simp add: make_room_def playback_cache_max_records_def)

lemma cache_put_ok:
  assumes "cache_ok (pb_cache s)"
  shows "cache_ok (pb_cache (snd (playback_cache_put W k v t s)))"
proof -
  have "distinct (map fst (make_room (cache_drop k (pb_cache s))))" "k \<notin> fst ` set (make_room (cache_drop k (pb_cache s)))"
    using assms dropped_absent [of k "pb_cache s"]
    by (auto simp: make_room_def cache_ok_def cache_drop_def distinct_drop_keys dest: in_set_dropD)
  then show ?thesis
    using assms make_room_length [of "cache_drop k (pb_cache s)"]
    by (auto simp: playback_cache_put_def cache_ok_def run_bnd)
qed

text \<open>An entry is served only before it expires.\<close>

lemma cache_get_fresh:
  "playback_cache_get W k s = (Inr (Some v), t) \<Longrightarrow> \<exists>expires. map_of (pb_cache s) k = Some (v, expires) \<and> pw_now W s < expires"
  by (auto simp: playback_cache_get_def run_bnd split: option.splits if_splits)

section \<open>Playback tokens\<close>

text \<open>What a device is entitled to: the request names a listed, unexpired device of a playable ticket.\<close>

definition listed_playback_device :: "json \<Rightarrow> string \<Rightarrow> int \<Rightarrow> bool" where
  "listed_playback_device ticket key until =
     (\<exists>vs d s. obj_get ''devices'' ticket = Some (JArr vs) \<and> d \<in> set vs \<and> obj_get ''session_public_key'' d = Some (JStr key) \<and>
        obj_get ''expires_at_ms'' d = Some (JStr s) \<and> decimal1 19 s \<and> until = js_number s)"

definition playable :: "json \<Rightarrow> json \<Rightarrow> playback_request \<Rightarrow> bool" where
  "playable ticket publication r =
     (obj_get ''ticket_id'' ticket = Some (JStr (pq_ticket_id r)) \<and>
      (\<exists>status. obj_get ''status'' ticket = Some (JStr status) \<and> status \<in> set playback_statuses) \<and>
      obj_get ''publication_id'' publication = obj_get ''publication_id'' ticket \<and>
      (\<exists>a. obj_get ''availability'' publication = Some (JStr a) \<and> a \<in> set playable_availability))"

lemma array_of: "x \<in> set (case v of Some (JArr vs) \<Rightarrow> vs | _ \<Rightarrow> []) \<Longrightarrow> v = Some (JArr (case v of Some (JArr vs) \<Rightarrow> vs | _ \<Rightarrow> []))"
  by (auto split: option.splits json.splits)

lemma playback_decided:
  assumes "decide_ticket_playback ticket publication r now = Inr d" and "0 \<le> now"
  shows "playable ticket publication r" and "listed_playback_device ticket (pq_session_public_key r) (pd_device_expires_at_ms d)"
    and "now < pd_device_expires_at_ms d" and "pd_kind d = Watch \<longleftrightarrow> obj_get ''status'' ticket = Some (JStr ''purchased'')"
    and "obj_get ''playback_id'' publication = Some (JStr (pd_playback_id d))"
proof -
  have run: "is_obj ticket" "is_obj publication" "now < pd_device_expires_at_ms d"
    "obj_get ''ticket_id'' ticket = Some (JStr (pq_ticket_id r))" "text_in (obj_get ''status'' ticket) playback_statuses"
    "strict_equal (obj_get ''publication_id'' publication) (obj_get ''publication_id'' ticket)"
    "text_in (obj_get ''availability'' publication) playable_availability" "has_str ''playback_id'' publication"
    "pd_kind d = (if obj_get ''status'' ticket = Some (JStr ''purchased'') then Watch else Play)"
    "pd_playback_id d = str_of ''playback_id'' publication"
    "pd_device_expires_at_ms d = device_expiry_of (find (\<lambda>d. obj_get ''session_public_key'' d = Some (JStr (pq_session_public_key r)))
       (case obj_get ''devices'' ticket of Some (JArr vs) \<Rightarrow> vs | _ \<Rightarrow> []))"
    using assms(1) by (auto simp: decide_ticket_playback_def ebind_Inr_iff require_object_def Let_def split: if_splits)
  show "playable ticket publication r"
    using run by (auto simp: playable_def text_in_def strict_equal_def split: option.splits)
  show "now < pd_device_expires_at_ms d" by (rule run(3))
  show "pd_kind d = Watch \<longleftrightarrow> obj_get ''status'' ticket = Some (JStr ''purchased'')" using run(9) by simp
  show "obj_get ''playback_id'' publication = Some (JStr (pd_playback_id d))" using run(8,10) has_strD by metis
  show "listed_playback_device ticket (pq_session_public_key r) (pd_device_expires_at_ms d)"
  proof -
    define vs where "vs = (case obj_get ''devices'' ticket of Some (JArr vs) \<Rightarrow> vs | _ \<Rightarrow> [])"
    define device where "device = find (\<lambda>d. obj_get ''session_public_key'' d = Some (JStr (pq_session_public_key r))) vs"
    have e: "pd_device_expires_at_ms d = device_expiry_of device" and pos: "0 < device_expiry_of device"
      using run(3,11) assms(2) by (simp_all add: vs_def device_def)
    obtain x where x: "device = Some x" using pos by (cases device) (auto simp: device_expiry_of_def)
    obtain t where t: "obj_get ''expires_at_ms'' x = Some (JStr t)" "decimal1 19 t" "device_expiry_of device = js_number t"
      using pos x by (auto simp: device_expiry_of_def split: option.splits if_splits)
    have "x \<in> set vs" "obj_get ''session_public_key'' x = Some (JStr (pq_session_public_key r))"
      using find_result [OF x [unfolded device_def]] by simp_all
    moreover from this(1) have "obj_get ''devices'' ticket = Some (JArr vs)" unfolding vs_def by (rule array_of)
    ultimately show ?thesis unfolding listed_playback_device_def using t e by auto
  qed
qed

definition bound_request :: "playback_env \<Rightarrow> playback_request \<Rightarrow> bool" where
  "bound_request e r =
     (pe_near_network e = Some (pq_network r) \<and> pe_market_contract_id e = Some (pq_contract_id r) \<and>
      pq_request_origin r \<in> set (bridge_origins (pe_allowed_origins e)))"

text \<open>The first play of a ticket was settled by the operator before.\<close>

definition watch_settled :: "'s playback_world \<Rightarrow> json \<Rightarrow> string \<Rightarrow> bool" where
  "watch_settled W ticket ticket_id =
     (obj_get ''status'' ticket \<noteq> Some (JStr ''purchased'') \<or> (\<exists>s b t. pw_mark_watched W ticket_id s = (Inr (200, b), t)))"

text \<open>The token of the reply: what the adapter signed for the playback id of the publication, for at most three minutes.\<close>

definition token_signed :: "'s playback_world \<Rightarrow> json \<Rightarrow> int \<Rightarrow> json \<Rightarrow> 's playback_state \<Rightarrow> bool" where
  "token_signed W publication until reply t =
     (\<exists>adapter pid ttl now sg s. media_provider W (publication_profile_hash publication) = Inr adapter \<and>
        obj_get ''playback_id'' publication = Some (JStr pid) \<and> ma_sign_playback adapter pid ttl (now div 1000) s = (Inr sg, t) \<and>
        1 \<le> ttl \<and> ttl \<le> playback_v2_ttl_seconds \<and> now + ttl * 1000 \<le> until \<and> obj_get ''token'' reply = Some (JStr (sp_token sg)))"

definition token_entitled :: "'s playback_world \<Rightarrow> playback_env \<Rightarrow> json \<Rightarrow> 's playback_state \<Rightarrow> bool" where
  "token_entitled W e reply t =
     (\<exists>r sig ticket publication until s u.
        bound_request e r \<and>
        verify_ed25519_signature (pw_crypto W) (pq_session_public_key r) sig (canonical_playback_v3_message r) = Inr () \<and>
        ticket_views W e (pq_ticket_id r) s = (Inr (ticket, publication), u) \<and> playable ticket publication r \<and>
        listed_playback_device ticket (pq_session_public_key r) until \<and> watch_settled W ticket (pq_ticket_id r) \<and>
        token_signed W publication until reply t)"

lemma parsed_bound:
  "parse_playback_v3_body v \<lparr>pg_network = pe_near_network e, pg_contract_id = pe_market_contract_id e,
     pg_origins = bridge_origins (pe_allowed_origins e), pg_now_ms = n\<rparr> = Inr (r, sig) \<Longrightarrow> bound_request e r"
  by (auto simp: parse_playback_v3_body_def bound_request_def ebind_Inr_iff Let_def)

lemma settled:
  "settle_watch W k ticket_id s = (Inr u, t) \<Longrightarrow> k = Watch \<Longrightarrow> \<exists>b t'. pw_mark_watched W ticket_id s = (Inr (200, b), t')"
  by (auto simp: settle_watch_def bnd_returns split: if_splits prod.splits)

lemma ttl_fits: "now + min playback_v2_ttl_seconds ((until - now) div 1000) * 1000 \<le> (until :: int)"
  by (simp add: min_def) linarith

lemma error_never_200: "error_status code \<noteq> 200"
  by (simp add: error_status_def)

text \<open>
  C26 (safety) A playback token is issued only for a request of this deployment signed by the device key it names, when the
  chain shows a playable ticket of a publication on offer with that device listed, after the first play was settled,
  and for at most three minutes that end before the device expires.
\<close>

theorem playback_token_entitled:
  assumes "issue_ticket_playback_token W e body s = (Inr (200, reply), t)" and "\<And>u. 0 \<le> pw_now W u"
  shows "token_entitled W e reply t"
proof -
  have "authorize_ticket_playback W e body s = (Inr (200, reply), t)"
    using assms(1) error_never_200
    by (cases "authorize_ticket_playback W e body s"; cases "fst (authorize_ticket_playback W e body s)")
      (auto simp: issue_ticket_playback_token_def run_catch dest: sym)
  then obtain v r sig ticket publication d u1 u2 u3 preview adapter sg where
    parsed: "parse_playback_v3_body v \<lparr>pg_network = pe_near_network e, pg_contract_id = pe_market_contract_id e,
       pg_origins = bridge_origins (pe_allowed_origins e), pg_now_ms = pw_now W s\<rparr> = Inr (r, sig)"
    and verified: "verify_ed25519_signature (pw_crypto W) (pq_session_public_key r) sig (canonical_playback_v3_message r) = Inr ()"
    and views: "ticket_views W e (pq_ticket_id r) s = (Inr (ticket, publication), u1)"
    and decision: "decide_ticket_playback ticket publication r (pw_now W u1) = Inr d"
    and watch: "settle_watch W (pd_kind d) (pq_ticket_id r) u1 = (Inr (), u2)"
    and policy: "provider_policy W e (pd_playback_id d) (publication_profile_hash publication) u2 = (Inr preview, u3)"
    and remains: "\<not> (pd_device_expires_at_ms d - pw_now W u3) div 1000 < 1"
    and adapter: "media_provider W (publication_profile_hash publication) = Inr adapter"
    and signs: "ma_sign_playback adapter (pd_playback_id d) (min playback_v2_ttl_seconds ((pd_device_expires_at_ms d - pw_now W u3) div 1000))
       (pw_now W u3 div 1000) u3 = (Inr sg, t)"
    and reply: "reply = token_reply (ma_id adapter) (pd_playback_id d) sg preview"
    by (auto simp: authorize_ticket_playback_def bnd_returns Let_def split: prod.splits if_splits)
  note d = playback_decided [OF decision assms(2)]
  have "1 \<le> min playback_v2_ttl_seconds ((pd_device_expires_at_ms d - pw_now W u3) div 1000)"
    "obj_get ''token'' reply = Some (JStr (sp_token sg))"
    using remains reply by (simp_all add: token_reply_def playback_v2_ttl_seconds_def)
  then have "token_signed W publication (pd_device_expires_at_ms d) reply t"
    unfolding token_signed_def using adapter d(5) signs ttl_fits min.cobounded1 by blast
  moreover have "watch_settled W ticket (pq_ticket_id r)"
    using settled [OF watch] d(4) unfolding watch_settled_def by blast
  ultimately show ?thesis
    unfolding token_entitled_def using parsed_bound [OF parsed] verified views d(1,2) by blast
qed

text \<open>A ticket that was watched, its publication, and a request of its device, as one JSON value each.\<close>

definition sample_session_key :: string where
  "sample_session_key = ''ed25519:'' @ replicate 44 CHR ''2''"

definition sample_view :: json where
  "sample_view =
     JObj [(''ticket_id'', JStr (replicate 64 CHR ''0'')), (''status'', JStr ''watched''), (''publication_id'', JStr ''p1''),
       (''availability'', JStr ''ACTIVE''), (''playback_id'', JStr ''v1''),
       (''devices'', JArr [JObj [(''session_public_key'', JStr sample_session_key), (''expires_at_ms'', JStr ''9000'')]])]"

definition sample_play_request :: json where
  "sample_play_request =
     JObj [(''request'', JObj [(''network'', JStr ''testnet''), (''contract_id'', JStr ''market.testnet''),
         (''ticket_id'', JStr (replicate 64 CHR ''0'')), (''session_public_key'', JStr sample_session_key),
         (''origin'', JStr ''https://youtick.net''), (''device_nonce'', JStr (replicate 32 CHR ''0'')),
         (''expires_at_ms'', JStr ''9000'')]),
       (''signature'', JStr sample_signature)]"

definition sample_bridge_env :: playback_env where
  "sample_bridge_env = \<lparr>pe_near_network = Some ''testnet'', pe_market_contract_id = Some ''market.testnet'', pe_allowed_origins = Some ''https://youtick.net'',
     pe_version_id = ''v''\<rparr>"

definition sample_world :: "unit playback_world" where
  "sample_world =
     \<lparr>pw_crypto = sample_crypto, pw_now = (\<lambda>_. 1000),
      pw_fetch_near = (\<lambda>_. ret (True, Some (JObj [(''result'',
        JObj [(''result'', byte_array (wire_bytes sample_view)), (''block_hash'', JStr ''h'')])]))),
      pw_mark_watched = (\<lambda>_. ret (503, None)),
      pw_adapter = (\<lambda>k. Inr \<lparr>ma_id = k, ma_read_playback = (\<lambda>_. ret \<lparr>pp_kind = ''vod'', pp_policy = ''jwt'', pp_sources = []\<rparr>),
        ma_sign_playback = (\<lambda>_ ttl now. ret \<lparr>sp_token = ''t'', sp_hls_url = ''u'', sp_expires_at_seconds = now + ttl\<rparr>),
        ma_hosts = \<lparr>ha_exact = [], ha_suffixes = []\<rparr>\<rparr>),
      pw_url = (\<lambda>_. None)\<rparr>"

lemma number58_repunit: "57 * number58 m (replicate n 1) + 1 = (57 * m + 1) * 58 ^ n"
  by (induction n arbitrary: m) (simp_all add: number58_def algebra_simps)

lemma sample_session_bytes: "\<exists>k. base58_decode sample_session_key = Some k \<and> length k = 32"
proof -
  have s: "strip_ed25519 sample_session_key = replicate 44 CHR ''2''" by (simp add: strip_ed25519_def sample_session_key_def starts_with_def)
  have d: "digits58 (replicate 44 CHR ''2'') = replicate 44 1" by (simp add: digits58_def alphabet58_def)
  have "length (le_bytes (number58 0 (replicate 44 1))) = Suc 31"
    using number58_repunit [of 0 44] by (intro length_le_bytes) simp_all
  then show ?thesis by (simp add: base58_decode_value s d alphabet58_def)
qed

lemma sample_wire: "wire sample_view" "wire sample_play_request"
  by (simp_all add: sample_view_def sample_play_request_def sample_session_key_def plain_chr_def esc_chr_def chr_code_def index_key_def canonical_dec_def
    char_defs plain_signature)

lemma sample_body: "read_json_object (wire_bytes sample_play_request) = Inr sample_play_request"
proof -
  have "length (json_text sample_play_request) \<le> 800"
    by (simp add: sample_play_request_def sample_session_key_def esc_text_plain plain_signature length_signature plain_chr_def esc_chr_def chr_code_def)
  then have "length (wire_bytes sample_play_request) \<le> max_control_body_bytes"
    by (simp add: wire_bytes_def length_encode_ascii wire_ascii sample_wire(2) max_control_body_bytes_def)
  then show ?thesis by (simp add: read_json_object_def sample_wire) (simp add: sample_play_request_def require_object_def)
qed

definition sample_playback :: playback_request where
  "sample_playback =
     \<lparr>pq_network = ''testnet'', pq_contract_id = ''market.testnet'', pq_ticket_id = replicate 64 CHR ''0'',
      pq_session_public_key = sample_session_key, pq_request_origin = ''https://youtick.net'',
      pq_device_nonce = replicate 32 CHR ''0'', pq_expires_at_ms = ''9000''\<rparr>"

lemma sample_key_ok: "ed25519_text sample_session_key"
  by (simp add: sample_session_key_def ed25519_text_def repeated_def list_all_iff is_base58_def char_defs starts_with_def)

lemma sample_origin: "''https://youtick.net'' \<in> set (bridge_origins (Some ''https://youtick.net''))"
  by (simp add: bridge_origins_def split_at_char_no_sep js_trim_def code_points_ascii chr_code_def white_space_def of_code_points_def utf8_small char_of_def bit_0)

lemma nine: "decimal1 19 ''9000''" "js_number ''9000'' = 9000"
  by (simp_all add: decimal1_def repeated_def char_defs js_number_exact dec_val_def digit_val_def max_safe_def)

lemma sample_parsed:
  "parse_playback_v3_body sample_play_request \<lparr>pg_network = Some ''testnet'', pg_contract_id = Some ''market.testnet'',
     pg_origins = bridge_origins (Some ''https://youtick.net''), pg_now_ms = 1000\<rparr> = Inr (sample_playback, sample_signature)"
proof -
  have "sort (obj_keys sample_play_request) = sort [''request'', ''signature'']"
    by (rule perm_sort) (simp add: sample_play_request_def)
  moreover have "sort (obj_keys (case obj_get ''request'' sample_play_request of Some v \<Rightarrow> v | None \<Rightarrow> JNull)) = sort request_keys"
    by (rule perm_sort) (simp add: sample_play_request_def  request_keys_def)
  moreover have "repeated is_hex_digit 32 32 (replicate 32 CHR ''0'')"
    by (simp add: repeated_def list_all_iff is_hex_digit_def char_defs)
  ultimately show ?thesis
    using sample_key_ok sample_origin nine
    by (simp add: parse_playback_v3_body_def sample_play_request_def require_object_def require_exact_keys_def Let_def
      request_keys_def has_str_def str_of_def read_playback_request_def playback_v3_fields_def max_request_ahead_ms_def
      sample_playback_def)
qed

lemma sample_object: "is_obj sample_view" "sample_view \<noteq> JNull"
  by (simp_all add: sample_view_def)

lemma sample_views:
  "ticket_views sample_world sample_bridge_env t s = (Inr (sample_view, sample_view), s)"
proof -
  have v: "near_playback_view sample_world c m a b s = (Inr (sample_view, ''h''), s)" if "b = None \<or> b = Some ''h''" for c m a b s
    using that by (auto simp: near_playback_view_def near_view_with_def sample_world_def view_value_def byte_array_def sample_wire comp_def run_bnd run_attempt)
  show ?thesis
    using v [of None] v [of "Some ''h''"] sample_object by (simp add: ticket_views_def run_bnd require_object_def)
qed

lemma sample_decision:
  "decide_ticket_playback sample_view sample_view sample_playback 1000 =
     Inr \<lparr>pd_kind = Play, pd_playback_id = ''v1'', pd_device_expires_at_ms = 9000\<rparr>"
  by (simp add: decide_ticket_playback_def sample_view_def sample_playback_def require_object_def Let_def text_in_def strict_equal_def
    has_str_def str_of_def device_expiry_of_def nine playback_statuses_def playable_availability_def)

lemma sample_verified:
  "verify_ed25519_signature sample_crypto sample_session_key sample_signature m = Inr ()"
  using sample_session_bytes by (auto simp: verify_ed25519_signature_def sample_signature_def atob_btoa)

definition sample_state :: "unit playback_state" where
  "sample_state = \<lparr>pb_cache = [], pb_outside = ()\<rparr>"

lemma sample_token_run:
  "\<exists>reply t. issue_ticket_playback_token sample_world sample_bridge_env (wire_bytes sample_play_request) sample_state = (Inr (200, reply), t)"
proof -
  have p: "publication_profile_hash sample_view = None" by (simp add: publication_profile_hash_def sample_view_def)
  have w: "pw_now sample_world = (\<lambda>_. 1000)" "pw_crypto sample_world = sample_crypto"
    "pw_adapter sample_world k = Inr \<lparr>ma_id = k, ma_read_playback = (\<lambda>_. ret \<lparr>pp_kind = ''vod'', pp_policy = ''jwt'', pp_sources = []\<rparr>),
        ma_sign_playback = (\<lambda>_ ttl now. ret \<lparr>sp_token = ''t'', sp_hls_url = ''u'', sp_expires_at_seconds = now + ttl\<rparr>),
        ma_hosts = \<lparr>ha_exact = [], ha_suffixes = []\<rparr>\<rparr>" for k by (simp_all add: sample_world_def)
  have e: "pe_near_network sample_bridge_env = Some ''testnet''" "pe_market_contract_id sample_bridge_env = Some ''market.testnet''"
    "pe_allowed_origins sample_bridge_env = Some ''https://youtick.net''" by (simp_all add: sample_bridge_env_def)
  have k: "pq_session_public_key sample_playback = sample_session_key" by (simp add: sample_playback_def)
  show ?thesis
    by (simp add: issue_ticket_playback_token_def authorize_ticket_playback_def run_catch run_bnd sample_body sample_parsed sample_views
      sample_decision sample_verified settle_watch_def provider_policy_def playback_cache_get_def playback_cache_put_def
      verify_stateless_provider_policy_def media_provider_def media_profile_family_def p w e k Let_def sample_state_def)
qed

theorem playback_token_entitled_witness:
  "\<exists>reply t. token_entitled sample_world sample_bridge_env reply t"
  using sample_token_run playback_token_entitled [where W = sample_world and e = sample_bridge_env] by (fastforce simp: sample_world_def)

end
