(* ===== verification/BridgePayments.thy ===== *)
theory BridgePayments
  imports BridgePlayback
begin

text \<open>
  \<open>workers/livepeer-bridge/src/payments.ts\<close>: quotes and states of payments in other assets through 1Click. The Market
  price or the upload fee is the amount; 1Click must answer exactly the request that was made, signed; a rate
  object limits each client. The Market view, 1Click, its signature check, the URL parser, \<open>Date.parse\<close> and the wait
  for a rate object are parameters; each call may change the whole state.
\<close>

section \<open>Constants\<close>

definition mainnet_usdc_contract_id :: string where
  "mainnet_usdc_contract_id = ''17208628f84f5d6ad33f0da3bbbeb27ffcb398eac501a31bd6ad2011e36133a1''"

definition destination_asset_id :: string where
  "destination_asset_id = ''nep141:'' @ mainnet_usdc_contract_id"

definition payment_max_body_bytes :: nat where
  "payment_max_body_bytes = 64 * 1024"

definition payment_max_source_bytes :: nat where
  "payment_max_source_bytes = 20000000000"

definition min_payment_price_usdc :: nat where
  "min_payment_price_usdc = 2000000"

definition min_upload_fee_usdc :: nat where
  "min_upload_fee_usdc = 500000"

definition quote_deadline_ms :: int where
  "quote_deadline_ms = 2 * 60 * 60 * 1000"

definition quote_rate_limit :: nat where
  "quote_rate_limit = 5"

definition quote_rate_window_ms :: int where
  "quote_rate_window_ms = 60000"

definition status_rate_window_ms :: int where
  "status_rate_window_ms = 5000"

text \<open>\<open>/^[a-z0-9][a-z0-9._-]{0,62}[a-z0-9]$/\<close>\<close>

definition payment_account :: "string \<Rightarrow> bool" where
  "payment_account s =
     (let word = (\<lambda>c. is_lower c \<or> is_digit c)
      in 2 \<le> length s \<and> length s \<le> 64 \<and> word (hd s) \<and> word (last s)
         \<and> list_all (\<lambda>c. word c \<or> c = CHR ''.'' \<or> c = CHR ''_'' \<or> c = CHR ''-'') s)"

text \<open>\<open>/^[1-9][0-9]{0,19}$/\<close>\<close>

definition payment_integer :: "string \<Rightarrow> bool" where
  "payment_integer s = decimal1 19 s"

definition payment_statuses :: "string list" where
  "payment_statuses =
     [''KNOWN_DEPOSIT_TX'', ''PENDING_DEPOSIT'', ''INCOMPLETE_DEPOSIT'', ''PROCESSING'', ''SUCCESS'', ''REFUNDED'', ''FAILED'']"

definition oneclick_request_keys :: "string list" where
  "oneclick_request_keys =
     [''dry'', ''swapType'', ''slippageTolerance'', ''originAsset'', ''depositType'', ''destinationAsset'', ''amount'',
      ''refundTo'', ''refundType'', ''recipient'', ''recipientType'', ''deadline'', ''confidentiality'', ''depositMode'',
      ''quoteWaitingTimeMs'', ''appFees'', ''insured'']"

definition oneclick_quote_keys :: "string list" where
  "oneclick_quote_keys =
     [''depositAddress'', ''depositMemo'', ''amountIn'', ''amountInFormatted'', ''amountInUsd'', ''minAmountIn'',
      ''amountOut'', ''amountOutFormatted'', ''amountOutUsd'', ''minAmountOut'', ''deadline'', ''timeWhenInactive'',
      ''timeEstimate'', ''virtualChainRecipient'', ''virtualChainRefundRecipient'', ''customRecipientMsg'', ''refundFee'',
      ''withdrawFee'']"

datatype payment_network = Arbitrum | Base | Near

fun payment_network_name :: "payment_network \<Rightarrow> string" where
  "payment_network_name Arbitrum = ''arbitrum''"
| "payment_network_name Base = ''base''"
| "payment_network_name Near = ''near''"

record payment_asset =
  ya_asset_id :: string
  ya_network :: payment_network
  ya_symbol :: string
  ya_decimals :: nat
  ya_contract_address :: string

definition payment_assets_known :: "payment_asset list" where
  "payment_assets_known =
     [\<lparr>ya_asset_id = ''nep141:arb-0xaf88d065e77c8cc2239327c5edb3a432268e5831.omft.near'', ya_network = Arbitrum,
       ya_symbol = ''USDC'', ya_decimals = 6, ya_contract_address = ''0xaf88d065e77c8cc2239327c5edb3a432268e5831''\<rparr>,
      \<lparr>ya_asset_id = ''nep141:base-0x833589fcd6edb6e08f4c7c32d4f71b54bda02913.omft.near'', ya_network = Base,
       ya_symbol = ''USDC'', ya_decimals = 6, ya_contract_address = ''0x833589fcd6edb6e08f4c7c32d4f71b54bda02913''\<rparr>,
      \<lparr>ya_asset_id = ''nep141:wrap.near'', ya_network = Near, ya_symbol = ''wNEAR'', ya_decimals = 24,
       ya_contract_address = ''wrap.near''\<rparr>,
      \<lparr>ya_asset_id = ''nep141:usdt.tether-token.near'', ya_network = Near, ya_symbol = ''USDT'', ya_decimals = 6,
       ya_contract_address = ''usdt.tether-token.near''\<rparr>]"

text \<open>
  \<open>PAYMENT_ASSETS[id]\<close> on a plain object also finds the names every object inherits. Such a value has no
  \<open>asset_id\<close>; in a reply \<open>__proto__\<close> is written as an empty object and a function as \<open>null\<close>.
\<close>

definition inherited_names :: "string list" where
  "inherited_names =
     [''constructor'', ''__defineGetter__'', ''__defineSetter__'', ''hasOwnProperty'', ''__lookupGetter__'', ''__lookupSetter__'',
      ''isPrototypeOf'', ''propertyIsEnumerable'', ''toString'', ''valueOf'', ''__proto__'', ''toLocaleString'']"

datatype listed_asset = Asset payment_asset | Inherited string

definition listed_asset_of :: "string \<Rightarrow> listed_asset option" where
  "listed_asset_of asset_id =
     (case find (\<lambda>a. ya_asset_id a = asset_id) payment_assets_known of
        Some a \<Rightarrow> Some (Asset a)
      | None \<Rightarrow> if asset_id \<in> set inherited_names then Some (Inherited asset_id) else None)"

definition payment_asset_json :: "payment_asset \<Rightarrow> json" where
  "payment_asset_json a =
     JObj [(''asset_id'', JStr (ya_asset_id a)), (''network'', JStr (payment_network_name (ya_network a))),
       (''symbol'', JStr (ya_symbol a)), (''decimals'', JNum (of_nat (ya_decimals a))),
       (''contract_address'', JStr (ya_contract_address a))]"

fun listed_asset_json :: "listed_asset \<Rightarrow> json" where
  "listed_asset_json (Asset a) = payment_asset_json a"
| "listed_asset_json (Inherited n) = (if n = ''__proto__'' then JObj [] else JNull)"

definition payment_error_statuses :: "(string \<times> nat) list" where
  "payment_error_statuses =
     [(''internal_error'', 500), (''invalid_payment_quote_request'', 400), (''invalid_payment_status_request'', 400),
      (''origin_denied'', 403), (''payment_asset_denied'', 400), (''payment_contract_mismatch'', 503),
      (''durable_object_record_limit'', 503), (''payment_live_disabled'', 503), (''payment_market_invalid'', 502),
      (''payment_market_unavailable'', 503), (''payment_publication_unavailable'', 409), (''payment_quote_rate_limited'', 429),
      (''payment_quotes_disabled'', 503), (''payment_route_temporarily_unavailable'', 503),
      (''payment_status_rate_limited'', 429), (''oneclick_quote_rejected'', 422), (''oneclick_response_invalid'', 502),
      (''oneclick_swap_not_found'', 404), (''oneclick_unavailable'', 503), (''runtime_not_configured'', 503)]"

section \<open>Replies\<close>

record bridge_reply =
  br_status :: nat
  br_headers :: "(string \<times> string) list"
  br_body :: "json option"

definition payment_json :: "json \<Rightarrow> nat \<Rightarrow> bridge_reply" where
  "payment_json body status = \<lparr>br_status = status, br_headers = [(''Cache-Control'', ''no-store'')], br_body = Some body\<rparr>"

text \<open>Messages are the codes of this file or those of a platform exception, none of which an object inherits.\<close>

definition payment_error_code :: "string \<Rightarrow> string" where
  "payment_error_code e = (if e \<in> set (map fst payment_error_statuses) then e else ''internal_error'')"

definition payment_error :: "string \<Rightarrow> bridge_reply" where
  "payment_error e =
     payment_json (JObj [(''error'', JStr (payment_error_code e))]) (the (map_of payment_error_statuses (payment_error_code e)))"

definition with_payment_cors :: "bridge_reply \<Rightarrow> string \<Rightarrow> bridge_reply" where
  "with_payment_cors r origin_text =
     r\<lparr>br_headers := br_headers r @ (if origin_text \<noteq> [] then [(''Access-Control-Allow-Origin'', origin_text)] else [])
         @ [(''Access-Control-Allow-Methods'', ''GET, POST, OPTIONS''), (''Access-Control-Allow-Headers'', ''Content-Type''),
            (''Vary'', ''Origin'')]\<rparr>"

section \<open>Settings\<close>

record payment_env =
  ye_allowed_origins :: "string option"
  ye_near_network :: "string option"
  ye_near_rpc_url :: "string option"
  ye_market_contract_id :: "string option"
  ye_payments_mode :: "string option"
  ye_payment_asset_ids :: "string option"
  ye_oneclick_api_key :: "string option"
  ye_control_bound :: bool

datatype payment_mode = ModeOff | Preview | Live

fun payment_mode_name :: "payment_mode \<Rightarrow> string" where
  "payment_mode_name ModeOff = ''off''"
| "payment_mode_name Preview = ''preview''"
| "payment_mode_name Live = ''live''"

definition payment_mode_of :: "payment_env \<Rightarrow> payment_mode option" where
  "payment_mode_of e = find (\<lambda>m. ye_payments_mode e = Some (payment_mode_name m)) [ModeOff, Preview, Live]"

definition configured_assets :: "payment_env \<Rightarrow> bool \<Rightarrow> string + listed_asset list" where
  "configured_assets e allow_empty =
     (let requested = filter (\<lambda>i. i \<noteq> []) (map js_trim (split_at_char CHR '',''
            (case ye_payment_asset_ids e of Some t \<Rightarrow> t | None \<Rightarrow> [])))
      in if (requested = [] \<and> \<not> allow_empty) \<or> \<not> distinct requested \<or> list_ex (\<lambda>i. listed_asset_of i = None) requested
         then Inl ''runtime_not_configured''
         else Inr (map (\<lambda>i. the (listed_asset_of i)) requested))"

definition has_space :: "string \<Rightarrow> bool" where
  "has_space s = list_ex white_space (code_points s)"

definition valid_status_config :: "payment_env \<Rightarrow> bool" where
  "valid_status_config e =
     (ye_control_bound e
      \<and> (case ye_oneclick_api_key e of None \<Rightarrow> False
         | Some k \<Rightarrow> 16 \<le> utf16_length k \<and> utf16_length k \<le> 4096 \<and> \<not> has_space k))"

definition is_https_url :: "(string \<Rightarrow> url_parts option) \<Rightarrow> string option \<Rightarrow> bool" where
  "is_https_url parse v =
     (let t = (case v of Some s \<Rightarrow> s | None \<Rightarrow> [])
      in case parse t of None \<Rightarrow> False
         | Some u \<Rightarrow> up_protocol u = ''https:'' \<and> \<not> starts_with ''<'' t)"

definition valid_quote_config :: "(string \<Rightarrow> url_parts option) \<Rightarrow> payment_env \<Rightarrow> bool" where
  "valid_quote_config parse e =
     (ye_near_network e = Some ''mainnet'' \<and> is_https_url parse (ye_near_rpc_url e)
      \<and> (case ye_market_contract_id e of Some c \<Rightarrow> payment_account c | None \<Rightarrow> False) \<and> valid_status_config e)"

section \<open>Requests\<close>

datatype payment_purpose = TicketPurpose string | UploadPurpose string

record quote_input =
  qi_dry :: bool
  qi_account_id :: string
  qi_origin_asset_id :: string
  qi_refund_address :: string
  qi_purpose :: payment_purpose
  qi_purpose_json :: json

definition read_payment_body :: "bytes \<Rightarrow> string + json" where
  "read_payment_body body =
     (let code = ''invalid_payment_quote_request'' in
      if length body > payment_max_body_bytes then Inl code
      else case json_parse (decode_text body) of None \<Rightarrow> Inl code | Some v \<Rightarrow> require_object (Some v) code)"

definition parse_purpose :: "json \<Rightarrow> string + payment_purpose" where
  "parse_purpose purpose =
     (let code = ''invalid_payment_quote_request'' in
      if obj_get ''type'' purpose = Some (JStr ''ticket'') then
        ebind (require_exact_keys purpose [''type'', ''publication_id''] code) (\<lambda>_.
        ebind (erequire (has_str ''publication_id'' purpose \<and> ident128 (str_of ''publication_id'' purpose)) code) (\<lambda>_.
        Inr (TicketPurpose (str_of ''publication_id'' purpose))))
      else if obj_get ''type'' purpose = Some (JStr ''upload'') then
        ebind (require_exact_keys purpose [''type'', ''expected_source_bytes''] code) (\<lambda>_.
        ebind (erequire (has_str ''expected_source_bytes'' purpose \<and> payment_integer (str_of ''expected_source_bytes'' purpose)
                 \<and> dec_val (str_of ''expected_source_bytes'' purpose) \<le> payment_max_source_bytes) code) (\<lambda>_.
        Inr (UploadPurpose (str_of ''expected_source_bytes'' purpose))))
      else Inl code)"

definition parse_quote_input :: "json \<Rightarrow> string + quote_input" where
  "parse_quote_input v =
     (let code = ''invalid_payment_quote_request'' in
      ebind (require_exact_keys v [''dry'', ''account_id'', ''origin_asset_id'', ''refund_address'', ''purpose''] code) (\<lambda>_.
      case obj_get ''dry'' v of
        Some (JBool dry) \<Rightarrow>
          ebind (erequire (has_str ''account_id'' v \<and> payment_account (str_of ''account_id'' v) \<and> has_str ''origin_asset_id'' v
                   \<and> has_str ''refund_address'' v) code) (\<lambda>_.
          ebind (require_object (obj_get ''purpose'' v) code) (\<lambda>purpose.
          ebind (parse_purpose purpose) (\<lambda>p.
          Inr \<lparr>qi_dry = dry, qi_account_id = str_of ''account_id'' v, qi_origin_asset_id = str_of ''origin_asset_id'' v,
               qi_refund_address = str_of ''refund_address'' v, qi_purpose = p, qi_purpose_json = purpose\<rparr>)))
      | _ \<Rightarrow> Inl code))"

text \<open>\<open>validOpaqueValue\<close>: 1 to 256 UTF-16 units without the control characters of ASCII.\<close>

definition valid_opaque_value :: "string option \<Rightarrow> bool" where
  "valid_opaque_value v =
     (case v of None \<Rightarrow> False
      | Some s \<Rightarrow> 1 \<le> utf16_length s \<and> utf16_length s \<le> 256 \<and> \<not> list_ex (\<lambda>p. p \<le> 31 \<or> p = 127) (code_points s))"

text \<open>The parameters of the URL in their order, decoded by the platform.\<close>

definition parse_status_input :: "(string \<times> string) list \<Rightarrow> string + string \<times> string option" where
  "parse_status_input params =
     (let code = ''invalid_payment_status_request''; all = (\<lambda>k. map snd (filter (\<lambda>p. fst p = k) params)) in
      ebind (erequire (list_all (\<lambda>p. fst p = ''deposit_address'' \<or> fst p = ''deposit_memo'') params
               \<and> length (all ''deposit_address'') = 1 \<and> length (all ''deposit_memo'') \<le> 1) code) (\<lambda>_.
      let address = hd (all ''deposit_address''); memo = map_of params ''deposit_memo'' in
      ebind (erequire (valid_opaque_value (Some address) \<and> (memo = None \<or> valid_opaque_value memo)) code) (\<lambda>_.
      Inr (address, memo))))"

text \<open>\<open>/^0x[0-9a-fA-F]{40}$/\<close>\<close>

definition evm_address :: "string \<Rightarrow> bool" where
  "evm_address v = (starts_with ''0x'' v \<and> repeated (\<lambda>c. is_hex_digit c \<or> chr_in 65 70 c) 40 40 (drop 2 v))"

definition valid_refund_address :: "payment_asset \<Rightarrow> string \<Rightarrow> bool" where
  "valid_refund_address asset v = (if ya_network asset = Near then payment_account v else evm_address v)"

section \<open>Rate objects\<close>

text \<open>One durable object per client: the windows it keeps and its alarm.\<close>

record rate_window =
  rw_window_started_at_ms :: int
  rw_count :: nat

record rate_object =
  ro_windows :: "(string, rate_window) table"
  ro_alarm :: "int option"

definition on_windows :: "((string, rate_window) table, 'a) act \<Rightarrow> (rate_object, 'a) act" where
  "on_windows m ob = (case m (ro_windows ob) of (r, t) \<Rightarrow> (r, ob\<lparr>ro_windows := t\<rparr>))"

datatype rate_kind = QuoteRate | StatusRate

fun rate_kind_name :: "rate_kind \<Rightarrow> string" where
  "rate_kind_name QuoteRate = ''quote''"
| "rate_kind_name StatusRate = ''status''"

definition rate_key :: "rate_kind \<Rightarrow> string" where
  "rate_key kind = ''payment-rate:'' @ rate_kind_name kind @ '':v1''"

definition rate_window_ms :: "rate_kind \<Rightarrow> int" where
  "rate_window_ms kind = (if kind = QuoteRate then quote_rate_window_ms else status_rate_window_ms)"

definition rate_max :: "rate_kind \<Rightarrow> nat" where
  "rate_max kind = (if kind = QuoteRate then quote_rate_limit else 1)"

definition rate_kind_of :: "json option \<Rightarrow> rate_kind option" where
  "rate_kind_of v = find (\<lambda>k. v = Some (JStr (rate_kind_name k))) [QuoteRate, StatusRate]"

definition next_window :: "rate_kind \<Rightarrow> int \<Rightarrow> rate_window option \<Rightarrow> rate_window" where
  "next_window kind now current =
     (case current of
        None \<Rightarrow> \<lparr>rw_window_started_at_ms = now, rw_count = 1\<rparr>
      | Some w \<Rightarrow>
          if now - rw_window_started_at_ms w \<ge> rate_window_ms kind then \<lparr>rw_window_started_at_ms = now, rw_count = 1\<rparr>
          else w\<lparr>rw_count := rw_count w + 1\<rparr>)"

definition count_request :: "rate_kind \<Rightarrow> int \<Rightarrow> (rate_object, int) act" where
  "count_request kind now =
     atomically (
       bnd (reading (\<lambda>ob. tget (rate_key kind) (ro_windows ob))) (\<lambda>current.
       let w = next_window kind now current in
       bnd (require (\<not> rw_count w > rate_max kind)
              (if kind = QuoteRate then ''payment_quote_rate_limited'' else ''payment_status_rate_limited'')) (\<lambda>_.
       bnd (on_windows (assert_record_capacity [rate_key kind])) (\<lambda>_.
       bnd (writing (\<lambda>ob. ob\<lparr>ro_windows := tput (rate_key kind) w (ro_windows ob)\<rparr>)) (\<lambda>_.
       ret (rw_window_started_at_ms w + rate_window_ms kind))))))"

definition payment_rate_limit :: "int \<Rightarrow> bytes \<Rightarrow> (rate_object, bridge_reply) act" where
  "payment_rate_limit now body =
     catch (
       bnd (lifting (read_payment_body body)) (\<lambda>input.
       bnd (lifting (require_exact_keys input [''kind''] ''invalid_payment_quote_request'')) (\<lambda>_.
       case rate_kind_of (obj_get ''kind'' input) of
         None \<Rightarrow> throw ''invalid_payment_quote_request''
       | Some kind \<Rightarrow>
           bnd (count_request kind now) (\<lambda>expires.
           bnd (writing (\<lambda>ob. ob\<lparr>ro_alarm := Some expires\<rparr>)) (\<lambda>_.
           ret (payment_json (JObj [(''accepted'', JBool True)]) 200))))))
     (\<lambda>e. ret (payment_error e))"

text \<open>The alarm: nothing is forgotten before the last window has ended. \<open>False\<close>: the object has no windows.\<close>

definition window_expiries :: "rate_object \<Rightarrow> int list" where
  "window_expiries ob =
     concat (map (\<lambda>kind. case tget (rate_key kind) (ro_windows ob) of None \<Rightarrow> []
        | Some w \<Rightarrow> [rw_window_started_at_ms w + rate_window_ms kind]) [QuoteRate, StatusRate])"

definition expire_payment_rate_limit :: "int \<Rightarrow> (rate_object, bool) act" where
  "expire_payment_rate_limit now =
     bnd (reading window_expiries) (\<lambda>expiries.
       if expiries = [] then ret False
       else if now < Max (set expiries)
       then bnd (writing (\<lambda>ob. ob\<lparr>ro_alarm := Some (Max (set expiries))\<rparr>)) (\<lambda>_. ret True)
       else bnd (writing (\<lambda>ob. ob\<lparr>ro_windows := []\<rparr>)) (\<lambda>_. ret True))"

section \<open>The world of the routes\<close>

record 's payment_state =
  yt_objects :: "(string, rate_object) table"
  yt_outside :: 's

type_synonym ('s, 'a) yact = "('s payment_state, 'a) act"

text \<open>
  \<open>yw_near\<close> and \<open>yw_oneclick\<close> are \<open>fetch\<close> with the reply's status and its body, \<open>None\<close> when that is no JSON;
  \<open>yw_reach\<close> waits for a rate object. \<open>yw_verify_quote\<close> is the signature check of the SDK (false when it throws).
\<close>

record 's payment_world =
  yw_crypto :: crypto
  yw_now :: "'s payment_state \<Rightarrow> int"
  yw_url :: "string \<Rightarrow> url_parts option"
  yw_date_finite :: "string \<Rightarrow> bool"
  yw_verify_quote :: "json \<Rightarrow> bool"
  yw_near :: "string \<Rightarrow> string \<Rightarrow> ('s, nat \<times> json option) yact"
  yw_oneclick :: "string \<Rightarrow> string option \<Rightarrow> string \<Rightarrow> ('s, nat \<times> json option) yact"
  yw_reach :: "string \<Rightarrow> ('s, unit) yact"

definition http_ok :: "nat \<Rightarrow> bool" where
  "http_ok status = (200 \<le> status \<and> status \<le> 299)"

definition on_object :: "string \<Rightarrow> (rate_object, 'a) act \<Rightarrow> ('s, 'a) yact" where
  "on_object name m s =
     (let ob = (case tget name (yt_objects s) of Some ob \<Rightarrow> ob | None \<Rightarrow> \<lparr>ro_windows = [], ro_alarm = None\<rparr>)
      in case m ob of (r, ob') \<Rightarrow> (r, s\<lparr>yt_objects := tput name ob' (yt_objects s)\<rparr>))"

definition rate_object_name :: "crypto \<Rightarrow> rate_kind \<Rightarrow> string \<Rightarrow> string" where
  "rate_object_name C kind identity =
     ''payment-rate:'' @ rate_kind_name kind @ '':'' @ hex_of (sha256 C (encode_text identity))"

definition enforce_remote_rate_limit :: "'s payment_world \<Rightarrow> rate_kind \<Rightarrow> string \<Rightarrow> ('s, unit) yact" where
  "enforce_remote_rate_limit W kind identity =
     (let name = rate_object_name (yw_crypto W) kind identity in
      bnd (yw_reach W name) (\<lambda>_.
      bnd (reading (yw_now W)) (\<lambda>now.
      bnd (on_object name (payment_rate_limit now (encode_text (json_text (JObj [(''kind'', JStr (rate_kind_name kind))]))))) (\<lambda>r.
        if http_ok (br_status r) then ret ()
        else
          let code = Option.bind (br_body r) (obj_get ''error'') in
          throw (case as_str code of
                   Some c \<Rightarrow> if c = ''payment_quote_rate_limited'' \<or> c = ''payment_status_rate_limited'' then c
                             else ''runtime_not_configured''
                 | None \<Rightarrow> ''runtime_not_configured'')))))"

section \<open>Reading the Market\<close>

definition market_view_body :: "payment_env \<Rightarrow> string \<Rightarrow> json \<Rightarrow> string" where
  "market_view_body e method args =
     json_text (JObj [(''jsonrpc'', JStr ''2.0''), (''id'', JStr (''multi-asset-payment-'' @ method)), (''method'', JStr ''query''),
       (''params'', JObj ([(''request_type'', JStr ''call_function''), (''finality'', JStr ''final'')]
          @ (case ye_market_contract_id e of Some c \<Rightarrow> [(''account_id'', JStr c)] | None \<Rightarrow> [])
          @ [(''method_name'', JStr method), (''args_base64'', JStr (btoa (encode_text (json_text args))))]))])"

definition market_view_value :: "json \<Rightarrow> string + json" where
  "market_view_value payload =
     ebind (erequire (\<not> truthy (obj_get ''error'' payload)) ''payment_market_unavailable'') (\<lambda>_.
     ebind (require_object (obj_get ''result'' payload) ''payment_market_invalid'') (\<lambda>result.
     case obj_get ''result'' result of
       Some (JArr vs) \<Rightarrow>
         (case bytes_of vs of None \<Rightarrow> Inl ''payment_market_invalid''
          | Some bs \<Rightarrow> (case json_parse (decode_text bs) of None \<Rightarrow> Inl ''payment_market_invalid'' | Some v \<Rightarrow> Inr v))
     | _ \<Rightarrow> Inl ''payment_market_invalid''))"

definition read_market_view :: "'s payment_world \<Rightarrow> payment_env \<Rightarrow> string \<Rightarrow> json \<Rightarrow> ('s, json) yact" where
  "read_market_view W e method args =
     bnd (attempt (yw_near W (case ye_near_rpc_url e of Some u \<Rightarrow> u | None \<Rightarrow> ''undefined'') (market_view_body e method args))) (\<lambda>r.
       case r of Inl _ \<Rightarrow> throw ''payment_market_unavailable''
       | Inr (status, body) \<Rightarrow>
           bnd (require (http_ok status) ''payment_market_unavailable'') (\<lambda>_.
           bnd (lifting (require_object body ''payment_market_invalid'')) (\<lambda>payload.
           lifting (market_view_value payload))))"

definition payment_upload_fee :: "string \<Rightarrow> string" where
  "payment_upload_fee source_bytes =
     (let byte_fee = (dec_val source_bytes * 3 + 9999) div 10000
      in show_nat (if byte_fee < min_upload_fee_usdc then min_upload_fee_usdc else byte_fee))"

definition purchasable_for_payment :: "json \<Rightarrow> string \<Rightarrow> bool" where
  "purchasable_for_payment publication publication_id =
     (obj_get ''publication_id'' publication = Some (JStr publication_id)
      \<and> obj_get ''availability'' publication = Some (JStr ''ACTIVE'') \<and> has_str ''price_usdc'' publication
      \<and> payment_integer (str_of ''price_usdc'' publication)
      \<and> \<not> dec_val (str_of ''price_usdc'' publication) < min_payment_price_usdc)"

text \<open>The contract binding and, for a ticket, the publication, read at once.\<close>

definition derive_payment_amount :: "'s payment_world \<Rightarrow> payment_env \<Rightarrow> payment_purpose \<Rightarrow> ('s, string) yact" where
  "derive_payment_amount W e purpose =
     (let binding = read_market_view W e ''get_usdc_contract_id'' (JObj []);
          bound = (\<lambda>v. require (v = JStr mainnet_usdc_contract_id) ''payment_contract_mismatch'') in
      case purpose of
        UploadPurpose source_bytes \<Rightarrow>
          bnd binding (\<lambda>b. bnd (bound b) (\<lambda>_. ret (payment_upload_fee source_bytes)))
      | TicketPurpose publication_id \<Rightarrow>
          bnd (gather [binding, read_market_view W e ''get_publication'' (JObj [(''publication_id'', JStr publication_id)])]) (\<lambda>vs.
          bnd (bound (vs ! 0)) (\<lambda>_.
          bnd (lifting (require_object (Some (vs ! 1)) ''payment_publication_unavailable'')) (\<lambda>publication.
          bnd (require (purchasable_for_payment publication publication_id) ''payment_publication_unavailable'') (\<lambda>_.
          ret (str_of ''price_usdc'' publication))))))"

section \<open>1Click\<close>

definition oneclick_request ::
  "'s payment_world \<Rightarrow> payment_env \<Rightarrow> string \<Rightarrow> string option \<Rightarrow> rate_kind \<Rightarrow> ('s, json) yact" where
  "oneclick_request W e path body kind =
     bnd (attempt (yw_oneclick W (''https://1click.chaindefuser.com'' @ path) body
            (case ye_oneclick_api_key e of Some k \<Rightarrow> k | None \<Rightarrow> ''undefined''))) (\<lambda>r.
       case r of Inl _ \<Rightarrow> throw ''oneclick_unavailable''
       | Inr (status, reply) \<Rightarrow>
           if \<not> http_ok status then
             throw (if kind = StatusRate \<and> status = 404 then ''oneclick_swap_not_found''
                    else if kind = QuoteRate \<and> 400 \<le> status \<and> status < 500 \<and> status \<noteq> 429 then ''oneclick_quote_rejected''
                    else ''oneclick_unavailable'')
           else lifting (require_object reply ''oneclick_response_invalid''))"

record quote_request =
  qr_dry :: bool
  qr_origin_asset :: string
  qr_amount :: string
  qr_refund_to :: string
  qr_recipient :: string
  qr_deadline :: string

definition quote_request_fields :: "quote_request \<Rightarrow> (string \<times> json) list" where
  "quote_request_fields q =
     [(''dry'', JBool (qr_dry q)), (''swapType'', JStr ''EXACT_OUTPUT''), (''slippageTolerance'', JNum 100),
      (''originAsset'', JStr (qr_origin_asset q)), (''depositType'', JStr ''ORIGIN_CHAIN''),
      (''destinationAsset'', JStr destination_asset_id), (''amount'', JStr (qr_amount q)), (''refundTo'', JStr (qr_refund_to q)),
      (''refundType'', JStr ''ORIGIN_CHAIN''), (''recipient'', JStr (qr_recipient q)),
      (''recipientType'', JStr ''DESTINATION_CHAIN''), (''deadline'', JStr (qr_deadline q))]"

definition digits_text :: "string \<Rightarrow> bool" where
  "digits_text s = (s \<noteq> [] \<and> list_all is_digit s)"

definition optional_field :: "string \<Rightarrow> json \<Rightarrow> (json \<Rightarrow> bool) \<Rightarrow> bool" where
  "optional_field k v p = (case obj_get k v of None \<Rightarrow> True | Some x \<Rightarrow> p x)"

definition digits_value :: "json \<Rightarrow> bool" where
  "digits_value v = (case v of JStr s \<Rightarrow> digits_text s | _ \<Rightarrow> False)"

definition oneclick_fields_ok :: "json \<Rightarrow> json \<Rightarrow> bool" where
  "oneclick_fields_ok request quote =
     (list_all (\<lambda>k. k \<in> set oneclick_request_keys) (obj_keys request)
      \<and> optional_field ''confidentiality'' request (\<lambda>v. v = JStr ''public'')
      \<and> optional_field ''depositMode'' request (\<lambda>v. v = JStr ''SIMPLE'' \<or> v = JStr ''MEMO'')
      \<and> optional_field ''quoteWaitingTimeMs'' request (\<lambda>v. v = JNum 0)
      \<and> list_all (\<lambda>k. k \<in> set oneclick_quote_keys) (obj_keys quote)
      \<and> optional_field ''depositMemo'' quote (\<lambda>v. valid_opaque_value (as_str (Some v)))
      \<and> optional_field ''refundFee'' quote digits_value \<and> optional_field ''withdrawFee'' quote digits_value)"

definition unsafe_oneclick_fields :: "json \<Rightarrow> json \<Rightarrow> bool" where
  "unsafe_oneclick_fields request quote =
     (''customRecipientMsg'' \<in> set (obj_keys request) \<or> \<not> optional_field ''appFees'' request (\<lambda>v. v = JArr [])
      \<or> \<not> optional_field ''insured'' request (\<lambda>v. v = JBool False)
      \<or> list_ex (\<lambda>k. k \<in> set (obj_keys quote)) [''customRecipientMsg'', ''appFees'', ''insured''])"

text \<open>\<open>/^[1-9][0-9]*$/\<close>\<close>

definition positive_text :: "string \<Rightarrow> bool" where
  "positive_text s = (digits_text s \<and> hd s \<noteq> CHR ''0'')"

definition quote_deposit_ok :: "(string \<Rightarrow> bool) \<Rightarrow> json \<Rightarrow> quote_request \<Rightarrow> bool" where
  "quote_deposit_ok date_ok quote expected =
     (if qr_dry expected then obj_get ''depositAddress'' quote = None
      else valid_opaque_value (as_str (obj_get ''depositAddress'' quote)) \<and> date_ok (qr_deadline expected)
        \<and> obj_get ''deadline'' quote = Some (JStr (qr_deadline expected)))"

text \<open>\<open>verifySignedQuote\<close> and \<open>validateQuoteResponse\<close>: every violation is the same error.\<close>

definition quote_response_ok :: "'s payment_world \<Rightarrow> json \<Rightarrow> quote_request \<Rightarrow> json \<Rightarrow> json \<Rightarrow> bool" where
  "quote_response_ok W v expected request quote =
     (yw_verify_quote W v \<and> oneclick_fields_ok request quote
      \<and> has_str ''correlationId'' v \<and> str_of ''correlationId'' v \<noteq> []
      \<and> has_str ''timestamp'' v \<and> yw_date_finite W (str_of ''timestamp'' v)
      \<and> has_str ''signature'' v \<and> str_of ''signature'' v \<noteq> []
      \<and> list_all (\<lambda>(k, x). obj_get k request = Some x) (quote_request_fields expected)
      \<and> \<not> unsafe_oneclick_fields request quote
      \<and> obj_get ''amountOut'' quote = Some (JStr (qr_amount expected))
      \<and> has_str ''amountIn'' quote \<and> positive_text (str_of ''amountIn'' quote)
      \<and> (case json_safe_integer (obj_get ''timeEstimate'' quote) of Some n \<Rightarrow> 0 \<le> n | None \<Rightarrow> False)
      \<and> quote_deposit_ok (yw_date_finite W) quote expected)"

definition validate_quote_response :: "'s payment_world \<Rightarrow> json \<Rightarrow> quote_request \<Rightarrow> string + unit" where
  "validate_quote_response W v expected =
     (let code = ''oneclick_response_invalid'' in
      ebind (require_object (obj_get ''quoteRequest'' v) code) (\<lambda>request.
      ebind (require_object (obj_get ''quote'' v) code) (\<lambda>quote.
      erequire (quote_response_ok W v expected request quote) code)))"

definition stored_quote_ok :: "'s payment_world \<Rightarrow> json \<Rightarrow> json \<Rightarrow> json \<Rightarrow> string \<Rightarrow> string option \<Rightarrow> bool" where
  "stored_quote_ok W v request quote address memo =
     (yw_verify_quote W v \<and> oneclick_fields_ok request quote
      \<and> obj_get ''dry'' request = Some (JBool False) \<and> obj_get ''swapType'' request = Some (JStr ''EXACT_OUTPUT'')
      \<and> (case json_safe_integer (obj_get ''slippageTolerance'' request) of Some n \<Rightarrow> 0 \<le> n \<and> n \<le> 100 | None \<Rightarrow> False)
      \<and> has_str ''originAsset'' request \<and> listed_asset_of (str_of ''originAsset'' request) \<noteq> None
      \<and> obj_get ''depositType'' request = Some (JStr ''ORIGIN_CHAIN'')
      \<and> obj_get ''destinationAsset'' request = Some (JStr destination_asset_id)
      \<and> has_str ''amount'' request \<and> payment_integer (str_of ''amount'' request)
      \<and> obj_get ''refundType'' request = Some (JStr ''ORIGIN_CHAIN'')
      \<and> obj_get ''recipientType'' request = Some (JStr ''DESTINATION_CHAIN'')
      \<and> has_str ''recipient'' request \<and> payment_account (str_of ''recipient'' request)
      \<and> \<not> unsafe_oneclick_fields request quote
      \<and> obj_get ''amountOut'' quote = obj_get ''amount'' request
      \<and> obj_get ''depositAddress'' quote = Some (JStr address)
      \<and> obj_get ''depositMemo'' quote = map_option JStr memo)"

definition validate_stored_quote :: "'s payment_world \<Rightarrow> json \<Rightarrow> string \<Rightarrow> string option \<Rightarrow> string + unit" where
  "validate_stored_quote W v address memo =
     (let code = ''oneclick_response_invalid'' in
      ebind (require_object (obj_get ''quoteRequest'' v) code) (\<lambda>request.
      ebind (require_object (obj_get ''quote'' v) code) (\<lambda>quote.
      erequire (stored_quote_ok W v request quote address memo) code)))"

section \<open>Texts of the platform\<close>

definition padded :: "nat \<Rightarrow> nat \<Rightarrow> string" where
  "padded w n = (let t = show_nat n in replicate (w - length t) CHR ''0'' @ t)"

text \<open>Year, month and day of the proleptic Gregorian calendar, from the days since 1970-01-01.\<close>

definition civil_of_days :: "int \<Rightarrow> int \<times> int \<times> int" where
  "civil_of_days days =
     (let z = days + 719468; era = z div 146097; doe = z mod 146097;
          yoe = (doe - doe div 1460 + doe div 36524 - doe div 146096) div 365;
          doy = doe - (365 * yoe + yoe div 4 - yoe div 100); mp = (5 * doy + 2) div 153;
          m = (if mp < 10 then mp + 3 else mp - 9)
      in (yoe + era * 400 + (if m \<le> 2 then 1 else 0), m, doy - (153 * mp + 2) div 5 + 1))"

text \<open>\<open>new Date(ms).toISOString()\<close> for the years 0 to 9999.\<close>

definition iso_text :: "int \<Rightarrow> string" where
  "iso_text ms =
     (case civil_of_days (ms div 86400000) of (y, m, d) \<Rightarrow>
        let t = ms mod 86400000 in
        padded 4 (nat y) @ ''-'' @ padded 2 (nat m) @ ''-'' @ padded 2 (nat d) @ ''T'' @ padded 2 (nat (t div 3600000)) @ '':''
        @ padded 2 (nat (t div 60000 mod 60)) @ '':'' @ padded 2 (nat (t div 1000 mod 60)) @ ''.'' @ padded 3 (nat (t mod 1000)) @ ''Z'')"

text \<open>\<open>new URLSearchParams(...).toString()\<close>\<close>

definition hex_upper :: "nat \<Rightarrow> char" where
  "hex_upper n = char_of (if n < 10 then 48 + n else 55 + n)"

definition form_byte :: "8 word \<Rightarrow> string" where
  "form_byte b =
     (let c = char_of (unat b) in
      if is_alnum c \<or> c = CHR ''*'' \<or> c = CHR ''-'' \<or> c = CHR ''.'' \<or> c = CHR ''_'' then [c]
      else if c = CHR '' '' then ''+''
      else [CHR 0x25, hex_upper (unat b div 16), hex_upper (unat b mod 16)])"

definition form_text :: "string \<Rightarrow> string" where
  "form_text s = concat (map form_byte (encode_text s))"

definition status_query :: "string \<Rightarrow> string option \<Rightarrow> string" where
  "status_query address memo =
     ''depositAddress='' @ form_text address
     @ (case memo of Some m \<Rightarrow> if m \<noteq> [] then ''&depositMemo='' @ form_text m else [] | None \<Rightarrow> [])"

section \<open>Routes\<close>

record payment_request =
  yr_origin :: "string option"
  yr_client_ip :: "string option"
  yr_body :: bytes
  yr_params :: "(string \<times> string) list"

definition allowed_origin :: "payment_env \<Rightarrow> payment_request \<Rightarrow> bool" where
  "allowed_origin e rq =
     ((case yr_origin rq of Some t \<Rightarrow> t | None \<Rightarrow> []) \<in> set (bridge_origins (ye_allowed_origins e)))"

definition payment_route ::
  "payment_env \<Rightarrow> payment_request \<Rightarrow> ('s, bridge_reply) yact \<Rightarrow> ('s, bridge_reply) yact" where
  "payment_route e rq handler =
     (let origin_text = (case yr_origin rq of Some t \<Rightarrow> t | None \<Rightarrow> []) in
      catch (bnd (require (allowed_origin e rq) ''origin_denied'') (\<lambda>_.
             bnd handler (\<lambda>r. ret (with_payment_cors r origin_text))))
       (\<lambda>err. ret (with_payment_cors (payment_error err) (if allowed_origin e rq then origin_text else []))))"

definition payment_options :: "payment_env \<Rightarrow> payment_request \<Rightarrow> bridge_reply" where
  "payment_options e rq =
     (if allowed_origin e rq
      then with_payment_cors \<lparr>br_status = 204, br_headers = [], br_body = None\<rparr> (the (yr_origin rq))
      else payment_json (JObj [(''error'', JStr ''origin_denied'')]) 403)"

definition payment_assets :: "'s payment_world \<Rightarrow> payment_env \<Rightarrow> payment_request \<Rightarrow> ('s, bridge_reply) yact" where
  "payment_assets W e rq =
     payment_route e rq (
       case payment_mode_of e of
         None \<Rightarrow> throw ''runtime_not_configured''
       | Some mode \<Rightarrow>
           bnd (lifting (configured_assets e (mode = ModeOff))) (\<lambda>assets.
           bnd (require (mode = ModeOff \<or> valid_quote_config (yw_url W) e) ''runtime_not_configured'') (\<lambda>_.
           ret (payment_json (JObj [(''schema'', JStr ''youtick.payment-assets.v1''), (''mode'', JStr (payment_mode_name mode)),
             (''destination_asset_id'', JStr destination_asset_id), (''assets'', JArr (map listed_asset_json assets))]) 200))))"

definition find_asset :: "listed_asset list \<Rightarrow> string \<Rightarrow> payment_asset option" where
  "find_asset assets asset_id =
     find (\<lambda>a. ya_asset_id a = asset_id) (List.map_filter (\<lambda>l. case l of Asset a \<Rightarrow> Some a | Inherited n \<Rightarrow> None) assets)"

definition quote_identity :: "quote_input \<Rightarrow> payment_request \<Rightarrow> string" where
  "quote_identity input rq =
     qi_account_id input @ '':'' @ (case yr_client_ip rq of Some i \<Rightarrow> if i \<noteq> [] then i else ''unknown'' | None \<Rightarrow> ''unknown'')"

definition quote_request_of :: "quote_input \<Rightarrow> payment_asset \<Rightarrow> string \<Rightarrow> int \<Rightarrow> quote_request" where
  "quote_request_of input asset amount now =
     \<lparr>qr_dry = qi_dry input, qr_origin_asset = ya_asset_id asset, qr_amount = amount, qr_refund_to = qi_refund_address input,
      qr_recipient = qi_account_id input, qr_deadline = iso_text (now + quote_deadline_ms)\<rparr>"

definition slow_route :: "quote_input \<Rightarrow> json \<Rightarrow> bool" where
  "slow_route input response =
     (\<not> qi_dry input \<and> (case json_safe_integer (Option.bind (obj_get ''quote'' response) (obj_get ''timeEstimate'')) of
        Some n \<Rightarrow> n > 600 | None \<Rightarrow> False))"

definition quote_reply :: "quote_input \<Rightarrow> string \<Rightarrow> payment_asset \<Rightarrow> json \<Rightarrow> bridge_reply" where
  "quote_reply input amount asset response =
     payment_json (JObj [(''schema'', JStr ''youtick.payment-quote.v1''), (''purpose'', qi_purpose_json input),
       (''amount_out_usdc'', JStr amount), (''origin_asset'', payment_asset_json asset),
       (''destination_asset_id'', JStr destination_asset_id), (''quote_response'', response)]) 200"

definition payment_quote_handler :: "'s payment_world \<Rightarrow> payment_env \<Rightarrow> payment_request \<Rightarrow> ('s, bridge_reply) yact" where
  "payment_quote_handler W e rq =
     (let mode = payment_mode_of e in
      bnd (require (mode \<noteq> Some ModeOff) ''payment_quotes_disabled'') (\<lambda>_.
      bnd (require (mode \<noteq> None \<and> valid_quote_config (yw_url W) e) ''runtime_not_configured'') (\<lambda>_.
      bnd (lifting (ebind (read_payment_body (yr_body rq)) parse_quote_input)) (\<lambda>input.
      bnd (require (\<not> (mode = Some Preview \<and> \<not> qi_dry input)) ''payment_live_disabled'') (\<lambda>_.
      bnd (lifting (configured_assets e False)) (\<lambda>assets.
      case find_asset assets (qi_origin_asset_id input) of
        None \<Rightarrow> throw ''payment_asset_denied''
      | Some asset \<Rightarrow>
          bnd (require (valid_refund_address asset (qi_refund_address input)) ''invalid_payment_quote_request'') (\<lambda>_.
          bnd (enforce_remote_rate_limit W QuoteRate (quote_identity input rq)) (\<lambda>_.
          bnd (derive_payment_amount W e (qi_purpose input)) (\<lambda>amount.
          bnd (reading (yw_now W)) (\<lambda>now.
          let q = quote_request_of input asset amount now in
          bnd (oneclick_request W e ''/v0/quote'' (Some (json_text (JObj (quote_request_fields q)))) QuoteRate) (\<lambda>response.
          bnd (lifting (validate_quote_response W response q)) (\<lambda>_.
          bnd (require (\<not> slow_route input response) ''payment_route_temporarily_unavailable'') (\<lambda>_.
          ret (quote_reply input amount asset response))))))))))))))"

definition payment_quote :: "'s payment_world \<Rightarrow> payment_env \<Rightarrow> payment_request \<Rightarrow> ('s, bridge_reply) yact" where
  "payment_quote W e rq = payment_route e rq (payment_quote_handler W e rq)"

definition payment_status_handler :: "'s payment_world \<Rightarrow> payment_env \<Rightarrow> payment_request \<Rightarrow> ('s, bridge_reply) yact" where
  "payment_status_handler W e rq =
     (let code = ''oneclick_response_invalid'' in
      bnd (require (valid_status_config e) ''runtime_not_configured'') (\<lambda>_.
      bnd (lifting (parse_status_input (yr_params rq))) (\<lambda>(address, memo).
      bnd (enforce_remote_rate_limit W StatusRate (address @ '':'' @ (case memo of Some m \<Rightarrow> m | None \<Rightarrow> []))) (\<lambda>_.
      bnd (oneclick_request W e (''/v0/status?'' @ status_query address memo) None StatusRate) (\<lambda>response.
      bnd (lifting (require_object (obj_get ''quoteResponse'' response) code)) (\<lambda>stored.
      bnd (lifting (validate_stored_quote W stored address memo)) (\<lambda>_.
      bnd (require (has_str ''status'' response \<and> str_of ''status'' response \<in> set payment_statuses) code) (\<lambda>_.
      bnd (require (has_str ''updatedAt'' response \<and> yw_date_finite W (str_of ''updatedAt'' response)) code) (\<lambda>_.
      bnd (lifting (require_object (obj_get ''swapDetails'' response) code)) (\<lambda>details.
      ret (payment_json (JObj [(''schema'', JStr ''youtick.payment-status.v1''), (''status'', JStr (str_of ''status'' response)),
        (''updated_at'', JStr (str_of ''updatedAt'' response)), (''quote_response'', stored), (''swap_details'', details)]) 200)))))))))))"

definition payment_status :: "'s payment_world \<Rightarrow> payment_env \<Rightarrow> payment_request \<Rightarrow> ('s, bridge_reply) yact" where
  "payment_status W e rq = payment_route e rq (payment_status_handler W e rq)"

end
