(* ===== verification/BridgeQuotes.thy ===== *)
theory BridgeQuotes
  imports BridgePayments MarketChecks Wire Samples
begin

text \<open>
  What the payment routes of the bridge promise: how many requests a rate object grants, that the fee of an upload is
  the one the relayer asks for, and what a quote and a payment status rest on.
\<close>

section \<open>Rate limits\<close>

text \<open>What happens to one rate object: a request of a client, or its alarm, each at a time.\<close>

datatype rate_event = Asked int rate_kind | Woken int

fun event_time :: "rate_event \<Rightarrow> int" where
  "event_time (Asked t k) = t"
| "event_time (Woken t) = t"

definition rate_body :: "rate_kind \<Rightarrow> bytes" where
  "rate_body kind = encode_text (json_text (JObj [(''kind'', JStr (rate_kind_name kind))]))"

definition grants :: "int \<Rightarrow> rate_kind \<Rightarrow> rate_object \<Rightarrow> bool \<times> rate_object" where
  "grants now kind ob =
     (case payment_rate_limit now (rate_body kind) ob of
        (Inr r, ob') \<Rightarrow> (http_ok (br_status r), ob') | (Inl _, ob') \<Rightarrow> (False, ob'))"

fun granted :: "rate_kind \<Rightarrow> rate_event list \<Rightarrow> rate_object \<Rightarrow> int list" where
  "granted k [] ob = []"
| "granted k (Asked t kind # es) ob =
     (case grants t kind ob of (ok, ob') \<Rightarrow> (if ok \<and> kind = k then [t] else []) @ granted k es ob')"
| "granted k (Woken t # es) ob = granted k es (snd (expire_payment_rate_limit t ob))"

text \<open>The windows of the past: each starts with its first request, none overlaps the next.\<close>

type_synonym windows = "(int \<times> int list) list"

fun windows_ok :: "rate_kind \<Rightarrow> windows \<Rightarrow> bool" where
  "windows_ok k [] = True"
| "windows_ok k ((start, ts) # ws) =
     (length ts \<le> rate_max k \<and> start \<in> set ts \<and> list_all (\<lambda>t. start \<le> t \<and> t < start + rate_window_ms k) ts
      \<and> list_all (\<lambda>w. start + rate_window_ms k \<le> fst w) ws \<and> windows_ok k ws)"

definition inside :: "rate_kind \<Rightarrow> int \<Rightarrow> int list \<Rightarrow> int list" where
  "inside k t ts = filter (\<lambda>x. t \<le> x \<and> x < t + rate_window_ms k) ts"

lemma window_positive: "0 < rate_window_ms k"
  by (simp add: rate_window_ms_def quote_rate_window_ms_def status_rate_window_ms_def)

lemma max_positive: "0 < rate_max k"
  by (simp add: rate_max_def quote_rate_limit_def)

lemma inside_late: "list_all (\<lambda>x. t + rate_window_ms k \<le> x) ts \<Longrightarrow> inside k t ts = []"
  by (auto simp: inside_def list_all_iff filter_empty_conv)

lemma inside_early: "list_all (\<lambda>x. x < t) ts \<Longrightarrow> inside k t ts = []"
  by (auto simp: inside_def list_all_iff filter_empty_conv)

lemma inside_append [simp]: "inside k t (xs @ ys) = inside k t xs @ inside k t ys"
  by (simp add: inside_def)

lemma later_windows_late:
  "windows_ok k ws \<Longrightarrow> list_all (\<lambda>w. t + rate_window_ms k \<le> fst w) ws \<Longrightarrow> inside k t (concat (map snd ws)) = []"
proof (induction ws)
  case (Cons w ws)
  then have "list_all (\<lambda>x. t + rate_window_ms k \<le> x) (snd w)" by (cases w) (fastforce simp: list_all_iff)
  then have "inside k t (snd w) = []" by (rule inside_late)
  moreover have "inside k t (concat (map snd ws)) = []" using Cons by (cases w) auto
  ultimately show ?case by simp
qed (simp add: inside_def)

lemma later_windows:
  assumes "windows_ok k ws" and "list_all (\<lambda>w. t \<le> fst w) ws"
  shows "length (inside k t (concat (map snd ws))) \<le> rate_max k"
proof (cases ws)
  case (Cons w vs)
  obtain start ts where w: "w = (start, ts)" by (cases w)
  have "list_all (\<lambda>w. t + rate_window_ms k \<le> fst w) vs"
    using assms Cons w by (auto simp: list_all_iff)
  then have "inside k t (concat (map snd vs)) = []"
    using assms Cons w by (intro later_windows_late) auto
  moreover have "length (inside k t ts) \<le> length ts" by (simp add: inside_def)
  ultimately show ?thesis using assms Cons w by auto
qed (simp add: inside_def)

lemma windows_count:
  assumes "windows_ok k ws"
  shows "length (inside k t (concat (map snd ws))) \<le> 2 * rate_max k - 1"
  using assms
proof (induction ws)
  case Nil
  then show ?case by (simp add: inside_def)
next
  case (Cons w ws)
  obtain start ts where w: "w = (start, ts)" by (cases w)
  note ok = Cons.prems [unfolded w]
  consider "start + rate_window_ms k \<le> t" | "t \<le> start" | "start < t" "t < start + rate_window_ms k" by linarith
  then show ?case
  proof cases
    case 1
    then have "inside k t ts = []" using ok by (intro inside_early) (auto simp: list_all_iff)
    then show ?thesis using Cons.IH ok w by simp
  next
    case 2
    then have "list_all (\<lambda>w. t \<le> fst w) (w # ws)" using ok w window_positive [of k] by (auto simp: list_all_iff)
    then show ?thesis using later_windows [OF Cons.prems, of t] max_positive [of k] by linarith
  next
    case 3
    then have "list_all (\<lambda>w. t \<le> fst w) ws" using ok by (auto simp: list_all_iff)
    then have "length (inside k t (concat (map snd ws))) \<le> rate_max k" using ok by (intro later_windows) auto
    moreover have "length (inside k t ts) < length ts"
      using ok 3 length_filter_less [of start ts "\<lambda>x. t \<le> x \<and> x < t + rate_window_ms k"] by (auto simp: inside_def)
    moreover have "length ts \<le> rate_max k" using ok by simp
    ultimately have "length (inside k t ts) + length (inside k t (concat (map snd ws))) \<le> 2 * rate_max k - 1" by linarith
    then show ?thesis using w by simp
  qed
qed

text \<open>What the object answers, and the window it keeps.\<close>

lemma rate_body_read: "read_payment_body (rate_body k) = Inr (JObj [(''kind'', JStr (rate_kind_name k))])"
proof -
  have w: "wire (JObj [(''kind'', JStr (rate_kind_name k))])"
    by (cases k) (simp_all add: plain_chr_def esc_chr_def chr_code_def index_key_def canonical_dec_def char_defs)
  moreover have "length (json_text (JObj [(''kind'', JStr (rate_kind_name k))])) \<le> payment_max_body_bytes"
    by (cases k) (simp_all add: esc_text_plain plain_chr_def esc_chr_def chr_code_def payment_max_body_bytes_def)
  ultimately show ?thesis
    using wire_read [OF w] by (simp add: read_payment_body_def rate_body_def wire_bytes_def require_object_def length_encode_ascii wire_ascii del: json_text.simps)
qed

lemma rate_kind_read: "rate_kind_of (Some (JStr (rate_kind_name k))) = Some k"
  by (cases k) (simp_all add: rate_kind_of_def)

lemma rate_limit_run:
  "payment_rate_limit now (rate_body k) ob =
     (case count_request k now ob of
        (Inl e, ob') \<Rightarrow> (Inr (payment_error e), ob')
      | (Inr x, ob') \<Rightarrow> (Inr (payment_json (JObj [(''accepted'', JBool True)]) 200), ob'\<lparr>ro_alarm := Some x\<rparr>))"
  by (cases "count_request k now ob"; cases "fst (count_request k now ob)")
    (auto simp: payment_rate_limit_def run_catch run_bnd rate_body_read rate_kind_read require_exact_keys_def)

lemma error_not_ok: "\<not> http_ok (br_status (payment_error e))"
  by (auto simp: payment_error_def payment_json_def payment_error_code_def payment_error_statuses_def http_ok_def)

definition current_window :: "rate_kind \<Rightarrow> rate_object \<Rightarrow> rate_window option" where
  "current_window k ob = tget (rate_key k) (ro_windows ob)"

lemma rate_key_inject [simp]: "rate_key k = rate_key l \<longleftrightarrow> k = l"
  by (cases k; cases l) (simp_all add: rate_key_def)

lemma grants_run:
  assumes "grants now k ob = (ok, ob')"
  shows "if ok then current_window k ob' = Some (next_window k now (current_window k ob)) \<and>
             rw_count (next_window k now (current_window k ob)) \<le> rate_max k \<and>
             (\<forall>l. l \<noteq> k \<longrightarrow> current_window l ob' = current_window l ob)
         else \<forall>l. current_window l ob' = current_window l ob"
  using assms error_not_ok
  by (auto simp: grants_def rate_limit_run count_request_def run_atomically run_bnd current_window_def on_windows_def
      assert_record_capacity_def Let_def http_ok_def payment_json_def split: prod.splits sum.splits if_splits)

text \<open>The windows granted so far fit the object: the last one is the one it keeps, or all have ended.\<close>

definition ended :: "rate_kind \<Rightarrow> windows \<Rightarrow> int \<Rightarrow> bool" where
  "ended k ws t = list_all (\<lambda>w. fst w + rate_window_ms k \<le> t) ws"

lemma ended_simps [simp]:
  "ended k [] t" "ended k (w # ws) t \<longleftrightarrow> fst w + rate_window_ms k \<le> t \<and> ended k ws t"
  "ended k (ws @ vs) t \<longleftrightarrow> ended k ws t \<and> ended k vs t"
  by (simp_all add: ended_def)

lemma ended_later: "ended k ws s \<Longrightarrow> s \<le> t \<Longrightarrow> ended k ws t"
  by (auto simp: ended_def list_all_iff)

definition up_to :: "windows \<Rightarrow> int \<Rightarrow> bool" where
  "up_to ws now = list_all (\<lambda>t. t \<le> now) (concat (map snd ws))"

lemma up_to_later: "up_to ws now \<Longrightarrow> now \<le> t \<Longrightarrow> up_to ws t"
  unfolding up_to_def list_all_iff by (meson order_trans)

lemma up_to_append [simp]: "up_to (ws @ vs) t \<longleftrightarrow> up_to ws t \<and> up_to vs t"
  by (simp add: up_to_def)

lemma windows_ok_snoc:
  "windows_ok k (ws @ [(start, ts)]) \<longleftrightarrow> windows_ok k ws \<and> ended k ws start \<and> windows_ok k [(start, ts)]"
  by (induction ws) auto

definition fits :: "rate_kind \<Rightarrow> windows \<Rightarrow> rate_object \<Rightarrow> int \<Rightarrow> bool" where
  "fits k ws ob now =
     (windows_ok k ws \<and> up_to ws now \<and>
      (case current_window k ob of
         None \<Rightarrow> ended k ws now
       | Some c \<Rightarrow> \<exists>vs ts. ws = vs @ [(rw_window_started_at_ms c, ts)] \<and> length ts = rw_count c))"

lemma fits_later: "fits k ws ob now \<Longrightarrow> now \<le> t \<Longrightarrow> fits k ws ob t"
  using up_to_later ended_later by (fastforce simp: fits_def split: option.splits)

lemma fits_ended:
  assumes "fits k ws ob now" and "now \<le> t"
    and "\<And>c. current_window k ob = Some c \<Longrightarrow> rw_window_started_at_ms c + rate_window_ms k \<le> t"
  shows "ended k ws t"
proof (cases "current_window k ob")
  case None
  then show ?thesis using assms(1,2) ended_later [of k ws now t] by (simp add: fits_def)
next
  case (Some c)
  then obtain vs ts where ws: "ws = vs @ [(rw_window_started_at_ms c, ts)]" using assms(1) by (auto simp: fits_def)
  then have "ended k vs (rw_window_started_at_ms c)" using assms(1) by (simp add: fits_def windows_ok_snoc)
  then have "ended k vs t" by (rule ended_later) (use assms(3) [OF Some] window_positive [of k] in linarith)
  then show ?thesis using assms(3) [OF Some] ws by simp
qed

lemma fits_fresh_window:
  assumes "fits k ws ob now" and "now \<le> t" and "ended k ws t"
    and "current_window k ob' = Some \<lparr>rw_window_started_at_ms = t, rw_count = 1\<rparr>"
  shows "fits k (ws @ [(t, [t])]) ob' t"
proof -
  have "windows_ok k (ws @ [(t, [t])])"
    using assms(1,3) max_positive [of k] window_positive [of k] by (simp add: fits_def windows_ok_snoc)
  moreover have "up_to (ws @ [(t, [t])]) t" using assms(1,2) up_to_later [of ws now t] by (simp add: fits_def) (simp add: up_to_def)
  ultimately show ?thesis using assms(4) by (simp add: fits_def)
qed

lemma fits_same_window:
  assumes "fits k ws ob now" and "now \<le> t" and "current_window k ob = Some c"
    and "t < rw_window_started_at_ms c + rate_window_ms k" and "rw_count c + 1 \<le> rate_max k"
    and "current_window k ob' = Some (c\<lparr>rw_count := rw_count c + 1\<rparr>)"
  shows "\<exists>ws'. fits k ws' ob' t \<and> concat (map snd ws') = concat (map snd ws) @ [t]"
proof -
  obtain vs ts where ws: "ws = vs @ [(rw_window_started_at_ms c, ts)]" and n: "length ts = rw_count c"
    using assms(1,3) by (auto simp: fits_def)
  have ok: "windows_ok k vs" "ended k vs (rw_window_started_at_ms c)" "windows_ok k [(rw_window_started_at_ms c, ts)]"
    and u: "up_to vs t" "up_to [(rw_window_started_at_ms c, ts)] t"
    using assms(1,2) up_to_later [of ws now t] by (simp_all add: fits_def ws windows_ok_snoc)
  have "rw_window_started_at_ms c \<le> t" using ok(3) u(2) by (auto simp: up_to_def list_all_iff)
  then have "windows_ok k (vs @ [(rw_window_started_at_ms c, ts @ [t])])"
    using ok n assms(4,5) by (simp add: windows_ok_snoc)
  moreover have "up_to (vs @ [(rw_window_started_at_ms c, ts @ [t])]) t" using u by (simp add: up_to_def)
  ultimately have "fits k (vs @ [(rw_window_started_at_ms c, ts @ [t])]) ob' t"
    using assms(6) n by (simp add: fits_def)
  then show ?thesis by (intro exI [of _ "vs @ [(rw_window_started_at_ms c, ts @ [t])]"]) (simp add: ws)
qed

lemma fits_granted:
  assumes "fits k ws ob now" and "now \<le> t" and "grants t k ob = (True, ob')"
  shows "\<exists>ws'. fits k ws' ob' t \<and> concat (map snd ws') = concat (map snd ws) @ [t]"
proof -
  have c: "current_window k ob' = Some (next_window k t (current_window k ob))"
    "rw_count (next_window k t (current_window k ob)) \<le> rate_max k" using grants_run [OF assms(3)] by simp_all
  show ?thesis
  proof (cases "\<exists>w. current_window k ob = Some w \<and> t < rw_window_started_at_ms w + rate_window_ms k")
    case True
    then obtain w where w: "current_window k ob = Some w" "t < rw_window_started_at_ms w + rate_window_ms k" by auto
    then have "next_window k t (current_window k ob) = w\<lparr>rw_count := rw_count w + 1\<rparr>" by (simp add: next_window_def)
    with c show ?thesis by (intro fits_same_window [OF assms(1,2) w]) simp_all
  next
    case False
    then have e: "ended k ws t" by (intro fits_ended [OF assms(1,2)]) force
    have "next_window k t (current_window k ob) = \<lparr>rw_window_started_at_ms = t, rw_count = 1\<rparr>"
      using False by (force simp: next_window_def split: option.splits)
    then have "fits k (ws @ [(t, [t])]) ob' t" using c by (intro fits_fresh_window [OF assms(1,2) e]) simp
    then show ?thesis by (intro exI [of _ "ws @ [(t, [t])]"]) simp
  qed
qed

lemma fits_not_granted:
  assumes "fits k ws ob now" and "now \<le> t" and "grants t kind ob = (ok, ob')" and "\<not> (ok \<and> kind = k)"
  shows "fits k ws ob' t"
proof -
  have "current_window k ob' = current_window k ob" using grants_run [OF assms(3)] assms(4) by (auto split: if_splits)
  then show ?thesis using fits_later [OF assms(1,2)] by (simp only: fits_def)
qed

lemma expire_run:
  "current_window k (snd (expire_payment_rate_limit t ob)) = current_window k ob \<or>
   (current_window k (snd (expire_payment_rate_limit t ob)) = None \<and>
    (\<forall>c. current_window k ob = Some c \<longrightarrow> rw_window_started_at_ms c + rate_window_ms k \<le> t))"
proof -
  have run: "snd (expire_payment_rate_limit t ob) =
      (if window_expiries ob = [] then ob else if t < Max (set (window_expiries ob))
       then ob\<lparr>ro_alarm := Some (Max (set (window_expiries ob)))\<rparr> else ob\<lparr>ro_windows := []\<rparr>)"
    by (simp add: expire_payment_rate_limit_def run_bnd)
  have "rw_window_started_at_ms c + rate_window_ms k \<le> t"
    if "current_window k ob = Some c" "\<not> t < Max (set (window_expiries ob))" for c
  proof -
    have "rw_window_started_at_ms c + rate_window_ms k \<in> set (window_expiries ob)"
      using that(1) by (cases k) (auto simp: window_expiries_def current_window_def)
    then have "rw_window_started_at_ms c + rate_window_ms k \<le> Max (set (window_expiries ob))" by simp
    then show ?thesis using that(2) by linarith
  qed
  then show ?thesis unfolding run by (auto simp: current_window_def tget_def)
qed

lemma fits_woken:
  assumes "fits k ws ob now" and "now \<le> t"
  shows "fits k ws (snd (expire_payment_rate_limit t ob)) t"
proof (cases "current_window k (snd (expire_payment_rate_limit t ob)) = current_window k ob")
  case True
  then show ?thesis using fits_later [OF assms] by (simp only: fits_def)
next
  case False
  then have none: "current_window k (snd (expire_payment_rate_limit t ob)) = None"
    and over: "\<And>c. current_window k ob = Some c \<Longrightarrow> rw_window_started_at_ms c + rate_window_ms k \<le> t"
    using expire_run [of k t ob] by simp_all
  have "ended k ws t" by (rule fits_ended [OF assms over])
  then show ?thesis using fits_later [OF assms] none by (simp add: fits_def)
qed

lemma granted_windows:
  assumes "fits k ws ob now" and "sorted (now # map event_time es)"
  shows "\<exists>ws'. windows_ok k ws' \<and> concat (map snd ws') = concat (map snd ws) @ granted k es ob"
  using assms
proof (induction es arbitrary: ws ob now)
  case Nil
  then show ?case by (auto simp: fits_def)
next
  case (Cons e es)
  show ?case
  proof (cases e)
    case (Asked t kind)
    obtain ok ob' where g: "grants t kind ob = (ok, ob')" by (cases "grants t kind ob")
    have le: "now \<le> t" "sorted (t # map event_time es)" using Cons.prems(2) Asked by auto
    obtain ws' where w: "fits k ws' ob' t" "concat (map snd ws') = concat (map snd ws) @ (if ok \<and> kind = k then [t] else [])"
      using fits_granted [OF Cons.prems(1) le(1)] fits_not_granted [OF Cons.prems(1) le(1) g] g
      by (cases "ok \<and> kind = k") auto
    show ?thesis using Cons.IH [OF w(1) le(2)] w(2) g Asked by auto
  next
    case (Woken t)
    have le: "now \<le> t" "sorted (t # map event_time es)" using Cons.prems(2) Woken by auto
    show ?thesis using Cons.IH [OF fits_woken [OF Cons.prems(1) le(1)] le(2)] Woken by simp
  qed
qed

definition fresh_object :: rate_object where
  "fresh_object = \<lparr>ro_windows = [], ro_alarm = None\<rparr>"

text \<open>
  C28 (bounds) Whatever a client asks of its rate object and whenever the alarm runs in between, in any 60 seconds at most
  nine quotes are granted (five per window, and two windows touch), and in any five seconds at most one status.
\<close>

theorem rate_limit_holds:
  assumes "sorted (map event_time es)"
  shows "length (inside k t (granted k es fresh_object)) \<le> (if k = QuoteRate then 9 else 1)"
proof -
  have "fits k [] fresh_object (case es of [] \<Rightarrow> 0 | e # _ \<Rightarrow> event_time e)"
    by (simp add: fits_def up_to_def current_window_def fresh_object_def tget_def)
  moreover have "sorted ((case es of [] \<Rightarrow> 0 | e # _ \<Rightarrow> event_time e) # map event_time es)"
    using assms by (cases es) auto
  ultimately obtain ws where "windows_ok k ws" "concat (map snd ws) = granted k es fresh_object"
    using granted_windows [of k "[]"] by fastforce
  then show ?thesis using windows_count [of k ws t] by (simp add: rate_max_def quote_rate_limit_def split: if_splits)
qed

theorem rate_limit_holds_witness:
  "length (inside QuoteRate 0 (granted QuoteRate [Asked 10 QuoteRate, Woken 20, Asked 30 StatusRate] fresh_object)) \<le> 9"
  using rate_limit_holds [of "[Asked 10 QuoteRate, Woken 20, Asked 30 StatusRate]" QuoteRate 0] by simp

section \<open>The fee of an upload\<close>

lemma upload_fees_agree: "payment_upload_fee b = upload_fee_usdc_micro b"
proof -
  have "(int (dec_val b) * 3 + 10000 - 1) div 10000 = int ((dec_val b * 3 + 9999) div 10000)"
    by (simp add: zdiv_int)
  then show ?thesis
    by (simp add: payment_upload_fee_def upload_fee_usdc_micro_def fee_numerator_def fee_denominator_def fee_minimum_def
      min_upload_fee_usdc_def Let_def show_int_def del: zdiv_int)
qed

text \<open>
  What the bridge lets a creator pay for an upload is exactly the fee the relayer asks for the same bytes,
  whatever the size: the two workers never disagree on the price.
\<close>

theorem payment_fee_is_relayer_fee: "payment_upload_fee b = upload_fee_usdc_micro b"
  by (rule upload_fees_agree)

section \<open>What a quote rests on\<close>

























end
