(* ===== verification/BridgeEnv.thy ===== *)
theory BridgeEnv
  imports BridgePayments
begin

text \<open>
  The settings of the media bridge: \<open>Env\<close> of \<open>index.ts\<close>, the patterns of its texts, and the checks that say which of
  its parts are configured. Each check is all or nothing. A binding is present or not; the URL parser is a parameter.
\<close>

section \<open>Patterns\<close>

definition provider_id_text :: "string \<Rightarrow> bool" where
  "provider_id_text s = repeated (\<lambda>c. is_alnum c \<or> c = CHR ''.'' \<or> c = CHR ''_'' \<or> c = CHR '':'' \<or> c = CHR ''-'') 1 192 s"

definition playback_id_text :: "string \<Rightarrow> bool" where
  "playback_id_text s = repeated is_b64url 6 128 s"

definition nonce_text :: "string \<Rightarrow> bool" where
  "nonce_text s = repeated is_b64url 43 43 s"

definition bridge_session_key :: "string \<Rightarrow> bool" where
  "bridge_session_key s = (take 8 s = ''ed25519:'' \<and> repeated is_base58 32 64 (drop 8 s))"

definition bridge_secret_key :: "string \<Rightarrow> bool" where
  "bridge_secret_key s = (take 8 s = ''ed25519:'' \<and> repeated is_base58 80 100 (drop 8 s))"

text \<open>\<open>/^[0-9a-f]{8}-[0-9a-f]{4}-4[0-9a-f]{3}-[89ab][0-9a-f]{3}-[0-9a-f]{12}$/\<close>\<close>

definition lease_id_text :: "string \<Rightarrow> bool" where
  "lease_id_text s =
     (length s = 36 \<and> list_all (\<lambda>i. if i \<in> {8, 13, 18, 23} then s ! i = CHR ''-''
        else if i = 14 then s ! i = CHR ''4'' else if i = 19 then s ! i \<in> set ''89ab'' else is_hex_digit (s ! i)) [0..<36])"

definition line_break :: "string \<Rightarrow> bool" where
  "line_break s = (CHR 0x0D \<in> set s \<or> CHR 0x0A \<in> set s)"

section \<open>Settings\<close>

record bridge_env =
  be_video_environment :: "string option"
  be_bridge_enabled :: "string option"
  be_new_uploads_enabled :: "string option"
  be_playback_issuance_enabled :: "string option"
  be_provider_mutations_enabled :: "string option"
  be_operator_mutations_enabled :: "string option"
  be_operator_job_id :: "string option"
  be_playback_v2_enabled :: "string option"
  be_market_protocol :: "string option"
  be_near_creator_fee_enabled :: "string option"
  be_sponsored_uploads_enabled :: "string option"
  be_sponsor_relayer_mutations_enabled :: "string option"
  be_api_key :: "string option"
  be_project_id :: "string option"
  be_api_token_name :: "string option"
  be_creator_allowlist :: "string option"
  be_monthly_budget_usd_micros :: "string option"
  be_job_reservation_usd_micros :: "string option"
  be_paid_media_operator_id :: "string option"
  be_paid_media_operator_token :: "string option"
  be_paid_media_operator_token_previous :: "string option"
  be_webhook_secret :: "string option"
  be_webhook_secret_previous :: "string option"
  be_queue_batch_size :: "string option"
  be_queue_batch_timeout_seconds :: "string option"
  be_queue_max_retries :: "string option"
  be_queue_max_concurrency :: "string option"
  be_queue_retention_seconds :: "string option"
  be_queue_dlq :: "string option"
  be_near_network :: "string option"
  be_near_rpc_url :: "string option"
  be_market_contract_id :: "string option"
  be_access_contract_id :: "string option"
  be_jwt_private_key :: "string option"
  be_jwt_public_key :: "string option"
  be_jwt_issuer :: "string option"
  be_operator_account_id :: "string option"
  be_operator_private_key :: "string option"
  be_operator_key_epoch :: "string option"
  be_relayer_account_id :: "string option"
  be_relayer_private_key :: "string option"
  be_relayer_key_epoch :: "string option"
  be_fee_quote_private_key :: "string option"
  be_fee_quote_key_version :: "string option"
  be_upload_job_archive_enabled :: "string option"
  be_operator_outbox_archive_enabled :: "string option"
  be_read_model_bound :: bool
  be_stream_provider_enabled :: "string option"
  be_stream_account_id :: "string option"
  be_stream_api_token :: "string option"
  be_stream_customer_code :: "string option"
  be_stream_signing_key_id :: "string option"
  be_stream_signing_public_key :: "string option"
  be_stream_signing_key_pem :: "string option"
  be_stream_webhook_secret :: "string option"
  be_stream_webhook_secret_previous :: "string option"
  be_stream_max_duration_seconds :: "string option"
  be_stream_storage_minutes_capacity :: "string option"
  be_stream_reservation_seconds_budget :: "string option"
  be_stream_stuck_timeout_ms :: "string option"

text \<open>\<open>value || ''\<close> and a text of at least so many UTF-16 units.\<close>

definition or_none :: "string option \<Rightarrow> string" where
  "or_none v = (case v of Some s \<Rightarrow> s | None \<Rightarrow> [])"

text \<open>A time that is not zero, or another one (\<open>a || b\<close>).\<close>

definition or_else_ms :: "int option \<Rightarrow> int \<Rightarrow> int" where
  "or_else_ms v d = (case v of Some n \<Rightarrow> if n \<noteq> 0 then n else d | None \<Rightarrow> d)"

definition long_enough :: "nat \<Rightarrow> string option \<Rightarrow> bool" where
  "long_enough n v = (case v of Some s \<Rightarrow> n \<le> utf16_length s | None \<Rightarrow> False)"

definition near_network_named :: "bridge_env \<Rightarrow> bool" where
  "near_network_named e = (or_none (be_near_network e) \<in> {''testnet'', ''mainnet''})"

section \<open>The Market's generation\<close>

datatype outbox_method = FinalizeLivepeer | SuspendLivepeer | FinalizeNeutral | SuspendNeutral | MarkWatched | ReleaseExpired

fun outbox_method_name :: "outbox_method \<Rightarrow> string" where
  "outbox_method_name FinalizeLivepeer = ''finalize_livepeer_publication''"
| "outbox_method_name SuspendLivepeer = ''suspend_livepeer_sales''"
| "outbox_method_name FinalizeNeutral = ''finalize_publication''"
| "outbox_method_name SuspendNeutral = ''suspend_sales''"
| "outbox_method_name MarkWatched = ''mark_watched''"
| "outbox_method_name ReleaseExpired = ''release_expired''"

definition is_market_v2 :: "bridge_env \<Rightarrow> bool" where
  "is_market_v2 e = (be_market_protocol e = Some ''v2'')"

definition operator_outbox_methods :: "bridge_env \<Rightarrow> outbox_method list" where
  "operator_outbox_methods e =
     (if is_market_v2 e then [FinalizeNeutral, SuspendNeutral, MarkWatched, ReleaseExpired] else [FinalizeLivepeer, SuspendLivepeer])"

definition finalize_method :: "bridge_env \<Rightarrow> outbox_method" where
  "finalize_method e = (if is_market_v2 e then FinalizeNeutral else FinalizeLivepeer)"

definition suspend_method :: "bridge_env \<Rightarrow> outbox_method" where
  "suspend_method e = (if is_market_v2 e then SuspendNeutral else SuspendLivepeer)"

fun legacy_method_alias :: "outbox_method \<Rightarrow> outbox_method option" where
  "legacy_method_alias FinalizeLivepeer = Some FinalizeNeutral"
| "legacy_method_alias SuspendLivepeer = Some SuspendNeutral"
| "legacy_method_alias m = None"

definition ephemeral_method :: "outbox_method \<Rightarrow> bool" where
  "ephemeral_method m = (m \<in> {MarkWatched, ReleaseExpired})"

definition market_profile_id :: "bridge_env \<Rightarrow> string" where
  "market_profile_id e = (if is_market_v2 e then ''paid-media-v1'' else ''paid-media-livepeer-v1'')"

definition playback_profile_id_accepted :: "bridge_env \<Rightarrow> json option \<Rightarrow> bool" where
  "playback_profile_id_accepted e v =
     (v = Some (JStr (market_profile_id e)) \<or> (is_market_v2 e \<and> v = Some (JStr ''paid-media-livepeer-v1'')))"

section \<open>Adapters\<close>

definition stream_enabled :: "bridge_env \<Rightarrow> bool" where
  "stream_enabled e = (be_stream_provider_enabled e = Some ''true'')"

definition studio_active :: "bridge_env \<Rightarrow> bool" where
  "studio_active e = (\<not> (is_market_v2 e \<and> stream_enabled e))"

definition positive_integer_var :: "string option \<Rightarrow> int \<Rightarrow> int option" where
  "positive_integer_var v limit =
     (case v of None \<Rightarrow> None
      | Some s \<Rightarrow> if decimal1 15 s \<and> safe_integer (js_number s) \<and> js_number s \<le> limit then Some (js_number s) else None)"

definition stream_profile_max_duration :: int where
  "stream_profile_max_duration = 7200"

definition stream_max_duration_seconds :: "bridge_env \<Rightarrow> int option" where
  "stream_max_duration_seconds e =
     (case positive_integer_var (be_stream_max_duration_seconds e) 36000 of
        Some v \<Rightarrow> if v \<le> stream_profile_max_duration then Some v else None
      | None \<Rightarrow> None)"

definition stream_stuck_timeout_ms :: "bridge_env \<Rightarrow> int option" where
  "stream_stuck_timeout_ms e = positive_integer_var (be_stream_stuck_timeout_ms e) max_safe"

definition reservation_budget :: "bridge_env \<Rightarrow> int option" where
  "reservation_budget e = positive_integer_var (be_stream_reservation_seconds_budget e) max_safe"

definition storage_capacity :: "bridge_env \<Rightarrow> int option" where
  "storage_capacity e = positive_integer_var (be_stream_storage_minutes_capacity e) max_safe"

text \<open>\<open>decodeStreamKeyText\<close>; \<open>atob\<close> skips the white space of ASCII, \<open>/\s/g\<close> removes all of it before.\<close>

definition without_spaces :: "string \<Rightarrow> string" where
  "without_spaces s = of_code_points (filter (\<lambda>p. \<not> white_space p) (code_points s))"

definition decode_stream_key_text :: "string \<Rightarrow> string option" where
  "decode_stream_key_text v =
     (let trimmed = js_trim v
      in if starts_with ''{'' trimmed \<or> starts_with ''-----BEGIN'' trimmed then Some trimmed
         else map_option (\<lambda>bs. js_trim (decode_text bs)) (atob (without_spaces trimmed)))"

definition valid_stream_public_key :: "string option \<Rightarrow> bool" where
  "valid_stream_public_key v =
     (case v of None \<Rightarrow> False
      | Some s \<Rightarrow> \<not> utf16_length (js_trim s) < 64
          \<and> (case decode_stream_key_text s of Some t \<Rightarrow> starts_with ''-----BEGIN PUBLIC KEY-----'' t | None \<Rightarrow> False))"

definition stream_limits_consistent :: "bridge_env \<Rightarrow> bool" where
  "stream_limits_consistent e =
     (case (stream_max_duration_seconds e, storage_capacity e, reservation_budget e) of
        (Some cap, Some capacity, Some budget) \<Rightarrow> budget \<ge> cap \<and> capacity * 60 \<ge> cap
      | _ \<Rightarrow> False)"

definition valid_stream_config :: "bridge_env \<Rightarrow> bool" where
  "valid_stream_config e =
     (repeated is_hex_digit 32 32 (or_none (be_stream_account_id e))
      \<and> long_enough 16 (be_stream_api_token e) \<and> \<not> has_space (or_none (be_stream_api_token e))
      \<and> repeated (\<lambda>c. is_lower c \<or> is_digit c) 1 64 (or_none (be_stream_customer_code e))
      \<and> repeated is_hex_digit 32 32 (or_none (be_stream_signing_key_id e))
      \<and> valid_stream_public_key (be_stream_signing_public_key e)
      \<and> (case be_stream_signing_key_pem e of Some k \<Rightarrow> 64 \<le> utf16_length (js_trim k) | None \<Rightarrow> False)
      \<and> long_enough 16 (be_stream_webhook_secret e)
      \<and> (be_stream_webhook_secret_previous e = None \<or> be_stream_webhook_secret_previous e = Some []
          \<or> long_enough 16 (be_stream_webhook_secret_previous e))
      \<and> stream_limits_consistent e \<and> stream_stuck_timeout_ms e \<noteq> None)"

definition valid_api_key :: "string option \<Rightarrow> bool" where
  "valid_api_key v = (long_enough 16 v \<and> \<not> line_break (or_none v))"

definition valid_studio_verification_config :: "bridge_env \<Rightarrow> bool" where
  "valid_studio_verification_config e =
     (valid_api_key (be_api_key e) \<and> (case be_project_id e of Some i \<Rightarrow> provider_id_text i | None \<Rightarrow> False)
      \<and> (case be_api_token_name e of Some n \<Rightarrow> 1 \<le> utf16_length n \<and> utf16_length n \<le> 128 | None \<Rightarrow> False))"

definition valid_provider_verification_config :: "bridge_env \<Rightarrow> bool" where
  "valid_provider_verification_config e =
     ((studio_active e \<longrightarrow> valid_studio_verification_config e) \<and> (stream_enabled e \<longrightarrow> valid_stream_config e))"

text \<open>\<open>url.origin === value\<close>\<close>

definition is_https_origin :: "(string \<Rightarrow> url_parts option) \<Rightarrow> string \<Rightarrow> bool" where
  "is_https_origin U v = (case U v of Some u \<Rightarrow> up_protocol u = ''https:'' \<and> up_origin u = v | None \<Rightarrow> False)"

definition is_allowed_control_origin :: "(string \<Rightarrow> url_parts option) \<Rightarrow> string \<Rightarrow> bool" where
  "is_allowed_control_origin U v =
     (is_https_origin U v
      \<or> (case U v of Some u \<Rightarrow> up_protocol u = ''http:'' \<and> up_hostname u = ''localhost'' \<and> up_origin u = v | None \<Rightarrow> False))"

definition valid_studio_playback_keys :: "(string \<Rightarrow> url_parts option) \<Rightarrow> bridge_env \<Rightarrow> bool" where
  "valid_studio_playback_keys U e =
     (long_enough 64 (be_jwt_private_key e) \<and> long_enough 32 (be_jwt_public_key e)
      \<and> \<not> line_break (or_none (be_jwt_public_key e))
      \<and> (case be_jwt_issuer e of Some i \<Rightarrow> is_https_origin U i | None \<Rightarrow> False))"

definition valid_playback_config :: "(string \<Rightarrow> url_parts option) \<Rightarrow> bridge_env \<Rightarrow> bool" where
  "valid_playback_config U e =
     (is_https_url U (be_near_rpc_url e) \<and> payment_account (or_none (be_market_contract_id e))
      \<and> payment_account (or_none (be_access_contract_id e)) \<and> near_network_named e
      \<and> (studio_active e \<longrightarrow> valid_studio_playback_keys U e) \<and> (stream_enabled e \<longrightarrow> valid_stream_config e))"

definition valid_playback_v2_config :: "(string \<Rightarrow> url_parts option) \<Rightarrow> bridge_env \<Rightarrow> bool" where
  "valid_playback_v2_config U e =
     (is_https_url U (be_near_rpc_url e) \<and> payment_account (or_none (be_market_contract_id e)) \<and> near_network_named e
      \<and> (studio_active e \<longrightarrow> valid_api_key (be_api_key e) \<and> valid_studio_playback_keys U e)
      \<and> (stream_enabled e \<longrightarrow> valid_stream_config e))"

section \<open>Scope of a deployment\<close>

definition is_public_testnet :: "bridge_env \<Rightarrow> bool" where
  "is_public_testnet e = (be_video_environment e = Some ''public-testnet'')"

definition creator_allowlist :: "bridge_env \<Rightarrow> string list" where
  "creator_allowlist e =
     (let values = filter (\<lambda>v. v \<noteq> []) (map js_trim (split_at_char CHR '','' (or_none (be_creator_allowlist e))))
      in if values \<noteq> [] \<and> (list_all payment_account values \<or> values = [''*'']) then remdups values else [])"

definition creator_allowed :: "bridge_env \<Rightarrow> string \<Rightarrow> bool" where
  "creator_allowed e creator =
     (if is_public_testnet e then payment_account creator
      else ''*'' \<in> set (creator_allowlist e) \<or> creator \<in> set (creator_allowlist e))"

definition is_public_beta_packet :: "bridge_env \<Rightarrow> bool" where
  "is_public_beta_packet e =
     (let on = (\<lambda>v. v = Some ''true'') in
      be_video_environment e \<noteq> Some ''public-testnet'' \<and> be_near_network e = Some ''testnet'' \<and> on (be_bridge_enabled e)
      \<and> on (be_new_uploads_enabled e) \<and> on (be_playback_issuance_enabled e) \<and> on (be_playback_v2_enabled e)
      \<and> on (be_provider_mutations_enabled e) \<and> on (be_operator_mutations_enabled e) \<and> on (be_sponsored_uploads_enabled e)
      \<and> on (be_sponsor_relayer_mutations_enabled e) \<and> be_operator_job_id e = Some []
      \<and> be_monthly_budget_usd_micros e = Some ''20000000'' \<and> be_job_reservation_usd_micros e = Some ''2000000''
      \<and> (''*'' \<in> set (creator_allowlist e) \<or> length (creator_allowlist e) = 2))"

definition is_market_v2_testnet_creator_scope :: "bridge_env \<Rightarrow> bool" where
  "is_market_v2_testnet_creator_scope e =
     (is_market_v2 e \<and> be_near_network e = Some ''testnet'' \<and> \<not> is_public_testnet e \<and> creator_allowlist e \<noteq> []
      \<and> ''*'' \<notin> set (creator_allowlist e))"

definition operator_job_allowed :: "bridge_env \<Rightarrow> string \<Rightarrow> string option \<Rightarrow> bool" where
  "operator_job_allowed e job_id creator =
     (if is_public_testnet e then ident128 job_id \<and> (case creator of None \<Rightarrow> True | Some c \<Rightarrow> payment_account c)
      else if is_public_beta_packet e \<or> is_market_v2_testnet_creator_scope e
      then (case creator of None \<Rightarrow> True | Some c \<Rightarrow> creator_allowed e c)
      else be_operator_job_id e = Some job_id \<and> (case creator of None \<Rightarrow> True | Some c \<Rightarrow> creator_allowed e c))"

definition operation_reservation :: "bridge_env \<Rightarrow> nat option" where
  "operation_reservation e =
     (if is_public_testnet e then Some 0
      else let job = or_none (be_job_reservation_usd_micros e) in if decimal1 19 job then Some (dec_val job) else None)"

definition monthly_budget :: "bridge_env \<Rightarrow> nat option" where
  "monthly_budget e =
     (if is_public_testnet e then None
      else let budget = or_none (be_monthly_budget_usd_micros e) in if decimal1 19 budget then Some (dec_val budget) else None)"

definition public_job_ttl_ms :: int where
  "public_job_ttl_ms = 24 * 60 * 60 * 1000"

text \<open>\<open>publicUploadJobDeadline\<close> of the job the chain shows, at a time.\<close>

definition public_upload_job_deadline :: "json \<Rightarrow> bool \<Rightarrow> int \<Rightarrow> string + int" where
  "public_upload_job_deadline job require_unexpired now =
     (let code = ''on_chain_job_mismatch''; text = (\<lambda>k. as_str (obj_get k job)) in
      case json_safe_integer (obj_get ''created_at_ms'' job) of
        None \<Rightarrow> Inl code
      | Some created \<Rightarrow>
          ebind (erequire (obj_get ''generation'' job = Some (JNum 1) \<and> text ''fee_asset'' = Some ''USDC''
                   \<and> string_of (obj_get ''status'' job) \<in> {''Authorized'', ''Published''}
                   \<and> (case text ''fee_quote_hash'' of Some h \<Rightarrow> hex64 h | None \<Rightarrow> False) \<and> 0 < created
                   \<and> (case text ''expected_source_bytes'' of
                        Some b \<Rightarrow> positive_text b \<and> dec_val b \<le> 5000000000 | None \<Rightarrow> False)
                   \<and> text ''profile_id'' = Some ''paid-media-livepeer-v1''
                   \<and> media_profile_family (text ''profile_config_sha256'') = Some Studio) code) (\<lambda>_.
          let deadline = created + public_job_ttl_ms in
          ebind (erequire (safe_integer deadline
                   \<and> \<not> (require_unexpired \<and> obj_get ''status'' job \<noteq> Some (JStr ''Published'') \<and> deadline \<le> now)) code) (\<lambda>_.
          Inr deadline)))"

section \<open>The operator\<close>

definition valid_operator_config :: "crypto \<Rightarrow> (string \<Rightarrow> url_parts option) \<Rightarrow> bridge_env \<Rightarrow> bool" where
  "valid_operator_config C U e =
     (is_https_url U (be_near_rpc_url e) \<and> payment_account (or_none (be_market_contract_id e))
      \<and> payment_account (or_none (be_operator_account_id e))
      \<and> (case be_operator_private_key e of Some k \<Rightarrow> bridge_secret_key k \<and> key_pair_type C k \<noteq> None | None \<Rightarrow> False)
      \<and> decimal1 9 (or_none (be_operator_key_epoch e)) \<and> near_network_named e)"

definition valid_studio_webhook_secrets :: "bridge_env \<Rightarrow> bool" where
  "valid_studio_webhook_secrets e =
     (long_enough 16 (be_webhook_secret e)
      \<and> (be_webhook_secret_previous e = None \<or> long_enough 16 (be_webhook_secret_previous e)))"

definition valid_webhook_config :: "crypto \<Rightarrow> (string \<Rightarrow> url_parts option) \<Rightarrow> bridge_env \<Rightarrow> bool" where
  "valid_webhook_config C U e =
     ((studio_active e \<longrightarrow> valid_studio_webhook_secrets e) \<and> valid_provider_verification_config e \<and> valid_operator_config C U e)"

definition valid_stream_webhook_config :: "crypto \<Rightarrow> (string \<Rightarrow> url_parts option) \<Rightarrow> bridge_env \<Rightarrow> bool" where
  "valid_stream_webhook_config C U e = (valid_stream_config e \<and> valid_operator_config C U e)"

definition valid_webhook_queue_policy :: "bridge_env \<Rightarrow> bool" where
  "valid_webhook_queue_policy e =
     (be_near_network e = Some ''testnet'' \<and> be_queue_batch_size e = Some ''10'' \<and> be_queue_batch_timeout_seconds e = Some ''5''
      \<and> be_queue_max_retries e = Some ''3'' \<and> be_queue_max_concurrency e = Some ''1''
      \<and> be_queue_retention_seconds e = Some (if is_public_testnet e then ''86400'' else ''345600'')
      \<and> be_queue_dlq e = Some (if is_public_testnet e then ''youtick-livepeer-events-dlq-public-testnet''
                                else ''youtick-livepeer-events-dlq-testnet''))"

definition valid_terminal_archive_config :: "bridge_env \<Rightarrow> bool" where
  "valid_terminal_archive_config e =
     (be_upload_job_archive_enabled e = Some ''true'' \<and> be_near_network e = Some ''testnet''
      \<and> payment_account (or_none (be_market_contract_id e)) \<and> be_read_model_bound e)"

text \<open>\<open>Number(text)\<close> as a safe integer above zero.\<close>

definition positive_number :: "string option \<Rightarrow> bool" where
  "positive_number v =
     (case Option.bind v text_number of Some q \<Rightarrow> of_int \<lfloor>q\<rfloor> = q \<and> safe_integer \<lfloor>q\<rfloor> \<and> 0 < q | None \<Rightarrow> False)"

definition valid_operator_archive_config :: "bridge_env \<Rightarrow> bool" where
  "valid_operator_archive_config e =
     (be_operator_outbox_archive_enabled e = Some ''true'' \<and> be_near_network e = Some ''testnet''
      \<and> payment_account (or_none (be_market_contract_id e)) \<and> payment_account (or_none (be_operator_account_id e))
      \<and> positive_number (be_operator_key_epoch e) \<and> be_read_model_bound e)"

definition valid_admission_config :: "bridge_env \<Rightarrow> bool" where
  "valid_admission_config e =
     ((is_public_testnet e \<or> creator_allowlist e \<noteq> [])
      \<and> (is_public_testnet e \<or> (operation_reservation e \<noteq> None \<and> monthly_budget e \<noteq> None))
      \<and> near_network_named e \<and> payment_account (or_none (be_market_contract_id e)))"

definition operator_token_ok :: "string option \<Rightarrow> bool" where
  "operator_token_ok v = (long_enough 32 v \<and> \<not> line_break (or_none v))"

definition valid_admission_reopen_config :: "bridge_env \<Rightarrow> bool" where
  "valid_admission_reopen_config e =
     (near_network_named e \<and> payment_account (or_none (be_market_contract_id e))
      \<and> (case be_paid_media_operator_id e of Some i \<Rightarrow> ident128 i | None \<Rightarrow> False)
      \<and> operator_token_ok (be_paid_media_operator_token e)
      \<and> (be_paid_media_operator_token_previous e = None \<or> operator_token_ok (be_paid_media_operator_token_previous e)))"

definition valid_operator_status_config :: "crypto \<Rightarrow> (string \<Rightarrow> url_parts option) \<Rightarrow> bridge_env \<Rightarrow> bool" where
  "valid_operator_status_config C U e = (valid_admission_reopen_config e \<and> valid_operator_config C U e)"

section \<open>Quotes and sponsored uploads\<close>

definition valid_quote_signing_config :: "(string \<Rightarrow> url_parts option) \<Rightarrow> bridge_env \<Rightarrow> bool" where
  "valid_quote_signing_config U e =
     (near_network_named e \<and> is_https_url U (be_near_rpc_url e) \<and> payment_account (or_none (be_market_contract_id e))
      \<and> long_enough 64 (be_fee_quote_private_key e) \<and> decimal1 9 (or_none (be_fee_quote_key_version e))
      \<and> dec_val (or_none (be_fee_quote_key_version e)) \<le> 4294967295)"

definition valid_creator_fee_quote_config :: "(string \<Rightarrow> url_parts option) \<Rightarrow> bridge_env \<Rightarrow> bool" where
  "valid_creator_fee_quote_config U e =
     (\<not> is_public_testnet e \<and> be_near_creator_fee_enabled e = Some ''true'' \<and> valid_quote_signing_config U e)"

definition valid_sponsored_upload_quote_config :: "(string \<Rightarrow> url_parts option) \<Rightarrow> bridge_env \<Rightarrow> bool" where
  "valid_sponsored_upload_quote_config U e =
     (\<not> is_market_v2 e \<and> be_sponsored_uploads_enabled e = Some ''true'' \<and> valid_quote_signing_config U e \<and> valid_admission_config e)"

definition valid_sponsored_upload_relay_config :: "crypto \<Rightarrow> (string \<Rightarrow> url_parts option) \<Rightarrow> bridge_env \<Rightarrow> bool" where
  "valid_sponsored_upload_relay_config C U e =
     (\<not> is_market_v2 e \<and> valid_sponsored_upload_quote_config U e \<and> payment_account (or_none (be_relayer_account_id e))
      \<and> Some (or_none (be_relayer_account_id e)) \<noteq> be_market_contract_id e
      \<and> Some (or_none (be_relayer_account_id e)) \<noteq> be_access_contract_id e
      \<and> Some (or_none (be_relayer_account_id e)) \<noteq> be_operator_account_id e
      \<and> (case be_relayer_private_key e of Some k \<Rightarrow> bridge_secret_key k \<and> key_pair_type C k \<noteq> None | None \<Rightarrow> False)
      \<and> decimal1 9 (or_none (be_relayer_key_epoch e)))"

section \<open>Texts\<close>

text \<open>\<open>canonicalJson\<close>: the properties in the order of their names.\<close>

function canonical_json :: "json \<Rightarrow> string" where
  "canonical_json (JArr vs) = ''['' @ join '','' (map canonical_json vs) @ '']''"
| "canonical_json (JObj ms) =
     ''{'' @ join '','' (map (\<lambda>(k, v). json_text (JStr k) @ '':'' @ canonical_json v) (sort_key fst ms)) @ ''}''"
| "canonical_json JNull = ''null''"
| "canonical_json (JBool b) = json_text (JBool b)"
| "canonical_json (JNum q) = json_text (JNum q)"
| "canonical_json (JInf n) = json_text (JInf n)"
| "canonical_json (JStr s) = json_text (JStr s)"
  by pat_completeness auto
termination by (relation "measure size") (auto simp: less_Suc_eq_le size_list_estimation' size_list_estimation)

text \<open>\<open>base64UrlDecode\<close>: the URL alphabet, padded.\<close>

definition base64_url_decode :: "string \<Rightarrow> bytes option" where
  "base64_url_decode v =
     (let b = map (\<lambda>c. if c = CHR ''-'' then CHR ''+'' else if c = CHR ''_'' then CHR ''/'' else c) v;
          n = utf16_length b
      in atob (b @ replicate ((n + 3) div 4 * 4 - n) CHR ''=''))"

end
