(* ===== verification/BridgeChain.thy ===== *)
theory BridgeChain
  imports BridgeEnv
begin

text \<open>
  How the bridge reads the chain (\<open>index.ts\<close>): \<open>nearRpc\<close>, the final view of a media job, the public testnet views and
  the upload policy with its cache. \<open>fetch\<close> is a parameter that gives the status flag and the JSON of the reply
  (\<open>None\<close> when it is none) and may change the whole state.
\<close>

type_synonym 's near_fetch = "string \<Rightarrow> ('s, bool \<times> json option) act"

section \<open>RPC\<close>

definition near_rpc_raw :: "'s near_fetch \<Rightarrow> string \<Rightarrow> json \<Rightarrow> ('s, json) act" where
  "near_rpc_raw F method params =
     (let code = ''near_finalize_pending'' in
      bnd (attempt (F (json_text (JObj [(''jsonrpc'', JStr ''2.0''), (''id'', JStr (''paid-media-livepeer-v1-'' @ method)),
             (''method'', JStr method), (''params'', params)])))) (\<lambda>r.
        case r of
          Inl _ \<Rightarrow> throw code
        | Inr (ok, body) \<Rightarrow> bnd (require ok code) (\<lambda>_. lifting (require_object body code))))"

definition near_rpc_query :: "'s near_fetch \<Rightarrow> json \<Rightarrow> ('s, json) act" where
  "near_rpc_query F params =
     bnd (near_rpc_raw F ''query'' params) (\<lambda>payload.
     bnd (require (\<not> truthy (obj_get ''error'' payload)) ''near_finalize_pending'') (\<lambda>_.
     ret payload))"

definition account_field :: "string \<Rightarrow> string option \<Rightarrow> (string \<times> json) list" where
  "account_field k v = (case v of Some c \<Rightarrow> [(k, JStr c)] | None \<Rightarrow> [])"

definition args_base64 :: "json \<Rightarrow> string" where
  "args_base64 args = btoa (encode_text (json_text args))"

text \<open>\<open>json(body, status)\<close>\<close>

definition bridge_json :: "json \<Rightarrow> nat \<Rightarrow> bridge_reply" where
  "bridge_json body status = \<lparr>br_status = status, br_headers = [(''Cache-Control'', ''no-store'')], br_body = Some body\<rparr>"

definition bridge_error :: "string \<Rightarrow> bridge_reply" where
  "bridge_error err = bridge_json (JObj [(''error'', JStr (safe_error_code err))]) (error_status (safe_error_code err))"

section \<open>Views\<close>

text \<open>The final view \<open>get_media_job\<close>: the job and the block it was read at.\<close>

definition media_job_body :: "bridge_env \<Rightarrow> string \<Rightarrow> string" where
  "media_job_body e job_id =
     json_text (JObj [(''jsonrpc'', JStr ''2.0''), (''id'', JStr ''paid-media-livepeer-v1-job''), (''method'', JStr ''query''),
       (''params'', JObj ([(''request_type'', JStr ''call_function''), (''finality'', JStr ''final'')]
          @ account_field ''account_id'' (be_market_contract_id e)
          @ [(''method_name'', JStr ''get_media_job''), (''args_base64'', JStr (args_base64 (JObj [(''job_id'', JStr job_id)])))]))])"

definition media_job_value :: "json \<Rightarrow> string + json \<times> string" where
  "media_job_value payload =
     (case (Option.bind (obj_get ''result'' payload) (obj_get ''result''),
            as_str (Option.bind (obj_get ''result'' payload) (obj_get ''block_hash''))) of
        (Some (JArr vs), Some hash) \<Rightarrow>
          if truthy (obj_get ''error'' payload) then Inl ''near_job_query_failed''
          else
            let raw = decode_text (map to_uint8 vs)
            in if raw = [] then Inl ''near_job_not_found''
               else (case json_parse raw of None \<Rightarrow> Inl ''near_job_response_invalid''
                     | Some v \<Rightarrow> if is_obj v then Inr (v, hash) else Inl ''near_job_not_found'')
      | _ \<Rightarrow> Inl ''near_job_query_failed'')"

text \<open>A \<open>null\<close> body of an accepted reply is dereferenced outside the \<open>try\<close>.\<close>

definition read_final_media_job :: "'s near_fetch \<Rightarrow> (string \<Rightarrow> url_parts option) \<Rightarrow> bridge_env \<Rightarrow> string \<Rightarrow> ('s, json \<times> string) act" where
  "read_final_media_job F U e job_id =
     bnd (require (is_https_url U (be_near_rpc_url e) \<and> payment_account (or_none (be_market_contract_id e))) ''runtime_not_configured'') (\<lambda>_.
     bnd (attempt (F (media_job_body e job_id))) (\<lambda>r.
       case r of
         Inr (ok, Some payload) \<Rightarrow>
           if \<not> ok then throw ''near_job_query_failed''
           else if payload = JNull then throw ''TypeError''
           else lifting (media_job_value payload)
       | _ \<Rightarrow> throw ''near_job_query_failed''))"

definition read_public_testnet_view :: "'s near_fetch \<Rightarrow> bridge_env \<Rightarrow> string \<Rightarrow> json \<Rightarrow> ('s, json) act" where
  "read_public_testnet_view F e method args =
     bnd (near_rpc_query F (JObj ([(''request_type'', JStr ''call_function''), (''finality'', JStr ''final'')]
            @ account_field ''account_id'' (be_market_contract_id e)
            @ [(''method_name'', JStr method), (''args_base64'', JStr (args_base64 args))]))) (\<lambda>payload.
     bnd (lifting (require_object (obj_get ''result'' payload) ''near_job_query_failed'')) (\<lambda>result.
     case obj_get ''result'' result of
       Some (JArr vs) \<Rightarrow>
         (case json_parse (decode_text (map to_uint8 vs)) of None \<Rightarrow> throw ''near_job_response_invalid'' | Some v \<Rightarrow> ret v)
     | _ \<Rightarrow> throw ''near_job_query_failed''))"

definition object_or_none :: "json \<Rightarrow> string + json option" where
  "object_or_none v = (if v = JNull then Inr None else ebind (require_object (Some v) ''near_job_response_invalid'') (\<lambda>o'. Inr (Some o')))"

definition read_public_testnet_job :: "'s near_fetch \<Rightarrow> bridge_env \<Rightarrow> string \<Rightarrow> ('s, json option) act" where
  "read_public_testnet_job F e job_id =
     bnd (read_public_testnet_view F e ''get_public_testnet_beta_job'' (JObj [(''job_id'', JStr job_id)])) (\<lambda>v.
     lifting (object_or_none v))"

definition read_public_testnet_state :: "'s near_fetch \<Rightarrow> bridge_env \<Rightarrow> ('s, json option) act" where
  "read_public_testnet_state F e =
     bnd (read_public_testnet_view F e ''get_public_testnet_beta_state'' (JObj [])) (\<lambda>v. lifting (object_or_none v))"

definition has_public_testnet_job_today :: "'s near_fetch \<Rightarrow> bridge_env \<Rightarrow> string \<Rightarrow> ('s, bool) act" where
  "has_public_testnet_job_today F e creator =
     bnd (read_public_testnet_view F e ''has_public_testnet_beta_job_today'' (JObj [(''creator_id'', JStr creator)])) (\<lambda>v.
     case v of JBool b \<Rightarrow> ret b | _ \<Rightarrow> throw ''near_job_response_invalid'')"

section \<open>The public upload policy\<close>

record policy_cache =
  pc_scope :: string
  pc_profile_hash :: string
  pc_expires_at_ms :: int

definition expected_profiles :: "nat \<Rightarrow> string list" where
  "expected_profiles n = drop (3 - n) (rev (map fst studio_profiles))"

definition policy_profile_ok :: "json \<Rightarrow> string \<Rightarrow> bool" where
  "policy_profile_ok entry hash =
     (is_obj entry \<and> sort (obj_keys entry) = sort [''profile_id'', ''profile_config_sha256'']
      \<and> obj_get ''profile_id'' entry = Some (JStr ''paid-media-livepeer-v1'')
      \<and> obj_get ''profile_config_sha256'' entry = Some (JStr hash))"

definition upload_policy_hash :: "bridge_env \<Rightarrow> json \<Rightarrow> string + string" where
  "upload_policy_hash e v =
     (let code = ''deployment_binding_mismatch'' in
      ebind (require_object (Some v) code) (\<lambda>value.
      ebind (require_exact_keys value [''version'', ''environment'', ''network'', ''market_contract_id'',
               ''max_source_bytes'', ''job_ttl_ms'', ''signed_quote_required'', ''profiles''] code) (\<lambda>_.
      case obj_get ''profiles'' value of
        Some (JArr vs) \<Rightarrow>
          ebind (erequire (obj_get ''version'' value = Some (JNum 1) \<and> obj_get ''environment'' value = Some (JStr ''public-testnet'')
                   \<and> obj_get ''network'' value = map_option JStr (be_near_network e)
                   \<and> obj_get ''market_contract_id'' value = map_option JStr (be_market_contract_id e)
                   \<and> obj_get ''max_source_bytes'' value = Some (JStr ''5000000000'')
                   \<and> obj_get ''job_ttl_ms'' value = Some (JStr ''86400000'')
                   \<and> obj_get ''signed_quote_required'' value = Some (JBool True) \<and> length vs \<in> {1, 2, 3}
                   \<and> list_all (\<lambda>(entry, hash). policy_profile_ok entry hash) (zip vs (expected_profiles (length vs)))) code) (\<lambda>_.
          Inr (hd (expected_profiles (length vs))))
      | _ \<Rightarrow> Inl code)))"

definition public_policy_ms :: int where
  "public_policy_ms = 30000"

text \<open>A verified policy is reused for 30 seconds unless a fresh one is asked for; a failed read leaves none.\<close>

definition policy_scope :: "bridge_env \<Rightarrow> string" where
  "policy_scope e =
     or_none (be_near_network e) @ '':'' @ or_none (be_market_contract_id e) @ '':'' @ or_none (be_near_rpc_url e)"

definition require_public_upload_policy ::
  "'s near_fetch \<Rightarrow> (string \<Rightarrow> url_parts option) \<Rightarrow> ('s \<Rightarrow> int) \<Rightarrow> ('s \<Rightarrow> policy_cache option) \<Rightarrow> (policy_cache option \<Rightarrow> 's \<Rightarrow> 's)
    \<Rightarrow> bridge_env \<Rightarrow> bool \<Rightarrow> ('s, string) act" where
  "require_public_upload_policy F U clock cache put e fresh =
     bnd (require (is_public_testnet e \<and> be_near_network e = Some ''testnet'' \<and> payment_account (or_none (be_market_contract_id e))
            \<and> ends_with ''.testnet'' (or_none (be_market_contract_id e)) \<and> is_https_url U (be_near_rpc_url e)) ''deployment_binding_mismatch'') (\<lambda>_.
     bnd (reading (\<lambda>s. case cache s of
            Some c \<Rightarrow> if \<not> fresh \<and> pc_scope c = policy_scope e \<and> pc_expires_at_ms c > clock s then Some (pc_profile_hash c) else None
          | None \<Rightarrow> None)) (\<lambda>cached.
       case cached of
         Some hash \<Rightarrow> ret hash
       | None \<Rightarrow>
           bnd (writing (put None)) (\<lambda>_.
           bnd (read_public_testnet_view F e ''get_public_upload_policy'' (JObj [])) (\<lambda>v.
           bnd (lifting (upload_policy_hash e v)) (\<lambda>hash.
           bnd (writing (\<lambda>s. put (Some \<lparr>pc_scope = policy_scope e, pc_profile_hash = hash,
                  pc_expires_at_ms = clock s + public_policy_ms\<rparr>) s)) (\<lambda>_.
           ret hash))))))"

end
