(* ===== verification/BridgeOperator.thy ===== *)
theory BridgeOperator
  imports BridgeChain RelayerStore
begin

text \<open>
  The operator object of the media bridge (\<open>index.ts\<close>): the transactions of the account that finalizes publications,
  suspends sales, settles first plays and releases escrows. A record is kept per request; its nonce, its signed bytes and
  its hash are stored before they are used. Requests that send run one after the other (\<open>operatorTail\<close>); while one waits
  for the network, a status may be read and an archive scan started. Signing, hashing and the network are parameters.
\<close>

section \<open>Records\<close>

datatype operator_state = OpPending | OpReserved | OpSigned | OpBroadcast | OpConfirmed

datatype archive_status = ArchivePending | ArchiveRetry | ArchiveCommitted

record archive_meta =
  xa_status :: archive_status
  xa_attempts :: nat
  xa_created_at_ms :: int
  xa_next_attempt_at_ms :: int
  xa_archive_sha256 :: "string option"
  xa_committed_at_ms :: "int option"
  xa_cleanup_eligible_at_ms :: "int option"

record operator_record =
  ox_state :: operator_state
  ox_method :: outbox_method
  ox_idempotency_key :: string
  ox_payload_sha256 :: string
  ox_created_at_ms :: int
  ox_nonce :: "int option"
  ox_block_hash :: "string option"
  ox_signed_tx :: "string option"
  ox_tx_hash :: "string option"
  ox_confirmed_at_ms :: "int option"
  ox_archive :: "archive_meta option"

record archive_scan =
  sc_after :: "string option"
  sc_earliest_retry_at_ms :: "int option"

text \<open>The outbox by idempotency key (the storage key without its prefix \<open>outbox:\<close>).\<close>

record 's operator_store =
  os_outbox :: "(string, operator_record) table"
  os_last_nonce :: "int option"
  os_scan :: "archive_scan option"
  os_alarm :: "int option"
  os_archive :: "(outbox_row_key, operator_outbox_archive) table"
  os_policy :: "policy_cache option"
  os_outside :: 's

type_synonym ('s, 'a) oact = "('s operator_store, 'a) act"

record 's operator_world =
  ow_env :: bridge_env
  ow_crypto :: crypto
  ow_codec :: codec
  ow_now :: "'s operator_store \<Rightarrow> int"
  ow_url :: "string \<Rightarrow> url_parts option"
  ow_near :: "'s near_fetch"
  ow_sleep :: "int \<Rightarrow> 's \<Rightarrow> 's"
  ow_scan_asked :: "'s \<Rightarrow> bool"
  ow_archive_db :: "'s operator_store \<Rightarrow> (outbox_row_key, operator_outbox_archive) table archive_db"

datatype operator_key = OutboxKey string | LastNonceKey | ScanKey

definition operator_keys :: "'s operator_store \<Rightarrow> operator_key list" where
  "operator_keys s =
     map (\<lambda>(k, r). OutboxKey k) (os_outbox s) @ (if os_last_nonce s = None then [] else [LastNonceKey])
     @ (if os_scan s = None then [] else [ScanKey])"

definition operator_capacity :: "operator_key list \<Rightarrow> ('s, unit) oact" where
  "operator_capacity keys s = (fst (assert_record_capacity keys (map (\<lambda>k. (k, ())) (operator_keys s))), s)"

definition operator_now :: "'s operator_world \<Rightarrow> ('s, int) oact" where
  "operator_now W = reading (ow_now W)"

definition put_operator :: "string \<Rightarrow> operator_record \<Rightarrow> ('s, unit) oact" where
  "put_operator key r = writing (\<lambda>s. s\<lparr>os_outbox := tput key r (os_outbox s)\<rparr>)"

definition put_scan :: "archive_scan option \<Rightarrow> ('s, unit) oact" where
  "put_scan v = writing (\<lambda>s. s\<lparr>os_scan := v\<rparr>)"

text \<open>A text that counts as true.\<close>

definition set_text :: "string option \<Rightarrow> bool" where
  "set_text v = (v \<noteq> None \<and> v \<noteq> Some [])"

text \<open>\<open>scheduleAlarmNoLaterThan\<close>\<close>

definition alarm_no_later :: "int option \<Rightarrow> int \<Rightarrow> int option" where
  "alarm_no_later alarm at_ms = (case alarm of None \<Rightarrow> Some at_ms | Some t \<Rightarrow> Some (min t at_ms))"

definition schedule_no_later :: "int \<Rightarrow> ('s, unit) oact" where
  "schedule_no_later at_ms = writing (\<lambda>s. s\<lparr>os_alarm := alarm_no_later (os_alarm s) at_ms\<rparr>)"

section \<open>Status and archive scans\<close>

definition valid_archive_meta :: "archive_meta \<Rightarrow> bool" where
  "valid_archive_meta a =
     (safe_integer (int (xa_attempts a)) \<and> safe_integer (xa_created_at_ms a) \<and> 0 < xa_created_at_ms a
      \<and> safe_integer (xa_next_attempt_at_ms a) \<and> 0 < xa_next_attempt_at_ms a)"

definition valid_operator_outbox_record :: "string \<Rightarrow> operator_record \<Rightarrow> bool" where
  "valid_operator_outbox_record key r =
     (ox_method r \<in> {FinalizeLivepeer, SuspendLivepeer, FinalizeNeutral, SuspendNeutral} \<and> provider_id_text (ox_idempotency_key r)
      \<and> key = ox_idempotency_key r \<and> hex64 (ox_payload_sha256 r) \<and> safe_integer (ox_created_at_ms r) \<and> 0 < ox_created_at_ms r
      \<and> (ox_state r = OpConfirmed \<longrightarrow>
           (case ox_confirmed_at_ms r of Some t \<Rightarrow> safe_integer t \<and> 0 < t | None \<Rightarrow> False)
           \<and> (case ox_archive r of Some a \<Rightarrow> valid_archive_meta a | None \<Rightarrow> False)))"

record operator_status =
  ou_total :: nat
  ou_invalid :: nat
  ou_confirmed :: nat
  ou_pending :: nat
  ou_retry :: nat
  ou_committed :: nat
  ou_uncommitted :: nat
  ou_eligible :: nat
  ou_scan_active :: bool

definition summarize_operator_outbox :: "(string, operator_record) table \<Rightarrow> bool \<Rightarrow> int \<Rightarrow> operator_status" where
  "summarize_operator_outbox stored scan now =
     (let records = map snd (filter (\<lambda>(k, r). valid_operator_outbox_record k r) stored);
          confirmed = filter (\<lambda>r. ox_state r = OpConfirmed) records;
          by = (\<lambda>st. filter (\<lambda>r. map_option xa_status (ox_archive r) = Some st) confirmed);
          uncommitted = by ArchivePending @ by ArchiveRetry
      in \<lparr>ou_total = length stored, ou_invalid = length stored - length records, ou_confirmed = length confirmed,
          ou_pending = length (by ArchivePending), ou_retry = length (by ArchiveRetry), ou_committed = length (by ArchiveCommitted),
          ou_uncommitted = length uncommitted,
          ou_eligible = length (filter (\<lambda>r. case ox_archive r of Some a \<Rightarrow> xa_next_attempt_at_ms a \<le> now | None \<Rightarrow> False) uncommitted),
          ou_scan_active = scan\<rparr>)"

definition listed_outbox :: "'s operator_store \<Rightarrow> (string, operator_record) table" where
  "listed_outbox s = take max_persistent_records (sort_key fst (os_outbox s))"

definition operator_status_of :: "'s operator_world \<Rightarrow> 's operator_store \<Rightarrow> operator_status" where
  "operator_status_of W s = summarize_operator_outbox (listed_outbox s) (os_scan s \<noteq> None) (ow_now W s)"

definition read_operator_outbox_status :: "'s operator_world \<Rightarrow> ('s, bridge_reply) oact" where
  "read_operator_outbox_status W =
     bnd (reading (operator_status_of W)) (\<lambda>u.
     ret (bridge_json (JObj
       [(''schema'', JStr ''youtick.livepeer-operator-outbox-status.v1''), (''totalRecords'', JNum (of_nat (ou_total u))),
        (''invalidRecords'', JNum (of_nat (ou_invalid u))), (''confirmedRecords'', JNum (of_nat (ou_confirmed u))),
        (''pendingRecords'', JNum (of_nat (ou_pending u))), (''retryRecords'', JNum (of_nat (ou_retry u))),
        (''committedRecords'', JNum (of_nat (ou_committed u))), (''uncommittedRecords'', JNum (of_nat (ou_uncommitted u))),
        (''eligibleRecords'', JNum (of_nat (ou_eligible u))), (''scanActive'', JBool (ou_scan_active u))]) 200))"

definition empty_scan :: archive_scan where
  "empty_scan = \<lparr>sc_after = None, sc_earliest_retry_at_ms = None\<rparr>"

definition start_archive_scan :: "'s operator_world \<Rightarrow> ('s, bridge_reply) oact" where
  "start_archive_scan W =
     bnd (require (valid_operator_archive_config (ow_env W)) ''runtime_not_configured'') (\<lambda>_.
     bnd (atomically (
       bnd (reading (operator_status_of W)) (\<lambda>u.
       bnd (require (\<not> ou_scan_active u) ''operator_archive_scan_active'') (\<lambda>_.
       bnd (require (ou_invalid u = 0 \<and> ou_uncommitted u = 1 \<and> ou_eligible u = 1) ''operator_archive_eligible_count_invalid'') (\<lambda>_.
       bnd (operator_capacity [ScanKey]) (\<lambda>_.
       bnd (put_scan (Some empty_scan)) (\<lambda>_. ret (ou_eligible u)))))))) (\<lambda>eligible.
     bnd (operator_now W) (\<lambda>now.
     bnd (schedule_no_later now) (\<lambda>_.
     ret (bridge_json (JObj [(''accepted'', JBool True), (''eligibleRecords'', JNum (of_nat eligible))]) 202)))))"

section \<open>The network\<close>

text \<open>A call of the chain, and a pause: what happens outside, and perhaps an archive scan that is asked for meanwhile.\<close>

definition meanwhile :: "'s operator_world \<Rightarrow> 's operator_store \<Rightarrow> 's operator_store" where
  "meanwhile W s = (if ow_scan_asked W (os_outside s) then snd (start_archive_scan W s) else s)"

definition operator_near :: "'s operator_world \<Rightarrow> 's operator_store near_fetch" where
  "operator_near W body s = (case ow_near W body (os_outside s) of (r, x) \<Rightarrow> (r, meanwhile W (s\<lparr>os_outside := x\<rparr>)))"

definition operator_pause :: "'s operator_world \<Rightarrow> int \<Rightarrow> ('s, unit) oact" where
  "operator_pause W ms = writing (\<lambda>s. meanwhile W (s\<lparr>os_outside := ow_sleep W ms (os_outside s)\<rparr>))"

datatype tx_answer = TxSent | TxInvalidNonce | TxFailed | TxUnknown

text \<open>A case-insensitive pattern of plain letters.\<close>

definition lower_ascii :: "string \<Rightarrow> string" where
  "lower_ascii v = map (\<lambda>c. if is_upper c then char_of (chr_code c + 32) else c) v"

definition classify_near_error :: "json \<Rightarrow> tx_answer" where
  "classify_near_error err =
     (let v = lower_ascii (json_text err) in
      if contains ''invalidnonce'' v \<or> contains ''expired_transaction'' v then TxInvalidNonce
      else if contains ''unknown_transaction'' v \<or> contains ''timeout_error'' v \<or> contains ''timeout'' v then TxUnknown
      else TxFailed)"

definition tx_answer_of :: "json \<Rightarrow> string + tx_answer" where
  "tx_answer_of payload =
     (if truthy (obj_get ''error'' payload) then Inr (classify_near_error (the (obj_get ''error'' payload)))
      else ebind (require_object (obj_get ''result'' payload) ''near_finalize_pending'') (\<lambda>result.
        case obj_get ''status'' result of
          Some (JObj ms) \<Rightarrow> Inr (if obj_get ''Failure'' (JObj ms) \<noteq> None then TxFailed else TxSent)
        | _ \<Rightarrow> Inr TxSent))"

definition send_transaction :: "'s operator_world \<Rightarrow> string \<Rightarrow> ('s, tx_answer) oact" where
  "send_transaction W stx =
     bnd (near_rpc_raw (operator_near W) ''send_tx'' (JObj [(''signed_tx_base64'', JStr stx), (''wait_until'', JStr ''FINAL'')])) (\<lambda>payload.
     lifting (tx_answer_of payload))"

definition query_transaction_for_account :: "'s near_fetch \<Rightarrow> string \<Rightarrow> string \<Rightarrow> ('s, tx_answer) act" where
  "query_transaction_for_account F hash sender =
     bnd (near_rpc_raw F ''tx'' (JObj [(''tx_hash'', JStr hash), (''sender_account_id'', JStr sender), (''wait_until'', JStr ''FINAL'')])) (\<lambda>payload.
     lifting (tx_answer_of payload))"

definition query_transaction :: "'s operator_world \<Rightarrow> string \<Rightarrow> ('s, tx_answer) oact" where
  "query_transaction W hash = query_transaction_for_account (operator_near W) hash (or_none (be_operator_account_id (ow_env W)))"

text \<open>The operator's access key allows exactly the methods of the Market's generation.\<close>

definition allowed_methods_ok :: "bridge_env \<Rightarrow> json list \<Rightarrow> bool" where
  "allowed_methods_ok e names =
     (let methods = map (\<lambda>m. JStr (outbox_method_name m)) (operator_outbox_methods e)
      in length names = length methods \<and> list_all (\<lambda>n. n \<in> set methods) names \<and> list_all (\<lambda>m. m \<in> set names) methods)"

definition access_key_value :: "bridge_env \<Rightarrow> json \<Rightarrow> string + int \<times> string" where
  "access_key_value e payload =
     (let code = ''runtime_not_configured'' in
      ebind (require_object (obj_get ''result'' payload) code) (\<lambda>result.
      ebind (require_object (obj_get ''permission'' result) code) (\<lambda>permission.
      ebind (require_object (obj_get ''FunctionCall'' permission) code) (\<lambda>call.
      case (obj_get ''method_names'' call, json_safe_integer (obj_get ''nonce'' result), as_str (obj_get ''block_hash'' result)) of
        (Some (JArr names), Some nonce, Some hash) \<Rightarrow>
          ebind (erequire (obj_get ''receiver_id'' call = map_option JStr (be_market_contract_id e)
                   \<and> (case as_str (obj_get ''allowance'' call) of Some a \<Rightarrow> positive_text a | None \<Rightarrow> False)
                   \<and> allowed_methods_ok e names) code) (\<lambda>_.
          Inr (nonce, hash))
      | _ \<Rightarrow> Inl code))))"

definition read_operator_access_key :: "'s operator_world \<Rightarrow> string \<Rightarrow> ('s, int \<times> string) oact" where
  "read_operator_access_key W public_key =
     bnd (near_rpc_query (operator_near W) (JObj ([(''request_type'', JStr ''view_access_key''), (''finality'', JStr ''final'')]
            @ account_field ''account_id'' (be_operator_account_id (ow_env W)) @ [(''public_key'', JStr public_key)]))) (\<lambda>payload.
     lifting (access_key_value (ow_env W) payload))"

section \<open>A record's life\<close>

definition clear_signed :: "operator_record \<Rightarrow> operator_record" where
  "clear_signed r = r\<lparr>ox_state := OpPending, ox_nonce := None, ox_block_hash := None, ox_signed_tx := None, ox_tx_hash := None\<rparr>"

definition confirmed_record :: "operator_record \<Rightarrow> int \<Rightarrow> operator_record" where
  "confirmed_record r now =
     (let at_ms = or_else_ms (ox_confirmed_at_ms r) now in
      r\<lparr>ox_state := OpConfirmed, ox_nonce := None, ox_block_hash := None, ox_signed_tx := None, ox_confirmed_at_ms := Some at_ms,
        ox_archive := Some (case ox_archive r of Some a \<Rightarrow> a
          | None \<Rightarrow> \<lparr>xa_status = ArchivePending, xa_attempts = 0, xa_created_at_ms = at_ms, xa_next_attempt_at_ms = at_ms,
                     xa_archive_sha256 = None, xa_committed_at_ms = None, xa_cleanup_eligible_at_ms = None\<rparr>)\<rparr>)"

text \<open>A settled ticket leaves no record: the chain is its record.\<close>

definition archive_wanted :: "bridge_env \<Rightarrow> operator_record \<Rightarrow> bool" where
  "archive_wanted e r =
     (be_operator_outbox_archive_enabled e = Some ''true''
      \<and> (case ox_archive r of Some a \<Rightarrow> xa_status a \<noteq> ArchiveCommitted | None \<Rightarrow> False))"

definition persist_confirmed :: "'s operator_world \<Rightarrow> string \<Rightarrow> operator_record \<Rightarrow> ('s, operator_record) oact" where
  "persist_confirmed W key r =
     bnd (operator_now W) (\<lambda>now.
     let confirmed = confirmed_record r now in
     if ephemeral_method (ox_method confirmed)
     then bnd (writing (\<lambda>s. s\<lparr>os_outbox := tdel key (os_outbox s)\<rparr>)) (\<lambda>_. ret confirmed)
     else
       bnd (put_operator key confirmed) (\<lambda>_.
       if \<not> archive_wanted (ow_env W) confirmed then ret confirmed
       else
         bnd (atomically (
           bnd (reading os_scan) (\<lambda>scan.
             if scan \<noteq> None then ret ()
             else bnd (operator_capacity [ScanKey]) (\<lambda>_. put_scan (Some empty_scan))))) (\<lambda>_.
         bnd (operator_now W) (\<lambda>later.
         bnd (schedule_no_later (max later (case ox_archive confirmed of Some a \<Rightarrow> xa_next_attempt_at_ms a | None \<Rightarrow> 0))) (\<lambda>_.
         ret confirmed)))))"

text \<open>
  The record of a request: new, stored before, or stored under a method name of the first Market generation. The second
  result: such a record was already executed.
\<close>

definition new_operator_record :: "string \<Rightarrow> string \<Rightarrow> outbox_method \<Rightarrow> int \<Rightarrow> operator_record" where
  "new_operator_record key payload m now =
     \<lparr>ox_state = OpPending, ox_method = m, ox_idempotency_key = key, ox_payload_sha256 = payload, ox_created_at_ms = now,
      ox_nonce = None, ox_block_hash = None, ox_signed_tx = None, ox_tx_hash = None, ox_confirmed_at_ms = None, ox_archive = None\<rparr>"

definition claim_operator_record :: "'s operator_world \<Rightarrow> string \<Rightarrow> string \<Rightarrow> outbox_method \<Rightarrow> ('s, operator_record \<times> bool) oact" where
  "claim_operator_record W key payload m =
     atomically (
       bnd (reading (\<lambda>s. tget key (os_outbox s))) (\<lambda>existing.
       case existing of
         Some r \<Rightarrow>
           bnd (require (ox_payload_sha256 r = payload) ''outbox_conflict'') (\<lambda>_.
           if ox_method r = m then bnd (put_operator key r) (\<lambda>_. ret (r, False))
           else
             bnd (require (legacy_method_alias (ox_method r) = Some m) ''outbox_conflict'') (\<lambda>_.
             if ox_state r = OpConfirmed then ret (r, True)
             else
               bnd (require (m = SuspendNeutral) ''outbox_conflict'') (\<lambda>_.
               let rekeyed = (clear_signed r)\<lparr>ox_method := m\<rparr> in
               bnd (put_operator key rekeyed) (\<lambda>_. ret (rekeyed, False)))))
       | None \<Rightarrow>
           bnd (operator_capacity [OutboxKey key, LastNonceKey, ScanKey]) (\<lambda>_.
           bnd (operator_now W) (\<lambda>now.
           let r = new_operator_record key payload m now in
           bnd (put_operator key r) (\<lambda>_. ret (r, False))))))"

section \<open>Finality\<close>

type_synonym operator_result = "bool \<times> string option \<times> nat"

definition hash_or_null :: "operator_record \<Rightarrow> string option" where
  "hash_or_null r = (if set_text (ox_tx_hash r) then ox_tx_hash r else None)"

definition finish_confirmed :: "'s operator_world \<Rightarrow> string \<Rightarrow> operator_record \<Rightarrow> ('s, operator_result) oact" where
  "finish_confirmed W key r = bnd (persist_confirmed W key r) (\<lambda>c. ret (True, hash_or_null c, 200))"

fun poll_finality :: "'s operator_world \<Rightarrow> string \<Rightarrow> ('s, bool) oact \<Rightarrow> int list \<Rightarrow> ('s, bool) oact" where
  "poll_finality W hash is_confirmed [] = ret False"
| "poll_finality W hash is_confirmed (delay # delays) =
     bnd (if delay = 0 then ret () else operator_pause W delay) (\<lambda>_.
     bnd (catch (query_transaction W hash) (\<lambda>e. ret TxUnknown)) (\<lambda>status.
     bnd (catch is_confirmed (\<lambda>e. ret False)) (\<lambda>confirmed.
     if confirmed then ret True
     else if status = TxFailed \<or> status = TxInvalidNonce then throw ''near_finalize_failed''
     else poll_finality W hash is_confirmed delays)))"

definition poll_operator_finality :: "'s operator_world \<Rightarrow> string \<Rightarrow> ('s, bool) oact \<Rightarrow> ('s, bool) oact" where
  "poll_operator_finality W hash is_confirmed = poll_finality W hash is_confirmed [0, 250, 750]"

definition finish_polled :: "'s operator_world \<Rightarrow> string \<Rightarrow> operator_record \<Rightarrow> ('s, bool) oact \<Rightarrow> ('s, operator_result) oact" where
  "finish_polled W key r is_confirmed =
     bnd (poll_operator_finality W (or_none (ox_tx_hash r)) is_confirmed) (\<lambda>confirmed.
     if confirmed then finish_confirmed W key r else ret (False, hash_or_null r, 202))"

section \<open>Sending\<close>

definition method_gas :: "outbox_method \<Rightarrow> int" where
  "method_gas m = (if m = MarkWatched then 100000000000000 else if m = ReleaseExpired then 150000000000000 else 15000000000000)"

text \<open>The nonce: above the last one given and above the chain's.\<close>

definition reserve_nonce :: "string \<Rightarrow> int \<times> string \<Rightarrow> ('s, operator_record) oact" where
  "reserve_nonce key access =
     atomically (
       bnd (reading (\<lambda>s. (tget key (os_outbox s), os_last_nonce s))) (\<lambda>(current, last).
       case current of
         None \<Rightarrow> throw ''near_finalize_pending''
       | Some r \<Rightarrow>
           if ox_nonce r \<noteq> None \<and> set_text (ox_block_hash r) then ret r
           else
             let nonce = max (case last of Some n \<Rightarrow> n | None \<Rightarrow> 0) (fst access) + 1;
                 reserved = r\<lparr>ox_state := OpReserved, ox_nonce := Some nonce, ox_block_hash := Some (snd access)\<rparr> in
             bnd (operator_capacity [LastNonceKey]) (\<lambda>_.
             bnd (writing (\<lambda>s. s\<lparr>os_last_nonce := Some nonce\<rparr>)) (\<lambda>_.
             bnd (put_operator key reserved) (\<lambda>_. ret reserved)))))"

definition sign_operator_tx :: "'s operator_world \<Rightarrow> outbox_method \<Rightarrow> json \<Rightarrow> operator_record \<Rightarrow> string + operator_record" where
  "sign_operator_tx W m args r =
     (let e = ow_env W in
      ebind (sign_transaction (ow_codec W) (or_none (be_operator_private_key e)) (or_none (be_operator_account_id e))
               (or_none (be_market_contract_id e)) (the (ox_nonce r))
               [CallAction (outbox_method_name m) args (method_gas m) 0] (or_none (ox_block_hash r))) (\<lambda>(bytes, hash).
      Inr (r\<lparr>ox_state := OpSigned, ox_signed_tx := Some (btoa bytes), ox_tx_hash := Some (base_encode (ow_crypto W) hash)\<rparr>)))"

definition signed_record :: "'s operator_world \<Rightarrow> string \<Rightarrow> string \<Rightarrow> outbox_method \<Rightarrow> json \<Rightarrow> operator_record \<Rightarrow> ('s, operator_record) oact" where
  "signed_record W public_key key m args r =
     (if set_text (ox_signed_tx r) then ret r
      else
        bnd (if ox_nonce r \<noteq> None \<and> set_text (ox_block_hash r) then ret r
             else bnd (read_operator_access_key W public_key) (reserve_nonce key)) (\<lambda>reserved.
        bnd (lifting (sign_operator_tx W m args reserved)) (\<lambda>stx.
        bnd (put_operator key stx) (\<lambda>_. ret stx))))"

text \<open>What the chain says of a transaction that was sent before; \<open>Inl\<close>: the request is answered.\<close>

definition observe_broadcast :: "'s operator_world \<Rightarrow> string \<Rightarrow> operator_record \<Rightarrow> ('s, bool) oact \<Rightarrow> ('s, operator_result + operator_record) oact" where
  "observe_broadcast W key r is_confirmed =
     (if ox_state r \<noteq> OpBroadcast \<or> \<not> set_text (ox_tx_hash r) then ret (Inr r)
      else
        bnd (query_transaction W (or_none (ox_tx_hash r))) (\<lambda>status.
        bnd is_confirmed (\<lambda>confirmed.
        if confirmed then bnd (finish_confirmed W key r) (\<lambda>x. ret (Inl x))
        else if status = TxFailed then throw ''near_finalize_failed''
        else if status = TxInvalidNonce then bnd (put_operator key (clear_signed r)) (\<lambda>_. ret (Inr (clear_signed r)))
        else ret (Inr r))))"

text \<open>On a public deployment the record says BROADCAST before the transaction leaves, so it is never sent again.\<close>

definition broadcast_record ::
  "('s operator_world \<Rightarrow> string \<Rightarrow> ('s, tx_answer) oact) \<Rightarrow> 's operator_world \<Rightarrow> string \<Rightarrow> operator_record \<Rightarrow> ('s, bool) oact \<Rightarrow> ('s, operator_result) oact" where
  "broadcast_record send W key stx is_confirmed =
     (let public = is_public_testnet (ow_env W); r = stx\<lparr>ox_state := OpBroadcast\<rparr> in
      bnd (if public then put_operator key r else ret ()) (\<lambda>_.
      bnd (catch (send W (or_none (ox_signed_tx r))) (\<lambda>e. ret TxUnknown)) (\<lambda>answer.
      bnd (put_operator key r) (\<lambda>_.
      bnd is_confirmed (\<lambda>confirmed.
      if confirmed then finish_confirmed W key r
      else if public then
        bnd (require (answer \<noteq> TxFailed \<and> answer \<noteq> TxInvalidNonce) ''near_finalize_failed'') (\<lambda>_.
        finish_polled W key r is_confirmed)
      else
        bnd (require (answer \<noteq> TxFailed) ''near_finalize_failed'') (\<lambda>_.
        bnd (if answer = TxInvalidNonce then put_operator key (clear_signed r) else ret ()) (\<lambda>_.
        ret (False, hash_or_null r, 202))))))))"

text \<open>The whole request, with the call that sends as an argument.\<close>

definition process_outbox_with ::
  "('s operator_world \<Rightarrow> string \<Rightarrow> ('s, tx_answer) oact) \<Rightarrow> 's operator_world \<Rightarrow> string \<Rightarrow> string \<Rightarrow> outbox_method \<Rightarrow> json \<Rightarrow> ('s, bool) oact \<Rightarrow> ('s, operator_result) oact" where
  "process_outbox_with send W key payload m args is_confirmed =
     bnd (require (valid_operator_config (ow_crypto W) (ow_url W) (ow_env W)) ''runtime_not_configured'') (\<lambda>_.
     bnd (lifting (case key_pair_public (ow_crypto W) (or_none (be_operator_private_key (ow_env W))) of
            Some pk \<Rightarrow> Inr pk | None \<Rightarrow> Inl ''invalid_key'')) (\<lambda>public_key.
     bnd (claim_operator_record W key payload m) (\<lambda>(r, executed).
     if executed then ret (True, hash_or_null r, 200)
     else
       bnd is_confirmed (\<lambda>confirmed.
       if confirmed then finish_confirmed W key r
       else if is_public_testnet (ow_env W) \<and> ox_state r = OpBroadcast \<and> set_text (ox_tx_hash r)
       then finish_polled W key r is_confirmed
       else
         bnd (observe_broadcast W key r is_confirmed) (\<lambda>observed.
         case observed of
           Inl x \<Rightarrow> ret x
         | Inr r' \<Rightarrow>
             bnd (require (be_operator_mutations_enabled (ow_env W) = Some ''true'') ''operator_mutations_disabled'') (\<lambda>_.
             bnd (signed_record W public_key key m args r') (\<lambda>stx.
             broadcast_record send W key stx is_confirmed)))))))"

definition process_operator_outbox ::
  "'s operator_world \<Rightarrow> string \<Rightarrow> string \<Rightarrow> outbox_method \<Rightarrow> json \<Rightarrow> ('s, bool) oact \<Rightarrow> ('s, operator_result) oact" where
  "process_operator_outbox = process_outbox_with send_transaction"

end
