(* ===== verification/BridgeOperatorOps.thy ===== *)
theory BridgeOperatorOps
  imports BridgeOperator
begin

text \<open>
  The requests of the operator object (\<open>index.ts\<close>): finalize a publication, suspend its sales, settle a first play,
  release escrows; the archive of confirmed records; its routes and alarm.
\<close>

section \<open>What the chain shows\<close>

text \<open>A publication by its id, at the final block; \<open>None\<close>: there is none.\<close>

definition publication_value :: "json \<Rightarrow> string + json option" where
  "publication_value payload =
     ebind (require_object (obj_get ''result'' payload) ''near_finalize_pending'') (\<lambda>result.
     case obj_get ''result'' result of
       Some (JArr vs) \<Rightarrow>
         let raw = decode_text (map to_uint8 vs) in
         if raw = [] \<or> raw = ''null'' then Inr None
         else (case json_parse raw of None \<Rightarrow> Inl ''near_finalize_mismatch''
               | Some v \<Rightarrow> ebind (require_object (Some v) ''near_finalize_mismatch'') (\<lambda>p. Inr (Some p)))
     | _ \<Rightarrow> Inl ''near_finalize_pending'')"

definition read_final_publication :: "'s near_fetch \<Rightarrow> bridge_env \<Rightarrow> string \<Rightarrow> ('s, json option) act" where
  "read_final_publication F e publication_id =
     bnd (near_rpc_query F (JObj ([(''request_type'', JStr ''call_function''), (''finality'', JStr ''final'')]
            @ account_field ''account_id'' (be_market_contract_id e)
            @ [(''method_name'', JStr ''get_publication''),
               (''args_base64'', JStr (args_base64 (JObj [(''publication_id'', JStr publication_id)])))]))) (\<lambda>payload.
     lifting (publication_value payload))"

text \<open>The fields of a submission and the fields of the publication they must equal.\<close>

definition matched_fields :: "(string \<times> string) list" where
  "matched_fields =
     [(''job_id'', ''publication_id''), (''creator_id'', ''creator_id''), (''generation'', ''generation''),
      (''expected_source_bytes'', ''expected_source_bytes''), (''profile_id'', ''profile_id''),
      (''profile_config_sha256'', ''profile_config_sha256''), (''asset_id_hash'', ''asset_id_hash''),
      (''playback_id'', ''playback_id''), (''project_id_hash'', ''project_id_hash''),
      (''verified_source_bytes'', ''verified_source_bytes''), (''provider_source_fingerprint'', ''provider_source_fingerprint''),
      (''ready_at_ms'', ''ready_at_ms''), (''availability'', ''published_availability'')]"

definition publication_matches :: "json \<Rightarrow> json \<Rightarrow> bool" where
  "publication_matches submission p = list_all (\<lambda>(a, b). obj_get b p = obj_get a submission) matched_fields"

definition final_publication_matches :: "'s near_fetch \<Rightarrow> bridge_env \<Rightarrow> json \<Rightarrow> ('s, bool) act" where
  "final_publication_matches F e submission =
     bnd (read_final_publication F e (str_of ''job_id'' submission)) (\<lambda>p.
     case p of
       None \<Rightarrow> ret False
     | Some v \<Rightarrow> bnd (require (publication_matches submission v) ''near_finalize_mismatch'') (\<lambda>_. ret True))"

definition sales_suspended :: "string \<Rightarrow> json option \<Rightarrow> bool" where
  "sales_suspended publication_id p =
     (case p of
        None \<Rightarrow> False
      | Some v \<Rightarrow> obj_get ''publication_id'' v = Some (JStr publication_id)
          \<and> string_of (obj_get ''availability'' v) \<in> {''SALES_SUSPENDED'', ''TAKEDOWN''})"

definition final_publication_sales_suspended :: "'s near_fetch \<Rightarrow> bridge_env \<Rightarrow> string \<Rightarrow> ('s, bool) act" where
  "final_publication_sales_suspended F e publication_id =
     bnd (read_final_publication F e publication_id) (\<lambda>p. ret (sales_suspended publication_id p))"

definition final_ticket_status :: "'s near_fetch \<Rightarrow> bridge_env \<Rightarrow> string \<Rightarrow> ('s, string option) act" where
  "final_ticket_status F e ticket_id =
     bnd (near_view_with F (be_market_contract_id e) ''get_ticket'' (JObj [(''ticket_id'', JStr ticket_id)]) None) (\<lambda>(v, block).
     if v = JNull then ret None
     else
       bnd (lifting (require_object (Some v) ''playback_authorization_unavailable'')) (\<lambda>ticket.
       case as_str (obj_get ''status'' ticket) of
         Some st \<Rightarrow> ret (Some st)
       | None \<Rightarrow> throw ''playback_authorization_unavailable''))"

section \<open>Inputs\<close>

text \<open>Every input carries the hash of its payload and an idempotency key made of it.\<close>

definition input_sha256 :: "crypto \<Rightarrow> json \<Rightarrow> string" where
  "input_sha256 C payload = sha256_hex C (encode_text (canonical_json payload))"

definition input_keyed :: "json \<Rightarrow> string \<Rightarrow> string \<Rightarrow> bool" where
  "input_keyed v key hash = (obj_get ''idempotencyKey'' v = Some (JStr key) \<and> obj_get ''payloadSha256'' v = Some (JStr hash))"

definition mark_watched_args :: "string \<Rightarrow> json" where
  "mark_watched_args ticket_id = JObj [(''ticket_id'', JStr ticket_id)]"

definition mark_watched_key :: "string \<Rightarrow> string" where
  "mark_watched_key ticket_id = ticket_id @ '':mark-watched''"

definition parse_mark_watched_input :: "crypto \<Rightarrow> json \<Rightarrow> string + string" where
  "parse_mark_watched_input C v =
     (let t = str_of ''ticketId'' v in
      ebind (require_exact_keys v [''idempotencyKey'', ''payloadSha256'', ''ticketId''] ''invalid_outbox'') (\<lambda>_.
      ebind (erequire (has_str ''ticketId'' v \<and> hex64 t
               \<and> input_keyed v (mark_watched_key t) (input_sha256 C (mark_watched_args t))) ''invalid_outbox'') (\<lambda>_.
      Inr t)))"

definition suspend_args :: "string \<Rightarrow> json" where
  "suspend_args publication_id = JObj [(''publication_id'', JStr publication_id)]"

definition suspend_key :: "string \<Rightarrow> string" where
  "suspend_key publication_id = publication_id @ '':suspend-sales''"

definition parse_suspend_sales_input :: "crypto \<Rightarrow> json \<Rightarrow> string + string" where
  "parse_suspend_sales_input C v =
     (let p = str_of ''publicationId'' v in
      ebind (require_exact_keys v [''idempotencyKey'', ''payloadSha256'', ''publicationId''] ''invalid_outbox'') (\<lambda>_.
      ebind (erequire (has_str ''publicationId'' v \<and> ident128 p
               \<and> input_keyed v (suspend_key p) (input_sha256 C (suspend_args p))) ''invalid_outbox'') (\<lambda>_.
      Inr p)))"

definition release_batch_size :: nat where
  "release_batch_size = 25"

definition release_key :: "crypto \<Rightarrow> string list \<Rightarrow> string" where
  "release_key C ids = ''release:'' @ sha256_hex C (encode_text (join '','' ids))"

definition release_args :: "string list \<Rightarrow> json" where
  "release_args ids = JObj [(''ticket_ids'', JArr (map JStr ids))]"

fun text_list :: "json list \<Rightarrow> string list option" where
  "text_list [] = Some []"
| "text_list (JStr t # vs) = map_option (Cons t) (text_list vs)"
| "text_list (v # vs) = None"

definition parse_release_expired_input :: "crypto \<Rightarrow> json \<Rightarrow> string + string list" where
  "parse_release_expired_input C v =
     ebind (require_exact_keys v [''idempotencyKey'', ''payloadSha256'', ''ticketIds''] ''invalid_outbox'') (\<lambda>_.
     case obj_get ''ticketIds'' v of
       Some (JArr vs) \<Rightarrow>
         (case text_list vs of
            None \<Rightarrow> Inl ''invalid_outbox''
          | Some ids \<Rightarrow>
              ebind (erequire (1 \<le> length ids \<and> length ids \<le> release_batch_size \<and> list_all hex64 ids \<and> sorted_wrt (<) ids
                       \<and> input_keyed v (release_key C ids) (input_sha256 C (release_args ids))) ''invalid_outbox'') (\<lambda>_.
              Inr ids))
     | _ \<Rightarrow> Inl ''invalid_outbox'')"

definition finalize_fields :: "string list" where
  "finalize_fields =
     [''job_id'', ''generation'', ''creator_id'', ''expected_source_bytes'', ''profile_id'', ''profile_config_sha256'',
      ''asset_id_hash'', ''playback_id'', ''project_id_hash'', ''verified_source_bytes'', ''provider_source_fingerprint'',
      ''ready_at_ms'', ''availability'']"

definition largest_source :: nat where
  "largest_source = 20000000000"

definition finalize_key :: "json \<Rightarrow> string" where
  "finalize_key v = str_of ''job_id'' v @ '':'' @ show_int (the (json_safe_integer (obj_get ''generation'' v))) @ '':finalize''"

definition finalize_args :: "json \<Rightarrow> json" where
  "finalize_args submission = JObj [(''submission'', submission)]"

definition submission_ok :: "bridge_env \<Rightarrow> json \<Rightarrow> bool" where
  "submission_ok e v =
     (let field = (\<lambda>k p. has_str k v \<and> p (str_of k v)) in
      field ''job_id'' ident128 \<and> (case json_safe_integer (obj_get ''generation'' v) of Some n \<Rightarrow> 1 \<le> n | None \<Rightarrow> False)
      \<and> field ''creator_id'' payment_account
      \<and> field ''expected_source_bytes'' (\<lambda>b. decimal1 19 b \<and> dec_val b \<le> largest_source)
      \<and> obj_get ''verified_source_bytes'' v = obj_get ''expected_source_bytes'' v
      \<and> obj_get ''profile_id'' v = Some (JStr (market_profile_id e))
      \<and> supports_media_profile (as_str (obj_get ''profile_config_sha256'' v))
      \<and> field ''asset_id_hash'' hex64 \<and> field ''playback_id'' provider_id_text \<and> field ''project_id_hash'' hex64
      \<and> (obj_get ''provider_source_fingerprint'' v = Some JNull \<or> field ''provider_source_fingerprint'' hex64)
      \<and> field ''ready_at_ms'' (decimal1 19) \<and> obj_get ''availability'' v = Some (JStr ''ACTIVE''))"

definition parse_finalize_input :: "crypto \<Rightarrow> bridge_env \<Rightarrow> json \<Rightarrow> string + json" where
  "parse_finalize_input C e v =
     (let code = ''invalid_finalize_request'' in
      ebind (require_exact_keys v [''idempotencyKey'', ''payloadSha256'', ''submission''] code) (\<lambda>_.
      ebind (require_object (obj_get ''submission'' v) code) (\<lambda>submission.
      ebind (require_exact_keys submission finalize_fields code) (\<lambda>_.
      ebind (erequire (submission_ok e submission) code) (\<lambda>_.
      ebind (erequire (input_keyed v (finalize_key submission) (input_sha256 C (finalize_args submission))) code) (\<lambda>_.
      Inr submission))))))"

section \<open>Requests\<close>

definition operator_reply :: "string \<Rightarrow> operator_result \<Rightarrow> bridge_reply" where
  "operator_reply field x =
     (case x of (confirmed, hash, status) \<Rightarrow>
        bridge_json (JObj [(''accepted'', JBool True), (field, JBool confirmed),
          (''tx_hash'', (case hash of Some h \<Rightarrow> JStr h | None \<Rightarrow> JNull))]) status)"

definition operator_policy :: "'s operator_world \<Rightarrow> ('s, unit) oact" where
  "operator_policy W =
     (if is_public_testnet (ow_env W)
      then bnd (require_public_upload_policy (operator_near W) (ow_url W) (ow_now W) os_policy (\<lambda>c s. s\<lparr>os_policy := c\<rparr>) (ow_env W) False)
             (\<lambda>_. ret ())
      else ret ())"

text \<open>A public deployment finalizes only the job the chain shows.\<close>

definition chain_submission_ok :: "json \<Rightarrow> json \<Rightarrow> bool" where
  "chain_submission_ok job submission =
     list_all (\<lambda>k. obj_get k job = obj_get k submission)
       [''job_id'', ''creator_id'', ''generation'', ''expected_source_bytes'', ''profile_id'', ''profile_config_sha256'']"

definition check_public_job :: "'s operator_world \<Rightarrow> json \<Rightarrow> ('s, unit) oact" where
  "check_public_job W submission =
     (if \<not> is_public_testnet (ow_env W) then ret ()
      else
        bnd (operator_policy W) (\<lambda>_.
        bnd (read_final_media_job (operator_near W) (ow_url W) (ow_env W) (str_of ''job_id'' submission)) (\<lambda>(job, block).
        bnd (operator_now W) (\<lambda>now.
        bnd (lifting (public_upload_job_deadline job True now)) (\<lambda>_.
        require (chain_submission_ok job submission) ''on_chain_job_mismatch'')))))"

definition process_finalize :: "'s operator_world \<Rightarrow> json \<Rightarrow> ('s, bridge_reply) oact" where
  "process_finalize W input =
     (let e = ow_env W in
      bnd (lifting (parse_finalize_input (ow_crypto W) e input)) (\<lambda>submission.
      bnd (require (operator_job_allowed e (str_of ''job_id'' submission) (Some (str_of ''creator_id'' submission))
             \<and> obj_get ''generation'' submission = Some (JNum 1)) ''operator_unauthorized'') (\<lambda>_.
      bnd (check_public_job W submission) (\<lambda>_.
      bnd (process_operator_outbox W (finalize_key submission) (input_sha256 (ow_crypto W) (finalize_args submission)) (finalize_method e)
             (finalize_args submission) (final_publication_matches (operator_near W) e submission)) (\<lambda>x.
      ret (operator_reply ''finalized'' x))))))"

definition process_suspend_sales :: "'s operator_world \<Rightarrow> json \<Rightarrow> ('s, bridge_reply) oact" where
  "process_suspend_sales W input =
     (let e = ow_env W in
      bnd (lifting (parse_suspend_sales_input (ow_crypto W) input)) (\<lambda>p.
      bnd (require (operator_job_allowed e p None) ''operator_unauthorized'') (\<lambda>_.
      bnd (operator_policy W) (\<lambda>_.
      bnd (process_operator_outbox W (suspend_key p) (input_sha256 (ow_crypto W) (suspend_args p)) (suspend_method e) (suspend_args p)
             (final_publication_sales_suspended (operator_near W) e p)) (\<lambda>x.
      ret (operator_reply ''suspended'' x))))))"

definition watched_states :: "string list" where
  "watched_states = [''watched'', ''watched_in_escrow'', ''released'']"

definition ticket_settled :: "'s operator_world \<Rightarrow> string \<Rightarrow> ('s, bool) oact" where
  "ticket_settled W ticket_id =
     bnd (final_ticket_status (operator_near W) (ow_env W) ticket_id) (\<lambda>status. ret (or_none status \<in> set watched_states))"

definition drop_operator_record :: "string \<Rightarrow> ('s, unit) oact" where
  "drop_operator_record key = writing (\<lambda>s. s\<lparr>os_outbox := tdel key (os_outbox s)\<rparr>)"

text \<open>A settlement that failed: refused when the ticket cannot be played, forgotten when it is still only purchased.\<close>

definition failed_watch :: "'s operator_world \<Rightarrow> string \<Rightarrow> string \<Rightarrow> ('s, 'a) oact" where
  "failed_watch W ticket_id err =
     (if err \<noteq> ''near_finalize_failed'' then throw err
      else
        bnd (final_ticket_status (operator_near W) (ow_env W) ticket_id) (\<lambda>status.
        bnd (require (or_none status \<in> set (''purchased'' # watched_states)) ''playback_denied'') (\<lambda>_.
        if status = Some ''purchased''
        then bnd (drop_operator_record (mark_watched_key ticket_id)) (\<lambda>_. throw ''playback_pending'')
        else throw err)))"

definition process_mark_watched :: "'s operator_world \<Rightarrow> json \<Rightarrow> ('s, bridge_reply) oact" where
  "process_mark_watched W input =
     bnd (lifting (parse_mark_watched_input (ow_crypto W) input)) (\<lambda>t.
     bnd (require (is_market_v2 (ow_env W)) ''operator_unauthorized'') (\<lambda>_.
     bnd (ticket_settled W t) (\<lambda>done_before.
     if done_before then ret (operator_reply ''watched'' (True, None, 200))
     else
       bnd (catch (process_operator_outbox W (mark_watched_key t) (input_sha256 (ow_crypto W) (mark_watched_args t)) MarkWatched
              (mark_watched_args t) (ticket_settled W t)) (failed_watch W t)) (\<lambda>x.
       ret (operator_reply ''watched'' x)))))"

text \<open>No ticket of the batch is in escrow any more.\<close>

fun batch_settled :: "'s operator_world \<Rightarrow> string list \<Rightarrow> ('s, bool) oact" where
  "batch_settled W [] = ret True"
| "batch_settled W (t # ts) =
     bnd (final_ticket_status (operator_near W) (ow_env W) t) (\<lambda>status.
     if status = Some ''purchased'' \<or> status = Some ''watched_in_escrow'' then ret False else batch_settled W ts)"

definition process_release_expired :: "'s operator_world \<Rightarrow> json \<Rightarrow> ('s, bridge_reply) oact" where
  "process_release_expired W input =
     bnd (lifting (parse_release_expired_input (ow_crypto W) input)) (\<lambda>ids.
     bnd (require (is_market_v2 (ow_env W)) ''operator_unauthorized'') (\<lambda>_.
     bnd (batch_settled W ids) (\<lambda>done_before.
     if done_before then ret (operator_reply ''released'' (True, None, 200))
     else
       bnd (catch (process_operator_outbox W (release_key (ow_crypto W) ids) (input_sha256 (ow_crypto W) (release_args ids)) ReleaseExpired
              (release_args ids) (batch_settled W ids))
             (\<lambda>err. bnd (if err = ''near_finalize_failed'' then drop_operator_record (release_key (ow_crypto W) ids) else ret ()) (\<lambda>_.
                throw err))) (\<lambda>x.
       ret (operator_reply ''released'' x)))))"

section \<open>The archive\<close>

definition reconcile_backoff_ms :: "int list" where
  "reconcile_backoff_ms = [60000, 120000, 240000, 480000, 900000]"

definition operator_outbox_retention_ms :: int where
  "operator_outbox_retention_ms = 90 * 24 * 60 * 60 * 1000"

definition operator_archive_scan_batch :: nat where
  "operator_archive_scan_batch = 32"

definition archive_summary_json :: "operator_outbox_archive \<Rightarrow> json" where
  "archive_summary_json a = JObj
     [(''network'', JStr (oa_network a)), (''contractId'', JStr (oa_contract_id a)),
      (''operatorAccountId'', JStr (oa_operator_account_id a)), (''operatorKeyEpoch'', JNum (of_int (oa_operator_key_epoch a))),
      (''idempotencyKey'', JStr (oa_idempotency_key a)), (''method'', JStr (oa_method a)),
      (''payloadSha256'', JStr (oa_payload_sha256 a)), (''txHash'', (case oa_tx_hash a of Some h \<Rightarrow> JStr h | None \<Rightarrow> JNull)),
      (''createdAtMs'', JNum (of_int (oa_created_at_ms a))), (''confirmedAtMs'', JNum (of_int (oa_confirmed_at_ms a))),
      (''archiveRequestedAtMs'', JNum (of_int (oa_archive_requested_at_ms a))),
      (''cleanupEligibleAtMs'', JNum (of_int (oa_cleanup_eligible_at_ms a)))]"

definition operator_outbox_archive_of :: "'s operator_world \<Rightarrow> operator_record \<Rightarrow> string + operator_outbox_archive" where
  "operator_outbox_archive_of W r =
     (let e = ow_env W in
      case (ox_confirmed_at_ms r, ox_archive r) of
        (Some t, Some m) \<Rightarrow>
          if ox_state r \<noteq> OpConfirmed \<or> t = 0 \<or> ephemeral_method (ox_method r) then Inl ''operator_archive_unavailable''
          else
            let a = \<lparr>oa_network = ''testnet'', oa_contract_id = or_none (be_market_contract_id e),
                     oa_operator_account_id = or_none (be_operator_account_id e),
                     oa_operator_key_epoch = js_number (or_none (be_operator_key_epoch e)),
                     oa_idempotency_key = ox_idempotency_key r, oa_method = outbox_method_name (ox_method r),
                     oa_payload_sha256 = ox_payload_sha256 r, oa_tx_hash = hash_or_null r, oa_created_at_ms = ox_created_at_ms r,
                     oa_confirmed_at_ms = t, oa_archive_requested_at_ms = xa_created_at_ms m,
                     oa_cleanup_eligible_at_ms = t + operator_outbox_retention_ms, oa_archive_sha256 = []\<rparr>
            in Inr (a\<lparr>oa_archive_sha256 := input_sha256 (ow_crypto W) (archive_summary_json a)\<rparr>)
      | _ \<Rightarrow> Inl ''operator_archive_unavailable'')"

definition commit_archive :: "'s operator_world \<Rightarrow> operator_outbox_archive \<Rightarrow> ('s, unit) oact" where
  "commit_archive W a s =
     (case commit_operator_outbox_archive (ow_archive_db W s) a (os_archive s) of (r, t) \<Rightarrow> (r, s\<lparr>os_archive := t\<rparr>))"

text \<open>\<open>advanceOperatorArchive\<close>: the time of the next attempt, or \<open>None\<close> once the row is in the archive.\<close>

definition advance_operator_archive :: "'s operator_world \<Rightarrow> string \<Rightarrow> operator_record \<Rightarrow> ('s, int option) oact" where
  "advance_operator_archive W key r =
     (case ox_archive r of
        None \<Rightarrow> ret None
      | Some m \<Rightarrow>
          let attempts = min (xa_attempts m + 1) (length reconcile_backoff_ms) in
          catch (
            bnd (require (valid_operator_archive_config (ow_env W)) ''operator_archive_unavailable'') (\<lambda>_.
            bnd (lifting (operator_outbox_archive_of W r)) (\<lambda>a.
            bnd (commit_archive W a) (\<lambda>_.
            bnd (operator_now W) (\<lambda>now.
            bnd (put_operator key (r\<lparr>ox_archive := Some (m\<lparr>xa_status := ArchiveCommitted, xa_attempts := attempts,
                   xa_archive_sha256 := Some (oa_archive_sha256 a), xa_committed_at_ms := Some now,
                   xa_cleanup_eligible_at_ms := Some (oa_cleanup_eligible_at_ms a)\<rparr>)\<rparr>)) (\<lambda>_.
            ret None))))))
            (\<lambda>err.
             bnd (operator_now W) (\<lambda>now.
             let next_at = now + reconcile_backoff_ms ! (attempts - 1) in
             bnd (put_operator key (r\<lparr>ox_archive := Some (m\<lparr>xa_status := ArchiveRetry, xa_attempts := attempts,
                    xa_next_attempt_at_ms := next_at\<rparr>)\<rparr>)) (\<lambda>_.
             ret (Some next_at)))))"

definition least_retry :: "int option \<Rightarrow> int \<Rightarrow> int option" where
  "least_retry e t = Some (case e of Some x \<Rightarrow> min x t | None \<Rightarrow> t)"

text \<open>The first record of a batch that is due, and the earliest retry among those before it.\<close>

fun due_record :: "int \<Rightarrow> (string, operator_record) table \<Rightarrow> int option \<Rightarrow> int option \<times> (string \<times> operator_record) option" where
  "due_record now [] earliest = (earliest, None)"
| "due_record now ((k, r) # rest) earliest =
     (case ox_archive r of
        None \<Rightarrow> due_record now rest earliest
      | Some m \<Rightarrow>
          if ox_state r \<noteq> OpConfirmed \<or> xa_status m = ArchiveCommitted then due_record now rest earliest
          else if xa_next_attempt_at_ms m > now then due_record now rest (least_retry earliest (xa_next_attempt_at_ms m))
          else (earliest, Some (k, r)))"

definition scan_batch :: "archive_scan \<Rightarrow> 's operator_store \<Rightarrow> (string, operator_record) table" where
  "scan_batch scan s =
     take operator_archive_scan_batch
       (filter (\<lambda>(k, r). case sc_after scan of Some a \<Rightarrow> a < k | None \<Rightarrow> True) (sort_key fst (os_outbox s)))"

definition save_scan :: "archive_scan \<Rightarrow> ('s, unit) oact" where
  "save_scan scan = atomically (bnd (operator_capacity [ScanKey]) (\<lambda>_. put_scan (Some scan)))"

text \<open>True: the alarm was spent on the scan.\<close>

definition scan_exhausted :: "archive_scan \<Rightarrow> ('s, bool) oact" where
  "scan_exhausted scan =
     (case sc_earliest_retry_at_ms scan of
        Some t \<Rightarrow>
          bnd (put_scan (Some \<lparr>sc_after = None, sc_earliest_retry_at_ms = Some t\<rparr>)) (\<lambda>_.
          bnd (schedule_no_later t) (\<lambda>_. ret True))
      | None \<Rightarrow> bnd (put_scan None) (\<lambda>_. ret (sc_after scan \<noteq> None)))"

definition scan_due :: "'s operator_world \<Rightarrow> int \<Rightarrow> string \<Rightarrow> operator_record \<Rightarrow> int option \<Rightarrow> ('s, bool) oact" where
  "scan_due W now key r earliest =
     bnd (advance_operator_archive W key r) (\<lambda>retry.
     let earliest' = (case retry of Some t \<Rightarrow> least_retry earliest t | None \<Rightarrow> earliest) in
     bnd (save_scan \<lparr>sc_after = Some key, sc_earliest_retry_at_ms = earliest'\<rparr>) (\<lambda>_.
     bnd (schedule_no_later now) (\<lambda>_. ret True)))"

definition scan_passed :: "int \<Rightarrow> (string, operator_record) table \<Rightarrow> int option \<Rightarrow> ('s, bool) oact" where
  "scan_passed now batch earliest =
     (if length batch = operator_archive_scan_batch
      then bnd (save_scan \<lparr>sc_after = Some (fst (last batch)), sc_earliest_retry_at_ms = earliest\<rparr>) (\<lambda>_.
           bnd (schedule_no_later now) (\<lambda>_. ret True))
      else case earliest of
        Some t \<Rightarrow>
          bnd (put_scan (Some \<lparr>sc_after = None, sc_earliest_retry_at_ms = Some t\<rparr>)) (\<lambda>_.
          bnd (schedule_no_later t) (\<lambda>_. ret True))
      | None \<Rightarrow> bnd (put_scan None) (\<lambda>_. ret False))"

definition scan_from :: "'s operator_world \<Rightarrow> int \<Rightarrow> archive_scan \<Rightarrow> ('s, bool) oact" where
  "scan_from W now scan =
     bnd (reading (scan_batch scan)) (\<lambda>batch.
     if batch = [] then scan_exhausted scan
     else
       case due_record now batch (if sc_after scan = None then None else sc_earliest_retry_at_ms scan) of
         (earliest, Some (key, r)) \<Rightarrow> scan_due W now key r earliest
       | (earliest, None) \<Rightarrow> scan_passed now batch earliest)"

definition advance_operator_archive_scan :: "'s operator_world \<Rightarrow> ('s, bool) oact" where
  "advance_operator_archive_scan W =
     (if be_operator_outbox_archive_enabled (ow_env W) \<noteq> Some ''true'' then ret False
      else
        bnd (reading (\<lambda>s. (os_scan s, ow_now W s))) (\<lambda>(stored, now).
        case stored of
          None \<Rightarrow> ret False
        | Some scan \<Rightarrow>
            (case (sc_after scan, sc_earliest_retry_at_ms scan) of
               (None, Some t) \<Rightarrow>
                 if t > now then bnd (schedule_no_later t) (\<lambda>_. ret True)
                 else scan_from W now scan
             | _ \<Rightarrow> scan_from W now scan)))"

section \<open>Routes\<close>

definition operator_route :: "'s operator_world \<Rightarrow> string \<Rightarrow> string \<Rightarrow> bytes \<Rightarrow> ('s, bridge_reply) oact" where
  "operator_route W verb path body =
     (let parsed = (\<lambda>k. bnd (lifting (read_json_object body)) k) in
      if verb = ''POST'' \<and> path = ''/internal/finalize'' then parsed (process_finalize W)
      else if verb = ''POST'' \<and> path = ''/internal/mark-watched'' then parsed (process_mark_watched W)
      else if verb = ''POST'' \<and> path = ''/internal/release-expired'' then parsed (process_release_expired W)
      else if verb = ''POST'' \<and> path = ''/internal/suspend-sales'' then parsed (process_suspend_sales W)
      else if verb = ''GET'' \<and> path = ''/internal/operator-outbox/status'' then read_operator_outbox_status W
      else if verb = ''POST'' \<and> path = ''/internal/operator-outbox/archive-scan'' then start_archive_scan W
      else ret (bridge_json (JObj [(''error'', JStr ''not_found'')]) 404))"

definition outbox_fetch :: "'s operator_world \<Rightarrow> string \<Rightarrow> string \<Rightarrow> bytes \<Rightarrow> ('s, bridge_reply) oact" where
  "outbox_fetch W verb path body =
     catch (bnd (operator_policy W) (\<lambda>_. operator_route W verb path body)) (\<lambda>err. ret (bridge_error err))"

definition outbox_alarm :: "'s operator_world \<Rightarrow> ('s, unit) oact" where
  "outbox_alarm W = bnd (operator_policy W) (\<lambda>_. bnd (advance_operator_archive_scan W) (\<lambda>_. ret ()))"

section \<open>Who asks\<close>

text \<open>The object's name and the request the other parts of the bridge send it.\<close>

definition operator_object_name :: "string \<Rightarrow> string \<Rightarrow> int \<Rightarrow> string" where
  "operator_object_name network public_key epoch = ''operator:'' @ network @ '':'' @ public_key @ '':'' @ show_int epoch"

definition finalize_request :: "crypto \<Rightarrow> json \<Rightarrow> json" where
  "finalize_request C submission = JObj
     [(''idempotencyKey'', JStr (finalize_key submission)),
      (''payloadSha256'', JStr (input_sha256 C (finalize_args submission))), (''submission'', submission)]"

definition suspension_request :: "crypto \<Rightarrow> string \<Rightarrow> json" where
  "suspension_request C publication_id = JObj
     [(''idempotencyKey'', JStr (suspend_key publication_id)),
      (''payloadSha256'', JStr (input_sha256 C (suspend_args publication_id))), (''publicationId'', JStr publication_id)]"

definition mark_watched_request :: "crypto \<Rightarrow> string \<Rightarrow> json" where
  "mark_watched_request C ticket_id = JObj
     [(''idempotencyKey'', JStr (mark_watched_key ticket_id)),
      (''payloadSha256'', JStr (input_sha256 C (mark_watched_args ticket_id))), (''ticketId'', JStr ticket_id)]"

definition release_request :: "crypto \<Rightarrow> string list \<Rightarrow> json" where
  "release_request C ids = (let sorted = sort ids in JObj
     [(''idempotencyKey'', JStr (release_key C sorted)),
      (''payloadSha256'', JStr (input_sha256 C (release_args sorted))), (''ticketIds'', JArr (map JStr sorted))])"

end
