(* ===== verification/BridgeOperatorLaws.thy ===== *)
theory BridgeOperatorLaws
  imports BridgeOperatorOps
begin

text \<open>
  What the operator object promises: nonces are given once, a transaction leaves only after its signed bytes and hash are
  stored, a public deployment never sends a record's transaction twice, and success is what the chain shows. The
  interface to the four requests is the locale \<open>settlement\<close>: a way to ask the chain that leaves the outbox alone.
\<close>

section \<open>Runs\<close>

datatype 's operator_event = OperatorCall string string bytes | OperatorWake | OperatorMeanwhile 's

fun operator_event_step :: "'s operator_world \<Rightarrow> 's operator_event \<Rightarrow> 's operator_store \<Rightarrow> 's operator_store" where
  "operator_event_step W (OperatorCall verb path body) s = snd (outbox_fetch W verb path body s)"
| "operator_event_step W OperatorWake s = snd (outbox_alarm W s)"
| "operator_event_step W (OperatorMeanwhile x) s = s\<lparr>os_outside := x\<rparr>"

definition operator_run :: "'s operator_world \<Rightarrow> 's operator_event list \<Rightarrow> 's operator_store \<Rightarrow> 's operator_store" where
  "operator_run W evs s = foldl (\<lambda>t ev. operator_event_step W ev t) s evs"

definition operator_start :: "'s \<Rightarrow> 's operator_store" where
  "operator_start x = \<lparr>os_outbox = [], os_last_nonce = None, os_scan = None, os_alarm = None, os_archive = [], os_policy = None, os_outside = x\<rparr>"

section \<open>What leaves the outbox alone\<close>

definition outbox_is :: "(string, operator_record) table \<Rightarrow> int option \<Rightarrow> 's operator_store \<Rightarrow> bool" where
  "outbox_is b n s = (os_outbox s = b \<and> os_last_nonce s = n)"

named_theorems outbox_rules

lemma outbox_writing [outbox_rules]:
  "(\<And>s. os_outbox (f s) = os_outbox s \<and> os_last_nonce (f s) = os_last_nonce s) \<Longrightarrow> keeps (outbox_is b n) (writing f)"
  by (simp add: keeps_def outbox_is_def)

lemma outbox_now [outbox_rules]: "keeps (outbox_is b n) (operator_now W)"
  by (simp add: operator_now_def)

lemma outbox_capacity [outbox_rules]: "keeps P (operator_capacity ks)"
  by (simp add: keeps_def operator_capacity_def)

lemma outbox_scan [outbox_rules]: "keeps (outbox_is b n) (put_scan v)"
  by (simp add: put_scan_def outbox_writing)

lemma outbox_schedule [outbox_rules]: "keeps (outbox_is b n) (schedule_no_later t)"
  by (simp add: schedule_no_later_def outbox_writing)

lemma outbox_start_scan [outbox_rules]: "keeps (outbox_is b n) (start_archive_scan W)"
  unfolding start_archive_scan_def by (intro keeps_rules outbox_rules)

lemma outbox_meanwhile: "os_outbox (meanwhile W s) = os_outbox s \<and> os_last_nonce (meanwhile W s) = os_last_nonce s"
  using keepsD [OF outbox_start_scan, of "os_outbox s" "os_last_nonce s" s W] by (simp add: meanwhile_def outbox_is_def)

lemma outbox_near [outbox_rules]: "keeps (outbox_is b n) (operator_near W body)"
  by (auto simp: keeps_def outbox_is_def operator_near_def outbox_meanwhile split: prod.splits)

lemma outbox_pause [outbox_rules]: "keeps (outbox_is b n) (operator_pause W ms)"
  unfolding operator_pause_def by (rule outbox_writing) (simp add: outbox_meanwhile)

lemma outbox_rpc [outbox_rules]: "keeps (outbox_is b n) (near_rpc_raw (operator_near W) verb params)"
  unfolding near_rpc_raw_def Let_def by (intro keeps_rules outbox_rules)

lemma outbox_query [outbox_rules]: "keeps (outbox_is b n) (near_rpc_query (operator_near W) params)"
  unfolding near_rpc_query_def by (intro keeps_rules outbox_rules)

lemma outbox_send [outbox_rules]: "keeps (outbox_is b n) (send_transaction W stx)"
  unfolding send_transaction_def by (intro keeps_rules outbox_rules)

lemma outbox_tx [outbox_rules]: "keeps (outbox_is b n) (query_transaction W hash)"
  unfolding query_transaction_def query_transaction_for_account_def by (intro keeps_rules outbox_rules)

lemma outbox_access [outbox_rules]: "keeps (outbox_is b n) (read_operator_access_key W pk)"
  unfolding read_operator_access_key_def by (intro keeps_rules outbox_rules)

lemma outbox_publication [outbox_rules]: "keeps (outbox_is b n) (read_final_publication (operator_near W) e p)"
  unfolding read_final_publication_def by (intro keeps_rules outbox_rules)

lemma outbox_matches [outbox_rules]: "keeps (outbox_is b n) (final_publication_matches (operator_near W) e v)"
  unfolding final_publication_matches_def by (intro keeps_rules outbox_rules)

lemma outbox_suspended [outbox_rules]: "keeps (outbox_is b n) (final_publication_sales_suspended (operator_near W) e p)"
  unfolding final_publication_sales_suspended_def by (intro keeps_rules outbox_rules)

lemma outbox_ticket [outbox_rules]: "keeps (outbox_is b n) (final_ticket_status (operator_near W) e t)"
  unfolding final_ticket_status_def near_view_with_def by (intro keeps_rules outbox_rules)

lemma outbox_settled [outbox_rules]: "keeps (outbox_is b n) (ticket_settled W t)"
  unfolding ticket_settled_def by (intro keeps_rules outbox_rules)

lemma outbox_batch [outbox_rules]: "keeps (outbox_is b n) (batch_settled W ts)"
proof (induction ts)
  case (Cons t ts)
  then show ?case unfolding batch_settled.simps by (intro keeps_rules outbox_rules)
qed (simp only: batch_settled.simps keeps_ret)

lemma outbox_view [outbox_rules]: "keeps (outbox_is b n) (read_public_testnet_view (operator_near W) e verb args)"
  unfolding read_public_testnet_view_def
  by (intro keeps_rules outbox_rules) (auto split: json.split option.split)

lemma outbox_policy [outbox_rules]: "keeps (outbox_is b n) (operator_policy W)"
  unfolding operator_policy_def require_public_upload_policy_def by (intro keeps_rules outbox_rules) simp_all

lemma outbox_job [outbox_rules]: "keeps (outbox_is b n) (read_final_media_job (operator_near W) U e i)"
  unfolding read_final_media_job_def by (intro keeps_rules outbox_rules)

lemma outbox_public_job [outbox_rules]: "keeps (outbox_is b n) (check_public_job W v)"
  unfolding check_public_job_def by (intro keeps_rules outbox_rules)

lemma outbox_commit [outbox_rules]: "keeps (outbox_is b n) (commit_archive W a)"
  by (auto simp: keeps_def outbox_is_def commit_archive_def split: prod.splits)

text \<open>A predicate of the outbox and the last nonce only.\<close>

definition about_outbox :: "('s operator_store \<Rightarrow> bool) \<Rightarrow> bool" where
  "about_outbox P = (\<forall>s t. os_outbox s = os_outbox t \<longrightarrow> os_last_nonce s = os_last_nonce t \<longrightarrow> P s \<longrightarrow> P t)"

lemma keeps_about: "(\<And>b n. keeps (outbox_is b n) m) \<Longrightarrow> about_outbox P \<Longrightarrow> keeps P m"
  by (auto simp: keeps_def outbox_is_def about_outbox_def)

section \<open>Nonces\<close>

definition nonce_at :: "'s operator_store \<Rightarrow> string \<Rightarrow> int option" where
  "nonce_at s key = Option.bind (tget key (os_outbox s)) ox_nonce"

definition last_given :: "'s operator_store \<Rightarrow> int" where
  "last_given s = (case os_last_nonce s of Some n \<Rightarrow> n | None \<Rightarrow> 0)"

text \<open>Every key has one record, no record has a nonce above the last one given, and no two records the same.\<close>

definition nonces_apart :: "'s operator_store \<Rightarrow> bool" where
  "nonces_apart s =
     (distinct (map fst (os_outbox s))
      \<and> (\<forall>key n. nonce_at s key = Some n \<longrightarrow> n \<le> last_given s \<and> (\<forall>key'. nonce_at s key' = Some n \<longrightarrow> key' = key)))"

text \<open>The last nonce never falls, and a record that has a nonce had it before or got one above all before.\<close>

definition nonces_follow :: "'s operator_store \<Rightarrow> 's operator_store \<Rightarrow> bool" where
  "nonces_follow s t =
     (last_given s \<le> last_given t \<and> (\<forall>key n. nonce_at t key = Some n \<longrightarrow> last_given s < n \<or> nonce_at s key = Some n))"

definition nonces_fine :: "'s operator_store \<Rightarrow> 's operator_store \<Rightarrow> bool" where
  "nonces_fine s t = (nonces_apart t \<and> nonces_follow s t)"

text \<open>A nonce a request works with is its record's own.\<close>

definition own_nonce :: "'s operator_store \<Rightarrow> string \<Rightarrow> int option \<Rightarrow> 's operator_store \<Rightarrow> bool" where
  "own_nonce s key v t =
     (case v of None \<Rightarrow> True
      | Some n \<Rightarrow> n \<le> last_given t \<and> (\<forall>key'. nonce_at t key' = Some n \<longrightarrow> key' = key)
          \<and> (last_given s < n \<or> nonce_at s key = Some n))"

definition working :: "'s operator_store \<Rightarrow> string \<Rightarrow> int option \<Rightarrow> 's operator_store \<Rightarrow> bool" where
  "working s key v t = (nonces_fine s t \<and> own_nonce s key v t)"

lemma nonce_at_simps [simp]:
  "nonce_at (t\<lparr>os_outbox := tput key r (os_outbox t)\<rparr>) k = (if k = key then ox_nonce r else nonce_at t k)"
  "nonce_at (t\<lparr>os_last_nonce := l, os_outbox := tput key r (os_outbox t)\<rparr>) k = (if k = key then ox_nonce r else nonce_at t k)"
  "nonce_at (t\<lparr>os_outbox := tdel key (os_outbox t)\<rparr>) k = (if k = key then None else nonce_at t k)"
  by (simp_all add: nonce_at_def)

lemma last_given_simps [simp]:
  "last_given (t\<lparr>os_outbox := b\<rparr>) = last_given t"
  "last_given (t\<lparr>os_last_nonce := Some n\<rparr>) = n"
  by (simp_all add: last_given_def)

lemmas nonce_defs = working_def nonces_fine_def nonces_apart_def nonces_follow_def own_nonce_def

lemma about_fine: "about_outbox (nonces_fine s)"
  by (auto simp: about_outbox_def nonces_fine_def nonces_apart_def nonces_follow_def nonce_at_def last_given_def)

lemma about_working: "about_outbox (working s key v)"
proof -
  have "own_nonce s key v t'" if "os_outbox t = os_outbox t'" "os_last_nonce t = os_last_nonce t'" "own_nonce s key v t" for t t'
  proof -
    have "nonce_at t = nonce_at t'" "last_given t = last_given t'" using that by (auto simp: nonce_at_def last_given_def)
    then show ?thesis using that(3) by (cases v) (simp_all add: own_nonce_def)
  qed
  then show ?thesis using about_fine [of s] unfolding about_outbox_def working_def by blast
qed

lemma fine_self: "nonces_apart s \<Longrightarrow> nonces_fine s s"
  by (simp add: nonces_fine_def nonces_follow_def)

lemma fine_trans:
  assumes "nonces_fine s t" "nonces_fine t u"
  shows "nonces_fine s u"
proof -
  have "last_given s < n \<or> nonce_at s key = Some n" if "nonce_at u key = Some n" for key n
    using that assms unfolding nonces_fine_def nonces_follow_def by (meson le_less_trans)
  then show ?thesis using assms by (auto simp: nonces_fine_def nonces_follow_def)
qed

lemma working_none: "working s key None t = nonces_fine s t"
  by (simp add: working_def own_nonce_def)

lemma working_fine: "working s key v t \<Longrightarrow> nonces_fine s t"
  by (simp add: working_def)

lemma working_stored:
  assumes "nonces_fine s t" "tget key (os_outbox t) = Some r"
  shows "working s key (ox_nonce r) t"
proof (cases "ox_nonce r")
  case (Some n)
  with assms(2) have "nonce_at t key = Some n" by (simp add: nonce_at_def)
  with assms(1) Some show ?thesis by (simp add: nonce_defs)
qed (simp add: assms(1) working_none)

lemma working_put: "working s key v t \<Longrightarrow> ox_nonce r \<in> {None, v} \<Longrightarrow> working s key v (t\<lparr>os_outbox := tput key r (os_outbox t)\<rparr>)"
  by (cases v) (auto simp: nonce_defs keys_tput)

lemma working_del: "working s key v t \<Longrightarrow> working s key v (t\<lparr>os_outbox := tdel key' (os_outbox t)\<rparr>)"
  by (cases v) (auto simp: nonce_defs keys_tdel)

lemma working_fresh:
  assumes "nonces_fine s t" "last_given t < n" "ox_nonce r = Some n"
  shows "working s key (Some n) (t\<lparr>os_last_nonce := Some n, os_outbox := tput key r (os_outbox t)\<rparr>)"
proof -
  let ?u = "t\<lparr>os_last_nonce := Some n, os_outbox := tput key r (os_outbox t)\<rparr>"
  have new: "nonce_at t k \<noteq> Some n" for k using assms by (fastforce simp: nonces_fine_def nonces_apart_def)
  have old: "m < n" "last_given s \<le> last_given t" if "nonce_at t k = Some m" for k m
    using that assms by (fastforce simp: nonces_fine_def nonces_apart_def nonces_follow_def)+
  have "nonces_apart ?u"
    using assms(1,3) new old(1) by (auto simp: nonces_apart_def nonces_fine_def less_imp_le keys_tput)
  moreover have "last_given s < n" using assms by (simp add: nonces_fine_def nonces_follow_def)
  then have "nonces_follow s ?u"
    using assms(1,3) by (auto simp: nonces_follow_def nonces_fine_def)
  moreover have "own_nonce s key (Some n) ?u"
    using new \<open>last_given s < n\<close> by (simp add: own_nonce_def)
  ultimately show ?thesis by (simp add: working_def nonces_fine_def)
qed

section \<open>A request works with its own nonce\<close>

lemma wp_step:
  assumes "wp m Q' E' s" and "\<And>x t. Q' x t \<Longrightarrow> wp (k x) Q E t" and "\<And>e t. E' e t \<Longrightarrow> E e t"
  shows "wp (bnd m k) Q E s"
  unfolding wp_bnd using assms by (rule wp_mono)

lemma keeps_to_wp: "keeps P m \<Longrightarrow> P s \<Longrightarrow> wp m (\<lambda>_. P) (\<lambda>_. P) s"
  by (simp add: wp_const keepsD)

lemma keeps_put: "ox_nonce r \<in> {None, v} \<Longrightarrow> keeps (working s key v) (put_operator key r)"
  by (simp add: put_operator_def keeps_writing working_put)

lemma keeps_drop: "keeps (working s key v) (drop_operator_record key')"
  by (simp add: drop_operator_record_def keeps_writing working_del)

lemmas keeps_working = keeps_about [OF _ about_working]

lemma cleared_nonce [simp]: "ox_nonce (clear_signed r) = None"
  by (simp add: clear_signed_def)

lemma keeps_persist: "keeps (working s key v) (persist_confirmed W key r)"
  unfolding persist_confirmed_def Let_def
  by (intro keeps_rules keeps_working [OF outbox_now] keeps_working [OF outbox_schedule] keeps_working [OF outbox_scan] outbox_capacity
      keeps_put keeps_writing working_del) (simp_all add: confirmed_record_def Let_def)

lemma keeps_finish: "keeps (working s key v) (finish_confirmed W key r)"
  unfolding finish_confirmed_def by (intro keeps_rules keeps_persist)

lemma wp_claim:
  assumes "nonces_fine s t"
  shows "wp (claim_operator_record W key payload m) (\<lambda>(r, executed). working s key (ox_nonce r)) (\<lambda>_. nonces_fine s) t"
proof (cases "tget key (os_outbox t)")
  case (Some r)
  then have w: "working s key (ox_nonce r) t" "working s key None t" using assms by (simp_all add: working_stored working_none)
  show ?thesis
    using Some assms w working_put [OF w(1), of r] working_put [OF w(2), of "(clear_signed r)\<lparr>ox_method := m\<rparr>"]
    by (auto simp: claim_operator_record_def wp_rules put_operator_def Let_def clear_signed_def)
next
  case None
  then show ?thesis
    using assms working_put [of s key None t "new_operator_record key payload m (ow_now W t)"]
    by (auto simp: claim_operator_record_def wp_rules put_operator_def Let_def new_operator_record_def operator_now_def working_none
      wp_def [of "operator_capacity _"] operator_capacity_def split: sum.splits)
qed

lemma wp_reserve:
  assumes "nonces_fine s t"
  shows "wp (reserve_nonce key access) (\<lambda>r. working s key (ox_nonce r)) (\<lambda>_. nonces_fine s) t"
proof -
  have "working s key (Some n) (t\<lparr>os_last_nonce := Some n, os_outbox := tput key r (os_outbox t)\<rparr>)"
    if "n = max (last_given t) (fst access) + 1" "ox_nonce r = Some n" for n r
    using assms that by (intro working_fresh) simp_all
  then show ?thesis
    using assms
    by (auto simp: reserve_nonce_def wp_rules put_operator_def Let_def working_stored last_given_def
      wp_def [of "operator_capacity _"] operator_capacity_def split: option.splits sum.splits)
qed

section \<open>Requests\<close>

text \<open>What a request brings: a question to the chain that leaves the outbox alone.\<close>

locale settlement =
  fixes W :: "'s operator_world"
    and is_confirmed :: "('s, bool) oact"
  assumes asks_only: "keeps (outbox_is b n) is_confirmed"
begin

lemma keeps_confirm: "keeps (working s key v) is_confirmed"
  by (rule keeps_working [OF asks_only])

lemma keeps_poll: "keeps (working s key v) (poll_finality W hash is_confirmed delays)"
proof (induction delays)
  case (Cons d ds)
  then show ?case
    unfolding poll_finality.simps
    by (intro keeps_rules keeps_confirm keeps_working [OF outbox_pause] keeps_working [OF outbox_tx])
qed (simp only: poll_finality.simps keeps_ret)

lemma keeps_polled: "keeps (working s key v) (finish_polled W key r is_confirmed)"
  unfolding finish_polled_def poll_operator_finality_def by (intro keeps_rules keeps_poll keeps_finish)

lemma wp_observe:
  assumes "working s key (ox_nonce r) t"
  shows "wp (observe_broadcast W key r is_confirmed)
    (\<lambda>x. case x of Inl y \<Rightarrow> nonces_fine s | Inr r' \<Rightarrow> working s key (ox_nonce r')) (\<lambda>_. nonces_fine s) t"
proof -
  have cleared: "working s key None (t'\<lparr>os_outbox := tput key (clear_signed r) (os_outbox t')\<rparr>)"
    if "working s key (ox_nonce r) t'" for t'
    using that working_put [of s key None t' "clear_signed r"] by (simp add: working_none working_fine clear_signed_def)
  have finish: "wp (finish_confirmed W key r) (\<lambda>x. nonces_fine s) (\<lambda>_. nonces_fine s) t'" if "working s key (ox_nonce r) t'" for t'
    using keeps_to_wp [OF keeps_finish that] by (rule wp_mono) (simp_all add: working_fine)
  let ?Q = "\<lambda>x. case x of Inl y \<Rightarrow> nonces_fine s | Inr r' \<Rightarrow> working s key (ox_nonce r')"
  have told: "wp (if confirmed then bnd (finish_confirmed W key r) (\<lambda>x. ret (Inl x))
      else if status = TxFailed then throw ''near_finalize_failed''
      else if status = TxInvalidNonce then bnd (put_operator key (clear_signed r)) (\<lambda>_. ret (Inr (clear_signed r)))
      else ret (Inr r)) ?Q (\<lambda>_. nonces_fine s) t'" if "working s key (ox_nonce r) t'" for confirmed status t'
    using that by (auto simp: wp_rules put_operator_def working_fine cleared intro!: wp_mono [OF finish])
  have "wp (bnd (query_transaction W (or_none (ox_tx_hash r))) (\<lambda>status. bnd is_confirmed (\<lambda>confirmed.
      if confirmed then bnd (finish_confirmed W key r) (\<lambda>x. ret (Inl x))
      else if status = TxFailed then throw ''near_finalize_failed''
      else if status = TxInvalidNonce then bnd (put_operator key (clear_signed r)) (\<lambda>_. ret (Inr (clear_signed r)))
      else ret (Inr r)))) ?Q (\<lambda>_. nonces_fine s) t"
    by (intro wp_step [OF keeps_to_wp [OF keeps_working [OF outbox_tx] assms]] wp_step [OF keeps_to_wp [OF keeps_confirm]] told)
      (auto dest: working_fine)
  with assms show ?thesis by (simp add: observe_broadcast_def wp_ret)
qed

lemma wp_signed:
  assumes "working s key (ox_nonce r) t"
  shows "wp (signed_record W pk key m args r) (\<lambda>r'. working s key (ox_nonce r')) (\<lambda>_. nonces_fine s) t"
proof -
  have sign: "wp (bnd (lifting (sign_operator_tx W m args r')) (\<lambda>stx. bnd (put_operator key stx) (\<lambda>_. ret stx)))
      (\<lambda>r'. working s key (ox_nonce r')) (\<lambda>_. nonces_fine s) t'" if "working s key (ox_nonce r') t'" for r' t'
    using that
    by (auto simp: wp_rules put_operator_def working_fine sign_operator_tx_def Let_def ebind_def working_put split: sum.splits)
  have "wp (if ox_nonce r \<noteq> None \<and> set_text (ox_block_hash r) then ret r else bnd (read_operator_access_key W pk) (reserve_nonce key))
      (\<lambda>r'. working s key (ox_nonce r')) (\<lambda>_. nonces_fine s) t"
    using assms by (auto simp: wp_ret working_fine intro!: wp_step [OF keeps_to_wp [OF keeps_about [OF outbox_access about_fine]]] wp_reserve)
  from wp_step [OF this sign] show ?thesis
    unfolding signed_record_def by (cases "set_text (ox_signed_tx r)") (simp_all add: wp_ret assms)
qed

lemma keeps_broadcast:
  assumes "\<And>b n x. keeps (outbox_is b n) (send W x)" and "ox_nonce r = v"
  shows "keeps (working s key v) (broadcast_record send W key r is_confirmed)"
  unfolding broadcast_record_def Let_def
  by (intro keeps_rules keeps_put keeps_confirm keeps_finish keeps_polled keeps_working [OF assms(1)])
    (simp_all add: assms(2) clear_signed_def)

lemma wp_broadcast:
  assumes "\<And>b n x. keeps (outbox_is b n) (send W x)" and "working s key (ox_nonce r) t"
  shows "wp (broadcast_record send W key r is_confirmed) (\<lambda>_. nonces_fine s) (\<lambda>_. nonces_fine s) t"
  by (rule wp_mono [OF keeps_to_wp [OF keeps_broadcast assms(2)]]) (simp_all add: assms(1) working_fine)

lemma process_fine:
  assumes send: "\<And>b n x. keeps (outbox_is b n) (send W x)" and s: "nonces_fine s t"
  shows "nonces_fine s (snd (process_outbox_with send W key payload m args is_confirmed t))"
proof -
  have sent: "wp (bnd (signed_record W pk key m args r') (\<lambda>stx. broadcast_record send W key stx is_confirmed))
      (\<lambda>_. nonces_fine s) (\<lambda>_. nonces_fine s) t'" if "working s key (ox_nonce r') t'" for pk r' t'
    by (rule wp_step [OF wp_signed [OF that]]) (simp_all add: wp_broadcast send)
  have rest: "wp (if executed then ret (True, hash_or_null r, 200)
     else bnd is_confirmed (\<lambda>confirmed.
       if confirmed then finish_confirmed W key r
       else if is_public_testnet (ow_env W) \<and> ox_state r = OpBroadcast \<and> set_text (ox_tx_hash r)
       then finish_polled W key r is_confirmed
       else bnd (observe_broadcast W key r is_confirmed) (\<lambda>observed. case observed of
           Inl x \<Rightarrow> ret x
         | Inr r' \<Rightarrow> bnd (require (be_operator_mutations_enabled (ow_env W) = Some ''true'') ''operator_mutations_disabled'') (\<lambda>_.
             bnd (signed_record W pk key m args r') (\<lambda>stx. broadcast_record send W key stx is_confirmed)))))
      (\<lambda>_. nonces_fine s) (\<lambda>_. nonces_fine s) t'" if "working s key (ox_nonce r) t'" for pk executed r t'
    using that
    by (auto simp: wp_ret working_fine intro!: wp_step [OF keeps_to_wp [OF keeps_confirm]]
        wp_mono [OF keeps_to_wp [OF keeps_finish]] wp_mono [OF keeps_to_wp [OF keeps_polled]] wp_step [OF wp_observe]
        split: sum.splits)
      (auto simp: wp_bnd [of "require _ _"] wp_require working_fine intro!: sent)
  have "wp (process_outbox_with send W key payload m args is_confirmed) (\<lambda>_. nonces_fine s) (\<lambda>_. nonces_fine s) t"
    unfolding process_outbox_with_def
    by (auto simp: wp_bnd [of "require _ _"] wp_require wp_bnd [of "lifting _"] wp_lifting s intro!: wp_step [OF wp_claim [OF s]] rest
        split: option.splits sum.splits prod.splits)
  then show ?thesis by (simp add: wp_const)
qed

end

interpretation finalizing: settlement W "final_publication_matches (operator_near W) e v" for W :: "'s operator_world" and e and v
  by unfold_locales (rule outbox_matches)

interpretation suspending: settlement W "final_publication_sales_suspended (operator_near W) e p" for W :: "'s operator_world" and e and p
  by unfold_locales (rule outbox_suspended)

interpretation settling: settlement W "ticket_settled W t" for W :: "'s operator_world" and t
  by unfold_locales (rule outbox_settled)

interpretation releasing: settlement W "batch_settled W ts" for W :: "'s operator_world" and ts
  by unfold_locales (rule outbox_batch)

section \<open>Every request and alarm\<close>

lemmas keeps_fine = keeps_about [OF _ about_fine]

lemma drop_fine: "keeps (nonces_fine s) (drop_operator_record key)"
  using keeps_drop [of s key None key] by (simp add: working_none [abs_def])

lemma process_keeps:
  assumes "settlement C"
  shows "keeps (nonces_fine s) (process_operator_outbox W key payload m args C)"
  by (rule keepsI) (simp add: process_operator_outbox_def settlement.process_fine [OF assms] outbox_send)

lemma failed_watch_keeps: "keeps (nonces_fine s) (failed_watch W t err)"
  unfolding failed_watch_def by (intro keeps_rules drop_fine keeps_fine [OF outbox_ticket])

lemma requests_keep:
  "keeps (nonces_fine s) (process_finalize W v)" "keeps (nonces_fine s) (process_suspend_sales W v)"
  "keeps (nonces_fine s) (process_mark_watched W v)" "keeps (nonces_fine s) (process_release_expired W v)"
  unfolding process_finalize_def process_suspend_sales_def process_mark_watched_def process_release_expired_def Let_def
  by (intro keeps_rules process_keeps keeps_fine [OF outbox_public_job] keeps_fine [OF outbox_policy] keeps_fine [OF outbox_settled]
      keeps_fine [OF outbox_batch] failed_watch_keeps drop_fine finalizing.settlement_axioms suspending.settlement_axioms
      settling.settlement_axioms releasing.settlement_axioms)+

lemma archive_fine:
  assumes "nonces_fine s t" "(key, r) \<in> set (os_outbox t)"
  shows "nonces_fine s (snd (advance_operator_archive W key r t))"
proof (cases "ox_archive r")
  case None
  then show ?thesis using assms(1) by (simp add: advance_operator_archive_def)
next
  case (Some m)
  have "tget key (os_outbox t) = Some r"
    using assms by (simp add: nonces_fine_def nonces_apart_def tget_entry)
  then have own: "working s key (ox_nonce r) t" using assms(1) by (simp add: working_stored)
  have kept: "keeps (working s key (ox_nonce r)) (advance_operator_archive W key r)"
    unfolding advance_operator_archive_def Some option.case Let_def
    by (intro keeps_rules keeps_put keeps_working [OF outbox_now] keeps_working [OF outbox_commit]) simp_all
  show ?thesis by (rule working_fine [OF keepsD [OF kept own]])
qed

lemma due_listed: "due_record now t e = (e', Some (k, r)) \<Longrightarrow> (k, r) \<in> set t"
  by (induction now t e rule: due_record.induct) (auto split: option.splits if_splits)

lemma batch_listed: "(k, r) \<in> set (scan_batch scan s) \<Longrightarrow> (k, r) \<in> set (os_outbox s)"
  by (auto simp: scan_batch_def dest!: in_set_takeD)

lemma save_fine: "keeps (nonces_fine s) (save_scan scan)"
  unfolding save_scan_def by (intro keeps_rules outbox_capacity keeps_fine [OF outbox_scan])

lemma scan_due_fine:
  assumes "nonces_fine s t" "(key, r) \<in> set (os_outbox t)"
  shows "nonces_fine s (snd (scan_due W now key r e t))"
proof -
  have rest: "keeps (nonces_fine s) (let e' = case retry of Some t \<Rightarrow> least_retry e t | None \<Rightarrow> e
      in bnd (save_scan \<lparr>sc_after = Some key, sc_earliest_retry_at_ms = e'\<rparr>) (\<lambda>_. bnd (schedule_no_later now) (\<lambda>_. ret True)))" for retry
    unfolding Let_def by (intro keeps_rules save_fine keeps_fine [OF outbox_schedule])
  show ?thesis
    using archive_fine [OF assms, of W] keepsD [OF rest]
    by (cases "advance_operator_archive W key r t"; cases "fst (advance_operator_archive W key r t)") (auto simp: scan_due_def)
qed

lemma scan_fine: "keeps (nonces_fine s) (advance_operator_archive_scan W)"
proof -
  have other: "keeps (nonces_fine s) (scan_exhausted scan)" "keeps (nonces_fine s) (scan_passed now batch e)" for scan now batch e
    unfolding scan_exhausted_def scan_passed_def
    by (intro keeps_rules save_fine keeps_fine [OF outbox_schedule] keeps_fine [OF outbox_scan])+
  have "nonces_fine s (snd (scan_from W now scan t))" if "nonces_fine s t" for now scan t
    using that keepsD [OF other(1)] keepsD [OF other(2)] scan_due_fine [OF that batch_listed [OF due_listed]]
    by (auto simp: scan_from_def run_bnd split: prod.splits option.splits)
  then have "keeps (nonces_fine s) (scan_from W now scan)" for now scan by (rule keepsI)
  then show ?thesis
    unfolding advance_operator_archive_scan_def
    by (intro keeps_rules keeps_fine [OF outbox_schedule]) (auto intro!: keeps_rules keeps_fine [OF outbox_schedule] split: option.split)
qed

lemma route_fine: "keeps (nonces_fine s) (operator_route W verb path body)"
  unfolding operator_route_def read_operator_outbox_status_def Let_def
  by (intro keeps_rules requests_keep keeps_fine [OF outbox_start_scan])

lemma event_fine: "nonces_fine s t \<Longrightarrow> nonces_fine s (operator_event_step W ev t)"
proof (cases ev)
  case (OperatorCall verb path body)
  have "keeps (nonces_fine s) (outbox_fetch W verb path body)"
    unfolding outbox_fetch_def by (intro keeps_rules route_fine keeps_fine [OF outbox_policy])
  then show "nonces_fine s t \<Longrightarrow> ?thesis" by (simp add: OperatorCall keepsD)
next
  case OperatorWake
  have "keeps (nonces_fine s) (outbox_alarm W)"
    unfolding outbox_alarm_def by (intro keeps_rules scan_fine keeps_fine [OF outbox_policy])
  then show "nonces_fine s t \<Longrightarrow> ?thesis" by (simp add: OperatorWake keepsD)
next
  case (OperatorMeanwhile x)
  then show "nonces_fine s t \<Longrightarrow> ?thesis"
    using about_fine [of s] by (simp add: about_outbox_def) 
qed

lemma run_fine: "nonces_fine s t \<Longrightarrow> nonces_fine s (operator_run W evs t)"
  unfolding operator_run_def by (induction evs arbitrary: t) (simp_all add: event_fine)

lemma start_apart: "nonces_apart (operator_start x)"
  by (simp add: nonces_apart_def operator_start_def nonce_at_def)

end
