(* ===== verification/BridgeAdmission.thy ===== *)
theory BridgeAdmission
  imports BridgeChain
begin

text \<open>
  The admission object of the media bridge (\<open>index.ts\<close>): the leases of uploads that may run at once, daily attempts,
  the monthly budget, the seconds booked at Cloudflare Stream, and the circuit that closes admission until an
  operator reopens it. Its bodies come from the bridge itself and carry texts where a text is meant. The clock,
  \<open>crypto.randomUUID\<close> and the Market view are parameters.
\<close>

section \<open>Constants\<close>

definition admission_global_concurrency :: nat where
  "admission_global_concurrency = 2"

definition admission_creator_daily_attempts :: nat where
  "admission_creator_daily_attempts = 2"

definition admission_ambiguous_timeout_ms :: int where
  "admission_ambiguous_timeout_ms = 15 * 60 * 1000"

definition admission_lease_ttl_ms :: int where
  "admission_lease_ttl_ms = 30 * 60 * 1000"

definition admission_lease_heartbeat_ms :: int where
  "admission_lease_heartbeat_ms = 5 * 60 * 1000"

definition admission_provider_failure_limit :: nat where
  "admission_provider_failure_limit = 2"

definition admission_provider_failure_window_ms :: int where
  "admission_provider_failure_window_ms = 60 * 1000"

definition admission_audit_retention_ms :: int where
  "admission_audit_retention_ms = 90 * 24 * 60 * 60 * 1000"

definition lifecycle_delete_batch :: nat where
  "lifecycle_delete_batch = 128"

definition stream_tus_url_lifetime_ms :: int where
  "stream_tus_url_lifetime_ms = 24 * 60 * 60 * 1000"

definition stream_stuck_window_ms :: int where
  "stream_stuck_window_ms = 24 * 60 * 60 * 1000"

definition stream_stuck_history :: nat where
  "stream_stuck_history = 32"

definition admission_closure_codes :: "string list" where
  "admission_closure_codes =
     [''monthly_budget_exceeded'', ''provider_budget_or_inventory'', ''provider_unavailable'', ''create_ambiguous_timeout'']"

section \<open>Records\<close>

datatype slot_state = SlotCreatePending | SlotCreateAmbiguous | SlotUploadReady | SlotUploading | SlotReadyVerified | SlotFinalizeQueued

fun slot_state_name :: "slot_state \<Rightarrow> string" where
  "slot_state_name SlotCreatePending = ''CREATE_PENDING''"
| "slot_state_name SlotCreateAmbiguous = ''CREATE_AMBIGUOUS''"
| "slot_state_name SlotUploadReady = ''UPLOAD_READY''"
| "slot_state_name SlotUploading = ''UPLOADING''"
| "slot_state_name SlotReadyVerified = ''READY_VERIFIED''"
| "slot_state_name SlotFinalizeQueued = ''FINALIZE_QUEUED''"

record admission_reservation =
  av_creator :: string
  av_expected_source_bytes :: string
  av_cost_usd_micros :: string
  av_state :: slot_state
  av_created_at_ms :: int
  av_lease_id :: "string option"
  av_expires_at_ms :: "int option"
  av_last_heartbeat_at_ms :: "int option"
  av_ambiguous_at_ms :: "int option"

record daily_attempts =
  dy_utc_day :: string
  dy_global_attempts :: nat
  dy_creator_attempts :: "(string, nat) table"

record monthly_spend =
  mo_utc_month :: string
  mo_reserved_usd_micros :: nat

record provider_failures =
  pf_count :: nat
  pf_first_observed_at_ms :: int
  pf_last_observed_at_ms :: int

record admission_closure =
  cz_code :: string
  cz_observed_at_ms :: int

record stream_reservation =
  sr_seconds :: int
  sr_created_at_ms :: int
  sr_expires_at_ms :: int

record stream_admission =
  sm_open_reserved_seconds :: int
  sm_reservations :: "(string, stream_reservation) table"
  sm_verified_storage_seconds :: int
  sm_storage_minutes_used :: "rat option"
  sm_storage_observed_at_ms :: "int option"
  sm_stuck_at_ms :: "int list option"
  sm_last_stuck_at_ms :: "int option"

record admission_record =
  am_closed :: bool
  am_reservations :: "(string, admission_reservation) table"
  am_daily :: daily_attempts
  am_monthly :: monthly_spend
  am_failures :: "provider_failures option"
  am_closure :: "admission_closure option"
  am_stream :: "stream_admission option"

record stream_signal =
  sg_last_webhook_at_ms :: "int option"
  sg_storage_minutes_used :: "rat option"
  sg_storage_observed_at_ms :: "int option"

datatype resolution = AbsenceConfirmed | TusTerminated | InventoryReconciled | BudgetRolled

fun resolution_name :: "resolution \<Rightarrow> string" where
  "resolution_name AbsenceConfirmed = ''PROVIDER_ABSENCE_CONFIRMED''"
| "resolution_name TusTerminated = ''TUS_TERMINATION_CONFIRMED''"
| "resolution_name InventoryReconciled = ''INVENTORY_RECONCILED''"
| "resolution_name BudgetRolled = ''BUDGET_WINDOW_ROLLED''"

record reopen_input =
  ri_idempotency_key :: string
  ri_operator_id :: string
  ri_closure_code :: string
  ri_closure_observed_at_ms :: int
  ri_incident_id :: string
  ri_evidence_sha256 :: string
  ri_resolution :: resolution
  ri_job :: "(string \<times> int) option"

record reopen_audit =
  ra_input :: reopen_input
  ra_reopened_at_ms :: int

text \<open>What the object stores, its alarm, and the upload policy its isolate remembers.\<close>

record 's admission_store =
  an_record :: "admission_record option"
  an_audits :: "(string, reopen_audit) table"
  an_signal :: "stream_signal option"
  an_alarm :: "int option"
  an_policy :: "policy_cache option"
  an_outside :: 's

type_synonym ('s, 'a) nact = "('s admission_store, 'a) act"

record 's admission_world =
  aw_env :: bridge_env
  aw_now :: "'s admission_store \<Rightarrow> int"
  aw_uuid :: "'s admission_store \<Rightarrow> string \<Rightarrow> string"
  aw_url :: "string \<Rightarrow> url_parts option"
  aw_near :: "'s near_fetch"

text \<open>A call of the chain runs outside the object and leaves what the object stores.\<close>

definition admission_near :: "'s admission_world \<Rightarrow> 's admission_store near_fetch" where
  "admission_near W body s = (case aw_near W body (an_outside s) of (r, s') \<Rightarrow> (r, s\<lparr>an_outside := s'\<rparr>))"

text \<open>The limit on what the object stores: the record, the signal and the audits.\<close>

datatype admission_key = AdmissionKey | SignalKey | AuditKey string

definition admission_keys :: "'s admission_store \<Rightarrow> admission_key list" where
  "admission_keys s =
     (if an_record s = None then [] else [AdmissionKey]) @ (if an_signal s = None then [] else [SignalKey])
     @ map (\<lambda>(k, a). AuditKey k) (an_audits s)"

definition admission_capacity :: "admission_key list \<Rightarrow> ('s, unit) nact" where
  "admission_capacity keys s = (fst (assert_record_capacity keys (map (\<lambda>k. (k, ())) (admission_keys s))), s)"

definition reservation_key :: "string \<Rightarrow> int \<Rightarrow> string" where
  "reservation_key job_id generation = job_id @ '':'' @ show_int generation"

section \<open>Numbers and days\<close>

text \<open>A quotient, sum or product of doubles is rounded to the nearest double.\<close>

definition to_double :: "rat \<Rightarrow> rat" where
  "to_double q =
     (let (a, b) = quotient_of \<bar>q\<bar>
      in case ratio_double (nat a) (nat b) of Some r \<Rightarrow> if q < 0 then - r else r | None \<Rightarrow> q)"

definition utc_day :: "int \<Rightarrow> string" where
  "utc_day now = take 10 (iso_text now)"

definition utc_month :: "int \<Rightarrow> string" where
  "utc_month now = take 7 (utc_day now)"

definition next_utc_day_ms :: "int \<Rightarrow> int" where
  "next_utc_day_ms now = (now div 86400000 + 1) * 86400000"

section \<open>Candidates\<close>

record admission_candidate =
  cd_job_id :: string
  cd_generation :: int
  cd_creator :: string
  cd_expected_source_bytes :: string
  cd_reserved_seconds :: "int option"
  cd_storage_minutes_used :: "rat option"
  cd_storage_minutes_limit :: "rat option"

definition minutes_ok :: "json option \<Rightarrow> bool" where
  "minutes_ok v = (case v of None \<Rightarrow> True | Some (JNum q) \<Rightarrow> 0 \<le> q | Some _ \<Rightarrow> False)"

definition num_field :: "string \<Rightarrow> json \<Rightarrow> rat option" where
  "num_field k v = (case obj_get k v of Some (JNum q) \<Rightarrow> Some q | _ \<Rightarrow> None)"

definition job_fields_ok :: "json \<Rightarrow> bool" where
  "job_fields_ok v =
     (has_str ''jobId'' v \<and> ident128 (str_of ''jobId'' v)
      \<and> (case json_safe_integer (obj_get ''generation'' v) of Some n \<Rightarrow> 1 \<le> n | None \<Rightarrow> False))"

definition generation_of :: "json \<Rightarrow> int" where
  "generation_of v = the (json_safe_integer (obj_get ''generation'' v))"

definition parse_admission_candidate :: "json \<Rightarrow> string \<Rightarrow> string + admission_candidate" where
  "parse_admission_candidate v code =
     (let extra = filter (\<lambda>k. obj_get k v \<noteq> None) [''reservedSeconds'', ''storageMinutesUsed'', ''storageMinutesLimit''] in
      ebind (require_exact_keys v ([''jobId'', ''generation'', ''creator'', ''expectedSourceBytes''] @ extra) code) (\<lambda>_.
      ebind (erequire ((obj_get ''reservedSeconds'' v = None
                  \<or> (case json_safe_integer (obj_get ''reservedSeconds'' v) of Some n \<Rightarrow> 1 \<le> n | None \<Rightarrow> False))
               \<and> minutes_ok (obj_get ''storageMinutesUsed'' v) \<and> minutes_ok (obj_get ''storageMinutesLimit'' v)) code) (\<lambda>_.
      ebind (erequire (job_fields_ok v \<and> has_str ''creator'' v \<and> payment_account (str_of ''creator'' v)
               \<and> has_str ''expectedSourceBytes'' v \<and> decimal1 19 (str_of ''expectedSourceBytes'' v)) code) (\<lambda>_.
      Inr \<lparr>cd_job_id = str_of ''jobId'' v, cd_generation = generation_of v, cd_creator = str_of ''creator'' v,
           cd_expected_source_bytes = str_of ''expectedSourceBytes'' v,
           cd_reserved_seconds = json_safe_integer (obj_get ''reservedSeconds'' v),
           cd_storage_minutes_used = num_field ''storageMinutesUsed'' v,
           cd_storage_minutes_limit = num_field ''storageMinutesLimit'' v\<rparr>))))"

section \<open>Leases\<close>

text \<open>A lease id or time that is missing in an older record is filled in; what has run out is dropped.\<close>

definition lease_deadline :: "admission_reservation \<Rightarrow> int" where
  "lease_deadline r =
     (if av_state r = SlotCreateAmbiguous then or_else_ms (av_ambiguous_at_ms r) (av_created_at_ms r) + admission_ambiguous_timeout_ms
      else or_else_ms (av_expires_at_ms r) (av_created_at_ms r + admission_lease_ttl_ms))"

definition safe_or :: "int option \<Rightarrow> int \<Rightarrow> int" where
  "safe_or v d = (case v of Some n \<Rightarrow> if safe_integer n then n else d | None \<Rightarrow> d)"

definition normalized_lease :: "(string \<Rightarrow> string) \<Rightarrow> string \<Rightarrow> admission_reservation \<Rightarrow> admission_reservation" where
  "normalized_lease uuid k r =
     r\<lparr>av_lease_id := Some (case av_lease_id r of Some l \<Rightarrow> if lease_id_text l then l else uuid k | None \<Rightarrow> uuid k),
       av_expires_at_ms := Some (safe_or (av_expires_at_ms r) (av_created_at_ms r + admission_lease_ttl_ms)),
       av_last_heartbeat_at_ms := Some (safe_or (av_last_heartbeat_at_ms r) (av_created_at_ms r))\<rparr>"

definition normalize_admission_leases :: "(string \<Rightarrow> string) \<Rightarrow> admission_record \<Rightarrow> int \<Rightarrow> admission_record" where
  "normalize_admission_leases uuid rec now =
     rec\<lparr>am_reservations := filter (\<lambda>(k, r). now < lease_deadline r)
           (map (\<lambda>(k, r). (k, normalized_lease uuid k r)) (am_reservations rec))\<rparr>"

definition live_stream_reservations :: "stream_admission option \<Rightarrow> int \<Rightarrow> (string, stream_reservation) table" where
  "live_stream_reservations stream now =
     (case stream of None \<Rightarrow> [] | Some st \<Rightarrow> filter (\<lambda>(k, r). sr_expires_at_ms r > now) (sm_reservations st))"

definition seconds_sum :: "(string, stream_reservation) table \<Rightarrow> int" where
  "seconds_sum t = sum_list (map (\<lambda>(k, r). sr_seconds r) t)"

text \<open>\<open>withStreamReservations\<close>, with the fields the caller patches as a function.\<close>

definition with_stream_reservations ::
  "stream_admission option \<Rightarrow> (string, stream_reservation) table \<Rightarrow> (stream_admission \<Rightarrow> stream_admission) \<Rightarrow> stream_admission" where
  "with_stream_reservations stream t patch =
     (let base = (case stream of Some st \<Rightarrow> st
        | None \<Rightarrow> \<lparr>sm_open_reserved_seconds = 0, sm_reservations = [], sm_verified_storage_seconds = 0, sm_storage_minutes_used = None,
                   sm_storage_observed_at_ms = None, sm_stuck_at_ms = None, sm_last_stuck_at_ms = None\<rparr>)
      in (patch base)\<lparr>sm_reservations := t, sm_open_reserved_seconds := seconds_sum t\<rparr>)"

definition empty_admission_record :: "int \<Rightarrow> admission_record" where
  "empty_admission_record now =
     \<lparr>am_closed = False, am_reservations = [],
      am_daily = \<lparr>dy_utc_day = utc_day now, dy_global_attempts = 0, dy_creator_attempts = []\<rparr>,
      am_monthly = \<lparr>mo_utc_month = utc_month now, mo_reserved_usd_micros = 0\<rparr>,
      am_failures = None, am_closure = None, am_stream = None\<rparr>"

section \<open>The plan\<close>

text \<open>A denial tells its own creator why and until when; any other refusal is a plain code.\<close>

datatype plan_refusal = Denied string "int option" | Refused string

fun refusal_code :: "plan_refusal \<Rightarrow> string" where
  "refusal_code (Denied reason retry) = ''admission_denied''"
| "refusal_code (Refused code) = code"

record admission_plan =
  pl_record :: admission_record
  pl_key :: string
  pl_created :: bool
  pl_budget_exceeded :: bool
  pl_daily :: daily_attempts
  pl_monthly :: monthly_spend

text \<open>
  \<open>creatorAttempts[creator] || 0\<close> on a plain object: the one inherited name that is an account id, \<open>constructor\<close>, finds
  a function there, then a text, and neither compares as a number: that creator has no attempts.
\<close>

definition attempts_of :: "string \<Rightarrow> daily_attempts \<Rightarrow> nat" where
  "attempts_of creator d =
     (if creator = ''constructor'' then 0 else case tget creator (dy_creator_attempts d) of Some n \<Rightarrow> n | None \<Rightarrow> 0)"

definition plan_start :: "(string \<Rightarrow> string) \<Rightarrow> admission_record option \<Rightarrow> int \<Rightarrow> admission_record" where
  "plan_start uuid stored now =
     (case stored of Some rec \<Rightarrow> normalize_admission_leases uuid rec now | None \<Rightarrow> empty_admission_record now)"

definition reopened_record :: "admission_record \<Rightarrow> admission_record" where
  "reopened_record rec = rec\<lparr>am_closed := False, am_failures := None, am_closure := None\<rparr>"

definition daily_today :: "admission_record \<Rightarrow> int \<Rightarrow> daily_attempts" where
  "daily_today rec now =
     (if dy_utc_day (am_daily rec) = utc_day now then am_daily rec
      else \<lparr>dy_utc_day = utc_day now, dy_global_attempts = 0, dy_creator_attempts = []\<rparr>)"

definition monthly_now :: "admission_record \<Rightarrow> int \<Rightarrow> monthly_spend" where
  "monthly_now rec now =
     (if mo_utc_month (am_monthly rec) = utc_month now then am_monthly rec
      else \<lparr>mo_utc_month = utc_month now, mo_reserved_usd_micros = 0\<rparr>)"

definition admission_concurrency :: "bridge_env \<Rightarrow> nat" where
  "admission_concurrency e = (if is_public_testnet e then 10 else admission_global_concurrency)"

definition open_seconds :: "admission_record \<Rightarrow> string \<Rightarrow> int \<Rightarrow> int" where
  "open_seconds rec key now = seconds_sum (filter (\<lambda>(k, r). k \<noteq> key) (live_stream_reservations (am_stream rec) now))"

text \<open>Stream's reported usage, the open reservations and this cap must fit the capacity.\<close>

definition storage_exceeded :: "bridge_env \<Rightarrow> admission_candidate \<Rightarrow> int \<Rightarrow> int \<Rightarrow> bool" where
  "storage_exceeded e c opened reserved =
     (case cd_storage_minutes_used c of
        None \<Rightarrow> False
      | Some used \<Rightarrow>
          let configured = (case storage_capacity e of Some n \<Rightarrow> of_int n | None \<Rightarrow> 0);
              capacity = (case cd_storage_minutes_limit c of Some l \<Rightarrow> min configured l | None \<Rightarrow> configured)
          in to_double (to_double (used + to_double (of_int opened / 60)) + to_double (of_int reserved / 60)) > capacity)"

definition stream_refusal :: "bridge_env \<Rightarrow> admission_record \<Rightarrow> admission_candidate \<Rightarrow> string \<Rightarrow> int \<Rightarrow> plan_refusal option" where
  "stream_refusal e rec c key now =
     (case cd_reserved_seconds c of
        None \<Rightarrow> None
      | Some reserved \<Rightarrow>
          let opened = open_seconds rec key now in
          if (case reservation_budget e of None \<Rightarrow> True | Some budget \<Rightarrow> opened + reserved > budget)
          then Some (Denied ''reservation_budget'' None)
          else if storage_exceeded e c opened reserved then Some (Refused ''provider_admission_closed'')
          else None)"

definition quota_refusal :: "bridge_env \<Rightarrow> admission_record \<Rightarrow> admission_candidate \<Rightarrow> int \<Rightarrow> plan_refusal option" where
  "quota_refusal e rec c now =
     (let leases = filter (\<lambda>r. av_creator r = cd_creator c) (map snd (am_reservations rec)) in
      if leases \<noteq> [] then Some (Denied ''active_upload'' (Some (Max (set (map lease_deadline leases)))))
      else if attempts_of (cd_creator c) (daily_today rec now) \<ge> admission_creator_daily_attempts
      then Some (Denied ''daily_limit'' (Some (next_utc_day_ms now)))
      else if length (am_reservations rec) \<ge> admission_concurrency e then Some (Denied ''capacity'' None)
      else None)"

definition plan_new :: "bridge_env \<Rightarrow> admission_record \<Rightarrow> admission_candidate \<Rightarrow> int \<Rightarrow> nat \<Rightarrow> nat option \<Rightarrow> plan_refusal + admission_plan" where
  "plan_new e rec c now job_reservation budget =
     (let key = reservation_key (cd_job_id c) (cd_generation c); daily = daily_today rec now; monthly = monthly_now rec now in
      case quota_refusal e rec c now of
        Some r \<Rightarrow> Inl r
      | None \<Rightarrow>
          (case stream_refusal e rec c key now of
             Some r \<Rightarrow> Inl r
           | None \<Rightarrow>
               if (case budget of Some b \<Rightarrow> mo_reserved_usd_micros monthly + job_reservation > b | None \<Rightarrow> False)
               then Inr \<lparr>pl_record = rec\<lparr>am_closed := True, am_daily := daily, am_monthly := monthly,
                           am_closure := Some \<lparr>cz_code = ''monthly_budget_exceeded'', cz_observed_at_ms = now\<rparr>\<rparr>,
                         pl_key = key, pl_created = False, pl_budget_exceeded = True, pl_daily = daily, pl_monthly = monthly\<rparr>
               else Inr \<lparr>pl_record = rec, pl_key = key, pl_created = True, pl_budget_exceeded = False,
                         pl_daily = daily, pl_monthly = monthly\<rparr>))"

definition closed_for_budget :: "admission_record \<Rightarrow> bool" where
  "closed_for_budget rec = (map_option cz_code (am_closure rec) = Some ''monthly_budget_exceeded'')"

definition plan_admission ::
  "bridge_env \<Rightarrow> (string \<Rightarrow> string) \<Rightarrow> admission_record option \<Rightarrow> admission_candidate \<Rightarrow> int \<Rightarrow> nat \<Rightarrow> nat option \<Rightarrow> plan_refusal + admission_plan" where
  "plan_admission e uuid stored c now job_reservation budget =
     (if is_public_testnet e \<and> dec_val (cd_expected_source_bytes c) > 5000000000 then Inl (Denied ''source_too_large'' None)
      else
        let rec = plan_start uuid stored now; key = reservation_key (cd_job_id c) (cd_generation c);
            kept = (\<lambda>exceeded. Inr \<lparr>pl_record = rec, pl_key = key, pl_created = False, pl_budget_exceeded = exceeded,
                      pl_daily = am_daily rec, pl_monthly = am_monthly rec\<rparr>)
        in case tget key (am_reservations rec) of
             Some existing \<Rightarrow>
               if av_creator existing \<noteq> cd_creator c \<or> av_expected_source_bytes existing \<noteq> cd_expected_source_bytes c
               then Inl (Refused ''admission_denied'') else kept False
           | None \<Rightarrow>
               if am_closed rec \<and> \<not> closed_for_budget rec then Inl (Refused ''admission_closed'')
               else if am_closed rec \<and> budget \<noteq> None \<and> mo_utc_month (am_monthly rec) = utc_month now then kept True
               else plan_new e (if am_closed rec then reopened_record rec else rec) c now job_reservation budget)"

section \<open>Operations\<close>

definition now_act :: "'s admission_world \<Rightarrow> ('s, int) nact" where
  "now_act W = reading (aw_now W)"

definition put_record :: "admission_record \<Rightarrow> ('s, unit) nact" where
  "put_record rec = writing (\<lambda>s. s\<lparr>an_record := Some rec\<rparr>)"

text \<open>\<open>maintainAdmissionLifecycle\<close>: ended leases and old audits go, the alarm is set for the next end.\<close>

definition listed_audits :: "'s admission_store \<Rightarrow> (string, reopen_audit) table" where
  "listed_audits s = take lifecycle_delete_batch (sort_key fst (an_audits s))"

definition audit_expired :: "int \<Rightarrow> reopen_audit \<Rightarrow> bool" where
  "audit_expired now a =
     (\<not> safe_integer (ra_reopened_at_ms a) \<or> ra_reopened_at_ms a \<le> now - admission_audit_retention_ms)"

definition lifecycle_deadlines :: "admission_record option \<Rightarrow> (string, reopen_audit) table \<Rightarrow> int \<Rightarrow> int list" where
  "lifecycle_deadlines rec audits now =
     (case rec of Some r \<Rightarrow> map (\<lambda>(k, v). lease_deadline v) (am_reservations r) | None \<Rightarrow> [])
     @ map (\<lambda>(k, a). ra_reopened_at_ms a + admission_audit_retention_ms) (filter (\<lambda>(k, a). \<not> audit_expired now a) audits)"

definition earliest_alarm :: "int option \<Rightarrow> int list \<Rightarrow> int option" where
  "earliest_alarm alarm deadlines = (if deadlines = [] then alarm else Some (Min (set deadlines)))"

definition maintain_admission_lifecycle :: "'s admission_world \<Rightarrow> ('s, unit) nact" where
  "maintain_admission_lifecycle W =
     bnd (now_act W) (\<lambda>now.
     bnd (writing (\<lambda>s. s\<lparr>an_record := map_option (\<lambda>rec. normalize_admission_leases (aw_uuid W s) rec now) (an_record s)\<rparr>)) (\<lambda>_.
     bnd (reading (\<lambda>s. (an_record s, listed_audits s))) (\<lambda>(rec, audits).
     let expired = map fst (filter (\<lambda>(k, a). audit_expired now a) audits)
     in writing (\<lambda>s. s\<lparr>an_audits := filter (\<lambda>(k, a). k \<notin> set expired) (an_audits s),
          an_alarm := earliest_alarm (an_alarm s) (lifecycle_deadlines rec audits now)\<rparr>))))"

definition lease_reply :: "bool \<Rightarrow> string \<Rightarrow> int \<Rightarrow> bridge_reply" where
  "lease_reply created lease_id expires =
     bridge_json (JObj [(''accepted'', JBool True), (''created'', JBool created), (''lease_id'', JStr lease_id),
       (''expires_at_ms'', JStr (show_int expires)), (''heartbeat_interval_ms'', JNum (of_int admission_lease_heartbeat_ms))]) 200"

text \<open>The settings every new lease needs.\<close>

definition admission_limits :: "bridge_env \<Rightarrow> string \<Rightarrow> string + nat \<times> nat option" where
  "admission_limits e creator =
     (case operation_reservation e of
        Some job \<Rightarrow>
          if creator_allowed e creator \<and> (is_public_testnet e \<or> monthly_budget e \<noteq> None) then Inr (job, monthly_budget e)
          else Inl ''admission_closed''
      | None \<Rightarrow> Inl ''admission_closed'')"

definition preflight_admission :: "'s admission_world \<Rightarrow> json \<Rightarrow> ('s, bridge_reply) nact" where
  "preflight_admission W input =
     bnd (lifting (parse_admission_candidate input ''invalid_upload_preflight'')) (\<lambda>c.
     bnd (lifting (admission_limits (aw_env W) (cd_creator c))) (\<lambda>(job, budget).
     bnd (now_act W) (\<lambda>now.
     bnd (reading (\<lambda>s. plan_admission (aw_env W) (aw_uuid W s) (an_record s) c now job budget)) (\<lambda>plan.
       case plan of
         Inl (Denied reason retry) \<Rightarrow>
           ret (bridge_json (JObj ([(''error'', JStr ''admission_denied''), (''reason'', JStr reason)]
             @ (case retry of Some t \<Rightarrow> if t \<noteq> 0 then [(''retry_at_ms'', JNum (of_int t))] else [] | None \<Rightarrow> []))) 409)
       | Inl (Refused code) \<Rightarrow> throw code
       | Inr p \<Rightarrow> bnd (require (\<not> pl_budget_exceeded p) ''admission_closed'') (\<lambda>_.
           ret (bridge_json (JObj [(''available'', JBool True)]) 200))))))"

definition new_lease :: "admission_candidate \<Rightarrow> nat \<Rightarrow> int \<Rightarrow> string \<Rightarrow> admission_reservation" where
  "new_lease c job now uuid =
     \<lparr>av_creator = cd_creator c, av_expected_source_bytes = cd_expected_source_bytes c, av_cost_usd_micros = show_nat job,
      av_state = SlotCreatePending, av_created_at_ms = now, av_lease_id = Some uuid,
      av_expires_at_ms = Some (now + admission_lease_ttl_ms), av_last_heartbeat_at_ms = Some now, av_ambiguous_at_ms = None\<rparr>"

definition booked_stream :: "admission_candidate \<Rightarrow> admission_record \<Rightarrow> string \<Rightarrow> int \<Rightarrow> stream_admission option" where
  "booked_stream c rec key now =
     (case cd_reserved_seconds c of
        None \<Rightarrow> am_stream rec
      | Some seconds \<Rightarrow>
          Some (with_stream_reservations (am_stream rec)
            (tput key \<lparr>sr_seconds = seconds, sr_created_at_ms = now, sr_expires_at_ms = now + stream_tus_url_lifetime_ms\<rparr>
               (live_stream_reservations (am_stream rec) now))
            (\<lambda>st. case cd_storage_minutes_used c of None \<Rightarrow> st
              | Some used \<Rightarrow> st\<lparr>sm_storage_minutes_used := Some used, sm_storage_observed_at_ms := Some now\<rparr>)))"

definition reserved_record :: "admission_plan \<Rightarrow> admission_candidate \<Rightarrow> nat \<Rightarrow> int \<Rightarrow> string \<Rightarrow> admission_record" where
  "reserved_record p c job now uuid =
     (pl_record p)\<lparr>am_reservations := tput (pl_key p) (new_lease c job now uuid) (am_reservations (pl_record p)),
        am_daily := (pl_daily p)\<lparr>dy_global_attempts := dy_global_attempts (pl_daily p) + 1,
          dy_creator_attempts := tput (cd_creator c) (attempts_of (cd_creator c) (pl_daily p) + 1) (dy_creator_attempts (pl_daily p))\<rparr>,
        am_monthly := (pl_monthly p)\<lparr>mo_reserved_usd_micros := mo_reserved_usd_micros (pl_monthly p) + job\<rparr>,
        am_stream := booked_stream c (pl_record p) (pl_key p) now\<rparr>"

text \<open>The transaction: the record it stored, whether a lease was created, and whether the budget is exceeded.\<close>

definition reserve_step :: "'s admission_world \<Rightarrow> admission_candidate \<Rightarrow> nat \<Rightarrow> nat option \<Rightarrow> int \<Rightarrow> ('s, admission_record \<times> bool \<times> bool) nact" where
  "reserve_step W c job budget now =
     atomically (
       bnd (admission_capacity [AdmissionKey]) (\<lambda>_.
       bnd (reading (\<lambda>s. (plan_admission (aw_env W) (aw_uuid W s) (an_record s) c now job budget, aw_uuid W s))) (\<lambda>(plan, uuid).
         case plan of
           Inl refusal \<Rightarrow> throw (refusal_code refusal)
         | Inr p \<Rightarrow>
             let rec = (if pl_created p then reserved_record p c job now (uuid (pl_key p)) else pl_record p) in
             bnd (put_record rec) (\<lambda>_. ret (rec, pl_created p, pl_budget_exceeded p)))))"

definition reserve_admission :: "'s admission_world \<Rightarrow> json \<Rightarrow> ('s, bridge_reply) nact" where
  "reserve_admission W input =
     bnd (lifting (parse_admission_candidate input ''invalid_outbox'')) (\<lambda>c.
     bnd (lifting (admission_limits (aw_env W) (cd_creator c))) (\<lambda>(job, budget).
     bnd (now_act W) (\<lambda>now.
     bnd (reserve_step W c job budget now) (\<lambda>(rec, created, exceeded).
     bnd (require (\<not> exceeded) ''admission_closed'') (\<lambda>_.
       case tget (reservation_key (cd_job_id c) (cd_generation c)) (am_reservations rec) of
         Some lease \<Rightarrow>
           (case (av_lease_id lease, av_expires_at_ms lease) of
              (Some l, Some t) \<Rightarrow>
                bnd (require (l \<noteq> [] \<and> t \<noteq> 0) ''admission_closed'') (\<lambda>_.
                bnd (maintain_admission_lifecycle W) (\<lambda>_. ret (lease_reply created l t)))
            | _ \<Rightarrow> throw ''admission_closed'')
       | None \<Rightarrow> throw ''admission_closed'')))))"

end
