(* ===== verification/BridgeAdmissionOps.thy ===== *)
theory BridgeAdmissionOps
  imports BridgeAdmission
begin

text \<open>
  The other operations of the admission object (\<open>index.ts\<close>): an upload takes its slot again, reports its state, keeps
  its lease alive; an operator reopens a closed circuit; what the object tells of itself; its routes.
\<close>

section \<open>An upload resumes\<close>

definition resumed_lease :: "admission_candidate \<Rightarrow> admission_reservation option \<Rightarrow> int \<Rightarrow> int \<Rightarrow> string \<Rightarrow> admission_reservation" where
  "resumed_lease c existing now deadline uuid =
     \<lparr>av_creator = cd_creator c, av_expected_source_bytes = cd_expected_source_bytes c,
      av_cost_usd_micros = (case existing of Some r \<Rightarrow> if av_cost_usd_micros r \<noteq> [] then av_cost_usd_micros r else ''0'' | None \<Rightarrow> ''0''),
      av_state = SlotUploading, av_created_at_ms = (case existing of Some r \<Rightarrow> av_created_at_ms r | None \<Rightarrow> now),
      av_lease_id = Some (case existing of
          Some r \<Rightarrow> (case av_lease_id r of Some l \<Rightarrow> if l \<noteq> [] then l else uuid | None \<Rightarrow> uuid) | None \<Rightarrow> uuid),
      av_expires_at_ms = Some (min (now + admission_lease_ttl_ms) deadline), av_last_heartbeat_at_ms = Some now,
      av_ambiguous_at_ms = None\<rparr>"

definition resume_allowed :: "admission_record \<Rightarrow> string \<Rightarrow> admission_candidate \<Rightarrow> bool" where
  "resume_allowed rec key c =
     (case tget key (am_reservations rec) of
        Some r \<Rightarrow> av_creator r = cd_creator c \<and> av_expected_source_bytes r = cd_expected_source_bytes c
          \<and> av_state r \<noteq> SlotCreateAmbiguous
      | None \<Rightarrow> length (am_reservations rec) < 10
          \<and> list_all (\<lambda>(k, r). av_creator r \<noteq> cd_creator c) (am_reservations rec))"

definition resume_step :: "'s admission_world \<Rightarrow> admission_candidate \<Rightarrow> int \<Rightarrow> int \<Rightarrow> ('s, admission_reservation) nact" where
  "resume_step W c now deadline =
     (let key = reservation_key (cd_job_id c) (cd_generation c) in
      atomically (
        bnd (reading (\<lambda>s. (map_option (\<lambda>rec. normalize_admission_leases (aw_uuid W s) rec now) (an_record s), aw_uuid W s key))) (\<lambda>(stored, uuid).
        case stored of
          None \<Rightarrow> throw ''admission_denied''
        | Some rec \<Rightarrow>
            bnd (require (resume_allowed rec key c) ''admission_denied'') (\<lambda>_.
            let renewed = resumed_lease c (tget key (am_reservations rec)) now deadline uuid in
            bnd (put_record (rec\<lparr>am_reservations := tput key renewed (am_reservations rec)\<rparr>)) (\<lambda>_. ret renewed)))))"

definition chain_job_matches :: "json \<Rightarrow> admission_candidate \<Rightarrow> bool" where
  "chain_job_matches job c =
     (obj_get ''status'' job = Some (JStr ''Authorized'') \<and> obj_get ''job_id'' job = Some (JStr (cd_job_id c))
      \<and> obj_get ''creator_id'' job = Some (JStr (cd_creator c)) \<and> obj_get ''generation'' job = Some (JNum (of_int (cd_generation c)))
      \<and> obj_get ''expected_source_bytes'' job = Some (JStr (cd_expected_source_bytes c)))"

text \<open>The lease of the reply: a lease just written has its id and end.\<close>

definition leased_reply :: "bool \<Rightarrow> admission_reservation \<Rightarrow> bridge_reply" where
  "leased_reply created r = lease_reply created (the (av_lease_id r)) (the (av_expires_at_ms r))"

definition resume_admission :: "'s admission_world \<Rightarrow> json \<Rightarrow> ('s, bridge_reply) nact" where
  "resume_admission W input =
     bnd (require (is_public_testnet (aw_env W)) ''admission_denied'') (\<lambda>_.
     bnd (lifting (parse_admission_candidate input ''invalid_outbox'')) (\<lambda>c.
     bnd (read_final_media_job (admission_near W) (aw_url W) (aw_env W) (cd_job_id c)) (\<lambda>(job, hash).
     bnd (now_act W) (\<lambda>checked.
     bnd (lifting (public_upload_job_deadline job True checked)) (\<lambda>deadline.
     bnd (require (chain_job_matches job c) ''admission_denied'') (\<lambda>_.
     bnd (now_act W) (\<lambda>now.
     bnd (resume_step W c now deadline) (\<lambda>lease.
     bnd (maintain_admission_lifecycle W) (\<lambda>_.
     ret (leased_reply False lease))))))))))"

section \<open>An upload reports its state\<close>

text \<open>The states a caller may report: where a slot goes on, where it ends, and what the provider did.\<close>

datatype mark_state =
  MarkSlot slot_state
| MarkUploadExpired | MarkProviderFailed | MarkOnchainPublished | MarkCancelled
| MarkAutoClosed
| MarkProviderUnavailable

fun mark_of :: "string \<Rightarrow> mark_state option" where
  "mark_of v =
     (if v = ''CREATE_AMBIGUOUS'' then Some (MarkSlot SlotCreateAmbiguous)
      else if v = ''UPLOAD_READY'' then Some (MarkSlot SlotUploadReady)
      else if v = ''READY_VERIFIED'' then Some (MarkSlot SlotReadyVerified)
      else if v = ''FINALIZE_QUEUED'' then Some (MarkSlot SlotFinalizeQueued)
      else if v = ''UPLOAD_EXPIRED'' then Some MarkUploadExpired
      else if v = ''PROVIDER_FAILED'' then Some MarkProviderFailed
      else if v = ''ONCHAIN_PUBLISHED'' then Some MarkOnchainPublished
      else if v = ''AUTO_CLOSED'' then Some MarkAutoClosed
      else if v = ''CANCELLED'' then Some MarkCancelled
      else if v = ''PROVIDER_UNAVAILABLE'' then Some MarkProviderUnavailable
      else None)"

declare mark_of.simps [simp del]

definition mark_terminal :: "mark_state \<Rightarrow> bool" where
  "mark_terminal m = (m \<in> {MarkUploadExpired, MarkProviderFailed, MarkOnchainPublished, MarkCancelled})"

record mark_input =
  mi_job_id :: string
  mi_generation :: int
  mi_state :: mark_state
  mi_duration_seconds :: "rat option"
  mi_stuck :: bool

definition parse_mark :: "json \<Rightarrow> string + mark_input" where
  "parse_mark v =
     (let code = ''invalid_outbox''; extra = filter (\<lambda>k. obj_get k v \<noteq> None) [''durationSeconds'', ''reason''] in
      ebind (require_exact_keys v ([''jobId'', ''generation'', ''state''] @ extra) code) (\<lambda>_.
      ebind (erequire (minutes_ok (obj_get ''durationSeconds'' v) \<and> obj_get ''reason'' v \<in> {None, Some (JStr ''stuck'')}) code) (\<lambda>_.
      ebind (erequire (job_fields_ok v \<and> has_str ''state'' v) code) (\<lambda>_.
      case mark_of (str_of ''state'' v) of
        None \<Rightarrow> Inl code
      | Some m \<Rightarrow> Inr \<lparr>mi_job_id = str_of ''jobId'' v, mi_generation = generation_of v, mi_state = m,
          mi_duration_seconds = num_field ''durationSeconds'' v, mi_stuck = (obj_get ''reason'' v = Some (JStr ''stuck''))\<rparr>))))"

text \<open>
  \<open>releaseStreamReservation\<close>: at its end, or once Stream counts the real duration, the seconds booked for an upload are
  free again; the duration is added once. \<open>None\<close>: nothing to write.
\<close>

definition stuck_times :: "stream_admission \<Rightarrow> bool \<Rightarrow> int \<Rightarrow> int list" where
  "stuck_times st stuck now =
     (let ts = filter (\<lambda>t. t > now - stream_stuck_window_ms)
                 ((case sm_stuck_at_ms st of Some l \<Rightarrow> l | None \<Rightarrow> []) @ (if stuck then [now] else []))
      in drop (length ts - stream_stuck_history) ts)"

definition released_seconds :: "mark_input \<Rightarrow> stream_reservation option \<Rightarrow> int" where
  "released_seconds m held =
     (case (mi_duration_seconds m, held) of
        (Some d, Some h) \<Rightarrow> if mi_state m = MarkSlot SlotReadyVerified then \<lceil>d\<rceil> else 0
      | _ \<Rightarrow> 0)"

definition release_stream_reservation :: "admission_record \<Rightarrow> string \<Rightarrow> mark_input \<Rightarrow> int \<Rightarrow> admission_record option" where
  "release_stream_reservation rec key m now =
     (case am_stream rec of
        None \<Rightarrow> None
      | Some st \<Rightarrow>
          let held = tget key (sm_reservations st) in
          if (held = None \<and> \<not> mi_stuck m) \<or> \<not> (mark_terminal (mi_state m) \<or> mi_state m = MarkSlot SlotReadyVerified) then None
          else Some (rec\<lparr>am_stream := Some (with_stream_reservations (Some st)
                 (tdel key (live_stream_reservations (Some st) now))
                 (\<lambda>b. b\<lparr>sm_verified_storage_seconds := \<lfloor>to_double (of_int (sm_verified_storage_seconds st + released_seconds m held))\<rfloor>,
                        sm_stuck_at_ms := Some (stuck_times st (mi_stuck m) now),
                        sm_last_stuck_at_ms := (if mi_stuck m then Some now else sm_last_stuck_at_ms b)\<rparr>))\<rparr>))"

definition auto_closed :: "admission_record \<Rightarrow> int \<Rightarrow> admission_record" where
  "auto_closed rec now =
     (if am_closed rec then rec
      else rec\<lparr>am_closed := True, am_closure := Some \<lparr>cz_code = ''provider_budget_or_inventory'', cz_observed_at_ms = now\<rparr>\<rparr>)"

definition count_failure :: "provider_failures option \<Rightarrow> int \<Rightarrow> provider_failures" where
  "count_failure previous now =
     (case previous of
        Some p \<Rightarrow>
          if now - pf_last_observed_at_ms p \<le> admission_provider_failure_window_ms
          then p\<lparr>pf_count := pf_count p + 1, pf_last_observed_at_ms := now\<rparr>
          else \<lparr>pf_count = 1, pf_first_observed_at_ms = now, pf_last_observed_at_ms = now\<rparr>
      | None \<Rightarrow> \<lparr>pf_count = 1, pf_first_observed_at_ms = now, pf_last_observed_at_ms = now\<rparr>)"

text \<open>The provider did not answer: the slot is ambiguous, and the second failure within a minute closes admission.\<close>

definition provider_unavailable :: "admission_record \<Rightarrow> string \<Rightarrow> admission_reservation \<Rightarrow> int \<Rightarrow> admission_record" where
  "provider_unavailable rec key r now =
     (let failures = count_failure (am_failures rec) now; tripped = (pf_count failures \<ge> admission_provider_failure_limit)
      in rec\<lparr>am_closed := tripped \<or> am_closed rec,
             am_reservations := tput key (r\<lparr>av_state := SlotCreateAmbiguous,
               av_ambiguous_at_ms := Some (or_else_ms (av_ambiguous_at_ms r) now)\<rparr>) (am_reservations rec),
             am_failures := Some failures,
             am_closure := (if tripped then Some \<lparr>cz_code = ''provider_unavailable'', cz_observed_at_ms = now\<rparr> else am_closure rec)\<rparr>)"

definition moved_slot :: "slot_state \<Rightarrow> admission_reservation \<Rightarrow> int \<Rightarrow> admission_reservation" where
  "moved_slot st r now =
     (if st = SlotCreateAmbiguous
      then r\<lparr>av_state := st, av_ambiguous_at_ms := Some (or_else_ms (av_ambiguous_at_ms r) now)\<rparr>
      else r\<lparr>av_state := st, av_ambiguous_at_ms := None, av_expires_at_ms := Some (now + admission_lease_ttl_ms),
             av_last_heartbeat_at_ms := Some now\<rparr>)"

definition marked_record :: "admission_record \<Rightarrow> string \<Rightarrow> mark_state \<Rightarrow> int \<Rightarrow> string + admission_record" where
  "marked_record rec key m now =
     (if m = MarkAutoClosed then Inr (auto_closed rec now)
      else case tget key (am_reservations rec) of
        None \<Rightarrow> if mark_terminal m then Inr rec else Inl ''admission_denied''
      | Some r \<Rightarrow>
          (case m of
             MarkProviderUnavailable \<Rightarrow>
               if av_state r = SlotCreateAmbiguous then Inr rec else Inr (provider_unavailable rec key r now)
           | MarkSlot st \<Rightarrow>
               Inr (rec\<lparr>am_reservations := tput key (moved_slot st r now) (am_reservations rec),
                        am_failures := (if st = SlotUploadReady then None else am_failures rec)\<rparr>)
           | _ \<Rightarrow> Inr (rec\<lparr>am_reservations := tdel key (am_reservations rec)\<rparr>)))"

definition mark_step :: "'s admission_world \<Rightarrow> mark_input \<Rightarrow> ('s, unit) nact" where
  "mark_step W m =
     (let key = reservation_key (mi_job_id m) (mi_generation m) in
      atomically (
        bnd (now_act W) (\<lambda>now.
        bnd (reading an_record) (\<lambda>stored.
        case stored of
          None \<Rightarrow> throw ''admission_closed''
        | Some old \<Rightarrow>
            let rec = (case release_stream_reservation old key m now of Some r \<Rightarrow> r | None \<Rightarrow> old) in
            bnd (lifting (marked_record rec key (mi_state m) now)) put_record))))"

definition mark_admission :: "'s admission_world \<Rightarrow> json \<Rightarrow> ('s, bridge_reply) nact" where
  "mark_admission W input =
     bnd (lifting (parse_mark input)) (\<lambda>m.
     bnd (mark_step W m) (\<lambda>_.
     bnd (maintain_admission_lifecycle W) (\<lambda>_.
     ret (bridge_json (JObj [(''accepted'', JBool True)]) 200))))"

section \<open>A lease is kept alive\<close>

definition heartbeat_fields_ok :: "json \<Rightarrow> bool" where
  "heartbeat_fields_ok v = (job_fields_ok v \<and> has_str ''leaseId'' v \<and> lease_id_text (str_of ''leaseId'' v))"

definition beating :: "string \<Rightarrow> admission_reservation \<Rightarrow> bool" where
  "beating lease_id r = (av_state r \<noteq> SlotCreateAmbiguous \<and> av_lease_id r = Some lease_id)"

definition beating_lease :: "admission_record \<Rightarrow> string \<Rightarrow> string \<Rightarrow> admission_reservation option" where
  "beating_lease rec key lease_id =
     (case tget key (am_reservations rec) of Some r \<Rightarrow> if beating lease_id r then Some r else None | None \<Rightarrow> None)"

definition renewed_lease :: "admission_reservation \<Rightarrow> int \<Rightarrow> admission_reservation" where
  "renewed_lease r now =
     r\<lparr>av_state := SlotUploading, av_expires_at_ms := Some (now + admission_lease_ttl_ms), av_last_heartbeat_at_ms := Some now\<rparr>"

definition heartbeat_step :: "'s admission_world \<Rightarrow> string \<Rightarrow> string \<Rightarrow> int \<Rightarrow> ('s, admission_reservation option) nact" where
  "heartbeat_step W key lease_id now =
     atomically (
       bnd (reading (\<lambda>s. map_option (\<lambda>rec. normalize_admission_leases (aw_uuid W s) rec now) (an_record s))) (\<lambda>stored.
       case stored of
         None \<Rightarrow> ret None
       | Some rec \<Rightarrow>
           (case beating_lease rec key lease_id of
              None \<Rightarrow> bnd (put_record rec) (\<lambda>_. ret None)
            | Some r \<Rightarrow>
                let renewed = renewed_lease r now in
                bnd (put_record (rec\<lparr>am_reservations := tput key renewed (am_reservations rec)\<rparr>)) (\<lambda>_. ret (Some renewed)))))"

definition heartbeat_reply :: "admission_reservation \<Rightarrow> bridge_reply" where
  "heartbeat_reply r =
     bridge_json (JObj [(''accepted'', JBool True), (''lease_id'', JStr (the (av_lease_id r))),
       (''expires_at_ms'', JStr (show_int (the (av_expires_at_ms r)))),
       (''heartbeat_interval_ms'', JNum (of_int admission_lease_heartbeat_ms))]) 200"

definition heartbeat_admission :: "'s admission_world \<Rightarrow> json \<Rightarrow> ('s, bridge_reply) nact" where
  "heartbeat_admission W input =
     bnd (lifting (require_exact_keys input [''jobId'', ''generation'', ''leaseId''] ''invalid_outbox'')) (\<lambda>_.
     bnd (require (heartbeat_fields_ok input) ''invalid_outbox'') (\<lambda>_.
     bnd (now_act W) (\<lambda>now.
     bnd (heartbeat_step W (reservation_key (str_of ''jobId'' input) (generation_of input)) (str_of ''leaseId'' input) now) (\<lambda>result.
       case result of
         None \<Rightarrow> throw ''admission_denied''
       | Some r \<Rightarrow>
           bnd (require (av_expires_at_ms r \<noteq> Some 0) ''admission_denied'') (\<lambda>_.
           bnd (maintain_admission_lifecycle W) (\<lambda>_. ret (heartbeat_reply r)))))))"

section \<open>An operator reopens\<close>

definition resolution_of :: "string \<Rightarrow> resolution option" where
  "resolution_of v = find (\<lambda>r. resolution_name r = v) [AbsenceConfirmed, TusTerminated, InventoryReconciled, BudgetRolled]"

definition job_resolution :: "resolution \<Rightarrow> bool" where
  "job_resolution r = (r \<in> {AbsenceConfirmed, TusTerminated})"

text \<open>Which resolution answers which closure.\<close>

definition resolution_fits :: "string \<Rightarrow> resolution \<Rightarrow> bool" where
  "resolution_fits code r =
     (\<not> (code = ''monthly_budget_exceeded'' \<and> r \<noteq> BudgetRolled) \<and> \<not> (code = ''create_ambiguous_timeout'' \<and> \<not> job_resolution r)
      \<and> \<not> (code = ''provider_budget_or_inventory'' \<and> r = BudgetRolled) \<and> \<not> (code = ''provider_unavailable'' \<and> r \<noteq> InventoryReconciled))"

definition reopen_job :: "json \<Rightarrow> resolution \<Rightarrow> (string \<times> int) option option" where
  "reopen_job v r =
     (if job_resolution r then (if job_fields_ok v then Some (Some (str_of ''jobId'' v, generation_of v)) else None)
      else if obj_get ''jobId'' v = Some JNull \<and> obj_get ''generation'' v = Some JNull then Some None else None)"

definition parse_admission_reopen_input :: "json \<Rightarrow> string + reopen_input" where
  "parse_admission_reopen_input v =
     (let code = ''invalid_admission_reopen'' in
      ebind (require_exact_keys v [''idempotencyKey'', ''operatorId'', ''closureCode'', ''closureObservedAtMs'', ''incidentId'',
               ''evidenceSha256'', ''resolutionCode'', ''jobId'', ''generation''] code) (\<lambda>_.
      ebind (erequire (has_str ''idempotencyKey'' v \<and> provider_id_text (str_of ''idempotencyKey'' v)
               \<and> has_str ''operatorId'' v \<and> ident128 (str_of ''operatorId'' v)
               \<and> has_str ''closureCode'' v \<and> str_of ''closureCode'' v \<in> set admission_closure_codes
               \<and> has_str ''incidentId'' v \<and> ident128 (str_of ''incidentId'' v)
               \<and> has_str ''evidenceSha256'' v \<and> hex64 (str_of ''evidenceSha256'' v)
               \<and> has_str ''resolutionCode'' v) code) (\<lambda>_.
      case (json_safe_integer (obj_get ''closureObservedAtMs'' v), resolution_of (str_of ''resolutionCode'' v)) of
        (Some observed, Some r) \<Rightarrow>
          (case reopen_job v r of
             None \<Rightarrow> Inl code
           | Some job \<Rightarrow>
               ebind (erequire (1 \<le> observed \<and> resolution_fits (str_of ''closureCode'' v) r) code) (\<lambda>_.
               Inr \<lparr>ri_idempotency_key = str_of ''idempotencyKey'' v, ri_operator_id = str_of ''operatorId'' v,
                    ri_closure_code = str_of ''closureCode'' v, ri_closure_observed_at_ms = observed,
                    ri_incident_id = str_of ''incidentId'' v, ri_evidence_sha256 = str_of ''evidenceSha256'' v,
                    ri_resolution = r, ri_job = job\<rparr>))
      | _ \<Rightarrow> Inl code)))"

definition closure_matches :: "admission_record \<Rightarrow> reopen_input \<Rightarrow> bool" where
  "closure_matches rec ri =
     (am_closed rec \<and> (case am_closure rec of None \<Rightarrow> False
        | Some cz \<Rightarrow> cz_code cz = ri_closure_code ri \<and> cz_observed_at_ms cz = ri_closure_observed_at_ms ri))"

text \<open>The slots left after the operator's resolution; \<open>None\<close>: the named slot is not an ambiguous one.\<close>

definition resolved_slots :: "(string, admission_reservation) table \<Rightarrow> reopen_input \<Rightarrow> (string, admission_reservation) table option" where
  "resolved_slots slots ri =
     (case ri_job ri of
        Some (job_id, generation) \<Rightarrow>
          let key = reservation_key job_id generation in
          if map_option av_state (tget key slots) = Some SlotCreateAmbiguous then Some (tdel key slots) else None
      | None \<Rightarrow>
          if ri_closure_code ri = ''provider_unavailable'' \<and> ri_resolution ri = InventoryReconciled
          then Some (filter (\<lambda>(k, r). av_state r \<noteq> SlotCreateAmbiguous) slots) else Some slots)"

text \<open>\<open>Math.round\<close> of a double.\<close>

definition reopened_stream :: "stream_admission \<Rightarrow> stream_admission" where
  "reopened_stream st =
     st\<lparr>sm_verified_storage_seconds := (case sm_storage_minutes_used st of None \<Rightarrow> 0 | Some q \<Rightarrow> \<lfloor>to_double (q * 60) + 1 / 2\<rfloor>)\<rparr>"

definition operator_reopened :: "admission_record \<Rightarrow> (string, admission_reservation) table \<Rightarrow> admission_record" where
  "operator_reopened rec slots =
     rec\<lparr>am_closed := False, am_reservations := slots, am_failures := None, am_closure := None,
         am_stream := map_option reopened_stream (am_stream rec)\<rparr>"

definition reopen_step :: "'s admission_world \<Rightarrow> reopen_input \<Rightarrow> ('s, bool) nact" where
  "reopen_step W ri =
     atomically (
       bnd (reading (\<lambda>s. (tget (ri_idempotency_key ri) (an_audits s), an_record s))) (\<lambda>(existing, stored).
       case existing of
         Some audit \<Rightarrow> bnd (require (ra_input audit = ri) ''admission_reopen_conflict'') (\<lambda>_. ret True)
       | None \<Rightarrow>
           (case stored of
              None \<Rightarrow> throw ''admission_reopen_denied''
            | Some rec \<Rightarrow>
                bnd (require (closure_matches rec ri) ''admission_reopen_denied'') (\<lambda>_.
                bnd (admission_capacity [AuditKey (ri_idempotency_key ri)]) (\<lambda>_.
                case resolved_slots (am_reservations rec) ri of
                  None \<Rightarrow> throw ''admission_reopen_denied''
                | Some slots \<Rightarrow>
                    bnd (now_act W) (\<lambda>now.
                    bnd (require (\<not> (ri_resolution ri = BudgetRolled \<and> mo_utc_month (am_monthly rec) = utc_month now)) ''admission_reopen_denied'') (\<lambda>_.
                    bnd (put_record (operator_reopened rec slots)) (\<lambda>_.
                    bnd (now_act W) (\<lambda>at_ms.
                    bnd (writing (\<lambda>s. s\<lparr>an_audits := tput (ri_idempotency_key ri) \<lparr>ra_input = ri, ra_reopened_at_ms = at_ms\<rparr> (an_audits s)\<rparr>)) (\<lambda>_.
                    ret False))))))))))"

definition reopen_admission :: "'s admission_world \<Rightarrow> json \<Rightarrow> ('s, bridge_reply) nact" where
  "reopen_admission W input =
     bnd (lifting (parse_admission_reopen_input input)) (\<lambda>ri.
     bnd (reopen_step W ri) (\<lambda>replayed.
     bnd (maintain_admission_lifecycle W) (\<lambda>_.
     ret (bridge_json (JObj [(''accepted'', JBool True), (''reopened'', JBool True), (''replayed'', JBool replayed)])
       (if replayed then 200 else 201)))))"

section \<open>Stream signals and reports\<close>

definition parse_stream_signal :: "json \<Rightarrow> string + int option \<times> rat option" where
  "parse_stream_signal v =
     (let keys = filter (\<lambda>k. obj_get k v \<noteq> None) [''lastWebhookAtMs'', ''storageMinutesUsed'']; code = ''invalid_outbox'' in
      ebind (require_exact_keys v keys code) (\<lambda>_.
      ebind (erequire (keys \<noteq> []
               \<and> (obj_get ''lastWebhookAtMs'' v = None \<or> json_safe_integer (obj_get ''lastWebhookAtMs'' v) \<noteq> None)
               \<and> minutes_ok (obj_get ''storageMinutesUsed'' v)) code) (\<lambda>_.
      Inr (json_safe_integer (obj_get ''lastWebhookAtMs'' v), num_field ''storageMinutesUsed'' v))))"

definition or_old :: "'a option \<Rightarrow> 'a option \<Rightarrow> 'a option" where
  "or_old v old = (case v of Some x \<Rightarrow> Some x | None \<Rightarrow> old)"

definition merged_signal :: "stream_signal option \<Rightarrow> int option \<times> rat option \<Rightarrow> int \<Rightarrow> stream_signal" where
  "merged_signal previous inp now =
     (let old = (case previous of Some p \<Rightarrow> p
        | None \<Rightarrow> \<lparr>sg_last_webhook_at_ms = None, sg_storage_minutes_used = None, sg_storage_observed_at_ms = None\<rparr>)
      in \<lparr>sg_last_webhook_at_ms = or_old (fst inp) (sg_last_webhook_at_ms old),
          sg_storage_minutes_used = or_old (snd inp) (sg_storage_minutes_used old),
          sg_storage_observed_at_ms = (if snd inp = None then sg_storage_observed_at_ms old else Some now)\<rparr>)"

definition record_stream_signal :: "'s admission_world \<Rightarrow> json \<Rightarrow> ('s, bridge_reply) nact" where
  "record_stream_signal W input =
     bnd (lifting (parse_stream_signal input)) (\<lambda>inp.
     bnd (atomically (
       bnd (reading an_signal) (\<lambda>previous.
       bnd (if previous = None then admission_capacity [SignalKey] else ret ()) (\<lambda>_.
       bnd (now_act W) (\<lambda>now.
       writing (\<lambda>s. s\<lparr>an_signal := Some (merged_signal previous inp now)\<rparr>)))))) (\<lambda>_.
     ret (bridge_json (JObj [(''accepted'', JBool True)]) 200)))"

definition int_or_null :: "int option \<Rightarrow> json" where
  "int_or_null v = (case v of Some n \<Rightarrow> JNum (of_int n) | None \<Rightarrow> JNull)"

text \<open>The later observation of the storage in use counts.\<close>

definition storage_minutes_now :: "stream_admission option \<Rightarrow> stream_signal option \<Rightarrow> rat option" where
  "storage_minutes_now st sg =
     (let used = (case st of Some x \<Rightarrow> sm_storage_minutes_used x | None \<Rightarrow> None);
          seen = (case st of Some x \<Rightarrow> sm_storage_observed_at_ms x | None \<Rightarrow> None);
          used' = (case sg of Some x \<Rightarrow> sg_storage_minutes_used x | None \<Rightarrow> None);
          seen' = (case sg of Some x \<Rightarrow> sg_storage_observed_at_ms x | None \<Rightarrow> None);
          ms = (\<lambda>v. case v of Some n \<Rightarrow> n | None \<Rightarrow> -1)
      in if ms seen' \<ge> ms seen then or_old used' used else or_old used used')"

definition read_stream_admission_status :: "'s admission_world \<Rightarrow> ('s, bridge_reply) nact" where
  "read_stream_admission_status W =
     bnd (reading (\<lambda>s. (Option.bind (an_record s) am_stream, an_signal s))) (\<lambda>(st, sg).
     bnd (now_act W) (\<lambda>now.
     ret (bridge_json (JObj
       [(''openReservedSeconds'', JNum (of_int (seconds_sum (live_stream_reservations st now)))),
        (''reservationBudgetSeconds'', int_or_null (reservation_budget (aw_env W))),
        (''storageMinutesUsed'', (case storage_minutes_now st sg of Some q \<Rightarrow> JNum q | None \<Rightarrow> JNull)),
        (''storageMinutesCapacity'', int_or_null (storage_capacity (aw_env W))),
        (''lastWebhookAtMs'', int_or_null (Option.bind sg sg_last_webhook_at_ms)),
        (''stuckProcessingJobs'', JNum (of_nat (length (filter (\<lambda>t. t > now - stream_stuck_window_ms)
           (case Option.bind st sm_stuck_at_ms of Some l \<Rightarrow> l | None \<Rightarrow> []))))),
        (''lastStuckAtMs'', int_or_null (Option.bind st sm_last_stuck_at_ms))]) 200)))"

section \<open>The status an operator reads\<close>

definition ms_member :: "string \<Rightarrow> int option \<Rightarrow> (string \<times> json) list" where
  "ms_member k v = (case v of Some n \<Rightarrow> [(k, JNum (of_int n))] | None \<Rightarrow> [])"

definition reservation_json :: "admission_reservation \<Rightarrow> json" where
  "reservation_json r = JObj
     ([(''creator'', JStr (av_creator r)), (''expectedSourceBytes'', JStr (av_expected_source_bytes r)),
       (''estimatedProviderCostUsdMicros'', JStr (av_cost_usd_micros r)), (''state'', JStr (slot_state_name (av_state r))),
       (''createdAtMs'', JNum (of_int (av_created_at_ms r)))]
      @ account_field ''leaseId'' (av_lease_id r) @ ms_member ''expiresAtMs'' (av_expires_at_ms r)
      @ ms_member ''lastHeartbeatAtMs'' (av_last_heartbeat_at_ms r) @ ms_member ''ambiguousAtMs'' (av_ambiguous_at_ms r))"

definition closure_json :: "admission_closure \<Rightarrow> json" where
  "closure_json c = JObj [(''code'', JStr (cz_code c)), (''observedAtMs'', JNum (of_int (cz_observed_at_ms c)))]"

definition failures_json :: "provider_failures \<Rightarrow> json" where
  "failures_json f = JObj [(''count'', JNum (of_nat (pf_count f))), (''firstObservedAtMs'', JNum (of_int (pf_first_observed_at_ms f))),
     (''lastObservedAtMs'', JNum (of_int (pf_last_observed_at_ms f)))]"

definition daily_json :: "daily_attempts \<Rightarrow> json" where
  "daily_json d = JObj [(''utcDay'', JStr (dy_utc_day d)), (''globalAttempts'', JNum (of_nat (dy_global_attempts d))),
     (''creatorAttempts'', JObj (map (\<lambda>(k, n). (k, JNum (of_nat n))) (dy_creator_attempts d)))]"

definition monthly_json :: "monthly_spend \<Rightarrow> json" where
  "monthly_json m = JObj [(''utcMonth'', JStr (mo_utc_month m)), (''reservedBudgetUsdMicros'', JStr (show_nat (mo_reserved_usd_micros m)))]"

definition json_or_null :: "('a \<Rightarrow> json) \<Rightarrow> 'a option \<Rightarrow> json" where
  "json_or_null f v = (case v of Some x \<Rightarrow> f x | None \<Rightarrow> JNull)"

definition admission_limits_json :: "bridge_env \<Rightarrow> json" where
  "admission_limits_json e = JObj
     [(''globalConcurrency'', JNum (of_nat (admission_concurrency e))), (''creatorConcurrency'', JNum 1),
      (''creatorDailyAttempts'', JNum (of_nat admission_creator_daily_attempts)),
      (''ambiguousTimeoutMs'', JNum (of_int admission_ambiguous_timeout_ms)), (''leaseTtlMs'', JNum (of_int admission_lease_ttl_ms)),
      (''leaseHeartbeatMs'', JNum (of_int admission_lease_heartbeat_ms)),
      (''providerFailureLimit'', JNum (of_nat admission_provider_failure_limit)),
      (''providerFailureWindowMs'', JNum (of_int admission_provider_failure_window_ms))]"

definition read_admission_status :: "'s admission_world \<Rightarrow> ('s, bridge_reply) nact" where
  "read_admission_status W =
     bnd (reading an_record) (\<lambda>rec.
     let e = aw_env W; n = operation_reservation e in
     ret (bridge_json (JObj
       [(''schema'', JStr ''youtick.livepeer-admission-status.v1''),
        (''status'', JStr (case rec of None \<Rightarrow> ''UNINITIALIZED'' | Some r \<Rightarrow> if am_closed r then ''AUTO_CLOSED'' else ''OPEN'')),
        (''limits'', admission_limits_json e),
        (''closure'', json_or_null closure_json (Option.bind rec am_closure)),
        (''providerFailures'', json_or_null failures_json (Option.bind rec am_failures)),
        (''reservations'', JObj (case rec of None \<Rightarrow> [] | Some r \<Rightarrow> map (\<lambda>(k, v). (k, reservation_json v)) (am_reservations r))),
        (''daily'', json_or_null (\<lambda>r. daily_json (am_daily r)) rec),
        (''monthly'', JObj
           [(''current'', json_or_null (\<lambda>r. monthly_json (am_monthly r)) rec),
            (''configuredBudgetUsdMicros'', json_or_null (\<lambda>b. JStr (show_nat b)) (monthly_budget e)),
            (''configuredJobReservationUsdMicros'',
              (if is_public_testnet e then JNull
               else JStr (case n of Some k \<Rightarrow> if k = 0 then [] else show_nat k | None \<Rightarrow> [])))])]) 200))"

section \<open>Routes\<close>

text \<open>A public deployment first checks its upload policy; the read may be answered from the isolate's memory.\<close>

definition admission_policy :: "'s admission_world \<Rightarrow> ('s, unit) nact" where
  "admission_policy W =
     (if is_public_testnet (aw_env W)
      then bnd (require_public_upload_policy (admission_near W) (aw_url W) (aw_now W) an_policy (\<lambda>c s. s\<lparr>an_policy := c\<rparr>) (aw_env W) False) (\<lambda>_. ret ())
      else ret ())"

definition with_body :: "bytes \<Rightarrow> (json \<Rightarrow> ('s, bridge_reply) nact) \<Rightarrow> ('s, bridge_reply) nact" where
  "with_body body k = bnd (lifting (read_json_object body)) k"

definition admission_route :: "'s admission_world \<Rightarrow> string \<Rightarrow> string \<Rightarrow> bytes \<Rightarrow> ('s, bridge_reply) nact" where
  "admission_route W verb path body =
     (if verb = ''POST'' \<and> path = ''/internal/admission/reserve'' then with_body body (reserve_admission W)
      else if verb = ''POST'' \<and> path = ''/internal/admission/resume'' then with_body body (resume_admission W)
      else if verb = ''POST'' \<and> path = ''/internal/admission/preflight'' then with_body body (preflight_admission W)
      else if verb = ''POST'' \<and> path = ''/internal/admission/mark'' then with_body body (mark_admission W)
      else if verb = ''POST'' \<and> path = ''/internal/admission/stream-signal'' then with_body body (record_stream_signal W)
      else if verb = ''GET'' \<and> path = ''/internal/admission/stream-status'' then read_stream_admission_status W
      else if verb = ''POST'' \<and> path = ''/internal/admission/heartbeat'' then with_body body (heartbeat_admission W)
      else if verb = ''POST'' \<and> path = ''/internal/admission/reopen'' then with_body body (reopen_admission W)
      else if verb = ''GET'' \<and> path = ''/internal/admission/status'' then read_admission_status W
      else ret (bridge_json (JObj [(''error'', JStr ''not_found'')]) 404))"

definition admission_fetch :: "'s admission_world \<Rightarrow> string \<Rightarrow> string \<Rightarrow> bytes \<Rightarrow> ('s, bridge_reply) nact" where
  "admission_fetch W verb path body =
     catch (bnd (admission_policy W) (\<lambda>_. admission_route W verb path body)) (\<lambda>e. ret (bridge_error e))"

text \<open>The alarm of an object that holds an admission record.\<close>

definition admission_alarm :: "'s admission_world \<Rightarrow> ('s, unit) nact" where
  "admission_alarm W =
     bnd (admission_policy W) (\<lambda>_.
     bnd (reading an_record) (\<lambda>rec. if rec = None then ret () else maintain_admission_lifecycle W))"

end
