(* ===== verification/BridgeAdmissionLaws.thy ===== *)
theory BridgeAdmissionLaws
  imports BridgeAdmissionOps
begin

text \<open>
  What a run of the admission object keeps. The contract of a law (\<open>admission_law\<close>, and \<open>reopen_law\<close> for the one operation
  an operator adds) asks only what each operation does to the record; every route, the alarm and any run then keep it. It
  is used twice: for the quotas, and for a closed circuit.
\<close>

section \<open>Runs\<close>

text \<open>A request, the alarm, or the passing of time and of everything else outside the object.\<close>

datatype 's admission_event = AdmissionCall string string bytes | AdmissionWake | AdmissionMeanwhile 's

fun admission_event_step :: "'s admission_world \<Rightarrow> 's admission_event \<Rightarrow> 's admission_store \<Rightarrow> 's admission_store" where
  "admission_event_step W (AdmissionCall verb path body) s = snd (admission_fetch W verb path body s)"
| "admission_event_step W AdmissionWake s = snd (admission_alarm W s)"
| "admission_event_step W (AdmissionMeanwhile x) s = s\<lparr>an_outside := x\<rparr>"

definition admission_run :: "'s admission_world \<Rightarrow> 's admission_event list \<Rightarrow> 's admission_store \<Rightarrow> 's admission_store" where
  "admission_run W evs s = foldl (\<lambda>t ev. admission_event_step W ev t) s evs"

definition admission_start :: "'s \<Rightarrow> 's admission_store" where
  "admission_start x = \<lparr>an_record = None, an_audits = [], an_signal = None, an_alarm = None, an_policy = None, an_outside = x\<rparr>"

fun reopens :: "'s admission_event \<Rightarrow> bool" where
  "reopens (AdmissionCall verb path body) = (verb = ''POST'' \<and> path = ''/internal/admission/reopen'')"
| "reopens ev = False"

section \<open>Slots\<close>

definition slots_ok :: "nat \<Rightarrow> (string, admission_reservation) table \<Rightarrow> bool" where
  "slots_ok n t = (distinct (map fst t) \<and> distinct (map (\<lambda>(k, r). av_creator r) t) \<and> length t \<le> n)"

lemma slots_filter: "slots_ok n t \<Longrightarrow> slots_ok n (filter P t)"
  by (auto simp: slots_ok_def distinct_map_filter intro: order.trans [OF length_filter_le])

lemma slots_tdel: "slots_ok n t \<Longrightarrow> slots_ok n (tdel k t)"
  by (simp add: tdel_filter slots_filter)

lemma slots_map: "slots_ok n t \<Longrightarrow> (\<And>k r. av_creator (f k r) = av_creator r) \<Longrightarrow> slots_ok n (map (\<lambda>(k, r). (k, f k r)) t)"
  by (simp add: slots_ok_def comp_def case_prod_unfold)

lemma slots_same: "slots_ok n t \<Longrightarrow> tget k t = Some r \<Longrightarrow> av_creator v = av_creator r \<Longrightarrow> slots_ok n (tput k v t)"
  by (simp add: slots_ok_def keys_tput map_tput_same [where f = av_creator] length_tput_same)

lemma slots_new:
  "slots_ok n t \<Longrightarrow> tget k t = None \<Longrightarrow> list_all (\<lambda>(k, r). av_creator r \<noteq> av_creator v) t \<Longrightarrow> length t < n \<Longrightarrow> slots_ok n (tput k v t)"
  by (auto simp: slots_ok_def tput_new tget_def map_of_eq_None_iff list_all_iff)

section \<open>Seconds booked at Stream\<close>

lemma seconds_nonneg: "list_all (\<lambda>(k, r). 1 \<le> sr_seconds r) t \<Longrightarrow> 0 \<le> seconds_sum t"
  unfolding seconds_sum_def by (induction t) auto

lemma seconds_filter: "list_all (\<lambda>(k, r). 1 \<le> sr_seconds r) t \<Longrightarrow> seconds_sum (filter P t) \<le> seconds_sum t"
  unfolding seconds_sum_def by (induction t) auto

lemma keep_other: "k \<notin> fst ` set t \<Longrightarrow> filter (\<lambda>(k', v). k' \<noteq> k) t = t"
  by (induction t) auto

lemma seconds_tput:
  "distinct (map fst t) \<Longrightarrow> seconds_sum (tput k v t) = seconds_sum (filter (\<lambda>(k', r). k' \<noteq> k) t) + sr_seconds v"
proof (induction t)
  case (Cons x t)
  then show ?case
    by (cases x; cases "fst x = k") (auto simp: seconds_sum_def tput_def keep_other)
qed (simp add: seconds_sum_def tput_def)

definition stream_ok :: "bridge_env \<Rightarrow> stream_admission \<Rightarrow> bool" where
  "stream_ok e st =
     (distinct (map fst (sm_reservations st)) \<and> list_all (\<lambda>(k, r). 1 \<le> sr_seconds r) (sm_reservations st)
      \<and> sm_open_reserved_seconds st = seconds_sum (sm_reservations st)
      \<and> (sm_reservations st = []
         \<or> (case reservation_budget e of Some b \<Rightarrow> sm_open_reserved_seconds st \<le> b | None \<Rightarrow> False)))"

lemma live_stream: "\<exists>P. live_stream_reservations (Some st) now = filter P (sm_reservations st)"
  unfolding live_stream_reservations_def by auto

lemma stream_shrunk:
  assumes "stream_ok e st" "sm_reservations st' = filter P (sm_reservations st)"
    "sm_open_reserved_seconds st' = seconds_sum (sm_reservations st')"
  shows "stream_ok e st'"
  using assms seconds_filter [of "sm_reservations st" P]
  by (auto simp: stream_ok_def distinct_map_filter list_all_filter split: option.splits)

section \<open>The contract of a law\<close>

definition valid_candidate :: "admission_candidate \<Rightarrow> bool" where
  "valid_candidate c = (case cd_reserved_seconds c of Some n \<Rightarrow> 1 \<le> n | None \<Rightarrow> True)"

lemma parsed_candidate: "parse_admission_candidate v code = Inr c \<Longrightarrow> valid_candidate c"
  by (auto simp: parse_admission_candidate_def Let_def ebind_Inr_iff erequire_def valid_candidate_def split: if_splits option.splits)

lemma limits_budget: "admission_limits e creator = Inr (job, budget) \<Longrightarrow> budget = monthly_budget e"
  by (auto simp: admission_limits_def split: option.splits if_splits)

locale admission_law =
  fixes e :: bridge_env
    and I :: "admission_record option \<Rightarrow> bool"
  assumes law_normalize: "I (Some rec) \<Longrightarrow> I (Some (normalize_admission_leases u rec now))"
    and law_reserve: "I stored \<Longrightarrow> valid_candidate c \<Longrightarrow> plan_admission e u stored c now job (monthly_budget e) = Inr p \<Longrightarrow>
      I (Some (if pl_created p then reserved_record p c job now uuid else pl_record p))"
    and law_resume: "is_public_testnet e \<Longrightarrow> I (Some rec) \<Longrightarrow> resume_allowed rec key c \<Longrightarrow>
      I (Some (rec\<lparr>am_reservations := tput key (resumed_lease c (tget key (am_reservations rec)) now deadline uuid) (am_reservations rec)\<rparr>))"
    and law_release: "I (Some rec) \<Longrightarrow> release_stream_reservation rec key m now = Some rec' \<Longrightarrow> I (Some rec')"
    and law_mark: "I (Some rec) \<Longrightarrow> marked_record rec key ms now = Inr rec' \<Longrightarrow> I (Some rec')"
    and law_heartbeat: "I (Some rec) \<Longrightarrow> beating_lease rec key lease_id = Some r \<Longrightarrow>
      I (Some (rec\<lparr>am_reservations := tput key (renewed_lease r now) (am_reservations rec)\<rparr>))"
begin

definition law_held :: "'s admission_store \<Rightarrow> bool" where
  "law_held s = I (an_record s)"

lemma law_held_map: "I stored \<Longrightarrow> I (map_option (\<lambda>rec. normalize_admission_leases u rec now) stored)"
  by (cases stored) (simp_all add: law_normalize)

lemma keeps_now: "keeps law_held (now_act W)"
  by (simp add: now_act_def)

lemma keeps_capacity: "keeps law_held (admission_capacity ks)"
  by (simp add: keeps_def admission_capacity_def)

lemma keeps_lifecycle: "keeps law_held (maintain_admission_lifecycle W)"
  unfolding maintain_admission_lifecycle_def Let_def
  by (intro keeps_bnd keeps_prod keeps_writing keeps_now keeps_reading) (simp_all add: law_held_def law_held_map)

lemma keeps_near: "keeps law_held (admission_near W body)"
  by (auto simp: keeps_def law_held_def admission_near_def split: prod.splits)

lemma keeps_view: "keeps law_held (read_public_testnet_view (admission_near W) e' verb args)"
  unfolding read_public_testnet_view_def near_rpc_query_def near_rpc_raw_def Let_def
  by (intro keeps_rules keeps_near) (auto split: json.split option.split)

lemma keeps_policy: "keeps law_held (admission_policy W)"
  unfolding admission_policy_def require_public_upload_policy_def
  by (intro keeps_rules keeps_view keeps_writing) (simp_all add: law_held_def)

lemma keeps_final_job: "keeps law_held (read_final_media_job (admission_near W) U e' job_id)"
  unfolding read_final_media_job_def
  by (intro keeps_rules keeps_near)

lemma keeps_reserve_step: "valid_candidate c \<Longrightarrow> aw_env W = e \<Longrightarrow> keeps law_held (reserve_step W c job (monthly_budget (aw_env W)) now)"
  by (simp) (auto simp: keeps_def law_held_def reserve_step_def run_atomically run_bnd admission_capacity_def put_record_def Let_def law_reserve
    split: sum.splits prod.splits)

lemma keeps_reserve: "aw_env W = e \<Longrightarrow> keeps law_held (reserve_admission W input)"
  unfolding reserve_admission_def
  by (intro keeps_lifting_bnd)
    (auto dest!: limits_budget parsed_candidate intro!: keeps_rules keeps_reserve_step keeps_now keeps_lifecycle split: option.split prod.split)

lemma keeps_preflight: "keeps law_held (preflight_admission W input)"
  unfolding preflight_admission_def
  by (intro keeps_rules keeps_now) (auto split: plan_refusal.split intro!: keeps_rules)

lemma keeps_resume_step: "is_public_testnet e \<Longrightarrow> keeps law_held (resume_step W c now deadline)"
  by (auto simp: keeps_def law_held_def resume_step_def run_atomically run_bnd put_record_def Let_def law_resume law_normalize
    split: option.splits)

lemma keeps_resume: "aw_env W = e \<Longrightarrow> keeps law_held (resume_admission W input)"
  unfolding resume_admission_def
  by (intro keeps_require_bnd keeps_bnd keeps_prod keeps_resume_step keeps_now keeps_lifecycle keeps_final_job) simp_all

lemma keeps_mark_step: "keeps law_held (mark_step W m)"
  unfolding mark_step_def Let_def
  by (auto simp: keeps_def law_held_def run_atomically run_bnd now_act_def put_record_def Let_def
    intro: law_mark law_release split: option.splits sum.splits)

lemma keeps_mark: "keeps law_held (mark_admission W input)"
  unfolding mark_admission_def
  by (intro keeps_rules keeps_mark_step keeps_lifecycle)

lemma keeps_heartbeat_step: "keeps law_held (heartbeat_step W key lease_id now)"
  by (auto simp: keeps_def law_held_def heartbeat_step_def run_atomically run_bnd put_record_def Let_def law_heartbeat law_normalize
    split: option.splits)

lemma keeps_heartbeat: "keeps law_held (heartbeat_admission W input)"
  unfolding heartbeat_admission_def
  by (intro keeps_rules keeps_heartbeat_step keeps_now keeps_lifecycle)

lemma keeps_signal: "keeps law_held (record_stream_signal W input)"
  unfolding record_stream_signal_def
  by (intro keeps_rules keeps_now keeps_capacity keeps_writing) (simp add: law_held_def)

lemma keeps_reports: "keeps law_held (read_stream_admission_status W)" "keeps law_held (read_admission_status W)"
  unfolding read_stream_admission_status_def read_admission_status_def Let_def
  by (intro keeps_rules keeps_now)+

lemma keeps_alarm: "keeps law_held (admission_alarm W)"
  unfolding admission_alarm_def by (intro keeps_rules keeps_policy keeps_lifecycle)

lemma keeps_route_but_reopen:
  "aw_env W = e \<Longrightarrow> \<not> (verb = ''POST'' \<and> path = ''/internal/admission/reopen'') \<Longrightarrow> keeps law_held (admission_route W verb path body)"
  unfolding admission_route_def with_body_def
  by (intro keeps_if keeps_bnd keeps_lifting keeps_ret keeps_reserve keeps_resume keeps_preflight keeps_mark keeps_signal
      keeps_heartbeat keeps_reports) auto

lemma keeps_fetch_but_reopen:
  "aw_env W = e \<Longrightarrow> \<not> reopens (AdmissionCall verb path body) \<Longrightarrow> keeps law_held (admission_fetch W verb path body)"
  unfolding admission_fetch_def by (intro keeps_rules keeps_policy keeps_route_but_reopen) simp_all

lemma event_but_reopen: "aw_env W = e \<Longrightarrow> \<not> reopens ev \<Longrightarrow> law_held s \<Longrightarrow> law_held (admission_event_step W ev s)"
  by (cases ev) (auto intro: keepsD [OF keeps_fetch_but_reopen] keepsD [OF keeps_alarm] simp: law_held_def [of "_\<lparr>an_outside := _\<rparr>"] law_held_def [of s])

lemma run_but_reopen: "aw_env W = e \<Longrightarrow> list_all (\<lambda>ev. \<not> reopens ev) evs \<Longrightarrow> law_held s \<Longrightarrow> law_held (admission_run W evs s)"
  unfolding admission_run_def by (induction evs arbitrary: s) (simp_all add: event_but_reopen)

end

locale reopen_law = admission_law +
  assumes law_reopen: "I (Some rec) \<Longrightarrow> closure_matches rec ri \<Longrightarrow> resolved_slots (am_reservations rec) ri = Some slots \<Longrightarrow>
    I (Some (operator_reopened rec slots))"
begin

lemma keeps_reopen: "keeps law_held (reopen_admission W input)"
  unfolding reopen_admission_def
proof (intro keeps_rules keeps_lifecycle)
  show "keeps law_held (reopen_step W ri)" for ri
    by (auto simp: keeps_def law_held_def reopen_step_def run_atomically run_bnd put_record_def now_act_def admission_capacity_def law_reopen
      split: option.splits sum.splits)
qed

lemma keeps_fetch: "aw_env W = e \<Longrightarrow> keeps law_held (admission_fetch W verb path body)"
proof (cases "verb = ''POST'' \<and> path = ''/internal/admission/reopen''")
  case True
  then show ?thesis
    unfolding admission_fetch_def
    by (intro keeps_rules keeps_policy) (simp add: admission_route_def with_body_def keeps_bnd keeps_reopen)
qed (simp add: keeps_fetch_but_reopen)

lemma event_kept: "aw_env W = e \<Longrightarrow> law_held s \<Longrightarrow> law_held (admission_event_step W ev s)"
  by (cases ev) (auto intro: keepsD [OF keeps_fetch] keepsD [OF keeps_alarm] simp: law_held_def [of "_\<lparr>an_outside := _\<rparr>"] law_held_def [of s])

lemma run_kept: "aw_env W = e \<Longrightarrow> law_held s \<Longrightarrow> law_held (admission_run W evs s)"
  unfolding admission_run_def by (induction evs arbitrary: s) (simp_all add: event_kept)

end

section \<open>The quotas\<close>

definition attempts_ok :: "daily_attempts \<Rightarrow> bool" where
  "attempts_ok d = list_all (\<lambda>(creator, n). creator = ''constructor'' \<or> n \<le> admission_creator_daily_attempts) (dy_creator_attempts d)"

definition spend_ok :: "bridge_env \<Rightarrow> monthly_spend \<Rightarrow> bool" where
  "spend_ok e m = (case monthly_budget e of Some b \<Rightarrow> mo_reserved_usd_micros m \<le> b | None \<Rightarrow> True)"

definition quotas_ok :: "bridge_env \<Rightarrow> admission_record \<Rightarrow> bool" where
  "quotas_ok e rec =
     (slots_ok (admission_concurrency e) (am_reservations rec) \<and> attempts_ok (am_daily rec) \<and> spend_ok e (am_monthly rec)
      \<and> (case am_stream rec of Some st \<Rightarrow> stream_ok e st | None \<Rightarrow> True))"

definition within_quotas :: "bridge_env \<Rightarrow> admission_record option \<Rightarrow> bool" where
  "within_quotas e stored = (case stored of Some rec \<Rightarrow> quotas_ok e rec | None \<Rightarrow> True)"

lemma plan_cases:
  assumes "plan_admission e u stored c now job budget = Inr p"
  defines "start \<equiv> plan_start u stored now"
  obtains
    (kept) "\<not> pl_created p" "pl_record p = start"
  | (fresh) rec where "rec = (if am_closed start then reopened_record start else start)" "am_closed start \<Longrightarrow> closed_for_budget start"
      "tget (reservation_key (cd_job_id c) (cd_generation c)) (am_reservations rec) = None" "plan_new e rec c now job budget = Inr p"
proof (cases "tget (reservation_key (cd_job_id c) (cd_generation c)) (am_reservations start)")
  case None
  consider "am_closed start \<and> budget \<noteq> None \<and> mo_utc_month (am_monthly start) = utc_month now"
    | "\<not> (am_closed start \<and> budget \<noteq> None \<and> mo_utc_month (am_monthly start) = utc_month now)" by blast
  then show ?thesis
  proof cases
    case 1
    with assms None have "p = \<lparr>pl_record = start, pl_key = reservation_key (cd_job_id c) (cd_generation c), pl_created = False,
        pl_budget_exceeded = True, pl_daily = am_daily start, pl_monthly = am_monthly start\<rparr>"
      unfolding plan_admission_def Let_def by (simp split: if_splits)
    then show ?thesis by (intro kept) simp_all
  next
    case 2
    have "plan_new e (if am_closed start then reopened_record start else start) c now job budget = Inr p"
      "am_closed start \<Longrightarrow> closed_for_budget start"
      using assms(1) None 2 unfolding plan_admission_def Let_def start_def [symmetric] by (simp_all only: option.case split: if_splits) simp_all
    moreover have "am_reservations (if am_closed start then reopened_record start else start) = am_reservations start"
      by (simp add: reopened_record_def)
    ultimately show ?thesis using None by (intro fresh) simp_all
  qed
next
  case (Some r)
  with assms have "p = \<lparr>pl_record = start, pl_key = reservation_key (cd_job_id c) (cd_generation c), pl_created = False,
      pl_budget_exceeded = False, pl_daily = am_daily start, pl_monthly = am_monthly start\<rparr>"
    unfolding plan_admission_def Let_def by (simp split: if_splits)
  then show ?thesis by (intro kept) simp_all
qed

lemma plan_new_simps:
  assumes "plan_new e rec c now job budget = Inr p"
  shows "quota_refusal e rec c now = None" "stream_refusal e rec c (pl_key p) now = None"
    "pl_key p = reservation_key (cd_job_id c) (cd_generation c)" "pl_daily p = daily_today rec now" "pl_monthly p = monthly_now rec now"
    "pl_created p \<Longrightarrow> pl_record p = rec"
    "pl_created p \<Longrightarrow> (case budget of Some b \<Rightarrow> mo_reserved_usd_micros (monthly_now rec now) + job \<le> b | None \<Rightarrow> True)"
    "\<not> pl_created p \<Longrightarrow> pl_record p = rec\<lparr>am_closed := True, am_daily := daily_today rec now, am_monthly := monthly_now rec now,
       am_closure := Some \<lparr>cz_code = ''monthly_budget_exceeded'', cz_observed_at_ms = now\<rparr>\<rparr>"
  using assms by (auto simp: plan_new_def Let_def split: option.splits if_splits)

lemma attempts_today: "attempts_ok (am_daily rec) \<Longrightarrow> attempts_ok (daily_today rec now)"
  by (simp add: attempts_ok_def daily_today_def)

lemma spend_now: "spend_ok e (am_monthly rec) \<Longrightarrow> spend_ok e (monthly_now rec now)"
  by (simp add: spend_ok_def monthly_now_def split: option.splits)

lemma quotas_normalize: "quotas_ok e rec \<Longrightarrow> quotas_ok e (normalize_admission_leases u rec now)"
  by (simp add: quotas_ok_def normalize_admission_leases_def slots_filter slots_map normalized_lease_def)

lemma quotas_start: "within_quotas e stored \<Longrightarrow> quotas_ok e (plan_start u stored now)"
  by (simp add: within_quotas_def plan_start_def quotas_normalize split: option.splits)
    (simp add: quotas_ok_def empty_admission_record_def slots_ok_def attempts_ok_def spend_ok_def split: option.splits)

lemma quotas_reopened: "quotas_ok e rec \<Longrightarrow> quotas_ok e (reopened_record rec)"
  by (simp add: quotas_ok_def reopened_record_def)

lemma booked_ok:
  assumes "case am_stream rec of Some st \<Rightarrow> stream_ok e st | None \<Rightarrow> True" "valid_candidate c" "stream_refusal e rec c key now = None"
    "booked_stream c rec key now = Some st"
  shows "stream_ok e st"
proof (cases "cd_reserved_seconds c")
  case None
  with assms show ?thesis by (simp add: booked_stream_def)
next
  case (Some n)
  let ?live = "live_stream_reservations (am_stream rec) now"
  have live: "distinct (map fst ?live)" "list_all (\<lambda>(k, r). 1 \<le> sr_seconds r) ?live"
    using assms(1) by (auto simp: live_stream_reservations_def stream_ok_def distinct_map_filter list_all_filter split: option.splits)
  let ?new = "\<lparr>sr_seconds = n, sr_created_at_ms = now, sr_expires_at_ms = now + stream_tus_url_lifetime_ms\<rparr>"
  have st: "sm_reservations st = tput key ?new ?live" "sm_open_reserved_seconds st = seconds_sum (sm_reservations st)"
    using assms(4) Some by (auto simp: booked_stream_def with_stream_reservations_def Let_def)
  have "case reservation_budget e of Some b \<Rightarrow> seconds_sum (tput key ?new ?live) \<le> b | None \<Rightarrow> False"
    using assms(3) Some by (auto simp: stream_refusal_def Let_def open_seconds_def seconds_tput [OF live(1)] split: option.splits if_splits)
  then show ?thesis
    using assms(2) Some live by (simp add: stream_ok_def st keys_tput list_all_tput valid_candidate_def split: option.splits)
qed

lemma quotas_reserved:
  assumes rec: "quotas_ok e rec" and c: "valid_candidate c" and p: "plan_new e rec c now job (monthly_budget e) = Inr p"
    and new: "tget (reservation_key (cd_job_id c) (cd_generation c)) (am_reservations rec) = None" and "pl_created p"
  shows "quotas_ok e (reserved_record p c job now uuid)"
proof -
  note plan = plan_new_simps [OF p] and r = plan_new_simps(6) [OF p \<open>pl_created p\<close>]
  have q: "quota_refusal e rec c now = None" by (rule plan)
  have "list_all (\<lambda>(k, r). av_creator r \<noteq> cd_creator c) (am_reservations rec)" "length (am_reservations rec) < admission_concurrency e"
    and a: "attempts_of (cd_creator c) (daily_today rec now) < admission_creator_daily_attempts"
    using q by (auto simp: quota_refusal_def Let_def list_all_iff filter_empty_conv split: if_splits)
  then have "slots_ok (admission_concurrency e) (tput (pl_key p) (new_lease c job now uuid) (am_reservations rec))"
    using rec new by (intro slots_new) (simp_all add: quotas_ok_def plan(3) new_lease_def)
  moreover have "attempts_ok (daily_today rec now)" using rec by (simp add: quotas_ok_def attempts_today)
  then have "attempts_ok ((daily_today rec now)\<lparr>dy_global_attempts := n,
      dy_creator_attempts := tput (cd_creator c) (attempts_of (cd_creator c) (daily_today rec now) + 1) (dy_creator_attempts (daily_today rec now))\<rparr>)" for n
    using a by (simp add: attempts_ok_def list_all_tput)
  moreover have "spend_ok e ((monthly_now rec now)\<lparr>mo_reserved_usd_micros := mo_reserved_usd_micros (monthly_now rec now) + job\<rparr>)"
    using plan(7) \<open>pl_created p\<close> by (simp add: spend_ok_def split: option.splits)
  moreover have "case booked_stream c rec (pl_key p) now of Some st \<Rightarrow> stream_ok e st | None \<Rightarrow> True"
    using booked_ok [OF _ c plan(2)] rec by (auto simp: quotas_ok_def split: option.splits)
  ultimately show ?thesis by (simp add: quotas_ok_def reserved_record_def r plan(4,5))
qed

lemma quotas_plan:
  assumes "within_quotas e stored" "valid_candidate c" and p: "plan_admission e u stored c now job (monthly_budget e) = Inr p"
  shows "quotas_ok e (if pl_created p then reserved_record p c job now uuid else pl_record p)"
  using p
proof (cases rule: plan_cases)
  case kept
  with assms show ?thesis by (simp add: quotas_start)
next
  case (fresh rec)
  have rec: "quotas_ok e rec" using quotas_start [OF assms(1)] by (simp add: fresh(1) quotas_reopened)
  show ?thesis
  proof (cases "pl_created p")
    case True
    with quotas_reserved [OF rec assms(2) fresh(4,3)] show ?thesis by simp
  next
    case False
    with rec plan_new_simps(8) [OF fresh(4)] show ?thesis by (simp add: quotas_ok_def attempts_today spend_now)
  qed
qed

lemma quotas_slots: "quotas_ok e rec \<Longrightarrow> slots_ok (admission_concurrency e) slots \<Longrightarrow> quotas_ok e (rec\<lparr>am_reservations := slots\<rparr>)"
  by (simp add: quotas_ok_def)

lemma quotas_resume:
  assumes "quotas_ok e rec" "resume_allowed rec key c" "is_public_testnet e"
  shows "quotas_ok e (rec\<lparr>am_reservations := tput key (resumed_lease c (tget key (am_reservations rec)) now deadline uuid) (am_reservations rec)\<rparr>)"
proof (rule quotas_slots [OF assms(1)], cases "tget key (am_reservations rec)")
  case None
  with assms show "slots_ok (admission_concurrency e) (tput key (resumed_lease c (tget key (am_reservations rec)) now deadline uuid) (am_reservations rec))"
    by (intro slots_new) (simp_all add: quotas_ok_def resume_allowed_def resumed_lease_def admission_concurrency_def)
next
  case (Some r)
  with assms show "slots_ok (admission_concurrency e) (tput key (resumed_lease c (tget key (am_reservations rec)) now deadline uuid) (am_reservations rec))"
    by (intro slots_same [OF _ Some]) (simp_all add: quotas_ok_def resume_allowed_def resumed_lease_def)
qed

lemma quotas_release: "quotas_ok e rec \<Longrightarrow> release_stream_reservation rec key m now = Some rec' \<Longrightarrow> quotas_ok e rec'"
proof -
  assume rec: "quotas_ok e rec" and r: "release_stream_reservation rec key m now = Some rec'"
  then obtain st where st: "am_stream rec = Some st" by (auto simp: release_stream_reservation_def split: option.splits)
  obtain st' where st': "rec' = rec\<lparr>am_stream := Some st'\<rparr>" "sm_open_reserved_seconds st' = seconds_sum (sm_reservations st')"
      "sm_reservations st' = tdel key (live_stream_reservations (Some st) now)"
    using r st by (auto simp: release_stream_reservation_def Let_def with_stream_reservations_def split: if_splits)
  have "\<exists>P. sm_reservations st' = filter P (sm_reservations st)"
    using live_stream [of st now] by (auto simp: st'(3) tdel_filter)
  then show "quotas_ok e rec'" using rec st stream_shrunk [OF _ _ st'(2), of e st] by (auto simp: quotas_ok_def st'(1))
qed

lemma moved_creator [simp]: "av_creator (moved_slot st r now) = av_creator r"
  by (simp add: moved_slot_def)

lemma auto_closed_simps [simp]:
  "am_reservations (auto_closed rec now) = am_reservations rec" "am_daily (auto_closed rec now) = am_daily rec"
  "am_monthly (auto_closed rec now) = am_monthly rec" "am_stream (auto_closed rec now) = am_stream rec"
  by (simp_all add: auto_closed_def)

lemma quotas_mark: "quotas_ok e rec \<Longrightarrow> marked_record rec key ms now = Inr rec' \<Longrightarrow> quotas_ok e rec'"
  by (auto simp: marked_record_def quotas_ok_def slots_tdel provider_unavailable_def Let_def slots_same
    split: if_splits option.splits mark_state.splits)

lemma quotas_heartbeat: "quotas_ok e rec \<Longrightarrow> beating_lease rec key lease_id = Some r \<Longrightarrow>
    quotas_ok e (rec\<lparr>am_reservations := tput key (renewed_lease r now) (am_reservations rec)\<rparr>)"
  by (auto simp: beating_lease_def quotas_ok_def renewed_lease_def slots_same split: if_splits option.splits)

lemma slots_resolved: "slots_ok n t \<Longrightarrow> resolved_slots t ri = Some t' \<Longrightarrow> slots_ok n t'"
  by (auto simp: resolved_slots_def Let_def slots_tdel slots_filter split: option.splits if_splits)

lemma quotas_reopen: "quotas_ok e rec \<Longrightarrow> resolved_slots (am_reservations rec) ri = Some slots \<Longrightarrow> quotas_ok e (operator_reopened rec slots)"
  by (auto simp: quotas_ok_def operator_reopened_def slots_resolved stream_ok_def reopened_stream_def split: option.splits)

lemma within_some: "within_quotas e (Some rec) = quotas_ok e rec"
  by (simp add: within_quotas_def)

interpretation quotas: reopen_law e "within_quotas e" for e
  by unfold_locales (unfold within_some, (erule quotas_normalize | erule (2) quotas_plan | erule (2) quotas_resume [rotated]
    | erule (1) quotas_release | erule (1) quotas_mark | erule (1) quotas_heartbeat | erule quotas_reopen, assumption)+)

lemma quotas_run: "within_quotas (aw_env W) (an_record (admission_run W evs (admission_start x)))"
  using quotas.run_kept [OF refl, of W "admission_start x" evs] by (simp add: quotas.law_held_def admission_start_def within_quotas_def)

section \<open>A closed circuit\<close>

text \<open>Closed for another reason than the budget, with these attempts and this spend.\<close>

definition circuit_open :: "daily_attempts \<Rightarrow> monthly_spend \<Rightarrow> admission_record option \<Rightarrow> bool" where
  "circuit_open d m stored =
     (case stored of Some rec \<Rightarrow> am_closed rec \<and> \<not> closed_for_budget rec \<and> am_daily rec = d \<and> am_monthly rec = m | None \<Rightarrow> False)"

lemma circuit_plan:
  assumes "circuit_open d m stored" and p: "plan_admission e u stored c now job budget = Inr p"
  shows "\<not> pl_created p \<and> circuit_open d m (Some (pl_record p))"
proof -
  have start: "circuit_open d m (Some (plan_start u stored now))"
    using assms(1) by (auto simp: circuit_open_def plan_start_def normalize_admission_leases_def closed_for_budget_def split: option.splits)
  from p show ?thesis
  proof (cases rule: plan_cases)
    case (fresh rec)
    with start show ?thesis by (simp add: circuit_open_def)
  qed (use start in simp)
qed

lemma circuit_mark: "circuit_open d m (Some rec) \<Longrightarrow> marked_record rec key ms now = Inr rec' \<Longrightarrow> circuit_open d m (Some rec')"
  by (auto simp: circuit_open_def marked_record_def auto_closed_def provider_unavailable_def Let_def closed_for_budget_def
    split: if_splits option.splits mark_state.splits)

lemma circuit_release: "circuit_open d m (Some rec) \<Longrightarrow> release_stream_reservation rec key mi now = Some rec' \<Longrightarrow> circuit_open d m (Some rec')"
  by (auto simp: circuit_open_def release_stream_reservation_def Let_def closed_for_budget_def split: if_splits option.splits)

lemma circuit_same:
  "circuit_open d m (Some rec) \<Longrightarrow> circuit_open d m (Some (rec\<lparr>am_reservations := slots\<rparr>))"
  by (simp add: circuit_open_def closed_for_budget_def)

lemma circuit_reserve:
  "circuit_open d m stored \<Longrightarrow> plan_admission e u stored c now job budget = Inr p \<Longrightarrow>
   circuit_open d m (Some (if pl_created p then reserved_record p c job now uuid else pl_record p))"
  using circuit_plan by simp

interpretation circuit: admission_law e "circuit_open d m" for e d m
  by unfold_locales (unfold normalize_admission_leases_def, (erule circuit_same | erule (1) circuit_release | erule (1) circuit_mark
    | erule (1) circuit_reserve)+)

end
