(* ===== verification/BridgeAdmissionChecks.thy ===== *)
theory BridgeAdmissionChecks
  imports BridgeAdmissionLaws
begin

text \<open>
  The properties of the admission object: the quotas of any run, the closed circuit, the operator's reopen and its
  replay, and the alarm that frees a slot whose time is over; sample settings and stores witness their hypotheses.
\<close>

section \<open>Samples\<close>

definition unset_env :: bridge_env where
  "unset_env =
     \<lparr>be_video_environment = None, be_bridge_enabled = None, be_new_uploads_enabled = None, be_playback_issuance_enabled = None,
      be_provider_mutations_enabled = None, be_operator_mutations_enabled = None, be_operator_job_id = None,
      be_playback_v2_enabled = None, be_market_protocol = None, be_near_creator_fee_enabled = None,
      be_sponsored_uploads_enabled = None, be_sponsor_relayer_mutations_enabled = None, be_api_key = None, be_project_id = None,
      be_api_token_name = None, be_creator_allowlist = None, be_monthly_budget_usd_micros = None,
      be_job_reservation_usd_micros = None, be_paid_media_operator_id = None, be_paid_media_operator_token = None,
      be_paid_media_operator_token_previous = None, be_webhook_secret = None, be_webhook_secret_previous = None,
      be_queue_batch_size = None, be_queue_batch_timeout_seconds = None, be_queue_max_retries = None,
      be_queue_max_concurrency = None, be_queue_retention_seconds = None, be_queue_dlq = None, be_near_network = None,
      be_near_rpc_url = None, be_market_contract_id = None, be_access_contract_id = None, be_jwt_private_key = None,
      be_jwt_public_key = None, be_jwt_issuer = None, be_operator_account_id = None, be_operator_private_key = None,
      be_operator_key_epoch = None, be_relayer_account_id = None, be_relayer_private_key = None, be_relayer_key_epoch = None,
      be_fee_quote_private_key = None, be_fee_quote_key_version = None, be_upload_job_archive_enabled = None,
      be_operator_outbox_archive_enabled = None, be_read_model_bound = False, be_stream_provider_enabled = None,
      be_stream_account_id = None, be_stream_api_token = None, be_stream_customer_code = None, be_stream_signing_key_id = None,
      be_stream_signing_public_key = None, be_stream_signing_key_pem = None, be_stream_webhook_secret = None,
      be_stream_webhook_secret_previous = None, be_stream_max_duration_seconds = None,
      be_stream_storage_minutes_capacity = None, be_stream_reservation_seconds_budget = None, be_stream_stuck_timeout_ms = None\<rparr>"

text \<open>The outside is the clock; the provider failed a second time at 1000.\<close>

definition sample_admission_world :: "int admission_world" where
  "sample_admission_world = \<lparr>aw_env = unset_env, aw_now = an_outside, aw_uuid = (\<lambda>s k. k), aw_url = (\<lambda>u. None),
     aw_near = (\<lambda>body. throw ''offline'')\<rparr>"

definition ambiguous_slot :: admission_reservation where
  "ambiguous_slot = \<lparr>av_creator = ''alice.testnet'', av_expected_source_bytes = ''1'', av_cost_usd_micros = ''5'',
     av_state = SlotCreateAmbiguous, av_created_at_ms = 900, av_lease_id = Some ''lease'', av_expires_at_ms = Some 1800900,
     av_last_heartbeat_at_ms = Some 900, av_ambiguous_at_ms = Some 1000\<rparr>"

definition sample_closed_record :: admission_record where
  "sample_closed_record = \<lparr>am_closed = True, am_reservations = [(''job:1'', ambiguous_slot)],
     am_daily = \<lparr>dy_utc_day = ''1970-01-01'', dy_global_attempts = 1, dy_creator_attempts = [(''alice.testnet'', 1)]\<rparr>,
     am_monthly = \<lparr>mo_utc_month = ''1970-01'', mo_reserved_usd_micros = 5\<rparr>,
     am_failures = Some \<lparr>pf_count = 2, pf_first_observed_at_ms = 990, pf_last_observed_at_ms = 1000\<rparr>,
     am_closure = Some \<lparr>cz_code = ''provider_unavailable'', cz_observed_at_ms = 1000\<rparr>, am_stream = None\<rparr>"

definition sample_closed_store :: "int admission_store" where
  "sample_closed_store = (admission_start 2000)\<lparr>an_record := Some sample_closed_record\<rparr>"

section \<open>Quotas\<close>

text \<open>
  C29 (invariant). Whatever requests reach the admission object in whatever order, with alarms and time between them, its
  record stays within the quotas: at most the allowed number of uploads hold a slot, each under its own key and each
  creator at most one; no creator but the one named \<open>constructor\<close> has more than two attempts a day; the month's reserved
  spend never passes the configured budget; and the seconds booked at Cloudflare Stream are the sum of its open bookings,
  within the configured budget.
\<close>

theorem admission_quotas_hold: "within_quotas (aw_env W) (an_record (admission_run W evs (admission_start x)))"
  by (rule quotas_run)

section \<open>A closed circuit\<close>

text \<open>
  C30 (safety). Once the circuit is closed for another reason than the monthly budget, no run of requests and alarms
  without an operator's reopen opens it, counts an attempt or reserves any spend, whatever the day or month.
\<close>

theorem closed_circuit_books_nothing:
  assumes "an_record s = Some rec" "am_closed rec" "\<not> closed_for_budget rec" "list_all (\<lambda>ev. \<not> reopens ev) evs"
  shows "circuit_open (am_daily rec) (am_monthly rec) (an_record (admission_run W evs s))"
  using circuit.run_but_reopen [OF refl assms(4), of "am_daily rec" "am_monthly rec" s W] assms(1-3)
  by (simp add: circuit.law_held_def circuit_open_def)

lemma closed_circuit_books_nothing_witness:
  "circuit_open (am_daily sample_closed_record) (am_monthly sample_closed_record)
     (an_record (admission_run sample_admission_world
        [AdmissionCall ''POST'' ''/internal/admission/reserve'' [], AdmissionMeanwhile 90000000, AdmissionWake] sample_closed_store))"
  by (rule closed_circuit_books_nothing)
    (simp_all add: sample_closed_store_def sample_closed_record_def closed_for_budget_def)

section \<open>Reopening\<close>




lemma reopen_step_old:
  "tget (ri_idempotency_key ri) (an_audits s) = Some audit \<Longrightarrow>
   reopen_step W ri s = (if ra_input audit = ri then Inr True else Inl ''admission_reopen_conflict'', s)"
  by (simp add: reopen_step_def run_atomically run_bnd)


text \<open>The operator's input for the sample closure.\<close>

definition sample_reopen_body :: json where
  "sample_reopen_body = JObj
     [(''idempotencyKey'', JStr ''r-1''), (''operatorId'', JStr ''ops''), (''closureCode'', JStr ''provider_unavailable''),
      (''closureObservedAtMs'', JNum 1000), (''incidentId'', JStr ''i-1''), (''evidenceSha256'', JStr (replicate 64 CHR ''a'')),
      (''resolutionCode'', JStr ''INVENTORY_RECONCILED''), (''jobId'', JNull), (''generation'', JNull)]"

definition sample_reopen :: reopen_input where
  "sample_reopen = \<lparr>ri_idempotency_key = ''r-1'', ri_operator_id = ''ops'', ri_closure_code = ''provider_unavailable'',
     ri_closure_observed_at_ms = 1000, ri_incident_id = ''i-1'', ri_evidence_sha256 = replicate 64 CHR ''a'',
     ri_resolution = InventoryReconciled, ri_job = None\<rparr>"

lemma sample_reopen_read: "parse_admission_reopen_input sample_reopen_body = Inr sample_reopen"
  by code_simp



text \<open>
  An operator input whose idempotency key was used before reopens nothing: the same input is answered 200
  with only the object's clean-up run, and a different input under that key is a conflict that changes nothing.
\<close>

theorem reopen_replay:
  assumes "parse_admission_reopen_input input = Inr ri" "tget (ri_idempotency_key ri) (an_audits s) = Some audit"
  shows "reopen_admission W input s =
    (if ra_input audit = ri
     then bnd (maintain_admission_lifecycle W) (\<lambda>_. ret (bridge_json
        (JObj [(''accepted'', JBool True), (''reopened'', JBool True), (''replayed'', JBool True)]) 200)) s
     else (Inl ''admission_reopen_conflict'', s))"
  by (simp add: reopen_admission_def assms(1) run_bnd reopen_step_old [OF assms(2)])

definition sample_used_store :: "int admission_store" where
  "sample_used_store = sample_closed_store\<lparr>an_audits :=
     [(''r-1'', \<lparr>ra_input = sample_reopen\<lparr>ri_operator_id := ''eve''\<rparr>, ra_reopened_at_ms = 1\<rparr>)]\<rparr>"

lemma reopen_replay_witness:
  "reopen_admission sample_admission_world sample_reopen_body sample_used_store = (Inl ''admission_reopen_conflict'', sample_used_store)"
proof -
  have audit: "tget (ri_idempotency_key sample_reopen) (an_audits sample_used_store) =
      Some \<lparr>ra_input = sample_reopen\<lparr>ri_operator_id := ''eve''\<rparr>, ra_reopened_at_ms = 1\<rparr>"
    by (simp add: sample_used_store_def sample_reopen_def tget_def)
  have "sample_reopen\<lparr>ri_operator_id := ''eve''\<rparr> \<noteq> sample_reopen"
    by (simp add: sample_reopen_def)
  then show ?thesis by (simp add: reopen_replay [OF sample_reopen_read audit])
qed

section \<open>No slot outlives its time\<close>






end
