(* ===== verification/BridgeRelease.thy ===== *)
theory BridgeRelease
  imports BridgeOperatorOps Wire
begin

text \<open>
  The scheduled release of escrows (\<open>runScheduledRelease\<close> of \<open>index.ts\<close>): every run asks the read model for the crypto
  tickets still in escrow after thirty days and sends the operator object one batch of them. The rows of the read model are
  values; the call to the operator object is a parameter.
\<close>

section \<open>The read model\<close>

record ticket_row =
  tr_network :: string
  tr_contract_id :: string
  tr_ticket_id :: string
  tr_publication_id :: string
  tr_rail :: string
  tr_status :: string
  tr_purchased_at_ms :: int
  tr_settled_at_ms :: "int option"

record publication_row =
  pl_network :: string
  pl_contract_id :: string
  pl_publication_id :: string
  pl_availability :: string

definition escrow_release_ms :: int where
  "escrow_release_ms = 30 * 24 * 60 * 60 * 1000"

definition taken_down :: "publication_row list \<Rightarrow> ticket_row \<Rightarrow> bool" where
  "taken_down pubs r =
     list_ex (\<lambda>p. pl_network p = tr_network r \<and> pl_contract_id p = tr_contract_id r \<and> pl_publication_id p = tr_publication_id r
       \<and> pl_availability p = ''TAKEDOWN'') pubs"

definition release_due :: "string \<Rightarrow> string \<Rightarrow> publication_row list \<Rightarrow> int \<Rightarrow> ticket_row \<Rightarrow> bool" where
  "release_due network contract pubs now r =
     (tr_network r = network \<and> tr_contract_id r = contract \<and> tr_rail r = ''crypto''
      \<and> tr_status r \<in> {''purchased'', ''watched''} \<and> tr_settled_at_ms r = None
      \<and> tr_purchased_at_ms r \<le> now - escrow_release_ms \<and> \<not> taken_down pubs r)"

definition due_rows :: "string \<Rightarrow> string \<Rightarrow> ticket_row list \<Rightarrow> publication_row list \<Rightarrow> int \<Rightarrow> ticket_row list" where
  "due_rows network contract rows pubs now =
     take release_batch_size
       (sort_key tr_purchased_at_ms (sort_key tr_ticket_id (filter (release_due network contract pubs now) rows)))"

definition due_release_ticket_ids :: "bridge_env \<Rightarrow> ticket_row list \<Rightarrow> publication_row list \<Rightarrow> int \<Rightarrow> string list" where
  "due_release_ticket_ids e rows pubs now =
     filter hex64 (map tr_ticket_id (due_rows (or_none (be_near_network e)) (or_none (be_market_contract_id e)) rows pubs now))"

section \<open>The run\<close>

text \<open>\<open>lw_object\<close>: a POST to a route of the object of that name; its status.\<close>

record 's release_world =
  lw_env :: bridge_env
  lw_enabled :: "string option"
  lw_crypto :: crypto
  lw_url :: "string \<Rightarrow> url_parts option"
  lw_rows :: "'s \<Rightarrow> ticket_row list \<times> publication_row list"
  lw_object :: "string \<Rightarrow> string \<Rightarrow> json \<Rightarrow> ('s, nat) act"

definition operator_object_of :: "crypto \<Rightarrow> (string \<Rightarrow> url_parts option) \<Rightarrow> bridge_env \<Rightarrow> string + string" where
  "operator_object_of C U e =
     ebind (erequire (valid_operator_config C U e) ''runtime_not_configured'') (\<lambda>_.
     case key_pair_public C (or_none (be_operator_private_key e)) of
       None \<Rightarrow> Inl ''invalid_key''
     | Some pk \<Rightarrow> Inr (operator_object_name (or_none (be_near_network e)) pk (js_number (or_none (be_operator_key_epoch e)))))"

definition forward_release_expired :: "'s release_world \<Rightarrow> string list \<Rightarrow> ('s, nat) act" where
  "forward_release_expired W ids =
     bnd (lifting (operator_object_of (lw_crypto W) (lw_url W) (lw_env W))) (\<lambda>name.
     lw_object W name ''/internal/release-expired'' (release_request (lw_crypto W) ids))"

definition release_enabled :: "'s release_world \<Rightarrow> bool" where
  "release_enabled W = (is_market_v2 (lw_env W) \<and> lw_enabled W = Some ''true'' \<and> be_read_model_bound (lw_env W))"

text \<open>How many tickets were released, and the status of the operator's answer.\<close>

definition run_scheduled_release :: "'s release_world \<Rightarrow> int \<Rightarrow> ('s, nat \<times> nat option) act" where
  "run_scheduled_release W now =
     (if \<not> release_enabled W then ret (0, None)
      else
        bnd (reading (lw_rows W)) (\<lambda>(rows, pubs).
        let ids = due_release_ticket_ids (lw_env W) rows pubs now in
        if ids = [] then ret (0, None)
        else bnd (forward_release_expired W ids) (\<lambda>status. ret (if status = 200 then length ids else 0, Some status))))"

section \<open>Every batch is one the operator takes\<close>

text \<open>The primary key of the table of tickets.\<close>

definition row_key :: "ticket_row \<Rightarrow> string \<times> string \<times> string" where
  "row_key r = (tr_network r, tr_contract_id r, tr_ticket_id r)"

lemma due_row: "r \<in> set (due_rows n c rows pubs now) \<Longrightarrow> r \<in> set rows \<and> release_due n c pubs now r"
  by (auto simp: due_rows_def dest!: in_set_takeD)

lemma distinct_due:
  assumes "distinct (map row_key rows)"
  shows "distinct (map tr_ticket_id (due_rows n c rows pubs now))"
proof -
  have "distinct (map tr_ticket_id (filter (release_due n c pubs now) rows))"
    using assms by (induction rows) (auto simp: row_key_def release_due_def image_iff)
  then have "distinct (map tr_ticket_id (sort_key tr_purchased_at_ms (sort_key tr_ticket_id (filter (release_due n c pubs now) rows))))"
    by (simp add: distinct_map)
  then show ?thesis unfolding due_rows_def by (simp add: distinct_take flip: take_map)
qed

lemma due_length: "length (due_release_ticket_ids e rows pubs now) \<le> release_batch_size"
proof -
  have "length (due_release_ticket_ids e rows pubs now)
      \<le> length (due_rows (or_none (be_near_network e)) (or_none (be_market_contract_id e)) rows pubs now)"
    unfolding due_release_ticket_ids_def using length_filter_le by (metis length_map)
  then show ?thesis by (simp add: due_rows_def)
qed

text \<open>The batch holds due tickets only, and every due ticket, unless it is full with tickets bought no later.\<close>

definition oldest_due :: "string \<Rightarrow> string \<Rightarrow> ticket_row list \<Rightarrow> publication_row list \<Rightarrow> int \<Rightarrow> string list \<Rightarrow> bool" where
  "oldest_due n c rows pubs now ids =
     ((\<forall>t \<in> set ids. \<exists>r \<in> set rows. tr_ticket_id r = t \<and> release_due n c pubs now r)
      \<and> (\<forall>r \<in> set rows. release_due n c pubs now r \<longrightarrow> tr_ticket_id r \<in> set ids
           \<or> length ids = release_batch_size
             \<and> (\<forall>t \<in> set ids. \<exists>r' \<in> set rows. tr_ticket_id r' = t \<and> tr_purchased_at_ms r' \<le> tr_purchased_at_ms r)))"

lemma take_sorted_key:
  assumes "sorted (map f xs)" "x \<in> set xs" "x \<notin> set (take n xs)" "y \<in> set (take n xs)"
  shows "f y \<le> f x" "length (take n xs) = n"
proof -
  have x: "x \<in> set (drop n xs)" using assms(2,3) by (metis Un_iff append_take_drop_id set_append)
  have "sorted (map f (take n xs) @ map f (drop n xs))" using assms(1) by (metis append_take_drop_id map_append)
  then show "f y \<le> f x" using x assms(4) by (auto simp: sorted_append)
  show "length (take n xs) = n" using x by (cases "n \<le> length xs") auto
qed

lemma due_rows_oldest: "oldest_due n c rows pubs now (map tr_ticket_id (due_rows n c rows pubs now))"
proof -
  let ?all = "sort_key tr_purchased_at_ms (sort_key tr_ticket_id (filter (release_due n c pubs now) rows))"
  have "tr_ticket_id r \<in> set (map tr_ticket_id (take release_batch_size ?all))
      \<or> length (take release_batch_size ?all) = release_batch_size
        \<and> (\<forall>r' \<in> set (take release_batch_size ?all). tr_purchased_at_ms r' \<le> tr_purchased_at_ms r)"
    if "r \<in> set rows" "release_due n c pubs now r" for r
  proof (cases "take release_batch_size ?all = []")
    case True
    then have "set ?all = {}" by (simp only: take_eq_Nil release_batch_size_def) simp
    with that show ?thesis by simp
  next
    case False
    then obtain y where y: "y \<in> set (take release_batch_size ?all)" by (meson last_in_set)
    have "r \<in> set ?all" using that by simp
    then show ?thesis
      using take_sorted_key [of tr_purchased_at_ms ?all r release_batch_size] y sorted_sort_key by (metis image_eqI set_map)
  qed
  note kept = this [folded due_rows_def]
  have "tr_ticket_id r \<in> set (map tr_ticket_id (due_rows n c rows pubs now))
      \<or> length (map tr_ticket_id (due_rows n c rows pubs now)) = release_batch_size
        \<and> (\<forall>t \<in> set (map tr_ticket_id (due_rows n c rows pubs now)).
              \<exists>r' \<in> set rows. tr_ticket_id r' = t \<and> tr_purchased_at_ms r' \<le> tr_purchased_at_ms r)"
    if "r \<in> set rows" "release_due n c pubs now r" for r
    using kept [OF that] by (rule disj_forward) (auto dest: due_row)
  moreover have "\<exists>r \<in> set rows. tr_ticket_id r = t \<and> release_due n c pubs now r"
    if "t \<in> set (map tr_ticket_id (due_rows n c rows pubs now))" for t
    using that due_row by auto
  ultimately show ?thesis unfolding oldest_due_def by blast
qed

end
