(* ===== verification/BridgeOperatorChecks.thy ===== *)
theory BridgeOperatorChecks
  imports BridgeOperatorLaws BridgeAdmissionChecks BridgeRelease Samples
begin

text \<open>The properties of the operator object, with sample worlds that witness their hypotheses.\<close>

section \<open>Nonces\<close>

text \<open>
  C33 (safety). Between any two moments of any run of requests, alarms and time, the last nonce the operator gave never
  falls; at both moments every record has one key and no two records the same nonce; and every nonce a record has
  at the later moment it had at the earlier one, or it is greater than all nonces given until then. So no nonce is ever
  given to two transactions.
\<close>

theorem operator_nonces_once:
  "nonces_apart (operator_run W evs (operator_start x))
   \<and> nonces_fine (operator_run W evs (operator_start x)) (operator_run W later (operator_run W evs (operator_start x)))"
proof -
  have "nonces_fine (operator_start x) (operator_run W evs (operator_start x))"
    by (intro run_fine fine_self start_apart)
  then have "nonces_apart (operator_run W evs (operator_start x))" by (simp add: nonces_fine_def)
  then show ?thesis by (simp add: run_fine fine_self)
qed

section \<open>Sending\<close>

text \<open>A send that refuses bytes the record does not hold, or holds without saying so on a public deployment.\<close>

definition holds_bytes :: "'s operator_world \<Rightarrow> string \<Rightarrow> string \<Rightarrow> 's operator_store \<Rightarrow> bool" where
  "holds_bytes W key bytes s =
     (case tget key (os_outbox s) of
        None \<Rightarrow> False
      | Some r \<Rightarrow> or_none (ox_signed_tx r) = bytes \<and> (is_public_testnet (ow_env W) \<longrightarrow> ox_state r = OpBroadcast))"

definition send_held :: "string \<Rightarrow> 's operator_world \<Rightarrow> string \<Rightarrow> ('s, tx_answer) oact" where
  "send_held key W bytes s = (if holds_bytes W key bytes s then send_transaction W bytes s else (Inl ''not_held'', s))"

definition stored_as :: "string \<Rightarrow> operator_record \<Rightarrow> 's operator_store \<Rightarrow> bool" where
  "stored_as key r s = (tget key (os_outbox s) = Some r)"

lemma quiet_stored: "(\<And>b n. keeps (outbox_is b n) m) \<Longrightarrow> m s = (x, t) \<Longrightarrow> os_outbox t = os_outbox s"
  by (metis keepsD outbox_is_def snd_conv)

lemma stored_quiet: "(\<And>b n. keeps (outbox_is b n) m) \<Longrightarrow> m s = (x, t) \<Longrightarrow> stored_as key r s \<Longrightarrow> stored_as key r t"
  using quiet_stored [of m s x t] by (simp add: stored_as_def)

lemma claimed_stored: "claim_operator_record W key payload m s = (Inr (r, False), t) \<Longrightarrow> stored_as key r t"
  by (auto simp: claim_operator_record_def stored_as_def run_atomically run_bnd put_operator_def Let_def operator_capacity_def
    split: option.splits sum.splits if_splits)

lemma reserved_stored: "reserve_nonce key access s = (Inr r, t) \<Longrightarrow> stored_as key r t"
  by (auto simp: reserve_nonce_def stored_as_def run_atomically run_bnd put_operator_def Let_def operator_capacity_def
    split: option.splits sum.splits if_splits)

lemma signed_stored: "signed_record W pk key m args r s = (Inr r', t) \<Longrightarrow> stored_as key r s \<Longrightarrow> stored_as key r' t"
  by (auto simp: signed_record_def bnd_returns put_operator_def stored_as_def split: if_splits)

lemma observed_stored:
  assumes C: "\<And>b n. keeps (outbox_is b n) C" and run: "observe_broadcast W key r C s = (Inr (Inr r'), t)" and s: "stored_as key r s"
  shows "stored_as key r' t"
proof -
  have "stored_as key r t2" if "query_transaction W h s = (x, t1)" "C t1 = (y, t2)" for h x t1 y t2
    using stored_quiet [OF C that(2) stored_quiet [OF outbox_tx that(1) s]] .
  then show ?thesis
    using run s by (auto simp: observe_broadcast_def bnd_returns put_operator_def stored_as_def split: if_splits)
qed

lemma broadcast_held:
  assumes "stored_as key r s"
  shows "broadcast_record (send_held key) W key r C s = broadcast_record send_transaction W key r C s"
proof -
  let ?r = "r\<lparr>ox_state := OpBroadcast\<rparr>"
  have at_send: "bnd (catch (send_held key W x) h) k t = bnd (catch (send_transaction W x) h) k t" if "holds_bytes W key x t" for x h k t
    using that by (simp add: bnd_def catch_def send_held_def)
  have "holds_bytes W key (or_none (ox_signed_tx r)) t"
    if "(if is_public_testnet (ow_env W) then put_operator key ?r else ret ()) s = (Inr x, t)" for x t
    using that assms by (auto simp: put_operator_def stored_as_def holds_bytes_def split: if_splits)
  then show ?thesis
    unfolding broadcast_record_def Let_def by (auto intro!: bnd_cong_run at_send)
qed

lemma sent_held:
  assumes "stored_as key r s"
  shows "bnd (require b e) (\<lambda>_. bnd (signed_record W pk key m args r) (\<lambda>stx. broadcast_record (send_held key) W key stx C)) s =
    bnd (require b e) (\<lambda>_. bnd (signed_record W pk key m args r) (\<lambda>stx. broadcast_record send_transaction W key stx C)) s"
proof (cases b)
  case True
  have "bnd (signed_record W pk key m args r) (\<lambda>stx. broadcast_record (send_held key) W key stx C) s =
      bnd (signed_record W pk key m args r) (\<lambda>stx. broadcast_record send_transaction W key stx C) s"
    by (rule bnd_cong_run) (rule broadcast_held, erule signed_stored, rule assms)
  with True show ?thesis by simp
qed simp

lemma watched_held:
  assumes C: "\<And>b n. keeps (outbox_is b n) C" and s: "stored_as key r s"
  shows "bnd (observe_broadcast W key r C) (\<lambda>observed. case observed of Inl x \<Rightarrow> ret x
       | Inr r' \<Rightarrow> bnd (require b e) (\<lambda>_. bnd (signed_record W pk key m args r') (\<lambda>stx. broadcast_record (send_held key) W key stx C))) s =
    bnd (observe_broadcast W key r C) (\<lambda>observed. case observed of Inl x \<Rightarrow> ret x
       | Inr r' \<Rightarrow> bnd (require b e) (\<lambda>_. bnd (signed_record W pk key m args r') (\<lambda>stx. broadcast_record send_transaction W key stx C))) s"
proof (rule bnd_cong_run)
  fix x t
  assume run: "observe_broadcast W key r C s = (Inr x, t)"
  show "(case x of Inl x \<Rightarrow> ret x
       | Inr r' \<Rightarrow> bnd (require b e) (\<lambda>_. bnd (signed_record W pk key m args r') (\<lambda>stx. broadcast_record (send_held key) W key stx C))) t =
    (case x of Inl x \<Rightarrow> ret x
       | Inr r' \<Rightarrow> bnd (require b e) (\<lambda>_. bnd (signed_record W pk key m args r') (\<lambda>stx. broadcast_record send_transaction W key stx C))) t"
    using sent_held [OF observed_stored [OF C _ s]] run by (cases x) simp_all
qed

lemma confirmed_held:
  assumes C: "\<And>b n. keeps (outbox_is b n) C" and s: "stored_as key r s"
  shows "bnd C (\<lambda>confirmed. if confirmed then f else if d then g
       else bnd (observe_broadcast W key r C) (\<lambda>observed. case observed of Inl x \<Rightarrow> ret x
         | Inr r' \<Rightarrow> bnd (require b e) (\<lambda>_. bnd (signed_record W pk key m args r') (\<lambda>stx. broadcast_record (send_held key) W key stx C)))) s =
    bnd C (\<lambda>confirmed. if confirmed then f else if d then g
       else bnd (observe_broadcast W key r C) (\<lambda>observed. case observed of Inl x \<Rightarrow> ret x
         | Inr r' \<Rightarrow> bnd (require b e) (\<lambda>_. bnd (signed_record W pk key m args r') (\<lambda>stx. broadcast_record send_transaction W key stx C)))) s"
proof (rule bnd_cong_run)
  fix confirmed t
  assume "C s = (Inr confirmed, t)"
  note here = watched_held [OF C stored_quiet [OF C this s]]
  show "(if confirmed then f else if d then g
       else bnd (observe_broadcast W key r C) (\<lambda>observed. case observed of Inl x \<Rightarrow> ret x
         | Inr r' \<Rightarrow> bnd (require b e) (\<lambda>_. bnd (signed_record W pk key m args r') (\<lambda>stx. broadcast_record (send_held key) W key stx C)))) t =
    (if confirmed then f else if d then g
       else bnd (observe_broadcast W key r C) (\<lambda>observed. case observed of Inl x \<Rightarrow> ret x
         | Inr r' \<Rightarrow> bnd (require b e) (\<lambda>_. bnd (signed_record W pk key m args r') (\<lambda>stx. broadcast_record send_transaction W key stx C)))) t"
    by (simp only: if_True if_False here split: if_split) blast
qed

lemma process_held:
  assumes C: "\<And>b n. keeps (outbox_is b n) C"
  shows "process_outbox_with (send_held key) W key payload m args C = process_operator_outbox W key payload m args C"
proof -
  have "(case x of (r, executed) \<Rightarrow> if executed then f r else bnd C (\<lambda>confirmed. if confirmed then g r else if d r then g' r
       else bnd (observe_broadcast W key r C) (\<lambda>observed. case observed of Inl x \<Rightarrow> ret x
         | Inr r' \<Rightarrow> bnd (require b e) (\<lambda>_. bnd (signed_record W pk key m args r') (\<lambda>stx. broadcast_record (send_held key) W key stx C))))) t =
    (case x of (r, executed) \<Rightarrow> if executed then f r else bnd C (\<lambda>confirmed. if confirmed then g r else if d r then g' r
       else bnd (observe_broadcast W key r C) (\<lambda>observed. case observed of Inl x \<Rightarrow> ret x
         | Inr r' \<Rightarrow> bnd (require b e) (\<lambda>_. bnd (signed_record W pk key m args r') (\<lambda>stx. broadcast_record send_transaction W key stx C))))) t"
    if "claim_operator_record W key payload m s = (Inr x, t)" for x f g d g' b e pk s t
  proof (cases x)
    case (Pair r executed)
    show ?thesis
    proof (cases executed)
      case False
      with that Pair have "stored_as key r t" by (auto intro: claimed_stored)
      with Pair False show ?thesis by (simp only: prod.case if_False confirmed_held [OF C])
    qed (simp add: Pair)
  qed
  note claimed = this
  show ?thesis
    unfolding process_operator_outbox_def process_outbox_with_def
    by (rule ext, rule bnd_cong_run, rule bnd_cong_run, rule bnd_cong_run, rule claimed)
qed

text \<open>
  C34 (safety). Each of the four requests behaves as if its call to the chain refused every transaction but one whose
  signed bytes the record of that request holds at that moment (on a public deployment, as BROADCAST). So whatever the
  chain does with a transaction, the outbox knows it: a crash after the send loses nothing.
\<close>

theorem operator_sends_what_it_stored:
  "process_outbox_with (send_held key) W key payload m args (final_publication_matches (operator_near W) e v)
     = process_operator_outbox W key payload m args (final_publication_matches (operator_near W) e v)
   \<and> process_outbox_with (send_held key) W key payload m args (final_publication_sales_suspended (operator_near W) e p)
     = process_operator_outbox W key payload m args (final_publication_sales_suspended (operator_near W) e p)
   \<and> process_outbox_with (send_held key) W key payload m args (ticket_settled W t)
     = process_operator_outbox W key payload m args (ticket_settled W t)
   \<and> process_outbox_with (send_held key) W key payload m args (batch_settled W ts)
     = process_operator_outbox W key payload m args (batch_settled W ts)"
  by (intro conjI process_held outbox_matches outbox_suspended outbox_settled outbox_batch)

lemma unchanged_by: "require b e s = (Inr x, t) \<Longrightarrow> t = s" "lifting v s = (Inr y, t) \<Longrightarrow> t = s"
  by (cases b; auto) (auto simp: lifting_def split: sum.splits)

text \<open>A request that finds its transaction sent does not send again.\<close>

lemma found_broadcast:
  assumes "tget key (os_outbox s) = Some r" "ox_method r = m" "claim_operator_record W key payload m s = (Inr (r', executed), t)"
  shows "r' = r" "\<not> executed"
  using assms by (auto simp: claim_operator_record_def run_atomically run_bnd put_operator_def split: sum.splits if_splits)

text \<open>
  C35 (safety). On a public deployment a request that finds its transaction stored as BROADCAST never sends: it ends the
  same way whatever the sending call would do, so a transaction is sent once even when the first attempt was cut off.
\<close>

theorem broadcast_never_resent:
  assumes "is_public_testnet (ow_env W)" and "tget key (os_outbox s) = Some r" and "ox_method r = m"
    and "ox_state r = OpBroadcast" and "set_text (ox_tx_hash r)"
  shows "process_operator_outbox W key payload m args C s = process_outbox_with send W key payload m args C s"
proof -
  let ?rest = "\<lambda>send pk (r, executed). if executed then ret (True, hash_or_null r, 200) else bnd C (\<lambda>confirmed.
       if confirmed then finish_confirmed W key r
       else if is_public_testnet (ow_env W) \<and> ox_state r = OpBroadcast \<and> set_text (ox_tx_hash r) then finish_polled W key r C
       else bnd (observe_broadcast W key r C) (\<lambda>observed. case observed of Inl x \<Rightarrow> ret x
         | Inr r' \<Rightarrow> bnd (require (be_operator_mutations_enabled (ow_env W) = Some ''true'') ''operator_mutations_disabled'') (\<lambda>_.
             bnd (signed_record W pk key m args r') (\<lambda>stx. broadcast_record send W key stx C))))"
  have "?rest send_transaction pk x t = ?rest send pk x t" if "claim_operator_record W key payload m s = (Inr x, t)" for pk x t
  proof (cases x)
    case (Pair r' executed)
    note found = found_broadcast [OF assms(2,3) that [unfolded Pair]]
    with Pair assms show ?thesis by simp
  qed
  then show ?thesis
    unfolding process_operator_outbox_def process_outbox_with_def
    by (intro bnd_cong_run) (auto dest: unchanged_by)
qed

text \<open>A public deployment whose chain never answers, and an outbox with one finalization that was sent.\<close>

definition sample_operator_world :: "int operator_world" where
  "sample_operator_world =
     \<lparr>ow_env = unset_env\<lparr>be_video_environment := Some ''public-testnet''\<rparr>, ow_crypto = sample_crypto,
      ow_codec = \<lparr>encode_delegate = (\<lambda>d. Inl ''unused''), sign_transaction = (\<lambda>_ _ _ _ _ _. Inr ([1], [2]))\<rparr>,
      ow_now = os_outside, ow_url = (\<lambda>u. None), ow_near = (\<lambda>_. throw ''network''), ow_sleep = (\<lambda>ms t. t + ms),
      ow_scan_asked = (\<lambda>_. False), ow_archive_db = (\<lambda>_. \<lparr>ad_insert = ret True, ad_select = ret ()\<rparr>)\<rparr>"

definition sample_sent_record :: operator_record where
  "sample_sent_record =
     (new_operator_record ''j:1:finalize'' (replicate 64 CHR ''a'') FinalizeNeutral 1000)
       \<lparr>ox_state := OpBroadcast, ox_nonce := Some 7, ox_signed_tx := Some ''AQ=='', ox_tx_hash := Some ''h''\<rparr>"

definition sample_outbox :: "int operator_store" where
  "sample_outbox = (operator_start 2000)\<lparr>os_outbox := [(''j:1:finalize'', sample_sent_record)], os_last_nonce := Some 7\<rparr>"

theorem broadcast_never_resent_witness:
  "process_operator_outbox sample_operator_world ''j:1:finalize'' (replicate 64 CHR ''a'') FinalizeNeutral JNull (ret False) sample_outbox
     = process_outbox_with (\<lambda>_ _. throw ''sent twice'') sample_operator_world ''j:1:finalize'' (replicate 64 CHR ''a'') FinalizeNeutral JNull
         (ret False) sample_outbox"
  by (rule broadcast_never_resent [where r = sample_sent_record])
    (simp_all add: sample_operator_world_def sample_outbox_def sample_sent_record_def new_operator_record_def is_public_testnet_def set_text_def tget_def)

section \<open>What a confirmation rests on\<close>

text \<open>A chain that never shows what the request asks for.\<close>

definition never_shown :: "('s, bool) oact \<Rightarrow> bool" where
  "never_shown C = (\<forall>s. fst (C s) \<noteq> Inr True)"

lemma never_shown_wp: "never_shown C \<Longrightarrow> wp C (\<lambda>x t. \<not> x) (\<lambda>_ _. True) s"
  by (auto simp: never_shown_def wp_def split: sum.splits prod.splits) (metis fst_conv)

definition unconfirmed :: "operator_result \<Rightarrow> 's operator_store \<Rightarrow> bool" where
  "unconfirmed x t = (\<not> fst x)"

lemma wp_free: "wp m (\<lambda>_ _. True) (\<lambda>_ _. True) s"
  by (simp add: wp_const)

lemma poll_unshown: "never_shown C \<Longrightarrow> wp (poll_finality W h C ds) (\<lambda>x t. \<not> x) (\<lambda>_ _. True) s"
proof (induction ds arbitrary: s)
  case (Cons d ds)
  have shown: "wp (catch C (\<lambda>e. ret False)) (\<lambda>x t. \<not> x) (\<lambda>_ _. True) t" for t
    unfolding wp_catch using never_shown_wp [OF Cons.prems] by (rule wp_mono) (simp_all add: wp_ret)
  show ?case
    unfolding poll_finality.simps
    by (rule wp_step [OF wp_free], rule wp_step [OF wp_free], rule wp_step [OF shown]) (simp_all add: Cons wp_rules)
qed (simp add: wp_ret)

lemma polled_unshown: "never_shown C \<Longrightarrow> wp (finish_polled W key r C) unconfirmed (\<lambda>_ _. True) s"
  unfolding finish_polled_def poll_operator_finality_def
  by (rule wp_step [OF poll_unshown]) (simp_all add: wp_ret unconfirmed_def)

lemma broadcast_unshown: "never_shown C \<Longrightarrow> wp (broadcast_record send W key r C) unconfirmed (\<lambda>_ _. True) s"
  unfolding broadcast_record_def Let_def
  by (rule wp_step [OF wp_free], rule wp_step [OF wp_free], rule wp_step [OF wp_free], rule wp_step [OF never_shown_wp])
    (auto simp: wp_rules unconfirmed_def put_operator_def intro: polled_unshown)

lemma observed_unshown:
  assumes "never_shown C"
  shows "wp (observe_broadcast W key r C) (\<lambda>x t. case x of Inl y \<Rightarrow> False | Inr r' \<Rightarrow> True) (\<lambda>_ _. True) s"
proof -
  have "wp (bnd (query_transaction W h) (\<lambda>status. bnd C (\<lambda>confirmed.
        if confirmed then bnd (finish_confirmed W key r) (\<lambda>x. ret (Inl x))
        else if status = TxFailed then throw ''near_finalize_failed''
        else if status = TxInvalidNonce then bnd (put_operator key (clear_signed r)) (\<lambda>_. ret (Inr (clear_signed r)))
        else ret (Inr r)))) (\<lambda>x t. case x of Inl y \<Rightarrow> False | Inr r' \<Rightarrow> True) (\<lambda>_ _. True) s" for h
    by (rule wp_step [OF wp_free], rule wp_step [OF never_shown_wp [OF assms]]) (auto simp: wp_rules put_operator_def)
  then show ?thesis unfolding observe_broadcast_def by (auto simp: wp_ret)
qed

text \<open>Only a record under a method name of the first generation is taken as executed without asking.\<close>

lemma claimed_fresh:
  "(\<And>n. legacy_method_alias n \<noteq> Some m) \<Longrightarrow> wp (claim_operator_record W key payload m) (\<lambda>x t. \<not> snd x) (\<lambda>_ _. True) s"
  by (auto simp: claim_operator_record_def wp_rules put_operator_def Let_def wp_def [of "operator_capacity _"] operator_capacity_def
    operator_now_def split: option.splits sum.splits)

lemma process_unshown:
  assumes C: "never_shown C" and m: "\<And>n. legacy_method_alias n \<noteq> Some m"
  shows "wp (process_operator_outbox W key payload m args C) unconfirmed (\<lambda>_ _. True) s"
proof -
  have sent: "wp (bnd (require b e) (\<lambda>_. bnd (signed_record W pk key m args r') (\<lambda>stx. broadcast_record send_transaction W key stx C)))
      unconfirmed (\<lambda>_ _. True) t" for b e pk r' t
    by (rule wp_step [OF wp_free], rule wp_step [OF wp_free]) (simp_all add: broadcast_unshown C)
  have observed: "wp (bnd (observe_broadcast W key r C) (\<lambda>observed. case observed of Inl x \<Rightarrow> ret x
       | Inr r' \<Rightarrow> bnd (require b e) (\<lambda>_. bnd (signed_record W pk key m args r') (\<lambda>stx. broadcast_record send_transaction W key stx C))))
      unconfirmed (\<lambda>_ _. True) t" for b e pk r t
    by (rule wp_step [OF observed_unshown [OF C]]) (auto simp: sent split: sum.splits)
  have rest: "wp (bnd C (\<lambda>confirmed. if confirmed then finish_confirmed W key r
       else if d then finish_polled W key r C
       else bnd (observe_broadcast W key r C) (\<lambda>observed. case observed of Inl x \<Rightarrow> ret x
         | Inr r' \<Rightarrow> bnd (require b e) (\<lambda>_. bnd (signed_record W pk key m args r') (\<lambda>stx. broadcast_record send_transaction W key stx C)))))
      unconfirmed (\<lambda>_ _. True) t" for d b e pk r t
    by (rule wp_step [OF never_shown_wp [OF C]]) (simp_all add: observed polled_unshown C)
  have tail: "wp (case y of (r, executed) \<Rightarrow> if executed then f r else g r) unconfirmed (\<lambda>_ _. True) t"
    if "\<not> snd y" "\<And>r. wp (g r) unconfirmed (\<lambda>_ _. True) t" for y f g t
    using that by (cases y) simp
  show ?thesis
    unfolding process_operator_outbox_def process_outbox_with_def
    by (rule wp_step [OF wp_free], rule wp_step [OF wp_free], rule wp_step [OF claimed_fresh [OF m]])
      (erule tail, simp_all only: rest)
qed

definition answers_watched :: "string + bridge_reply \<Rightarrow> bool" where
  "answers_watched r = (\<exists>hash n. r = Inr (operator_reply ''watched'' (True, hash, n)))"

lemma reply_confirmed: "operator_reply field (c, h, n) = operator_reply field (c', h', n') \<Longrightarrow> c = c'"
  by (simp add: operator_reply_def bridge_json_def)

section \<open>The requests of the other parts\<close>

lemma exact_keys: "mset (obj_keys v) = mset ks \<Longrightarrow> require_exact_keys v ks code = Inr ()"
  using perm_sort [of "obj_keys v" ks] by (simp add: require_exact_keys_def)

lemma sort_strict: "distinct ids \<Longrightarrow> sorted_wrt (<) (sort ids)" for ids :: "string list"
  by (simp add: strict_sorted_iff)

lemma text_list_map [simp]: "text_list (map JStr ids) = Some ids"
  by (induction ids) simp_all

lemma watched_request_read: "hex64 t \<Longrightarrow> parse_mark_watched_input C (mark_watched_request C t) = Inr t"
  by (simp add: parse_mark_watched_input_def mark_watched_request_def exact_keys has_str_def str_of_def input_keyed_def)


definition release_batch :: "string list \<Rightarrow> bool" where
  "release_batch ids = (distinct ids \<and> list_all hex64 ids \<and> ids \<noteq> [] \<and> length ids \<le> release_batch_size)"

lemma release_request_read: "release_batch ids \<Longrightarrow> parse_release_expired_input C (release_request C ids) = Inr (sort ids)"
  by (simp add: parse_release_expired_input_def release_request_def Let_def exact_keys input_keyed_def release_batch_def sort_strict
    list_all_iff Suc_le_eq)







text \<open>
  C36 (safety). A ticket is answered as watched only when the chain shows it: while no final read of the ticket gives it as
  watched, in escrow after watching, or released, no request to settle it is answered so, whatever the outbox holds.
\<close>

theorem watched_only_when_shown:
  assumes "parse_mark_watched_input (ow_crypto W) v = Inr t" and "never_shown (ticket_settled W t)"
  shows "\<not> answers_watched (fst (process_mark_watched W v s))"
proof -
  have failed: "wp (failed_watch W t err) (\<lambda>x t. False) (\<lambda>_ _. True) u" for err u
    unfolding failed_watch_def
    by (cases "err = ''near_finalize_failed''")
      (auto simp: wp_rules drop_operator_record_def wp_bnd [of "require _ _"] wp_bnd [of "drop_operator_record _"]
        simp del: wp_bnd intro!: wp_step [OF wp_free])
  have settled: "wp (catch (process_operator_outbox W k h MarkWatched a (ticket_settled W t)) (failed_watch W t))
      unconfirmed (\<lambda>_ _. True) u" for k h a u
    unfolding wp_catch
    by (rule wp_mono [OF process_unshown [OF assms(2)]]) (auto intro: wp_mono [OF failed] elim: legacy_method_alias.elims)
  have other: "\<not> answers_watched (Inr (operator_reply ''watched'' x))" if "unconfirmed x u" for x and u :: "'a operator_store"
    using that by (cases x) (auto simp: unconfirmed_def answers_watched_def dest: reply_confirmed)
  have told: "wp (bnd (catch (process_operator_outbox W k h MarkWatched a (ticket_settled W t)) (failed_watch W t))
      (\<lambda>x. ret (operator_reply ''watched'' x))) (\<lambda>x u. \<not> answers_watched (Inr x)) (\<lambda>_ _. True) u" for k h a u
    by (rule wp_step [OF settled]) (auto simp: wp_ret other)
  have "wp (bnd (ticket_settled W t) (\<lambda>done_before. if done_before then ret (operator_reply ''watched'' (True, None, 200))
      else bnd (catch (process_operator_outbox W k h MarkWatched a (ticket_settled W t)) (failed_watch W t))
        (\<lambda>x. ret (operator_reply ''watched'' x)))) (\<lambda>x u. \<not> answers_watched (Inr x)) (\<lambda>_ _. True) s" for k h a
    by (rule wp_step [OF never_shown_wp [OF assms(2)]]) (simp_all add: told)
  then have "wp (process_mark_watched W v) (\<lambda>x u. \<not> answers_watched (Inr x)) (\<lambda>_ _. True) s"
    unfolding process_mark_watched_def assms(1) by (simp add: wp_bnd [of "lifting _"] wp_bnd [of "require _ _"] wp_lifting wp_require)
  then show ?thesis by (auto simp: wp_def answers_watched_def split: prod.splits sum.splits)
qed

theorem watched_only_when_shown_witness:
  "\<not> answers_watched (fst (process_mark_watched sample_operator_world (mark_watched_request sample_crypto (replicate 64 CHR ''0'')) sample_outbox))"
  by (rule watched_only_when_shown [where t = "replicate 64 CHR ''0''"])
    (simp_all add: sample_operator_world_def watched_request_read hex64_def repeated_def list_all_iff is_hex_digit_def char_defs
      never_shown_def ticket_settled_def final_ticket_status_def near_view_with_def operator_near_def run_bnd run_attempt)

text \<open>
  The scheduled release asks for due tickets only, for all of them unless twenty-five older ones fill the
  batch, and the operator object accepts the batch: it is the sorted list it reads back.
\<close>

theorem release_batch_due:
  assumes "distinct (map row_key rows)" and "list_all (\<lambda>r. hex64 (tr_ticket_id r)) rows"
    and "due_release_ticket_ids e rows pubs now \<noteq> []"
  shows "oldest_due (or_none (be_near_network e)) (or_none (be_market_contract_id e)) rows pubs now (due_release_ticket_ids e rows pubs now)
    \<and> parse_release_expired_input C (release_request C (due_release_ticket_ids e rows pubs now))
      = Inr (sort (due_release_ticket_ids e rows pubs now))"
proof -
  let ?due = "map tr_ticket_id (due_rows (or_none (be_near_network e)) (or_none (be_market_contract_id e)) rows pubs now)"
  have "hex64 t" if "t \<in> set ?due" for t
    using that assms(2) by (auto simp: list_all_iff dest: due_row)
  then have ids: "due_release_ticket_ids e rows pubs now = ?due" "list_all hex64 ?due"
    by (simp_all add: due_release_ticket_ids_def filter_id_conv list_all_iff)
  then have "release_batch ?due"
    using assms distinct_due due_length [of e rows pubs now] by (simp add: release_batch_def)
  then show ?thesis unfolding ids(1) using due_rows_oldest release_request_read by blast
qed

definition sample_rows :: "ticket_row list" where
  "sample_rows = map (\<lambda>(c, t). \<lparr>tr_network = ''testnet'', tr_contract_id = ''market.testnet'', tr_ticket_id = replicate 64 c,
     tr_publication_id = ''p1'', tr_rail = ''crypto'', tr_status = ''purchased'', tr_purchased_at_ms = t, tr_settled_at_ms = None\<rparr>)
     [(CHR ''b'', 1000), (CHR ''a'', 2000), (CHR ''c'', 9000000000)]"

definition sample_release_env :: bridge_env where
  "sample_release_env = unset_env\<lparr>be_near_network := Some ''testnet'', be_market_contract_id := Some ''market.testnet''\<rparr>"

lemma sample_rows_due: "due_release_ticket_ids sample_release_env sample_rows [] 3000000000 = [replicate 64 CHR ''b'', replicate 64 CHR ''a'']"
  by (simp add: due_release_ticket_ids_def due_rows_def sample_rows_def release_due_def sample_release_env_def escrow_release_ms_def
    taken_down_def release_batch_size_def or_none_def hex64_def repeated_def list_all_iff is_hex_digit_def char_defs sort_key_def)

theorem release_batch_due_witness:
  "oldest_due (or_none (be_near_network sample_release_env)) (or_none (be_market_contract_id sample_release_env)) sample_rows []
     3000000000 (due_release_ticket_ids sample_release_env sample_rows [] 3000000000)
    \<and> parse_release_expired_input sample_crypto (release_request sample_crypto (due_release_ticket_ids sample_release_env sample_rows [] 3000000000))
      = Inr (sort (due_release_ticket_ids sample_release_env sample_rows [] 3000000000))"
  by (rule release_batch_due)
    (simp_all add: sample_rows_due, simp_all add: sample_rows_def row_key_def hex64_def repeated_def list_all_iff is_hex_digit_def char_defs)

section \<open>The archive\<close>

text \<open>
  A confirmed record whose archiving ends without a retry is marked as archived with the hash of its
  archive row, and the archive then holds, under that row's key, a row with the same columns.
\<close>

theorem archived_when_stored:
  assumes "advance_operator_archive W key r s = (Inr None, t)" and "ox_archive r = Some m"
  shows "\<exists>a r' m' row. operator_outbox_archive_of W r = Inr a \<and> tget key (os_outbox t) = Some r' \<and> ox_archive r' = Some m'
    \<and> xa_status m' = ArchiveCommitted \<and> xa_archive_sha256 m' = Some (oa_archive_sha256 a)
    \<and> tget (outbox_key a) (os_archive t) = Some row \<and> same_outbox_columns row a"
proof -
  have stored: "\<exists>row. tget (outbox_key a) (os_archive u') = Some row \<and> same_outbox_columns row a"
    if "commit_archive W a u = (Inr (), u')" for a u u'
    using that by (auto simp: commit_archive_def commit_operator_outbox_archive_def bnd_returns split: prod.splits option.splits if_splits)
  show ?thesis
    using assms stored [OF prod_eqI]
    by (auto simp: advance_operator_archive_def Let_def run_catch bnd_returns run_bnd put_operator_def operator_now_def
      split: prod.splits sum.splits if_splits)
qed

definition sample_archive_env :: bridge_env where
  "sample_archive_env = unset_env\<lparr>be_operator_outbox_archive_enabled := Some ''true'', be_near_network := Some ''testnet'',
     be_market_contract_id := Some ''market.testnet'', be_operator_account_id := Some ''op.testnet'', be_operator_key_epoch := Some ''1'',
     be_read_model_bound := True\<rparr>"

definition sample_archive_world :: "int operator_world" where
  "sample_archive_world = sample_operator_world\<lparr>ow_env := sample_archive_env\<rparr>"

definition sample_pending_meta :: archive_meta where
  "sample_pending_meta = \<lparr>xa_status = ArchivePending, xa_attempts = 0, xa_created_at_ms = 1500, xa_next_attempt_at_ms = 1500,
     xa_archive_sha256 = None, xa_committed_at_ms = None, xa_cleanup_eligible_at_ms = None\<rparr>"

definition sample_confirmed_record :: operator_record where
  "sample_confirmed_record = sample_sent_record
     \<lparr>ox_state := OpConfirmed, ox_confirmed_at_ms := Some 1500, ox_archive := Some sample_pending_meta\<rparr>"

lemma text_one: "text_number ''1'' = Some 1"
proof -
  have "ratio_double 1 1 = Some 1" by (simp add: ratio_double_def floorlog_def round_half_even_def)
  moreover have "js_trim ''1'' = ''1''"
    by (simp add: js_trim_def code_points_ascii chr_code_def white_space_def of_code_points_def utf8_small char_of_def bit_0)
  ultimately show ?thesis
    by (simp add: text_number_def decimal_number_def literal_value_def read_exponent_def char_defs dec_val_def digit_val_def)
qed

lemma sample_archive_config: "valid_operator_archive_config sample_archive_env"
  by (simp add: valid_operator_archive_config_def sample_archive_env_def payment_account_def char_defs positive_number_def text_one
    or_none_def safe_integer_def max_safe_def)

lemma sample_archived:
  "fst (advance_operator_archive sample_archive_world ''j:1:finalize'' sample_confirmed_record sample_outbox) = Inr None"
  by (simp add: advance_operator_archive_def sample_confirmed_record_def Let_def run_catch run_bnd operator_outbox_archive_of_def
    sample_archive_world_def sample_archive_config commit_archive_def commit_operator_outbox_archive_def sample_operator_world_def
    insert_or_ignore_def same_outbox_columns_def put_operator_def operator_now_def sample_outbox_def operator_start_def
    sample_sent_record_def new_operator_record_def ephemeral_method_def)

theorem archived_when_stored_witness:
  "\<exists>a r' m' row. operator_outbox_archive_of sample_archive_world sample_confirmed_record = Inr a
    \<and> tget ''j:1:finalize''
        (os_outbox (snd (advance_operator_archive sample_archive_world ''j:1:finalize'' sample_confirmed_record sample_outbox))) = Some r'
    \<and> ox_archive r' = Some m' \<and> xa_status m' = ArchiveCommitted \<and> xa_archive_sha256 m' = Some (oa_archive_sha256 a)
    \<and> tget (outbox_key a)
        (os_archive (snd (advance_operator_archive sample_archive_world ''j:1:finalize'' sample_confirmed_record sample_outbox))) = Some row
    \<and> same_outbox_columns row a"
  by (rule archived_when_stored [where m = sample_pending_meta]) (rule prod_eqI, simp_all add: sample_archived, simp add: sample_confirmed_record_def)

text \<open>A settlement in the outbox counts as an invalid record, so no archive scan starts while one waits.\<close>

lemma settlement_blocks_scan:
  assumes "(key, r) \<in> set (os_outbox s)" and "ephemeral_method (ox_method r)" and "length (os_outbox s) \<le> max_persistent_records"
  shows "ou_invalid (operator_status_of W s) \<noteq> 0"
proof -
  let ?t = "sort_key fst (os_outbox s)"
  have "(key, r) \<in> set ?t" "\<not> valid_operator_outbox_record key r"
    using assms by (auto simp: valid_operator_outbox_record_def ephemeral_method_def)
  then have "length (filter (\<lambda>(k, r). valid_operator_outbox_record k r) ?t) < length ?t"
    using length_filter_less [of "(key, r)" ?t "\<lambda>(k, r). valid_operator_outbox_record k r"] by simp
  then show ?thesis
    using assms(3) by (simp add: operator_status_of_def listed_outbox_def summarize_operator_outbox_def Let_def)
qed

end
