(* ===== verification/Tracks.thy ===== *)
theory Tracks
  imports Prelude
begin

text \<open>
  Following a part of the state through a computation. \<open>tracks V R v m Q\<close>: started where the part \<open>V\<close> of the state is
  \<open>v\<close>, the computation leaves a part that \<open>R\<close> allows after \<open>v\<close>, whether it returns or throws, and a returned result
  satisfies \<open>Q\<close> with it. The laws hold for every reflexive and transitive \<open>R\<close>.
\<close>

definition tracks :: "('s \<Rightarrow> 'v) \<Rightarrow> ('v \<Rightarrow> 'v \<Rightarrow> bool) \<Rightarrow> 'v \<Rightarrow> ('s, 'a) act \<Rightarrow> ('a \<Rightarrow> 'v \<Rightarrow> bool) \<Rightarrow> bool" where
  "tracks V R v m Q =
     (\<forall>s. V s = v \<longrightarrow> R v (V (snd (m s))) \<and> (case fst (m s) of Inl e \<Rightarrow> True | Inr x \<Rightarrow> Q x (V (snd (m s)))))"

lemma tracksD: "tracks V R v m Q \<Longrightarrow> V s = v \<Longrightarrow> R v (V (snd (m s)))"
  by (simp add: tracks_def)

lemma tracks_result: "tracks V R v m Q \<Longrightarrow> V s = v \<Longrightarrow> m s = (Inr x, t) \<Longrightarrow> Q x (V t)"
  by (fastforce simp: tracks_def)

lemma tracks_mono: "tracks V R v m Q \<Longrightarrow> (\<And>x v'. R v v' \<Longrightarrow> Q x v' \<Longrightarrow> Q' x v') \<Longrightarrow> tracks V R v m Q'"
  by (auto simp: tracks_def split: sum.splits)

lemma tracks_atomically: "tracks V R v m Q \<Longrightarrow> (\<And>v. R v v) \<Longrightarrow> tracks V R v (atomically m) Q"
  by (auto simp: tracks_def run_atomically split: sum.splits)

lemma tracks_if: "(b \<Longrightarrow> tracks V R v m Q) \<Longrightarrow> (\<not> b \<Longrightarrow> tracks V R v n Q) \<Longrightarrow> tracks V R v (if b then m else n) Q"
  by simp

lemma tracks_option:
  "(x = None \<Longrightarrow> tracks V R v m Q) \<Longrightarrow> (\<And>y. x = Some y \<Longrightarrow> tracks V R v (n y) Q) \<Longrightarrow>
   tracks V R v (case x of None \<Rightarrow> m | Some y \<Rightarrow> n y) Q"
  by (cases x) simp_all

lemma tracks_sum:
  "(\<And>y. x = Inl y \<Longrightarrow> tracks V R v (m y) Q) \<Longrightarrow> (\<And>y. x = Inr y \<Longrightarrow> tracks V R v (n y) Q) \<Longrightarrow>
   tracks V R v (case x of Inl y \<Rightarrow> m y | Inr y \<Rightarrow> n y) Q"
  by (cases x) simp_all

lemma tracks_prod: "(\<And>a b. x = (a, b) \<Longrightarrow> tracks V R v (m a b) Q) \<Longrightarrow> tracks V R v (case x of (a, b) \<Rightarrow> m a b) Q"
  by (cases x) simp

lemma tracks_Let: "(\<And>y. y = x \<Longrightarrow> tracks V R v (f y) Q) \<Longrightarrow> tracks V R v (let y = x in f y) Q"
  by simp

lemma reading_bnd: "bnd (reading f) k s = k (f s) s"
  by (simp add: run_bnd)

lemma require_bnd: "bnd (require b e) k s = (if b then k () s else (Inl e, s))"
  by (simp add: run_bnd)

lemma lifting_bnd: "bnd (lifting r) k s = (case r of Inl e \<Rightarrow> (Inl e, s) | Inr x \<Rightarrow> k x s)"
  by (cases r) (simp_all add: run_bnd)

text \<open>A computation that throws only before it changed the part.\<close>

definition fails_still :: "('s \<Rightarrow> 'v) \<Rightarrow> 'v \<Rightarrow> ('s, 'a) act \<Rightarrow> bool" where
  "fails_still V v m = (\<forall>s e. V s = v \<longrightarrow> fst (m s) = Inl e \<longrightarrow> V (snd (m s)) = v)"

lemma fails_still_bnd:
  "keeps (\<lambda>s. V s = v) m \<Longrightarrow> (\<And>x. fails_still V v (k x)) \<Longrightarrow> fails_still V v (bnd m k)"
  by (auto simp: fails_still_def keeps_def run_bnd split: sum.splits)

lemma fails_still_writing: "fails_still V v (writing f)"
  by (simp add: fails_still_def)

locale tracking =
  fixes R :: "'v \<Rightarrow> 'v \<Rightarrow> bool"
  assumes same: "R v v"
    and further: "R u v \<Longrightarrow> R v w \<Longrightarrow> R u w"
begin

lemma ret_tracks: "Q x v \<Longrightarrow> tracks V R v (ret x) Q"
  by (simp add: tracks_def same)

lemma throw_tracks: "tracks V R v (throw e) Q"
  by (simp add: tracks_def same)

lemma reading_tracks: "(\<And>s. V s = v \<Longrightarrow> Q (f s) v) \<Longrightarrow> tracks V R v (reading f) Q"
  by (simp add: tracks_def same)

lemma writing_tracks: "(\<And>s. V s = v \<Longrightarrow> R v (V (f s)) \<and> Q () (V (f s))) \<Longrightarrow> tracks V R v (writing f) Q"
  by (simp add: tracks_def)

lemma bnd_tracks:
  assumes "tracks V R v m P" and "\<And>x v'. R v v' \<Longrightarrow> P x v' \<Longrightarrow> tracks V R v' (k x) Q"
  shows "tracks V R v (bnd m k) Q"
proof -
  have "R v (V (snd (bnd m k s))) \<and> (case fst (bnd m k s) of Inl e \<Rightarrow> True | Inr x \<Rightarrow> Q x (V (snd (bnd m k s))))"
    if "V s = v" for s
    using that assms(1) assms(2) [of "V (snd (m s))"] further [of v "V (snd (m s))"]
    by (cases "m s"; cases "fst (m s)") (auto simp: tracks_def run_bnd cong: sum.case_cong)
  then show ?thesis by (simp add: tracks_def)
qed

lemma catch_tracks:
  assumes "tracks V R v m Q" and "\<And>e v'. R v v' \<Longrightarrow> tracks V R v' (h e) Q"
  shows "tracks V R v (catch m h) Q"
proof -
  have "R v (V (snd (catch m h s))) \<and> (case fst (catch m h s) of Inl e \<Rightarrow> True | Inr x \<Rightarrow> Q x (V (snd (catch m h s))))"
    if "V s = v" for s
    using that assms(1) assms(2) [of "V (snd (m s))"] further [of v "V (snd (m s))"]
    by (cases "m s"; cases "fst (m s)") (auto simp: tracks_def run_catch cong: sum.case_cong)
  then show ?thesis by (simp add: tracks_def)
qed

lemma attempt_tracks:
  "tracks V R v m P \<Longrightarrow> (\<And>x v'. R v v' \<Longrightarrow> P x v' \<Longrightarrow> Q (Inr x) v') \<Longrightarrow> (\<And>e v'. R v v' \<Longrightarrow> Q (Inl e) v') \<Longrightarrow>
   tracks V R v (attempt m) Q"
  unfolding tracks_def by (auto simp: run_attempt split: sum.split_asm) (metis sum.exhaust)

text \<open>Computations that leave the part as it is.\<close>

lemma keeps_tracks: "keeps (\<lambda>s. V s = v) m \<Longrightarrow> tracks V R v m (\<lambda>x v'. v' = v)"
  by (auto simp: tracks_def keeps_def same split: sum.splits)

lemma keeps_only: "keeps (\<lambda>s. V s = v) m \<Longrightarrow> (\<And>x. Q x v) \<Longrightarrow> tracks V R v m Q"
  by (auto simp: tracks_def keeps_def same split: sum.splits)

lemma keeps_bnd_tracks: "keeps (\<lambda>s. V s = v) m \<Longrightarrow> (\<And>x. tracks V R v (k x) Q) \<Longrightarrow> tracks V R v (bnd m k) Q"
  by (rule bnd_tracks [OF keeps_tracks]) auto

lemma keeps_catch_tracks:
  assumes "keeps (\<lambda>s. V s = v) m" and "\<And>x. Q x v" and "\<And>e. tracks V R v (h e) Q"
  shows "tracks V R v (catch m h) Q"
proof -
  have "R v (V (snd (catch m h s))) \<and> (case fst (catch m h s) of Inl e \<Rightarrow> True | Inr x \<Rightarrow> Q x (V (snd (catch m h s))))"
    if "V s = v" for s
    using that assms(2) assms(3) keepsD [OF assms(1), of s] same [of v]
    by (cases "m s"; cases "fst (m s)") (auto simp: tracks_def run_catch cong: sum.case_cong)
  then show ?thesis by (simp add: tracks_def)
qed

lemma fails_catch_tracks:
  assumes "tracks V R v m Q" and "fails_still V v m" and "\<And>e. tracks V R v (h e) Q"
  shows "tracks V R v (catch m h) Q"
proof -
  have "R v (V (snd (catch m h s))) \<and> (case fst (catch m h s) of Inl e \<Rightarrow> True | Inr x \<Rightarrow> Q x (V (snd (catch m h s))))"
    if "V s = v" for s
    using that assms(1,2) assms(3) further [of v "V (snd (m s))"]
    by (cases "m s"; cases "fst (m s)") (auto simp: tracks_def fails_still_def run_catch cong: sum.case_cong)
  then show ?thesis by (simp add: tracks_def)
qed

lemma reading_bnd_tracks: "(\<And>s. V s = v \<Longrightarrow> tracks V R v (k (f s)) Q) \<Longrightarrow> tracks V R v (bnd (reading f) k) Q"
  by (simp add: tracks_def reading_bnd cong: sum.case_cong)

lemma require_bnd_tracks: "(b \<Longrightarrow> tracks V R v (k ()) Q) \<Longrightarrow> tracks V R v (bnd (require b e) k) Q"
  by (auto simp: tracks_def require_bnd same cong: sum.case_cong)

lemma lifting_bnd_tracks: "(\<And>x. r = Inr x \<Longrightarrow> tracks V R v (k x) Q) \<Longrightarrow> tracks V R v (bnd (lifting r) k) Q"
  by (cases r) (auto simp: tracks_def lifting_bnd same cong: sum.case_cong)

end

end
