(* ===== verification/BridgeControl.thy ===== *)
theory BridgeControl
  imports BridgeOperator
begin

text \<open>
  Signed control requests of the media bridge (\<open>index.ts\<close>): an envelope that binds a body to a route, a deployment, an
  origin, an account and a key, signed by the upload key the chain shows for the job. The four routes that take one are
  upload intents, heartbeats, cancellations and playback tokens.
\<close>

section \<open>Envelopes\<close>

definition control_max_future_ms :: int where
  "control_max_future_ms = 5 * 60 * 1000"

definition upload_intent_route :: string where
  "upload_intent_route = ''/v1/upload-intents''"

definition upload_heartbeat_route :: string where
  "upload_heartbeat_route = ''/v1/upload-heartbeats''"

definition upload_cancellation_route :: string where
  "upload_cancellation_route = ''/v1/upload-cancellations''"

definition playback_token_route :: string where
  "playback_token_route = ''/v1/playback-tokens''"

definition control_routes :: "string list" where
  "control_routes = [upload_intent_route, upload_heartbeat_route, upload_cancellation_route, playback_token_route]"

definition envelope_fields :: "string list" where
  "envelope_fields =
     [''domain'', ''version'', ''method'', ''route'', ''network'', ''contract_id'', ''account_id'', ''resource'', ''session_public_key'',
      ''origin'', ''device_nonce'', ''expires_at_ms'', ''body_sha256'']"

definition control_domain :: string where
  "control_domain = ''youtick.paid-media-livepeer-v1.control''"

text \<open>What \<open>parseControlEnvelope\<close> accepts; the version, the route and the network are compared as texts here.\<close>

definition parse_control_envelope :: "(string \<Rightarrow> url_parts option) \<Rightarrow> json option \<Rightarrow> string + json" where
  "parse_control_envelope U v =
     (let code = ''invalid_control_envelope'' in
      ebind (require_object v code) (\<lambda>sealed.
      ebind (require_exact_keys sealed envelope_fields code) (\<lambda>_.
      let field = (\<lambda>k p. has_str k sealed \<and> p (str_of k sealed)) in
      ebind (erequire (obj_get ''domain'' sealed = Some (JStr control_domain)
               \<and> string_of (obj_get ''version'' sealed) \<in> {''2'', ''3''}
               \<and> obj_get ''method'' sealed = Some (JStr ''POST'')
               \<and> string_of (obj_get ''route'' sealed) \<in> set control_routes
               \<and> string_of (obj_get ''network'' sealed) \<in> {''testnet'', ''mainnet''}
               \<and> field ''contract_id'' payment_account \<and> field ''account_id'' payment_account
               \<and> field ''resource'' (\<lambda>r. \<not> line_break r) \<and> field ''session_public_key'' bridge_session_key
               \<and> field ''origin'' (is_allowed_control_origin U) \<and> field ''device_nonce'' nonce_text
               \<and> field ''expires_at_ms'' (decimal1 19) \<and> field ''body_sha256'' hex64) code) (\<lambda>_.
      Inr sealed))))"

record control_envelope =
  ev_version :: string
  ev_route :: string
  ev_network :: string
  ev_contract_id :: string
  ev_account_id :: string
  ev_resource :: string
  ev_session_public_key :: string
  ev_origin :: string
  ev_device_nonce :: string
  ev_expires_at_ms :: string
  ev_body_sha256 :: string

definition read_envelope :: "json \<Rightarrow> control_envelope" where
  "read_envelope v =
     \<lparr>ev_version = str_of ''version'' v, ev_route = str_of ''route'' v, ev_network = str_of ''network'' v,
      ev_contract_id = str_of ''contract_id'' v, ev_account_id = str_of ''account_id'' v, ev_resource = str_of ''resource'' v,
      ev_session_public_key = str_of ''session_public_key'' v, ev_origin = str_of ''origin'' v,
      ev_device_nonce = str_of ''device_nonce'' v, ev_expires_at_ms = str_of ''expires_at_ms'' v,
      ev_body_sha256 = str_of ''body_sha256'' v\<rparr>"

text \<open>\<open>canonicalControlMessage\<close>\<close>

definition canonical_control_message :: "control_envelope \<Rightarrow> string" where
  "canonical_control_message v = join [CHR 0x0A]
     [control_domain, ev_version v, ''POST'', ev_route v, ev_network v, ev_contract_id v, ev_account_id v, ev_resource v,
      ev_session_public_key v, ev_origin v, ev_device_nonce v, ev_expires_at_ms v, ev_body_sha256 v]"

section \<open>Requests\<close>

text \<open>What a request is held to: the settings, the parser of URLs, the allowed origins and the clock; its headers and body.\<close>

record control_scope =
  co_crypto :: crypto
  co_url :: "string \<Rightarrow> url_parts option"
  co_env :: bridge_env
  co_allowed_origins :: "string option"
  co_now_ms :: int

record control_request =
  cq_origin :: "string option"
  cq_signature :: "string option"
  cq_body :: bytes

definition binding_ok :: "control_scope \<Rightarrow> control_request \<Rightarrow> json \<Rightarrow> json \<Rightarrow> string \<Rightarrow> string \<Rightarrow> string \<Rightarrow> bool" where
  "binding_ok K q sealed body version route resource =
     (obj_get ''version'' sealed = Some (JStr version) \<and> obj_get ''route'' sealed = Some (JStr route)
      \<and> str_of ''body_sha256'' sealed = sha256_hex (co_crypto K) (encode_text (canonical_json body))
      \<and> str_of ''resource'' sealed = resource
      \<and> cq_origin q = Some (str_of ''origin'' sealed))"

definition envelope_in_scope :: "control_scope \<Rightarrow> json \<Rightarrow> string + control_envelope" where
  "envelope_in_scope K sealed =
     (let v = read_envelope sealed; expires = int (dec_val (ev_expires_at_ms v)) in
      ebind (erequire (obj_get ''network'' sealed = map_option JStr (be_near_network (co_env K))
               \<and> be_market_contract_id (co_env K) = Some (ev_contract_id v)) ''deployment_binding_mismatch'') (\<lambda>_.
      ebind (erequire (ev_origin v \<in> set (bridge_origins (co_allowed_origins K))) ''origin_denied'') (\<lambda>_.
      ebind (erequire (co_now_ms K < expires \<and> expires \<le> co_now_ms K + control_max_future_ms) ''control_request_expired'') (\<lambda>_.
      Inr v))))"

text \<open>The steps the requests of an upload share: keys, body, envelope, binding, scope.\<close>

definition parse_control_request ::
  "control_scope \<Rightarrow> control_request \<Rightarrow> string \<Rightarrow> string \<Rightarrow> (json option \<Rightarrow> string + json \<times> 'b) \<Rightarrow> ('b \<Rightarrow> string)
    \<Rightarrow> string + 'b \<times> control_envelope" where
  "parse_control_request K q version route parse_body resource =
     ebind (read_json_object (cq_body q)) (\<lambda>v.
     ebind (require_exact_keys v [''body'', ''envelope''] ''invalid_control_request'') (\<lambda>_.
     ebind (parse_body (obj_get ''body'' v)) (\<lambda>(raw, body).
     ebind (parse_control_envelope (co_url K) (obj_get ''envelope'' v)) (\<lambda>sealed.
     ebind (erequire (binding_ok K q sealed raw version route (resource body)) ''protocol_binding_mismatch'') (\<lambda>_.
     ebind (envelope_in_scope K sealed) (\<lambda>v.
     Inr (body, v)))))))"

definition job_resource :: "string \<Rightarrow> int \<Rightarrow> string" where
  "job_resource job_id generation = ''job:'' @ job_id @ '':'' @ show_int generation"

section \<open>Bodies\<close>

definition upload_profile_accepted :: "bridge_env \<Rightarrow> string option \<Rightarrow> bool" where
  "upload_profile_accepted e hash =
     (case media_profile_family hash of Some Stream \<Rightarrow> stream_enabled e | Some Studio \<Rightarrow> studio_active e | None \<Rightarrow> False)"

definition source_types :: "string list" where
  "source_types = [''mp4'', ''mov'', ''avi'', ''webm'', ''wmv'', ''mkv'', ''flv'']"

definition largest_upload :: nat where
  "largest_upload = 20000000000"

record upload_body =
  ub_job_id :: string
  ub_generation :: int
  ub_expected_source_bytes :: string
  ub_source_fingerprint_sha256 :: string
  ub_source_type :: string
  ub_profile_id :: string
  ub_profile_config_sha256 :: string
  ub_recovery :: "json option"

definition upload_body_fields :: "string list" where
  "upload_body_fields = [''job_id'', ''generation'', ''expected_source_bytes'', ''source_fingerprint_sha256'', ''source_type'', ''profile_id'',
     ''profile_config_sha256'']"

definition job_reference_ok :: "json \<Rightarrow> bool" where
  "job_reference_ok v =
     (has_str ''job_id'' v \<and> ident128 (str_of ''job_id'' v)
      \<and> (case json_safe_integer (obj_get ''generation'' v) of Some n \<Rightarrow> 1 \<le> n | None \<Rightarrow> False))"

definition generation_in :: "json \<Rightarrow> int" where
  "generation_in v = the (json_safe_integer (obj_get ''generation'' v))"

definition parse_upload_body :: "bridge_env \<Rightarrow> json option \<Rightarrow> string + json \<times> upload_body" where
  "parse_upload_body e v =
     (let code = ''invalid_upload_intent'' in
      ebind (require_object v code) (\<lambda>body.
      let recovery = obj_get ''recovery'' body; text = (\<lambda>k. str_of k body) in
      ebind (require_exact_keys body (if recovery = None then upload_body_fields else upload_body_fields @ [''recovery'']) code) (\<lambda>_.
      ebind (erequire (job_reference_ok body
               \<and> has_str ''expected_source_bytes'' body \<and> decimal1 19 (text ''expected_source_bytes'')
               \<and> dec_val (text ''expected_source_bytes'') \<le> largest_upload
               \<and> has_str ''source_fingerprint_sha256'' body \<and> hex64 (text ''source_fingerprint_sha256'')
               \<and> has_str ''source_type'' body \<and> text ''source_type'' \<in> set source_types
               \<and> obj_get ''profile_id'' body = Some (JStr (market_profile_id e))
               \<and> upload_profile_accepted e (as_str (obj_get ''profile_config_sha256'' body))
               \<and> (recovery = None \<or> string_of recovery \<in> {''reconcile'', ''resume''})) code) (\<lambda>_.
      Inr (body, \<lparr>ub_job_id = text ''job_id'', ub_generation = generation_in body,
        ub_expected_source_bytes = text ''expected_source_bytes'', ub_source_fingerprint_sha256 = text ''source_fingerprint_sha256'',
        ub_source_type = text ''source_type'', ub_profile_id = text ''profile_id'',
        ub_profile_config_sha256 = text ''profile_config_sha256'', ub_recovery = recovery\<rparr>)))))"

record heartbeat_body =
  hb_job_id :: string
  hb_generation :: int
  hb_lease_id :: string

definition parse_heartbeat_body :: "json option \<Rightarrow> string + json \<times> heartbeat_body" where
  "parse_heartbeat_body v =
     (let code = ''invalid_upload_intent'' in
      ebind (require_object v code) (\<lambda>body.
      ebind (require_exact_keys body [''job_id'', ''generation'', ''lease_id''] code) (\<lambda>_.
      ebind (erequire (job_reference_ok body \<and> has_str ''lease_id'' body \<and> lease_id_text (str_of ''lease_id'' body)) code) (\<lambda>_.
      Inr (body, \<lparr>hb_job_id = str_of ''job_id'' body, hb_generation = generation_in body, hb_lease_id = str_of ''lease_id'' body\<rparr>)))))"

definition parse_cancellation_body :: "json option \<Rightarrow> string + json \<times> (string \<times> int)" where
  "parse_cancellation_body v =
     (let code = ''invalid_upload_intent'' in
      ebind (require_object v code) (\<lambda>body.
      ebind (require_exact_keys body [''job_id'', ''generation''] code) (\<lambda>_.
      ebind (erequire (job_reference_ok body) code) (\<lambda>_.
      Inr (body, (str_of ''job_id'' body, generation_in body))))))"

definition parse_upload_intent_request :: "control_scope \<Rightarrow> control_request \<Rightarrow> string + upload_body \<times> control_envelope" where
  "parse_upload_intent_request K q =
     parse_control_request K q ''3'' upload_intent_route (parse_upload_body (co_env K)) (\<lambda>b. job_resource (ub_job_id b) (ub_generation b))"

definition parse_heartbeat_request :: "control_scope \<Rightarrow> control_request \<Rightarrow> string + heartbeat_body \<times> control_envelope" where
  "parse_heartbeat_request K q =
     parse_control_request K q ''2'' upload_heartbeat_route parse_heartbeat_body (\<lambda>b. job_resource (hb_job_id b) (hb_generation b))"

definition parse_cancellation_request :: "control_scope \<Rightarrow> control_request \<Rightarrow> string + (string \<times> int) \<times> control_envelope" where
  "parse_cancellation_request K q =
     parse_control_request K q ''2'' upload_cancellation_route parse_cancellation_body (\<lambda>(job_id, generation). job_resource job_id generation)"

text \<open>\<open>verifyControlSignature\<close>\<close>

definition verify_control_signature :: "crypto \<Rightarrow> control_request \<Rightarrow> control_envelope \<Rightarrow> string + unit" where
  "verify_control_signature C q v =
     (case (atob (or_none (cq_signature q)), base58_decode (ev_session_public_key v)) of
        (Some signature, Some key) \<Rightarrow>
          erequire (length signature = 64 \<and> length key = 32
            \<and> ed25519_verify C key signature (encode_text (canonical_control_message v))) ''invalid_control_request''
      | _ \<Rightarrow> Inl ''invalid_control_request'')"

section \<open>The job on the chain\<close>

text \<open>The chain authorizes the job of the request for the account and the key that signed it, and the key has not expired.\<close>

definition chain_job_authorized :: "string \<Rightarrow> int \<Rightarrow> control_envelope \<Rightarrow> int \<Rightarrow> json \<Rightarrow> bool" where
  "chain_job_authorized job_id generation v now job =
     (obj_get ''job_id'' job = Some (JStr job_id) \<and> obj_get ''creator_id'' job = Some (JStr (ev_account_id v))
      \<and> obj_get ''generation'' job = Some (JNum (of_int generation)) \<and> obj_get ''status'' job = Some (JStr ''Authorized'')
      \<and> obj_get ''upload_public_key'' job = Some (JStr (ev_session_public_key v))
      \<and> (case as_str (obj_get ''upload_key_expires_at_ms'' job) of
           Some t \<Rightarrow> decimal1 15 t \<and> now < int (dec_val t) | None \<Rightarrow> False))"

definition exact_chain_job :: "upload_body \<Rightarrow> control_envelope \<Rightarrow> int \<Rightarrow> json \<Rightarrow> bool" where
  "exact_chain_job b v now job =
     (chain_job_authorized (ub_job_id b) (ub_generation b) v now job
      \<and> obj_get ''profile_id'' job = Some (JStr (ub_profile_id b))
      \<and> obj_get ''profile_config_sha256'' job = Some (JStr (ub_profile_config_sha256 b))
      \<and> obj_get ''expected_source_bytes'' job = Some (JStr (ub_expected_source_bytes b)))"

text \<open>The public beta: what the marker and the state of the beta on the chain must say of the job.\<close>

definition public_beta_job_ttl_ms :: int where
  "public_beta_job_ttl_ms = 24 * 60 * 60 * 1000"

definition largest_beta_upload :: nat where
  "largest_beta_upload = 1000000000"

definition integer_in :: "string \<Rightarrow> json option \<Rightarrow> int option" where
  "integer_in k v = json_safe_integer (map_option JNum (Option.bind (Option.bind v (obj_get k)) number_of))"

definition beta_request :: "json \<Rightarrow> json" where
  "beta_request job =
     JObj (concat (map (\<lambda>k. case obj_get k job of Some x \<Rightarrow> [(k, x)] | None \<Rightarrow> [])
       [''creator_id'', ''job_id'', ''title'', ''price_usdc'', ''expected_source_bytes'', ''profile_id'', ''profile_config_sha256'',
        ''upload_public_key'', ''upload_key_expires_at_ms'']))"

definition beta_job_ok :: "crypto \<Rightarrow> int \<Rightarrow> string \<Rightarrow> int \<Rightarrow> json \<Rightarrow> json option \<Rightarrow> json option \<Rightarrow> bool" where
  "beta_job_ok C now account generation job marker beta =
     (case (marker, beta, integer_in ''ends_at_ms'' beta, integer_in ''admitted_at_ms'' marker, integer_in ''deadline_at_ms'' marker) of
        (Some m, Some b, Some ends_at, Some admitted, Some deadline) \<Rightarrow>
          obj_get ''version'' b = Some (JNum 1) \<and> obj_get ''closed_at_ms'' b = Some JNull \<and> now < ends_at
          \<and> obj_get ''creator_id'' m = Some (JStr account) \<and> obj_get ''generation'' m = Some (JNum 1) \<and> generation = 1
          \<and> strict_equal (obj_get ''sponsor_quote_id'' m) (obj_get ''fee_quote_hash'' job)
          \<and> obj_get ''request_sha256'' m = Some (JStr (sha256_hex C (encode_text (json_text (beta_request job)))))
          \<and> now < deadline \<and> deadline \<le> admitted + public_beta_job_ttl_ms \<and> deadline \<le> ends_at
          \<and> dec_val (string_of (obj_get ''expected_source_bytes'' job)) \<le> largest_beta_upload
      | _ \<Rightarrow> False)"

end
