(* ===== verification/BridgeJob.thy ===== *)
theory BridgeJob
  imports BridgeControl
begin

text \<open>
  The upload job object of the media bridge (\<open>index.ts\<close>): its records, what it keeps, what it asks of the admission object,
  the operator object, the chain and the media provider, and the steps its requests share. The provider adapters, the two
  other objects and the network are parameters that act on the outside; while one is waited for, other requests may
  have changed the object (\<open>jw_meanwhile\<close>).
\<close>

section \<open>States\<close>

datatype job_state =
  Authorized | Leased | ProviderCreatePending | CreatePending | CreateAmbiguous | UploadReady | Uploading | Processing
| ReadyVerified | FinalizeQueued | FinalizeRetry | UploadExpired | ProviderFailed | Cancelled | OnchainPublished

fun job_state_name :: "job_state \<Rightarrow> string" where
  "job_state_name Authorized = ''AUTHORIZED''"
| "job_state_name Leased = ''LEASED''"
| "job_state_name ProviderCreatePending = ''PROVIDER_CREATE_PENDING''"
| "job_state_name CreatePending = ''CREATE_PENDING''"
| "job_state_name CreateAmbiguous = ''CREATE_AMBIGUOUS''"
| "job_state_name UploadReady = ''UPLOAD_READY''"
| "job_state_name Uploading = ''UPLOADING''"
| "job_state_name Processing = ''PROCESSING''"
| "job_state_name ReadyVerified = ''READY_VERIFIED''"
| "job_state_name FinalizeQueued = ''FINALIZE_QUEUED''"
| "job_state_name FinalizeRetry = ''FINALIZE_RETRY''"
| "job_state_name UploadExpired = ''UPLOAD_EXPIRED''"
| "job_state_name ProviderFailed = ''PROVIDER_FAILED''"
| "job_state_name Cancelled = ''CANCELLED''"
| "job_state_name OnchainPublished = ''ONCHAIN_PUBLISHED''"

text \<open>\<open>JOB_STATE_TRANSITIONS\<close>\<close>

fun job_transitions :: "job_state \<Rightarrow> job_state list" where
  "job_transitions Authorized = [Leased, UploadExpired, Cancelled]"
| "job_transitions Leased = [ProviderCreatePending, UploadExpired, Cancelled]"
| "job_transitions ProviderCreatePending = [CreateAmbiguous, UploadReady, UploadExpired]"
| "job_transitions CreatePending = [CreateAmbiguous, UploadReady]"
| "job_transitions UploadReady = [Uploading, Processing, ReadyVerified, UploadExpired, ProviderFailed]"
| "job_transitions Uploading = [Processing, ReadyVerified, UploadExpired, ProviderFailed]"
| "job_transitions Processing = [ReadyVerified, UploadExpired, ProviderFailed]"
| "job_transitions ReadyVerified = [FinalizeQueued, FinalizeRetry, UploadExpired, ProviderFailed, OnchainPublished]"
| "job_transitions FinalizeQueued = [FinalizeRetry, UploadExpired, ProviderFailed, OnchainPublished]"
| "job_transitions FinalizeRetry = [FinalizeQueued, UploadExpired, ProviderFailed, OnchainPublished]"
| "job_transitions st = []"

definition ended_states :: "job_state list" where
  "ended_states = [UploadExpired, ProviderFailed, Cancelled]"

definition active_states :: "job_state list" where
  "active_states = [UploadReady, Uploading, Processing]"

definition finalizing_states :: "job_state list" where
  "finalizing_states = [ReadyVerified, FinalizeQueued, FinalizeRetry]"

section \<open>Records\<close>

record bytes_evidence =
  be_offset_bytes :: string
  be_length_bytes :: string
  be_observed_at_ms :: int
  be_ready_at_ms :: "string option"

record verification_checkpoint =
  ck_binding_sha256 :: string
  ck_next_thumbnail :: int
  ck_started_at_ms :: int

record stream_progress =
  pg_state :: string
  pg_pct_complete :: rat
  pg_changed_at_ms :: int

record finalize_retry =
  fr_attempts :: nat
  fr_last_http_status :: nat
  fr_next_attempt_at_ms :: int

record provider_create =
  pc_last_attempt_at_ms :: int
  pc_last_error_code :: "string option"
  pc_ambiguous_at_ms :: "int option"
  pc_completed_at_ms :: "int option"

datatype delete_outcome = Deleted | Missing | AmbiguousDelete

record provider_delete =
  pd_asset_id_sha256 :: string
  pd_outcome :: delete_outcome
  pd_attempted_at_ms :: int

text \<open>The publication is the JSON the operator object finalizes; \<open>terminalArchive\<close> has the fields of an outbox archive.\<close>

record job_record =
  uj_state :: job_state
  uj_network :: string
  uj_contract_id :: string
  uj_job_id :: string
  uj_generation :: int
  uj_creator :: string
  uj_expected_source_bytes :: string
  uj_source_fingerprint_sha256 :: "string option"
  uj_source_type :: string
  uj_profile_id :: string
  uj_profile_config_sha256 :: string
  uj_created_at_ms :: int
  uj_state_changed_at_ms :: "int option"
  uj_terminal_at_ms :: "int option"
  uj_provider :: "media_provider_kind option"
  uj_api_token_name :: "string option"
  uj_lease_id :: "string option"
  uj_lease_expires_at_ms :: "int option"
  uj_asset_id :: "string option"
  uj_playback_id :: "string option"
  uj_project_id :: "string option"
  uj_tus_endpoint :: "string option"
  uj_publication :: "json option"
  uj_provider_verification :: "verification_checkpoint option"
  uj_source_bytes_evidence :: "bytes_evidence option"
  uj_stream_progress :: "stream_progress option"
  uj_finalize_retry :: "finalize_retry option"
  uj_provider_create :: "provider_create option"
  uj_terminal_archive :: "archive_meta option"
  uj_absolute_deadline_at_ms :: "int option"
  uj_provider_delete :: "provider_delete option"

datatype reconcile_status = Healthy | DriftBlocked | ProviderUnknown | NearUnknown

record drift_record =
  dr_code :: string
  dr_first_observed_at_ms :: int
  dr_last_observed_at_ms :: int
  dr_observations :: nat

record recovery_record =
  ry_first_observed_at_ms :: int
  ry_observations :: nat

record reconcile_record =
  rc_status :: reconcile_status
  rc_consecutive_errors :: nat
  rc_next_reconcile_at_ms :: int
  rc_upload_read_failed :: "bool option"
  rc_upload_error_code :: "string option"
  rc_last_good_at_ms :: "int option"
  rc_last_drift :: "drift_record option"
  rc_recovery :: "recovery_record option"
  rc_sales_suspension_queued_at_ms :: "int option"

record webhook_mark =
  wk_verified :: bool
  wk_event :: string
  wk_asset_id :: string
  wk_phase :: string
  wk_received_at_ms :: int

record job_outbox_record =
  jo_idempotency_key :: string
  jo_method :: outbox_method
  jo_job_id :: string
  jo_generation :: int
  jo_payload_sha256 :: string
  jo_confirmed :: bool
  jo_created_at_ms :: int

section \<open>The store\<close>

record 's job_store =
  jb_job :: "job_record option"
  jb_reconcile :: "reconcile_record option"
  jb_nonces :: "(string, int) table"
  jb_webhooks :: "(string, webhook_mark) table"
  jb_outbox :: "(string, job_outbox_record) table"
  jb_alarm :: "int option"
  jb_archive :: "(job_row_key, upload_job_archive) table"
  jb_policy :: "policy_cache option"
  jb_outside :: 's

type_synonym ('s, 'a) jact = "('s job_store, 'a) act"

datatype job_storage_key = JobKey | ReconcileKey | NonceKey string | WebhookKey string | JobOutboxKey string

definition job_keys :: "'s job_store \<Rightarrow> job_storage_key list" where
  "job_keys s =
     (if jb_job s = None then [] else [JobKey]) @ (if jb_reconcile s = None then [] else [ReconcileKey])
     @ map (\<lambda>(k, x). NonceKey k) (jb_nonces s) @ map (\<lambda>(k, x). WebhookKey k) (jb_webhooks s)
     @ map (\<lambda>(k, x). JobOutboxKey k) (jb_outbox s)"

definition job_capacity :: "job_storage_key list \<Rightarrow> ('s, unit) jact" where
  "job_capacity keys s = (fst (assert_record_capacity keys (map (\<lambda>k. (k, ())) (job_keys s))), s)"

section \<open>The outside\<close>

text \<open>
  What the adapters answer, in the fields the object reads: a created upload, the state of its resumable upload, an asset, a
  video of Cloudflare Stream.
\<close>

record created_upload =
  cu_asset_id :: string
  cu_playback_id :: string
  cu_project_id :: string
  cu_tus_endpoint :: string

record tus_state =
  ts_offset_bytes :: string
  ts_length_bytes :: string

record provider_asset =
  as_id :: string
  as_playback_id :: string
  as_policy :: string
  as_phase :: string
  as_project_id :: "string option"

record stream_video =
  sv_uid :: string
  sv_route :: "webhook_route option"
  sv_state :: string
  sv_ready_to_stream :: bool
  sv_pct_complete :: "rat option"
  sv_error_reason_code :: string

record verified_asset =
  va_asset_id_hash :: string
  va_playback_id :: string
  va_project_id_hash :: string
  va_verified_source_bytes :: string
  va_source_fingerprint :: "string option"
  va_ready_at_ms :: string
  va_evidence :: "bytes_evidence option"
  va_duration_seconds :: "rat option"

text \<open>A verification that is not finished: where it stands and when to look again.\<close>

datatype verification_result = Verified verified_asset | VerificationPending verification_checkpoint "int option"

record verify_input =
  vi_job :: job_record
  vi_expected_project_id :: "string option"
  vi_published :: bool
  vi_upload_created_at_ms :: "int option"

record identity_expectation =
  ie_job_id :: string
  ie_generation :: int
  ie_asset_id :: string
  ie_playback_id :: "string option"
  ie_project_id :: "string option"
  ie_api_token_name :: "string option"

record 's job_provider =
  jp_create_upload :: "job_record \<Rightarrow> int \<Rightarrow> ('s, created_upload) act"
  jp_read_tus_offset :: "string \<Rightarrow> ('s, tus_state) act"
  jp_read_asset :: "string \<Rightarrow> ('s, provider_asset) act"
  jp_read_video :: "string \<Rightarrow> ('s, stream_video) act"
  jp_read_storage_usage :: "('s, rat \<times> rat option) act"
  jp_verify_ready :: "verify_input \<Rightarrow> ('s, verification_result) act"
  jp_delete_asset :: "string \<Rightarrow> ('s, bool) act"
  jp_parse_webhook :: "bytes \<Rightarrow> int option \<Rightarrow> ('s, webhook_event option) act"
  jp_sign_playback :: "string \<Rightarrow> int \<Rightarrow> int \<Rightarrow> ('s, signed_playback) act"
  jp_identity_matches :: "provider_asset \<Rightarrow> identity_expectation \<Rightarrow> bool"

text \<open>
  \<open>jw_admission\<close> and \<open>jw_operator\<close>: a POST to a route of the object of that name; the status of the answer and its JSON,
  when it is one. \<open>jw_limiter\<close>: the account limit of the public routes, when it is bound.
\<close>

record 's job_world =
  jw_env :: bridge_env
  jw_allowed_origins :: "string option"
  jw_crypto :: crypto
  jw_now :: "'s job_store \<Rightarrow> int"
  jw_url :: "string \<Rightarrow> url_parts option"
  jw_near :: "'s near_fetch"
  jw_admission :: "string \<Rightarrow> string \<Rightarrow> json \<Rightarrow> ('s, nat \<times> json option) act"
  jw_operator :: "string \<Rightarrow> string \<Rightarrow> json \<Rightarrow> ('s, nat \<times> json option) act"
  jw_provider :: "media_provider_kind \<Rightarrow> 's job_provider"
  jw_limiter :: "(string \<Rightarrow> ('s, bool) act) option"
  jw_archive_db :: "'s job_store \<Rightarrow> (job_row_key, upload_job_archive) table archive_db"
  jw_meanwhile :: "'s job_store \<Rightarrow> 's job_store"

definition ask :: "'s job_world \<Rightarrow> ('s, 'a) act \<Rightarrow> ('s, 'a) jact" where
  "ask W m s = (case m (jb_outside s) of (r, x) \<Rightarrow> (r, jw_meanwhile W (s\<lparr>jb_outside := x\<rparr>)))"

definition job_now :: "'s job_world \<Rightarrow> ('s, int) jact" where
  "job_now W = reading (jw_now W)"

definition job_near :: "'s job_world \<Rightarrow> 's job_store near_fetch" where
  "job_near W body = ask W (jw_near W body)"

definition put_job :: "job_record \<Rightarrow> ('s, unit) jact" where
  "put_job r = writing (\<lambda>s. s\<lparr>jb_job := Some r\<rparr>)"

definition put_reconcile :: "reconcile_record \<Rightarrow> ('s, unit) jact" where
  "put_reconcile r = writing (\<lambda>s. s\<lparr>jb_reconcile := Some r\<rparr>)"

definition schedule_reconcile :: "int \<Rightarrow> ('s, unit) jact" where
  "schedule_reconcile at_ms = writing (\<lambda>s. s\<lparr>jb_alarm := alarm_no_later (jb_alarm s) at_ms\<rparr>)"

section \<open>Moving a job\<close>

definition new_archive_meta :: "int \<Rightarrow> archive_meta" where
  "new_archive_meta now =
     \<lparr>xa_status = ArchivePending, xa_attempts = 0, xa_created_at_ms = now, xa_next_attempt_at_ms = now, xa_archive_sha256 = None,
      xa_committed_at_ms = None, xa_cleanup_eligible_at_ms = None\<rparr>"

definition transition_job :: "int \<Rightarrow> job_record \<Rightarrow> job_state \<Rightarrow> string + job_record" where
  "transition_job now r st =
     (if uj_state r = st then Inr r
      else if st \<notin> set (job_transitions (uj_state r)) then Inl ''invalid_job_transition''
      else
        let moved = r\<lparr>uj_state := st, uj_state_changed_at_ms := Some now\<rparr> in
        Inr (if st \<in> set ended_states then moved\<lparr>uj_terminal_at_ms := Some now, uj_terminal_archive := Some (new_archive_meta now)\<rparr>
             else moved))"

definition move_to :: "'s job_world \<Rightarrow> job_record \<Rightarrow> job_state \<Rightarrow> ('s, job_record) jact" where
  "move_to W r st = bnd (job_now W) (\<lambda>now. lifting (transition_job now r st))"

definition provider_kind :: "job_record \<Rightarrow> media_provider_kind" where
  "provider_kind r = (case uj_provider r of Some k \<Rightarrow> k | None \<Rightarrow> Studio)"

definition provider_of :: "'s job_world \<Rightarrow> job_record \<Rightarrow> 's job_provider" where
  "provider_of W r = jw_provider W (provider_kind r)"

definition deadline_expired :: "int \<Rightarrow> job_record \<Rightarrow> bool" where
  "deadline_expired now r = (case uj_absolute_deadline_at_ms r of Some t \<Rightarrow> t \<le> now | None \<Rightarrow> False)"

definition track_progress :: "job_record \<Rightarrow> (string \<times> rat) option \<Rightarrow> int \<Rightarrow> job_record" where
  "track_progress r progress now =
     (case progress of
        None \<Rightarrow> r
      | Some (st, pct) \<Rightarrow>
          if provider_kind r \<noteq> Stream then r
          else if (case uj_stream_progress r of Some p \<Rightarrow> pg_state p = st \<and> pg_pct_complete p = pct | None \<Rightarrow> False) then r
          else r\<lparr>uj_stream_progress := Some \<lparr>pg_state = st, pg_pct_complete = pct, pg_changed_at_ms = now\<rparr>\<rparr>)"

definition within_deadline :: "job_record \<Rightarrow> int \<Rightarrow> int" where
  "within_deadline r t = (case uj_absolute_deadline_at_ms r of Some d \<Rightarrow> min t d | None \<Rightarrow> t)"

end
