(* ===== verification/BridgeJobSteps.thy ===== *)
theory BridgeJobSteps
  imports BridgeJob BridgeRelease
begin

text \<open>
  The steps of the upload job object: leases, marks and heartbeats asked of the admission object, the end of a job and of
  its Stream upload, finalization through the operator object, verification of the ready asset, and the record of what
  the reconciliation of a published job observed.
\<close>

section \<open>The admission object\<close>

definition admission_object_name :: "string \<Rightarrow> string \<Rightarrow> string" where
  "admission_object_name network contract = ''admission:'' @ network @ '':'' @ contract"

definition ask_admission :: "'s job_world \<Rightarrow> job_record \<Rightarrow> string \<Rightarrow> json \<Rightarrow> ('s, nat \<times> json option) jact" where
  "ask_admission W r route body = ask W (jw_admission W (admission_object_name (uj_network r) (uj_contract_id r)) route body)"

text \<open>\<open>response.json()\<close>, whose properties are read.\<close>

definition reply_object :: "json option \<Rightarrow> string + json" where
  "reply_object body = (case body of None \<Rightarrow> Inl ''SyntaxError'' | Some v \<Rightarrow> if v = JNull then Inl ''TypeError'' else Inr v)"

definition reply_ok :: "nat \<Rightarrow> bool" where
  "reply_ok status = (200 \<le> status \<and> status < 300)"

type_synonym lease = "string \<times> int"

definition lease_expiry :: "json \<Rightarrow> int \<Rightarrow> int option" where
  "lease_expiry v now =
     (case as_str (obj_get ''expires_at_ms'' v) of
        Some t \<Rightarrow> if decimal1 15 t \<and> 13 \<le> length t \<and> now < js_number t then Some (js_number t) else None
      | None \<Rightarrow> None)"

definition lease_request :: "job_record \<Rightarrow> int option \<Rightarrow> (rat \<times> rat option) option \<Rightarrow> json" where
  "lease_request r reserved storage = JObj
     ([(''jobId'', JStr (uj_job_id r)), (''generation'', JNum (of_int (uj_generation r))), (''creator'', JStr (uj_creator r)),
       (''expectedSourceBytes'', JStr (uj_expected_source_bytes r))]
      @ (case reserved of Some n \<Rightarrow> [(''reservedSeconds'', JNum (of_int n))] | None \<Rightarrow> [])
      @ (case storage of Some (used, _) \<Rightarrow> [(''storageMinutesUsed'', JNum used)] | None \<Rightarrow> [])
      @ (case storage of Some (_, Some limit) \<Rightarrow> [(''storageMinutesLimit'', JNum limit)] | _ \<Rightarrow> []))"

definition request_admission :: "'s job_world \<Rightarrow> job_record \<Rightarrow> (rat \<times> rat option) option \<Rightarrow> ('s, lease) jact" where
  "request_admission W r storage =
     (let stream = (provider_kind r = Stream);
          reserved = (if stream then stream_max_duration_seconds (jw_env W) else None);
          route = (if is_public_testnet (jw_env W) \<and> set_text (uj_asset_id r) \<and> set_text (uj_tus_endpoint r) then ''resume'' else ''reserve'') in
      bnd (require (stream \<longrightarrow> reserved \<noteq> None) ''runtime_not_configured'') (\<lambda>_.
      bnd (ask_admission W r (''/internal/admission/'' @ route) (lease_request r reserved storage)) (\<lambda>(status, body).
      bnd (lifting (reply_object body)) (\<lambda>v.
      if \<not> reply_ok status
      then throw (case as_str (obj_get ''error'' v) of
             Some c \<Rightarrow> if c \<in> {''admission_denied'', ''provider_admission_closed''} then c else ''admission_closed''
           | None \<Rightarrow> ''admission_closed'')
      else
        bnd (job_now W) (\<lambda>now.
        case (as_str (obj_get ''lease_id'' v), lease_expiry v now) of
          (Some l, Some t) \<Rightarrow> bnd (require (lease_id_text l) ''admission_closed'') (\<lambda>_. ret (l, t))
        | _ \<Rightarrow> throw ''admission_closed'')))))"

definition leased_job :: "job_record \<Rightarrow> lease \<Rightarrow> job_record" where
  "leased_job r l = r\<lparr>uj_lease_id := Some (fst l), uj_lease_expires_at_ms := Some (within_deadline r (snd l))\<rparr>"

definition mark_request :: "job_record \<Rightarrow> string \<Rightarrow> rat option \<Rightarrow> bool \<Rightarrow> json" where
  "mark_request r mark duration stuck = JObj
     ([(''jobId'', JStr (uj_job_id r)), (''generation'', JNum (of_int (uj_generation r))), (''state'', JStr mark)]
      @ (case duration of Some d \<Rightarrow> if 0 \<le> d then [(''durationSeconds'', JNum d)] else [] | None \<Rightarrow> [])
      @ (if stuck then [(''reason'', JStr ''stuck'')] else []))"

definition update_admission_with :: "'s job_world \<Rightarrow> job_record \<Rightarrow> string \<Rightarrow> rat option \<Rightarrow> bool \<Rightarrow> ('s, unit) jact" where
  "update_admission_with W r mark duration stuck =
     bnd (ask_admission W r ''/internal/admission/mark'' (mark_request r mark duration stuck)) (\<lambda>(status, body).
     require (reply_ok status) ''admission_closed'')"

definition update_admission :: "'s job_world \<Rightarrow> job_record \<Rightarrow> string \<Rightarrow> ('s, unit) jact" where
  "update_admission W r mark = update_admission_with W r mark None False"

definition close_admission :: "'s job_world \<Rightarrow> job_record \<Rightarrow> ('s, unit) jact" where
  "close_admission W r = bnd (ask_admission W r ''/internal/admission/mark'' (mark_request r ''AUTO_CLOSED'' None False)) (\<lambda>_. ret ())"

definition try_auto_close :: "'s job_world \<Rightarrow> job_record \<Rightarrow> ('s, unit) jact" where
  "try_auto_close W r = catch (update_admission W r ''AUTO_CLOSED'') (\<lambda>e. ret ())"

definition heartbeat_lease :: "'s job_world \<Rightarrow> job_record \<Rightarrow> ('s, lease) jact" where
  "heartbeat_lease W r =
     bnd (require (set_text (uj_lease_id r)) ''runtime_not_configured'') (\<lambda>_.
     bnd (ask_admission W r ''/internal/admission/heartbeat'' (JObj [(''jobId'', JStr (uj_job_id r)),
            (''generation'', JNum (of_int (uj_generation r))), (''leaseId'', JStr (or_none (uj_lease_id r)))])) (\<lambda>(status, body).
     if \<not> reply_ok status
     then throw (case reply_object body of
            Inr v \<Rightarrow> if status = 409 \<and> obj_get ''error'' v = Some (JStr ''admission_denied'') then ''admission_denied'' else ''admission_closed''
          | Inl e \<Rightarrow> ''admission_closed'')
     else
       bnd (lifting (reply_object body)) (\<lambda>v.
       bnd (job_now W) (\<lambda>now.
       case lease_expiry v now of
         Some t \<Rightarrow>
           bnd (require (obj_get ''lease_id'' v = map_option JStr (uj_lease_id r)) ''admission_denied'') (\<lambda>_.
           ret (or_none (uj_lease_id r), t))
       | None \<Rightarrow> throw ''admission_denied''))))"

section \<open>The end of a job\<close>

definition max_safe_time :: int where
  "max_safe_time = max_safe"

definition recording_error :: "job_record option \<Rightarrow> string option \<Rightarrow> string option" where
  "recording_error r code = (case r of Some j \<Rightarrow> if uj_state j \<in> set active_states then code else None | None \<Rightarrow> None)"

definition recorded_result :: "job_record option \<Rightarrow> reconcile_record option \<Rightarrow> string option \<Rightarrow> int \<Rightarrow> reconcile_record" where
  "recorded_result r previous code now =
     (let base = (case previous of Some p \<Rightarrow> p
           | None \<Rightarrow> \<lparr>rc_status = ProviderUnknown, rc_consecutive_errors = 0, rc_next_reconcile_at_ms = 0, rc_upload_read_failed = None,
               rc_upload_error_code = None, rc_last_good_at_ms = None, rc_last_drift = None, rc_recovery = None,
               rc_sales_suspension_queued_at_ms = None\<rparr>);
          at_ms = (case code of
             Some c \<Rightarrow> min (max (rc_next_reconcile_at_ms base) (now + 60 * 1000))
                         (case Option.bind r uj_absolute_deadline_at_ms of Some d \<Rightarrow> d | None \<Rightarrow> max_safe_time)
           | None \<Rightarrow> rc_next_reconcile_at_ms base)
      in base\<lparr>rc_next_reconcile_at_ms := at_ms, rc_upload_read_failed := Some (code \<noteq> None), rc_upload_error_code := code\<rparr>)"

definition persist_upload_result :: "'s job_world \<Rightarrow> string option \<Rightarrow> ('s, unit) jact" where
  "persist_upload_result W code =
     bnd (atomically (
       bnd (reading (\<lambda>s. (recording_error (jb_job s) code, jb_job s, jb_reconcile s))) (\<lambda>(c, r, previous).
       if previous = None \<and> c = None then ret None
       else
         bnd (job_capacity [ReconcileKey]) (\<lambda>_.
         bnd (job_now W) (\<lambda>now.
         let rc = recorded_result r previous c now in
         bnd (put_reconcile rc) (\<lambda>_.
         ret (if c \<noteq> None then Some (rc_next_reconcile_at_ms rc) else None)))))))
     (\<lambda>at_ms. case at_ms of Some t \<Rightarrow> schedule_reconcile t | None \<Rightarrow> ret ())"

definition schedule_terminal_archive :: "'s job_world \<Rightarrow> job_record \<Rightarrow> ('s, unit) jact" where
  "schedule_terminal_archive W r =
     bnd (persist_upload_result W None) (\<lambda>_.
     case uj_terminal_archive r of
       Some m \<Rightarrow>
         if be_upload_job_archive_enabled (jw_env W) = Some ''true'' \<and> xa_status m \<noteq> ArchiveCommitted
         then bnd (job_now W) (\<lambda>now. schedule_reconcile (max now (xa_next_attempt_at_ms m)))
         else ret ()
     | None \<Rightarrow> ret ())"

definition job_sha256 :: "'s job_world \<Rightarrow> string \<Rightarrow> string" where
  "job_sha256 W t = sha256_hex (jw_crypto W) (encode_text t)"

definition provider_mutations :: "'s job_world \<Rightarrow> bool" where
  "provider_mutations W = (be_provider_mutations_enabled (jw_env W) = Some ''true'')"

text \<open>The UID of a Stream job that ended is deleted at most once.\<close>

definition deleted_record :: "'s job_world \<Rightarrow> job_record \<Rightarrow> string \<Rightarrow> delete_outcome \<Rightarrow> int \<Rightarrow> job_record" where
  "deleted_record W r asset outcome now =
     r\<lparr>uj_provider_delete := Some \<lparr>pd_asset_id_sha256 = job_sha256 W asset, pd_outcome = outcome, pd_attempted_at_ms = now\<rparr>\<rparr>"

definition delete_result :: "string + bool \<Rightarrow> delete_outcome" where
  "delete_result outcome = (case outcome of Inr gone \<Rightarrow> if gone then Deleted else Missing | Inl e \<Rightarrow> AmbiguousDelete)"

definition record_deletion :: "'s job_world \<Rightarrow> job_record \<Rightarrow> string \<Rightarrow> ('s, job_record \<times> delete_outcome) jact" where
  "record_deletion W r asset =
     bnd (attempt (ask W (jp_delete_asset (provider_of W r) asset))) (\<lambda>outcome.
     bnd (job_now W) (\<lambda>now.
     let r' = deleted_record W r asset (delete_result outcome) now in
     bnd (put_job r') (\<lambda>_. ret (r', delete_result outcome))))"

definition delete_stream_upload :: "'s job_world \<Rightarrow> job_record \<Rightarrow> ('s, job_record) jact" where
  "delete_stream_upload W r =
     (if provider_kind r \<noteq> Stream \<or> \<not> set_text (uj_asset_id r) \<or> uj_provider_delete r \<noteq> None \<or> \<not> provider_mutations W then ret r
      else
        bnd (record_deletion W r (or_none (uj_asset_id r))) (\<lambda>(r', outcome).
        bnd (if outcome = AmbiguousDelete then close_admission W r' else ret ()) (\<lambda>_.
        ret r')))"

definition terminate_stream_with :: "'s job_world \<Rightarrow> job_record \<Rightarrow> job_state \<Rightarrow> bool \<Rightarrow> ('s, job_record) jact" where
  "terminate_stream_with W r st stuck =
     bnd (reading (\<lambda>s. case jb_job s of Some c \<Rightarrow> c | None \<Rightarrow> r)) (\<lambda>current.
     bnd (if uj_state current \<in> set ended_states then ret current
          else bnd (move_to W current st) (\<lambda>moved. bnd (put_job moved) (\<lambda>_. ret moved))) (\<lambda>ended.
     bnd (delete_stream_upload W ended) (\<lambda>r'.
     bnd (schedule_terminal_archive W r') (\<lambda>_.
     bnd (update_admission_with W r' (job_state_name (uj_state r')) None stuck) (\<lambda>_.
     ret r')))))"

definition terminate_stream :: "'s job_world \<Rightarrow> job_record \<Rightarrow> job_state \<Rightarrow> ('s, job_record) jact" where
  "terminate_stream W r st = terminate_stream_with W r st False"

definition job_reply :: "(string \<times> json) list \<Rightarrow> nat \<Rightarrow> bridge_reply" where
  "job_reply members status = bridge_json (JObj members) status"

definition yes :: "string \<Rightarrow> string \<times> json" where
  "yes k = (k, JBool True)"

definition expire_job :: "'s job_world \<Rightarrow> job_record \<Rightarrow> ('s, bridge_reply) jact" where
  "expire_job W r =
     bnd (if provider_kind r = Stream then bnd (terminate_stream W r UploadExpired) (\<lambda>_. ret ())
          else
            bnd (move_to W r UploadExpired) (\<lambda>expired.
            bnd (put_job expired) (\<lambda>_.
            bnd (schedule_terminal_archive W expired) (\<lambda>_.
            update_admission W expired ''UPLOAD_EXPIRED'')))) (\<lambda>_.
     ret (job_reply [yes ''accepted'', yes ''expired''] 202))"

section \<open>Jobs of the first Market generation\<close>

definition legacy_profile_job :: "bridge_env \<Rightarrow> job_record \<Rightarrow> bool" where
  "legacy_profile_job e r = (is_market_v2 e \<and> uj_profile_id r = ''paid-media-livepeer-v1'')"

definition legacy_expirable_states :: "job_state list" where
  "legacy_expirable_states = [Authorized, Leased, ProviderCreatePending, UploadReady, Uploading, Processing]"

definition expire_legacy :: "'s job_world \<Rightarrow> job_record \<Rightarrow> ('s, bridge_reply option) jact" where
  "expire_legacy W r =
     (if \<not> legacy_profile_job (jw_env W) r \<or> uj_state r \<notin> set legacy_expirable_states then ret None
      else bnd (expire_job W r) (\<lambda>reply. ret (Some reply)))"

section \<open>Reconciliation\<close>

definition reconcile_confirmation_ms :: int where
  "reconcile_confirmation_ms = 60 * 1000"

definition reconcile_healthy_interval_ms :: int where
  "reconcile_healthy_interval_ms = 15 * 60 * 1000"

definition backoff_after :: "nat \<Rightarrow> int" where
  "backoff_after errors = reconcile_backoff_ms ! min (errors - 1) (length reconcile_backoff_ms - 1)"

definition ensure_reconcile :: "'s job_world \<Rightarrow> ('s, unit) jact" where
  "ensure_reconcile W =
     bnd (atomically (
       bnd (reading jb_reconcile) (\<lambda>existing.
       if existing \<noteq> None then ret ()
       else
         bnd (job_now W) (\<lambda>now.
         bnd (job_capacity [ReconcileKey]) (\<lambda>_.
         put_reconcile \<lparr>rc_status = ProviderUnknown, rc_consecutive_errors = 0, rc_next_reconcile_at_ms = now, rc_upload_read_failed = None,
           rc_upload_error_code = None, rc_last_good_at_ms = None, rc_last_drift = None, rc_recovery = None,
           rc_sales_suspension_queued_at_ms = None\<rparr>))))) (\<lambda>_.
     bnd (job_now W) schedule_reconcile)"

definition errors_of :: "reconcile_record option \<Rightarrow> nat" where
  "errors_of previous = (case previous of Some p \<Rightarrow> rc_consecutive_errors p | None \<Rightarrow> 0)"

definition unknown_record :: "reconcile_record option \<Rightarrow> reconcile_status \<Rightarrow> int \<Rightarrow> reconcile_record" where
  "unknown_record previous st now =
     (let errors = errors_of previous + 1 in
      \<lparr>rc_status = st, rc_consecutive_errors = errors, rc_next_reconcile_at_ms = now + backoff_after errors, rc_upload_read_failed = None,
       rc_upload_error_code = None, rc_last_good_at_ms = Option.bind previous rc_last_good_at_ms,
       rc_last_drift = Option.bind previous rc_last_drift, rc_recovery = None,
       rc_sales_suspension_queued_at_ms = Option.bind previous rc_sales_suspension_queued_at_ms\<rparr>)"

definition persist_unknown :: "'s job_world \<Rightarrow> reconcile_status \<Rightarrow> ('s, unit) jact" where
  "persist_unknown W st =
     bnd (reading (\<lambda>s. unknown_record (jb_reconcile s) st (jw_now W s))) (\<lambda>rc.
     bnd (put_reconcile rc) (\<lambda>_. schedule_reconcile (rc_next_reconcile_at_ms rc)))"

text \<open>A drift seen again is counted; two observations at least a minute apart confirm it.\<close>

definition observed_drift :: "reconcile_record option \<Rightarrow> string \<Rightarrow> int \<Rightarrow> drift_record" where
  "observed_drift previous code now =
     (case Option.bind previous rc_last_drift of
        Some d \<Rightarrow>
          if map_option rc_status previous = Some DriftBlocked \<and> dr_code d = code
          then d\<lparr>dr_last_observed_at_ms := now, dr_observations := dr_observations d + 1\<rparr>
          else \<lparr>dr_code = code, dr_first_observed_at_ms = now, dr_last_observed_at_ms = now, dr_observations = 1\<rparr>
      | None \<Rightarrow> \<lparr>dr_code = code, dr_first_observed_at_ms = now, dr_last_observed_at_ms = now, dr_observations = 1\<rparr>)"

definition drift_confirmed :: "drift_record \<Rightarrow> int \<Rightarrow> bool" where
  "drift_confirmed d now = (2 \<le> dr_observations d \<and> reconcile_confirmation_ms \<le> now - dr_first_observed_at_ms d)"

definition inventory_drift_codes :: "string list" where
  "inventory_drift_codes =
     [''provider_asset_missing'', ''provider_identity_mismatch'', ''provider_playback_missing'', ''provider_publication_mismatch'']"

definition strong_drift_codes :: "string list" where
  "strong_drift_codes =
     [''provider_asset_missing'', ''provider_identity_mismatch'', ''provider_playback_exposed'', ''provider_playback_mismatch'',
      ''provider_playback_missing'', ''provider_state_invalid'', ''provider_verification_budget_exceeded'']"

definition enqueue_sales_suspension :: "'s job_world \<Rightarrow> job_record \<Rightarrow> string \<Rightarrow> ('s, unit) jact" where
  "enqueue_sales_suspension W r drift =
     (let key = uj_job_id r @ '':suspend-sales''; m = suspend_method (jw_env W);
          payload = input_sha256 (jw_crypto W) (JObj [(''method'', JStr (outbox_method_name m)), (''publication_id'', JStr (uj_job_id r)),
                      (''drift_code'', JStr drift)]) in
      atomically (
        bnd (reading (\<lambda>s. tget key (jb_outbox s))) (\<lambda>existing.
        if existing \<noteq> None then ret ()
        else
          bnd (job_capacity [JobOutboxKey key, ReconcileKey]) (\<lambda>_.
          bnd (job_now W) (\<lambda>now.
          writing (\<lambda>s. s\<lparr>jb_outbox := tput key \<lparr>jo_idempotency_key = key, jo_method = m, jo_job_id = uj_job_id r,
            jo_generation = uj_generation r, jo_payload_sha256 = payload, jo_confirmed = False, jo_created_at_ms = now\<rparr> (jb_outbox s)\<rparr>))))))"

text \<open>A request to the operator object: its name from the operator key, then the body.\<close>

definition ask_operator :: "'s job_world \<Rightarrow> string \<Rightarrow> json \<Rightarrow> ('s, nat \<times> json option) jact" where
  "ask_operator W route body =
     bnd (lifting (operator_object_of (jw_crypto W) (jw_url W) (jw_env W))) (\<lambda>name.
     ask W (jw_operator W name route body))"

definition may_operate :: "'s job_world \<Rightarrow> job_record \<Rightarrow> bool" where
  "may_operate W r = (operator_job_allowed (jw_env W) (uj_job_id r) (Some (uj_creator r)) \<and> uj_generation r = 1)"

definition try_sales_suspension :: "'s job_world \<Rightarrow> job_record \<Rightarrow> ('s, unit) jact" where
  "try_sales_suspension W r =
     (let key = uj_job_id r @ '':suspend-sales'' in
      if \<not> may_operate W r then ret ()
      else
        bnd (reading (\<lambda>s. tget key (jb_outbox s))) (\<lambda>stored.
        case stored of
          None \<Rightarrow> ret ()
        | Some x \<Rightarrow>
            if jo_confirmed x then ret ()
            else
              catch (
                bnd (ask_operator W ''/internal/suspend-sales'' (suspension_request (jw_crypto W) (uj_job_id r))) (\<lambda>(status, body).
                if \<not> reply_ok status then ret ()
                else
                  bnd (lifting (reply_object body)) (\<lambda>v.
                  if obj_get ''suspended'' v = Some (JBool True)
                  then writing (\<lambda>s. s\<lparr>jb_outbox := tput key (x\<lparr>jo_confirmed := True\<rparr>) (jb_outbox s)\<rparr>)
                  else ret ())))
                (\<lambda>e. ret ())))"

definition drift_record_of :: "reconcile_record option \<Rightarrow> drift_record \<Rightarrow> int option \<Rightarrow> int \<Rightarrow> reconcile_record" where
  "drift_record_of previous d queued now =
     (let errors = errors_of previous + 1 in
      \<lparr>rc_status = DriftBlocked, rc_consecutive_errors = errors, rc_next_reconcile_at_ms = now + backoff_after errors,
       rc_upload_read_failed = None, rc_upload_error_code = None, rc_last_good_at_ms = Option.bind previous rc_last_good_at_ms,
       rc_last_drift = Some d, rc_recovery = None, rc_sales_suspension_queued_at_ms = queued\<rparr>)"

definition persist_drift :: "'s job_world \<Rightarrow> job_record \<Rightarrow> string \<Rightarrow> ('s, unit) jact" where
  "persist_drift W r code =
     bnd (reading (\<lambda>s. (jw_now W s, jb_reconcile s))) (\<lambda>(now, previous).
     let d = observed_drift previous code now; confirmed = drift_confirmed d now;
         queued = Option.bind previous rc_sales_suspension_queued_at_ms;
         queue = (confirmed \<and> or_else_ms queued 0 = 0 \<and> may_operate W r) in
     bnd (if code \<in> set inventory_drift_codes then try_auto_close W r else ret ()) (\<lambda>_.
     bnd (if queue then enqueue_sales_suspension W r code else ret ()) (\<lambda>_.
     bnd (if confirmed then try_sales_suspension W r else ret ()) (\<lambda>_.
     let rc = drift_record_of previous d (if queue then Some now else queued) now in
     bnd (put_reconcile rc) (\<lambda>_. schedule_reconcile (rc_next_reconcile_at_ms rc))))))"

text \<open>After a drift, a job is healthy again only after two good observations a minute apart.\<close>

definition recovering :: "reconcile_record option \<Rightarrow> bool" where
  "recovering previous =
     (case previous of Some p \<Rightarrow> rc_last_drift p \<noteq> None \<and> rc_status p \<noteq> Healthy \<or> rc_recovery p \<noteq> None | None \<Rightarrow> False)"

definition next_recovery :: "reconcile_record option \<Rightarrow> int \<Rightarrow> recovery_record" where
  "next_recovery previous now =
     (case Option.bind previous rc_recovery of
        Some y \<Rightarrow> y\<lparr>ry_observations := ry_observations y + 1\<rparr>
      | None \<Rightarrow> \<lparr>ry_first_observed_at_ms = now, ry_observations = 1\<rparr>)"

definition healthy_record :: "reconcile_record option \<Rightarrow> int \<Rightarrow> reconcile_record" where
  "healthy_record previous now =
     (let y = next_recovery previous now;
          held = (recovering previous \<and> (ry_observations y < 2 \<or> now - ry_first_observed_at_ms y < reconcile_confirmation_ms)) in
      \<lparr>rc_status = (if held then DriftBlocked else Healthy), rc_consecutive_errors = 0,
       rc_next_reconcile_at_ms = now + (if held then reconcile_confirmation_ms else reconcile_healthy_interval_ms),
       rc_upload_read_failed = None, rc_upload_error_code = None,
       rc_last_good_at_ms = (if held then Option.bind previous rc_last_good_at_ms else Some now),
       rc_last_drift = Option.bind previous rc_last_drift, rc_recovery = (if held then Some y else None),
       rc_sales_suspension_queued_at_ms = Option.bind previous rc_sales_suspension_queued_at_ms\<rparr>)"

definition persist_healthy :: "'s job_world \<Rightarrow> ('s, unit) jact" where
  "persist_healthy W =
     bnd (reading (\<lambda>s. healthy_record (jb_reconcile s) (jw_now W s))) (\<lambda>rc.
     bnd (put_reconcile rc) (\<lambda>_. schedule_reconcile (rc_next_reconcile_at_ms rc)))"

section \<open>Finalization\<close>

definition settle_legacy :: "'s job_world \<Rightarrow> job_record \<Rightarrow> ('s, bridge_reply) jact" where
  "settle_legacy W r =
     bnd (case uj_publication r of
            None \<Rightarrow> ret (Some False)
          | Some p \<Rightarrow>
              catch (bnd (final_publication_matches (job_near W) (jw_env W) p) (\<lambda>b. ret (Some b)))
                (\<lambda>e. ret (if safe_error_code e \<noteq> ''near_finalize_mismatch'' then None else Some False))) (\<lambda>published.
     case published of
       None \<Rightarrow>
         bnd (job_now W) (\<lambda>now.
         bnd (schedule_reconcile (now + reconcile_backoff_ms ! 0)) (\<lambda>_.
         ret (job_reply [yes ''accepted'', yes ''pending''] 202)))
     | Some False \<Rightarrow> expire_job W r
     | Some True \<Rightarrow>
         bnd (move_to W (r\<lparr>uj_finalize_retry := None\<rparr>) OnchainPublished) (\<lambda>published.
         bnd (put_job published) (\<lambda>_.
         bnd (update_admission W published ''ONCHAIN_PUBLISHED'') (\<lambda>_.
         bnd (ensure_reconcile W) (\<lambda>_.
         ret (job_reply [yes ''accepted'', yes ''finalized''] 200))))))"

definition retry_finalization :: "'s job_world \<Rightarrow> job_record \<Rightarrow> nat \<Rightarrow> ('s, unit) jact" where
  "retry_finalization W r status =
     (let attempts = min ((case uj_finalize_retry r of Some x \<Rightarrow> fr_attempts x | None \<Rightarrow> 0) + 1) (length reconcile_backoff_ms) in
      bnd (job_now W) (\<lambda>now.
      let next_at = now + reconcile_backoff_ms ! (attempts - 1) in
      bnd (move_to W r FinalizeRetry) (\<lambda>moved.
      bnd (put_job (moved\<lparr>uj_finalize_retry := Some \<lparr>fr_attempts = attempts, fr_last_http_status = status, fr_next_attempt_at_ms = next_at\<rparr>\<rparr>)) (\<lambda>_.
      schedule_reconcile next_at))))"

definition finalized_job :: "'s job_world \<Rightarrow> job_record \<Rightarrow> json \<Rightarrow> ('s, unit) jact" where
  "finalized_job W r reply =
     (let st = (if obj_get ''finalized'' reply = Some (JBool True) then OnchainPublished else FinalizeQueued) in
      bnd (move_to W (r\<lparr>uj_finalize_retry := None\<rparr>) st) (\<lambda>moved.
      bnd (put_job moved) (\<lambda>_.
      bnd (update_admission W moved (job_state_name st)) (\<lambda>_.
      if uj_state moved = OnchainPublished then ensure_reconcile W
      else bnd (job_now W) (\<lambda>now. schedule_reconcile (now + reconcile_backoff_ms ! 0))))))"

definition advance_finalization :: "'s job_world \<Rightarrow> job_record \<Rightarrow> ('s, bridge_reply) jact" where
  "advance_finalization W r =
     bnd (job_now W) (\<lambda>now.
     if deadline_expired now r then expire_job W r
     else if legacy_profile_job (jw_env W) r then settle_legacy W r
     else if \<not> may_operate W r then ret (job_reply [yes ''accepted'', yes ''ignored''] 202)
     else
       case uj_publication r of
         None \<Rightarrow> throw ''TypeError''
       | Some p \<Rightarrow>
           bnd (ask_operator W ''/internal/finalize'' (finalize_request (jw_crypto W) p)) (\<lambda>(status, body).
           bnd (if \<not> reply_ok status then retry_finalization W r status
                else bnd (lifting (reply_object body)) (finalized_job W r)) (\<lambda>_.
           ret \<lparr>br_status = status, br_headers = [(''Cache-Control'', ''no-store'')], br_body = body\<rparr>)))"

section \<open>Verification of the ready asset\<close>

definition verification_configured :: "'s job_world \<Rightarrow> job_record \<Rightarrow> bool" where
  "verification_configured W r =
     ((if provider_kind r = Stream then valid_stream_config (jw_env W) else valid_studio_verification_config (jw_env W))
      \<and> set_text (uj_asset_id r) \<and> set_text (uj_playback_id r) \<and> set_text (uj_project_id r))"

definition verify_request :: "'s job_world \<Rightarrow> job_record \<Rightarrow> bool \<Rightarrow> verify_input" where
  "verify_request W r published =
     \<lparr>vi_job = r,
      vi_expected_project_id = (if provider_kind r = Stream then be_stream_account_id (jw_env W) else be_project_id (jw_env W)),
      vi_published = published,
      vi_upload_created_at_ms = (if provider_kind r = Stream then Option.bind (uj_provider_create r) pc_completed_at_ms else None)\<rparr>"

text \<open>The job has not changed while the provider was read, but for the checkpoint and the reported progress.\<close>

definition same_verified_job :: "job_record \<Rightarrow> job_record \<Rightarrow> bool" where
  "same_verified_job current r =
     (current\<lparr>uj_provider_verification := None, uj_stream_progress := None\<rparr>
        = r\<lparr>uj_provider_verification := None, uj_stream_progress := None\<rparr>)"

definition pending_record :: "reconcile_record option \<Rightarrow> int \<Rightarrow> reconcile_record" where
  "pending_record previous at_ms =
     (case previous of
        Some p \<Rightarrow> p\<lparr>rc_status := ProviderUnknown, rc_next_reconcile_at_ms := at_ms, rc_upload_read_failed := Some False,
          rc_upload_error_code := None\<rparr>
      | None \<Rightarrow> \<lparr>rc_status = ProviderUnknown, rc_consecutive_errors = 0, rc_next_reconcile_at_ms = at_ms, rc_upload_read_failed = Some False,
          rc_upload_error_code = None, rc_last_good_at_ms = None, rc_last_drift = None, rc_recovery = None,
          rc_sales_suspension_queued_at_ms = None\<rparr>)"

definition keep_verification :: "'s job_world \<Rightarrow> job_record \<Rightarrow> verification_result \<Rightarrow> int \<Rightarrow> ('s, unit) jact" where
  "keep_verification W r result at_ms =
     atomically (
       bnd (reading (\<lambda>s. (jb_job s, jw_now W s))) (\<lambda>(stored, now).
       case stored of
         None \<Rightarrow> throw ''provider_verification_incomplete''
       | Some current \<Rightarrow>
           bnd (require (same_verified_job current r \<and> \<not> (uj_state current \<noteq> OnchainPublished \<and> deadline_expired now current))
             ''provider_verification_incomplete'') (\<lambda>_.
           case result of
             VerificationPending ck retry \<Rightarrow>
               bnd (job_capacity [JobKey, ReconcileKey]) (\<lambda>_.
               bnd (put_job (current\<lparr>uj_provider_verification := Some ck\<rparr>)) (\<lambda>_.
               bnd (reading jb_reconcile) (\<lambda>previous.
               put_reconcile (pending_record previous at_ms))))
           | Verified a \<Rightarrow>
               if uj_provider_verification current \<noteq> None \<or> va_evidence a \<noteq> None
               then put_job (let completed = current\<lparr>uj_provider_verification := None\<rparr>
                      in case va_evidence a of Some x \<Rightarrow> completed\<lparr>uj_source_bytes_evidence := Some x\<rparr> | None \<Rightarrow> completed)
               else ret ())))"

definition publication_of :: "job_record \<Rightarrow> verified_asset \<Rightarrow> json" where
  "publication_of r a = JObj
     [(''job_id'', JStr (uj_job_id r)), (''generation'', JNum (of_int (uj_generation r))), (''creator_id'', JStr (uj_creator r)),
      (''expected_source_bytes'', JStr (uj_expected_source_bytes r)), (''profile_id'', JStr (uj_profile_id r)),
      (''profile_config_sha256'', JStr (uj_profile_config_sha256 r)), (''asset_id_hash'', JStr (va_asset_id_hash a)),
      (''playback_id'', JStr (va_playback_id a)), (''project_id_hash'', JStr (va_project_id_hash a)),
      (''verified_source_bytes'', JStr (va_verified_source_bytes a)),
      (''provider_source_fingerprint'', (case va_source_fingerprint a of Some f \<Rightarrow> JStr f | None \<Rightarrow> JNull)),
      (''ready_at_ms'', JStr (va_ready_at_ms a)), (''availability'', JStr ''ACTIVE'')]"

definition drop_checkpoint :: "('s, unit) jact" where
  "drop_checkpoint =
     atomically (
       bnd (reading jb_job) (\<lambda>stored.
       case stored of
         Some current \<Rightarrow>
           if uj_provider_verification current \<noteq> None then put_job (current\<lparr>uj_provider_verification := None\<rparr>) else ret ()
       | None \<Rightarrow> ret ()))"

text \<open>The verified asset with its publication, or \<open>None\<close> while it is not finished.\<close>

definition verified_or_pending :: "'s job_world \<Rightarrow> job_record \<Rightarrow> bool \<Rightarrow> ('s, verified_asset option) jact" where
  "verified_or_pending W r published =
     bnd (ask W (jp_verify_ready (provider_of W r) (verify_request W r published))) (\<lambda>result.
     bnd (job_now W) (\<lambda>now.
     let later = now + (case result of VerificationPending ck (Some t) \<Rightarrow> t | _ \<Rightarrow> 1000);
         at_ms = (if uj_state r = OnchainPublished then later
                  else min later (case uj_absolute_deadline_at_ms r of Some d \<Rightarrow> d | None \<Rightarrow> max_safe_time)) in
     bnd (keep_verification W r result at_ms) (\<lambda>_.
     case result of
       VerificationPending ck retry \<Rightarrow> bnd (schedule_reconcile at_ms) (\<lambda>_. ret None)
     | Verified a \<Rightarrow> ret (Some a))))"

definition verify_ready_asset :: "'s job_world \<Rightarrow> job_record \<Rightarrow> bool \<Rightarrow> ('s, verified_asset option) jact" where
  "verify_ready_asset W r published =
     bnd (require (verification_configured W r) ''runtime_not_configured'') (\<lambda>_.
     bnd (job_now W) (\<lambda>now.
     bnd (require (\<not> (uj_state r \<noteq> OnchainPublished \<and> deadline_expired now r)) ''provider_verification_incomplete'') (\<lambda>_.
     catch (verified_or_pending W r published)
       (\<lambda>err. bnd (if safe_error_code err \<noteq> ''provider_unavailable'' then drop_checkpoint else ret ()) (\<lambda>_. throw err)))))"

section \<open>A published job\<close>

text \<open>What keeps a published job from being healthy: unknown for now, or a drift.\<close>

datatype observation = Continues | Good | Unknown reconcile_status | Drift string

definition observe_provider :: "'s job_world \<Rightarrow> job_record \<Rightarrow> ('s, observation) jact" where
  "observe_provider W r =
     catch (
       bnd (verify_ready_asset W r True) (\<lambda>verified.
       case verified of
         None \<Rightarrow> ret Continues
       | Some a \<Rightarrow>
           ret (if Some (canonical_json (publication_of r a)) = map_option canonical_json (uj_publication r) then Good
                else Drift ''provider_publication_mismatch'')))
       (\<lambda>e. ret (if safe_error_code e \<in> set strong_drift_codes then Drift (safe_error_code e) else Unknown ProviderUnknown))"

definition observe_chain :: "'s job_world \<Rightarrow> job_record \<Rightarrow> ('s, observation) jact" where
  "observe_chain W r =
     catch (
       bnd (case uj_publication r of Some p \<Rightarrow> ret p | None \<Rightarrow> throw ''TypeError'') (\<lambda>p.
       bnd (read_final_publication (job_near W) (jw_env W) (str_of ''job_id'' p)) (\<lambda>shown.
       ret (case shown of
              Some v \<Rightarrow> if publication_matches p v \<and> string_of (obj_get ''availability'' v) \<in> {''ACTIVE'', ''SALES_SUSPENDED''} then Good
                else Drift ''near_publication_mismatch''
            | None \<Rightarrow> Drift ''near_publication_mismatch''))))
       (\<lambda>e. ret (if safe_error_code e = ''near_finalize_pending'' then Unknown NearUnknown else Drift ''near_publication_mismatch''))"

definition record_observation :: "'s job_world \<Rightarrow> job_record \<Rightarrow> observation \<Rightarrow> ('s, unit) jact" where
  "record_observation W r seen =
     (case seen of
        Continues \<Rightarrow> ret ()
      | Good \<Rightarrow> persist_healthy W
      | Unknown st \<Rightarrow> persist_unknown W st
      | Drift code \<Rightarrow> persist_drift W r code)"

definition reconcile_published :: "'s job_world \<Rightarrow> job_record \<Rightarrow> ('s, unit) jact" where
  "reconcile_published W r =
     bnd (try_sales_suspension W r) (\<lambda>_.
     bnd (observe_provider W r) (\<lambda>seen.
     if seen \<noteq> Good then record_observation W r seen
     else bnd (observe_chain W r) (record_observation W r)))"

section \<open>The archive\<close>

definition upload_job_retention_ms :: int where
  "upload_job_retention_ms = 14 * 24 * 60 * 60 * 1000"

definition job_archive_json :: "upload_job_archive \<Rightarrow> json" where
  "job_archive_json a =
     (let text = (\<lambda>v. case v of Some t \<Rightarrow> JStr t | None \<Rightarrow> JNull) in
      JObj [(''network'', JStr (ja_network a)), (''contractId'', JStr (ja_contract_id a)), (''jobId'', JStr (ja_job_id a)),
        (''generation'', JNum (of_int (ja_generation a))), (''creatorId'', JStr (ja_creator_id a)),
        (''terminalState'', JStr (ja_terminal_state a)), (''terminalAtMs'', JNum (of_int (ja_terminal_at_ms a))),
        (''expectedSourceBytes'', JStr (ja_expected_source_bytes a)), (''sourceFingerprintSha256'', text (ja_source_fingerprint_sha256 a)),
        (''assetIdSha256'', text (ja_asset_id_sha256 a)), (''projectIdSha256'', text (ja_project_id_sha256 a)),
        (''archiveRequestedAtMs'', JNum (of_int (ja_archive_requested_at_ms a))),
        (''cleanupEligibleAtMs'', JNum (of_int (ja_cleanup_eligible_at_ms a)))])"

definition upload_job_archive_of :: "'s job_world \<Rightarrow> job_record \<Rightarrow> string + upload_job_archive" where
  "upload_job_archive_of W r =
     (case (uj_terminal_at_ms r, uj_terminal_archive r) of
        (Some t, Some m) \<Rightarrow>
          if uj_network r \<noteq> ''testnet'' \<or> uj_state r \<notin> set ended_states \<or> t = 0 then Inl ''upload_archive_unavailable''
          else
            let hashed = (\<lambda>v. if set_text v then Some (job_sha256 W (or_none v)) else None);
                a = \<lparr>ja_network = uj_network r, ja_contract_id = uj_contract_id r, ja_job_id = uj_job_id r, ja_generation = uj_generation r,
                     ja_creator_id = uj_creator r, ja_terminal_state = job_state_name (uj_state r), ja_terminal_at_ms = t,
                     ja_expected_source_bytes = uj_expected_source_bytes r,
                     ja_source_fingerprint_sha256 = (if set_text (uj_source_fingerprint_sha256 r) then uj_source_fingerprint_sha256 r else None),
                     ja_asset_id_sha256 = hashed (uj_asset_id r), ja_project_id_sha256 = hashed (uj_project_id r),
                     ja_archive_requested_at_ms = xa_created_at_ms m, ja_cleanup_eligible_at_ms = t + upload_job_retention_ms,
                     ja_archive_sha256 = []\<rparr>
            in Inr (a\<lparr>ja_archive_sha256 := input_sha256 (jw_crypto W) (job_archive_json a)\<rparr>)
      | _ \<Rightarrow> Inl ''upload_archive_unavailable'')"

definition commit_job_archive :: "'s job_world \<Rightarrow> upload_job_archive \<Rightarrow> ('s, unit) jact" where
  "commit_job_archive W a s =
     (case commit_upload_job_archive (jw_archive_db W s) a (jb_archive s) of (r, t) \<Rightarrow> (r, s\<lparr>jb_archive := t\<rparr>))"

definition advance_terminal_archive :: "'s job_world \<Rightarrow> job_record \<Rightarrow> ('s, unit) jact" where
  "advance_terminal_archive W r =
     (case uj_terminal_archive r of
        None \<Rightarrow> ret ()
      | Some m \<Rightarrow>
          let attempts = min (xa_attempts m + 1) (length reconcile_backoff_ms) in
          catch (
            bnd (require (be_read_model_bound (jw_env W) \<and> be_near_network (jw_env W) = Some ''testnet''
              \<and> be_market_contract_id (jw_env W) = Some (uj_contract_id r)) ''upload_archive_unavailable'') (\<lambda>_.
            bnd (lifting (upload_job_archive_of W r)) (\<lambda>a.
            bnd (commit_job_archive W a) (\<lambda>_.
            bnd (job_now W) (\<lambda>now.
            put_job (r\<lparr>uj_terminal_archive := Some (m\<lparr>xa_status := ArchiveCommitted, xa_attempts := attempts,
              xa_archive_sha256 := Some (ja_archive_sha256 a), xa_committed_at_ms := Some now,
              xa_cleanup_eligible_at_ms := Some (ja_cleanup_eligible_at_ms a)\<rparr>)\<rparr>))))))
            (\<lambda>err.
             bnd (job_now W) (\<lambda>now.
             let next_at = now + reconcile_backoff_ms ! (attempts - 1) in
             bnd (put_job (r\<lparr>uj_terminal_archive := Some (m\<lparr>xa_status := ArchiveRetry, xa_attempts := attempts,
               xa_next_attempt_at_ms := next_at\<rparr>)\<rparr>)) (\<lambda>_.
             writing (\<lambda>s. s\<lparr>jb_alarm := Some next_at\<rparr>)))))"

end
