(* ===== verification/BridgeJobEvents.thy ===== *)
theory BridgeJobEvents
  imports BridgeJobSteps BridgeAdmission
begin

text \<open>
  What moves an upload job on: an event of the media provider (a webhook, or an observation of the bridge itself), the
  bounded poll of a Cloudflare Stream upload and the read of a Studio asset.
\<close>

section \<open>Provider events\<close>

definition accepted :: "(string \<times> json) list \<Rightarrow> nat \<Rightarrow> bridge_reply" where
  "accepted members status = job_reply (yes ''accepted'' # members) status"

definition put_mark :: "string \<Rightarrow> webhook_mark \<Rightarrow> ('s, unit) jact" where
  "put_mark key m = writing (\<lambda>s. s\<lparr>jb_webhooks := tput key m (jb_webhooks s)\<rparr>)"

definition drop_webhook_mark :: "string \<Rightarrow> ('s, unit) jact" where
  "drop_webhook_mark key = writing (\<lambda>s. s\<lparr>jb_webhooks := tdel key (jb_webhooks s)\<rparr>)"

definition webhook_mark_of :: "bool \<Rightarrow> webhook_event \<Rightarrow> int \<Rightarrow> webhook_mark" where
  "webhook_mark_of verified e now =
     \<lparr>wk_verified = verified, wk_event = we_provider_event e, wk_asset_id = we_asset_id e, wk_phase = we_phase e, wk_received_at_ms = now\<rparr>"

text \<open>A job that passed its deadline ends.\<close>

definition expire_event :: "'s job_world \<Rightarrow> job_record \<Rightarrow> ('s, bridge_reply) jact" where
  "expire_event W r = bnd (expire_job W r) (\<lambda>_. ret (accepted [yes ''expired''] 202))"

definition failing_states :: "job_state list" where
  "failing_states = active_states @ finalizing_states @ [ProviderFailed]"

definition fail_event :: "'s job_world \<Rightarrow> webhook_event \<Rightarrow> job_record \<Rightarrow> ('s, bridge_reply) jact" where
  "fail_event W e r =
     bnd (if provider_kind r = Stream then bnd (terminate_stream W r ProviderFailed) (\<lambda>_. ret ())
          else
            bnd (move_to W r ProviderFailed) (\<lambda>failed.
            bnd (put_job failed) (\<lambda>_.
            bnd (schedule_terminal_archive W failed) (\<lambda>_.
            update_admission W failed ''PROVIDER_FAILED'')))) (\<lambda>_.
     ret (accepted [yes ''provider_failed''] 200))"

definition progress_event :: "'s job_world \<Rightarrow> webhook_event \<Rightarrow> job_record \<Rightarrow> ('s, bridge_reply) jact" where
  "progress_event W e r =
     bnd (job_now W) (\<lambda>now.
     let tracked = track_progress r (we_stream_progress e) now in
     if uj_state r \<in> {UploadReady, Uploading} \<and> is_processing_event e
     then bnd (move_to W tracked Processing) (\<lambda>moved. bnd (put_job moved) (\<lambda>_. ret (accepted [yes ''processing''] 200)))
     else bnd (if tracked \<noteq> r then put_job tracked else ret ()) (\<lambda>_. ret (accepted [yes ''ignored''] 202)))"

definition other_event :: "'s job_world \<Rightarrow> webhook_event \<Rightarrow> job_record \<Rightarrow> ('s, bridge_reply) jact" where
  "other_event W e r =
     (if uj_state r = OnchainPublished
      then bnd (job_now W) (\<lambda>now. bnd (schedule_reconcile now) (\<lambda>_. ret (accepted [yes ''ignored'', yes ''reconcile_triggered''] 202)))
      else if is_provider_failure_event e \<and> uj_state r \<in> set failing_states then fail_event W e r
      else progress_event W e r)"

section \<open>The event that says the asset is ready\<close>

definition published_event :: "'s job_world \<Rightarrow> job_record \<Rightarrow> bool \<Rightarrow> ('s, bridge_reply) jact" where
  "published_event W r duplicate =
     bnd (update_admission W r ''ONCHAIN_PUBLISHED'') (\<lambda>_.
     bnd (ensure_reconcile W) (\<lambda>_.
     ret (accepted [(''duplicate'', JBool duplicate), yes ''finalized''] 200)))"

definition claim_event :: "'s job_world \<Rightarrow> string \<Rightarrow> webhook_event \<Rightarrow> ('s, bool) jact" where
  "claim_event W key e =
     atomically (
       bnd (reading (\<lambda>s. tget key (jb_webhooks s))) (\<lambda>duplicate.
       if duplicate \<noteq> None then ret True
       else
         bnd (job_capacity [WebhookKey key, ReconcileKey]) (\<lambda>_.
         bnd (job_now W) (\<lambda>now.
         bnd (put_mark key (webhook_mark_of False e now)) (\<lambda>_. ret False)))))"

text \<open>A failed verification is forgotten, so that a later delivery tries again; a bad byte proof of Stream ends the job.\<close>

definition verification_failed :: "'s job_world \<Rightarrow> string \<Rightarrow> job_record \<Rightarrow> string \<Rightarrow> ('s, bridge_reply) jact" where
  "verification_failed W key r err =
     (let code = safe_error_code err in
      bnd (drop_webhook_mark key) (\<lambda>_.
      bnd (persist_upload_result W (Some code)) (\<lambda>_.
      if provider_kind r = Stream \<and> code \<in> {''provider_tus_state_invalid'', ''provider_tus_url_expired''}
      then bnd (terminate_stream W r (if code = ''provider_tus_url_expired'' then UploadExpired else ProviderFailed)) (\<lambda>_.
           ret (accepted [(''provider_failed'', JBool (code = ''provider_tus_state_invalid'')), (''code'', JStr code)] 202))
      else throw err)))"

definition without_upload_url :: "job_record \<Rightarrow> job_record" where
  "without_upload_url r = r\<lparr>uj_tus_endpoint := None, uj_provider_verification := None\<rparr>"

definition verified_record :: "job_record \<Rightarrow> verified_asset \<Rightarrow> job_record" where
  "verified_record moved a =
     (let published = moved\<lparr>uj_publication := Some (publication_of moved a)\<rparr> in
      case va_evidence a of Some x \<Rightarrow> published\<lparr>uj_source_bytes_evidence := Some x\<rparr> | None \<Rightarrow> published)"

text \<open>The record of the verified job, or the answer that ends the event.\<close>

definition verify_event :: "'s job_world \<Rightarrow> string \<Rightarrow> job_record \<Rightarrow> ('s, bridge_reply + job_record \<times> rat option) jact" where
  "verify_event W key r =
     catch (
       bnd (verify_ready_asset W r False) (\<lambda>verified.
       case verified of
         None \<Rightarrow> bnd (drop_webhook_mark key) (\<lambda>_. ret (Inl (accepted [yes ''processing''] 202)))
       | Some a \<Rightarrow>
           bnd (move_to W (without_upload_url r) ReadyVerified) (\<lambda>moved.
           ret (Inr (verified_record moved a, va_duration_seconds a)))))
       (\<lambda>err. bnd (verification_failed W key r err) (\<lambda>reply. ret (Inl reply)))"

definition store_verified ::
  "'s job_world \<Rightarrow> string \<Rightarrow> webhook_event \<Rightarrow> job_record \<Rightarrow> rat option \<Rightarrow> ('s, bridge_reply option) jact" where
  "store_verified W key e r duration =
     catch (
       bnd (put_job r) (\<lambda>_.
       bnd (persist_upload_result W None) (\<lambda>_.
       bnd (update_admission_with W r ''READY_VERIFIED'' duration False) (\<lambda>_.
       bnd (job_now W) (\<lambda>now.
       bnd (put_mark key (webhook_mark_of True e now)) (\<lambda>_. ret None))))))
       (\<lambda>err. bnd (verification_failed W key r err) (\<lambda>reply. ret (Some reply)))"

definition after_ready :: "'s job_world \<Rightarrow> job_record \<Rightarrow> bool \<Rightarrow> ('s, bridge_reply) jact" where
  "after_ready W r seen =
     (if uj_state r = OnchainPublished then published_event W r seen
      else if uj_publication r = None then throw ''provider_state_invalid''
      else advance_finalization W r)"

definition ready_event :: "'s job_world \<Rightarrow> webhook_event \<Rightarrow> job_record \<Rightarrow> ('s, bridge_reply) jact" where
  "ready_event W e r =
     bnd (claim_event W (we_digest e) e) (\<lambda>seen.
     if seen
     then
       bnd (reading (\<lambda>s. case jb_job s of Some j \<Rightarrow> j | None \<Rightarrow> r)) (\<lambda>stored.
       if uj_state stored \<in> set active_states then ret (accepted [yes ''duplicate'', yes ''processing''] 202)
       else after_ready W stored True)
     else
       bnd (verify_event W (we_digest e) r) (\<lambda>outcome.
       case outcome of
         Inl reply \<Rightarrow> ret reply
       | Inr (moved, duration) \<Rightarrow>
           bnd (store_verified W (we_digest e) e moved duration) (\<lambda>stop.
           case stop of Some reply \<Rightarrow> ret reply | None \<Rightarrow> after_ready W moved False)))"

text \<open>Events of another asset or another provider, and events of an ended job, change nothing.\<close>

definition settled_states :: "job_state list" where
  "settled_states = ended_states @ [OnchainPublished]"

definition current_event :: "'s job_world \<Rightarrow> webhook_event \<Rightarrow> job_record \<Rightarrow> ('s, bridge_reply) jact" where
  "current_event W e r =
     (let ready = is_readiness_event e (job_state_name (uj_state r));
          finalizing = (uj_publication r \<noteq> None \<and> uj_state r \<in> set finalizing_states) in
      if uj_state r \<in> set ended_states then ret (accepted [yes ''ignored'', yes ''terminal''] 202)
      else if uj_state r = OnchainPublished \<and> ready then published_event W r True
      else if \<not> ready then other_event W e r
      else if legacy_profile_job (jw_env W) r \<and> finalizing then settle_legacy W r
      else if provider_kind r = Stream \<and> finalizing then ret (accepted [yes ''duplicate'', yes ''processing''] 202)
      else ready_event W e r)"

definition handle_provider_event :: "'s job_world \<Rightarrow> webhook_event option \<Rightarrow> job_record option \<Rightarrow> ('s, bridge_reply) jact" where
  "handle_provider_event W event existing =
     (case (event, existing) of
        (Some e, Some r) \<Rightarrow>
          if Some (we_asset_id e) \<noteq> uj_asset_id r \<or> we_provider e \<noteq> provider_kind r then ret (accepted [yes ''ignored''] 202)
          else
            bnd (expire_legacy W r) (\<lambda>legacy.
            case legacy of
              Some reply \<Rightarrow> ret reply
            | None \<Rightarrow>
                bnd (job_now W) (\<lambda>now.
                if deadline_expired now r \<and> uj_state r \<notin> set settled_states then expire_event W r
                else current_event W e r))
      | _ \<Rightarrow> ret (accepted [yes ''ignored''] 202))"

definition observed_event :: "'s job_world \<Rightarrow> media_provider_kind \<Rightarrow> webhook_kind \<Rightarrow> string \<Rightarrow> string \<Rightarrow> int \<Rightarrow> webhook_event" where
  "observed_event W kind event asset phase now = synthesized_provider_event (jw_crypto W) kind event asset phase now"

section \<open>The poll of a Stream upload\<close>

definition stream_upload_poll_ms :: int where
  "stream_upload_poll_ms = 5 * 60 * 1000"

definition stream_processing_poll_ms :: int where
  "stream_processing_poll_ms = 60 * 1000"

definition stream_default_stuck_timeout_ms :: int where
  "stream_default_stuck_timeout_ms = 15 * 60 * 1000"

definition upload_created_at :: "job_record \<Rightarrow> int" where
  "upload_created_at r =
     (case Option.bind (uj_provider_create r) pc_completed_at_ms of Some t \<Rightarrow> t | None \<Rightarrow> uj_created_at_ms r)"

definition upload_url_ends :: "job_record \<Rightarrow> int" where
  "upload_url_ends r = upload_created_at r + stream_tus_url_lifetime_ms"

definition video_progress :: "stream_video \<Rightarrow> string \<times> rat" where
  "video_progress v = (sv_state v, (case sv_pct_complete v of Some p \<Rightarrow> p | None \<Rightarrow> 0))"

definition last_progress :: "job_record \<Rightarrow> int \<Rightarrow> int" where
  "last_progress r now =
     (case uj_stream_progress r of Some p \<Rightarrow> pg_changed_at_ms p
      | None \<Rightarrow> (case uj_state_changed_at_ms r of Some t \<Rightarrow> t | None \<Rightarrow> now))"

definition end_stream :: "'s job_world \<Rightarrow> job_record \<Rightarrow> job_state \<Rightarrow> bool \<Rightarrow> ('s, unit) jact" where
  "end_stream W r st stuck = bnd (terminate_stream_with W r st stuck) (\<lambda>_. ret ())"

text \<open>One more read before a job is given up: it fails only when nothing moved.\<close>

definition confirm_stuck :: "'s job_world \<Rightarrow> job_record \<Rightarrow> string \<Rightarrow> string \<times> rat \<Rightarrow> ('s, unit) jact" where
  "confirm_stuck W tracked asset seen =
     bnd (catch (bnd (ask W (jp_read_video (provider_of W tracked) asset)) (\<lambda>v. ret (Some v))) (\<lambda>e. ret None)) (\<lambda>confirm.
     if map_option video_progress confirm = Some seen then end_stream W tracked ProviderFailed True
     else
       bnd (job_now W) (\<lambda>now.
       let moved = track_progress tracked (map_option video_progress confirm) now in
       bnd (if moved \<noteq> tracked then put_job moved else ret ()) (\<lambda>_.
       schedule_reconcile (now + stream_processing_poll_ms))))"

definition ready_poll :: "'s job_world \<Rightarrow> job_record \<Rightarrow> string \<Rightarrow> int \<Rightarrow> int \<Rightarrow> ('s, unit) jact" where
  "ready_poll W r asset now next_poll =
     bnd (handle_provider_event W (Some (observed_event W Stream WProcessing asset ''ready'' now)) (Some r)) (\<lambda>_.
     bnd (reading jb_job) (\<lambda>after.
     case after of
       Some j \<Rightarrow>
         if uj_state j \<in> set active_states \<and> uj_provider_verification j = None then schedule_reconcile next_poll else ret ()
     | None \<Rightarrow> ret ()))"

definition processing_video_states :: "string list" where
  "processing_video_states = [''queued'', ''inprogress'', ''downloading'']"

text \<open>Nothing ends the poll here: an upload that never arrived loses its lease, and the next poll is scheduled.\<close>

definition keep_polling :: "'s job_world \<Rightarrow> job_record \<Rightarrow> stream_video \<Rightarrow> int \<Rightarrow> int \<Rightarrow> ('s, unit) jact" where
  "keep_polling W r v now next_poll =
     (if sv_state v = ''pendingupload'' \<and> (case uj_lease_expires_at_ms r of Some t \<Rightarrow> t \<le> now | None \<Rightarrow> False)
      then end_stream W r UploadExpired False
      else schedule_reconcile (min next_poll (upload_url_ends r)))"

definition processing_poll :: "'s job_world \<Rightarrow> job_record \<Rightarrow> string \<Rightarrow> stream_video \<Rightarrow> int \<Rightarrow> int \<Rightarrow> ('s, unit) jact" where
  "processing_poll W r asset v now next_poll =
     (let tracked = track_progress r (Some (video_progress v)) now in
      if uj_state r \<noteq> Processing
      then bnd (move_to W tracked Processing) (\<lambda>moved. bnd (put_job moved) (\<lambda>_. schedule_reconcile (now + stream_processing_poll_ms)))
      else
        bnd (if tracked \<noteq> r then put_job tracked else ret ()) (\<lambda>_.
        if now - last_progress tracked now > (case stream_stuck_timeout_ms (jw_env W) of Some t \<Rightarrow> t | None \<Rightarrow> stream_default_stuck_timeout_ms)
        then confirm_stuck W tracked asset (video_progress v)
        else keep_polling W r v now next_poll))"

definition video_poll :: "'s job_world \<Rightarrow> job_record \<Rightarrow> string \<Rightarrow> stream_video \<Rightarrow> int \<Rightarrow> int \<Rightarrow> ('s, unit) jact" where
  "video_poll W r asset v now next_poll =
     (if sv_uid v \<noteq> asset \<or> sv_route v \<noteq> Some \<lparr>wr_job_id = uj_job_id r, wr_generation = uj_generation r\<rparr>
      then end_stream W r ProviderFailed False
      else if sv_state v = ''error'' then end_stream W r ProviderFailed False
      else if sv_state v = ''ready'' \<and> sv_ready_to_stream v then ready_poll W r asset now next_poll
      else if sv_state v \<in> set processing_video_states then processing_poll W r asset v now next_poll
      else
        let tracked = track_progress r (Some (video_progress v)) now in
        bnd (if tracked \<noteq> r then put_job tracked else ret ()) (\<lambda>_. keep_polling W r v now next_poll))"

definition poll_stream_upload :: "'s job_world \<Rightarrow> job_record \<Rightarrow> ('s, unit) jact" where
  "poll_stream_upload W r =
     (if uj_state r \<notin> set active_states \<or> \<not> set_text (uj_asset_id r) then ret ()
      else
        bnd (job_now W) (\<lambda>now.
        let asset = or_none (uj_asset_id r);
            next_poll = now + (if uj_state r = Processing then stream_processing_poll_ms else stream_upload_poll_ms) in
        if upload_url_ends r \<le> now then end_stream W r UploadExpired False
        else
          bnd (attempt (ask W (jp_read_video (provider_of W r) asset))) (\<lambda>outcome.
          case outcome of
            Inl err \<Rightarrow>
              if safe_error_code err = ''provider_asset_missing'' then end_stream W r ProviderFailed False
              else schedule_reconcile (min next_poll (upload_url_ends r))
          | Inr v \<Rightarrow> video_poll W r asset v now next_poll)))"

section \<open>The read of a Studio asset\<close>

definition asset_phases :: "string list" where
  "asset_phases = [''waiting'', ''processing'', ''ready'', ''failed'']"

definition provider_identity :: "job_record \<Rightarrow> string \<Rightarrow> string option \<Rightarrow> identity_expectation" where
  "provider_identity r asset token =
     \<lparr>ie_job_id = uj_job_id r, ie_generation = uj_generation r, ie_asset_id = asset, ie_playback_id = uj_playback_id r,
      ie_project_id = uj_project_id r, ie_api_token_name = token\<rparr>"

definition reserved_read :: "reconcile_record option \<Rightarrow> int \<Rightarrow> reconcile_record" where
  "reserved_read previous at_ms =
     (case previous of
        Some p \<Rightarrow> p\<lparr>rc_status := ProviderUnknown, rc_next_reconcile_at_ms := at_ms, rc_upload_read_failed := Some True,
          rc_upload_error_code := Some (if set_text (rc_upload_error_code p) then or_none (rc_upload_error_code p) else ''provider_unavailable'')\<rparr>
      | None \<Rightarrow> \<lparr>rc_status = ProviderUnknown, rc_consecutive_errors = 0, rc_next_reconcile_at_ms = at_ms, rc_upload_read_failed = Some True,
          rc_upload_error_code = Some ''provider_unavailable'', rc_last_good_at_ms = None, rc_last_drift = None, rc_recovery = None,
          rc_sales_suspension_queued_at_ms = None\<rparr>)"

text \<open>The reconcile record that was written before the read is missing only when something else deleted it.\<close>

definition finish_read :: "int \<Rightarrow> ('s, unit) jact" where
  "finish_read next_read =
     bnd (reading (\<lambda>s. (jb_reconcile s, Option.bind (jb_job s) uj_provider_verification))) (\<lambda>(current, pending).
     case current of
       None \<Rightarrow> throw ''TypeError''
     | Some c \<Rightarrow>
         put_reconcile (c\<lparr>rc_consecutive_errors := 0,
           rc_next_reconcile_at_ms := (if pending \<noteq> None then rc_next_reconcile_at_ms c else next_read),
           rc_upload_read_failed := Some False, rc_upload_error_code := None\<rparr>))"

definition read_upload :: "'s job_world \<Rightarrow> job_record \<Rightarrow> string \<Rightarrow> int \<Rightarrow> ('s, unit) jact" where
  "read_upload W r asset next_read =
     bnd (ask W (jp_read_asset (provider_of W r) asset)) (\<lambda>a.
     bnd (require (jp_identity_matches (provider_of W r) a (provider_identity r asset (uj_api_token_name r)) \<and> as_policy a = ''jwt'')
       ''provider_identity_mismatch'') (\<lambda>_.
     bnd (require (as_phase a \<in> set asset_phases) ''provider_state_invalid'') (\<lambda>_.
     bnd (reading (\<lambda>s. (jw_now W s, jb_job s))) (\<lambda>(now, stored).
     bnd (handle_provider_event W
            (Some (observed_event W (provider_kind r) (if as_phase a = ''failed'' then WFailed else WProcessing) (as_id a) (as_phase a) now))
            stored) (\<lambda>reply.
     bnd (require (reply_ok (br_status reply)) ''provider_unavailable'') (\<lambda>_.
     finish_read next_read))))))"

definition retried_codes :: "string list" where
  "retried_codes = [''provider_unavailable'', ''near_finalize_pending'', ''near_job_query_failed'']"

definition failed_read :: "'s job_world \<Rightarrow> int \<Rightarrow> string \<Rightarrow> ('s, unit) jact" where
  "failed_read W deadline err =
     bnd (if safe_error_code err \<in> set retried_codes
          then bnd (persist_unknown W ProviderUnknown) (\<lambda>_. schedule_reconcile deadline) else ret ()) (\<lambda>_.
     bnd (persist_upload_result W (Some (safe_error_code err))) (\<lambda>_.
     throw err))"

text \<open>The next read is reserved before the provider is asked.\<close>

definition reconcile_due :: "'s job_world \<Rightarrow> job_record \<Rightarrow> string \<Rightarrow> int \<Rightarrow> reconcile_record option \<Rightarrow> int \<Rightarrow> ('s, unit) jact" where
  "reconcile_due W r asset deadline previous now =
     (let next_read = min (now + reconcile_confirmation_ms) deadline in
      bnd (put_reconcile (reserved_read previous next_read)) (\<lambda>_.
      bnd (schedule_reconcile next_read) (\<lambda>_.
      catch (read_upload W r asset next_read) (failed_read W deadline))))"

definition reconcile_studio :: "'s job_world \<Rightarrow> job_record \<Rightarrow> string \<Rightarrow> int \<Rightarrow> ('s, unit) jact" where
  "reconcile_studio W r asset deadline =
     bnd (reading (\<lambda>s. (jw_now W s, jb_reconcile s))) (\<lambda>(now, previous).
     case previous of
       Some p \<Rightarrow>
         if rc_next_reconcile_at_ms p > now then schedule_reconcile (min (rc_next_reconcile_at_ms p) deadline)
         else reconcile_due W r asset deadline previous now
     | None \<Rightarrow> reconcile_due W r asset deadline previous now)"

definition public_deployment :: "bridge_env \<Rightarrow> bool" where
  "public_deployment e = (is_public_beta_packet e \<or> is_public_testnet e)"

definition reconcile_upload :: "'s job_world \<Rightarrow> job_record \<Rightarrow> ('s, unit) jact" where
  "reconcile_upload W r =
     (let deadline = or_else_ms (uj_absolute_deadline_at_ms r) 0 in
      if provider_kind r = Stream then poll_stream_upload W r
      else if \<not> public_deployment (jw_env W) \<or> deadline = 0 \<or> \<not> set_text (uj_asset_id r) \<or> uj_state r \<notin> set active_states then ret ()
      else
        bnd (job_now W) (\<lambda>now.
        if deadline_expired now r
        then
          bnd (move_to W r UploadExpired) (\<lambda>expired.
          bnd (put_job expired) (\<lambda>_.
          bnd (persist_upload_result W None) (\<lambda>_.
          update_admission W expired ''UPLOAD_EXPIRED'')))
        else reconcile_studio W r (or_none (uj_asset_id r)) deadline))"

section \<open>The alarm\<close>

definition webhook_dedup_retention_ms :: int where
  "webhook_dedup_retention_ms = 30 * 24 * 60 * 60 * 1000"

definition listed_rows :: "(string, 'v) table \<Rightarrow> (string, 'v) table" where
  "listed_rows t = take lifecycle_delete_batch (sort_key fst t)"

definition drop_keys :: "string list \<Rightarrow> (string, 'v) table \<Rightarrow> (string, 'v) table" where
  "drop_keys ks t = filter (\<lambda>(k, v). k \<notin> set ks) t"

definition purge_webhook_marks :: "'s job_world \<Rightarrow> ('s, unit) jact" where
  "purge_webhook_marks W =
     writing (\<lambda>s.
       let expired = map fst (filter (\<lambda>(k, m). wk_received_at_ms m \<le> jw_now W s - webhook_dedup_retention_ms) (listed_rows (jb_webhooks s)))
       in s\<lparr>jb_webhooks := drop_keys expired (jb_webhooks s)\<rparr>)"

definition purge_nonces :: "'s job_world \<Rightarrow> ('s, unit) jact" where
  "purge_nonces W =
     writing (\<lambda>s.
       let now = jw_now W s; rows = listed_rows (jb_nonces s);
           expired = map fst (filter (\<lambda>(k, t). t \<le> now) rows);
           pending = map snd (filter (\<lambda>(k, t). now < t) rows)
             @ (if length rows = lifecycle_delete_batch \<and> expired \<noteq> [] then [now] else [])
       in s\<lparr>jb_nonces := drop_keys expired (jb_nonces s),
            jb_alarm := (if pending = [] then jb_alarm s else alarm_no_later (jb_alarm s) (Min (set pending)))\<rparr>)"

definition archive_due :: "bridge_env \<Rightarrow> job_record \<Rightarrow> archive_meta option" where
  "archive_due e r =
     (case uj_terminal_archive r of
        Some m \<Rightarrow> if xa_status m \<noteq> ArchiveCommitted \<and> be_upload_job_archive_enabled e = Some ''true'' then Some m else None
      | None \<Rightarrow> None)"

definition alarm_upload :: "'s job_world \<Rightarrow> job_record \<Rightarrow> ('s, unit) jact" where
  "alarm_upload W r =
     (if uj_provider_verification r \<noteq> None \<and> uj_state r \<in> set active_states
      then
        bnd (reading (\<lambda>s. (jw_now W s, jb_job s))) (\<lambda>(now, stored).
        bnd (case uj_asset_id r of
               Some asset \<Rightarrow>
                 handle_provider_event W (Some (observed_event W (provider_kind r) WProcessing asset ''ready'' now)) stored
             | None \<Rightarrow> ret (accepted [yes ''ignored''] 202)) (\<lambda>_. ret ()))
      else reconcile_upload W r)"

definition alarm_published :: "'s job_world \<Rightarrow> job_record \<Rightarrow> ('s, unit) jact" where
  "alarm_published W r =
     bnd (job_now W) (\<lambda>now.
     case (uj_state r, uj_finalize_retry r) of
       (FinalizeRetry, Some x) \<Rightarrow>
         if fr_next_attempt_at_ms x > now then schedule_reconcile (fr_next_attempt_at_ms x)
         else bnd (advance_finalization W r) (\<lambda>_. ret ())
     | (st, _) \<Rightarrow>
         if st \<in> set finalizing_states then bnd (advance_finalization W r) (\<lambda>_. ret ())
         else if st = OnchainPublished then reconcile_published W r
         else ret ())"

definition alarm_job :: "'s job_world \<Rightarrow> job_record \<Rightarrow> ('s, unit) jact" where
  "alarm_job W r =
     (if be_bridge_enabled (jw_env W) \<noteq> Some ''true''
      then bnd (job_now W) (\<lambda>now. schedule_reconcile (now + reconcile_healthy_interval_ms))
      else
        bnd (expire_legacy W r) (\<lambda>legacy.
        if legacy \<noteq> None then ret ()
        else if uj_publication r = None then alarm_upload W r
        else alarm_published W r))"

definition job_policy :: "'s job_world \<Rightarrow> ('s, unit) jact" where
  "job_policy W =
     (if is_public_testnet (jw_env W)
      then bnd (require_public_upload_policy (job_near W) (jw_url W) (jw_now W) jb_policy (\<lambda>c s. s\<lparr>jb_policy := c\<rparr>) (jw_env W) False)
             (\<lambda>_. ret ())
      else ret ())"

text \<open>The alarm of an object that holds a job.\<close>

definition job_alarm :: "'s job_world \<Rightarrow> ('s, unit) jact" where
  "job_alarm W =
     bnd (job_policy W) (\<lambda>_.
     bnd (purge_nonces W) (\<lambda>_.
     bnd (purge_webhook_marks W) (\<lambda>_.
     bnd (reading (\<lambda>s. (jb_job s, jw_now W s))) (\<lambda>(stored, now).
     case stored of
       None \<Rightarrow> ret ()
     | Some r \<Rightarrow>
         (case archive_due (jw_env W) r of
            Some m \<Rightarrow>
              if xa_next_attempt_at_ms m > now then writing (\<lambda>s. s\<lparr>jb_alarm := Some (xa_next_attempt_at_ms m)\<rparr>)
              else advance_terminal_archive W r
          | None \<Rightarrow> alarm_job W r)))))"

end
