(* ===== verification/BridgeJobOps.thy ===== *)
theory BridgeJobOps
  imports BridgeJobEvents
begin

text \<open>
  The requests of the upload job object: the upload intent, its heartbeats and its cancellation, the playback token of a
  published job, the outbox, provider webhooks and the deletion of an asset; its routes.
\<close>

section \<open>Signed requests\<close>

text \<open>A request as the object receives it.\<close>

record job_request =
  jq_verb :: string
  jq_path :: string
  jq_control :: control_request
  jq_provider :: "string option"
  jq_webhook_time :: "string option"

definition scope_at :: "'s job_world \<Rightarrow> int \<Rightarrow> control_scope" where
  "scope_at W now =
     \<lparr>co_crypto = jw_crypto W, co_url = jw_url W, co_env = jw_env W, co_allowed_origins = jw_allowed_origins W, co_now_ms = now\<rparr>"

text \<open>Parsed, and signed by the key of its envelope.\<close>

definition signed_request ::
  "'s job_world \<Rightarrow> (control_scope \<Rightarrow> control_request \<Rightarrow> string + 'b \<times> control_envelope) \<Rightarrow> control_request \<Rightarrow> ('s, 'b \<times> control_envelope) jact" where
  "signed_request W parse q =
     bnd (job_now W) (\<lambda>now.
     bnd (lifting (parse (scope_at W now) q)) (\<lambda>(b, v).
     bnd (lifting (verify_control_signature (jw_crypto W) q v)) (\<lambda>_.
     ret (b, v))))"

definition account_limit :: "'s job_world \<Rightarrow> string \<Rightarrow> string \<Rightarrow> ('s, unit) jact" where
  "account_limit W route account =
     (if \<not> public_deployment (jw_env W) then ret ()
      else
        case jw_limiter W of
          None \<Rightarrow> throw ''runtime_not_configured''
        | Some limit \<Rightarrow>
            bnd (attempt (ask W (limit (route @ '':account:'' @ account)))) (\<lambda>outcome.
            case outcome of
              Inl e \<Rightarrow> throw ''runtime_not_configured''
            | Inr success \<Rightarrow> require success ''rate_limited''))"

definition chain_job :: "'s job_world \<Rightarrow> string \<Rightarrow> ('s, json) jact" where
  "chain_job W job_id =
     bnd (read_final_media_job (job_near W) (jw_url W) (jw_env W) job_id) (\<lambda>(job, block). ret job)"

text \<open>The marker of the public beta, when this deployment is one.\<close>

definition beta_marker :: "'s job_world \<Rightarrow> string \<Rightarrow> int \<Rightarrow> string \<Rightarrow> json \<Rightarrow> ('s, json option) jact" where
  "beta_marker W job_id generation account job =
     (if \<not> is_public_beta_packet (jw_env W) then ret None
      else
        bnd (read_public_testnet_job (job_near W) (jw_env W) job_id) (\<lambda>marker.
        bnd (read_public_testnet_state (job_near W) (jw_env W)) (\<lambda>beta.
        bnd (job_now W) (\<lambda>now.
        bnd (require (beta_job_ok (jw_crypto W) now account generation job marker beta) ''on_chain_job_mismatch'') (\<lambda>_.
        ret marker)))))"

definition put_nonce :: "control_envelope \<Rightarrow> ('s, unit) jact" where
  "put_nonce v = writing (\<lambda>s. s\<lparr>jb_nonces := tput (ev_device_nonce v) (int (dec_val (ev_expires_at_ms v))) (jb_nonces s)\<rparr>)"

definition fresh_nonce :: "control_envelope \<Rightarrow> ('s, unit) jact" where
  "fresh_nonce v =
     bnd (reading (\<lambda>s. tget (ev_device_nonce v) (jb_nonces s))) (\<lambda>used. require (used = None) ''device_nonce_replayed'')"

definition watch_nonce :: "control_envelope \<Rightarrow> ('s, unit) jact" where
  "watch_nonce v = schedule_reconcile (int (dec_val (ev_expires_at_ms v)))"

section \<open>The upload intent\<close>

definition new_job :: "upload_body \<Rightarrow> control_envelope \<Rightarrow> bridge_env \<Rightarrow> int option \<Rightarrow> int \<Rightarrow> string + job_record" where
  "new_job b v e deadline now =
     (let stream = (media_profile_family (Some (ub_profile_config_sha256 b)) = Some Stream);
          token = or_none (be_api_token_name e) in
      ebind (erequire (stream \<or> be_api_token_name e \<noteq> None \<and> 1 \<le> utf16_length token \<and> utf16_length token \<le> 128) ''runtime_not_configured'') (\<lambda>_.
      Inr \<lparr>uj_state = Authorized, uj_network = ev_network v, uj_contract_id = ev_contract_id v, uj_job_id = ub_job_id b,
           uj_generation = ub_generation b, uj_creator = ev_account_id v, uj_expected_source_bytes = ub_expected_source_bytes b,
           uj_source_fingerprint_sha256 = Some (ub_source_fingerprint_sha256 b), uj_source_type = ub_source_type b,
           uj_profile_id = ub_profile_id b, uj_profile_config_sha256 = ub_profile_config_sha256 b, uj_created_at_ms = now,
           uj_state_changed_at_ms = Some now, uj_terminal_at_ms = None, uj_provider = (if stream then Some Stream else None),
           uj_api_token_name = (if stream then None else be_api_token_name e), uj_lease_id = None, uj_lease_expires_at_ms = None,
           uj_asset_id = None, uj_playback_id = None, uj_project_id = None, uj_tus_endpoint = None, uj_publication = None,
           uj_provider_verification = None, uj_source_bytes_evidence = None, uj_stream_progress = None, uj_finalize_retry = None,
           uj_provider_create = None, uj_terminal_archive = None, uj_absolute_deadline_at_ms = deadline, uj_provider_delete = None\<rparr>))"

definition same_job :: "job_record \<Rightarrow> job_record \<Rightarrow> bool" where
  "same_job l r =
     (uj_network l = uj_network r \<and> uj_contract_id l = uj_contract_id r \<and> uj_job_id l = uj_job_id r
      \<and> uj_generation l = uj_generation r \<and> uj_creator l = uj_creator r
      \<and> uj_expected_source_bytes l = uj_expected_source_bytes r
      \<and> uj_source_fingerprint_sha256 l = uj_source_fingerprint_sha256 r \<and> uj_source_type l = uj_source_type r
      \<and> uj_profile_id l = uj_profile_id r \<and> uj_profile_config_sha256 l = uj_profile_config_sha256 r)"

definition intent_deadline :: "'s job_world \<Rightarrow> json \<Rightarrow> json option \<Rightarrow> int \<Rightarrow> string + int option" where
  "intent_deadline W job marker now =
     (if is_public_testnet (jw_env W) then ebind (public_upload_job_deadline job True now) (\<lambda>d. Inr (Some d))
      else Inr (integer_in ''deadline_at_ms'' marker))"

definition claim_job :: "'s job_world \<Rightarrow> upload_body \<Rightarrow> control_envelope \<Rightarrow> job_record \<Rightarrow> ('s, job_record) jact" where
  "claim_job W b v candidate =
     atomically (
       bnd (fresh_nonce v) (\<lambda>_.
       bnd (reading jb_job) (\<lambda>existing.
       bnd (job_capacity (NonceKey (ev_device_nonce v) # (if existing = None then [JobKey, ReconcileKey] else [ReconcileKey]))) (\<lambda>_.
       case existing of
         Some r \<Rightarrow>
           bnd (require (same_job r candidate) ''reservation_conflict'') (\<lambda>_.
           bnd (put_nonce v) (\<lambda>_. ret r))
       | None \<Rightarrow>
           bnd (require (ub_recovery b = None) ''provider_recovery_not_ready'') (\<lambda>_.
           bnd (require (be_new_uploads_enabled (jw_env W) = Some ''true'') ''admission_closed'') (\<lambda>_.
           bnd (put_nonce v) (\<lambda>_.
           bnd (put_job candidate) (\<lambda>_. ret candidate))))))))"

definition livepeer_tus_chunk_bytes :: nat where
  "livepeer_tus_chunk_bytes = 32 * 1024 * 1024"

definition upload_intent_response :: "job_record \<Rightarrow> bool \<Rightarrow> string + bridge_reply" where
  "upload_intent_response r created =
     (if uj_state r \<notin> {UploadReady, Uploading} \<or> \<not> set_text (uj_tus_endpoint r) \<or> \<not> set_text (uj_lease_id r)
         \<or> or_else_ms (uj_lease_expires_at_ms r) 0 = 0
      then Inl ''provider_create_ambiguous''
      else Inr (job_reply
        [(''schema'', JStr ''youtick.livepeer-upload-intent.v2''), (''job_id'', JStr (uj_job_id r)),
         (''generation'', JNum (of_int (uj_generation r))), (''expected_source_bytes'', JStr (uj_expected_source_bytes r)),
         (''source_type'', JStr (uj_source_type r)), (''chunk_bytes'', JNum (of_nat livepeer_tus_chunk_bytes)),
         (''tus_endpoint'', JStr (or_none (uj_tus_endpoint r))), (''lease_id'', JStr (or_none (uj_lease_id r))),
         (''lease_expires_at_ms'', JStr (show_int (or_else_ms (uj_lease_expires_at_ms r) 0))),
         (''heartbeat_interval_ms'', JNum (of_int admission_lease_heartbeat_ms)), (''created'', JBool created)]
        (if created then 201 else 200)))"

definition state_reply :: "job_record \<Rightarrow> bridge_reply" where
  "state_reply r = job_reply
     [(''job_id'', JStr (uj_job_id r)), (''generation'', JNum (of_int (uj_generation r))), (''state'', JStr (job_state_name (uj_state r)))] 200"

subsection \<open>Recovery\<close>

definition recover_by_reconcile :: "'s job_world \<Rightarrow> job_record \<Rightarrow> ('s, bridge_reply) jact" where
  "recover_by_reconcile W r =
     bnd (reconcile_upload W r) (\<lambda>_.
     bnd (reading (\<lambda>s. (case jb_job s of Some j \<Rightarrow> j | None \<Rightarrow> r))) (\<lambda>j.
     if uj_state j \<notin> set active_states then bnd (persist_upload_result W None) (\<lambda>_. ret (state_reply j))
     else
       bnd (reading jb_reconcile) (\<lambda>seen.
       case seen of
         Some rc \<Rightarrow>
           if rc_upload_read_failed rc = Some True
           then throw (if set_text (rc_upload_error_code rc) then or_none (rc_upload_error_code rc) else ''provider_unavailable'')
           else ret (state_reply j)
       | None \<Rightarrow> ret (state_reply j))))"

definition past_upload_states :: "job_state list" where
  "past_upload_states = [Processing, ReadyVerified, FinalizeQueued, FinalizeRetry, OnchainPublished, ProviderFailed, UploadExpired]"

definition resumed_offset :: "'s job_world \<Rightarrow> job_record \<Rightarrow> ('s, unit) jact" where
  "resumed_offset W r =
     bnd (catch (ask W (jp_read_tus_offset (provider_of W r) (or_none (uj_tus_endpoint r)))) (\<lambda>err.
            if err = ''provider_tus_state_invalid'' then throw ''provider_recovery_not_ready''
            else
              bnd (if err = ''provider_tus_url_expired'' \<and> provider_kind r = Stream then end_stream W r UploadExpired False else ret ()) (\<lambda>_.
              throw err))) (\<lambda>source.
     require (ts_length_bytes source = uj_expected_source_bytes r) ''provider_identity_mismatch'')"

text \<open>The answer that ends a resumed intent, or \<open>None\<close> when the upload goes on.\<close>

definition recover_by_resume :: "'s job_world \<Rightarrow> job_record \<Rightarrow> ('s, bridge_reply option) jact" where
  "recover_by_resume W r =
     bnd (require (is_public_testnet (jw_env W) \<and> set_text (uj_asset_id r)) ''provider_recovery_not_ready'') (\<lambda>_.
     if uj_state r \<in> set past_upload_states then ret (Some (state_reply r))
     else
       bnd (require (uj_state r \<in> {UploadReady, Uploading} \<and> set_text (uj_tus_endpoint r)) ''provider_recovery_not_ready'') (\<lambda>_.
       bnd (job_now W) (\<lambda>now.
       if provider_kind r = Stream \<and> upload_url_ends r \<le> now
       then bnd (terminate_stream W r UploadExpired) (\<lambda>ended. ret (Some (state_reply ended)))
       else bnd (resumed_offset W r) (\<lambda>_. ret None))))"

subsection \<open>The lease and the upload\<close>

definition renew_lease :: "'s job_world \<Rightarrow> job_record \<Rightarrow> ('s, job_record) jact" where
  "renew_lease W r =
     bnd (job_now W) (\<lambda>now.
     let held = or_else_ms (uj_lease_expires_at_ms r) 0 in
     if held \<noteq> 0 \<and> now < held then ret r
     else
       bnd (request_admission W r None) (\<lambda>l.
       bnd (put_job (leased_job r l)) (\<lambda>_. ret (leased_job r l))))"

definition first_lease :: "'s job_world \<Rightarrow> job_record \<Rightarrow> ('s, job_record) jact" where
  "first_lease W r =
     bnd (if provider_kind r = Stream
          then bnd (ask W (jp_read_storage_usage (provider_of W r))) (\<lambda>usage. ret (Some usage)) else ret None) (\<lambda>storage.
     bnd (request_admission W r storage) (\<lambda>l.
     bnd (move_to W r Leased) (\<lambda>moved.
     bnd (put_job (leased_job moved l)) (\<lambda>_. ret (leased_job moved l)))))"

definition stream_upload_expiry_ms :: int where
  "stream_upload_expiry_ms = 6 * 60 * 60 * 1000"

definition pending_create :: "'s job_world \<Rightarrow> job_record \<Rightarrow> ('s, job_record) jact" where
  "pending_create W r =
     bnd (move_to W r ProviderCreatePending) (\<lambda>moved.
     bnd (job_now W) (\<lambda>now.
     let pending = moved\<lparr>uj_provider_create := Some \<lparr>pc_last_attempt_at_ms = now, pc_last_error_code = None, pc_ambiguous_at_ms = None,
                      pc_completed_at_ms = None\<rparr>\<rparr> in
     bnd (put_job pending) (\<lambda>_. ret pending)))"

definition upload_ends :: "job_record \<Rightarrow> int \<Rightarrow> int" where
  "upload_ends r now =
     min (now + stream_upload_expiry_ms) (case uj_absolute_deadline_at_ms r of Some d \<Rightarrow> d | None \<Rightarrow> max_safe_time)"

definition creation_error :: "string \<Rightarrow> string" where
  "creation_error err =
     (let code = safe_error_code err in
      if code \<in> {''provider_admission_closed'', ''provider_unavailable''} then code else ''provider_create_ambiguous'')"

text \<open>Whatever the provider answered, a creation that failed is not tried again.\<close>

definition creation_failed :: "'s job_world \<Rightarrow> job_record \<Rightarrow> string \<Rightarrow> ('s, 'a) jact" where
  "creation_failed W pending err =
     (let code = creation_error err in
      bnd (move_to W pending CreateAmbiguous) (\<lambda>moved.
      bnd (job_now W) (\<lambda>now.
      let ambiguous = moved\<lparr>uj_provider_create := map_option (\<lambda>c. c\<lparr>pc_last_error_code := Some code, pc_ambiguous_at_ms := Some now\<rparr>)
                              (uj_provider_create pending)\<rparr> in
      bnd (put_job ambiguous) (\<lambda>_.
      bnd (update_admission W ambiguous (if code = ''provider_unavailable'' then ''PROVIDER_UNAVAILABLE'' else ''CREATE_AMBIGUOUS'')) (\<lambda>_.
      bnd (if code = ''provider_admission_closed'' then update_admission W pending ''AUTO_CLOSED'' else ret ()) (\<lambda>_.
      throw ''provider_create_ambiguous''))))))"

definition created_job :: "job_record \<Rightarrow> created_upload \<Rightarrow> int \<Rightarrow> job_record" where
  "created_job moved p now =
     moved\<lparr>uj_asset_id := Some (cu_asset_id p), uj_playback_id := Some (cu_playback_id p), uj_project_id := Some (cu_project_id p),
       uj_tus_endpoint := Some (cu_tus_endpoint p),
       uj_provider_create := map_option (\<lambda>c. c\<lparr>pc_completed_at_ms := Some now\<rparr>) (uj_provider_create moved)\<rparr>"

text \<open>The provider answered too late: the upload is ended, and the creator is refused.\<close>

definition late_creation :: "'s job_world \<Rightarrow> job_record \<Rightarrow> ('s, bridge_reply) jact" where
  "late_creation W ready =
     (if provider_kind ready = Stream
      then
        bnd (put_job ready) (\<lambda>_.
        bnd (terminate_stream W ready UploadExpired) (\<lambda>_. throw ''admission_denied''))
      else
        bnd (move_to W ready UploadExpired) (\<lambda>expired.
        bnd (put_job expired) (\<lambda>_.
        bnd (update_admission W expired ''UPLOAD_EXPIRED'') (\<lambda>_. throw ''admission_denied''))))"

definition created_upload_reply :: "'s job_world \<Rightarrow> job_record \<Rightarrow> created_upload \<Rightarrow> ('s, bridge_reply) jact" where
  "created_upload_reply W pending p =
     bnd (move_to W pending UploadReady) (\<lambda>moved.
     bnd (job_now W) (\<lambda>now.
     let ready = created_job moved p now in
     if deadline_expired now ready then late_creation W ready
     else
       bnd (put_job ready) (\<lambda>_.
       bnd (update_admission W ready ''UPLOAD_READY'') (\<lambda>_.
       bnd (if provider_kind ready = Stream then bnd (job_now W) (\<lambda>now. schedule_reconcile (now + stream_upload_poll_ms)) else ret ()) (\<lambda>_.
       lifting (upload_intent_response ready True))))))"

definition start_creation :: "'s job_world \<Rightarrow> job_record \<Rightarrow> ('s, job_record \<times> (string + created_upload)) jact" where
  "start_creation W r =
     bnd (pending_create W r) (\<lambda>pending.
     bnd (job_now W) (\<lambda>now.
     bnd (attempt (ask W (jp_create_upload (provider_of W pending) pending (upload_ends pending now)))) (\<lambda>outcome.
     ret (pending, outcome))))"

definition create_upload :: "'s job_world \<Rightarrow> job_record \<Rightarrow> ('s, bridge_reply) jact" where
  "create_upload W r =
     bnd (start_creation W r) (\<lambda>(pending, outcome).
     case outcome of
       Inl err \<Rightarrow> creation_failed W pending err
     | Inr p \<Rightarrow> created_upload_reply W pending p)"

definition continue_intent :: "'s job_world \<Rightarrow> job_record \<Rightarrow> ('s, bridge_reply) jact" where
  "continue_intent W r =
     (if uj_state r \<in> {UploadReady, Uploading}
      then bnd (renew_lease W r) (\<lambda>r'. lifting (upload_intent_response r' False))
      else
        bnd (require (uj_state r \<in> {Authorized, Leased})
          (if uj_state r \<in> {CreatePending, ProviderCreatePending} then ''provider_create_pending'' else ''provider_create_ambiguous'')) (\<lambda>_.
        bnd (job_now W) (\<lambda>now.
        bnd (require (\<not> deadline_expired now r) ''admission_denied'') (\<lambda>_.
        bnd (require (provider_mutations W) ''provider_mutations_disabled'') (\<lambda>_.
        bnd (if uj_state r = Authorized then first_lease W r else renew_lease W r) (create_upload W))))))"

definition resumed_intent :: "'s job_world \<Rightarrow> json option \<Rightarrow> job_record \<Rightarrow> ('s, bridge_reply) jact" where
  "resumed_intent W recovery r =
     (if recovery = Some (JStr ''reconcile'') then recover_by_reconcile W r
      else
        bnd (if recovery = Some (JStr ''resume'') then recover_by_resume W r else ret None) (\<lambda>ended.
        case ended of Some reply \<Rightarrow> ret reply | None \<Rightarrow> continue_intent W r))"

definition reserve_upload_intent :: "'s job_world \<Rightarrow> control_request \<Rightarrow> ('s, bridge_reply) jact" where
  "reserve_upload_intent W q =
     bnd (signed_request W parse_upload_intent_request q) (\<lambda>(b, v).
     bnd (chain_job W (ub_job_id b)) (\<lambda>job.
     bnd (job_now W) (\<lambda>now.
     bnd (require (exact_chain_job b v now job) ''on_chain_job_mismatch'') (\<lambda>_.
     bnd (account_limit W upload_intent_route (ev_account_id v)) (\<lambda>_.
     bnd (beta_marker W (ub_job_id b) (ub_generation b) (ev_account_id v) job) (\<lambda>marker.
     bnd (job_now W) (\<lambda>now.
     bnd (lifting (intent_deadline W job marker now)) (\<lambda>deadline.
     bnd (lifting (new_job b v (jw_env W) deadline now)) (\<lambda>candidate.
     bnd (claim_job W b v candidate) (\<lambda>r.
     bnd (watch_nonce v) (\<lambda>_.
     resumed_intent W (ub_recovery b) r)))))))))))"

end
