(* ===== verification/BridgeJobRoutes.thy ===== *)
theory BridgeJobRoutes
  imports BridgeJobOps
begin

text \<open>The other requests of the upload job object, and its routes.\<close>

section \<open>Heartbeats\<close>

text \<open>A heartbeat is of the job's own lease, before its deadline, while it uploads.\<close>

definition heartbeat_fits :: "heartbeat_body \<Rightarrow> job_record \<Rightarrow> int \<Rightarrow> bool" where
  "heartbeat_fits b r now =
     (uj_job_id r = hb_job_id b \<and> uj_generation r = hb_generation b \<and> uj_lease_id r = Some (hb_lease_id b)
      \<and> \<not> deadline_expired now r \<and> uj_state r \<in> {UploadReady, Uploading})"

definition claim_heartbeat :: "'s job_world \<Rightarrow> heartbeat_body \<Rightarrow> control_envelope \<Rightarrow> ('s, job_record) jact" where
  "claim_heartbeat W b v =
     atomically (
       bnd (fresh_nonce v) (\<lambda>_.
       bnd (reading (\<lambda>s. (jb_job s, jw_now W s))) (\<lambda>(stored, now).
       case stored of
         None \<Rightarrow> throw ''admission_denied''
       | Some r \<Rightarrow>
           bnd (require (heartbeat_fits b r now) ''admission_denied'') (\<lambda>_.
           bnd (job_capacity [NonceKey (ev_device_nonce v), ReconcileKey]) (\<lambda>_.
           bnd (put_nonce v) (\<lambda>_. ret r))))))"

definition lease_lost :: "'s job_world \<Rightarrow> job_record \<Rightarrow> string \<Rightarrow> ('s, lease) jact" where
  "lease_lost W r err =
     bnd (if safe_error_code err \<noteq> ''admission_denied'' then ret ()
          else if provider_kind r = Stream then end_stream W r UploadExpired False
          else
            bnd (move_to W r UploadExpired) (\<lambda>expired.
            bnd (put_job expired) (\<lambda>_.
            bnd (schedule_terminal_archive W expired) (\<lambda>_.
            update_admission W expired ''UPLOAD_EXPIRED'')))) (\<lambda>_.
     throw err)"

definition heartbeat_answer :: "job_record \<Rightarrow> lease \<Rightarrow> bridge_reply" where
  "heartbeat_answer r l = job_reply
     [(''schema'', JStr ''youtick.livepeer-upload-lease.v1''), (''job_id'', JStr (uj_job_id r)),
      (''generation'', JNum (of_int (uj_generation r))), (''lease_id'', JStr (fst l)),
      (''expires_at_ms'', JStr (show_int (within_deadline r (snd l)))),
      (''heartbeat_interval_ms'', JNum (of_int admission_lease_heartbeat_ms))] 200"

text \<open>The record the lease was asked for is written back as it was read.\<close>

definition renew_by_heartbeat :: "'s job_world \<Rightarrow> job_record \<Rightarrow> ('s, bridge_reply) jact" where
  "renew_by_heartbeat W r =
     bnd (catch (heartbeat_lease W r) (lease_lost W r)) (\<lambda>l.
     bnd (move_to W r Uploading) (\<lambda>uploading.
     bnd (put_job (leased_job uploading l)) (\<lambda>_.
     ret (heartbeat_answer r l))))"

definition heartbeat_upload_lease :: "'s job_world \<Rightarrow> control_request \<Rightarrow> ('s, bridge_reply) jact" where
  "heartbeat_upload_lease W q =
     bnd (signed_request W parse_heartbeat_request q) (\<lambda>(b, v).
     bnd (chain_job W (hb_job_id b)) (\<lambda>job.
     bnd (job_now W) (\<lambda>now.
     bnd (require (chain_job_authorized (hb_job_id b) (hb_generation b) v now job) ''on_chain_job_mismatch'') (\<lambda>_.
     bnd (account_limit W upload_heartbeat_route (ev_account_id v)) (\<lambda>_.
     bnd (job_now W) (\<lambda>now.
     bnd (if is_public_testnet (jw_env W) then bnd (lifting (public_upload_job_deadline job True now)) (\<lambda>_. ret ()) else ret ()) (\<lambda>_.
     bnd (beta_marker W (hb_job_id b) (hb_generation b) (ev_account_id v) job) (\<lambda>_.
     bnd (claim_heartbeat W b v) (\<lambda>r.
     bnd (watch_nonce v) (\<lambda>_.
     renew_by_heartbeat W r))))))))))"

section \<open>Cancellation\<close>

text \<open>Only a job that has no upload yet is cancelled; a second cancellation changes nothing.\<close>

definition claim_cancellation :: "'s job_world \<Rightarrow> string \<times> int \<Rightarrow> control_envelope \<Rightarrow> ('s, job_record \<times> bool) jact" where
  "claim_cancellation W b v =
     atomically (
       bnd (fresh_nonce v) (\<lambda>_.
       bnd (reading jb_job) (\<lambda>stored.
       case stored of
         None \<Rightarrow> throw ''upload_cancel_denied''
       | Some r \<Rightarrow>
           bnd (require (uj_job_id r = fst b \<and> uj_generation r = snd b \<and> uj_creator r = ev_account_id v) ''upload_cancel_denied'') (\<lambda>_.
           bnd (job_capacity [NonceKey (ev_device_nonce v), ReconcileKey]) (\<lambda>_.
           if uj_state r = Cancelled then bnd (put_nonce v) (\<lambda>_. ret (r, True))
           else
             bnd (require (uj_state r \<in> {Authorized, Leased}) ''upload_cancel_denied'') (\<lambda>_.
             bnd (move_to W r Cancelled) (\<lambda>cancelled.
             bnd (put_nonce v) (\<lambda>_.
             bnd (put_job cancelled) (\<lambda>_. ret (cancelled, False))))))))))"

definition cancel_upload :: "'s job_world \<Rightarrow> control_request \<Rightarrow> ('s, bridge_reply) jact" where
  "cancel_upload W q =
     bnd (signed_request W parse_cancellation_request q) (\<lambda>(b, v).
     bnd (chain_job W (fst b)) (\<lambda>job.
     bnd (job_now W) (\<lambda>now.
     bnd (require (chain_job_authorized (fst b) (snd b) v now job) ''on_chain_job_mismatch'') (\<lambda>_.
     bnd (claim_cancellation W b v) (\<lambda>(r, duplicate).
     bnd (watch_nonce v) (\<lambda>_.
     bnd (schedule_terminal_archive W r) (\<lambda>_.
     bnd (if set_text (uj_lease_id r) then update_admission W r ''CANCELLED'' else ret ()) (\<lambda>_.
     ret (job_reply [yes ''cancelled'', (''duplicate'', JBool duplicate), (''refundable'', JBool False)] 200)))))))))"

section \<open>Playback tokens of the first protocol\<close>

definition playback_min_ttl_seconds :: int where
  "playback_min_ttl_seconds = 120"

definition playback_max_ttl_seconds :: int where
  "playback_max_ttl_seconds = 300"

record playback_body =
  bb_job_id :: string
  bb_generation :: int
  bb_playback_id :: string
  bb_grant_id :: string
  bb_origin_hash :: string
  bb_device_hash :: string
  bb_requested_ttl_seconds :: int

definition parse_playback_body :: "json option \<Rightarrow> string + json \<times> playback_body" where
  "parse_playback_body v =
     (let code = ''invalid_playback_request'' in
      ebind (require_object v code) (\<lambda>body.
      ebind (require_exact_keys body
        [''job_id'', ''generation'', ''playback_id'', ''grant_id'', ''origin_hash'', ''device_hash'', ''requested_ttl_seconds''] code) (\<lambda>_.
      let text = (\<lambda>k. str_of k body); ttl = json_safe_integer (obj_get ''requested_ttl_seconds'' body) in
      ebind (erequire (job_reference_ok body
               \<and> has_str ''playback_id'' body \<and> playback_id_text (text ''playback_id'')
               \<and> has_str ''grant_id'' body \<and> utf16_length (text ''grant_id'') \<le> 256 \<and> \<not> line_break (text ''grant_id'')
               \<and> has_str ''origin_hash'' body \<and> hex64 (text ''origin_hash'')
               \<and> has_str ''device_hash'' body \<and> hex64 (text ''device_hash'')
               \<and> (case ttl of Some n \<Rightarrow> playback_min_ttl_seconds \<le> n \<and> n \<le> playback_max_ttl_seconds | None \<Rightarrow> False)) code) (\<lambda>_.
      Inr (body, \<lparr>bb_job_id = text ''job_id'', bb_generation = generation_in body, bb_playback_id = text ''playback_id'',
        bb_grant_id = text ''grant_id'', bb_origin_hash = text ''origin_hash'', bb_device_hash = text ''device_hash'',
        bb_requested_ttl_seconds = the ttl\<rparr>)))))"

definition playback_resource :: "playback_body \<Rightarrow> string" where
  "playback_resource b =
     ''playback:'' @ bb_job_id b @ '':'' @ show_int (bb_generation b) @ '':'' @ bb_playback_id b"

definition playback_bound :: "crypto \<Rightarrow> playback_body \<Rightarrow> control_envelope \<Rightarrow> bool" where
  "playback_bound C b v =
     (bb_grant_id b = ''play:'' @ bb_job_id b @ '':'' @ ev_account_id v
      \<and> bb_origin_hash b = sha256_hex C (encode_text (ev_origin v)))"

definition parse_playback_token_request :: "control_scope \<Rightarrow> control_request \<Rightarrow> string + playback_body \<times> control_envelope" where
  "parse_playback_token_request K q =
     ebind (read_json_object (cq_body q)) (\<lambda>value.
     ebind (require_exact_keys value
       (if obj_get ''shadow_v2'' value \<noteq> None then [''body'', ''envelope'', ''shadow_v2''] else [''body'', ''envelope''])
       ''invalid_control_request'') (\<lambda>_.
     ebind (parse_playback_body (obj_get ''body'' value)) (\<lambda>(raw, b).
     ebind (parse_control_envelope (co_url K) (obj_get ''envelope'' value)) (\<lambda>sealed.
     ebind (erequire (binding_ok K q sealed raw ''2'' playback_token_route (playback_resource b)
              \<and> playback_bound (co_crypto K) b (read_envelope sealed)) ''protocol_binding_mismatch'') (\<lambda>_.
     ebind (envelope_in_scope K sealed) (\<lambda>v.
     Inr (b, v)))))))"

text \<open>The publication, the entitlement and the session grant the chain shows, all at one block.\<close>

definition session_grant_ok :: "playback_body \<Rightarrow> control_envelope \<Rightarrow> int \<Rightarrow> json \<Rightarrow> json \<Rightarrow> json \<Rightarrow> bool" where
  "session_grant_ok b v now entitlement verification grant =
     (entitlement = JBool True
      \<and> obj_get ''valid'' verification = Some (JBool True)
      \<and> obj_get ''owner_id'' verification = Some (JStr (ev_account_id v))
      \<and> obj_get ''owner_id'' grant = Some (JStr (ev_account_id v))
      \<and> obj_get ''session_pk'' grant = Some (JStr (ev_session_public_key v))
      \<and> obj_get ''scope'' grant = Some (JStr ''Play'')
      \<and> obj_get ''resource_id'' grant = Some (JStr (bb_job_id b))
      \<and> obj_get ''origin_hash'' grant = Some (JStr (bb_origin_hash b))
      \<and> obj_get ''device_hash'' grant = Some (JStr (bb_device_hash b))
      \<and> obj_get ''revoked'' grant = Some (JBool False)
      \<and> (case json_safe_integer (obj_get ''expires_at_ms'' grant) of Some t \<Rightarrow> now < t | None \<Rightarrow> False))"

definition grant_view :: "'s job_world \<Rightarrow> string option \<Rightarrow> string \<Rightarrow> (string \<times> json) list \<Rightarrow> string option \<Rightarrow> ('s, json \<times> string) jact" where
  "grant_view W contract name args block = near_view_with (job_near W) contract name (JObj args) block"

definition read_playback_authorization ::
  "'s job_world \<Rightarrow> playback_body \<Rightarrow> control_envelope \<Rightarrow> ('s, int \<times> string option) jact" where
  "read_playback_authorization W b v =
     (let e = jw_env W; market = be_market_contract_id e; access = be_access_contract_id e; code = ''playback_denied'' in
      bnd (require (valid_playback_config (jw_url W) e) ''runtime_not_configured'') (\<lambda>_.
      bnd (grant_view W market ''get_publication'' [(''publication_id'', JStr (bb_job_id b))] None) (\<lambda>(shown, block).
      bnd (lifting (require_object (Some shown) code)) (\<lambda>publication.
      bnd (require (obj_get ''publication_id'' publication = Some (JStr (bb_job_id b))
             \<and> obj_get ''generation'' publication = Some (JNum (of_int (bb_generation b)))
             \<and> obj_get ''playback_id'' publication = Some (JStr (bb_playback_id b))
             \<and> string_of (obj_get ''availability'' publication) \<in> set playable_availability) code) (\<lambda>_.
      bnd (grant_view W market ''has_entitlement''
             [(''account_id'', JStr (ev_account_id v)), (''publication_id'', JStr (bb_job_id b))] (Some block)) (\<lambda>(entitlement, _).
      bnd (grant_view W access ''get_session_grant'' [(''session_pk'', JStr (ev_session_public_key v))] (Some block)) (\<lambda>(grant, _).
      bnd (grant_view W access ''verify_session_grant''
             [(''session_pk'', JStr (ev_session_public_key v)), (''scope'', JStr ''Play''), (''resource_id'', JStr (bb_job_id b)),
              (''origin_hash'', JStr (bb_origin_hash b)), (''device_hash'', JStr (bb_device_hash b))] (Some block)) (\<lambda>(verification, _).
      bnd (lifting (require_object (Some grant) code)) (\<lambda>grant.
      bnd (lifting (require_object (Some verification) code)) (\<lambda>verification.
      bnd (job_now W) (\<lambda>now.
      bnd (require (session_grant_ok b v now entitlement verification grant) code) (\<lambda>_.
      ret (the (json_safe_integer (obj_get ''expires_at_ms'' grant)), publication_profile_hash publication)))))))))))))"

definition playable_job :: "playback_body \<Rightarrow> job_record option \<Rightarrow> reconcile_record option \<Rightarrow> bool" where
  "playable_job b stored seen =
     (case stored of
        Some r \<Rightarrow>
          uj_state r = OnchainPublished \<and> uj_job_id r = bb_job_id b \<and> uj_generation r = bb_generation b
          \<and> uj_playback_id r = Some (bb_playback_id b) \<and> map_option rc_status seen = Some Healthy
      | None \<Rightarrow> False)"

definition claim_nonce :: "control_envelope \<Rightarrow> ('s, unit) jact" where
  "claim_nonce v =
     atomically (
       bnd (fresh_nonce v) (\<lambda>_.
       bnd (job_capacity [NonceKey (ev_device_nonce v), ReconcileKey]) (\<lambda>_.
       put_nonce v)))"

definition token_ttl :: "bridge_env \<Rightarrow> int \<Rightarrow> int \<Rightarrow> int" where
  "token_ttl e requested remaining =
     min requested (min remaining (if public_deployment e then playback_v2_ttl_seconds else playback_max_ttl_seconds))"

definition session_token_answer :: "string \<Rightarrow> signed_playback \<Rightarrow> bridge_reply" where
  "session_token_answer playback_id signed' = job_reply
     [(''schema'', JStr ''youtick.livepeer-playback-token.v1''), (''playback_id'', JStr playback_id),
      (''token'', JStr (sp_token signed')), (''expires_at_ms'', JStr (show_int (sp_expires_at_seconds signed' * 1000))),
      (''hls_url'', JStr (sp_hls_url signed'))] 200"

text \<open>The token is signed by the adapter of the profile of the publication; Stream has none on this route.\<close>

definition issue_session_token :: "'s job_world \<Rightarrow> playback_body \<Rightarrow> int \<times> string option \<Rightarrow> job_record \<Rightarrow> ('s, bridge_reply) jact" where
  "issue_session_token W b grant r =
     bnd (require (\<not> (media_profile_family (snd grant) = Some Stream \<or> provider_kind r = Stream)) ''playback_denied'') (\<lambda>_.
     bnd (job_now W) (\<lambda>now.
     let remaining = (fst grant - now) div 1000 in
     bnd (require (1 \<le> remaining) ''playback_denied'') (\<lambda>_.
     bnd (ask W (jp_sign_playback (jw_provider W Studio) (bb_playback_id b)
            (token_ttl (jw_env W) (bb_requested_ttl_seconds b) remaining) (now div 1000))) (\<lambda>signed'.
     ret (session_token_answer (bb_playback_id b) signed')))))"

definition issue_playback_token :: "'s job_world \<Rightarrow> control_request \<Rightarrow> ('s, bridge_reply) jact" where
  "issue_playback_token W q =
     bnd (signed_request W parse_playback_token_request q) (\<lambda>(b, v).
     bnd (reading (\<lambda>s. (jb_job s, jb_reconcile s))) (\<lambda>(stored, seen).
     bnd (require (playable_job b stored seen) ''playback_denied'') (\<lambda>_.
     bnd (claim_nonce v) (\<lambda>_.
     bnd (watch_nonce v) (\<lambda>_.
     bnd (read_playback_authorization W b v) (\<lambda>grant.
     issue_session_token W b grant (the stored)))))))"

section \<open>The outbox of the job\<close>

definition job_outbox_methods :: "outbox_method list" where
  "job_outbox_methods = [FinalizeLivepeer, SuspendLivepeer, FinalizeNeutral, SuspendNeutral]"

record outbox_input =
  oi_idempotency_key :: string
  oi_method :: outbox_method
  oi_job_id :: string
  oi_generation :: int
  oi_payload_sha256 :: string

definition parse_outbox_input :: "json \<Rightarrow> string + outbox_input" where
  "parse_outbox_input v =
     (let code = ''invalid_outbox''; text = (\<lambda>k. str_of k v) in
      ebind (require_exact_keys v [''idempotencyKey'', ''method'', ''jobId'', ''generation'', ''payloadSha256''] code) (\<lambda>_.
      case find (\<lambda>m. obj_get ''method'' v = Some (JStr (outbox_method_name m))) job_outbox_methods of
        None \<Rightarrow> Inl code
      | Some m \<Rightarrow>
          ebind (erequire (has_str ''idempotencyKey'' v \<and> provider_id_text (text ''idempotencyKey'')
                   \<and> has_str ''jobId'' v \<and> ident128 (text ''jobId'')
                   \<and> (case json_safe_integer (obj_get ''generation'' v) of Some n \<Rightarrow> 1 \<le> n | None \<Rightarrow> False)
                   \<and> has_str ''payloadSha256'' v \<and> hex64 (text ''payloadSha256'')) code) (\<lambda>_.
          Inr \<lparr>oi_idempotency_key = text ''idempotencyKey'', oi_method = m, oi_job_id = text ''jobId'', oi_generation = generation_in v,
               oi_payload_sha256 = text ''payloadSha256''\<rparr>)))"

definition same_outbox :: "job_outbox_record \<Rightarrow> job_outbox_record \<Rightarrow> bool" where
  "same_outbox l r =
     (jo_idempotency_key l = jo_idempotency_key r \<and> jo_method l = jo_method r \<and> jo_job_id l = jo_job_id r
      \<and> jo_generation l = jo_generation r \<and> jo_payload_sha256 l = jo_payload_sha256 r)"

definition outbox_answer :: "job_outbox_record \<Rightarrow> bool \<Rightarrow> bridge_reply" where
  "outbox_answer x created = job_reply
     [(''schema'', JStr ''youtick.livepeer-control-outbox.v1''), (''state'', JStr (if jo_confirmed x then ''CONFIRMED'' else ''PENDING'')),
      (''idempotencyKey'', JStr (jo_idempotency_key x)), (''method'', JStr (outbox_method_name (jo_method x))),
      (''jobId'', JStr (jo_job_id x)), (''generation'', JNum (of_int (jo_generation x))),
      (''payloadSha256'', JStr (jo_payload_sha256 x)), (''createdAtMs'', JNum (of_int (jo_created_at_ms x))),
      (''created'', JBool created)] (if created then 201 else 200)"

definition enqueue_outbox :: "'s job_world \<Rightarrow> json \<Rightarrow> ('s, bridge_reply) jact" where
  "enqueue_outbox W v =
     bnd (lifting (parse_outbox_input v)) (\<lambda>i.
     bnd (job_now W) (\<lambda>now.
     let key = oi_idempotency_key i;
         candidate = \<lparr>jo_idempotency_key = key, jo_method = oi_method i, jo_job_id = oi_job_id i, jo_generation = oi_generation i,
                      jo_payload_sha256 = oi_payload_sha256 i, jo_confirmed = False, jo_created_at_ms = now\<rparr> in
     bnd (atomically (
       bnd (reading (\<lambda>s. tget key (jb_outbox s))) (\<lambda>existing.
       case existing of
         Some x \<Rightarrow> bnd (require (same_outbox x candidate) ''outbox_conflict'') (\<lambda>_. ret (x, False))
       | None \<Rightarrow>
           bnd (job_capacity [JobOutboxKey key, ReconcileKey]) (\<lambda>_.
           bnd (writing (\<lambda>s. s\<lparr>jb_outbox := tput key candidate (jb_outbox s)\<rparr>)) (\<lambda>_. ret (candidate, True)))))) (\<lambda>(x, created).
     ret (outbox_answer x created))))"

section \<open>Webhooks\<close>

definition webhook_time :: "string option \<Rightarrow> int option" where
  "webhook_time t = (case t of Some x \<Rightarrow> if decimal1 15 x then Some (int (dec_val x)) else None | None \<Rightarrow> None)"

definition webhook_provider :: "string option \<Rightarrow> job_record option \<Rightarrow> media_provider_kind" where
  "webhook_provider named existing =
     (case media_provider_kind_of (map_option JStr named) of
        Some k \<Rightarrow> k
      | None \<Rightarrow> (case existing of Some r \<Rightarrow> provider_kind r | None \<Rightarrow> Studio))"

definition handle_webhook :: "'s job_world \<Rightarrow> job_request \<Rightarrow> ('s, bridge_reply) jact" where
  "handle_webhook W q =
     (let body = cq_body (jq_control q) in
      bnd (require (length body \<le> max_control_body_bytes) ''control_body_too_large'') (\<lambda>_.
      bnd (reading jb_job) (\<lambda>existing.
      bnd (ask W (jp_parse_webhook (jw_provider W (webhook_provider (jq_provider q) existing)) body (webhook_time (jq_webhook_time q)))) (\<lambda>e.
      handle_provider_event W e existing))))"

section \<open>The deletion of an asset\<close>

definition parse_delete_input :: "json \<Rightarrow> string + string \<times> string" where
  "parse_delete_input v =
     (let code = ''invalid_outbox'' in
      ebind (require_exact_keys v [''jobId'', ''generation'', ''assetId''] code) (\<lambda>_.
      ebind (erequire (has_str ''jobId'' v \<and> ident128 (str_of ''jobId'' v) \<and> obj_get ''generation'' v = Some (JNum 1)
               \<and> has_str ''assetId'' v \<and> provider_id_text (str_of ''assetId'' v)) code) (\<lambda>_.
      Inr (str_of ''jobId'' v, str_of ''assetId'' v))))"

definition delete_outcome_name :: "delete_outcome \<Rightarrow> string" where
  "delete_outcome_name x = (case x of Deleted \<Rightarrow> ''DELETED'' | Missing \<Rightarrow> ''MISSING'' | AmbiguousDelete \<Rightarrow> ''AMBIGUOUS'')"

definition deletable_job :: "string \<Rightarrow> string \<Rightarrow> job_record \<Rightarrow> bool" where
  "deletable_job job_id asset r =
     (uj_job_id r = job_id \<and> uj_generation r = 1 \<and> uj_asset_id r = Some asset \<and> set_text (uj_project_id r) \<and> set_text (uj_playback_id r))"

text \<open>When the job's asset may go: the deadline by the marker of the beta, or by the job of the public deployment.\<close>

definition delete_deadline :: "'s job_world \<Rightarrow> job_record \<Rightarrow> json \<Rightarrow> json option \<Rightarrow> int \<Rightarrow> string + rat option" where
  "delete_deadline W r job marker now =
     (let code = ''provider_identity_mismatch'' in
      if is_public_testnet (jw_env W)
      then
        ebind (erequire (obj_get ''job_id'' job = Some (JStr (uj_job_id r)) \<and> obj_get ''creator_id'' job = Some (JStr (uj_creator r))
                 \<and> obj_get ''generation'' job = Some (JNum (of_int (uj_generation r)))) code) (\<lambda>_.
        ebind (public_upload_job_deadline job False now) (\<lambda>d. Inr (Some (of_int d))))
      else
        ebind (erequire (case marker of
                 Some m \<Rightarrow> obj_get ''creator_id'' m = Some (JStr (uj_creator r)) \<and> obj_get ''generation'' m = Some (JNum 1)
                   \<and> strict_equal (obj_get ''fee_quote_hash'' job) (obj_get ''sponsor_quote_id'' m)
               | None \<Rightarrow> False) code) (\<lambda>_.
        Inr (Option.bind (Option.bind marker (obj_get ''deadline_at_ms'')) number_of)))"

text \<open>An asset goes when its publication was taken down, or when its upload expired and was never published.\<close>

definition delete_allowed :: "job_record \<Rightarrow> json option \<Rightarrow> string \<Rightarrow> rat option \<Rightarrow> int \<Rightarrow> bool" where
  "delete_allowed r publication asset_sha deadline now =
     (case publication of
        Some p \<Rightarrow> obj_get ''availability'' p = Some (JStr ''TAKEDOWN'') \<and> obj_get ''asset_id_hash'' p = Some (JStr asset_sha)
      | None \<Rightarrow> uj_state r = UploadExpired \<and> (case deadline of Some d \<Rightarrow> d \<le> of_int now | None \<Rightarrow> False))"

definition delete_identity_ok :: "'s job_world \<Rightarrow> job_record \<Rightarrow> string \<Rightarrow> json option \<Rightarrow> provider_asset \<Rightarrow> bool" where
  "delete_identity_ok W r asset publication a =
     (jp_identity_matches (provider_of W r) a (provider_identity r asset None)
      \<and> (case publication of
           Some p \<Rightarrow> obj_get ''playback_id'' p = Some (JStr (as_playback_id a))
             \<and> obj_get ''project_id_hash'' p = Some (JStr (job_sha256 W (or_none (as_project_id a))))
         | None \<Rightarrow> True))"

definition delete_asset :: "'s job_world \<Rightarrow> job_record \<Rightarrow> string \<Rightarrow> ('s, bridge_reply) jact" where
  "delete_asset W r asset =
     bnd (record_deletion W r asset) (\<lambda>(r', outcome).
     if outcome = AmbiguousDelete then bnd (close_admission W r) (\<lambda>_. throw ''provider_delete_ambiguous'')
     else ret (job_reply [yes ''deleted'', (''duplicate'', JBool False), (''outcome'', JStr (delete_outcome_name outcome))] 200))"

definition delete_once :: "'s job_world \<Rightarrow> job_record \<Rightarrow> string \<Rightarrow> ('s, bridge_reply) jact" where
  "delete_once W r asset =
     bnd (chain_job W (uj_job_id r)) (\<lambda>job.
     bnd (if is_public_testnet (jw_env W) then ret None else read_public_testnet_job (job_near W) (jw_env W) (uj_job_id r)) (\<lambda>marker.
     bnd (read_final_publication (job_near W) (jw_env W) (uj_job_id r)) (\<lambda>publication.
     bnd (job_now W) (\<lambda>now.
     bnd (lifting (delete_deadline W r job marker now)) (\<lambda>deadline.
     bnd (require (delete_allowed r publication (job_sha256 W asset) deadline now) ''provider_identity_mismatch'') (\<lambda>_.
     bnd (ask W (jp_read_asset (provider_of W r) asset)) (\<lambda>a.
     bnd (require (delete_identity_ok W r asset publication a) ''provider_identity_mismatch'') (\<lambda>_.
     delete_asset W r asset))))))))"

definition delete_public_beta_asset :: "'s job_world \<Rightarrow> json \<Rightarrow> ('s, bridge_reply) jact" where
  "delete_public_beta_asset W v =
     bnd (lifting (parse_delete_input v)) (\<lambda>(job_id, asset).
     bnd (reading jb_job) (\<lambda>stored.
     case stored of
       None \<Rightarrow> throw ''provider_identity_mismatch''
     | Some r \<Rightarrow>
         bnd (require (deletable_job job_id asset r) ''provider_identity_mismatch'') (\<lambda>_.
         case uj_provider_delete r of
           Some d \<Rightarrow>
             bnd (require (pd_asset_id_sha256 d = job_sha256 W asset) ''provider_identity_mismatch'') (\<lambda>_.
             bnd (require (pd_outcome d \<noteq> AmbiguousDelete) ''provider_delete_ambiguous'') (\<lambda>_.
             ret (job_reply [yes ''deleted'', yes ''duplicate'', (''outcome'', JStr (delete_outcome_name (pd_outcome d)))] 200)))
         | None \<Rightarrow> delete_once W r asset)))"

section \<open>Routes\<close>

definition job_route :: "'s job_world \<Rightarrow> job_request \<Rightarrow> ('s, bridge_reply) jact" where
  "job_route W q =
     (let post = (\<lambda>path. jq_verb q = ''POST'' \<and> jq_path q = path);
          parsed = (\<lambda>k. bnd (lifting (read_json_object (cq_body (jq_control q)))) k) in
      if post upload_intent_route then reserve_upload_intent W (jq_control q)
      else if post upload_heartbeat_route then heartbeat_upload_lease W (jq_control q)
      else if post upload_cancellation_route then cancel_upload W (jq_control q)
      else if post playback_token_route then issue_playback_token W (jq_control q)
      else if post ''/internal/outbox'' then parsed (enqueue_outbox W)
      else if post ''/internal/livepeer-webhook'' then handle_webhook W q
      else if post ''/internal/provider-asset-delete'' then parsed (delete_public_beta_asset W)
      else ret (bridge_json (JObj [(''error'', JStr ''not_found'')]) 404))"

definition job_fetch :: "'s job_world \<Rightarrow> job_request \<Rightarrow> ('s, bridge_reply) jact" where
  "job_fetch W q = catch (bnd (job_policy W) (\<lambda>_. job_route W q)) (\<lambda>err. ret (bridge_error err))"

end
