(* ===== verification/BridgeJobLaws.thy ===== *)
theory BridgeJobLaws
  imports Tracks BridgeJobRoutes
begin

text \<open>
  How a job moves: what its record may become, how often an upload of it is created and deleted, and that the
  requests and the alarm of the object, run one after the other, respect it.
\<close>

named_theorems still_rules \<open>steps that leave the job and the provider's uploads as they are\<close>
named_theorems moving_rules \<open>steps that move the job as allowed\<close>

section \<open>What a job may become\<close>

definition allowed_move :: "(job_state \<times> job_state) set" where
  "allowed_move = {(a, b). b \<in> set (job_transitions a)}"

definition before_upload :: "job_state list" where
  "before_upload = [Authorized, Leased, ProviderCreatePending, CreatePending, CreateAmbiguous, Cancelled]"

definition verified_states :: "job_state list" where
  "verified_states = finalizing_states @ [OnchainPublished]"

text \<open>
  What a record says of its state: an asset only once it was created, a publication only once it was verified, and that
  publication is of this job.
\<close>

definition publication_fits :: "job_record \<Rightarrow> bool" where
  "publication_fits r = (\<forall>p. uj_publication r = Some p \<longrightarrow> (\<exists>a. p = publication_of r a))"

definition job_ok :: "job_record \<Rightarrow> bool" where
  "job_ok r =
     ((uj_state r \<in> set before_upload \<longrightarrow> uj_asset_id r = None \<and> uj_publication r = None)
      \<and> (uj_state r \<in> set active_states \<longrightarrow> uj_asset_id r \<noteq> None \<and> uj_publication r = None)
      \<and> (uj_state r \<in> set verified_states \<longrightarrow> uj_asset_id r \<noteq> None \<and> uj_publication r \<noteq> None)
      \<and> (uj_state r \<in> set ended_states \<longleftrightarrow> uj_terminal_archive r \<noteq> None)
      \<and> publication_fits r)"

definition job_identity :: "job_record \<Rightarrow> string list \<times> string option list \<times> int list \<times> media_provider_kind option \<times> int option" where
  "job_identity r =
     ([uj_network r, uj_contract_id r, uj_job_id r, uj_creator r, uj_expected_source_bytes r, uj_source_type r, uj_profile_id r,
       uj_profile_config_sha256 r], [uj_source_fingerprint_sha256 r, uj_api_token_name r], [uj_generation r, uj_created_at_ms r],
      uj_provider r, uj_absolute_deadline_at_ms r)"

lemma publication_of_identity: "job_identity r' = job_identity r \<Longrightarrow> publication_of r' a = publication_of r a"
  by (simp add: publication_of_def job_identity_def)

lemma publication_fits_same:
  assumes "publication_fits r" "job_identity r' = job_identity r" "uj_publication r' = uj_publication r"
  shows "publication_fits r'"
  unfolding publication_fits_def assms(3)
proof (intro allI impI)
  fix p assume "uj_publication r = Some p"
  then obtain a where "p = publication_of r a" using assms(1) by (auto simp: publication_fits_def)
  then show "\<exists>a. p = publication_of r' a" using publication_of_identity [OF assms(2)] by metis
qed

definition upload_identity :: "job_record \<Rightarrow> string option \<times> string option \<times> string option" where
  "upload_identity r = (uj_asset_id r, uj_playback_id r, uj_project_id r)"

definition advances :: "job_record \<Rightarrow> job_record \<Rightarrow> bool" where
  "advances r r' =
     (job_identity r' = job_identity r \<and> (uj_state r, uj_state r') \<in> allowed_move\<^sup>*
      \<and> (uj_asset_id r \<noteq> None \<longrightarrow> upload_identity r' = upload_identity r)
      \<and> (uj_publication r \<noteq> None \<and> uj_state r \<noteq> ReadyVerified \<longrightarrow> uj_publication r' = uj_publication r)
      \<and> (uj_provider_delete r \<noteq> None \<longrightarrow> uj_provider_delete r' = uj_provider_delete r))"

definition may_create :: "job_record option \<Rightarrow> nat" where
  "may_create j = (case j of None \<Rightarrow> 1 | Some r \<Rightarrow> if uj_state r \<in> {Authorized, Leased} then 1 else 0)"

definition may_delete :: "job_record option \<Rightarrow> nat" where
  "may_delete j = (case j of None \<Rightarrow> 1 | Some r \<Rightarrow> if uj_provider_delete r = None then 1 else 0)"

text \<open>One record after another: it stays consistent, advances, and uses up what it may still create and delete.\<close>

definition steps_to :: "job_record \<Rightarrow> job_record \<Rightarrow> bool" where
  "steps_to r r' =
     (job_ok r \<longrightarrow> job_ok r' \<and> advances r r' \<and> may_create (Some r') \<le> may_create (Some r) \<and> may_delete (Some r') \<le> may_delete (Some r))"

section \<open>The job and the number of uploads created and deleted\<close>

type_synonym job_view = "job_record option \<times> nat \<times> nat"

definition job_view_of :: "('s \<Rightarrow> nat) \<Rightarrow> ('s \<Rightarrow> nat) \<Rightarrow> 's job_store \<Rightarrow> job_view" where
  "job_view_of made gone s = (jb_job s, made (jb_outside s), gone (jb_outside s))"

definition job_moves :: "job_view \<Rightarrow> job_view \<Rightarrow> bool" where
  "job_moves u v =
     (case (u, v) of ((j, n, d), (j', n', d')) \<Rightarrow>
        (\<forall>r. j = Some r \<longrightarrow> job_ok r) \<longrightarrow>
          (\<forall>r. j' = Some r \<longrightarrow> job_ok r) \<and> (\<forall>r. j = Some r \<longrightarrow> (\<exists>r'. j' = Some r' \<and> advances r r'))
          \<and> n' + may_create j' \<le> n + may_create j \<and> d' + may_delete j' \<le> d + may_delete j)"

lemma move_within:
  assumes "(a, b) \<in> allowed_move\<^sup>*" "a \<in> S" "\<And>x y. x \<in> S \<Longrightarrow> y \<in> set (job_transitions x) \<Longrightarrow> y \<in> S"
  shows "b \<in> S"
  using assms(1,2) by (induction rule: rtrancl_induct) (auto simp: allowed_move_def intro: assms(3))

lemma published_stays:
  assumes "(uj_state r, uj_state r') \<in> allowed_move\<^sup>*" "job_ok r" "uj_publication r \<noteq> None" "uj_state r \<noteq> ReadyVerified"
  shows "uj_state r' \<noteq> ReadyVerified"
proof -
  have "uj_state r \<in> {FinalizeQueued, FinalizeRetry, OnchainPublished, UploadExpired, ProviderFailed}"
    using assms(2-4) by (cases "uj_state r") (auto simp: job_ok_def before_upload_def active_states_def)
  from move_within [OF assms(1) this] show ?thesis by fastforce
qed

lemma advances_same: "advances r r"
  by (simp add: advances_def)

lemma advances_further:
  assumes "job_ok r" "advances r r'" "advances r' r''"
  shows "advances r r''"
proof -
  have "(uj_state r, uj_state r'') \<in> allowed_move\<^sup>*"
    using assms(2,3) by (auto simp: advances_def intro: rtrancl_trans)
  moreover have "uj_publication r \<noteq> None \<and> uj_state r \<noteq> ReadyVerified \<longrightarrow> uj_state r' \<noteq> ReadyVerified"
    using assms(1,2) published_stays [of r r'] by (auto simp: advances_def)
  ultimately show ?thesis
    using assms(2,3) by (auto simp: advances_def upload_identity_def)
qed

lemma job_movesD:
  assumes "job_moves (j, n, d) (j', n', d')" "\<forall>r. j = Some r \<longrightarrow> job_ok r"
  shows "\<forall>r. j' = Some r \<longrightarrow> job_ok r" "\<forall>r. j = Some r \<longrightarrow> (\<exists>r'. j' = Some r' \<and> advances r r')"
    "n' + may_create j' \<le> n + may_create j" "d' + may_delete j' \<le> d + may_delete j"
  using assms by (simp_all add: job_moves_def)

lemma job_moves_further:
  assumes "job_moves (j, n, d) (j', n', d')" "job_moves (j', n', d') (j'', n'', d'')"
  shows "job_moves (j, n, d) (j'', n'', d'')"
proof (simp only: job_moves_def prod.case, intro impI conjI)
  assume ok: "\<forall>r. j = Some r \<longrightarrow> job_ok r"
  note first = job_movesD [OF assms(1) ok]
  note second = job_movesD [OF assms(2) first(1)]
  show "\<forall>r. j'' = Some r \<longrightarrow> job_ok r" by (rule second(1))
  show "\<forall>r. j = Some r \<longrightarrow> (\<exists>r'. j'' = Some r' \<and> advances r r')"
  proof (intro allI impI)
    fix r assume r: "j = Some r"
    with first(2) obtain r' where r': "j' = Some r'" "advances r r'" by blast
    with second(2) obtain r'' where "j'' = Some r''" "advances r' r''" by blast
    then show "\<exists>r''. j'' = Some r'' \<and> advances r r''" using advances_further ok r r'(2) by blast
  qed
  show "n'' + may_create j'' \<le> n + may_create j" using first(3) second(3) by linarith
  show "d'' + may_delete j'' \<le> d + may_delete j" using first(4) second(4) by linarith
qed

interpretation job: tracking job_moves
proof
  show "job_moves v v" for v
    by (cases v) (simp add: job_moves_def advances_same)
  show "job_moves u v \<Longrightarrow> job_moves v w \<Longrightarrow> job_moves u w" for u v w
    by (cases u; cases v; cases w) (blast intro: job_moves_further)
qed

lemma steps_same: "steps_to r r"
  by (simp add: steps_to_def advances_same)

lemma steps_further: "steps_to r r' \<Longrightarrow> steps_to r' r'' \<Longrightarrow> steps_to r r''"
  using advances_further by (fastforce simp: steps_to_def)

section \<open>Single steps\<close>

text \<open>Fields that say nothing of where the job is.\<close>

definition same_place :: "job_record \<Rightarrow> job_record \<Rightarrow> bool" where
  "same_place r r' =
     (job_identity r' = job_identity r \<and> uj_state r' = uj_state r \<and> upload_identity r' = upload_identity r
      \<and> uj_publication r' = uj_publication r \<and> uj_provider_delete r' = uj_provider_delete r
      \<and> (uj_terminal_archive r' = None) = (uj_terminal_archive r = None))"

lemma same_place_steps: "same_place r r' \<Longrightarrow> steps_to r r'"
  using publication_fits_same [of r r']
  by (auto simp: same_place_def steps_to_def job_ok_def advances_def may_create_def may_delete_def upload_identity_def)

lemma same_place_refl [simp]: "same_place r r"
  by (simp add: same_place_def)

lemma same_places [simp]:
  "same_place r (r\<lparr>uj_lease_id := l, uj_lease_expires_at_ms := t\<rparr>)"
  "same_place r (r\<lparr>uj_finalize_retry := x\<rparr>)"
  "same_place r (r\<lparr>uj_provider_verification := y\<rparr>)"
  "same_place r (r\<lparr>uj_provider_verification := y, uj_source_bytes_evidence := z\<rparr>)"
  "same_place r (r\<lparr>uj_stream_progress := p\<rparr>)"
  "same_place r (r\<lparr>uj_provider_create := c\<rparr>)"
  by (simp_all add: same_place_def job_identity_def upload_identity_def)

lemma same_place_tracked: "same_place r (track_progress r p now)"
  by (auto simp: track_progress_def same_place_refl split: option.splits)

lemma same_place_leased: "same_place r (leased_job r l)"
  by (simp add: leased_job_def)

lemma same_place_trans: "same_place r r' \<Longrightarrow> same_place r' r'' \<Longrightarrow> same_place r r''"
  by (simp add: same_place_def)

text \<open>A move to any state but the two that bring new content.\<close>

lemma transition_kept: "transition_job now r st = Inr r' \<Longrightarrow>
  uj_state r' = st \<and> job_identity r' = job_identity r \<and> upload_identity r' = upload_identity r
  \<and> uj_publication r' = uj_publication r \<and> uj_provider_delete r' = uj_provider_delete r
  \<and> (uj_state r, st) \<in> allowed_move\<^sup>* \<and> (uj_state r = st \<longrightarrow> r' = r)
  \<and> (uj_state r \<noteq> st \<longrightarrow> st \<in> set (job_transitions (uj_state r))
      \<and> uj_terminal_archive r' = (if st \<in> set ended_states then Some (new_archive_meta now) else uj_terminal_archive r))"
  by (auto simp: transition_job_def Let_def job_identity_def upload_identity_def allowed_move_def split: if_splits)

lemma transition_ok:
  assumes "transition_job now r st = Inr r'" "st \<noteq> UploadReady" "st \<noteq> ReadyVerified" "job_ok r"
  shows "job_ok r'"
proof (cases "uj_state r = st")
  case False
  have "st \<in> set (job_transitions (uj_state r))" using transition_kept [OF assms(1)] False by auto
  moreover have "publication_fits r'"
    using publication_fits_same [of r r'] transition_kept [OF assms(1)] assms(4) by (simp add: job_ok_def)
  ultimately show ?thesis
    using transition_kept [OF assms(1)] False assms(2-4)
    by (cases "uj_state r"; cases st)
      (auto simp: job_ok_def before_upload_def active_states_def verified_states_def finalizing_states_def ended_states_def
        upload_identity_def)
qed (use transition_kept [OF assms(1)] assms(4) in simp)

lemma transition_creates:
  "transition_job now r st = Inr r' \<Longrightarrow> may_create (Some r') \<le> may_create (Some r)"
  using transition_kept [of now r st r']
  by (cases "uj_state r = st"; cases "uj_state r"; cases st) (auto simp: may_create_def)

lemma transition_steps:
  assumes "transition_job now r st = Inr r'" "st \<noteq> UploadReady" "st \<noteq> ReadyVerified"
  shows "steps_to r r'"
  using transition_kept [OF assms(1)] transition_ok [OF assms] transition_creates [OF assms(1)]
  by (auto simp: steps_to_def advances_def may_delete_def)

end
