(* ===== verification/BridgeJobStill.thy ===== *)
theory BridgeJobStill
  imports BridgeJobLaws
begin

text \<open>
  A world whose counters only move where an upload is created or deleted and whose other requests wait, and the steps of
  the job object that leave the job as it is.
\<close>

definition silent :: "('s \<Rightarrow> nat) \<Rightarrow> ('s, 'a) act \<Rightarrow> bool" where
  "silent c m = (\<forall>x. c (snd (m x)) = c x)"

definition provider_reads_silent :: "('s \<Rightarrow> nat) \<Rightarrow> 's job_provider \<Rightarrow> bool" where
  "provider_reads_silent c p =
     ((\<forall>t. silent c (jp_read_tus_offset p t)) \<and> (\<forall>a. silent c (jp_read_asset p a)) \<and> (\<forall>a. silent c (jp_read_video p a))
      \<and> silent c (jp_read_storage_usage p) \<and> (\<forall>i. silent c (jp_verify_ready p i)) \<and> (\<forall>b t. silent c (jp_parse_webhook p b t))
      \<and> (\<forall>i t n. silent c (jp_sign_playback p i t n)))"

definition outside_silent :: "('s \<Rightarrow> nat) \<Rightarrow> 's job_world \<Rightarrow> bool" where
  "outside_silent c W =
     ((\<forall>b. silent c (jw_near W b)) \<and> (\<forall>n r b. silent c (jw_admission W n r b)) \<and> (\<forall>n r b. silent c (jw_operator W n r b))
      \<and> (\<forall>limit k. jw_limiter W = Some limit \<longrightarrow> silent c (limit k)) \<and> (\<forall>k. provider_reads_silent c (jw_provider W k)))"

text \<open>
  The requests that write the job run one after the other (\<open>operatorTail\<close>); \<open>made\<close> and \<open>gone\<close> count the uploads created
  and the deletions asked for.
\<close>

definition steady :: "('s \<Rightarrow> nat) \<Rightarrow> ('s \<Rightarrow> nat) \<Rightarrow> 's job_world \<Rightarrow> bool" where
  "steady made gone W =
     ((\<forall>s. job_view_of made gone (jw_meanwhile W s) = job_view_of made gone s)
      \<and> outside_silent made W \<and> outside_silent gone W
      \<and> (\<forall>k r t. silent gone (jp_create_upload (jw_provider W k) r t))
      \<and> (\<forall>k r t x. made (snd (jp_create_upload (jw_provider W k) r t x)) \<le> Suc (made x))
      \<and> (\<forall>k a. silent made (jp_delete_asset (jw_provider W k) a))
      \<and> (\<forall>k a x. gone (snd (jp_delete_asset (jw_provider W k) a x)) \<le> Suc (gone x)))"

abbreviation still :: "('s \<Rightarrow> nat) \<Rightarrow> ('s \<Rightarrow> nat) \<Rightarrow> job_view \<Rightarrow> ('s, 'a) jact \<Rightarrow> bool" where
  "still made gone v m \<equiv> keeps (\<lambda>s. job_view_of made gone s = v) m"

lemma ask_still:
  assumes "steady made gone W" "silent made m" "silent gone m"
  shows "still made gone v (ask W m)"
proof (rule keepsI)
  fix s assume v: "job_view_of made gone s = v"
  have "job_view_of made gone (s\<lparr>jb_outside := snd (m (jb_outside s))\<rparr>) = v"
    using v assms(2,3) by (simp add: job_view_of_def silent_def)
  then show "job_view_of made gone (snd (ask W m s)) = v"
    using assms(1) by (simp add: ask_def steady_def case_prod_beta)
qed

lemma writing_still: "(\<And>s. jb_job (f s) = jb_job s \<and> jb_outside (f s) = jb_outside s) \<Longrightarrow> still made gone v (writing f)"
  by (simp add: keeps_def job_view_of_def)


section \<open>Reads of the outside\<close>

lemma near_still [still_rules]: "steady made gone W \<Longrightarrow> still made gone v (job_near W b)"
  unfolding job_near_def by (rule ask_still) (auto simp: steady_def outside_silent_def)

lemma admission_still [still_rules]: "steady made gone W \<Longrightarrow> still made gone v (ask_admission W r route b)"
  unfolding ask_admission_def by (rule ask_still) (auto simp: steady_def outside_silent_def)

lemma operator_still [still_rules]: "steady made gone W \<Longrightarrow> still made gone v (ask_operator W route b)"
  unfolding ask_operator_def
  by (intro keeps_bnd keeps_lifting) (rule ask_still, auto simp: steady_def outside_silent_def)

lemma provider_still [still_rules]:
  assumes "steady made gone W"
  shows "still made gone v (ask W (jp_read_tus_offset (jw_provider W k) t))"
    "still made gone v (ask W (jp_read_asset (jw_provider W k) a))"
    "still made gone v (ask W (jp_read_video (jw_provider W k) a))"
    "still made gone v (ask W (jp_read_storage_usage (jw_provider W k)))"
    "still made gone v (ask W (jp_verify_ready (jw_provider W k) i))"
    "still made gone v (ask W (jp_parse_webhook (jw_provider W k) b t'))"
    "still made gone v (ask W (jp_sign_playback (jw_provider W k) p n m))"
  using assms by (auto intro!: ask_still simp: steady_def outside_silent_def provider_reads_silent_def)

lemmas provider_of_still [still_rules] = provider_still [where k = "provider_kind r" for r, folded provider_of_def]

lemma now_still [still_rules]: "still made gone v (job_now W)"
  by (simp add: job_now_def)

lemma capacity_still [still_rules]: "still made gone v (job_capacity ks)"
  by (simp add: keeps_def job_capacity_def)

lemma transition_still [still_rules]: "still made gone v (move_to W r st)"
  unfolding move_to_def by (intro keeps_rules now_still)

lemma store_still [still_rules]:
  "still made gone v (put_reconcile rc)" "still made gone v (schedule_reconcile t)" "still made gone v (put_mark k m)"
  "still made gone v (drop_webhook_mark k)" "still made gone v (put_nonce ev)" "still made gone v (watch_nonce ev)"
  "still made gone v (purge_nonces W)" "still made gone v (purge_webhook_marks W)"
  unfolding put_reconcile_def schedule_reconcile_def put_mark_def drop_webhook_mark_def put_nonce_def watch_nonce_def
    purge_nonces_def purge_webhook_marks_def
  by (simp_all add: writing_still Let_def)

lemma fresh_still [still_rules]: "still made gone v (fresh_nonce ev)"
  unfolding fresh_nonce_def by (intro keeps_rules)

lemma query_still [still_rules]: "steady made gone W \<Longrightarrow> still made gone v (near_rpc_query (job_near W) params)"
  unfolding near_rpc_query_def near_rpc_raw_def Let_def by (intro keeps_rules near_still)

lemma view_still [still_rules]: "steady made gone W \<Longrightarrow> still made gone v (read_public_testnet_view (job_near W) e verb args)"
  unfolding read_public_testnet_view_def
  by (intro keeps_rules query_still) (auto split: json.split option.split)

lemma beta_views_still [still_rules]:
  assumes "steady made gone W"
  shows "still made gone v (read_public_testnet_job (job_near W) e j)" "still made gone v (read_public_testnet_state (job_near W) e)"
  unfolding read_public_testnet_job_def read_public_testnet_state_def by (intro keeps_rules view_still assms)+

lemma policy_still [still_rules]: "steady made gone W \<Longrightarrow> still made gone v (job_policy W)"
  unfolding job_policy_def require_public_upload_policy_def
  by (intro keeps_rules view_still writing_still) simp_all

lemma chain_still [still_rules]: "steady made gone W \<Longrightarrow> still made gone v (chain_job W j)"
  unfolding chain_job_def read_final_media_job_def by (intro keeps_rules near_still)

lemma publication_still [still_rules]: "steady made gone W \<Longrightarrow> still made gone v (read_final_publication (job_near W) e j)"
  unfolding read_final_publication_def Let_def by (intro keeps_rules query_still)

lemma publication_matches_still [still_rules]: "steady made gone W \<Longrightarrow> still made gone v (final_publication_matches (job_near W) e p)"
  unfolding final_publication_matches_def by (intro keeps_rules publication_still)

lemma grant_still [still_rules]: "steady made gone W \<Longrightarrow> still made gone v (grant_view W contract name args block)"
  unfolding grant_view_def near_view_with_def by (intro keeps_rules near_still)

lemma limit_still [still_rules]: "steady made gone W \<Longrightarrow> still made gone v (account_limit W route account)"
  unfolding account_limit_def
  by (intro keeps_rules ask_still) (auto simp: steady_def outside_silent_def)

lemma request_still [still_rules]: "still made gone v (signed_request W parse q)"
  unfolding signed_request_def by (intro keeps_rules now_still)

lemma marker_still [still_rules]: "steady made gone W \<Longrightarrow> still made gone v (beta_marker W j g a job)"
  unfolding beta_marker_def by (intro keeps_rules beta_views_still now_still)

section \<open>The admission object and the records beside the job\<close>

lemma lease_still [still_rules]: "steady made gone W \<Longrightarrow> still made gone v (request_admission W r storage)"
  unfolding request_admission_def Let_def by (intro keeps_rules admission_still now_still)

lemma mark_still [still_rules]: "steady made gone W \<Longrightarrow> still made gone v (update_admission_with W r m d stuck)"
  unfolding update_admission_with_def by (intro keeps_rules admission_still)

lemma marks_still [still_rules]:
  assumes "steady made gone W"
  shows "still made gone v (update_admission W r m)" "still made gone v (close_admission W r)" "still made gone v (try_auto_close W r)"
  unfolding update_admission_def close_admission_def try_auto_close_def
  by (intro keeps_rules mark_still admission_still assms)+

lemma beat_still [still_rules]: "steady made gone W \<Longrightarrow> still made gone v (heartbeat_lease W r)"
  unfolding heartbeat_lease_def by (intro keeps_rules admission_still now_still) (auto intro: keeps_rules)

lemma result_still [still_rules]: "still made gone v (persist_upload_result W c)"
  unfolding persist_upload_result_def Let_def
  by (intro keeps_rules capacity_still now_still store_still)

lemma archive_still [still_rules]: "still made gone v (schedule_terminal_archive W r)"
  unfolding schedule_terminal_archive_def by (intro keeps_rules result_still now_still store_still)

lemma reconcile_still [still_rules]:
  "still made gone v (ensure_reconcile W)" "still made gone v (persist_unknown W st)" "still made gone v (persist_healthy W)"
  unfolding ensure_reconcile_def persist_unknown_def persist_healthy_def
  by (intro keeps_rules capacity_still now_still store_still)+

lemma outbox_still [still_rules]: "still made gone v (enqueue_sales_suspension W r c)"
  unfolding enqueue_sales_suspension_def Let_def
  by (intro keeps_rules capacity_still now_still writing_still) simp

lemma suspension_still [still_rules]: "steady made gone W \<Longrightarrow> still made gone v (try_sales_suspension W r)"
  unfolding try_sales_suspension_def Let_def
  by (intro keeps_rules operator_still writing_still) simp_all

lemma drift_still [still_rules]: "steady made gone W \<Longrightarrow> still made gone v (persist_drift W r code)"
  unfolding persist_drift_def Let_def
  by (intro keeps_rules marks_still outbox_still suspension_still store_still)

lemma claim_event_still [still_rules]: "still made gone v (claim_event W k e)"
  unfolding claim_event_def by (intro keeps_rules capacity_still now_still store_still)

lemma claims_still [still_rules]:
  "still made gone v (claim_nonce ev)" "still made gone v (claim_heartbeat W b ev)" "still made gone v (enqueue_outbox W i)"
  unfolding claim_nonce_def claim_heartbeat_def enqueue_outbox_def Let_def
  by (intro keeps_rules fresh_still capacity_still store_still now_still writing_still; simp)+

lemma authorization_still [still_rules]: "steady made gone W \<Longrightarrow> still made gone v (read_playback_authorization W b ev)"
  unfolding read_playback_authorization_def Let_def by (intro keeps_rules grant_still now_still)

lemma token_still [still_rules]: "steady made gone W \<Longrightarrow> still made gone v (issue_playback_token W q)"
  unfolding issue_playback_token_def issue_session_token_def Let_def
  by (intro keeps_rules request_still claims_still store_still authorization_still now_still provider_still)

lemma commit_still [still_rules]: "still made gone v (commit_job_archive W a)"
  by (simp add: keeps_def commit_job_archive_def job_view_of_def split: prod.split)

lemma finish_read_still [still_rules]: "still made gone v (finish_read t)"
  unfolding finish_read_def by (intro keeps_rules store_still)

lemma failed_read_still [still_rules]: "still made gone v (failed_read W d err)"
  unfolding failed_read_def by (intro keeps_rules reconcile_still store_still result_still)

end
