(* ===== verification/BridgeJobMoves.thy ===== *)
theory BridgeJobMoves
  imports BridgeJobStill
begin

text \<open>The steps of the job object that move the job, one lemma for each.\<close>

abbreviation moving ::
  "('s \<Rightarrow> nat) \<Rightarrow> ('s \<Rightarrow> nat) \<Rightarrow> job_view \<Rightarrow> ('s, 'a) jact \<Rightarrow> ('a \<Rightarrow> job_view \<Rightarrow> bool) \<Rightarrow> bool" where
  "moving made gone v m Q \<equiv> tracks (job_view_of made gone) job_moves v m Q"

abbreviation moves :: "('s \<Rightarrow> nat) \<Rightarrow> ('s \<Rightarrow> nat) \<Rightarrow> job_view \<Rightarrow> ('s, 'a) jact \<Rightarrow> bool" where
  "moves made gone v m \<equiv> moving made gone v m (\<lambda>_ _. True)"

lemma still_moves: "still made gone v m \<Longrightarrow> moves made gone v m"
  by (rule job.keeps_only) simp_all

section \<open>Storing a record\<close>

lemma put_moving: "steps_to r r' \<Longrightarrow> Q () (Some r', n, d) \<Longrightarrow> moving made gone (Some r, n, d) (put_job r') Q"
  unfolding put_job_def
  by (rule job.writing_tracks) (auto simp: job_view_of_def job_moves_def steps_to_def)

lemma put_bnd_moving:
  assumes "steps_to r r'" "moving made gone (Some r', n, d) k Q"
  shows "moving made gone (Some r, n, d) (bnd (put_job r') (\<lambda>_. k)) Q"
  by (rule job.bnd_tracks [OF put_moving [OF assms(1), of "\<lambda>_ v. v = (Some r', n, d)"]]) (use assms(2) in simp_all)

lemma transition_bnd_moving:
  "(\<And>now r'. transition_job now r st = Inr r' \<Longrightarrow> moving made gone v (k r') Q) \<Longrightarrow> moving made gone v (bnd (move_to W r st) k) Q"
  unfolding move_to_def bnd_assoc by (intro job.keeps_bnd_tracks [OF now_still] job.lifting_bnd_tracks)

text \<open>To another state, stored at once.\<close>

lemma moved_moving:
  assumes "st \<noteq> UploadReady" "st \<noteq> ReadyVerified"
    and "\<And>r'. steps_to r r' \<Longrightarrow> uj_state r' = st \<Longrightarrow> moving made gone (Some r', n, d) (k r') Q"
  shows "moving made gone (Some r, n, d) (bnd (move_to W r st) (\<lambda>r'. bnd (put_job r') (\<lambda>_. k r'))) Q"
proof (rule transition_bnd_moving)
  fix now r' assume t: "transition_job now r st = Inr r'"
  then have "steps_to r r'" "uj_state r' = st"
    using transition_steps [OF t assms(1,2)] transition_kept [OF t] by blast+
  then show "moving made gone (Some r, n, d) (bnd (put_job r') (\<lambda>_. k r')) Q"
    by (intro put_bnd_moving assms(3))
qed

lemma moves_from: "job_moves (Some r, n, d) v \<Longrightarrow> job_ok r \<Longrightarrow> \<exists>c n' d'. v = (Some c, n', d') \<and> job_ok c"
  by (cases v) (auto simp: job_moves_def)

section \<open>The end of a job\<close>

lemma deletion_moving:
  assumes "steady made gone W" "uj_provider_delete r = None"
  shows "moving made gone (Some r, n, d) (record_deletion W r asset) (\<lambda>(r', outcome) v. fst v = Some r')"
proof -
  have "job_moves (Some r, n, d) (job_view_of made gone (snd (record_deletion W r asset s)))
      \<and> (\<exists>r' x. fst (record_deletion W r asset s) = Inr (r', x) \<and> jb_job (snd (record_deletion W r asset s)) = Some r')"
    if s: "job_view_of made gone s = (Some r, n, d)" for s
  proof -
    let ?m = "jp_delete_asset (provider_of W r) asset" and ?x = "jb_outside s"
    let ?t = "snd (ask W ?m s)" and ?o = "delete_result (fst (?m ?x))"
    let ?r = "deleted_record W r asset ?o (jw_now W ?t)"
    have run: "record_deletion W r asset s = (Inr (?r, ?o), ?t\<lparr>jb_job := Some ?r\<rparr>)"
      by (simp add: record_deletion_def run_bnd run_attempt job_now_def put_job_def Let_def ask_def case_prod_beta)
    have t: "job_view_of made gone ?t = (Some r, n, gone (snd (?m ?x)))"
      using assms(1) s by (simp add: ask_def case_prod_beta steady_def silent_def provider_of_def job_view_of_def)
    have gone: "gone (snd (?m ?x)) \<le> Suc d"
      using assms(1) s by (auto simp: steady_def provider_of_def job_view_of_def)
    have "job_moves (Some r, n, d) (Some ?r, n, gone (snd (?m ?x)))"
      using gone assms(2) publication_fits_same [of r ?r]
      by (auto simp: job_moves_def job_ok_def advances_def may_create_def may_delete_def deleted_record_def job_identity_def
          upload_identity_def)
    then show ?thesis using t by (simp add: run job_view_of_def)
  qed
  then show ?thesis by (fastforce simp: tracks_def job_view_of_def)
qed

lemma stream_deletion_moving:
  assumes "steady made gone W"
  shows "moving made gone (Some r, n, d) (delete_stream_upload W r) (\<lambda>r' v. fst v = Some r')"
  unfolding delete_stream_upload_def
  by (intro tracks_if job.ret_tracks job.bnd_tracks [OF deletion_moving [OF assms]])
    (auto intro!: job.keeps_bnd_tracks keeps_if marks_still assms job.ret_tracks)

definition ending :: "job_state \<Rightarrow> bool" where
  "ending st = (st = UploadExpired \<or> st = ProviderFailed)"

lemma terminate_moving:
  assumes "steady made gone W" "ending st"
  shows "moving made gone (Some c, n, d) (terminate_stream_with W r st stuck) (\<lambda>r' v. fst v = Some r')"
proof -
  have st: "st \<noteq> UploadReady" "st \<noteq> ReadyVerified" using assms(2) by (auto simp: ending_def)
  have rest: "moving made gone v (bnd (delete_stream_upload W r') (\<lambda>r''.
      bnd (schedule_terminal_archive W r'') (\<lambda>_.
      bnd (update_admission_with W r'' (job_state_name (uj_state r'')) None stuck) (\<lambda>_. ret r'')))) (\<lambda>r'' v. fst v = Some r'')"
    if "fst v = Some r'" for v r'
    using that
    by (cases v) (auto intro!: job.bnd_tracks [OF stream_deletion_moving [OF assms(1)]] job.keeps_bnd_tracks archive_still
        mark_still assms(1) job.ret_tracks)
  show ?thesis
    unfolding terminate_stream_with_def
  proof (rule job.reading_bnd_tracks)
    fix s assume "job_view_of made gone s = (Some c, n, d)"
    then have c: "(case jb_job s of Some c \<Rightarrow> c | None \<Rightarrow> r) = c" by (simp add: job_view_of_def)
    show "moving made gone (Some c, n, d) (bnd
        (if uj_state (case jb_job s of Some c \<Rightarrow> c | None \<Rightarrow> r) \<in> set ended_states
         then ret (case jb_job s of Some c \<Rightarrow> c | None \<Rightarrow> r)
         else bnd (move_to W (case jb_job s of Some c \<Rightarrow> c | None \<Rightarrow> r) st) (\<lambda>moved. bnd (put_job moved) (\<lambda>_. ret moved)))
        (\<lambda>ended. bnd (delete_stream_upload W ended) (\<lambda>r'.
          bnd (schedule_terminal_archive W r') (\<lambda>_.
          bnd (update_admission_with W r' (job_state_name (uj_state r')) None stuck) (\<lambda>_. ret r'))))) (\<lambda>r' v. fst v = Some r')"
      unfolding c
      by (rule job.bnd_tracks [where P = "\<lambda>r' v. fst v = Some r'"])
        (auto intro!: tracks_if job.ret_tracks moved_moving st rest)
  qed
qed

lemma end_stream_moves: "steady made gone W \<Longrightarrow> ending st \<Longrightarrow> moves made gone (Some c, n, d) (end_stream W r st stuck)"
  unfolding end_stream_def by (rule job.bnd_tracks [OF terminate_moving]) (auto intro: job.ret_tracks)

lemma terminate_moves:
  "steady made gone W \<Longrightarrow> ending st \<Longrightarrow> (\<And>r' v'. fst v' = Some r' \<Longrightarrow> moving made gone v' (k r') Q) \<Longrightarrow>
   moving made gone (Some c, n, d) (bnd (terminate_stream W r st) k) Q"
  unfolding terminate_stream_def by (rule job.bnd_tracks [OF terminate_moving]) auto

lemma ending_simps [simp]: "ending UploadExpired" "ending ProviderFailed"
  by (simp_all add: ending_def)

text \<open>The job of Studio ends with one write.\<close>

lemma studio_end_moves:
  assumes "ending st" "\<And>r'. uj_state r' = st \<Longrightarrow> still made gone (Some r', n, d) (k r')"
  shows "moves made gone (Some r, n, d) (bnd (move_to W r st) (\<lambda>r'. bnd (put_job r') (\<lambda>_. k r')))"
  by (rule moved_moving) (use assms in \<open>auto simp: ending_def intro: still_moves\<close>)

lemma expire_moves:
  assumes "steady made gone W"
  shows "moves made gone (Some r, n, d) (expire_job W r)"
  unfolding expire_job_def
  by (rule job.bnd_tracks [where P = "\<lambda>_ _. True"])
    (auto intro!: tracks_if terminate_moves studio_end_moves keeps_bnd archive_still marks_still assms job.ret_tracks)

lemma expire_legacy_moves:
  assumes "steady made gone W"
  shows "moving made gone (Some r, n, d) (expire_legacy W r) (\<lambda>x v. x = None \<longrightarrow> v = (Some r, n, d))"
  unfolding expire_legacy_def
  by (intro tracks_if job.ret_tracks job.bnd_tracks [OF expire_moves [OF assms]]) auto

section \<open>Finalization\<close>

lemma retry_moves: "moves made gone (Some r, n, d) (retry_finalization W r status)"
proof -
  have put: "steps_to r (moved\<lparr>uj_finalize_retry := x\<rparr>)" if "transition_job now r FinalizeRetry = Inr moved" for now moved x
    using transition_steps [OF that] same_place_steps [OF same_places(2)] steps_further by blast
  show ?thesis
    unfolding retry_finalization_def Let_def
    by (intro job.keeps_bnd_tracks [OF now_still] transition_bnd_moving put_bnd_moving still_moves store_still) (rule put)
qed

lemma finalized_moves:
  assumes "steady made gone W"
  shows "moves made gone (Some r, n, d) (finalized_job W r reply)"
proof -
  have put: "steps_to r moved" if "transition_job now (r\<lparr>uj_finalize_retry := None\<rparr>) st = Inr moved"
    "st \<noteq> UploadReady" "st \<noteq> ReadyVerified" for now moved st
    using transition_steps [OF that] same_place_steps [OF same_places(2)] steps_further by blast
  show ?thesis
    unfolding finalized_job_def Let_def
    by (intro transition_bnd_moving put_bnd_moving)
      (auto intro!: put still_moves keeps_bnd keeps_if marks_still reconcile_still now_still store_still assms split: if_splits)
qed

lemma settle_moves:
  assumes "steady made gone W"
  shows "moves made gone (Some r, n, d) (settle_legacy W r)"
proof -
  have put: "steps_to r moved" if "transition_job now (r\<lparr>uj_finalize_retry := None\<rparr>) OnchainPublished = Inr moved" for now moved
    using transition_steps [OF that] same_place_steps [OF same_places(2)] steps_further by blast
  have shown: "still made gone v (case uj_publication r of None \<Rightarrow> ret (Some False)
      | Some p \<Rightarrow> catch (bnd (final_publication_matches (job_near W) (jw_env W) p) (\<lambda>b. ret (Some b)))
          (\<lambda>e. ret (if safe_error_code e \<noteq> ''near_finalize_mismatch'' then None else Some False)))" for v
    by (intro keeps_rules publication_matches_still assms)
  show ?thesis
    unfolding settle_legacy_def
  proof (rule job.keeps_bnd_tracks [OF shown])
    fix x :: "bool option"
    have pending: "moves made gone (Some r, n, d) (bnd (job_now W) (\<lambda>now. bnd (schedule_reconcile (now + reconcile_backoff_ms ! 0)) (\<lambda>_.
           ret (job_reply [yes ''accepted'', yes ''pending''] 202))))"
      by (intro still_moves keeps_bnd now_still store_still keeps_ret)
    have done': "moves made gone (Some r, n, d) (bnd (move_to W (r\<lparr>uj_finalize_retry := None\<rparr>) OnchainPublished) (\<lambda>published.
           bnd (put_job published) (\<lambda>_.
           bnd (update_admission W published ''ONCHAIN_PUBLISHED'') (\<lambda>_.
           bnd (ensure_reconcile W) (\<lambda>_. ret (job_reply [yes ''accepted'', yes ''finalized''] 200))))))"
      by (intro transition_bnd_moving put_bnd_moving still_moves keeps_bnd marks_still reconcile_still keeps_ret assms) (rule put)
    show "moves made gone (Some r, n, d) (case x of
         None \<Rightarrow> bnd (job_now W) (\<lambda>now. bnd (schedule_reconcile (now + reconcile_backoff_ms ! 0)) (\<lambda>_.
           ret (job_reply [yes ''accepted'', yes ''pending''] 202)))
       | Some False \<Rightarrow> expire_job W r
       | Some True \<Rightarrow> bnd (move_to W (r\<lparr>uj_finalize_retry := None\<rparr>) OnchainPublished) (\<lambda>published.
           bnd (put_job published) (\<lambda>_.
           bnd (update_admission W published ''ONCHAIN_PUBLISHED'') (\<lambda>_.
           bnd (ensure_reconcile W) (\<lambda>_. ret (job_reply [yes ''accepted'', yes ''finalized''] 200))))))"
      using pending done' expire_moves [OF assms] by (auto split: option.split bool.split)
  qed
qed

lemma finalization_moves:
  assumes "steady made gone W"
  shows "moves made gone (Some r, n, d) (advance_finalization W r)"
proof -
  have rest: "moves made gone (Some r, n, d)
      (bnd (if \<not> reply_ok status then retry_finalization W r status else bnd (lifting (reply_object body)) (finalized_job W r)) (\<lambda>_.
       ret \<lparr>br_status = status, br_headers = h, br_body = body\<rparr>))" for status body h
    by (rule job.bnd_tracks [where P = "\<lambda>_ _. True"])
      (auto intro!: tracks_if retry_moves job.lifting_bnd_tracks finalized_moves job.ret_tracks assms)
  show ?thesis
    unfolding advance_finalization_def
    by (intro job.keeps_bnd_tracks [OF now_still] tracks_if expire_moves settle_moves tracks_option
        job.keeps_bnd_tracks [OF operator_still] tracks_prod rest job.ret_tracks job.throw_tracks assms) simp_all
qed

section \<open>Verification\<close>

lemma kept_verification_moving:
  "moving made gone (Some r, n, d) (keep_verification W r result t) (\<lambda>_ v. \<exists>j. v = (Some j, n, d) \<and> same_place r j)"
proof -
  let ?Q = "\<lambda>_ v. \<exists>j. v = (Some j, n, d) \<and> same_place r j"
  have updated: "same_place r (let completed = r\<lparr>uj_provider_verification := None\<rparr>
      in case x of Some e \<Rightarrow> completed\<lparr>uj_source_bytes_evidence := Some e\<rparr> | None \<Rightarrow> completed)" for x
    by (simp add: Let_def split: option.split)
  have pending: "moving made gone (Some r, n, d)
      (bnd (job_capacity [JobKey, ReconcileKey]) (\<lambda>_.
       bnd (put_job (r\<lparr>uj_provider_verification := Some ck\<rparr>)) (\<lambda>_.
       bnd (reading jb_reconcile) (\<lambda>previous. put_reconcile (pending_record previous t))))) ?Q" for ck
    by (intro job.keeps_bnd_tracks [OF capacity_still] put_bnd_moving same_place_steps same_places job.keeps_only keeps_bnd
        keeps_reading store_still) auto
  have finished: "moving made gone (Some r, n, d)
      (if uj_provider_verification r \<noteq> None \<or> va_evidence a \<noteq> None
       then put_job (let completed = r\<lparr>uj_provider_verification := None\<rparr>
              in case va_evidence a of Some x \<Rightarrow> completed\<lparr>uj_source_bytes_evidence := Some x\<rparr> | None \<Rightarrow> completed)
       else ret ()) ?Q" for a
    by (intro tracks_if put_moving same_place_steps job.ret_tracks updated) (use updated in \<open>auto intro: exI [of _ r]\<close>)
  show ?thesis
    unfolding keep_verification_def
  proof (intro tracks_atomically job.reading_bnd_tracks, goal_cases)
    case (1 s)
    then have stored: "jb_job s = Some r" by (simp add: job_view_of_def)
    show ?case
      unfolding stored prod.case option.case
      by (rule job.require_bnd_tracks, cases result) (simp_all only: verification_result.case pending finished)
  next
    case (2 v)
    show ?case by (rule job.same)
  qed
qed

text \<open>After a verification that returned, the stored job differs from the record in hand only in what a verification writes.\<close>

lemma verified_moving:
  assumes "steady made gone W"
  shows "moving made gone (Some r, n, d) (verified_or_pending W r published) (\<lambda>_ v. \<exists>j. v = (Some j, n, d) \<and> same_place r j)"
  unfolding verified_or_pending_def Let_def
proof (intro job.keeps_bnd_tracks [OF provider_of_still(5) [OF assms]] job.keeps_bnd_tracks [OF now_still]
    job.bnd_tracks [OF kept_verification_moving], goal_cases)
  case (1 result now x v')
  then show ?case
    by (cases result) (auto intro!: job.keeps_only keeps_bnd store_still keeps_ret job.ret_tracks)
qed

lemma drop_checkpoint_moves: "moves made gone (Some r, n, d) drop_checkpoint"
  unfolding drop_checkpoint_def
proof (intro tracks_atomically job.reading_bnd_tracks, goal_cases)
  case (1 s)
  then show ?case
    by (auto simp: job_view_of_def intro!: tracks_if put_moving same_place_steps job.ret_tracks)
qed (rule job.same)

lemma verify_moving:
  assumes "steady made gone W" "job_ok r"
  shows "moving made gone (Some r, n, d) (verify_ready_asset W r published) (\<lambda>_ v. \<exists>j. v = (Some j, n, d) \<and> same_place r j)"
  unfolding verify_ready_asset_def
proof (intro job.require_bnd_tracks job.keeps_bnd_tracks [OF now_still] job.catch_tracks [OF verified_moving [OF assms(1)]], goal_cases)
  case (1 now e v')
  then obtain c n' d' where "v' = (Some c, n', d')" using moves_from [OF _ assms(2)] by blast
  show ?case
    unfolding \<open>v' = (Some c, n', d')\<close>
    by (intro job.bnd_tracks [where P = "\<lambda>_ _. True"] tracks_if drop_checkpoint_moves job.ret_tracks job.throw_tracks) simp
qed

section \<open>Events of the provider\<close>

lemma ok_uploaded:
  assumes "job_ok r" "uj_state r = ReadyVerified \<or> uj_state r \<in> set active_states"
  shows "uj_asset_id r \<noteq> None \<and> uj_terminal_archive r = None"
  using assms by (cases "uj_state r") (simp_all add: job_ok_def verified_states_def finalizing_states_def ended_states_def active_states_def)

lemma verified_steps:
  assumes "transition_job now (without_upload_url r) ReadyVerified = Inr moved" "same_place r j"
  shows "steps_to j (verified_record moved a)"
proof -
  let ?p = "verified_record moved a"
  have from': "uj_state (without_upload_url r) = uj_state r" "job_identity (without_upload_url r) = job_identity r"
    "upload_identity (without_upload_url r) = upload_identity r" "uj_provider_delete (without_upload_url r) = uj_provider_delete r"
    "uj_terminal_archive (without_upload_url r) = uj_terminal_archive r"
    by (simp_all add: without_upload_url_def job_identity_def upload_identity_def)
  note k = transition_kept [OF assms(1), unfolded from']
  have to: "uj_state ?p = uj_state moved" "job_identity ?p = job_identity moved" "upload_identity ?p = upload_identity moved"
    "uj_publication ?p = Some (publication_of moved a)" "uj_provider_delete ?p = uj_provider_delete moved"
    "uj_terminal_archive ?p = uj_terminal_archive moved"
    by (simp_all add: verified_record_def Let_def job_identity_def upload_identity_def split: option.split)
  have state: "uj_state j = ReadyVerified \<or> uj_state j \<in> set active_states"
    using k assms(2) by (cases "uj_state r") (auto simp: same_place_def active_states_def)
  have archive: "uj_terminal_archive moved = uj_terminal_archive r"
    using k from'(5) by (auto simp: ended_states_def)
  have move: "(uj_state j, uj_state ?p) \<in> allowed_move\<^sup>*"
    using k to(1) assms(2) by (simp add: same_place_def)
  have shape: "uj_state ?p = ReadyVerified" "uj_asset_id ?p = uj_asset_id j" "uj_terminal_archive ?p = None \<longleftrightarrow> uj_terminal_archive j = None"
    using k to archive assms(2) by (simp_all add: same_place_def upload_identity_def)
  have ok: "job_ok ?p" if "job_ok j"
  proof -
    have "uj_asset_id j \<noteq> None" "uj_terminal_archive j = None"
      using ok_uploaded [OF that state] by simp_all
    moreover have "publication_fits ?p"
      using to(4) publication_of_identity [OF to(2)] by (auto simp: publication_fits_def)
    ultimately show ?thesis
      unfolding job_ok_def shape to(4)
      by (simp add: before_upload_def active_states_def verified_states_def finalizing_states_def ended_states_def)
  qed
  have new: "uj_publication j = None \<or> uj_state j = ReadyVerified" if "job_ok j"
    using that state unfolding job_ok_def by blast
  have kept: "job_identity ?p = job_identity j" "upload_identity ?p = upload_identity j" "uj_provider_delete ?p = uj_provider_delete j"
    using k to assms(2) by (simp_all add: same_place_def)
  have adv: "advances j ?p" if "job_ok j"
    unfolding advances_def using move kept new [OF that] by (elim disjE) simp_all
  show ?thesis
    unfolding steps_to_def using ok adv shape(1) kept(3) by (simp add: may_create_def may_delete_def)
qed

lemma verification_failed_moves:
  assumes "steady made gone W"
  shows "moves made gone (Some c, n, d) (verification_failed W key r err)"
  unfolding verification_failed_def Let_def
  by (intro job.keeps_bnd_tracks [OF store_still(4)] job.keeps_bnd_tracks [OF result_still] tracks_if terminate_moves assms
      job.ret_tracks job.throw_tracks) (auto simp: ending_def)

lemma verify_event_moving:
  assumes "steady made gone W" "job_ok r"
  shows "moving made gone (Some r, n, d) (verify_event W key r)
    (\<lambda>x v. \<forall>moved t. x = Inr (moved, t) \<longrightarrow> (\<exists>j. v = (Some j, n, d) \<and> steps_to j moved))"
  unfolding verify_event_def
proof (rule job.catch_tracks, goal_cases)
  case 1
  show ?case
  proof (rule job.bnd_tracks [OF verify_moving [OF assms]], goal_cases)
    case (1 x v')
    then obtain j where j: "v' = (Some j, n, d)" "same_place r j" by blast
    show ?case
      by (cases x) (auto simp: j(1) intro!: job.keeps_bnd_tracks store_still job.ret_tracks transition_bnd_moving
          verified_steps [OF _ j(2)])
  qed
next
  case (2 e v')
  then obtain c n' d' where "v' = (Some c, n', d')" using moves_from [OF _ assms(2)] by blast
  then show ?case
    by (auto intro!: job.bnd_tracks [OF verification_failed_moves [OF assms(1)]] job.ret_tracks)
qed

lemma store_verified_moving:
  assumes "steady made gone W" "job_ok j" "steps_to j r"
  shows "moving made gone (Some j, n, d) (store_verified W key e r t) (\<lambda>x v. x = None \<longrightarrow> v = (Some r, n, d))"
  unfolding store_verified_def
proof (rule job.catch_tracks, goal_cases)
  case 1
  show ?case
    by (intro put_bnd_moving assms(3) job.keeps_bnd_tracks [OF result_still] job.keeps_bnd_tracks [OF mark_still]
        job.keeps_bnd_tracks [OF now_still] job.keeps_bnd_tracks [OF store_still(3)] job.ret_tracks assms(1)) simp
next
  case (2 err v')
  then obtain c n' d' where "v' = (Some c, n', d')" using moves_from [OF _ assms(2)] by blast
  then show ?case
    by (auto intro!: job.bnd_tracks [OF verification_failed_moves [OF assms(1)]] job.ret_tracks)
qed

lemma after_ready_moves:
  assumes "steady made gone W"
  shows "moves made gone (Some r, n, d) (after_ready W r seen)"
  unfolding after_ready_def published_event_def
  by (intro tracks_if still_moves keeps_bnd marks_still reconcile_still keeps_ret finalization_moves assms job.throw_tracks)

lemma steps_ok: "steps_to r r' \<Longrightarrow> job_ok r \<Longrightarrow> job_ok r'"
  by (simp add: steps_to_def)

lemma same_place_ok: "same_place r r' \<Longrightarrow> job_ok r \<Longrightarrow> job_ok r'"
  using same_place_steps steps_ok by blast

lemma ready_moves:
  assumes "steady made gone W" "job_ok r"
  shows "moves made gone (Some r, n, d) (ready_event W e r)"
  unfolding ready_event_def
proof (intro job.keeps_bnd_tracks [OF claim_event_still] tracks_if, goal_cases)
  case (1 x)
  show ?case
  proof (rule job.reading_bnd_tracks)
    fix s assume "job_view_of made gone s = (Some r, n, d)"
    then have stored: "jb_job s = Some r" by (simp add: job_view_of_def)
    show "moves made gone (Some r, n, d)
        (if uj_state (case jb_job s of Some j \<Rightarrow> j | None \<Rightarrow> r) \<in> set active_states
         then ret (accepted [yes ''duplicate'', yes ''processing''] 202)
         else after_ready W (case jb_job s of Some j \<Rightarrow> j | None \<Rightarrow> r) True)"
      unfolding stored option.case by (intro tracks_if job.ret_tracks after_ready_moves assms) simp
  qed
next
  case (2 x)
  show ?case
  proof (rule job.bnd_tracks [OF verify_event_moving [OF assms]], goal_cases)
    case (1 y v')
    show ?case
    proof (cases y)
      case (Inr p)
      obtain moved t where p: "p = (moved, t)" by (cases p)
      then obtain j where j: "v' = (Some j, n, d)" "steps_to j moved" using 1(2) Inr by blast
      have "job_ok j" using job_movesD(1) [of "Some r" n d "Some j" n d] 1(1) j(1) assms(2) by blast
      then show ?thesis
        by (auto simp: Inr p j(1) intro!: job.bnd_tracks [OF store_verified_moving [OF assms(1) _ j(2)]] after_ready_moves
            job.ret_tracks assms(1) split: option.splits)
    qed (simp add: job.ret_tracks)
  qed
qed

lemma tracked_put_moves:
  "moves made gone (Some r, n, d) (if track_progress r p now \<noteq> r then put_job (track_progress r p now) else ret ())"
  by (intro tracks_if put_moving same_place_steps same_place_tracked job.ret_tracks) simp_all

lemma tracked_transition_steps:
  "transition_job now (track_progress r p t) Processing = Inr moved \<Longrightarrow> steps_to r moved"
  using transition_steps same_place_steps [OF same_place_tracked] steps_further by blast

lemma fail_event_moves:
  assumes "steady made gone W"
  shows "moves made gone (Some r, n, d) (fail_event W e r)"
  unfolding fail_event_def
  by (rule job.bnd_tracks [where P = "\<lambda>_ _. True"])
    (auto intro!: tracks_if terminate_moves studio_end_moves keeps_bnd archive_still marks_still assms job.ret_tracks)

lemma progress_moves: "moves made gone (Some r, n, d) (progress_event W e r)"
  unfolding progress_event_def Let_def
  by (intro job.keeps_bnd_tracks [OF now_still] tracks_if transition_bnd_moving put_bnd_moving job.ret_tracks
      job.bnd_tracks [OF tracked_put_moves]) (auto intro: tracked_transition_steps)

lemma other_moves:
  assumes "steady made gone W"
  shows "moves made gone (Some r, n, d) (other_event W e r)"
proof -
  have triggered: "still made gone v (bnd (job_now W) (\<lambda>now. bnd (schedule_reconcile now) (\<lambda>_. ret x)))" for v and x :: bridge_reply
    by (intro keeps_bnd now_still store_still keeps_ret)
  show ?thesis
    unfolding other_event_def by (intro tracks_if still_moves [OF triggered] fail_event_moves progress_moves assms)
qed

lemma published_event_still: "steady made gone W \<Longrightarrow> still made gone v (published_event W r x)"
  unfolding published_event_def by (intro keeps_bnd marks_still reconcile_still keeps_ret)

lemma current_moves:
  assumes "steady made gone W" "job_ok r"
  shows "moves made gone (Some r, n, d) (current_event W e r)"
  unfolding current_event_def Let_def
  by (intro tracks_if job.ret_tracks still_moves [OF published_event_still] other_moves settle_moves ready_moves assms) simp_all

lemma event_moves:
  assumes "steady made gone W" "\<forall>r. j = Some r \<longrightarrow> job_ok r"
  shows "moves made gone (j, n, d) (handle_provider_event W event j)"
proof (cases event)
  case e: (Some e)
  show ?thesis
  proof (cases j)
    case j: (Some r)
    show ?thesis
      unfolding handle_provider_event_def e j prod.case option.case
    proof (intro tracks_if job.ret_tracks job.bnd_tracks [OF expire_legacy_moves [OF assms(1)]] tracks_option, goal_cases)
      case (2 x v')
      then have v': "v' = (Some r, n, d)" by simp
      show ?case
        unfolding expire_event_def v'
        by (intro job.keeps_bnd_tracks [OF now_still] tracks_if job.bnd_tracks [OF expire_moves [OF assms(1)]]
            current_moves assms job.ret_tracks) (use assms(2) j in simp_all)
    qed simp_all
  qed (simp add: handle_provider_event_def e job.ret_tracks)
qed (simp add: handle_provider_event_def job.ret_tracks)

section \<open>The reads of an upload\<close>

lemma confirm_moves:
  assumes "steady made gone W"
  shows "moves made gone (Some r, n, d) (confirm_stuck W r asset seen)"
proof -
  have read: "still made gone v (catch (bnd (ask W (jp_read_video (provider_of W r) asset)) (\<lambda>v. ret (Some v))) (\<lambda>e. ret None))" for v
    by (intro keeps_rules provider_of_still assms)
  show ?thesis
    unfolding confirm_stuck_def Let_def
    by (intro job.keeps_bnd_tracks [OF read] tracks_if end_stream_moves assms job.keeps_bnd_tracks [OF now_still]
        job.bnd_tracks [OF tracked_put_moves] still_moves store_still) simp
qed

lemma ready_poll_moves:
  assumes "steady made gone W" "job_ok r"
  shows "moves made gone (Some r, n, d) (ready_poll W r asset now next_poll)"
  unfolding ready_poll_def
  by (intro job.bnd_tracks [OF event_moves [OF assms(1)]] still_moves keeps_rules store_still) (use assms(2) in simp_all)

lemma keep_polling_moves:
  assumes "steady made gone W"
  shows "moves made gone (Some c, n, d) (keep_polling W r v now next_poll)"
  unfolding keep_polling_def by (intro tracks_if end_stream_moves assms still_moves store_still) simp

lemma processing_poll_moves:
  assumes "steady made gone W" "job_ok r"
  shows "moves made gone (Some r, n, d) (processing_poll W r asset v now next_poll)"
proof -
  let ?t = "track_progress r (Some (video_progress v)) now"
  have put: "moving made gone (Some r, n, d) (if ?t \<noteq> r then put_job ?t else ret ()) (\<lambda>_ v. v = (Some ?t, n, d))"
    by (intro tracks_if put_moving same_place_steps same_place_tracked job.ret_tracks) simp_all
  show ?thesis
    unfolding processing_poll_def Let_def
  proof (intro tracks_if, goal_cases)
    case 1
    show ?case
      by (intro transition_bnd_moving put_bnd_moving still_moves [OF store_still(2)]) (rule tracked_transition_steps)
  next
    case 2
    show ?case
      by (rule job.bnd_tracks [OF put]) (auto intro: tracks_if confirm_moves keep_polling_moves assms(1))
  qed
qed

lemma video_moves:
  assumes "steady made gone W" "job_ok r"
  shows "moves made gone (Some r, n, d) (video_poll W r asset v now next_poll)"
proof -
  have rest: "moves made gone v' (keep_polling W r v now next_poll)" if "job_moves (Some r, n, d) v'" for v'
    using moves_from [OF that assms(2)] keep_polling_moves [OF assms(1)] by blast
  show ?thesis
    unfolding video_poll_def Let_def
    by (intro tracks_if end_stream_moves ready_poll_moves processing_poll_moves assms job.bnd_tracks [OF tracked_put_moves]
        rest) simp_all
qed

lemma poll_moves:
  assumes "steady made gone W" "job_ok r"
  shows "moves made gone (Some r, n, d) (poll_stream_upload W r)"
proof -
  have read: "still made gone v (attempt (ask W (jp_read_video (provider_of W r) a)))" for v a
    by (intro keeps_attempt provider_of_still assms)
  show ?thesis
    unfolding poll_stream_upload_def Let_def
    by (intro tracks_if job.ret_tracks job.keeps_bnd_tracks [OF now_still] end_stream_moves job.keeps_bnd_tracks [OF read]
        tracks_sum video_moves assms still_moves store_still) simp_all
qed

lemma read_upload_moves:
  assumes "steady made gone W" "job_ok r"
  shows "moves made gone (Some r, n, d) (read_upload W r asset t)"
  unfolding read_upload_def
proof (intro job.keeps_bnd_tracks [OF provider_of_still(2) [OF assms(1)]] job.require_bnd_tracks job.reading_bnd_tracks, goal_cases)
  case (1 a s)
  then have stored: "jb_job s = Some r" by (simp add: job_view_of_def)
  show ?case
    unfolding stored prod.case
    by (intro job.bnd_tracks [OF event_moves [OF assms(1)]] job.require_bnd_tracks still_moves finish_read_still)
      (use assms(2) in simp)
qed

lemma reconcile_moves:
  assumes "steady made gone W" "job_ok r"
  shows "moves made gone (Some r, n, d) (reconcile_upload W r)"
proof -
  have due: "moves made gone (Some r, n, d) (reconcile_due W r asset t previous now)" for asset t previous now
    unfolding reconcile_due_def Let_def
    by (intro job.keeps_bnd_tracks [OF store_still(1)] job.keeps_bnd_tracks [OF store_still(2)] job.catch_tracks read_upload_moves
        still_moves [OF failed_read_still] assms)
  have studio: "moves made gone (Some r, n, d) (reconcile_studio W r asset t)" for asset t
    unfolding reconcile_studio_def
    by (rule job.reading_bnd_tracks) (auto intro!: tracks_option tracks_if due still_moves [OF store_still(2)])
  show ?thesis
    unfolding reconcile_upload_def Let_def
    by (intro tracks_if poll_moves job.ret_tracks job.keeps_bnd_tracks [OF now_still] studio_end_moves studio assms keeps_bnd
        result_still marks_still) simp_all
qed

lemma observed_moves:
  assumes "steady made gone W" "job_ok r"
  shows "moves made gone (Some r, n, d) (reconcile_published W r)"
proof -
  have provider: "moves made gone (Some r, n, d) (observe_provider W r)"
    unfolding observe_provider_def
    by (intro job.catch_tracks job.bnd_tracks [OF verify_moving [OF assms]] tracks_option job.ret_tracks) simp_all
  have chain: "still made gone v (observe_chain W r)" for v
    unfolding observe_chain_def by (intro keeps_rules publication_still assms)
  have record': "still made gone v (record_observation W r seen)" for v seen
    by (cases seen) (simp_all add: record_observation_def reconcile_still drift_still assms)
  show ?thesis
    unfolding reconcile_published_def
    by (intro job.keeps_bnd_tracks [OF suspension_still] job.bnd_tracks [OF provider] tracks_if still_moves keeps_bnd chain
        record' assms)
qed

lemma fails_still_put: "fails_still V v (put_job r)"
  by (simp add: put_job_def fails_still_writing)

lemma archive_moves:
  "moves made gone (Some r, n, d) (advance_terminal_archive W r)"
proof (cases "uj_terminal_archive r")
  case (Some m)
  have put: "steps_to r (r\<lparr>uj_terminal_archive := Some m'\<rparr>)" for m'
    by (rule same_place_steps) (simp add: same_place_def Some job_identity_def upload_identity_def)
  show ?thesis
    unfolding advance_terminal_archive_def Some option.case Let_def
  proof (rule job.fails_catch_tracks, goal_cases)
    case 1
    show ?case
      by (intro job.require_bnd_tracks job.lifting_bnd_tracks job.keeps_bnd_tracks [OF commit_still]
          job.keeps_bnd_tracks [OF now_still] put_moving put) simp
  next
    case 2
    show ?case
      by (intro fails_still_bnd keeps_require keeps_lifting commit_still now_still fails_still_put)
  next
    case (3 e)
    show ?case
      by (intro job.keeps_bnd_tracks [OF now_still] put_bnd_moving put still_moves [OF writing_still]) simp
  qed
qed (simp add: advance_terminal_archive_def job.ret_tracks)

end
