(* ===== verification/BridgeJobRuns.thy ===== *)
theory BridgeJobRuns
  imports BridgeJobMoves
begin

text \<open>The requests and the alarm of the job object move its job as allowed, and so does every run of them.\<close>

section \<open>The upload intent\<close>

lemma new_job_ok: "new_job b v e deadline now = Inr r \<Longrightarrow> job_ok r \<and> uj_state r = Authorized \<and> uj_provider_delete r = None"
  by (auto simp: new_job_def Let_def ebind_Inr_iff job_ok_def before_upload_def active_states_def verified_states_def
      finalizing_states_def ended_states_def publication_fits_def)

lemma claim_job_moving:
  assumes "new_job b' v' e deadline now = Inr candidate"
  shows "moving made gone (j, n, d) (claim_job W b v candidate) (\<lambda>r v'. v' = (Some r, n, d))"
  unfolding claim_job_def
proof (intro tracks_atomically job.keeps_bnd_tracks [OF fresh_still] job.reading_bnd_tracks
    job.keeps_bnd_tracks [OF capacity_still] tracks_option, goal_cases)
  case (1 x s y)
  then have "j = None" by (simp add: job_view_of_def)
  moreover have "moving made gone (None, n, d) (put_job candidate) (\<lambda>_ v. v = (Some candidate, n, d))"
    unfolding put_job_def
    by (rule job.writing_tracks)
      (use new_job_ok [OF assms] in \<open>auto simp: job_view_of_def job_moves_def may_create_def may_delete_def\<close>)
  ultimately show ?case
    by (intro job.require_bnd_tracks job.keeps_bnd_tracks [OF store_still(5)]) (auto elim: job.bnd_tracks intro: job.ret_tracks)
next
  case (2 x s y r)
  then have "j = Some r" by (simp add: job_view_of_def)
  then show ?case
    by (intro job.require_bnd_tracks job.keeps_bnd_tracks [OF store_still(5)] job.ret_tracks) simp
next
  case (3 v)
  show ?case by (rule job.same)
qed

lemma stays [simp]: "uj_state (leased_job r l) = uj_state r" "uj_state (created_job r p t) = uj_state r"
  by (simp_all add: leased_job_def created_job_def)

lemma lease_steps: "steps_to r (leased_job r l)"
  by (rule same_place_steps [OF same_place_leased])

lemma renew_moving:
  assumes "steady made gone W"
  shows "moving made gone (Some r, n, d) (renew_lease W r) (\<lambda>r' v. v = (Some r', n, d) \<and> uj_state r' = uj_state r)"
  unfolding renew_lease_def Let_def
  by (intro job.keeps_bnd_tracks [OF now_still] tracks_if job.ret_tracks job.keeps_bnd_tracks [OF lease_still] put_bnd_moving
      lease_steps assms) simp_all

lemma first_lease_moving:
  assumes "steady made gone W"
  shows "moving made gone (Some r, n, d) (first_lease W r) (\<lambda>r' v. v = (Some r', n, d) \<and> uj_state r' = Leased)"
proof -
  have usage: "still made gone v (if provider_kind r = Stream
      then bnd (ask W (jp_read_storage_usage (provider_of W r))) (\<lambda>usage. ret (Some usage)) else ret None)" for v
    by (intro keeps_rules provider_of_still assms)
  have put: "steps_to r (leased_job moved l)" if "transition_job now r Leased = Inr moved" for now moved l
    using transition_steps [OF that] lease_steps steps_further by blast
  show ?thesis
    unfolding first_lease_def
    by (intro job.keeps_bnd_tracks [OF usage] job.keeps_bnd_tracks [OF lease_still] transition_bnd_moving put_bnd_moving
        job.ret_tracks assms) (auto intro: put dest: transition_kept)
qed

text \<open>The one creation of the job: the record says so before the provider is asked.\<close>

lemma pending_moving:
  assumes "uj_state r = Leased"
  shows "moving made gone (Some r, n, d) (pending_create W r)
    (\<lambda>p v. v = (Some p, n, d) \<and> steps_to r p \<and> uj_state p = ProviderCreatePending)"
proof -
  have put: "steps_to r (moved\<lparr>uj_provider_create := x\<rparr>)" if "transition_job now r ProviderCreatePending = Inr moved" for now moved x
    using transition_steps [OF that] same_place_steps [OF same_places(6)] steps_further by blast
  show ?thesis
    unfolding pending_create_def Let_def
    by (intro transition_bnd_moving job.keeps_bnd_tracks [OF now_still] put_bnd_moving job.ret_tracks)
      (auto intro: put dest: transition_kept)
qed

lemma creation_moving:
  assumes "steady made gone W" "uj_state r = Leased"
  shows "moving made gone (Some r, n, d) (start_creation W r)
    (\<lambda>(pending, outcome) v. (\<exists>n'. v = (Some pending, n', d)) \<and> uj_state pending = ProviderCreatePending)"
proof -
  have "job_moves (Some r, n, d) (job_view_of made gone (snd (start_creation W r s)))
      \<and> (case fst (start_creation W r s) of Inl e \<Rightarrow> True
         | Inr (pending, outcome) \<Rightarrow> (\<exists>n'. job_view_of made gone (snd (start_creation W r s)) = (Some pending, n', d))
             \<and> uj_state pending = ProviderCreatePending)"
    if s: "job_view_of made gone s = (Some r, n, d)" for s
  proof (cases "fst (pending_create W r s)")
    case (Inl e)
    then show ?thesis
      using tracksD [OF pending_moving [OF assms(2)] s] by (simp add: start_creation_def run_bnd)
  next
    case (Inr p)
    define t where "t = snd (pending_create W r s)"
    have run: "pending_create W r s = (Inr p, t)" using Inr by (simp add: t_def prod_eq_iff)
    note p = tracks_result [OF pending_moving [OF assms(2)] s run]
    let ?m = "jp_create_upload (provider_of W p) p (upload_ends p (jw_now W t))" and ?x = "jb_outside t"
    have next': "start_creation W r s = (Inr (p, fst (?m ?x)), snd (ask W ?m t))"
      by (simp add: start_creation_def run_bnd run job_now_def run_attempt ask_def case_prod_beta)
    have outside: "made ?x = n" "gone ?x = d" "jb_job t = Some p" using p by (simp_all add: job_view_of_def)
    have view: "job_view_of made gone (snd (ask W ?m t)) = (Some p, made (snd (?m ?x)), d)"
      using assms(1) outside by (simp add: ask_def case_prod_beta steady_def silent_def provider_of_def job_view_of_def)
    have made: "made (snd (?m ?x)) \<le> Suc n"
      using assms(1) outside(1) by (auto simp: steady_def provider_of_def)
    have "job_moves (Some r, n, d) (Some p, made (snd (?m ?x)), d)"
      using made p assms(2) by (auto simp: job_moves_def steps_to_def may_create_def)
    then show ?thesis using view p by (simp add: next')
  qed
  then show ?thesis by (fastforce simp: tracks_def split: sum.splits)
qed

lemma creation_failed_moves:
  assumes "steady made gone W"
  shows "moves made gone (Some r, n, d) (creation_failed W r err)"
proof -
  have put: "steps_to r (moved\<lparr>uj_provider_create := x\<rparr>)" if "transition_job now r CreateAmbiguous = Inr moved" for now moved x
    using transition_steps [OF that] same_place_steps [OF same_places(6)] steps_further by blast
  show ?thesis
    unfolding creation_failed_def Let_def
    by (intro transition_bnd_moving job.keeps_bnd_tracks [OF now_still] put_bnd_moving still_moves keeps_bnd keeps_if marks_still
        keeps_ret keeps_throw assms) (rule put)
qed

lemma created_steps:
  assumes "transition_job now r UploadReady = Inr moved" "uj_state r = ProviderCreatePending"
  shows "steps_to r (created_job moved p t)"
proof -
  note k = transition_kept [OF assms(1)]
  have "uj_state (created_job moved p t) = UploadReady" "job_identity (created_job moved p t) = job_identity r"
    "uj_asset_id (created_job moved p t) = Some (cu_asset_id p)" "uj_publication (created_job moved p t) = uj_publication r"
    "uj_provider_delete (created_job moved p t) = uj_provider_delete r"
    "uj_terminal_archive (created_job moved p t) = uj_terminal_archive r"
    using k assms(2) by (simp_all add: created_job_def job_identity_def ended_states_def)
  then show ?thesis
    using k assms(2) publication_fits_same [of r "created_job moved p t"]
    by (simp add: steps_to_def job_ok_def advances_def may_create_def may_delete_def before_upload_def active_states_def
        verified_states_def finalizing_states_def ended_states_def)
qed

lemma created_moves:
  assumes "steady made gone W" "uj_state r = ProviderCreatePending"
  shows "moves made gone (Some r, n, d) (created_upload_reply W r p)"
proof -
  have late: "moves made gone (Some r, n, d) (late_creation W ready)" if "steps_to r ready" "uj_state ready = UploadReady" for ready
  proof -
    have expired: "steps_to r moved" if "transition_job now ready UploadExpired = Inr moved" for now moved
      using transition_steps [OF that] \<open>steps_to r ready\<close> steps_further by blast
    show ?thesis
      unfolding late_creation_def
      by (intro tracks_if put_bnd_moving that terminate_moves transition_bnd_moving still_moves keeps_bnd marks_still keeps_throw
          job.throw_tracks expired assms) simp_all
  qed
  have poll: "still made gone v (bnd (update_admission W ready ''UPLOAD_READY'') (\<lambda>_.
      bnd (if provider_kind ready = Stream then bnd (job_now W) (\<lambda>now. schedule_reconcile (now + stream_upload_poll_ms)) else ret ()) (\<lambda>_.
      lifting (upload_intent_response ready True))))" for v ready
    by (intro keeps_bnd keeps_if marks_still now_still store_still keeps_ret keeps_lifting assms)
  show ?thesis
    unfolding created_upload_reply_def Let_def
    by (intro transition_bnd_moving job.keeps_bnd_tracks [OF now_still] tracks_if late put_bnd_moving still_moves [OF poll])
      (auto intro: created_steps assms(2) dest: transition_kept)
qed

lemma create_moves:
  assumes "steady made gone W" "uj_state r = Leased"
  shows "moves made gone (Some r, n, d) (create_upload W r)"
  unfolding create_upload_def
proof (rule job.bnd_tracks [OF creation_moving [OF assms]], goal_cases)
  case (1 x v')
  obtain pending outcome where x: "x = (pending, outcome)" by (cases x)
  then obtain n' where "v' = (Some pending, n', d)" "uj_state pending = ProviderCreatePending" using 1(2) by auto
  then show ?case
    by (auto simp: x intro!: tracks_sum creation_failed_moves created_moves assms(1))
qed

lemma continue_moves:
  assumes "steady made gone W"
  shows "moves made gone (Some r, n, d) (continue_intent W r)"
proof -
  have lease: "moving made gone (Some r, n, d) (if uj_state r = Authorized then first_lease W r else renew_lease W r)
      (\<lambda>r' v. v = (Some r', n, d) \<and> uj_state r' = Leased)" if "uj_state r \<in> {Authorized, Leased}"
  proof (rule tracks_if)
    show "moving made gone (Some r, n, d) (first_lease W r) (\<lambda>r' v. v = (Some r', n, d) \<and> uj_state r' = Leased)"
      by (rule first_lease_moving [OF assms])
    show "moving made gone (Some r, n, d) (renew_lease W r) (\<lambda>r' v. v = (Some r', n, d) \<and> uj_state r' = Leased)"
      if "uj_state r \<noteq> Authorized"
      by (rule tracks_mono [OF renew_moving [OF assms]]) (use that \<open>uj_state r \<in> {Authorized, Leased}\<close> in auto)
  qed
  show ?thesis
    unfolding continue_intent_def
    by (intro tracks_if job.bnd_tracks [OF renew_moving [OF assms]] still_moves [OF keeps_lifting] job.require_bnd_tracks
        job.keeps_bnd_tracks [OF now_still] job.bnd_tracks [OF lease]) (auto intro: create_moves [OF assms])
qed

lemma offset_moves:
  assumes "steady made gone W"
  shows "moving made gone (Some r, n, d) (resumed_offset W r) (\<lambda>_ v. v = (Some r, n, d))"
  unfolding resumed_offset_def
proof (rule job.bnd_tracks [OF job.keeps_catch_tracks [OF provider_of_still(1) [OF assms], where Q = "\<lambda>_ v. v = (Some r, n, d)"]],
    goal_cases)
  case (2 err)
  have lost: "moves made gone (Some r, n, d)
      (if err = ''provider_tus_url_expired'' \<and> provider_kind r = Stream then end_stream W r UploadExpired False else ret ())"
    by (intro tracks_if end_stream_moves job.ret_tracks assms) simp_all
  show ?case by (intro tracks_if job.throw_tracks job.bnd_tracks [OF lost])
next
  case (3 x v')
  then show ?case by (simp only:) (rule job.keeps_only [OF keeps_require], rule refl)
qed simp

lemma resume_moving:
  assumes "steady made gone W"
  shows "moving made gone (Some r, n, d) (recover_by_resume W r) (\<lambda>x v. x = None \<longrightarrow> v = (Some r, n, d))"
  unfolding recover_by_resume_def
  by (intro job.require_bnd_tracks tracks_if job.ret_tracks job.keeps_bnd_tracks [OF now_still] terminate_moves
      job.bnd_tracks [OF offset_moves [OF assms]] assms) simp_all

lemma recover_moves:
  assumes "steady made gone W" "job_ok r"
  shows "moves made gone (Some r, n, d) (recover_by_reconcile W r)"
  unfolding recover_by_reconcile_def
  by (intro job.bnd_tracks [OF reconcile_moves [OF assms]] still_moves keeps_rules result_still)

lemma resumed_moves:
  assumes "steady made gone W" "job_ok r"
  shows "moves made gone (Some r, n, d) (resumed_intent W recovery r)"
proof -
  have resumed: "moving made gone (Some r, n, d) (if recovery = Some (JStr ''resume'') then recover_by_resume W r else ret None)
      (\<lambda>x v. x = None \<longrightarrow> v = (Some r, n, d))"
    by (intro tracks_if resume_moving job.ret_tracks assms) simp
  show ?thesis
    unfolding resumed_intent_def
    by (intro tracks_if recover_moves job.bnd_tracks [OF resumed] tracks_option job.ret_tracks assms)
      (auto intro: continue_moves [OF assms(1)])
qed

lemma reserve_moves:
  assumes "steady made gone W" "\<forall>r. j = Some r \<longrightarrow> job_ok r"
  shows "moves made gone (j, n, d) (reserve_upload_intent W q)"
  unfolding reserve_upload_intent_def
proof (intro job.keeps_bnd_tracks [OF request_still] tracks_prod job.keeps_bnd_tracks [OF chain_still] job.keeps_bnd_tracks [OF now_still]
    job.require_bnd_tracks job.keeps_bnd_tracks [OF limit_still] job.keeps_bnd_tracks [OF marker_still] job.lifting_bnd_tracks assms,
    goal_cases)
  case (1 x b v job now y marker now' deadline candidate)
  show ?case
  proof (rule job.bnd_tracks [OF claim_job_moving [OF 1(4)]], goal_cases)
    case (1 r w)
    have "job_ok r" using job_movesD(1) [of j n d "Some r" n d] 1 assms(2) by blast
    then show ?case
      unfolding 1(2) by (intro job.keeps_bnd_tracks [OF store_still(6)] resumed_moves assms)
  qed
qed

section \<open>The other requests\<close>

lemma heartbeat_claim_moving:
  "moving made gone (j, n, d) (claim_heartbeat W b v) (\<lambda>r v'. v' = (Some r, n, d))"
  unfolding claim_heartbeat_def
proof (intro tracks_atomically job.keeps_bnd_tracks [OF fresh_still] job.reading_bnd_tracks, goal_cases)
  case (1 x s)
  then have "j = jb_job s" by (simp add: job_view_of_def)
  then show ?case
    by (auto intro!: tracks_prod tracks_option job.throw_tracks job.require_bnd_tracks job.keeps_bnd_tracks [OF capacity_still]
        job.keeps_bnd_tracks [OF store_still(5)] job.ret_tracks)
qed (rule job.same)

lemma heartbeat_moves:
  assumes "steady made gone W"
  shows "moves made gone (j, n, d) (heartbeat_upload_lease W q)"
proof -
  have expired: "moves made gone (Some r, n, d) (bnd (move_to W r UploadExpired) (\<lambda>expired.
            bnd (put_job expired) (\<lambda>_.
            bnd (schedule_terminal_archive W expired) (\<lambda>_.
            update_admission W expired ''UPLOAD_EXPIRED''))))" for r
    by (intro studio_end_moves keeps_bnd archive_still marks_still assms) simp
  have lost: "moving made gone (Some r, n, d) (lease_lost W r err) Q" for r err Q
    unfolding lease_lost_def
    by (rule job.bnd_tracks [where P = "\<lambda>_ _. True"])
      (intro tracks_if job.ret_tracks end_stream_moves expired job.throw_tracks assms; simp)+
  have put: "steps_to r (leased_job moved l)" if "transition_job now r Uploading = Inr moved" for now moved l r
    using transition_steps [OF that] lease_steps steps_further by blast
  have renew: "moves made gone (Some r, n, d) (renew_by_heartbeat W r)" for r
    unfolding renew_by_heartbeat_def
    by (rule job.bnd_tracks [OF job.keeps_catch_tracks [OF beat_still [OF assms], where Q = "\<lambda>_ v. v = (Some r, n, d)"]])
      (auto intro!: lost transition_bnd_moving put_bnd_moving put job.ret_tracks)
  have deadline: "still made gone v (if is_public_testnet (jw_env W)
      then bnd (lifting (public_upload_job_deadline job True now)) (\<lambda>_. ret ()) else ret ())" for v job now
    by (intro keeps_rules)
  show ?thesis
    unfolding heartbeat_upload_lease_def
    by (intro job.keeps_bnd_tracks [OF request_still] tracks_prod job.keeps_bnd_tracks [OF chain_still]
        job.keeps_bnd_tracks [OF now_still] job.require_bnd_tracks job.keeps_bnd_tracks [OF limit_still]
        job.keeps_bnd_tracks [OF deadline] job.keeps_bnd_tracks [OF marker_still] job.bnd_tracks [OF heartbeat_claim_moving]
        job.keeps_bnd_tracks [OF store_still(6)] assms) (simp add: renew)
qed

lemma cancellation_moves: "moves made gone (j, n, d) (claim_cancellation W b v)"
  unfolding claim_cancellation_def
proof (intro tracks_atomically job.keeps_bnd_tracks [OF fresh_still] job.reading_bnd_tracks tracks_option job.throw_tracks, goal_cases)
  case (1 x s r)
  then have j: "j = Some r" by (simp add: job_view_of_def)
  have put: "steps_to r moved" if "transition_job now r Cancelled = Inr moved" for now moved
    using transition_steps [OF that] by simp
  show ?case
    unfolding j
    by (intro job.require_bnd_tracks job.keeps_bnd_tracks [OF capacity_still] tracks_if job.keeps_bnd_tracks [OF store_still(5)]
        job.ret_tracks transition_bnd_moving put_bnd_moving) (auto intro: put)
qed (rule job.same)

lemma cancel_moves:
  assumes "steady made gone W"
  shows "moves made gone (j, n, d) (cancel_upload W q)"
proof -
  have rest: "still made gone v (bnd (watch_nonce ev) (\<lambda>_. bnd (schedule_terminal_archive W r) (\<lambda>_.
     bnd (if set_text (uj_lease_id r) then update_admission W r ''CANCELLED'' else ret ()) (\<lambda>_. ret x))))" for v ev r and x :: bridge_reply
    by (intro keeps_rules store_still archive_still marks_still assms)
  show ?thesis
    unfolding cancel_upload_def
    by (intro job.keeps_bnd_tracks [OF request_still] tracks_prod job.keeps_bnd_tracks [OF chain_still]
        job.keeps_bnd_tracks [OF now_still] job.require_bnd_tracks job.bnd_tracks [OF cancellation_moves] still_moves [OF rest] assms)
qed

lemma webhook_moves:
  assumes "steady made gone W" "\<forall>r. j = Some r \<longrightarrow> job_ok r"
  shows "moves made gone (j, n, d) (handle_webhook W q)"
  unfolding handle_webhook_def Let_def
proof (intro job.require_bnd_tracks job.reading_bnd_tracks, goal_cases)
  case (1 s)
  then have "jb_job s = j" by (simp add: job_view_of_def)
  then show ?case
    by (simp add: job.keeps_bnd_tracks [OF provider_still(6) [OF assms(1)]] event_moves [OF assms])
qed

lemma delete_moves:
  assumes "steady made gone W"
  shows "moves made gone (j, n, d) (delete_public_beta_asset W v)"
proof -
  have asset: "moves made gone (Some r, n, d) (delete_asset W r a)" if "uj_provider_delete r = None" for r a
    unfolding delete_asset_def
    by (intro job.bnd_tracks [OF deletion_moving [OF assms that]] tracks_prod tracks_if job.ret_tracks
        still_moves [OF keeps_bnd [OF marks_still(2) [OF assms] keeps_throw]]) simp
  have marker: "still made gone v (if is_public_testnet (jw_env W) then ret None
      else read_public_testnet_job (job_near W) (jw_env W) k)" for v k
    by (intro keeps_rules beta_views_still assms)
  have once: "moves made gone (Some r, n, d) (delete_once W r a)" if "uj_provider_delete r = None" for r a
    unfolding delete_once_def
    by (intro job.keeps_bnd_tracks [OF chain_still] job.keeps_bnd_tracks [OF marker] job.keeps_bnd_tracks [OF publication_still]
        job.keeps_bnd_tracks [OF now_still] job.lifting_bnd_tracks job.require_bnd_tracks
        job.keeps_bnd_tracks [OF provider_of_still(2)] asset that assms)
  show ?thesis
    unfolding delete_public_beta_asset_def
  proof (intro job.lifting_bnd_tracks tracks_prod job.reading_bnd_tracks tracks_option job.throw_tracks job.require_bnd_tracks
      job.ret_tracks, goal_cases)
    case (1 x job_id asset s r)
    then show ?case using once [of r asset] by (simp add: job_view_of_def)
  qed simp
qed

section \<open>Routes, the alarm and runs\<close>

lemma fetch_moves:
  assumes "steady made gone W" "\<forall>r. j = Some r \<longrightarrow> job_ok r"
  shows "moves made gone (j, n, d) (job_fetch W q)"
  unfolding job_fetch_def job_route_def Let_def
  by (intro job.catch_tracks job.keeps_bnd_tracks [OF policy_still] tracks_if reserve_moves heartbeat_moves cancel_moves
      still_moves [OF token_still] still_moves [OF claims_still(3)] job.lifting_bnd_tracks webhook_moves delete_moves
      job.ret_tracks assms) simp_all

lemma alarm_upload_moves:
  assumes "steady made gone W" "job_ok r"
  shows "moves made gone (Some r, n, d) (alarm_upload W r)"
  unfolding alarm_upload_def
proof (intro tracks_if job.reading_bnd_tracks reconcile_moves assms, goal_cases)
  case (1 s)
  then have stored: "jb_job s = Some r" by (simp add: job_view_of_def)
  have event: "moves made gone (Some r, n, d) (handle_provider_event W e (Some r))" for e
    by (rule event_moves) (use assms in simp_all)
  show ?case
    unfolding stored prod.case
    by (rule job.bnd_tracks [where P = "\<lambda>_ _. True"]) (intro tracks_option event job.ret_tracks; simp)+
qed

lemma alarm_published_moves:
  assumes "steady made gone W" "job_ok r"
  shows "moves made gone (Some r, n, d) (alarm_published W r)"
proof -
  have finalize: "moves made gone (Some r, n, d) (bnd (advance_finalization W r) (\<lambda>_. ret ()))"
    by (rule job.bnd_tracks [OF finalization_moves [OF assms(1)]]) (simp only: job.ret_tracks)
  have later: "moves made gone (Some r, n, d) (schedule_reconcile t)" for t :: int
    by (rule still_moves [OF store_still(2)])
  have other: "moves made gone (Some r, n, d) (if st \<in> set finalizing_states then bnd (advance_finalization W r) (\<lambda>_. ret ())
         else if st = OnchainPublished then reconcile_published W r else ret ())" for st
    by (intro tracks_if finalize observed_moves job.ret_tracks assms) simp
  show ?thesis
    unfolding alarm_published_def
  proof (rule job.keeps_bnd_tracks [OF now_still])
    fix now :: int
    have retry: "moves made gone (Some r, n, d) (if fr_next_attempt_at_ms x > now then schedule_reconcile (fr_next_attempt_at_ms x)
         else bnd (advance_finalization W r) (\<lambda>_. ret ()))" for x
      by (intro tracks_if later finalize)
    show "moves made gone (Some r, n, d) (case (uj_state r, uj_finalize_retry r) of
       (FinalizeRetry, Some x) \<Rightarrow>
         if fr_next_attempt_at_ms x > now then schedule_reconcile (fr_next_attempt_at_ms x)
         else bnd (advance_finalization W r) (\<lambda>_. ret ())
     | (st, _) \<Rightarrow>
         if st \<in> set finalizing_states then bnd (advance_finalization W r) (\<lambda>_. ret ())
         else if st = OnchainPublished then reconcile_published W r
         else ret ())"
      by (cases "uj_state r"; cases "uj_finalize_retry r") (simp_all only: prod.case job_state.case option.case retry other)
  qed
qed

lemma alarm_moves:
  assumes "steady made gone W" "\<forall>r. j = Some r \<longrightarrow> job_ok r"
  shows "moves made gone (j, n, d) (job_alarm W)"
proof -
  have upload: "moves made gone (Some r, n, d) (alarm_job W r)" if "job_ok r" for r
    unfolding alarm_job_def
    by (intro tracks_if still_moves [OF keeps_bnd [OF now_still store_still(2)]] job.bnd_tracks [OF expire_legacy_moves] job.ret_tracks assms)
      (auto intro: alarm_upload_moves alarm_published_moves assms(1) that)
  show ?thesis
    unfolding job_alarm_def
  proof (intro job.keeps_bnd_tracks [OF policy_still] job.keeps_bnd_tracks [OF store_still(7)] job.keeps_bnd_tracks [OF store_still(8)]
      job.reading_bnd_tracks assms, goal_cases)
    case (1 x y z s)
    then have "jb_job s = j" by (simp add: job_view_of_def)
    then show ?case
      using assms(2)
      by (cases j) (auto intro!: tracks_option tracks_if still_moves [OF writing_still] archive_moves upload job.ret_tracks)
  qed
qed

text \<open>
  A run of the object: its requests and its alarms, one after the other, and in between whatever does not touch the job
  and does not go to the provider (time, other requests, a restart).
\<close>

inductive job_run :: "('s \<Rightarrow> nat) \<Rightarrow> ('s \<Rightarrow> nat) \<Rightarrow> 's job_world \<Rightarrow> 's job_store \<Rightarrow> 's job_store \<Rightarrow> bool" for made gone W where
  run_start: "job_run made gone W s s"
| run_request: "job_run made gone W s t \<Longrightarrow> job_run made gone W s (snd (job_fetch W q t))"
| run_alarm: "job_run made gone W s t \<Longrightarrow> job_run made gone W s (snd (job_alarm W t))"
| run_aside: "job_run made gone W s t \<Longrightarrow> job_view_of made gone u = job_view_of made gone t \<Longrightarrow> job_run made gone W s u"

lemma moves_ok:
  "job_moves (job_view_of made gone s) (job_view_of made gone t) \<Longrightarrow> \<forall>r. jb_job s = Some r \<longrightarrow> job_ok r \<Longrightarrow>
   \<forall>r. jb_job t = Some r \<longrightarrow> job_ok r"
  by (simp add: job_view_of_def job_moves_def)

lemma run_moves:
  assumes "job_run made gone W s t" "steady made gone W" "\<forall>r. jb_job s = Some r \<longrightarrow> job_ok r"
  shows "job_moves (job_view_of made gone s) (job_view_of made gone t) \<and> (\<forall>r. jb_job t = Some r \<longrightarrow> job_ok r)"
  using assms(1,3)
proof induction
  case (run_start s)
  then show ?case using job.same by blast
next
  case (run_request s t q)
  note IH = run_request.IH [OF run_request.prems]
  obtain n d where t: "job_view_of made gone t = (jb_job t, n, d)" by (simp add: job_view_of_def)
  have "job_moves (job_view_of made gone t) (job_view_of made gone (snd (job_fetch W q t)))"
    using tracksD [OF fetch_moves [OF assms(2)] t] IH t by simp
  then show ?case using IH job.further moves_ok by blast
next
  case (run_alarm s t)
  note IH = run_alarm.IH [OF run_alarm.prems]
  obtain n d where t: "job_view_of made gone t = (jb_job t, n, d)" by (simp add: job_view_of_def)
  have "job_moves (job_view_of made gone t) (job_view_of made gone (snd (job_alarm W t)))"
    using tracksD [OF alarm_moves [OF assms(2)] t] IH t by simp
  then show ?case using IH job.further moves_ok by blast
next
  case (run_aside s t u)
  then show ?case by (simp add: job_view_of_def)
qed

end
