(* ===== verification/BridgeJobChecks.thy ===== *)
theory BridgeJobChecks
  imports BridgeJobRuns BridgeAdmissionChecks BridgeLaws
begin

text \<open>What the upload job object promises, with a world to try it in.\<close>

section \<open>A world\<close>

text \<open>The outside counts the uploads created and the deletions asked for; everything else it is asked fails.\<close>

definition unreachable :: "('s, 'a) act" where
  "unreachable = throw ''provider_unavailable''"

definition counting_provider :: "(nat \<times> nat) job_provider" where
  "counting_provider =
     \<lparr>jp_create_upload = (\<lambda>r t (n, d). (Inr \<lparr>cu_asset_id = ''a-1'', cu_playback_id = ''p-1'', cu_project_id = ''project'',
        cu_tus_endpoint = ''https://tus''\<rparr>, (Suc n, d))),
      jp_read_tus_offset = (\<lambda>_. unreachable), jp_read_asset = (\<lambda>_. unreachable), jp_read_video = (\<lambda>_. unreachable),
      jp_read_storage_usage = unreachable, jp_verify_ready = (\<lambda>_. unreachable),
      jp_delete_asset = (\<lambda>a (n, d). (Inr True, (n, Suc d))), jp_parse_webhook = (\<lambda>_ _. unreachable),
      jp_sign_playback = (\<lambda>_ _ _. unreachable), jp_identity_matches = (\<lambda>_ _. False)\<rparr>"

definition counting_world :: "(nat \<times> nat) job_world" where
  "counting_world =
     \<lparr>jw_env = unset_env\<lparr>be_bridge_enabled := Some ''true'', be_provider_mutations_enabled := Some ''true''\<rparr>,
      jw_allowed_origins = None, jw_crypto = sample_crypto, jw_now = (\<lambda>_. 90000000), jw_url = (\<lambda>_. None), jw_near = (\<lambda>_. unreachable),
      jw_admission = (\<lambda>_ _ _. unreachable), jw_operator = (\<lambda>_ _ _. unreachable), jw_provider = (\<lambda>_. counting_provider),
      jw_limiter = None, jw_archive_db = (\<lambda>_. \<lparr>ad_insert = ret False, ad_select = ret ()\<rparr>), jw_meanwhile = id\<rparr>"

definition sample_job :: job_record where
  "sample_job =
     \<lparr>uj_state = UploadReady, uj_network = ''testnet'', uj_contract_id = ''market.testnet'', uj_job_id = ''j-1'', uj_generation = 1,
      uj_creator = ''creator.testnet'', uj_expected_source_bytes = ''1000'', uj_source_fingerprint_sha256 = None, uj_source_type = ''mp4'',
      uj_profile_id = ''paid-media-v1'', uj_profile_config_sha256 = stream_profile_hash, uj_created_at_ms = 0,
      uj_state_changed_at_ms = Some 0, uj_terminal_at_ms = None, uj_provider = Some Stream, uj_api_token_name = None,
      uj_lease_id = Some ''l-1'', uj_lease_expires_at_ms = Some 1000, uj_asset_id = Some ''a-1'', uj_playback_id = Some ''p-1'',
      uj_project_id = Some ''project'', uj_tus_endpoint = Some ''https://tus'', uj_publication = None, uj_provider_verification = None,
      uj_source_bytes_evidence = None, uj_stream_progress = None, uj_finalize_retry = None, uj_provider_create = None,
      uj_terminal_archive = None, uj_absolute_deadline_at_ms = None, uj_provider_delete = None\<rparr>"

definition job_store_of :: "job_record option \<Rightarrow> (nat \<times> nat) job_store" where
  "job_store_of j =
     \<lparr>jb_job = j, jb_reconcile = None, jb_nonces = [], jb_webhooks = [], jb_outbox = [], jb_alarm = None, jb_archive = [],
      jb_policy = None, jb_outside = (0, 0)\<rparr>"

lemma counting_steady: "steady fst snd counting_world"
  by (auto simp: steady_def counting_world_def outside_silent_def provider_reads_silent_def counting_provider_def unreachable_def
      silent_def split: prod.split)

lemma sample_job_ok: "job_ok sample_job"
  by (simp add: job_ok_def sample_job_def before_upload_def active_states_def verified_states_def finalizing_states_def ended_states_def
      publication_fits_def)

section \<open>How a job moves\<close>

lemma states_from_settled:
  assumes "(a, b) \<in> allowed_move\<^sup>*" "a \<in> set settled_states"
  shows "b = a"
  using assms
  by (cases rule: converse_rtranclE) (auto simp: allowed_move_def settled_states_def ended_states_def)

text \<open>
  C11 (invariant). Over any run of requests and alarms, one after the other, the job of an object is never lost or replaced:
  it stays the job of the same creator, file, profile and deadline, its state only moves along \<open>JOB_STATE_TRANSITIONS\<close> and
  not at all once it was published or ended, the asset created for it stays its asset, its publication is of this job and
  stays the same once its finalization began, and what was recorded of the deletion of its asset stays recorded.
\<close>

theorem job_only_advances:
  assumes "steady made gone W" "job_run made gone W s t" "jb_job s = Some r" "job_ok r"
  shows "\<exists>r'. jb_job t = Some r' \<and> advances r r' \<and> job_ok r' \<and> (uj_state r \<in> set settled_states \<longrightarrow> uj_state r' = uj_state r)"
proof -
  have "\<forall>x. jb_job s = Some x \<longrightarrow> job_ok x" using assms(3,4) by simp
  note run = run_moves [OF assms(2,1) this]
  have "job_moves (Some r, made (jb_outside s), gone (jb_outside s)) (jb_job t, made (jb_outside t), gone (jb_outside t))"
    using run assms(3) by (simp add: job_view_of_def)
  from job_movesD(2) [OF this] assms(4) obtain r' where "jb_job t = Some r'" "advances r r'" by blast
  moreover have "uj_state r \<in> set settled_states \<longrightarrow> uj_state r' = uj_state r"
    using states_from_settled \<open>advances r r'\<close> by (auto simp: advances_def)
  ultimately show ?thesis using run by blast
qed

lemma job_only_advances_witness:
  "\<exists>r'. jb_job (snd (job_alarm counting_world (job_store_of (Some sample_job)))) = Some r' \<and> advances sample_job r' \<and> job_ok r'"
proof -
  have "job_run fst snd counting_world (job_store_of (Some sample_job)) (snd (job_alarm counting_world (job_store_of (Some sample_job))))"
    by (intro run_alarm run_start)
  from job_only_advances [OF counting_steady this _ sample_job_ok] show ?thesis by (auto simp: job_store_of_def)
qed

text \<open>
  C12 (safety). Over any run of requests and alarms, one after the other, an object asks its provider to create at most one
  upload and to delete at most one, and none when its job is past that: whatever the answers were, lost ones included, no
  creation and no deletion is tried again.
\<close>

theorem upload_created_once:
  assumes "steady made gone W" "job_run made gone W s t" "\<forall>r. jb_job s = Some r \<longrightarrow> job_ok r"
  shows "made (jb_outside t) \<le> made (jb_outside s) + may_create (jb_job s) \<and> gone (jb_outside t) \<le> gone (jb_outside s) + may_delete (jb_job s)"
  using run_moves [OF assms(2,1,3)] job_movesD(3,4) [of "jb_job s" "made (jb_outside s)" "gone (jb_outside s)" "jb_job t"] assms(3)
  by (fastforce simp: job_view_of_def)

lemma upload_created_once_witness:
  "snd (jb_outside (snd (job_alarm counting_world (job_store_of (Some sample_job))))) \<le> 1
   \<and> fst (jb_outside (snd (job_alarm counting_world (job_store_of (Some sample_job))))) = 0"
proof -
  have "job_run fst snd counting_world (job_store_of (Some sample_job)) (snd (job_alarm counting_world (job_store_of (Some sample_job))))"
    by (intro run_alarm run_start)
  from upload_created_once [OF counting_steady this] sample_job_ok show ?thesis
    by (simp add: job_store_of_def may_create_def may_delete_def sample_job_def)
qed

section \<open>A heartbeat that waits\<close>

text \<open>
  C40 (functional). A heartbeat that got its lease stores the record as it was read before the wait, in state \<open>UPLOADING\<close>
  and with the new lease, whatever the job has become meanwhile: the object relies on its requests running one after the
  other, which only the public deployments arrange for heartbeats.
\<close>

theorem heartbeat_stores_what_it_read:
  assumes "heartbeat_lease W r s = (Inr l, t)" "uj_state r \<in> {UploadReady, Uploading}"
  shows "\<exists>m. jb_job (snd (renew_by_heartbeat W r s)) = Some m \<and> uj_state m = Uploading \<and> same_place (r\<lparr>uj_state := Uploading\<rparr>) m
    \<and> uj_lease_id m = Some (fst l)"
proof -
  have run: "renew_by_heartbeat W r s = bnd (move_to W r Uploading) (\<lambda>uploading.
       bnd (put_job (leased_job uploading l)) (\<lambda>_. ret (heartbeat_answer r l))) t"
    by (simp add: renew_by_heartbeat_def bnd_def catch_def assms(1))
  obtain m where m: "transition_job (jw_now W t) r Uploading = Inr m" "same_place (r\<lparr>uj_state := Uploading\<rparr>) m"
    using assms(2) by (auto simp: transition_job_def Let_def ended_states_def same_place_def job_identity_def upload_identity_def)
  then show ?thesis
    using transition_kept [OF m(1)] same_place_trans [OF m(2) same_place_leased]
    by (simp add: run run_bnd move_to_def job_now_def put_job_def) (simp add: leased_job_def)
qed

definition overtaken_job :: job_record where
  "overtaken_job = sample_job\<lparr>uj_state := ReadyVerified, uj_publication := Some (JObj []), uj_tus_endpoint := None\<rparr>"

definition overtaken_world :: "(nat \<times> nat) job_world" where
  "overtaken_world = counting_world\<lparr>jw_now := (\<lambda>_. 0),
     jw_admission := (\<lambda>_ _ _. ret (200, Some (JObj [(''lease_id'', JStr ''l-1''), (''expires_at_ms'', JStr ''1700000000000'')]))),
     jw_meanwhile := (\<lambda>s. s\<lparr>jb_job := Some overtaken_job\<rparr>)\<rparr>"

lemma heartbeat_stores_what_it_read_witness:
  "jb_job (snd (heartbeat_lease overtaken_world sample_job (job_store_of (Some sample_job)))) = Some overtaken_job
   \<and> (\<exists>m. jb_job (snd (renew_by_heartbeat overtaken_world sample_job (job_store_of (Some sample_job)))) = Some m
        \<and> uj_state m = Uploading \<and> uj_publication m = None)"
proof -
  let ?s = "job_store_of (Some sample_job)"
  have lease: "lease_expiry (JObj [(''lease_id'', JStr ''l-1''), (''expires_at_ms'', JStr ''1700000000000'')]) 0 = Some (js_number ''1700000000000'')"
    by (simp add: lease_expiry_def decimal1_def repeated_def char_defs js_number_def dec_val_def digit_val_def)
  have run: "heartbeat_lease overtaken_world sample_job ?s =
      (Inr (''l-1'', js_number ''1700000000000''), ?s\<lparr>jb_job := Some overtaken_job\<rparr>)"
    by (simp add: heartbeat_lease_def run_bnd ask_admission_def ask_def overtaken_world_def reply_ok_def reply_object_def job_now_def
        lease counting_world_def sample_job_def set_text_def or_none_def job_store_of_def)
  have start: "uj_state sample_job \<in> {UploadReady, Uploading}" "uj_publication sample_job = None" by (simp_all add: sample_job_def)
  show ?thesis
    using heartbeat_stores_what_it_read [OF run start(1)] start(2) by (auto simp: run same_place_def)
qed

section \<open>Drift and recovery\<close>







text \<open>
  After a drift a job counts as healthy again, so that playback of it resumes, only with a second good observation
  in a row at least a minute after the first one.
\<close>

theorem recovery_needs_two_observations:
  assumes "jb_reconcile s = Some p" "rc_last_drift p \<noteq> None" "rc_status p \<noteq> Healthy"
    and "map_option rc_status (jb_reconcile (snd (persist_healthy W s))) = Some Healthy"
  shows "\<exists>y. rc_recovery p = Some y \<and> 1 \<le> ry_observations y \<and> ry_first_observed_at_ms y + 60000 \<le> jw_now W s"
  using assms
  by (auto simp: persist_healthy_def run_bnd put_reconcile_def schedule_reconcile_def healthy_record_def Let_def recovering_def
      next_recovery_def reconcile_confirmation_ms_def split: option.splits if_splits)

definition drifted_record :: reconcile_record where
  "drifted_record =
     \<lparr>rc_status = DriftBlocked, rc_consecutive_errors = 1, rc_next_reconcile_at_ms = 0, rc_upload_read_failed = None,
      rc_upload_error_code = None, rc_last_good_at_ms = None,
      rc_last_drift = Some \<lparr>dr_code = ''provider_playback_exposed'', dr_first_observed_at_ms = 0, dr_last_observed_at_ms = 0, dr_observations = 1\<rparr>,
      rc_recovery = Some \<lparr>ry_first_observed_at_ms = 0, ry_observations = 1\<rparr>, rc_sales_suspension_queued_at_ms = None\<rparr>"

definition drifted_store :: "(nat \<times> nat) job_store" where
  "drifted_store = (job_store_of (Some sample_job))\<lparr>jb_reconcile := Some drifted_record\<rparr>"

definition drifted_world :: "(nat \<times> nat) job_world" where
  "drifted_world = counting_world\<lparr>jw_env := unset_env\<lparr>be_video_environment := Some ''public-testnet''\<rparr>\<rparr>"





lemma recovery_needs_two_observations_witness:
  "map_option rc_status (jb_reconcile (snd (persist_healthy drifted_world drifted_store))) = Some Healthy
   \<and> (\<exists>y. rc_recovery drifted_record = Some y \<and> ry_first_observed_at_ms y + 60000 \<le> 90000000)"
proof -
  have healthy: "map_option rc_status (jb_reconcile (snd (persist_healthy drifted_world drifted_store))) = Some Healthy"
    by (simp add: persist_healthy_def run_bnd put_reconcile_def schedule_reconcile_def healthy_record_def Let_def recovering_def
        next_recovery_def reconcile_confirmation_ms_def drifted_world_def counting_world_def drifted_store_def drifted_record_def)
  have "jb_reconcile drifted_store = Some drifted_record" "rc_last_drift drifted_record \<noteq> None" "rc_status drifted_record \<noteq> Healthy"
    by (simp_all add: drifted_store_def drifted_record_def)
  from recovery_needs_two_observations [OF this healthy] healthy show ?thesis
    by (auto simp: drifted_world_def counting_world_def)
qed

section \<open>Signed requests\<close>

text \<open>A computation that throws from every state in \<open>P\<close>, and keeps \<open>P\<close>.\<close>

definition refuses :: "('s \<Rightarrow> bool) \<Rightarrow> ('s, 'a) act \<Rightarrow> bool" where
  "refuses P m = (\<forall>s. P s \<longrightarrow> (\<exists>e. fst (m s) = Inl e) \<and> P (snd (m s)))"

lemma refuses_after: "keeps P m \<Longrightarrow> (\<And>x. refuses P (k x)) \<Longrightarrow> refuses P (bnd m k)"
  by (auto simp: refuses_def keeps_def run_bnd split: sum.splits)

lemma refuses_first: "refuses P m \<Longrightarrow> refuses P (bnd m k)"
  by (auto simp: refuses_def run_bnd split: sum.splits)

lemma refuses_atomically: "refuses P m \<Longrightarrow> refuses P (atomically m)"
  by (force simp: refuses_def run_atomically split: sum.splits)

definition nonce_used :: "string \<Rightarrow> job_record option \<Rightarrow> 's job_store \<Rightarrow> bool" where
  "nonce_used n j s = (tget n (jb_nonces s) \<noteq> None \<and> jb_job s = j)"

lemma used_nonce_refused: "refuses (nonce_used (ev_device_nonce v) j) (bnd (fresh_nonce v) k)"
  by (rule refuses_first) (simp add: refuses_def nonce_used_def fresh_nonce_def run_bnd)

text \<open>Nothing that runs while a request waits takes a nonce away or changes the job.\<close>

definition nonces_kept :: "'s job_world \<Rightarrow> bool" where
  "nonces_kept W = (\<forall>n j s. nonce_used n j s \<longrightarrow> nonce_used n j (jw_meanwhile W s))"

lemma ask_used:
  fixes W :: "'s job_world" and m :: "('s, 'a) act"
  assumes kept: "nonces_kept W"
  shows "keeps (nonce_used n j) (ask W m)"
proof (rule keepsI)
  fix s :: "'s job_store" assume used: "nonce_used n j s"
  have "nonce_used n j (s\<lparr>jb_outside := snd (m (jb_outside s))\<rparr>)" using used by (simp add: nonce_used_def)
  then show "nonce_used n j (snd (ask W m s))" using kept unfolding nonces_kept_def ask_def by (simp add: case_prod_beta)
qed

lemma near_used: "nonces_kept W \<Longrightarrow> keeps (nonce_used n j) (job_near W b)"
  unfolding job_near_def by (rule ask_used)

lemma now_used: "keeps P (job_now W)"
  by (simp add: job_now_def)

lemma chain_used: "nonces_kept W \<Longrightarrow> keeps (nonce_used n j) (chain_job W i)"
  unfolding chain_job_def read_final_media_job_def by (intro keeps_rules near_used)

lemma limit_used: "nonces_kept W \<Longrightarrow> keeps (nonce_used n j) (account_limit W route account)"
  unfolding account_limit_def by (intro keeps_rules ask_used)

lemma view_used: "nonces_kept W \<Longrightarrow> keeps (nonce_used n j) (read_public_testnet_view (job_near W) e verb args)"
  unfolding read_public_testnet_view_def near_rpc_query_def near_rpc_raw_def Let_def
  by (intro keeps_rules near_used) (auto split: json.split option.split)

lemma marker_used: "nonces_kept W \<Longrightarrow> keeps (nonce_used n j) (beta_marker W i g a job)"
  unfolding beta_marker_def read_public_testnet_job_def read_public_testnet_state_def by (intro keeps_rules view_used now_used)

lemma signed_request_known:
  assumes "parse (scope_at W (jw_now W s)) q = Inr (b, v)"
  shows "bnd (signed_request W parse q) k s =
    (case verify_control_signature (jw_crypto W) q v of Inl e \<Rightarrow> (Inl e, s) | Inr x \<Rightarrow> k (b, v) s)"
  by (simp add: signed_request_def run_bnd job_now_def assms split: sum.split)

lemma refused_at:
  assumes "parse (scope_at W (jw_now W s)) q = Inr (b, v)" "nonce_used n j s" "refuses (nonce_used n j) (k (b, v))"
  shows "\<exists>e. fst (bnd (signed_request W parse q) k s) = Inl e \<and> nonce_used n j (snd (bnd (signed_request W parse q) k s))"
  using assms(2,3) by (simp add: signed_request_known [where parse = parse, OF assms(1)] refuses_def split: sum.split)

text \<open>The envelope of a request, once it is parsed.\<close>

definition envelope_of :: "'s job_world \<Rightarrow> job_request \<Rightarrow> int \<Rightarrow> control_envelope option" where
  "envelope_of W q now =
     (let K = scope_at W now; c = jq_control q;
          sealed = (\<lambda>r. case r of Inr (b, v) \<Rightarrow> Some v | Inl e \<Rightarrow> None) in
      if jq_verb q \<noteq> ''POST'' then None
      else if jq_path q = upload_intent_route then sealed (parse_upload_intent_request K c)
      else if jq_path q = upload_heartbeat_route
      then (case parse_heartbeat_request K c of Inr (b, v) \<Rightarrow> Some v | Inl e \<Rightarrow> None)
      else if jq_path q = upload_cancellation_route
      then (case parse_cancellation_request K c of Inr (b, v) \<Rightarrow> Some v | Inl e \<Rightarrow> None)
      else if jq_path q = playback_token_route
      then (case parse_playback_token_request K c of Inr (b, v) \<Rightarrow> Some v | Inl e \<Rightarrow> None)
      else None)"

lemma intent_refused:
  assumes "nonces_kept W" "parse_upload_intent_request (scope_at W (jw_now W s)) q = Inr (b, v)" "nonce_used (ev_device_nonce v) j s"
  shows "\<exists>e. fst (reserve_upload_intent W q s) = Inl e \<and> nonce_used (ev_device_nonce v) j (snd (reserve_upload_intent W q s))"
proof -
  have claim: "refuses (nonce_used (ev_device_nonce v) j) (claim_job W b v c)" for c
    unfolding claim_job_def by (intro refuses_atomically used_nonce_refused)
  show ?thesis
    unfolding reserve_upload_intent_def
    by (rule refused_at [where parse = parse_upload_intent_request, OF assms(2,3)], unfold prod.case)
      (intro refuses_after [OF chain_used] refuses_after [OF now_used] refuses_after [OF keeps_require] refuses_after [OF limit_used]
        refuses_after [OF marker_used] refuses_after [OF keeps_lifting] refuses_first [OF claim] assms(1))
qed

lemma heartbeat_refused:
  fixes W :: "'s job_world"
  assumes "nonces_kept W" "parse_heartbeat_request (scope_at W (jw_now W s)) q = Inr (b, v)" "nonce_used (ev_device_nonce v) j s"
  shows "\<exists>e. fst (heartbeat_upload_lease W q s) = Inl e \<and> nonce_used (ev_device_nonce v) j (snd (heartbeat_upload_lease W q s))"
proof -
  have claim: "refuses (nonce_used (ev_device_nonce v) j) (claim_heartbeat W b v)"
    unfolding claim_heartbeat_def by (intro refuses_atomically used_nonce_refused)
  have deadline: "keeps P (if is_public_testnet (jw_env W) then bnd (lifting (public_upload_job_deadline job True now)) (\<lambda>_. ret ()) else ret ())"
    for P :: "'s job_store \<Rightarrow> bool" and job now
    by (intro keeps_rules)
  show ?thesis
    unfolding heartbeat_upload_lease_def
    by (rule refused_at [where parse = parse_heartbeat_request, OF assms(2,3)], unfold prod.case)
      (intro refuses_after [OF chain_used] refuses_after [OF now_used] refuses_after [OF keeps_require] refuses_after [OF limit_used]
        refuses_after [OF deadline] refuses_after [OF marker_used] refuses_first [OF claim] assms(1))
qed

lemma cancellation_refused:
  assumes "nonces_kept W" "parse_cancellation_request (scope_at W (jw_now W s)) q = Inr (b, v)" "nonce_used (ev_device_nonce v) j s"
  shows "\<exists>e. fst (cancel_upload W q s) = Inl e \<and> nonce_used (ev_device_nonce v) j (snd (cancel_upload W q s))"
proof -
  have claim: "refuses (nonce_used (ev_device_nonce v) j) (claim_cancellation W b v)"
    unfolding claim_cancellation_def by (intro refuses_atomically used_nonce_refused)
  show ?thesis
    unfolding cancel_upload_def
    by (rule refused_at [where parse = parse_cancellation_request, OF assms(2,3)], unfold prod.case)
      (intro refuses_after [OF chain_used] refuses_after [OF now_used] refuses_after [OF keeps_require] refuses_first [OF claim] assms(1))
qed

lemma playback_refused:
  assumes "nonces_kept W" "parse_playback_token_request (scope_at W (jw_now W s)) q = Inr (b, v)" "nonce_used (ev_device_nonce v) j s"
  shows "\<exists>e. fst (issue_playback_token W q s) = Inl e \<and> nonce_used (ev_device_nonce v) j (snd (issue_playback_token W q s))"
proof -
  have claim: "refuses (nonce_used (ev_device_nonce v) j) (claim_nonce v)"
    unfolding claim_nonce_def by (intro refuses_atomically used_nonce_refused)
  show ?thesis
    unfolding issue_playback_token_def
    by (rule refused_at [where parse = parse_playback_token_request, OF assms(2,3)], unfold prod.case)
      (intro refuses_after [OF keeps_reading] refuses_after [OF keeps_require] refuses_first [OF claim] case_prodI
        | simp only: case_prod_beta)+
qed

text \<open>
  C39 (safety). A signed request whose nonce the object still holds is refused, and leaves the job as it is, whichever of the
  four control requests it is: none of them is ever done twice while its nonce is kept.
\<close>

theorem replayed_request_refused:
  assumes "nonces_kept W" "envelope_of W q (jw_now W s) = Some v" "tget (ev_device_nonce v) (jb_nonces s) \<noteq> None"
  shows "\<exists>e. fst (job_route W q s) = Inl e \<and> jb_job (snd (job_route W q s)) = jb_job s"
proof -
  have used: "nonce_used (ev_device_nonce v) (jb_job s) s" using assms(3) by (simp add: nonce_used_def)
  have routes: "upload_heartbeat_route \<noteq> upload_intent_route" "upload_cancellation_route \<noteq> upload_intent_route"
    "upload_cancellation_route \<noteq> upload_heartbeat_route" "playback_token_route \<noteq> upload_intent_route"
    "playback_token_route \<noteq> upload_heartbeat_route" "playback_token_route \<noteq> upload_cancellation_route"
    by (simp_all add: upload_intent_route_def upload_heartbeat_route_def upload_cancellation_route_def playback_token_route_def)
  have post: "jq_verb q = ''POST''" using assms(2) by (simp add: envelope_of_def Let_def split: if_splits)
  from assms(2) consider
      b where "jq_path q = upload_intent_route" "parse_upload_intent_request (scope_at W (jw_now W s)) (jq_control q) = Inr (b, v)"
    | b where "jq_path q = upload_heartbeat_route" "parse_heartbeat_request (scope_at W (jw_now W s)) (jq_control q) = Inr (b, v)"
    | b where "jq_path q = upload_cancellation_route" "parse_cancellation_request (scope_at W (jw_now W s)) (jq_control q) = Inr (b, v)"
    | b where "jq_path q = playback_token_route" "parse_playback_token_request (scope_at W (jw_now W s)) (jq_control q) = Inr (b, v)"
    by (auto simp: envelope_of_def Let_def split: if_splits sum.splits)
  then show ?thesis
  proof cases
    case 1
    then show ?thesis using intent_refused [OF assms(1) 1(2) used] post by (auto simp: job_route_def Let_def nonce_used_def)
  next
    case 2
    then show ?thesis using heartbeat_refused [OF assms(1) 2(2) used] post routes by (auto simp: job_route_def Let_def nonce_used_def)
  next
    case 3
    then show ?thesis using cancellation_refused [OF assms(1) 3(2) used] post routes by (auto simp: job_route_def Let_def nonce_used_def)
  next
    case 4
    then show ?thesis using playback_refused [OF assms(1) 4(2) used] post routes by (auto simp: job_route_def Let_def nonce_used_def)
  qed
qed

section \<open>A replayed cancellation\<close>

text \<open>A cancellation of the sample job as a browser sends it, and a world that names its deployment.\<close>

definition sample_cancellation_body :: json where
  "sample_cancellation_body = JObj [(''job_id'', JStr ''j-1''), (''generation'', JNum 1)]"

definition sample_envelope :: json where
  "sample_envelope = JObj
     [(''domain'', JStr control_domain), (''version'', JStr ''2''), (''method'', JStr ''POST''), (''route'', JStr upload_cancellation_route),
      (''network'', JStr ''testnet''), (''contract_id'', JStr ''market.testnet''), (''account_id'', JStr ''creator.testnet''),
      (''resource'', JStr ''job:j-1:1''), (''session_public_key'', JStr sample_key), (''origin'', JStr ''https://youtick.net''),
      (''device_nonce'', JStr (replicate 43 CHR ''n'')), (''expires_at_ms'', JStr ''9000''), (''body_sha256'', JStr (replicate 64 CHR ''0''))]"

definition sample_cancellation :: json where
  "sample_cancellation = JObj [(''body'', sample_cancellation_body), (''envelope'', sample_envelope)]"

definition sample_cancellation_request :: job_request where
  "sample_cancellation_request =
     \<lparr>jq_verb = ''POST'', jq_path = upload_cancellation_route,
      jq_control = \<lparr>cq_origin = Some ''https://youtick.net'', cq_signature = Some sample_signature,
        cq_body = encode_text (json_text sample_cancellation)\<rparr>,
      jq_provider = None, jq_webhook_time = None\<rparr>"

definition sample_origin_url :: url_parts where
  "sample_origin_url =
     \<lparr>up_protocol = ''https:'', up_origin = ''https://youtick.net'', up_hostname = ''youtick.net'', up_port = [], up_username = [],
      up_password = [], up_pathname = ''/'', up_search = [], up_hash = []\<rparr>"

definition request_world :: "(nat \<times> nat) job_world" where
  "request_world = counting_world\<lparr>
     jw_env := unset_env\<lparr>be_near_network := Some ''testnet'', be_market_contract_id := Some ''market.testnet''\<rparr>,
     jw_allowed_origins := Some ''https://youtick.net'', jw_now := (\<lambda>_. 1000), jw_url := (\<lambda>_. Some sample_origin_url)\<rparr>"

lemma sample_cancellation_text: "seven_bit (json_text sample_cancellation)" "length (json_text sample_cancellation) \<le> max_control_body_bytes"
  by (simp_all add: sample_cancellation_def sample_cancellation_body_def sample_envelope_def control_domain_def upload_cancellation_route_def
      sample_key_def num_text_def show_int_def chr_code_def esc_chr_def max_control_body_bytes_def esc_text_plain plain_chr_def seven_bit_def list_all_iff show_nat.simps digit_chr_def)

lemma sample_cancellation_plain: "plain sample_cancellation"
  by (simp add: sample_cancellation_def sample_cancellation_body_def sample_envelope_def control_domain_def upload_cancellation_route_def
      sample_key_def good_plain plain_chr_def esc_chr_def chr_code_def index_key_def canonical_dec_def char_defs)

lemma sample_cancellation_read: "read_json_object (cq_body (jq_control sample_cancellation_request)) = Inr sample_cancellation"
  using sample_cancellation_text sample_cancellation_plain
  by (simp add: sample_cancellation_request_def read_json_object_def decode_ascii json_read_back length_encode_ascii)
    (simp add: sample_cancellation_def require_object_def)

lemma sample_cancellation_body_read: "parse_cancellation_body (Some sample_cancellation_body) = Inr (sample_cancellation_body, (''j-1'', 1))"
proof -
  have "sort (obj_keys sample_cancellation_body) = sort [''job_id'', ''generation'']"
    by (rule perm_sort) (simp add: sample_cancellation_body_def)
  then show ?thesis
    by (simp add: parse_cancellation_body_def Let_def sample_cancellation_body_def require_object_def require_exact_keys_def
        job_reference_ok_def generation_in_def has_str_def str_of_def safe_integer_def ident128_def repeated_def char_defs max_safe_def is_alnum_def)
qed

lemma sample_envelope_read: "parse_control_envelope (\<lambda>_. Some sample_origin_url) (Some sample_envelope) = Inr sample_envelope"
proof -
  have "sort (obj_keys sample_envelope) = sort envelope_fields"
    by (rule perm_sort) (simp add: sample_envelope_def envelope_fields_def)
  moreover have "nonce_text (replicate 43 CHR ''n'')" "bridge_session_key sample_key" "payment_account ''market.testnet''"
    "payment_account ''creator.testnet''" "decimal1 19 ''9000''" "\<not> line_break ''job:j-1:1''"
    by (simp_all add: nonce_text_def bridge_session_key_def sample_key_def payment_account_def Let_def line_break_def decimal1_def repeated_def
        list_all_iff is_b64url_def is_alnum_def is_base58_def char_defs)
  moreover have "is_allowed_control_origin (\<lambda>_. Some sample_origin_url) ''https://youtick.net''"
    by (simp add: is_allowed_control_origin_def is_https_origin_def sample_origin_url_def)
  ultimately show ?thesis
    by (simp add: parse_control_envelope_def Let_def sample_envelope_def require_object_def require_exact_keys_def has_str_def str_of_def
        string_of_def control_routes_def)
qed


lemma zero_digest: "concat (replicate n (hex_byte 0)) = replicate (2 * n) CHR ''0''"
  by (induction n) (simp_all add: hex_byte_def hex_chr_def)

definition nonce_taken_store :: "(nat \<times> nat) job_store" where
  "nonce_taken_store = (job_store_of (Some sample_job))\<lparr>jb_nonces := [(replicate 43 CHR ''n'', 9000)]\<rparr>"

lemma sample_cancellation_parsed:
  "parse_cancellation_request (scope_at request_world 1000) (jq_control sample_cancellation_request) = Inr ((''j-1'', 1), read_envelope sample_envelope)"
proof -
  have "sort (obj_keys sample_cancellation) = sort [''body'', ''envelope'']"
    by (rule perm_sort) (simp add: sample_cancellation_def)
  moreover have "binding_ok (scope_at request_world 1000) (jq_control sample_cancellation_request) sample_envelope b ''2'' upload_cancellation_route ''job:j-1:1''" for b
    by (simp add: binding_ok_def sample_envelope_def str_of_def scope_at_def request_world_def counting_world_def sha256_hex_def sample_bytes_def hex_of_def sample_cancellation_request_def zero_digest)
  moreover have "envelope_in_scope (scope_at request_world 1000) sample_envelope = Inr (read_envelope sample_envelope)"
    using sample_origin nine
    by (simp add: envelope_in_scope_def Let_def read_envelope_def sample_envelope_def str_of_def scope_at_def request_world_def counting_world_def control_max_future_ms_def dec_val_def digit_val_def char_defs)
  moreover have "job_resource ''j-1'' 1 = ''job:j-1:1''" by (simp add: job_resource_def show_int_def show_nat.simps digit_chr_def)
  ultimately show ?thesis
    using sample_cancellation_read sample_cancellation_body_read sample_envelope_read
    by (simp add: parse_cancellation_request_def parse_control_request_def require_exact_keys_def scope_at_def request_world_def)
      (simp add: sample_cancellation_def require_object_def)
qed

lemma sample_taken: "tget (ev_device_nonce (read_envelope sample_envelope)) (jb_nonces nonce_taken_store) \<noteq> None"
  by (simp add: nonce_taken_store_def tget_def read_envelope_def sample_envelope_def str_of_def)

lemma sample_envelope_known: "envelope_of request_world sample_cancellation_request 1000 = Some (read_envelope sample_envelope)"
  using sample_cancellation_parsed
  by (simp add: envelope_of_def Let_def sample_cancellation_request_def upload_intent_route_def upload_heartbeat_route_def
      upload_cancellation_route_def)

lemma replayed_request_refused_witness:
  "\<exists>e. fst (job_route request_world sample_cancellation_request nonce_taken_store) = Inl e
     \<and> jb_job (snd (job_route request_world sample_cancellation_request nonce_taken_store)) = Some sample_job"
proof -
  have "nonces_kept request_world" by (simp add: nonces_kept_def request_world_def counting_world_def)
  moreover have "envelope_of request_world sample_cancellation_request (jw_now request_world nonce_taken_store) = Some (read_envelope sample_envelope)"
    using sample_envelope_known by (simp add: request_world_def)
  ultimately show ?thesis
    using replayed_request_refused [OF _ _ sample_taken] by (simp add: nonce_taken_store_def job_store_of_def)
qed

text \<open>
  A playback token of the first protocol is signed only for a request whose signature verifies under its
  session key and whose nonce was never used, for the asset this object published, while the last reconciliation of it was
  good.
\<close>

lemma session_token_granted:
  assumes "issue_playback_token W q s = (Inr reply, t)"
  shows "\<exists>b v r rc. parse_playback_token_request (scope_at W (jw_now W s)) q = Inr (b, v)
    \<and> verify_control_signature (jw_crypto W) q v = Inr () \<and> tget (ev_device_nonce v) (jb_nonces s) = None
    \<and> jb_job s = Some r \<and> uj_state r = OnchainPublished \<and> uj_job_id r = bb_job_id b \<and> uj_generation r = bb_generation b
    \<and> uj_playback_id r = Some (bb_playback_id b) \<and> provider_kind r \<noteq> Stream
    \<and> jb_reconcile s = Some rc \<and> rc_status rc = Healthy"
proof -
  obtain b v where parsed: "parse_playback_token_request (scope_at W (jw_now W s)) q = Inr (b, v)"
    "verify_control_signature (jw_crypto W) q v = Inr ()"
    using assms by (auto simp: issue_playback_token_def signed_request_def bnd_returns job_now_def)
  note run = assms [unfolded issue_playback_token_def signed_request_known [where parse = parse_playback_token_request, OF parsed(1)]
      parsed(2) sum.case prod.case reading_bnd]
  have playable: "playable_job b (jb_job s) (jb_reconcile s)"
    using run by (auto simp: require_bnd split: if_splits)
  then obtain r rc where r: "jb_job s = Some r" "jb_reconcile s = Some rc" by (auto simp: playable_job_def split: option.splits)
  obtain u where "claim_nonce v s = (Inr (), u)" "provider_kind r \<noteq> Stream"
    using run playable r
    by (auto simp: require_bnd bnd_returns issue_session_token_def split: if_splits)
  then show ?thesis
    using parsed playable r
    by (auto simp: playable_job_def claim_nonce_def run_atomically run_bnd fresh_nonce_def split: sum.splits if_splits)
qed

end
