(* ===== verification/Spec2Isabelle.thy ===== *)
theory Spec2Isabelle
  imports JsonRoundTrip MarketLaws RelayerChecks RelayLaws PaymentLaws PaymentHooks BridgeLaws BridgeQuotes BridgeOperatorChecks BridgeJobChecks
begin

text \<open>
  The youtick workers that act on behalf of a user, with money or with media, and what makes them correct.

  \<^bold>\<open>The program.\<close> A Market contract on NEAR sells tickets for publications. Three Cloudflare Workers stand between a
  browser and that contract. The \<^emph>\<open>relayer\<close> (\<open>src/workers/relayer/src\<close>) owns a NEAR account: it funds new accounts,
  pays invites, asks an MPC network for derived keys and signatures, relays purchases and uploads a user approved
  with an access token, and links devices to tickets. The \<^emph>\<open>payment service\<close> (\<open>src/workers/payment-service/src\<close>)
  attests VAT, takes refund requests, sells tickets for card payments through a provider (Cleeng) and has an operator
  account that issues and voids those tickets. The \<^emph>\<open>media bridge\<close> (\<open>src/workers/livepeer-bridge/src\<close>) owns the
  uploads and plays a publication to the devices of a ticket. All read the chain through JSON-RPC views and trust nothing else a
  client says; each keeps its state in durable storage or D1 tables while many requests run interleaved.

  \<^bold>\<open>Shared theories.\<close>
  \<^item> \<open>Prelude\<close>: computations with state and errors (\<open>('s, 'a) act\<close>, \<open>bnd\<close>, \<open>catch\<close>, \<open>atomically\<close>), their weakest
    preconditions (\<open>wp\<close>, \<open>wp_rules\<close>) and invariants (\<open>keeps\<close>, \<open>keeps_rules\<close>), tables, and the locale \<open>key_value\<close> with its
    interpretation on them.
  \<^item> \<open>Text\<close>, \<open>Json\<close>, \<open>JsonRoundTrip\<close>, \<open>Base64\<close>, \<open>Encoding\<close>, \<open>Coerce\<close>: what the source uses of JavaScript: character classes
    of its regular expressions, decimal texts, doubles, \<open>JSON.parse\<close> and \<open>JSON.stringify\<close>, \<open>atob\<close> and \<open>btoa\<close>, UTF-8, and
    conversions. The round trips are proved here.
  \<^item> \<open>Samples\<close>: concrete values at which properties are applied.

  \<^bold>\<open>Relayer.\<close> \<open>NearRpc\<close> is \<open>near.ts\<close>, \<open>RelayerEnv\<close> \<open>env.ts\<close>, \<open>RelayerJwt\<close> \<open>jwt.ts\<close>, \<open>MarketChecks\<close> \<open>market.ts\<close>, \<open>Delegates\<close>
  \<open>purchase.ts\<close> and \<open>upload.ts\<close>, \<open>RelayerFront\<close> \<open>index.ts\<close>. The durable object of \<open>control.ts\<close> is split by what it does:
  \<open>RelayerStore\<close> (records, keys and storage; \<open>relayer_state\<close> has one table per key prefix), \<open>Outbox\<close> (\<open>submit\<close>, \<open>reconcile\<close>,
  \<open>signAndBroadcast\<close>), \<open>Accounts\<close> (accounts, CKD requests, invites), \<open>Relays\<close> (\<open>relayDelegate\<close>, \<open>advancePurchase\<close>),
  \<open>DeviceLinks\<close>, and \<open>RelayerControl\<close> (the dispatch and the alarm).
  \<^item> \<open>MarketLaws\<close>: the checks accept exactly the requests the Market would accept; the fee formula; request identifiers.
  \<^item> \<open>RelayerChecks\<close>: which tokens and approvals the front Worker lets through, that it always answers, and what its
    chain client concludes from a reply.
  \<^item> \<open>RelaySteps\<close>: the store as a state machine, \<open>relay_step\<close>, with a ghost set of all transactions ever signed; the
    invariants of its steps. \<open>RelayRuns\<close>, \<open>RelayHandlers\<close> and \<open>RelayJobs\<close> show, in the locale \<open>quiet_relayer\<close>, that every
    operation and the alarm make only such steps while everything they wait for may make any of them: the steps of
    other requests. \<open>RelayWorld\<close> interprets the locale on the model's own RPC client, and \<open>RelayLaws\<close> states the
    refinement and what follows for any run: nonces, limits, promises, signatures, finished records.

  \<^bold>\<open>Payment service.\<close> \<open>Vat\<close> is \<open>vat.ts\<close>, \<open>PayMarket\<close> \<open>market.ts\<close>, \<open>PayEnv\<close> \<open>env.ts\<close>, \<open>CardBook\<close> \<open>card-events.ts\<close> with the D1
  tables and their unique indexes (\<open>pay_state\<close>), \<open>CardOrders\<close> \<open>card-orders.ts\<close>, \<open>CardOperator\<close> \<open>card-operator.ts\<close> and
  \<open>card-operator-object.ts\<close>, \<open>Cleeng\<close> \<open>cleeng.ts\<close> and \<open>card-provider.ts\<close>, \<open>Funnel\<close> \<open>funnel.ts\<close>, \<open>Refunds\<close> \<open>refunds.ts\<close>,
  \<open>CardRoutes\<close> \<open>card-routes.ts\<close>, \<open>PayFront\<close> \<open>index.ts\<close>.
  \<^item> \<open>BookSteps\<close>, \<open>BookRuns\<close>, \<open>PaymentRuns\<close>, \<open>PaymentWorld\<close>, \<open>PaymentLaws\<close>: as for the relayer, the order book, ledger
    and refund inbox as a state machine \<open>pay_step\<close>, the locales \<open>quiet_front\<close> and \<open>quiet_operator\<close> with their
    interpretations, the refinement and the invariants of any run.
  \<^item> \<open>PaymentChecks\<close>: redelivered events, hashes stored before a transaction is sent, token comparison.
    \<open>PaymentAmounts\<close>: webhook amounts are read exactly. \<open>PaymentGuards\<close>: what an opened order, a signed order, a refund
    request, a decision and an attestation rest on. \<open>PaymentHooks\<close>: webhooks.

  \<^bold>\<open>Media bridge.\<close> \<open>BridgeBase\<close> is \<open>base58.ts\<close>, \<open>durable-object-capacity.ts\<close>, the two archives and \<open>provider-webhook.ts\<close>;
  \<open>BridgePlayback\<close> is \<open>playback-v3.ts\<close>, the catalogs of \<open>media-provider.ts\<close> and the route \<open>/v3/playback-tokens\<close> of \<open>index.ts\<close>.
  \<^item> \<open>BridgeLaws\<close>: base58 texts name their bytes, the record limit, the authorization cache, who gets a playback token.
  \<open>BridgePayments\<close> is \<open>payments.ts\<close>.
  \<^item> \<open>BridgeQuotes\<close>: how many requests a rate object grants, the upload fee, what a payment quote rests on.
  \<open>BridgeEnv\<close> holds the settings of \<open>index.ts\<close> and the checks of them, \<open>BridgeChain\<close> its views of the chain and the upload
  policy, \<open>BridgeAdmission\<close> and \<open>BridgeAdmissionOps\<close> the admission object (\<open>admission_store\<close>, the routes \<open>/internal/admission/*\<close>).
  \<^item> \<open>BridgeAdmissionLaws\<close>: the locales \<open>admission_law\<close> and \<open>reopen_law\<close> (what each operation does to the record is kept by
    any run), interpreted for the quotas and for a closed circuit; \<open>BridgeAdmissionChecks\<close>: the properties, the
    operator's reopen and the alarm.
  \<^item> \<open>BridgeOperator\<close> and \<open>BridgeOperatorOps\<close>: the operator object (\<open>operator_store\<close>, the outbox of \<open>processOperatorOutbox\<close>, the
    routes \<open>/internal/finalize\<close>, \<open>mark-watched\<close>, \<open>release-expired\<close>, \<open>suspend-sales\<close> and \<open>operator-outbox/*\<close>, the archive scan of
    its alarm); \<open>BridgeOperatorLaws\<close>: the locale \<open>settlement\<close> (a question to the chain that leaves the outbox alone),
    interpreted for the four requests, and nonces over any run; \<open>BridgeRelease\<close>: the scheduled release of escrows;
    \<open>BridgeOperatorChecks\<close>: the properties.
  \<^item> \<open>BridgeControl\<close> (signed control requests), \<open>BridgeJob\<close> (the upload job, its states and its store \<open>job_store\<close>),
    \<open>BridgeJobSteps\<close> (leases, the end of a job, finalization, verification, reconciliation, the archive),
    \<open>BridgeJobEvents\<close> (\<open>handleProviderEvent\<close>, the polls and the alarm), \<open>BridgeJobOps\<close> (\<open>reserveUploadIntent\<close>) and
    \<open>BridgeJobRoutes\<close> (the other requests and \<open>fetch\<close>): the upload job object. The adapters of the two media services, the
    admission object and the operator object are asked through parameters (\<open>job_world\<close>).
  \<^item> \<open>Tracks\<close>: the locale \<open>tracking\<close>, which follows one part of the state through a computation along a preorder.
    \<open>BridgeJobLaws\<close> says how a job may change (\<open>advances\<close>, \<open>job_moves\<close>) and interprets the locale for it; \<open>BridgeJobStill\<close>,
    \<open>BridgeJobMoves\<close> and \<open>BridgeJobRuns\<close> show it of every step, request and alarm; \<open>BridgeJobChecks\<close>: the properties. Runs
    (\<open>job_run\<close>) are of requests and alarms one after the other, which the public deployments arrange by a queue;
    \<open>heartbeat_stores_what_it_read\<close> shows what the others rely on.
  \<^item> \<open>Wire\<close>: JSON that is sent and read back, at which the routes are applied.

  \<^bold>\<open>How the code is modelled.\<close> An asynchronous function is a computation from a state to an error text or a value and the
  next state; a thrown error keeps the writes made before it, except in a storage transaction (\<open>atomically\<close>). Storage
  reads and writes are immediate; every \<open>await\<close> of something else (\<open>fetch\<close>, a lock, a sleep, a limiter) is a parameter
  that may change the whole state, so a property of any run holds for any interleaving at those points. Numbers of
  the source are \<open>int\<close> or \<open>rat\<close>, rounded where a JavaScript number would be (\<open>double_of_nat\<close>), bytes are \<open>8 word\<close>. Hashes,
  signatures, base58, HMAC (\<open>crypto\<close>) and the Borsh encoding and signing of \<open>near-api-js\<close> (\<open>codec\<close>, \<open>near_signer\<close>) are
  parameters; a property that needs something of them names it as a hypothesis (\<open>hash_names_key\<close>).

  \<^bold>\<open>Bounds and fuel.\<close> \<open>JSON.parse\<close> runs with the length of the text as fuel, which every reader uses at most once per
  character. \<open>advancePurchase\<close> may call itself; two units of fuel satisfy its recursion and more change nothing
  (\<open>advance_purchase_terminates\<close>). Every other loop is a recursion on a list or on a fixed number of attempts.

  \<^bold>\<open>Not modelled.\<close> The adapters of the two media services, cover images, creator fee quotes and sponsored uploads of
  the media bridge, and the playback protocol of \<open>/v2/playback-tokens\<close>; the web application and the read model;
  the Rust contracts, which the workers see only through views and transactions; release scripts, which are I/O
  around the services; logging, and the headers of replies other than CORS.
\<close>

section \<open>Messages a ticket key signs\<close>








end
